(* ===== verification/Prelude.thy ===== *)
theory Prelude
  imports Complex_Main "HOL-Library.Word" "HOL-Library.Multiset" "HOL-Library.Sublist"
begin

text \<open>
  Shared vocabulary of the development: JavaScript errors as values, the partial
  reads of JavaScript arrays, decimal digits, and the generic list lemmas the
  components have in common.  A method of the SDK that can throw is a function
  into \<open>'a js\<close>, where \<open>Inl e\<close> is the thrown error.
\<close>

named_theorems js_simps \<open>unfolding rules for operations on JavaScript values\<close>

subsection \<open>Errors as values\<close>

text \<open>
  One constructor per \<open>throw\<close> of the modelled code; the message text is in the
  source line named by the model of the throwing method.
\<close>

datatype (plugins only: code) js_error =
    ListLocked
  | MinBackoffNull
  | MinBackoffTooLarge
  | MaxBackoffNull
  | MaxBackoffTooSmall
  | NoHealthyNode
  | NodeNotRecognized
  | TimeoutExceeded
  | GrpcDeadlineExceeded
  | MaxAttemptsReached
  | TxImmutable
  | TxNotFrozen
  | TxSignOnDemand
  | TxNotOneNode
  | TxIdMissing
  | NodeIdMissing
  | NoOperator
  | BodiesMismatch
  | TooManyChunks nat nat
  | ChunkedSchedule
  | BadEntityId
  | NegativeEntityId
  | BadSolidityAddress
  | BadChecksum string string
  | NoLedgerId
  | AliasChecksum
  | DecimalsMismatch
  | BadAddress
  | BadAbiType
  | TypeErr
  | PrecheckError nat
  | ReceiptError nat
  | PaymentIdMissing
  | MaxQueryPayment int int
  | MirrorNotSupported
  | GrpcError nat string
  | BadGrpcStatus nat
  | HttpError nat
  | StatusError nat
  | BadLedgerId
  | BadTransactionId
  | BadKey
  | EmptyArray
  | OutOfRange
  | LibraryError string
  | BadStatus nat
  | KeyExists
  | NotSupported
  | BodyDataMissing
  | NoTransactionInBytes
  | NoClient
  | UnknownUnit
  | BadAmountText
  | FractionalTinybars
  | BadEvmAddress
  | ThresholdFileKey
  | BadEthereumData
  | ChunkMismatch
  | MessageMissing
  | BadAbiValue

type_synonym 'a js = "js_error + 'a"

definition js_bind :: "'a js \<Rightarrow> ('a \<Rightarrow> 'b js) \<Rightarrow> 'b js" where
  "js_bind m f = (case m of Inl e \<Rightarrow> Inl e | Inr x \<Rightarrow> f x)"

lemma js_bind_Inr [simp, js_simps]: "js_bind (Inr x) f = f x"
  by (simp add: js_bind_def)

lemma js_bind_Inl [simp, js_simps]: "js_bind (Inl e) f = Inl e"
  by (simp add: js_bind_def)

lemma js_bind_eq_Inr:
  "js_bind m f = Inr y \<longleftrightarrow> (\<exists>x. m = Inr x \<and> f x = Inr y)"
  by (cases m) auto

text \<open>A loop over a list that stops at the first exception.\<close>

fun js_map :: "('a \<Rightarrow> 'b js) \<Rightarrow> 'a list \<Rightarrow> 'b list js" where
  "js_map f [] = Inr []"
| "js_map f (x # xs) = js_bind (f x) (\<lambda>y. js_bind (js_map f xs) (\<lambda>ys. Inr (y # ys)))"

lemma js_map_Inr:
  "js_map f xs = Inr ys \<Longrightarrow> length ys = length xs \<and> (\<forall>k < length xs. f (xs ! k) = Inr (ys ! k))"
proof (induction xs arbitrary: ys)
  case (Cons x xs)
  then obtain z zs where z: "f x = Inr z" "js_map f xs = Inr zs" "ys = z # zs"
    by (auto simp: js_bind_eq_Inr)
  then show ?case using Cons.IH [OF z(2)] by (auto simp: nth_Cons split: nat.split)
qed simp

lemma js_map_total: "(\<And>x. x \<in> set xs \<Longrightarrow> f x = Inr (g x)) \<Longrightarrow> js_map f xs = Inr (map g xs)"
  by (induction xs) simp_all

lemma js_map_map: "js_map f (map g xs) = js_map (\<lambda>x. f (g x)) xs"
  by (induction xs) simp_all

text \<open>A conversion of an optional value, and a call made only when its argument is given.\<close>

definition js_opt :: "('a \<Rightarrow> 'b js) \<Rightarrow> 'a option \<Rightarrow> 'b option js" where
  "js_opt f x = (case x of None \<Rightarrow> Inr None | Some a \<Rightarrow> js_bind (f a) (\<lambda>b. Inr (Some b)))"

lemma js_opt_simps [simp, js_simps]:
  "js_opt f None = Inr None" "js_opt f (Some a) = js_bind (f a) (\<lambda>b. Inr (Some b))"
  by (simp_all add: js_opt_def)

definition when_given :: "('a \<Rightarrow> 'q \<Rightarrow> 'q js) \<Rightarrow> 'a option \<Rightarrow> 'q \<Rightarrow> 'q js" where
  "when_given f x q = (case x of None \<Rightarrow> Inr q | Some a \<Rightarrow> f a q)"

lemma when_given_simps [simp, js_simps]: "when_given f None q = Inr q" "when_given f (Some a) q = f a q"
  by (simp_all add: when_given_def)

definition js_ok :: "'a js \<Rightarrow> bool" where
  "js_ok m = (case m of Inl _ \<Rightarrow> False | Inr _ \<Rightarrow> True)"

lemma js_ok_simps [simp, js_simps]: "js_ok (Inr x)" "\<not> js_ok (Inl e)"
  by (simp_all add: js_ok_def)

subsection \<open>Array reads\<close>

text \<open>\<open>xs[i]\<close> of JavaScript: \<open>None\<close> is \<open>undefined\<close>.\<close>

definition js_nth :: "'a list \<Rightarrow> nat \<Rightarrow> 'a option" where
  "js_nth xs i = (if i < length xs then Some (xs ! i) else None)"

lemma js_nth_Some [simp, js_simps]: "i < length xs \<Longrightarrow> js_nth xs i = Some (xs ! i)"
  by (simp add: js_nth_def)

lemma js_nth_None [simp, js_simps]: "length xs \<le> i \<Longrightarrow> js_nth xs i = None"
  by (simp add: js_nth_def)

lemma js_nth_eq_Some: "js_nth xs i = Some x \<longleftrightarrow> i < length xs \<and> xs ! i = x"
  by (simp add: js_nth_def)

text \<open>
  \<open>xs[i] = x\<close> of JavaScript: writing past the end extends the array, the gap
  being filled with holes (\<open>hole\<close> is what a hole reads as).
\<close>

definition js_upd :: "'a \<Rightarrow> 'a list \<Rightarrow> nat \<Rightarrow> 'a \<Rightarrow> 'a list" where
  "js_upd hole xs i x =
     (if i < length xs then xs[i := x]
      else xs @ replicate (i - length xs) hole @ [x])"

lemma length_js_upd: "length (js_upd hole xs i x) = max (length xs) (Suc i)"
  by (simp add: js_upd_def)

lemma js_upd_same: "js_nth (js_upd hole xs i x) i = Some x"
  by (simp add: js_nth_def js_upd_def nth_append)

lemma js_upd_other:
  "j < length xs \<Longrightarrow> j \<noteq> i \<Longrightarrow> js_nth (js_upd hole xs i x) j = js_nth xs j"
  by (auto simp: js_nth_def js_upd_def nth_append)

subsection \<open>\<open>Math.random\<close>\<close>

text \<open>
  \<open>Math.floor(Math.random() * n)\<close>; the result of \<open>Math.random()\<close> is an explicit
  input \<open>r\<close> with \<open>0 \<le> r < 1\<close>.
\<close>

definition random_index :: "rat \<Rightarrow> nat \<Rightarrow> nat" where
  "random_index r n = nat \<lfloor>r * of_nat n\<rfloor>"

definition is_random :: "rat \<Rightarrow> bool" where
  "is_random r \<longleftrightarrow> 0 \<le> r \<and> r < 1"

lemma random_index_less [intro]:
  assumes "is_random r" "0 < n"
  shows "random_index r n < n"
proof -
  have "r * of_nat n < of_nat n" using assms by (simp add: is_random_def)
  then have "\<lfloor>r * of_nat n\<rfloor> < int n" by (simp add: floor_less_iff)
  then show ?thesis using assms(2) by (simp add: random_index_def)
qed

subsection \<open>Generic list lemmas\<close>

lemma distinct_remove1_length:
  "x \<in> set xs \<Longrightarrow> Suc (length (remove1 x xs)) = length xs"
  using length_pos_if_in_set [of x xs] by (simp add: length_remove1)

lemma concat_replicate_length:
  "\<forall>xs \<in> set xss. length xs = n \<Longrightarrow> length (concat xss) = n * length xss"
  by (induction xss) auto

text \<open>The element at row \<open>i\<close>, column \<open>j\<close> of rows laid out one after another.\<close>

lemma nth_concat_rows:
  assumes "\<forall>xs \<in> set xss. length xs = n" "i < length xss" "j < n"
  shows "concat xss ! (i * n + j) = xss ! i ! j"
  using assms
proof (induction xss arbitrary: i)
  case Nil
  then show ?case by simp
next
  case (Cons xs xss)
  show ?case
  proof (cases i)
    case 0
    with Cons.prems show ?thesis by (simp add: nth_append)
  next
    case (Suc i')
    with Cons.prems have "concat xss ! (i' * n + j) = xss ! i' ! j"
      by (intro Cons.IH) auto
    with Suc Cons.prems show ?thesis by (simp add: nth_append)
  qed
qed

text \<open>An element of an append is in the first or in the second list.\<close>

lemma append_split_at:
  assumes "as @ bs = xs @ y # ys"
  obtains (left) zs where "as = xs @ y # zs" "ys = zs @ bs"
  | (right) zs where "xs = as @ zs" "bs = zs @ y # ys"
proof -
  from assms obtain zs where "as = xs @ zs \<and> zs @ bs = y # ys \<or> as @ zs = xs \<and> bs = zs @ y # ys"
    unfolding append_eq_append_conv2 by blast
  then show ?thesis
  proof (elim disjE conjE)
    assume "as = xs @ zs" "zs @ bs = y # ys"
    then show ?thesis using left [of "tl zs"] right [of "[]"] by (cases zs) auto
  next
    assume "as @ zs = xs" "bs = zs @ y # ys"
    then show ?thesis using right [of zs] by simp
  qed
qed

lemma mset_rotate [simp]: "mset (rotate n xs) = mset xs"
  by (metis append_take_drop_id mset_append rotate_drop_take union_commute)

text \<open>Cutting a list in pieces of \<open>n\<close> and joining them again gives the list back.\<close>

lemma concat_pieces:
  "concat (map (\<lambda>k. take n (drop (k * n) xs)) [0..<m]) = take (m * n) xs"
proof (induction m)
  case 0
  show ?case by simp
next
  case (Suc m)
  have "take (m * n) xs @ take n (drop (m * n) xs) = take (m * n + n) xs"
    by (simp add: take_add)
  with Suc show ?case by (simp add: add.commute)
qed

text \<open>Two lists with the same elements, both strictly increasing under \<open>f\<close>, are equal.\<close>

lemma strict_sorted_unique:
  fixes f :: "'a \<Rightarrow> 'b::linorder"
  assumes "mset xs = mset ys"
    and "sorted_wrt (<) (map f xs)" and "sorted_wrt (<) (map f ys)"
  shows "xs = ys"
  using assms
proof (induction xs arbitrary: ys)
  case Nil
  then show ?case by simp
next
  case (Cons x xs)
  from Cons.prems(1) obtain y ys' where ys: "ys = y # ys'"
    by (cases ys) auto
  have "x = y"
  proof (rule ccontr)
    assume "x \<noteq> y"
    moreover have "set (x # xs) = set (y # ys')"
      using Cons.prems(1) ys mset_eq_setD by blast
    ultimately have "y \<in> set xs" "x \<in> set ys'" by auto
    then have "f x < f y" "f y < f x"
      using Cons.prems(2,3) ys by auto
    then show False by simp
  qed
  with Cons ys show ?case by auto
qed

end
