(* ===== verification/JsValues.thy ===== *)
theory JsValues
  imports Prelude
begin

text \<open>
  What the components use of JavaScript's strings and arrays: decimal numerals
  (\<open>Number.prototype.toString\<close>, \<open>parseInt\<close> on digit strings), byte and hex
  strings, \<open>padStart\<close>, and \<open>Array.prototype.sort\<close> with a comparison function.
  Integers are exact; the code's numbers agree below \<open>2 ^ 53\<close>.
\<close>

type_synonym bytes = "8 word list"

subsection \<open>Decimal numerals\<close>

definition digit_char :: "nat \<Rightarrow> char" where
  "digit_char d = ''0123456789'' ! d"

definition char_code :: "char \<Rightarrow> nat" where
  "char_code c = of_char c"

definition is_digit :: "char \<Rightarrow> bool" where
  "is_digit c \<longleftrightarrow> 48 \<le> char_code c \<and> char_code c \<le> 57"

definition digit_val :: "char \<Rightarrow> nat" where
  "digit_val c = char_code c - 48"

fun dec :: "nat \<Rightarrow> string" where
  "dec n = (if n < 10 then [digit_char n] else dec (n div 10) @ [digit_char (n mod 10)])"

declare dec.simps [simp del]

definition parse_dec :: "string \<Rightarrow> nat" where
  "parse_dec s = foldl (\<lambda>a c. 10 * a + digit_val c) 0 s"

lemma char_code_inject: "char_code c = char_code d \<longleftrightarrow> c = d"
  by (simp add: char_code_def)

lemma char_code_digit [simp]:
  assumes "d < 10"
  shows "char_code (digit_char d) = 48 + d"
proof -
  from assms have "d \<in> {0, 1, 2, 3, 4, 5, 6, 7, 8, 9}" by auto
  then show ?thesis by (auto simp: char_code_def digit_char_def)
qed

lemma is_digit_digit_char [simp]: "d < 10 \<Longrightarrow> is_digit (digit_char d)"
  by (simp add: is_digit_def)

lemma digit_val_digit_char [simp]: "d < 10 \<Longrightarrow> digit_val (digit_char d) = d"
  by (simp add: digit_val_def)

lemma digit_val_less: "is_digit c \<Longrightarrow> digit_val c < 10"
  by (auto simp: is_digit_def digit_val_def)

lemma digit_char_digit_val: "is_digit c \<Longrightarrow> digit_char (digit_val c) = c"
  by (subst char_code_inject [symmetric])
     (use digit_val_less [of c] in \<open>auto simp: is_digit_def digit_val_def\<close>)

lemma parse_dec_Nil [simp]: "parse_dec [] = 0"
  by (simp add: parse_dec_def)

lemma parse_dec_snoc [simp]: "parse_dec (s @ [c]) = 10 * parse_dec s + digit_val c"
  by (simp add: parse_dec_def)

lemma dec_not_Nil [simp]: "dec n \<noteq> []"
  by (subst dec.simps) simp

lemma dec_digits: "list_all is_digit (dec n)"
proof (induction n rule: dec.induct)
  case (1 n)
  then show ?case by (subst dec.simps) auto
qed

lemma dec_digits_set [simp]: "c \<in> set (dec n) \<Longrightarrow> is_digit c"
  using dec_digits [of n] by (simp add: list_all_iff)

lemma parse_dec_dec [simp]: "parse_dec (dec n) = n"
proof (induction n rule: dec.induct)
  case (1 n)
  show ?case
  proof (cases "n < 10")
    case True
    then show ?thesis by (subst dec.simps) (simp add: parse_dec_def)
  next
    case False
    with 1 show ?thesis by (subst dec.simps) simp
  qed
qed

lemma dec_inj: "dec m = dec n \<Longrightarrow> m = n"
  by (metis parse_dec_dec)

lemma length_dec_bound: "n < 10 ^ k \<Longrightarrow> 0 < k \<Longrightarrow> length (dec n) \<le> k"
proof (induction n arbitrary: k rule: dec.induct)
  case (1 n)
  show ?case
  proof (cases "n < 10")
    case True
    with 1 show ?thesis by (subst dec.simps) simp
  next
    case False
    with 1 obtain k' where k: "k = Suc k'" "0 < k'"
      by (cases k; cases "k - 1") auto
    with 1 False have "n div 10 < 10 ^ k'" by (simp add: less_mult_imp_div_less mult.commute)
    with 1 False k have "length (dec (n div 10)) \<le> k'" by blast
    with False k show ?thesis by (subst dec.simps) simp
  qed
qed

definition pad_start :: "nat \<Rightarrow> char \<Rightarrow> string \<Rightarrow> string" where
  "pad_start n c s = replicate (n - length s) c @ s"

lemma length_pad_start: "length s \<le> n \<Longrightarrow> length (pad_start n c s) = n"
  by (simp add: pad_start_def)

lemma parse_dec_append_zeros [simp]:
  "parse_dec (replicate k (digit_char 0) @ s) = parse_dec s"
proof -
  have "foldl (\<lambda>a c. 10 * a + digit_val c) 0 (replicate k (digit_char 0)) = 0"
    by (induction k) simp_all
  then show ?thesis by (simp add: parse_dec_def)
qed

lemma parse_dec_pad_start: "parse_dec (pad_start n (digit_char 0) s) = parse_dec s"
  by (simp add: pad_start_def)

subsection \<open>Splitting strings\<close>

text \<open>\<open>s.split(c)\<close> for a one-character separator.\<close>

fun js_split :: "char \<Rightarrow> string \<Rightarrow> string list" where
  "js_split c [] = [[]]"
| "js_split c (x # s) =
     (if x = c then [] # js_split c s
      else (case js_split c s of w # ws \<Rightarrow> (x # w) # ws | [] \<Rightarrow> [[x]]))"

lemma js_split_not_Nil [simp]: "js_split c s \<noteq> []"
  by (induction s) (auto split: list.splits)

lemma js_split_absent: "c \<notin> set s \<Longrightarrow> js_split c s = [s]"
  by (induction s) auto

lemma js_split_append: "c \<notin> set s \<Longrightarrow> js_split c (s @ c # t) = s # js_split c t"
  by (induction s) auto

subsection \<open>Comparison functions and sorting\<close>

text \<open>
  \<open>Array.prototype.sort(cmp)\<close> is stable; with a consistent comparison function its
  result is the stable insertion sort.  Where the comparison function of the code is
  not consistent, the order is up to the engine, and only the permutation is used.
\<close>

fun js_insort :: "('a \<Rightarrow> 'a \<Rightarrow> int) \<Rightarrow> 'a \<Rightarrow> 'a list \<Rightarrow> 'a list" where
  "js_insort cmp x [] = [x]"
| "js_insort cmp x (y # ys) =
     (if cmp x y \<le> 0 then x # y # ys else y # js_insort cmp x ys)"

fun js_sort :: "('a \<Rightarrow> 'a \<Rightarrow> int) \<Rightarrow> 'a list \<Rightarrow> 'a list" where
  "js_sort cmp [] = []"
| "js_sort cmp (x # xs) = js_insort cmp x (js_sort cmp xs)"

lemma mset_js_insort [simp]: "mset (js_insort cmp x xs) = add_mset x (mset xs)"
  by (induction xs) auto

lemma mset_js_sort [simp]: "mset (js_sort cmp xs) = mset xs"
  by (induction xs) auto

lemma set_js_insort [simp]: "set (js_insort cmp x xs) = insert x (set xs)"
  by (induction xs) auto

lemma set_js_sort [simp]: "set (js_sort cmp xs) = set xs"
  by (induction xs) auto

lemma length_js_sort [simp]: "length (js_sort cmp xs) = length xs"
  by (metis mset_js_sort size_mset)

text \<open>The contract of a comparison function: a total preorder given by signs.\<close>

locale comparator =
  fixes cmp :: "'a \<Rightarrow> 'a \<Rightarrow> int"
    and dom :: "'a \<Rightarrow> bool"
  assumes antisym: "dom a \<Longrightarrow> dom b \<Longrightarrow> sgn (cmp a b) = - sgn (cmp b a)"
    and trans: "dom a \<Longrightarrow> dom b \<Longrightarrow> dom c \<Longrightarrow> cmp a b \<le> 0 \<Longrightarrow> cmp b c \<le> 0 \<Longrightarrow> cmp a c \<le> 0"
begin

lemma refl: "dom a \<Longrightarrow> cmp a a = 0"
  using antisym [of a a] by (simp add: sgn_if split: if_splits)

lemma total: "dom a \<Longrightarrow> dom b \<Longrightarrow> cmp a b \<le> 0 \<or> cmp b a \<le> 0"
  using antisym [of a b] by (auto simp: sgn_if split: if_splits)

lemma zero_sym: "dom a \<Longrightarrow> dom b \<Longrightarrow> cmp a b = 0 \<Longrightarrow> cmp b a = 0"
  using antisym [of a b] by (auto simp: sgn_if split: if_splits)

lemma sorted_insort:
  assumes "dom x" "\<forall>y \<in> set xs. dom y" "sorted_wrt (\<lambda>a b. cmp a b \<le> 0) xs"
  shows "sorted_wrt (\<lambda>a b. cmp a b \<le> 0) (js_insort cmp x xs)"
  using assms
proof (induction xs)
  case Nil
  then show ?case by simp
next
  case (Cons y ys)
  show ?case
  proof (cases "cmp x y \<le> 0")
    case True
    then have "cmp x z \<le> 0" if "z \<in> set ys" for z
      using that Cons.prems trans [of x y z] by simp
    with True Cons.prems show ?thesis by simp
  next
    case False
    with Cons.prems have "cmp y x \<le> 0" using total [of x y] by auto
    with False Cons show ?thesis by auto
  qed
qed

lemma sorted_sort:
  "\<forall>y \<in> set xs. dom y \<Longrightarrow> sorted_wrt (\<lambda>a b. cmp a b \<le> 0) (js_sort cmp xs)"
  by (induction xs) (auto intro: sorted_insort)

end

text \<open>Comparing two integers, as \<open>Long.compare\<close> does.\<close>

definition int_compare :: "int \<Rightarrow> int \<Rightarrow> int" where
  "int_compare a b = (if a = b then 0 else if a < b then - 1 else 1)"

text \<open>Compare by one key and, on a tie, by the next comparison.\<close>

definition then_compare :: "('a \<Rightarrow> 'a \<Rightarrow> int) \<Rightarrow> ('a \<Rightarrow> 'a \<Rightarrow> int) \<Rightarrow> 'a \<Rightarrow> 'a \<Rightarrow> int" where
  "then_compare f g a b = (let c = f a b in if c \<noteq> 0 then c else g a b)"

lemma comparator_key: "comparator (\<lambda>a b. int_compare (f a) (f b)) P"
  by unfold_locales (auto simp: int_compare_def split: if_splits)

lemma comparator_then:
  assumes F: "comparator f P" and G: "comparator g P"
  shows "comparator (then_compare f g) P"
proof (rule comparator.intro)
  fix a b assume ab: "P a" "P b"
  show "sgn (then_compare f g a b) = - sgn (then_compare f g b a)"
    using comparator.antisym [OF F ab] comparator.antisym [OF G ab]
    by (auto simp: then_compare_def Let_def sgn_if split: if_splits)
next
  fix a b c
  assume abc: "P a" "P b" "P c"
    and ab: "then_compare f g a b \<le> 0" and bc: "then_compare f g b c \<le> 0"
  have f: "f a b \<le> 0" "f b c \<le> 0"
    using ab bc by (auto simp: then_compare_def Let_def split: if_splits)
  then have fac: "f a c \<le> 0"
    using comparator.trans [OF F abc] by simp
  show "then_compare f g a c \<le> 0"
  proof (cases "f a c = 0")
    case True
    then have "f c a = 0" using comparator.zero_sym [OF F abc(1,3)] by simp
    then have "f b a \<le> 0" "f c b \<le> 0"
      using comparator.trans [OF F abc(2,3,1)] comparator.trans [OF F abc(3,1,2)] f by simp_all
    then have "f a b = 0" "f b c = 0"
      using f comparator.antisym [OF F abc(1,2)] comparator.antisym [OF F abc(2,3)]
      by (auto simp: sgn_if split: if_splits)
    then have "g a b \<le> 0" "g b c \<le> 0"
      using ab bc by (simp_all add: then_compare_def)
    then show ?thesis
      using True comparator.trans [OF G abc] by (simp add: then_compare_def)
  next
    case False
    with fac show ?thesis by (simp add: then_compare_def)
  qed
qed

subsection \<open>Shuffling\<close>

text \<open>
  \<open>shuffle\<close> of \<open>util.js\<close>.  The value of \<open>Math.random()\<close> drawn when \<open>c + 1\<close> elements
  remain is the input \<open>rnd c\<close>.
\<close>

fun shuffle_loop :: "nat \<Rightarrow> (nat \<Rightarrow> rat) \<Rightarrow> 'a list \<Rightarrow> 'a list" where
  "shuffle_loop 0 rnd xs = xs"
| "shuffle_loop (Suc c) rnd xs =
     (let i = random_index (rnd c) (Suc c)
      in shuffle_loop c rnd (xs[c := xs ! i, i := xs ! c]))"

definition js_shuffle :: "(nat \<Rightarrow> rat) \<Rightarrow> 'a list \<Rightarrow> 'a list" where
  "js_shuffle rnd xs = shuffle_loop (length xs) rnd xs"

lemma mset_shuffle_loop:
  "c \<le> length xs \<Longrightarrow> (\<And>k. is_random (rnd k)) \<Longrightarrow> mset (shuffle_loop c rnd xs) = mset xs"
proof (induction c arbitrary: xs)
  case 0
  then show ?case by simp
next
  case (Suc c)
  let ?i = "random_index (rnd c) (Suc c)"
  have i: "?i < Suc c" using Suc.prems(2) by (intro random_index_less) auto
  have "mset (shuffle_loop c rnd (xs[c := xs ! ?i, ?i := xs ! c])) =
      mset (xs[c := xs ! ?i, ?i := xs ! c])"
    using Suc.prems by (intro Suc.IH) auto
  also have "\<dots> = mset xs" using i Suc.prems(1) by (intro mset_swap) auto
  finally show ?case by (simp add: Let_def)
qed

lemma mset_js_shuffle: "(\<And>k. is_random (rnd k)) \<Longrightarrow> mset (js_shuffle rnd xs) = mset xs"
  by (simp add: js_shuffle_def mset_shuffle_loop)

lemma set_js_shuffle: "(\<And>k. is_random (rnd k)) \<Longrightarrow> set (js_shuffle rnd xs) = set xs"
  by (metis mset_js_shuffle mset_eq_setD)

lemma distinct_js_shuffle:
  "(\<And>k. is_random (rnd k)) \<Longrightarrow> distinct (js_shuffle rnd xs) = distinct xs"
  by (metis mset_js_shuffle mset_eq_imp_distinct_iff)

end
