(* ===== verification/Codec.thy ===== *)
theory Codec
  imports JsValues
begin

text \<open>
  Bytes and their textual forms: \<open>src/src/encoding/hex.js\<close> (with Node's \<open>Buffer\<close>),
  \<open>LedgerId.js\<close>, \<open>EvmAddress.js\<close> and \<open>arrayEqual\<close> of \<open>util.js\<close>; big-endian integers
  and the conversion of an integer to a double, which \<open>convertToNumber\<close> performs.
  A \<open>Long\<close> is a \<open>64 word\<close> read as a signed integer; its conversions from and to strings
  belong to the package \<open>long\<close> and are parameters.
\<close>

subsection \<open>Hexadecimal\<close>

definition hex_digit :: "nat \<Rightarrow> char" where
  "hex_digit n = ''0123456789abcdef'' ! n"

definition hex_val :: "char \<Rightarrow> nat option" where
  "hex_val c =
     (let n = char_code c
      in if 48 \<le> n \<and> n \<le> 57 then Some (n - 48)
         else if 97 \<le> n \<and> n \<le> 102 then Some (n - 87)
         else if 65 \<le> n \<and> n \<le> 70 then Some (n - 55) else None)"

fun hex_encode :: "bytes \<Rightarrow> string" where
  "hex_encode [] = []"
| "hex_encode (b # bs) = hex_digit (unat b div 16) # hex_digit (unat b mod 16) # hex_encode bs"

text \<open>\<open>Buffer.from(s, "hex")\<close> stops at the first pair that is not hexadecimal.\<close>

fun hex_pairs :: "string \<Rightarrow> bytes" where
  "hex_pairs (c # d # cs) =
     (case (hex_val c, hex_val d) of
        (Some a, Some b) \<Rightarrow> word_of_nat (16 * a + b) # hex_pairs cs
      | _ \<Rightarrow> [])"
| "hex_pairs _ = []"

definition hex_decode :: "string \<Rightarrow> bytes" where
  "hex_decode t = hex_pairs (if take 2 t = ''0x'' then drop 2 t else t)"

definition is_hex :: "char \<Rightarrow> bool" where
  "is_hex c \<longleftrightarrow> hex_val c \<noteq> None"

lemma nat_less_16: "(\<And>m. m < 4 \<Longrightarrow> P m \<and> P (4 + m) \<and> P (8 + m) \<and> P (12 + m)) \<Longrightarrow> n < 16 \<Longrightarrow> P (n :: nat)"
proof -
  assume P: "\<And>m. m < 4 \<Longrightarrow> P m \<and> P (4 + m) \<and> P (8 + m) \<and> P (12 + m)" and n: "n < 16"
  let ?m = "n mod 4"
  have "?m < 4" by simp
  moreover have "n = ?m \<or> n = 4 + ?m \<or> n = 8 + ?m \<or> n = 12 + ?m" using n by presburger
  ultimately show "P n" using P by metis
qed

lemma hex_val_digit [simp]: "n < 16 \<Longrightarrow> hex_val (hex_digit n) = Some n"
proof (rule nat_less_16 [where P = "\<lambda>n. hex_val (hex_digit n) = Some n"])
  fix m :: nat assume "m < 4"
  then consider "m = 0" | "m = 1" | "m = 2" | "m = 3" by linarith
  then show "hex_val (hex_digit m) = Some m \<and> hex_val (hex_digit (4 + m)) = Some (4 + m) \<and>
      hex_val (hex_digit (8 + m)) = Some (8 + m) \<and> hex_val (hex_digit (12 + m)) = Some (12 + m)"
    by cases (simp_all add: hex_digit_def hex_val_def char_code_def)
qed

lemma unat_byte_less: "unat (b :: 8 word) < 256"
  proof -
  have "unat b < 2 ^ LENGTH(8)" by (rule unsigned_less)
  then show ?thesis by simp
qed

lemma hex_pairs_encode [simp]: "hex_pairs (hex_encode bs) = bs"
proof (induction bs)
  case Nil
  then show ?case by simp
next
  case (Cons b bs)
  have "unat b div 16 < 16" "unat b mod 16 < 16" using unat_byte_less [of b] by auto
  with Cons show ?case by simp
qed

lemma hex_encode_hex: "c \<in> set (hex_encode bs) \<Longrightarrow> is_hex c"
proof (induction bs)
  case Nil
  then show ?case by simp
next
  case (Cons b bs)
  have "unat b div 16 < 16" "unat b mod 16 < 16" using unat_byte_less [of b] by auto
  with Cons show ?case by (auto simp: is_hex_def)
qed

lemma length_hex_encode [simp]: "length (hex_encode bs) = 2 * length bs"
  by (induction bs) auto

lemma hex_encode_no_prefix: "take 2 (hex_encode bs) \<noteq> ''0x''"
proof
  assume t: "take 2 (hex_encode bs) = ''0x''"
  then have "CHR ''x'' \<in> set (take 2 (hex_encode bs))" by simp
  then have "CHR ''x'' \<in> set (hex_encode bs)" by (rule in_set_takeD)
  then have "is_hex (CHR ''x'')" by (rule hex_encode_hex)
  then show False by (simp add: is_hex_def hex_val_def char_code_def)
qed

lemma hex_decode_encode [simp]: "hex_decode (hex_encode bs) = bs"
  by (simp add: hex_decode_def hex_encode_no_prefix)

lemma hex_encode_inj: "hex_encode a = hex_encode b \<Longrightarrow> a = b"
  by (metis hex_pairs_encode)

subsection \<open>Big-endian integers\<close>

fun nat_of_bytes :: "bytes \<Rightarrow> nat" where
  "nat_of_bytes [] = 0"
| "nat_of_bytes (b # bs) = unat b * 256 ^ length bs + nat_of_bytes bs"

fun bytes_of_nat :: "nat \<Rightarrow> nat \<Rightarrow> bytes" where
  "bytes_of_nat 0 n = []"
| "bytes_of_nat (Suc k) n = bytes_of_nat k (n div 256) @ [word_of_nat (n mod 256)]"

lemma length_bytes_of_nat [simp]: "length (bytes_of_nat k n) = k"
  by (induction k arbitrary: n) auto

lemma nat_of_bytes_append:
  "nat_of_bytes (as @ bs) = nat_of_bytes as * 256 ^ length bs + nat_of_bytes bs"
  by (induction as) (auto simp: algebra_simps power_add)

lemma nat_of_bytes_of_nat: "nat_of_bytes (bytes_of_nat k n) = n mod 256 ^ k"
proof (induction k arbitrary: n)
  case 0
  then show ?case by simp
next
  case (Suc k)
  have "unat (word_of_nat (n mod 256) :: 8 word) = n mod 256" by (simp add: unat_of_nat)
  then have "nat_of_bytes (bytes_of_nat (Suc k) n) = (n div 256 mod 256 ^ k) * 256 + n mod 256"
    by (simp add: nat_of_bytes_append Suc)
  also have "\<dots> = n mod (256 * 256 ^ k)" by (simp add: mod_mult2_eq)
  finally show ?case by simp
qed

lemma nat_of_bytes_less: "nat_of_bytes bs < 256 ^ length bs"
proof (induction bs)
  case Nil
  then show ?case by simp
next
  case (Cons b bs)
  have "Suc (unat b) \<le> 256" using unat_byte_less [of b] by simp
  then have "Suc (unat b) * 256 ^ length bs \<le> 256 * 256 ^ length bs" by (rule mult_right_mono) simp
  with Cons have "unat b * 256 ^ length bs + nat_of_bytes bs < 256 * 256 ^ length bs"
    by (simp only: mult_Suc)
  then show ?case by simp
qed

text \<open>
  \<open>parseInt\<close> of a decimal numeral: the nearest double, ties to even.
\<close>

fun double_exp :: "nat \<Rightarrow> nat" where
  "double_exp n = (if n < 2 ^ 53 then 0 else Suc (double_exp (n div 2)))"

declare double_exp.simps [simp del]

definition double_of_nat :: "nat \<Rightarrow> nat" where
  "double_of_nat n =
     (let e = double_exp n; q = n div 2 ^ e; r = n mod 2 ^ e
      in (if 2 ^ e < 2 * r \<or> (2 * r = 2 ^ e \<and> odd q) then Suc q else q) * 2 ^ e)"

lemma double_of_nat_exact: "n < 2 ^ 53 \<Longrightarrow> double_of_nat n = n"
  by (simp add: double_of_nat_def double_exp.simps)

subsection \<open>Comparing byte arrays\<close>

text \<open>Both loops of \<open>array.js\<close> run an index down to 0.\<close>

fun bytes_loop :: "nat \<Rightarrow> bytes \<Rightarrow> bytes \<Rightarrow> bool" where
  "bytes_loop 0 a b = True"
| "bytes_loop (Suc i) a b = (if a ! i \<noteq> b ! i then False else bytes_loop i a b)"

definition arrayEqual :: "bytes \<Rightarrow> bytes \<Rightarrow> bool" where
  "arrayEqual a b = (if length a \<noteq> length b then False else bytes_loop (length a) a b)"

definition arrayStartsWith :: "bytes \<Rightarrow> bytes \<Rightarrow> bool" where
  "arrayStartsWith a p = (if length a < length p then False else bytes_loop (length p) a p)"

lemma bytes_loop_iff: "bytes_loop n a b \<longleftrightarrow> (\<forall>i < n. a ! i = b ! i)"
  by (induction n) (auto simp: less_Suc_eq)

lemma arrayEqual_iff [simp]: "arrayEqual a b \<longleftrightarrow> a = b"
  by (auto simp: arrayEqual_def bytes_loop_iff intro: nth_equalityI)

lemma arrayStartsWith_iff [simp]: "arrayStartsWith a p \<longleftrightarrow> prefix p a"
proof -
  have "take (length p) a = p" if "\<forall>i < length p. a ! i = p ! i" "length p \<le> length a"
    using that by (intro nth_equalityI) auto
  moreover have "prefix p a" if "take (length p) a = p"
    using that by (metis take_is_prefix)
  ultimately show ?thesis
    by (auto simp: arrayStartsWith_def bytes_loop_iff prefix_def nth_append not_less)
qed

subsection \<open>Padded hexadecimal\<close>

function hz_loop :: "nat \<Rightarrow> string \<Rightarrow> string" where
  "hz_loop n r = (if length r < 2 * n + 2 then hz_loop n (''0x0'' @ drop 2 r) else r)"
  by pat_completeness auto
termination by (relation "measure (\<lambda>(n, r). 2 * n + 2 - length r)") auto

declare hz_loop.simps [simp del]

definition hexZeroPadded :: "bytes \<Rightarrow> nat \<Rightarrow> string" where
  "hexZeroPadded v n = drop 2 (hz_loop n (''0x'' @ hex_encode v))"

lemma hz_loop_pad: "hz_loop n (''0x'' @ s) = ''0x'' @ pad_start (2 * n) (CHR ''0'') s"
proof (induction "2 * n - length s" arbitrary: s)
  case 0
  then show ?case by (subst hz_loop.simps) (simp add: pad_start_def)
next
  case (Suc k)
  have "hz_loop n (''0x'' @ CHR ''0'' # s) = ''0x'' @ pad_start (2 * n) (CHR ''0'') (CHR ''0'' # s)"
    using Suc(2) by (intro Suc(1)) simp
  moreover have "pad_start (2 * n) (CHR ''0'') (CHR ''0'' # s) = pad_start (2 * n) (CHR ''0'') s"
  proof -
    have "2 * n - length s = Suc (2 * n - length (CHR ''0'' # s))" using Suc(2) by simp
    then show ?thesis by (simp add: pad_start_def replicate_app_Cons_same del: length_Cons)
  qed
  moreover have "length s < 2 * n" using Suc(2) by simp
  ultimately show ?case by (subst hz_loop.simps) simp
qed

lemma hexZeroPadded_eq: "hexZeroPadded v n = pad_start (2 * n) (CHR ''0'') (hex_encode v)"
  using hz_loop_pad [of n "hex_encode v"] by (simp add: hexZeroPadded_def)

lemma hex_pairs_zeros: "hex_pairs (replicate (2 * k) (CHR ''0'') @ s) = replicate k 0 @ hex_pairs s"
  by (induction k) (simp_all add: hex_val_def char_code_def)

subsection \<open>EVM addresses\<close>

type_synonym evm_address = bytes

definition evm_fromString :: "string \<Rightarrow> evm_address" where
  "evm_fromString t = hex_decode t"

definition evm_toString :: "evm_address \<Rightarrow> string" where
  "evm_toString a = hex_encode a"

definition evm_equals :: "evm_address \<Rightarrow> evm_address \<Rightarrow> bool" where
  "evm_equals a b = arrayEqual a b"

subsection \<open>Ledger ids\<close>

type_synonym ledger_id = bytes

definition netnames :: "string list" where
  "netnames = [''mainnet'', ''testnet'', ''previewnet'', ''local-node'']"

definition ledger_fromString :: "string \<Rightarrow> ledger_id js" where
  "ledger_fromString t =
     (if t = netnames ! 0 \<or> t = ''0'' then Inr [0]
      else if t = netnames ! 1 \<or> t = ''1'' then Inr [1]
      else if t = netnames ! 2 \<or> t = ''2'' then Inr [2]
      else if t = netnames ! 3 \<or> t = ''3'' then Inr [3]
      else let d = hex_decode t
           in if length d = 0 \<and> length t \<noteq> 0 then Inl BadLedgerId else Inr d)"

definition ledger_toString :: "ledger_id \<Rightarrow> string" where
  "ledger_toString l =
     (if length l = 1 then
        (if l ! 0 = 0 then netnames ! 0
         else if l ! 0 = 1 then netnames ! 1
         else if l ! 0 = 2 then netnames ! 2
         else if l ! 0 = 3 then netnames ! 3
         else hex_encode l)
      else hex_encode l)"

definition ledger_isMainnet :: "ledger_id \<Rightarrow> bool" where
  "ledger_isMainnet l \<longleftrightarrow> ledger_toString l = netnames ! 0"

definition ledger_isTestnet :: "ledger_id \<Rightarrow> bool" where
  "ledger_isTestnet l \<longleftrightarrow> ledger_toString l = netnames ! 1"

definition ledger_isPreviewnet :: "ledger_id \<Rightarrow> bool" where
  "ledger_isPreviewnet l \<longleftrightarrow> ledger_toString l = netnames ! 2"

definition ledger_isLocalNode :: "ledger_id \<Rightarrow> bool" where
  "ledger_isLocalNode l \<longleftrightarrow> ledger_toString l = netnames ! 3"

lemma hex_encode_no_name:
  "\<not> list_all is_hex t \<or> odd (length t) \<Longrightarrow> hex_encode l \<noteq> t"
  using hex_encode_hex length_hex_encode by (fastforce simp: list_all_iff)

lemma hex_encode_names [simp]:
  "hex_encode l \<noteq> ''mainnet''" "hex_encode l \<noteq> ''testnet''" "hex_encode l \<noteq> ''previewnet''"
  "hex_encode l \<noteq> ''local-node''" "hex_encode l \<noteq> ''0''" "hex_encode l \<noteq> ''1''"
  "hex_encode l \<noteq> ''2''" "hex_encode l \<noteq> ''3''"
  by (rule hex_encode_no_name; simp add: is_hex_def hex_val_def char_code_def)+

lemma ledger_hex: "ledger_fromString (hex_encode l) = Inr l"
proof -
  have "hex_encode l \<noteq> netnames ! 0" "hex_encode l \<noteq> netnames ! 1"
    "hex_encode l \<noteq> netnames ! 2" "hex_encode l \<noteq> netnames ! 3"
    by (simp_all add: netnames_def)
  moreover have "length l = 0 \<Longrightarrow> length (hex_encode l) = 0" by simp
  ultimately show ?thesis unfolding ledger_fromString_def Let_def by simp
qed

lemma ledger_round_trip: "ledger_fromString (ledger_toString l) = Inr l"
proof (cases l)
  case (Cons b bs)
  show ?thesis
  proof (cases bs)
    case Nil
    then show ?thesis using Cons ledger_hex [of l]
      by (simp add: ledger_toString_def) (simp add: ledger_fromString_def netnames_def)
  next
    case (Cons c cs)
    then show ?thesis using \<open>l = b # bs\<close> ledger_hex [of l] by (simp add: ledger_toString_def)
  qed
qed (use ledger_hex [of l] in \<open>simp add: ledger_toString_def\<close>)

text \<open>
  Ledger ids survive printing and parsing, whatever their bytes; the four
  network tests hold for exactly the four one-byte ids.
\<close>

theorem ledger_ids_round_trip:
  "ledger_fromString (ledger_toString l) = Inr l \<and>
   (ledger_isMainnet l \<longleftrightarrow> l = [0]) \<and> (ledger_isTestnet l \<longleftrightarrow> l = [1]) \<and>
   (ledger_isPreviewnet l \<longleftrightarrow> l = [2]) \<and> (ledger_isLocalNode l \<longleftrightarrow> l = [3])"
proof -
  have "ledger_toString l = netnames ! k \<longleftrightarrow> l = [word_of_nat k]" if "k < 4" for k
  proof -
    have "k = 0 \<or> k = 1 \<or> k = 2 \<or> k = 3" using that by linarith
    then have n: "ledger_toString [word_of_nat k] = netnames ! k"
      by (elim disjE) (simp_all add: ledger_toString_def)
    show ?thesis
    proof
      assume "ledger_toString l = netnames ! k"
      then have "ledger_fromString (ledger_toString l) =
          ledger_fromString (ledger_toString [word_of_nat k])" by (simp only: n)
      then show "l = [word_of_nat k]" by (simp add: ledger_round_trip)
    qed (simp add: n)
  qed
  from this [of 0] this [of 1] this [of 2] this [of 3] ledger_round_trip [of l] show ?thesis
    by (simp add: ledger_isMainnet_def ledger_isTestnet_def ledger_isPreviewnet_def
        ledger_isLocalNode_def)
qed

end
