(* ===== verification/EntityId.thy ===== *)
theory EntityId
  imports Codec
begin

text \<open>
  Entity ids of \<open>src/src/EntityIdHelper.js\<close> and their users \<open>account/AccountId.js\<close> and
  \<open>token/TokenId.js\<close>: parsing, printing, comparison, the checksum of HIP-15 and the
  Solidity form.  A \<open>Long\<close> is a \<open>64 word\<close> read as a signed integer.  Its conversions to
  and from text belong to the package \<open>long\<close> and are the parameters \<open>print\<close> and \<open>parse\<close>;
  what is used of them is \<open>long_text\<close>.
\<close>

type_synonym long = "64 word"

definition long_text :: "(long \<Rightarrow> string) \<Rightarrow> (string \<Rightarrow> long js) \<Rightarrow> bool" where
  "long_text print parse \<longleftrightarrow>
     (\<forall>w. 0 \<le> sint w \<longrightarrow> print w = dec (nat (sint w))) \<and>
     (\<forall>t. t \<noteq> [] \<and> list_all is_digit t \<and> parse_dec t < 2 ^ 63 \<longrightarrow>
        parse t = Inr (word_of_nat (parse_dec t)))"

definition long_compare :: "long \<Rightarrow> long \<Rightarrow> int" where
  "long_compare a b = int_compare (sint a) (sint b)"

definition long_isNegative :: "long \<Rightarrow> bool" where
  "long_isNegative a \<longleftrightarrow> sint a < 0"

lemma long_nat: "0 \<le> sint (w :: long) \<Longrightarrow> nat (sint w) = unat w"
proof -
  assume "0 \<le> sint w"
  moreover have "sint w < 2 ^ 63" using sint_lt [of w] by simp
  ultimately have "take_bit 64 (sint w) = sint w" by (simp add: take_bit_int_eq_self)
  then have "uint w = sint w" using uint_sint [of w] by simp
  then show ?thesis by (metis nat_uint_eq)
qed

lemma long_print_parse:
  assumes "long_text print parse" "0 \<le> sint w"
  shows "parse (print w) = Inr w" "print w = dec (unat w)"
proof -
  have "sint w < 2 ^ 63" using sint_lt [of w] by simp
  then have "nat (sint w) < 2 ^ 63" using assms(2) by simp
  then show "parse (print w) = Inr w" "print w = dec (unat w)"
    using assms long_nat [OF assms(2)] by (auto simp: long_text_def dec_digits)
qed

subsection \<open>The textual form\<close>

record id_parts =
  ip_shard :: string
  ip_realm :: string
  ip_numOrHex :: string
  ip_checksum :: "string option"

definition is_lower :: "char \<Rightarrow> bool" where
  "is_lower c \<longleftrightarrow> 97 \<le> char_code c \<and> char_code c \<le> 122"

text \<open>
  \<open>ENTITY_ID_REGEX\<close>: digits, optionally a dot, digits, a dot and hexadecimal digits,
  then optionally a hyphen and five lower-case letters.  Each piece ends at the first
  character its class lacks, so matching needs no backtracking.
\<close>

definition match_checksum :: "string \<Rightarrow> string option option" where
  "match_checksum t =
     (case t of
        [] \<Rightarrow> Some None
      | c # w \<Rightarrow> if c = CHR ''-'' \<and> length w = 5 \<and> list_all is_lower w then Some (Some w) else None)"

definition match_run :: "(char \<Rightarrow> bool) \<Rightarrow> string \<Rightarrow> (string \<times> string) option" where
  "match_run p t = (if takeWhile p t = [] then None else Some (takeWhile p t, dropWhile p t))"

definition match_entity_id ::
  "string \<Rightarrow> (string \<times> (string \<times> string) option \<times> string option) option" where
  "match_entity_id t =
     (case match_run is_digit t of
        None \<Rightarrow> None
      | Some (a, r) \<Rightarrow>
          if take 1 r = ''.'' then
            (case match_run is_digit (drop 1 r) of
               None \<Rightarrow> None
             | Some (b, r) \<Rightarrow>
                 if take 1 r = ''.'' then
                   (case match_run is_hex (drop 1 r) of
                      None \<Rightarrow> None
                    | Some (c, r) \<Rightarrow> map_option (\<lambda>k. (a, Some (b, c), k)) (match_checksum r))
                 else None)
          else map_option (\<lambda>k. (a, None, k)) (match_checksum r))"

definition fromStringSplitter :: "string \<Rightarrow> id_parts js" where
  "fromStringSplitter t =
     (case match_entity_id t of
        None \<Rightarrow> Inl BadEntityId
      | Some (a, None, k) \<Rightarrow>
          Inr \<lparr>ip_shard = ''0'', ip_realm = ''0'', ip_numOrHex = a, ip_checksum = k\<rparr>
      | Some (a, Some (b, c), k) \<Rightarrow>
          Inr \<lparr>ip_shard = a, ip_realm = b, ip_numOrHex = c, ip_checksum = k\<rparr>)"

type_synonym id_triple = "long \<times> long \<times> long"

definition entity_fromString :: "(string \<Rightarrow> long js) \<Rightarrow> string \<Rightarrow> (id_triple \<times> string option) js" where
  "entity_fromString parse t =
     js_bind (fromStringSplitter t) (\<lambda>p.
     js_bind (parse (ip_shard p)) (\<lambda>s.
     js_bind (parse (ip_realm p)) (\<lambda>r.
     js_bind (parse (ip_numOrHex p)) (\<lambda>n. Inr ((s, r, n), ip_checksum p)))))"

text \<open>\<open>${shard}.${realm}.${num}\<close>, as all callers print it.\<close>

definition entity_text :: "(long \<Rightarrow> string) \<Rightarrow> id_triple \<Rightarrow> string" where
  "entity_text print i =
     (case i of (s, r, n) \<Rightarrow> print s @ ''.'' @ print r @ ''.'' @ print n)"

text \<open>The constructor: from numbers, or from an object whose shard and realm may be missing.\<close>

datatype id_props = Num long | Props "long option" "long option" long

definition entity_constructor ::
  "id_props \<Rightarrow> long option \<Rightarrow> long option \<Rightarrow> id_triple js" where
  "entity_constructor props realm num =
     (if (realm = None) \<noteq> (num = None) then Inl BadEntityId
      else let (s, r, n) =
          (case props of
             Num k \<Rightarrow>
               (case num of
                  Some m \<Rightarrow> (k, case realm of Some r \<Rightarrow> r | None \<Rightarrow> 0, m)
                | None \<Rightarrow> (0, case realm of Some r \<Rightarrow> r | None \<Rightarrow> 0, k))
           | Props s r n \<Rightarrow>
               (case s of Some s \<Rightarrow> s | None \<Rightarrow> 0, case r of Some r \<Rightarrow> r | None \<Rightarrow> 0, n))
        in if long_isNegative s \<or> long_isNegative r \<or> long_isNegative n
           then Inl NegativeEntityId else Inr (s, r, n))"

definition entity_compare :: "id_triple \<Rightarrow> id_triple \<Rightarrow> int" where
  "entity_compare a b =
     (case a of (s, r, n) \<Rightarrow> case b of (s', r', n') \<Rightarrow>
        if long_compare s s' \<noteq> 0 then long_compare s s'
        else if long_compare r r' \<noteq> 0 then long_compare r r'
        else long_compare n n')"

definition id_valid :: "id_triple \<Rightarrow> bool" where
  "id_valid i \<longleftrightarrow> (case i of (s, r, n) \<Rightarrow> 0 \<le> sint s \<and> 0 \<le> sint r \<and> 0 \<le> sint n)"

lemma entity_constructor_valid:
  "entity_constructor p r n = Inr i \<Longrightarrow> id_valid i"
  by (auto simp: entity_constructor_def id_valid_def long_isNegative_def Let_def not_less
      split: if_splits id_props.splits option.splits)

lemma entity_constructor_triple [simp]:
  "id_valid (s, r, n) \<Longrightarrow> entity_constructor (Num s) (Some r) (Some n) = Inr (s, r, n)"
  by (auto simp: entity_constructor_def id_valid_def long_isNegative_def)

subsection \<open>Checksums\<close>

text \<open>
  \<open>_checksum\<close>.  A character that is neither a digit nor a dot is \<open>NaN\<close>, and so then
  is the number whose letters are printed: \<open>String.fromCharCode\<close> gives five NULs.
  All intermediate values are below \<open>2 ^ 53\<close>.  The divisions by 26 of the last loop are
  not rounded in the code, but only integer parts are printed.
\<close>

abbreviation "cs_p3 \<equiv> 17576 :: nat"
abbreviation "cs_p5 \<equiv> 11881376 :: nat"

definition addr_digit :: "char \<Rightarrow> nat option" where
  "addr_digit c = (if c = CHR ''.'' then Some 10 else if is_digit c then Some (digit_val c) else None)"

fun cs_sums :: "nat list \<Rightarrow> nat \<Rightarrow> nat \<Rightarrow> nat \<Rightarrow> nat \<Rightarrow> nat \<times> nat \<times> nat" where
  "cs_sums [] i s s0 s1 = (s, s0, s1)"
| "cs_sums (d # ds) i s s0 s1 =
     (let s = (31 * s + d) mod cs_p3
      in if i mod 2 = 0 then cs_sums ds (Suc i) s ((s0 + d) mod 11) s1
         else cs_sums ds (Suc i) s s0 ((s1 + d) mod 11))"

definition cs_ledger :: "ledger_id \<Rightarrow> nat" where
  "cs_ledger l = foldl (\<lambda>sh b. (31 * sh + unat b) mod cs_p5) 0 (l @ replicate 6 0)"

fun cs_letters :: "nat \<Rightarrow> nat \<Rightarrow> string \<Rightarrow> string" where
  "cs_letters 0 c answer = answer"
| "cs_letters (Suc k) c answer = cs_letters k (c div 26) (char_of (97 + c mod 26) # answer)"

definition checksum :: "ledger_id \<Rightarrow> string \<Rightarrow> string" where
  "checksum l addr =
     (case those (map addr_digit addr) of
        None \<Rightarrow> replicate 5 (char_of (0 :: nat))
      | Some d \<Rightarrow>
          (case cs_sums d 0 0 0 0 of (s, s0, s1) \<Rightarrow>
             let c = ((((length addr mod 5) * 11 + s0) * 11 + s1) * cs_p3 + s + cs_ledger l) mod cs_p5;
                 c = (c * 1000003) mod cs_p5
             in cs_letters 5 c []))"

definition validateChecksum ::
  "(long \<Rightarrow> string) \<Rightarrow> ledger_id option \<Rightarrow> id_triple \<Rightarrow> string option \<Rightarrow> unit js" where
  "validateChecksum print ledger i given =
     (case (ledger, given) of
        (Some l, Some k) \<Rightarrow>
          let expected = checksum l (entity_text print i)
          in if k \<noteq> expected then Inl (BadChecksum k expected) else Inr ()
      | _ \<Rightarrow> Inr ())"

definition toStringWithChecksum :: "ledger_id option \<Rightarrow> string \<Rightarrow> string js" where
  "toStringWithChecksum ledger t =
     (case ledger of
        None \<Rightarrow> Inl NoLedgerId
      | Some l \<Rightarrow> Inr (t @ ''-'' @ checksum l t))"

text \<open>What the checksum keeps of an address: its length and three sums.\<close>

definition addr_ok :: "string \<Rightarrow> bool" where
  "addr_ok t \<longleftrightarrow> list_all (\<lambda>c. addr_digit c \<noteq> None) t"

definition addr_digits :: "string \<Rightarrow> nat list" where
  "addr_digits t = map (the \<circ> addr_digit) t"

definition cs_key :: "string \<Rightarrow> nat" where
  "cs_key t =
     (case cs_sums (addr_digits t) 0 0 0 0 of (s, s0, s1) \<Rightarrow>
        (((length t mod 5) * 11 + s0) * 11 + s1) * cs_p3 + s)"

lemma those_addr_digits: "addr_ok t \<Longrightarrow> those (map addr_digit t) = Some (addr_digits t)"
  by (induction t) (auto simp: addr_ok_def addr_digits_def)

lemma checksum_key:
  "addr_ok t \<Longrightarrow> checksum l t =
     cs_letters 5 (((cs_key t + cs_ledger l) mod cs_p5 * 1000003) mod cs_p5) []"
  by (simp add: checksum_def those_addr_digits cs_key_def Let_def split: prod.split)

lemma addr_digit_less: "addr_digit c = Some d \<Longrightarrow> d < 11"
  using digit_val_less [of c] by (auto simp: addr_digit_def split: if_splits)

lemma addr_digit_inj:
  assumes "addr_digit c = Some d" "addr_digit c' = Some d"
  shows "c = c'"
proof -
  have "x = (if d = 10 then CHR ''.'' else digit_char d)" if "addr_digit x = Some d" for x
    using that digit_val_less [of x] digit_char_digit_val [of x]
    by (auto simp: addr_digit_def split: if_splits)
  then show ?thesis using assms by metis
qed

lemma radix_inj:
  fixes a b n x y :: nat
  assumes "x * n + a = y * n + b" "a < n" "b < n"
  shows "x = y" "a = b"
proof -
  have "(x * n + a) div n = x" "(y * n + b) div n = y" "(x * n + a) mod n = a" "(y * n + b) mod n = b"
    using assms(2,3) by simp_all
  then show "x = y" "a = b" using assms(1) by metis+
qed

lemma radix_less:
  fixes a n x m :: nat
  assumes "x < m" "a < n"
  shows "x * n + a < m * n"
proof -
  have "Suc x * n \<le> m * n" using assms(1) by (intro mult_right_mono) auto
  then show ?thesis using assms(2) by simp
qed

fun alt_sum :: "bool \<Rightarrow> nat list \<Rightarrow> nat" where
  "alt_sum e [] = 0"
| "alt_sum e (d # ds) = (if e then d else 0) + alt_sum (\<not> e) ds"

lemma cs_sums_bounds:
  "cs_sums ds i s s0 s1 = (s', s0', s1') \<Longrightarrow> s < cs_p3 \<Longrightarrow> s0 < 11 \<Longrightarrow> s1 < 11 \<Longrightarrow>
     s' < cs_p3 \<and> s0' < 11 \<and> s1' < 11"
  by (induction ds arbitrary: i s s0 s1) (auto simp: Let_def split: if_splits)

lemma cs_sums_alt:
  "cs_sums ds i s s0 s1 = (s', s0', s1') \<Longrightarrow>
     s0' mod 11 = (s0 + alt_sum (even i) ds) mod 11 \<and>
     s1' mod 11 = (s1 + alt_sum (odd i) ds) mod 11"
proof (induction ds arbitrary: i s s0 s1)
  case Nil
  then show ?case by simp
next
  case (Cons d ds)
  show ?case
  proof (cases "even i")
    case True
    then have "cs_sums ds (Suc i) ((31 * s + d) mod cs_p3) ((s0 + d) mod 11) s1 = (s', s0', s1')"
      using Cons.prems by (simp add: Let_def even_iff_mod_2_eq_zero)
    from Cons.IH [OF this] True show ?thesis by (simp add: mod_simps add_ac)
  next
    case False
    then have "cs_sums ds (Suc i) ((31 * s + d) mod cs_p3) s0 ((s1 + d) mod 11) = (s', s0', s1')"
      using Cons.prems by (simp add: Let_def odd_iff_mod_2_eq_one)
    from Cons.IH [OF this] False show ?thesis by (simp add: mod_simps add_ac)
  qed
qed

lemma cs_key_parts:
  obtains s s0 s1 where
    "cs_key t = (((length t mod 5) * 11 + s0) * 11 + s1) * cs_p3 + s"
    "s < cs_p3" "s0 = alt_sum True (addr_digits t) mod 11" "s1 = alt_sum False (addr_digits t) mod 11"
proof -
  obtain s s0 s1 where e: "cs_sums (addr_digits t) 0 0 0 0 = (s, s0, s1)" by (metis prod_cases3)
  from cs_sums_bounds [OF e] cs_sums_alt [OF e] e show thesis
    by (intro that [of s0 s1 s]) (auto simp: cs_key_def)
qed

lemma cs_key_less: "cs_key t < cs_p5"
proof -
  obtain s s0 s1 where k: "cs_key t = (((length t mod 5) * 11 + s0) * 11 + s1) * cs_p3 + s"
    "s < cs_p3" "s0 = alt_sum True (addr_digits t) mod 11" "s1 = alt_sum False (addr_digits t) mod 11"
    by (rule cs_key_parts)
  have "length t mod 5 < 5" "s0 < 11" "s1 < 11" using k by simp_all
  then have "((length t mod 5 * 11 + s0) * 11 + s1) * cs_p3 + s < 5 * 11 * 11 * cs_p3"
    using k(2) by (intro radix_less) auto
  then show ?thesis using k(1) by simp
qed

text \<open>Addresses with equal keys agree in length modulo 5 and in both alternating sums.\<close>

lemma cs_key_eq:
  assumes "cs_key a = cs_key b"
  shows "length a mod 5 = length b mod 5"
    "alt_sum e (addr_digits a) mod 11 = alt_sum e (addr_digits b) mod 11"
proof -
  obtain s s0 s1 where a: "cs_key a = (((length a mod 5) * 11 + s0) * 11 + s1) * cs_p3 + s"
    "s < cs_p3" "s0 = alt_sum True (addr_digits a) mod 11" "s1 = alt_sum False (addr_digits a) mod 11"
    by (rule cs_key_parts)
  obtain r r0 r1 where b: "cs_key b = (((length b mod 5) * 11 + r0) * 11 + r1) * cs_p3 + r"
    "r < cs_p3" "r0 = alt_sum True (addr_digits b) mod 11" "r1 = alt_sum False (addr_digits b) mod 11"
    by (rule cs_key_parts)
  have lt: "s0 < 11" "s1 < 11" "r0 < 11" "r1 < 11" using a(3,4) b(3,4) by simp_all
  note e = radix_inj(1) [OF assms [unfolded a(1) b(1)] a(2) b(2)]
  note f = radix_inj(1) [OF e lt(2,4)]
  show "length a mod 5 = length b mod 5" by (rule radix_inj(1) [OF f lt(1,3)])
  show "alt_sum e (addr_digits a) mod 11 = alt_sum e (addr_digits b) mod 11"
    using radix_inj(2) [OF f lt(1,3)] radix_inj(2) [OF e lt(2,4)] a(3,4) b(3,4) by (cases e) simp_all
qed

lemma cs_letters_inj:
  assumes "c < 26 ^ k" "c' < 26 ^ k" "cs_letters k c ans = cs_letters k c' ans'" "length ans = length ans'"
  shows "c = c' \<and> ans = ans'"
  using assms
proof (induction k arbitrary: c c' ans ans')
  case 0
  then show ?case by simp
next
  case (Suc k)
  have "c div 26 < 26 ^ k" "c' div 26 < 26 ^ k"
    using Suc.prems(1,2) by (simp_all add: less_mult_imp_div_less mult.commute)
  moreover have "cs_letters k (c div 26) (char_of (97 + c mod 26) # ans) =
      cs_letters k (c' div 26) (char_of (97 + c' mod 26) # ans')"
    using Suc.prems(3) by simp
  moreover have "length (char_of (97 + c mod 26) # ans :: string) = length (char_of (97 + c' mod 26) # ans')"
    using Suc.prems(4) by simp
  ultimately have "c div 26 = c' div 26 \<and>
      char_of (97 + c mod 26) # ans = (char_of (97 + c' mod 26) # ans' :: string)"
    by (rule Suc.IH)
  then have e: "c div 26 = c' div 26" "(char_of (97 + c mod 26) :: char) = char_of (97 + c' mod 26)"
    "ans = ans'" by (simp_all only: list.inject)
  have "c mod 26 < 26" "c' mod 26 < 26" by simp_all
  then have "97 + c mod 26 < 256" "97 + c' mod 26 < 256" by linarith+
  then have "c mod 26 = c' mod 26" using arg_cong [OF e(2), of "of_char :: char \<Rightarrow> nat"] by simp
  with e show ?case by (metis div_mult_mod_eq)
qed

lemma mult_mod_cancel:
  fixes a b m i p :: nat
  assumes "a * m mod p = b * m mod p" "m * i mod p = 1" "a < p" "b < p"
  shows "a = b"
proof -
  have "a * m mod p * i mod p = b * m mod p * i mod p" using assms(1) by simp
  then have "a * (m * i mod p) mod p = b * (m * i mod p) mod p"
    by (simp add: mod_simps mult.assoc)
  then show ?thesis using assms(2-4) by simp
qed

lemma add_mod_cancel:
  fixes a b s p :: nat
  assumes "(a + s) mod p = (b + s) mod p" "a < p" "b < p"
  shows "a = b"
proof -
  have "(a + s) mod p = (b + s) mod p \<longrightarrow> int p dvd int a - int b"
    by (metis add_diff_cancel_right mod_eq_dvd_iff of_nat_add of_nat_mod)
  then have "int a mod int p = int b mod int p" using assms(1) by (simp add: mod_eq_dvd_iff)
  then show ?thesis using assms(2,3) by simp
qed

lemma checksum_eq_key:
  assumes "addr_ok a" "addr_ok b"
  shows "checksum l a = checksum l b \<longleftrightarrow> cs_key a = cs_key b"
proof
  assume "checksum l a = checksum l b"
  then have "(cs_key a + cs_ledger l) mod cs_p5 * 1000003 mod cs_p5 =
      (cs_key b + cs_ledger l) mod cs_p5 * 1000003 mod cs_p5"
    using cs_letters_inj [of _ 5 _ "[]" "[]"] by (simp add: checksum_key assms)
  then have "(cs_key a + cs_ledger l) mod cs_p5 = (cs_key b + cs_ledger l) mod cs_p5"
    by (rule mult_mod_cancel [where i = 8610443]) simp_all
  then show "cs_key a = cs_key b"
    by (rule add_mod_cancel) (rule cs_key_less)+
qed (simp add: checksum_key assms)

text \<open>The two kinds of typing error move the alternating sums by less than 11.\<close>

lemma alt_sum_append: "alt_sum e (xs @ ys) = alt_sum e xs + alt_sum (if even (length xs) then e else \<not> e) ys"
  by (induction xs arbitrary: e) auto

lemma addr_digits_simps [simp]:
  "addr_digits [] = []" "addr_digits (c # t) = the (addr_digit c) # addr_digits t"
  "addr_digits (t @ u) = addr_digits t @ addr_digits u" "length (addr_digits t) = length t"
  by (simp_all add: addr_digits_def)

lemma addr_ok_simps [simp]:
  "addr_ok []" "addr_ok (c # t) \<longleftrightarrow> addr_digit c \<noteq> None \<and> addr_ok t"
  "addr_ok (t @ u) \<longleftrightarrow> addr_ok t \<and> addr_ok u"
  by (auto simp: addr_ok_def)

lemma digits_differ:
  assumes "addr_digit x \<noteq> None" "addr_digit y \<noteq> None" "x \<noteq> y"
  shows "the (addr_digit x) \<noteq> the (addr_digit y)"
    "the (addr_digit x) < 11" "the (addr_digit y) < 11"
  using assms addr_digit_inj addr_digit_less by fastforce+

lemma sum_moves_key:
  assumes "addr_digit x \<noteq> None" "addr_digit y \<noteq> None" "x \<noteq> y"
    and "alt_sum False (addr_digits v) = alt_sum False (addr_digits w)"
  shows "cs_key (u @ x # v) \<noteq> cs_key (u @ y # w)"
proof
  let ?e = "even (length u)"
  let ?s = "alt_sum ?e (addr_digits u) + alt_sum False (addr_digits v)"
  assume "cs_key (u @ x # v) = cs_key (u @ y # w)"
  then have "alt_sum ?e (addr_digits (u @ x # v)) mod 11 = alt_sum ?e (addr_digits (u @ y # w)) mod 11"
    by (rule cs_key_eq)
  moreover have "alt_sum ?e (addr_digits (u @ x # v)) = the (addr_digit x) + ?s"
    "alt_sum ?e (addr_digits (u @ y # w)) = the (addr_digit y) + ?s"
    using assms(4) by (simp_all add: alt_sum_append)
  ultimately have "(the (addr_digit x) + ?s) mod 11 = (the (addr_digit y) + ?s) mod 11" by simp
  then have "the (addr_digit x) = the (addr_digit y)"
    by (rule add_mod_cancel) (rule digits_differ [OF assms(1-3)])+
  then show False using digits_differ [OF assms(1-3)] by simp
qed

text \<open>
  C39. Checksums catch the usual typing errors: on one ledger, two addresses made of
  digits and dots have different checksums when they differ in one character, in the
  order of two neighbouring characters, or in length by anything but a multiple of 5.
\<close>

theorem checksum_detects_typos:
  assumes "addr_ok a" "addr_ok b"
    and "(\<exists>u x y v. x \<noteq> y \<and> a = u @ x # v \<and> b = u @ y # v) \<or>
         (\<exists>u x y v. x \<noteq> y \<and> a = u @ x # y # v \<and> b = u @ y # x # v) \<or>
         length a mod 5 \<noteq> length b mod 5"
  shows "checksum l a \<noteq> checksum l b"
proof -
  have "cs_key a \<noteq> cs_key b"
    using assms(3)
  proof (elim disjE exE conjE)
    fix u x y v assume "x \<noteq> y" "a = u @ x # v" "b = u @ y # v"
    with assms(1,2) show ?thesis using sum_moves_key [of x y v v u] by auto
  next
    fix u x y v assume "x \<noteq> y" "a = u @ x # y # v" "b = u @ y # x # v"
    with assms(1,2) show ?thesis using sum_moves_key [of x y "y # v" "x # v" u] by auto
  qed (use cs_key_eq(1) in blast)
  then show ?thesis by (simp add: checksum_eq_key [OF assms(1,2)])
qed

theorem checksum_detects_typos_witness:
  "checksum [0] ''0.0.123'' \<noteq> checksum [0] ''0.0.132''"
proof -
  have "addr_ok ''0.0.123'' \<and> addr_ok ''0.0.132''"
    by (simp add: addr_digit_def is_digit_def char_code_def)
  moreover have "CHR ''2'' \<noteq> CHR ''3'' \<and> ''0.0.123'' = ''0.0.1'' @ CHR ''2'' # CHR ''3'' # [] \<and>
      ''0.0.132'' = ''0.0.1'' @ CHR ''3'' # CHR ''2'' # []" by simp
  then have "\<exists>u x y v. x \<noteq> y \<and> ''0.0.123'' = u @ x # y # v \<and> ''0.0.132'' = u @ y # x # v"
    by (intro exI)
  ultimately show ?thesis using checksum_detects_typos [of "''0.0.123''" "''0.0.132''"] by blast
qed

text \<open>Ledger ids of one byte.\<close>

lemma cs_ledger_byte: "cs_ledger [b] = unat b * 8281857 mod cs_p5"
proof -
  have "replicate 6 0 = [0, 0, 0, 0, 0, 0 :: 8 word]" by (simp add: eval_nat_numeral)
  then have "cs_ledger [b] = (31 * (31 * (31 * (31 * (31 * (31 * unat b)))))) mod cs_p5"
    by (simp add: cs_ledger_def mod_simps)
  also have "\<dots> = unat b * 887503681 mod cs_p5" by (simp add: mult.commute)
  also have "\<dots> = unat b * (887503681 mod cs_p5) mod cs_p5" by (simp only: mod_mult_right_eq)
  finally show ?thesis by simp
qed

lemma checksum_byte:
  assumes "addr_ok a"
  shows "checksum [b] a = checksum [b'] a \<longleftrightarrow> b = b'"
proof
  assume "checksum [b] a = checksum [b'] a"
  then have "(cs_key a + cs_ledger [b]) mod cs_p5 * 1000003 mod cs_p5 =
      (cs_key a + cs_ledger [b']) mod cs_p5 * 1000003 mod cs_p5"
    using cs_letters_inj [of _ 5 _ "[]" "[]"] by (simp add: checksum_key assms)
  then have "(cs_key a + cs_ledger [b]) mod cs_p5 = (cs_key a + cs_ledger [b']) mod cs_p5"
    by (rule mult_mod_cancel [where i = 8610443]) simp_all
  then have "(cs_ledger [b] + cs_key a) mod cs_p5 = (cs_ledger [b'] + cs_key a) mod cs_p5"
    by (simp only: add.commute)
  then have "cs_ledger [b] = cs_ledger [b']"
    by (rule add_mod_cancel) (simp_all add: cs_ledger_byte)
  then have "unat b * 8281857 mod cs_p5 = unat b' * 8281857 mod cs_p5"
    by (simp only: cs_ledger_byte)
  moreover have "unat b < cs_p5" "unat b' < cs_p5"
    using unat_byte_less [of b] unat_byte_less [of b'] by linarith+
  moreover have "8281857 * 5904001 mod cs_p5 = 1" by simp
  ultimately have "unat b = unat b'" using mult_mod_cancel by blast
  then show "b = b'" by (simp only: word_unat_eq_iff)
qed simp

text \<open>
  A checksum tells the networks apart: for one address, ledger ids of one byte (as
  those of all the known networks) give the same checksum only when they are equal.
\<close>

theorem checksum_tells_ledgers:
  assumes "addr_ok a"
  shows "checksum [b] a = checksum [b'] a \<longleftrightarrow> b = b'"
  by (rule checksum_byte [OF assms])

theorem checksum_tells_ledgers_witness: "checksum [0] ''0.0.123'' \<noteq> checksum [1] ''0.0.123''"
  using checksum_tells_ledgers [of "''0.0.123''" 0 1]
  by (simp add: addr_digit_def is_digit_def char_code_def)

subsection \<open>Parsing what was printed\<close>

definition checksum_suffix :: "string option \<Rightarrow> string" where
  "checksum_suffix k = (case k of None \<Rightarrow> '''' | Some w \<Rightarrow> ''-'' @ w)"

definition checksum_shape :: "string option \<Rightarrow> bool" where
  "checksum_shape k \<longleftrightarrow> (case k of None \<Rightarrow> True | Some w \<Rightarrow> length w = 5 \<and> list_all is_lower w)"

lemma match_run_piece:
  assumes "a \<noteq> []" "list_all p a" "r = [] \<or> \<not> p (hd r)"
  shows "match_run p (a @ r) = Some (a, r)"
proof -
  have "takeWhile p r = []" "dropWhile p r = r" using assms(3) by (cases r; simp)+
  then have "takeWhile p (a @ r) = a" "dropWhile p (a @ r) = r"
    using assms(2) by (simp_all add: list_all_iff)
  then show ?thesis using assms(1) by (simp add: match_run_def)
qed

lemma match_checksum_suffix: "checksum_shape k \<Longrightarrow> match_checksum (checksum_suffix k) = Some k"
  by (auto simp: checksum_shape_def checksum_suffix_def match_checksum_def split: option.splits)

lemma not_class [simp]:
  "\<not> is_digit CHR ''.''" "\<not> is_digit CHR ''-''" "\<not> is_hex CHR ''-''" "\<not> is_hex CHR ''.''"
  by (simp_all add: is_digit_def is_hex_def hex_val_def char_code_def)

lemma suffix_not_hex: "checksum_suffix k = [] \<or> \<not> is_hex (hd (checksum_suffix k))"
  by (auto simp: checksum_suffix_def split: option.split)

lemma splitter_parts:
  assumes "a \<noteq> []" "list_all is_digit a" "b \<noteq> []" "list_all is_digit b"
    and "c \<noteq> []" "list_all is_hex c" "checksum_shape k"
  shows "fromStringSplitter (a @ ''.'' @ b @ ''.'' @ c @ checksum_suffix k) =
    Inr \<lparr>ip_shard = a, ip_realm = b, ip_numOrHex = c, ip_checksum = k\<rparr>"
proof -
  have "match_run is_hex (c @ checksum_suffix k) = Some (c, checksum_suffix k)"
    by (rule match_run_piece [OF assms(5,6) suffix_not_hex])
  moreover have "match_run is_digit (b @ CHR ''.'' # c @ checksum_suffix k) =
      Some (b, CHR ''.'' # c @ checksum_suffix k)"
    by (rule match_run_piece [OF assms(3,4)]) simp
  moreover have "match_run is_digit (a @ CHR ''.'' # b @ CHR ''.'' # c @ checksum_suffix k) =
      Some (a, CHR ''.'' # b @ CHR ''.'' # c @ checksum_suffix k)"
    by (rule match_run_piece [OF assms(1,2)]) simp
  ultimately show ?thesis
    using match_checksum_suffix [OF assms(7)] by (simp add: fromStringSplitter_def match_entity_id_def)
qed

lemma is_digit_is_hex: "is_digit c \<Longrightarrow> is_hex c"
  by (auto simp: is_digit_def is_hex_def hex_val_def)

lemma dec_hex: "list_all is_hex (dec n)"
  using dec_digits [of n] is_digit_is_hex by (auto simp: list_all_iff)

lemma length_cs_letters: "length (cs_letters k c ans) = k + length ans"
  by (induction k arbitrary: c ans) auto

lemma lower_cs_letters: "list_all is_lower ans \<Longrightarrow> list_all is_lower (cs_letters k c ans)"
proof (induction k arbitrary: c ans)
  case (Suc k)
  have "c mod 26 < 26" by simp
  then have "is_lower (char_of (97 + c mod 26))" by (simp add: is_lower_def char_code_def del: mod_less_divisor)
  with Suc show ?case by simp
qed simp

lemma checksum_is_shaped: "addr_ok t \<Longrightarrow> checksum_shape (Some (checksum l t))"
  by (simp add: checksum_shape_def checksum_key length_cs_letters lower_cs_letters)

lemma addr_ok_digits: "list_all is_digit t \<Longrightarrow> addr_ok t"
  by (auto simp: addr_ok_def list_all_iff addr_digit_def)

lemma addr_digit_dot [simp]: "addr_digit CHR ''.'' = Some 10"
  by (simp add: addr_digit_def)

lemma entity_text_dec:
  assumes "long_text print parse" "id_valid (s, r, n)"
  shows "entity_text print (s, r, n) = dec (unat s) @ ''.'' @ dec (unat r) @ ''.'' @ dec (unat n)"
  using assms long_print_parse(2) [OF assms(1)] by (simp add: entity_text_def id_valid_def)

lemma entity_text_ok:
  assumes "long_text print parse" "id_valid i"
  shows "addr_ok (entity_text print i)"
proof (cases i)
  case (fields s r n)
  with assms show ?thesis
    using entity_text_dec [OF assms(1), of s r n] by (simp add: addr_ok_digits dec_digits)
qed

lemma entity_round_trip:
  assumes "long_text print parse" "id_valid i" "checksum_shape k"
  shows "entity_fromString parse (entity_text print i @ checksum_suffix k) = Inr (i, k)"
proof (cases i)
  case (fields s r n)
  have v: "0 \<le> sint s" "0 \<le> sint r" "0 \<le> sint n" using assms(2) fields by (simp_all add: id_valid_def)
  note p = long_print_parse [OF assms(1) v(1)] long_print_parse [OF assms(1) v(2)]
    long_print_parse [OF assms(1) v(3)]
  have "fromStringSplitter (dec (unat s) @ ''.'' @ dec (unat r) @ ''.'' @ dec (unat n) @ checksum_suffix k) =
      Inr \<lparr>ip_shard = dec (unat s), ip_realm = dec (unat r), ip_numOrHex = dec (unat n), ip_checksum = k\<rparr>"
    by (rule splitter_parts) (simp_all add: dec_digits dec_hex assms(3))
  then show ?thesis using p assms(2) fields
    by (simp add: entity_fromString_def entity_text_dec [OF assms(1)])
qed

text \<open>
  C33. Entity ids survive printing and parsing, with and without a checksum, and the
  checksum does its work: an id printed for a ledger of one byte and parsed again
  validates on that ledger and on no other ledger of one byte.
\<close>

theorem entity_ids_round_trip:
  assumes "long_text print parse" "id_valid i"
  shows "entity_fromString parse (entity_text print i) = Inr (i, None) \<and>
    (\<exists>t k. toStringWithChecksum (Some [b]) (entity_text print i) = Inr t \<and>
       entity_fromString parse t = Inr (i, Some k) \<and>
       (\<forall>b'. validateChecksum print (Some [b']) i (Some k) = Inr () \<longleftrightarrow> b' = b))"
proof
  let ?t = "entity_text print i" and ?k = "checksum [b] (entity_text print i)"
  show "entity_fromString parse ?t = Inr (i, None)"
    using entity_round_trip [OF assms, of None] by (simp add: checksum_suffix_def checksum_shape_def)
  have ok: "addr_ok ?t" by (rule entity_text_ok [OF assms])
  have "entity_fromString parse (?t @ ''-'' @ ?k) = Inr (i, Some ?k)"
    using entity_round_trip [OF assms checksum_is_shaped [OF ok]] by (simp add: checksum_suffix_def)
  moreover have "validateChecksum print (Some [b']) i (Some ?k) = Inr () \<longleftrightarrow>
      checksum [b] ?t = checksum [b'] ?t" for b'
    by (simp add: validateChecksum_def Let_def)
  ultimately show "\<exists>t k. toStringWithChecksum (Some [b]) ?t = Inr t \<and>
       entity_fromString parse t = Inr (i, Some k) \<and>
       (\<forall>b'. validateChecksum print (Some [b']) i (Some k) = Inr () \<longleftrightarrow> b' = b)"
    using checksum_byte [OF ok] by (auto simp: toStringWithChecksum_def)
qed

text \<open>A pair of conversions as \<open>long_text\<close> asks for.\<close>

definition std_print :: "long \<Rightarrow> string" where
  "std_print w = (if sint w < 0 then CHR ''-'' # dec (nat (- sint w)) else dec (nat (sint w)))"

definition std_parse :: "string \<Rightarrow> long js" where
  "std_parse t =
     (if t = [] \<or> \<not> list_all is_digit t then Inl (LibraryError ''long'')
      else Inr (word_of_nat (parse_dec t)))"

lemma std_long_text: "long_text std_print std_parse"
  by (auto simp: long_text_def std_print_def std_parse_def dec_digits)

theorem entity_ids_round_trip_witness:
  "entity_fromString std_parse (entity_text std_print (0, 0, 123)) = Inr ((0, 0, 123), None)"
  using entity_ids_round_trip [OF std_long_text, of "(0, 0, 123)" 0] by (simp add: id_valid_def)

subsection \<open>Solidity addresses\<close>

text \<open>
  \<open>convertToNumber\<close> of a \<open>Long\<close>: \<open>parseInt\<close> of its decimal text, rounded to a double;
  \<open>setUint32\<close> keeps the integer modulo \<open>2 ^ 32\<close>.
\<close>

definition convertToNumber :: "(long \<Rightarrow> string) \<Rightarrow> long \<Rightarrow> int" where
  "convertToNumber print w =
     (case print w of
        c # t \<Rightarrow> if c = CHR ''-'' then - int (double_of_nat (parse_dec t))
                 else int (double_of_nat (parse_dec (c # t)))
      | [] \<Rightarrow> 0)"

definition setUint32 :: "bytes \<Rightarrow> nat \<Rightarrow> int \<Rightarrow> bytes" where
  "setUint32 buffer i n =
     take i buffer @ bytes_of_nat 4 (nat (n mod 2 ^ 32)) @ drop (i + 4) buffer"

definition toSolidityAddress :: "(long \<Rightarrow> string) \<Rightarrow> id_triple \<Rightarrow> string" where
  "toSolidityAddress print i =
     (case i of (shard, realm, num) \<Rightarrow>
        let buffer = replicate 20 0;
            buffer = setUint32 buffer 0 (convertToNumber print shard);
            buffer = setUint32 buffer 8 (convertToNumber print realm);
            buffer = setUint32 buffer 16 (convertToNumber print num)
        in hex_encode buffer)"

definition fromSolidityAddress :: "string \<Rightarrow> id_triple js" where
  "fromSolidityAddress address =
     (let addr = (if take 2 address = ''0x'' then hex_decode (drop 2 address) else hex_decode address)
      in if length addr \<noteq> 20 then Inl BadSolidityAddress
         else Inr (word_of_nat (nat_of_bytes ([0, 0, 0, 0] @ take 4 addr)),
                   word_of_nat (nat_of_bytes (take 8 (drop 4 addr))),
                   word_of_nat (nat_of_bytes (take 8 (drop 12 addr)))))"

lemma convertToNumber_exact:
  assumes "long_text print parse" "0 \<le> sint w" "unat w < 2 ^ 53"
  shows "convertToNumber print w = int (unat w)"
proof -
  have p: "print w = dec (unat w)" by (rule long_print_parse(2) [OF assms(1,2)])
  obtain c t where d: "dec (unat w) = c # t" by (cases "dec (unat w)") auto
  then have "is_digit c" using dec_digits [of "unat w"] by simp
  then have "c \<noteq> CHR ''-''" by (auto simp: is_digit_def char_code_def)
  moreover have "parse_dec (c # t) = unat w" by (metis d parse_dec_dec)
  ultimately show ?thesis
    using p d assms(3) by (simp add: convertToNumber_def double_of_nat_exact)
qed

lemma solidity_buffer:
  "setUint32 (setUint32 (setUint32 (replicate 20 0) 0 a) 8 b) 16 c =
     bytes_of_nat 4 (nat (a mod 2 ^ 32)) @ replicate 4 0 @ bytes_of_nat 4 (nat (b mod 2 ^ 32)) @
     replicate 4 0 @ bytes_of_nat 4 (nat (c mod 2 ^ 32))"
  by (simp add: setUint32_def)

lemma nat_of_bytes_zeros [simp]: "nat_of_bytes (replicate k 0 @ bs) = nat_of_bytes bs"
  by (induction k) auto

text \<open>
  The Solidity form of an id keeps 32 bits of each number: below \<open>2 ^ 53\<close> an id
  read back from its Solidity address has its three numbers modulo \<open>2 ^ 32\<close>, so it is
  the same id exactly when all three are below \<open>2 ^ 32\<close>.
\<close>

theorem solidity_round_trip:
  assumes "long_text print parse" "id_valid (s, r, n)"
    and "unat s < 2 ^ 53" "unat r < 2 ^ 53" "unat n < 2 ^ 53"
  shows "fromSolidityAddress (toSolidityAddress print (s, r, n)) =
      Inr (take_bit 32 s, take_bit 32 r, take_bit 32 n) \<and>
    (fromSolidityAddress (toSolidityAddress print (s, r, n)) = Inr (s, r, n) \<longleftrightarrow>
      unat s < 2 ^ 32 \<and> unat r < 2 ^ 32 \<and> unat n < 2 ^ 32)"
proof -
  have v: "0 \<le> sint s" "0 \<le> sint r" "0 \<le> sint n" using assms(2) by (simp_all add: id_valid_def)
  let ?b = "\<lambda>w :: long. bytes_of_nat 4 (unat w mod 2 ^ 32)"
  let ?a = "?b s @ replicate 4 0 @ ?b r @ replicate 4 0 @ ?b n"
  have "toSolidityAddress print (s, r, n) = hex_encode ?a"
    using convertToNumber_exact [OF assms(1) v(1) assms(3)] convertToNumber_exact [OF assms(1) v(2) assms(4)]
      convertToNumber_exact [OF assms(1) v(3) assms(5)]
    by (simp add: toSolidityAddress_def solidity_buffer nat_mod_distrib Let_def)
  moreover have "fromSolidityAddress (hex_encode ?a) =
      Inr (word_of_nat (unat s mod 2 ^ 32), word_of_nat (unat r mod 2 ^ 32), word_of_nat (unat n mod 2 ^ 32))"
  proof -
    have "take 2 (hex_encode ?a) \<noteq> ''0x''" by (rule hex_encode_no_prefix)
    then show ?thesis
      by (simp add: fromSolidityAddress_def nat_of_bytes_of_nat del: take_eq_Nil)
  qed
  moreover have "word_of_nat (unat w mod 2 ^ 32) = take_bit 32 w" for w :: long
  proof -
    have "unat w mod 2 ^ 32 < 2 ^ 64" by (rule less_trans [of _ "2 ^ 32"]) simp_all
    then have "take_bit 64 (unat w mod 2 ^ 32) = unat w mod 2 ^ 32" by (rule take_bit_nat_eq_self)
    then show ?thesis
      by (simp add: word_unat_eq_iff unsigned_of_nat unsigned_take_bit_eq
          take_bit_eq_mod [of 32 "unat w"] del: word_unat_eq_iff [symmetric])
  qed
  moreover have "take_bit 32 w = w \<longleftrightarrow> unat w < 2 ^ 32" for w :: long
    by (simp add: word_unat_eq_iff unsigned_take_bit_eq take_bit_nat_eq_self_iff)
  ultimately show ?thesis by simp
qed

theorem solidity_round_trip_witness:
  "fromSolidityAddress (toSolidityAddress std_print (0, 0, 4294967301)) = Inr (0, 0, 5)"
proof -
  have "id_valid (0, 0, 4294967301)" by (simp add: id_valid_def)
  from solidity_round_trip [OF std_long_text this] show ?thesis by (simp add: take_bit_eq_mod)
qed

end
