(* ===== verification/AccountId.thy ===== *)
theory AccountId
  imports EntityId
begin

text \<open>
  \<open>src/src/account/AccountId.js\<close>, \<open>token/TokenId.js\<close> and \<open>token/NftId.js\<close>.  The alias of an
  account is a public key of the package \<open>cryptography\<close>; keys are a type parameter with
  their printing, parsing and comparison as arguments.
\<close>

subsection \<open>State and construction\<close>

record 'k account_id =
  ac_shard :: long
  ac_realm :: long
  ac_num :: long
  ac_aliasKey :: "'k option"
  ac_evmAddress :: "evm_address option"
  ac_checksum :: "string option"

definition account_new ::
  "id_props \<Rightarrow> long option \<Rightarrow> long option \<Rightarrow> 'k option \<Rightarrow> evm_address option \<Rightarrow> 'k account_id js" where
  "account_new props realm num key evm =
     js_bind (entity_constructor props realm num) (\<lambda>(s, r, n).
       Inr \<lparr>ac_shard = s, ac_realm = r, ac_num = n, ac_aliasKey = key, ac_evmAddress = evm,
            ac_checksum = None\<rparr>)"

definition account_fromString ::
  "(string \<Rightarrow> long js) \<Rightarrow> (string \<Rightarrow> 'k js) \<Rightarrow> string \<Rightarrow> 'k account_id js" where
  "account_fromString parse pk_parse t =
     (if take 2 t = ''0x'' \<and> length t = 42 \<or> length t = 40
      then account_new (Num 0) (Some 0) (Some 0) None (Some (evm_fromString t))
      else
        js_bind (fromStringSplitter t) (\<lambda>p.
        js_bind (parse (ip_shard p)) (\<lambda>s.
        js_bind (parse (ip_realm p)) (\<lambda>r.
          if length (ip_numOrHex p) < 20 then
            js_bind (parse (ip_numOrHex p)) (\<lambda>n. account_new (Num s) (Some r) (Some n) None None)
          else if length (ip_numOrHex p) = 40 then
            account_new (Num s) (Some r) (Some 0) None (Some (evm_fromString (ip_numOrHex p)))
          else
            js_bind (pk_parse (ip_numOrHex p)) (\<lambda>k.
              account_new (Num s) (Some r) (Some 0) (Some k) None)))))"

definition account_fromEvmAddress :: "long \<Rightarrow> long \<Rightarrow> evm_address + string \<Rightarrow> 'k account_id js" where
  "account_fromEvmAddress s r a =
     account_new (Num s) (Some r) (Some 0) None
       (Some (case a of Inl e \<Rightarrow> e | Inr t \<Rightarrow> evm_fromString t))"

definition account_fromEvmPublicAddress :: "evm_address \<Rightarrow> 'k account_id js" where
  "account_fromEvmPublicAddress a = account_new (Num 0) (Some 0) (Some 0) None (Some a)"

definition account_fromSolidityAddress :: "string \<Rightarrow> 'k account_id js" where
  "account_fromSolidityAddress t =
     js_bind (fromSolidityAddress t) (\<lambda>(s, r, n). account_new (Num s) (Some r) (Some n) None None)"

definition account_triple :: "'k account_id \<Rightarrow> id_triple" where
  "account_triple a = (ac_shard a, ac_realm a, ac_num a)"

definition account_toSolidityAddress :: "(long \<Rightarrow> string) \<Rightarrow> 'k account_id \<Rightarrow> string" where
  "account_toSolidityAddress print a = toSolidityAddress print (account_triple a)"

definition account_toString :: "(long \<Rightarrow> string) \<Rightarrow> ('k \<Rightarrow> string) \<Rightarrow> 'k account_id \<Rightarrow> string" where
  "account_toString print pk_print a =
     (let account =
        (case ac_aliasKey a of
           Some k \<Rightarrow> pk_print k
         | None \<Rightarrow>
             (case ac_evmAddress a of Some e \<Rightarrow> evm_toString e | None \<Rightarrow> print (ac_num a)))
      in print (ac_shard a) @ ''.'' @ print (ac_realm a) @ ''.'' @ account)"

definition account_validateChecksum ::
  "(long \<Rightarrow> string) \<Rightarrow> ledger_id option \<Rightarrow> 'k account_id \<Rightarrow> unit js" where
  "account_validateChecksum print ledger a =
     (if ac_aliasKey a \<noteq> None then Inl AliasChecksum
      else validateChecksum print ledger (account_triple a) (ac_checksum a))"

definition account_toStringWithChecksum ::
  "(long \<Rightarrow> string) \<Rightarrow> ('k \<Rightarrow> string) \<Rightarrow> ledger_id option \<Rightarrow> 'k account_id \<Rightarrow> string js" where
  "account_toStringWithChecksum print pk_print ledger a =
     (if ac_aliasKey a \<noteq> None then Inl AliasChecksum
      else toStringWithChecksum ledger (account_toString print pk_print a))"

definition account_clone :: "'k account_id \<Rightarrow> 'k account_id js" where
  "account_clone a =
     js_bind (account_new (Props (Some (ac_shard a)) (Some (ac_realm a)) (ac_num a)) None None None None)
       (\<lambda>c. Inr (c\<lparr>ac_checksum := ac_checksum a, ac_aliasKey := ac_aliasKey a,
                    ac_evmAddress := ac_evmAddress a\<rparr>))"

definition account_equals ::
  "('k \<Rightarrow> 'k \<Rightarrow> bool) \<Rightarrow> 'k account_id \<Rightarrow> 'k account_id \<Rightarrow> bool" where
  "account_equals pk_equals a b =
     (let account =
        (case (ac_aliasKey a, ac_aliasKey b) of
           (Some j, Some k) \<Rightarrow> pk_equals j k
         | (ka, kb) \<Rightarrow>
             (case (ac_evmAddress a, ac_evmAddress b) of
                (Some d, Some e) \<Rightarrow> evm_equals d e
              | (ea, eb) \<Rightarrow>
                  if ka = None \<and> kb = None \<and> ea = None \<and> eb = None
                  then ac_num a = ac_num b else False))
      in ac_shard a = ac_shard b \<and> ac_realm a = ac_realm b \<and> account)"

text \<open>The order of JavaScript strings, by character codes.\<close>

fun str_less :: "string \<Rightarrow> string \<Rightarrow> bool" where
  "str_less s [] = False"
| "str_less [] (d # t) = True"
| "str_less (c # s) (d # t) =
     (if char_code c = char_code d then str_less s t else char_code c < char_code d)"

definition str_compare :: "string \<Rightarrow> string \<Rightarrow> int" where
  "str_compare t s = (if str_less s t then 1 else if str_less t s then -1 else 0)"

definition account_compare ::
  "('k \<Rightarrow> string) \<Rightarrow> 'k account_id \<Rightarrow> 'k account_id \<Rightarrow> int" where
  "account_compare pk_print a b =
     (if long_compare (ac_shard a) (ac_shard b) \<noteq> 0 then long_compare (ac_shard a) (ac_shard b)
      else if long_compare (ac_realm a) (ac_realm b) \<noteq> 0 then long_compare (ac_realm a) (ac_realm b)
      else
        (case (ac_aliasKey a, ac_aliasKey b) of
           (Some j, Some k) \<Rightarrow> str_compare (pk_print j) (pk_print k)
         | (ka, kb) \<Rightarrow>
             (case (ac_evmAddress a, ac_evmAddress b) of
                (Some d, Some e) \<Rightarrow> str_compare (evm_toString d) (evm_toString e)
              | (ea, eb) \<Rightarrow>
                  if ka = None \<and> kb = None \<and> ea = None \<and> eb = None
                  then long_compare (ac_num a) (ac_num b) else 1)))"

subsection \<open>Token and NFT ids\<close>

record token_id =
  tk_ids :: id_triple
  tk_checksum :: "string option"

definition token_new :: "id_props \<Rightarrow> long option \<Rightarrow> long option \<Rightarrow> token_id js" where
  "token_new props realm num =
     js_bind (entity_constructor props realm num) (\<lambda>i. Inr \<lparr>tk_ids = i, tk_checksum = None\<rparr>)"

definition token_fromString :: "(string \<Rightarrow> long js) \<Rightarrow> string \<Rightarrow> token_id js" where
  "token_fromString parse t =
     js_bind (entity_fromString parse t) (\<lambda>((s, r, n), k).
     js_bind (token_new (Props (Some s) (Some r) n) None None) (\<lambda>i. Inr (i\<lparr>tk_checksum := k\<rparr>)))"

definition token_validateChecksum :: "(long \<Rightarrow> string) \<Rightarrow> ledger_id option \<Rightarrow> token_id \<Rightarrow> unit js" where
  "token_validateChecksum print ledger i = validateChecksum print ledger (tk_ids i) (tk_checksum i)"

definition token_fromSolidityAddress :: "string \<Rightarrow> token_id js" where
  "token_fromSolidityAddress t =
     js_bind (fromSolidityAddress t) (\<lambda>(s, r, n). token_new (Num s) (Some r) (Some n))"

definition token_toSolidityAddress :: "(long \<Rightarrow> string) \<Rightarrow> token_id \<Rightarrow> string" where
  "token_toSolidityAddress print i = toSolidityAddress print (tk_ids i)"

definition token_toString :: "(long \<Rightarrow> string) \<Rightarrow> token_id \<Rightarrow> string" where
  "token_toString print i = entity_text print (tk_ids i)"

definition token_toStringWithChecksum :: "(long \<Rightarrow> string) \<Rightarrow> ledger_id option \<Rightarrow> token_id \<Rightarrow> string js" where
  "token_toStringWithChecksum print ledger i = toStringWithChecksum ledger (token_toString print i)"

definition token_clone :: "token_id \<Rightarrow> token_id js" where
  "token_clone i =
     (case tk_ids i of (s, r, n) \<Rightarrow>
        js_bind (token_new (Props (Some s) (Some r) n) None None)
          (\<lambda>c. Inr (c\<lparr>tk_checksum := tk_checksum i\<rparr>)))"

definition token_compare :: "token_id \<Rightarrow> token_id \<Rightarrow> int" where
  "token_compare a b = entity_compare (tk_ids a) (tk_ids b)"

record nft_id =
  nf_tokenId :: token_id
  nf_serial :: long

definition nft_fromString :: "(string \<Rightarrow> long js) \<Rightarrow> string \<Rightarrow> nft_id js" where
  "nft_fromString parse t =
     (let strings = (if 1 < length (js_split CHR ''/'' t) then js_split CHR ''/'' t
                     else js_split CHR ''@'' t)
      in if [] \<in> set strings then Inl BadEntityId
         else js_bind (token_fromString parse (strings ! 0)) (\<lambda>i.
              case js_nth strings 1 of
                None \<Rightarrow> Inl (LibraryError ''long'')
              | Some u \<Rightarrow> js_bind (parse u) (\<lambda>n. Inr \<lparr>nf_tokenId = i, nf_serial = n\<rparr>)))"

definition nft_toString :: "(long \<Rightarrow> string) \<Rightarrow> nft_id \<Rightarrow> string" where
  "nft_toString print i = token_toString print (nf_tokenId i) @ ''/'' @ print (nf_serial i)"

subsection \<open>Orders\<close>

lemma str_less_irrefl [simp]: "\<not> str_less s s"
  by (induction s) auto

lemma str_less_trans: "str_less s t \<Longrightarrow> str_less t u \<Longrightarrow> str_less s u"
proof (induction s t arbitrary: u rule: str_less.induct)
  case (2 d t)
  then show ?case by (cases u) auto
next
  case (3 c s d t)
  then show ?case by (cases u) (auto split: if_splits)
qed simp

lemma str_less_total: "\<not> str_less s t \<Longrightarrow> \<not> str_less t s \<Longrightarrow> s = t"
proof (induction s t rule: str_less.induct)
  case (1 s)
  then show ?case by (cases s) auto
next
  case (3 c s d t)
  then show ?case by (auto simp: char_code_inject split: if_splits)
qed simp

lemma str_compare_0 [simp]: "str_compare s t = 0 \<longleftrightarrow> s = t"
  using str_less_total [of s t] by (auto simp: str_compare_def)

lemma str_compare_swap: "str_compare t s = - str_compare s t"
proof -
  have "\<not> (str_less s t \<and> str_less t s)" using str_less_trans str_less_irrefl by blast
  then show ?thesis by (simp add: str_compare_def)
qed

lemma comparator_str: "comparator (\<lambda>a b. str_compare (f a) (f b)) P"
proof unfold_locales
  fix a b
  show "sgn (str_compare (f a) (f b)) = - sgn (str_compare (f b) (f a))"
    unfolding str_compare_swap [of "f a" "f b"] by (simp add: sgn_if)
next
  fix a b c assume "str_compare (f a) (f b) \<le> 0" "str_compare (f b) (f c) \<le> 0"
  then have "\<not> str_less (f b) (f a)" "\<not> str_less (f c) (f b)"
    by (auto simp: str_compare_def split: if_splits)
  then have "\<not> str_less (f c) (f a)"
    using str_less_trans str_less_total by metis
  then show "str_compare (f a) (f c) \<le> 0" by (simp add: str_compare_def)
qed

lemma comparator_cong:
  assumes "comparator g P" "\<And>a b. P a \<Longrightarrow> P b \<Longrightarrow> f a b = g a b"
  shows "comparator f P"
proof (rule comparator.intro)
  fix a b assume "P a" "P b"
  with comparator.antisym [OF assms(1) this] show "sgn (f a b) = - sgn (f b a)"
    by (simp only: assms(2))
next
  fix a b c assume P: "P a" "P b" "P c" and "f a b \<le> 0" "f b c \<le> 0"
  then have "g a b \<le> 0" "g b c \<le> 0" by (simp_all only: assms(2))
  then have "g a c \<le> 0" by (rule comparator.trans [OF assms(1) P])
  then show "f a c \<le> 0" using P by (simp only: assms(2))
qed

lemma token_compare_then:
  "token_compare = then_compare (\<lambda>a b. long_compare (fst (tk_ids a)) (fst (tk_ids b)))
     (then_compare (\<lambda>a b. long_compare (fst (snd (tk_ids a))) (fst (snd (tk_ids b))))
       (\<lambda>a b. long_compare (snd (snd (tk_ids a))) (snd (snd (tk_ids b)))))"
  by (auto simp: fun_eq_iff token_compare_def entity_compare_def then_compare_def Let_def split: prod.split)

interpretation token_order: comparator token_compare "\<lambda>_. True"
  unfolding token_compare_then long_compare_def by (intro comparator_then comparator_key)

definition account_kind :: "'k account_id \<Rightarrow> bool \<times> bool" where
  "account_kind a = (ac_aliasKey a \<noteq> None, ac_evmAddress a \<noteq> None)"

definition account_tail :: "('k \<Rightarrow> string) \<Rightarrow> bool \<times> bool \<Rightarrow> 'k account_id \<Rightarrow> 'k account_id \<Rightarrow> int" where
  "account_tail pk_print kd =
     (if fst kd then (\<lambda>a b. str_compare (pk_print (the (ac_aliasKey a))) (pk_print (the (ac_aliasKey b))))
      else if snd kd then
        (\<lambda>a b. str_compare (evm_toString (the (ac_evmAddress a))) (evm_toString (the (ac_evmAddress b))))
      else (\<lambda>a b. long_compare (ac_num a) (ac_num b)))"

lemma account_compare_then:
  assumes "account_kind a = kd" "account_kind b = kd"
  shows "account_compare pk_print a b =
    then_compare (\<lambda>a b. long_compare (ac_shard a) (ac_shard b))
      (then_compare (\<lambda>a b. long_compare (ac_realm a) (ac_realm b)) (account_tail pk_print kd)) a b"
  using assms
  by (auto simp: account_compare_def then_compare_def Let_def account_tail_def account_kind_def
      split: option.split)

interpretation account_order: comparator "account_compare pk_print" "\<lambda>a. account_kind a = kd"
  for pk_print :: "'k \<Rightarrow> string" and kd
proof (rule comparator_cong)
  have "comparator (account_tail pk_print kd) (\<lambda>a. account_kind a = kd)"
    unfolding account_tail_def long_compare_def by (simp add: comparator_str comparator_key)
  then show "comparator (then_compare (\<lambda>a b. long_compare (ac_shard a) (ac_shard b))
      (then_compare (\<lambda>a b. long_compare (ac_realm a) (ac_realm b)) (account_tail pk_print kd)))
      (\<lambda>a. account_kind a = kd)"
    unfolding long_compare_def by (intro comparator_then comparator_key)
qed (rule account_compare_then)

text \<open>
  Account ids are ordered consistently only within one kind (number, alias or EVM
  address): sorting accounts of one kind sorts them, and comparing two of one kind in
  the two directions gives opposite results; for two accounts of one shard and realm
  of which one is a plain number and the other is not, compare is 1 both ways.
\<close>

theorem account_order_by_kind:
  assumes "\<forall>a \<in> set as. account_kind a = kd"
    and "ac_shard m = ac_shard n" "ac_realm m = ac_realm n"
    and "account_kind m = (False, False)" "account_kind n \<noteq> (False, False)"
  shows "sorted_wrt (\<lambda>a b. account_compare pk_print a b \<le> 0) (js_sort (account_compare pk_print) as) \<and>
    (\<forall>a \<in> set as. \<forall>b \<in> set as.
      sgn (account_compare pk_print a b) = - sgn (account_compare pk_print b a)) \<and>
    account_compare pk_print m n = 1 \<and> account_compare pk_print n m = 1"
proof (intro conjI)
  show "sorted_wrt (\<lambda>a b. account_compare pk_print a b \<le> 0) (js_sort (account_compare pk_print) as)"
    using assms(1) by (intro account_order.sorted_sort)
  show "\<forall>a \<in> set as. \<forall>b \<in> set as.
      sgn (account_compare pk_print a b) = - sgn (account_compare pk_print b a)"
    using assms(1) by (blast intro: account_order.antisym)
  show "account_compare pk_print m n = 1" "account_compare pk_print n m = 1"
    using assms(2-5)
    by (auto simp: account_compare_def long_compare_def int_compare_def account_kind_def split: option.split)
qed

theorem account_order_by_kind_witness:
  "account_compare id \<lparr>ac_shard = 0, ac_realm = 0, ac_num = 5, ac_aliasKey = None,
      ac_evmAddress = None, ac_checksum = None\<rparr>
    \<lparr>ac_shard = 0, ac_realm = 0, ac_num = 0, ac_aliasKey = Some ''k'',
      ac_evmAddress = None, ac_checksum = None\<rparr> = 1"
  using account_order_by_kind [of "[]" _ "\<lparr>ac_shard = 0, ac_realm = 0, ac_num = 5, ac_aliasKey = None,
      ac_evmAddress = None, ac_checksum = None\<rparr>" "\<lparr>ac_shard = 0, ac_realm = 0, ac_num = 0,
      ac_aliasKey = Some ''k'', ac_evmAddress = None, ac_checksum = None\<rparr>" id]
  by (simp add: account_kind_def)

text \<open>
  Comparing token ids is a total order on their numbers, so that sorting a list of
  token ids by it gives a sorted permutation in which equal ids are neighbours.
\<close>

theorem token_order_sorts:
  "sorted_wrt (\<lambda>a b. token_compare a b \<le> 0) (js_sort token_compare ts) \<and>
   mset (js_sort token_compare ts) = mset ts \<and>
   (token_compare a b = 0 \<longleftrightarrow> tk_ids a = tk_ids b) \<and>
   sgn (token_compare a b) = - sgn (token_compare b a)"
proof (intro conjI)
  show "sorted_wrt (\<lambda>a b. token_compare a b \<le> 0) (js_sort token_compare ts)"
    by (rule token_order.sorted_sort) simp
  show "sgn (token_compare a b) = - sgn (token_compare b a)" by (rule token_order.antisym) simp_all
  have "sint u = sint w \<longleftrightarrow> u = w" for u w :: long
    by (auto intro: signed_word_eqI)
  then show "token_compare a b = 0 \<longleftrightarrow> tk_ids a = tk_ids b"
    by (auto simp: token_compare_def entity_compare_def long_compare_def int_compare_def
        split: prod.split)
qed (rule mset_js_sort)

subsection \<open>Text\<close>

definition plain_account :: "id_triple \<Rightarrow> 'k account_id" where
  "plain_account i =
     (case i of (s, r, n) \<Rightarrow>
        \<lparr>ac_shard = s, ac_realm = r, ac_num = n, ac_aliasKey = None, ac_evmAddress = None,
         ac_checksum = None\<rparr>)"

lemma length_dec_long: "0 \<le> sint (w :: long) \<Longrightarrow> length (dec (unat w)) \<le> 19"
proof (rule length_dec_bound)
  assume "0 \<le> sint w"
  moreover have "sint w < 2 ^ 63" using sint_lt [of w] by simp
  ultimately have "nat (sint w) < 2 ^ 63" by simp
  then show "unat w < 10 ^ 19" using long_nat [OF \<open>0 \<le> sint w\<close>] by simp
qed simp

lemma digits_no_0x:
  assumes "list_all is_digit a"
  shows "take 2 (a @ CHR ''.'' # t) \<noteq> ''0x''"
proof -
  have "is_digit CHR ''x'' = False" by (simp add: is_digit_def char_code_def)
  then show ?thesis using assms by (cases a; cases "tl a") auto
qed

lemma account_fromString_parts:
  assumes "long_text print parse" "0 \<le> sint s" "0 \<le> sint r" "list_all is_hex c" "c \<noteq> []"
    and "length (print s @ ''.'' @ print r @ ''.'' @ c @ checksum_suffix k) \<noteq> 40" "checksum_shape k"
  shows "account_fromString parse pk_parse (print s @ ''.'' @ print r @ ''.'' @ c @ checksum_suffix k) =
    (if length c < 20 then
       js_bind (parse c) (\<lambda>n. account_new (Num s) (Some r) (Some n) None None)
     else if length c = 40 then
       account_new (Num s) (Some r) (Some 0) None (Some (evm_fromString c))
     else js_bind (pk_parse c) (\<lambda>k. account_new (Num s) (Some r) (Some 0) (Some k) None))"
proof -
  note p = long_print_parse [OF assms(1,2)] long_print_parse [OF assms(1,3)]
  have "fromStringSplitter (print s @ ''.'' @ print r @ ''.'' @ c @ checksum_suffix k) =
      Inr \<lparr>ip_shard = print s, ip_realm = print r, ip_numOrHex = c, ip_checksum = k\<rparr>"
    by (rule splitter_parts) (simp_all add: p dec_digits assms(4,5,7))
  moreover have "take 2 (print s @ ''.'' @ print r @ ''.'' @ c @ checksum_suffix k) \<noteq> ''0x''"
    using digits_no_0x [OF dec_digits] p by simp
  ultimately show ?thesis
    using assms(6) p(1,3) by (simp add: account_fromString_def)
qed

lemma account_plain_round_trip:
  assumes "long_text print parse" "id_valid (s, r, n)" "checksum_shape k"
    and "length (entity_text print (s, r, n) @ checksum_suffix k) \<noteq> 40"
  shows "account_fromString parse pk_parse (entity_text print (s, r, n) @ checksum_suffix k) =
      Inr (plain_account (s, r, n))"
proof -
  have v: "0 \<le> sint s" "0 \<le> sint r" "0 \<le> sint n" using assms(2) by (simp_all add: id_valid_def)
  have p: "print n = dec (unat n)" "parse (print n) = Inr n"
    using long_print_parse [OF assms(1) v(3)] by simp_all
  have "account_fromString parse pk_parse (print s @ ''.'' @ print r @ ''.'' @ print n @ checksum_suffix k) =
      js_bind (parse (print n)) (\<lambda>n. account_new (Num s) (Some r) (Some n) None None)"
    using account_fromString_parts [OF assms(1) v(1,2), of "print n" k] assms(3,4) length_dec_long [OF v(3)]
    by (simp add: p(1) dec_hex entity_text_def)
  then show ?thesis
    using p(2) assms(2) by (simp add: entity_text_def account_new_def plain_account_def)
qed

text \<open>
  Account ids survive printing and parsing: accounts given by number (unless their
  text has exactly 40 characters, which is then taken for an EVM address) and accounts
  given by an EVM address of 20 bytes.  A checksum in the text is checked for shape but
  thrown away: the parsed account has none, and so validates on every ledger.
\<close>

theorem account_ids_round_trip:
  assumes "long_text print parse" "id_valid (s, r, n)" "length e = 20" "checksum_shape k"
    and "length (entity_text print (s, r, n) @ checksum_suffix k) \<noteq> 40"
  shows "account_fromString parse pk_parse (entity_text print (s, r, n) @ checksum_suffix k) =
      Inr (plain_account (s, r, n)) \<and>
    account_fromString parse pk_parse
        (account_toString print pk_print ((plain_account (s, r, 0))\<lparr>ac_evmAddress := Some e\<rparr>)) =
      Inr ((plain_account (s, r, 0))\<lparr>ac_evmAddress := Some e\<rparr>) \<and>
    account_validateChecksum print ledger (plain_account (s, r, n)) = Inr ()"
proof (intro conjI)
  have v: "0 \<le> sint s" "0 \<le> sint r" "0 \<le> sint n" using assms(2) by (simp_all add: id_valid_def)
  show "account_fromString parse pk_parse (entity_text print (s, r, n) @ checksum_suffix k) =
      Inr (plain_account (s, r, n))"
    by (rule account_plain_round_trip [OF assms(1,2,4,5)])
  have "list_all is_hex (hex_encode e)" using hex_encode_hex by (auto simp: list_all_iff)
  moreover have "hex_encode e \<noteq> []" using assms(3) length_hex_encode [of e] by (auto simp del: length_hex_encode)
  ultimately have "account_fromString parse pk_parse (print s @ ''.'' @ print r @ ''.'' @ hex_encode e @ checksum_suffix None) =
      account_new (Num s) (Some r) (Some 0) None (Some (evm_fromString (hex_encode e)))"
    using account_fromString_parts [OF assms(1) v(1,2), of "hex_encode e" None] assms(3)
    by (simp add: checksum_shape_def)
  then show "account_fromString parse pk_parse
        (account_toString print pk_print ((plain_account (s, r, 0))\<lparr>ac_evmAddress := Some e\<rparr>)) =
      Inr ((plain_account (s, r, 0))\<lparr>ac_evmAddress := Some e\<rparr>)"
    using v by (simp add: account_toString_def plain_account_def evm_toString_def evm_fromString_def
        account_new_def checksum_suffix_def entity_constructor_triple id_valid_def)
  show "account_validateChecksum print ledger (plain_account (s, r, n)) = Inr ()"
    by (simp add: account_validateChecksum_def plain_account_def validateChecksum_def split: option.split)
qed

theorem account_ids_round_trip_witness:
  "account_fromString std_parse (\<lambda>_. Inl BadKey :: string js) ''0.0.123-abcde'' = Inr (plain_account (0, 0, 123))"
proof -
  have t: "entity_text std_print (0, 0, 123) @ checksum_suffix (Some ''abcde'') = ''0.0.123-abcde''"
    by (simp add: entity_text_def std_print_def checksum_suffix_def dec.simps digit_char_def)
  have k: "checksum_shape (Some ''abcde'')"
    by (simp add: checksum_shape_def is_lower_def char_code_def)
  show ?thesis
    by (rule account_ids_round_trip [OF std_long_text, of 0 0 123 "replicate 20 0" "Some ''abcde''",
        unfolded t, THEN conjunct1]) (simp_all add: k id_valid_def)
qed

text \<open>
  An account with an EVM address has no usable checksum: as soon as its hexadecimal
  text has a letter, the printed checksum is five NUL characters, on every ledger.
\<close>

theorem evm_account_checksum:
  assumes "ac_aliasKey a = None" "ac_evmAddress a = Some e"
    and "\<exists>c \<in> set (evm_toString e). \<not> is_digit c"
  shows "account_toStringWithChecksum print pk_print (Some l) a =
    Inr (account_toString print pk_print a @ ''-'' @ replicate 5 (char_of (0 :: nat)))"
proof -
  from assms(3) obtain c where c: "c \<in> set (evm_toString e)" "\<not> is_digit c" by blast
  then have "is_hex c" using hex_encode_hex by (auto simp: evm_toString_def)
  then have "c \<noteq> CHR ''.''" by auto
  then have "addr_digit c = None" using c(2) by (simp add: addr_digit_def)
  moreover have "those xs = None" if "None \<in> set xs" for xs :: "nat option list"
    using that by (induction xs) (auto split: option.splits)
  moreover have "c \<in> set (account_toString print pk_print a)"
    using c(1) assms(1,2) by (simp add: account_toString_def)
  ultimately have "those (map addr_digit (account_toString print pk_print a)) = None"
    by (metis image_eqI list.set_map)
  then show ?thesis
    by (simp add: account_toStringWithChecksum_def assms(1) toStringWithChecksum_def checksum_def)
qed

theorem evm_account_checksum_witness:
  "account_toStringWithChecksum std_print id (Some [0]) ((plain_account (0, 0, 0))\<lparr>ac_evmAddress := Some [171]\<rparr>) =
     Inr (''0.0.ab-'' @ replicate 5 (char_of (0 :: nat)))"
  using evm_account_checksum [of "(plain_account (0, 0, 0))\<lparr>ac_evmAddress := Some [171]\<rparr>" "[171]" std_print id "[0]"]
  by (simp add: plain_account_def evm_toString_def hex_digit_def is_digit_def char_code_def
      account_toString_def std_print_def dec.simps digit_char_def)

end
