(* ===== verification/TxId.thy ===== *)
theory TxId
  imports AccountId "HOL-Library.Signed_Division"
begin

text \<open>
  \<open>src/src/Timestamp.js\<close> and \<open>src/src/transaction/TransactionId.js\<close>.  The clock, the drift
  of the cache and the random numbers of \<open>Timestamp.generate\<close> are arguments.
\<close>

subsection \<open>Timestamps\<close>

record timestamp =
  ts_seconds :: long
  ts_nanos :: long

definition max_ns :: long where
  "max_ns = 1000000000"

text \<open>Division and remainder of \<open>Long\<close> round towards zero; \<open>toInt\<close> keeps the low 32 bits.\<close>

definition long_div :: "long \<Rightarrow> long \<Rightarrow> long" where
  "long_div a b = word_of_int (sint a sdiv sint b)"

definition long_mod :: "long \<Rightarrow> long \<Rightarrow> long" where
  "long_mod a b = word_of_int (sint a smod sint b)"

definition long_toInt :: "long \<Rightarrow> int" where
  "long_toInt w = signed_take_bit 31 (sint w)"

definition ts_plusNanos :: "long \<Rightarrow> timestamp \<Rightarrow> timestamp" where
  "ts_plusNanos n t =
     (let ns = ts_nanos t + n
      in \<lparr>ts_seconds = ts_seconds t + long_div ns max_ns, ts_nanos = long_mod ns max_ns\<rparr>)"

text \<open>A date is a number of nanoseconds, or a \<open>Date\<close> given by its milliseconds.\<close>

datatype date = DateNumber int | DateMillis int

definition ts_fromDate :: "date \<Rightarrow> timestamp" where
  "ts_fromDate d =
     ts_plusNanos (case d of DateNumber n \<Rightarrow> word_of_int n | DateMillis m \<Rightarrow> word_of_int m * 1000000)
       \<lparr>ts_seconds = 0, ts_nanos = 0\<rparr>"

definition ts_toDate :: "timestamp \<Rightarrow> int" where
  "ts_toDate t = long_toInt (ts_seconds t) * 1000 + long_toInt (ts_nanos t) div 1000000"

definition ts_generate :: "int \<Rightarrow> int \<Rightarrow> rat \<Rightarrow> rat \<Rightarrow> timestamp" where
  "ts_generate now drift r1 r2 =
     (let jitter = int (random_index r1 5000) + 8000;
          now = now - jitter;
          seconds = now div 1000 + drift;
          nanos = (now smod 1000) * 1000000 + int (random_index r2 1000000)
      in \<lparr>ts_seconds = word_of_int seconds, ts_nanos = word_of_int nanos\<rparr>)"

text \<open>The message has the seconds as a \<open>Long\<close> and the nanoseconds as a 32-bit integer.\<close>

definition ts_toProtobuf :: "timestamp \<Rightarrow> long \<times> int" where
  "ts_toProtobuf t = (ts_seconds t, long_toInt (ts_nanos t))"

definition ts_fromProtobuf :: "long \<times> int \<Rightarrow> timestamp" where
  "ts_fromProtobuf p =
     \<lparr>ts_seconds = word_of_int (long_toInt (fst p)), ts_nanos = word_of_int (snd p)\<rparr>"

definition ts_toString :: "(long \<Rightarrow> string) \<Rightarrow> timestamp \<Rightarrow> string" where
  "ts_toString print t = print (ts_seconds t) @ ''.'' @ print (ts_nanos t)"

definition ts_compare :: "timestamp \<Rightarrow> timestamp \<Rightarrow> int" where
  "ts_compare a b =
     (let c = long_compare (ts_seconds a) (ts_seconds b)
      in if c \<noteq> 0 then c else long_compare (ts_nanos a) (ts_nanos b))"

definition ts_total :: "timestamp \<Rightarrow> int" where
  "ts_total t = sint (ts_seconds t) * 1000000000 + sint (ts_nanos t)"

definition ts_normal :: "timestamp \<Rightarrow> bool" where
  "ts_normal t \<longleftrightarrow> 0 \<le> sint (ts_nanos t) \<and> sint (ts_nanos t) < 1000000000"

definition fits_long :: "int \<Rightarrow> bool" where
  "fits_long k \<longleftrightarrow> - (2 ^ 63) \<le> k \<and> k < 2 ^ 63"

lemma sint_of_int [simp]: "fits_long k \<Longrightarrow> sint (word_of_int k :: long) = k"
  by (simp add: fits_long_def signed_of_int signed_take_bit_int_eq_self)

lemma sint_add: "fits_long (sint a + sint b) \<Longrightarrow> sint (a + b :: long) = sint a + sint b"
  using sint_of_int [of "sint a + sint b"] by simp

lemma smod_sign:
  fixes a b :: int
  assumes "0 < b"
  shows "\<bar>a smod b\<bar> < b" "0 \<le> a smod b \<longleftrightarrow> 0 \<le> a \<or> b dvd a"
proof -
  define m where "m = \<bar>a\<bar> mod b"
  have m: "0 \<le> m" "m < b" "m = 0 \<longleftrightarrow> b dvd a"
    using assms by (simp_all add: m_def dvd_eq_mod_eq_0 [symmetric])
  have "a smod b = sgn a * m" using assms by (simp add: signed_modulo_int_def m_def)
  then show "\<bar>a smod b\<bar> < b" "0 \<le> a smod b \<longleftrightarrow> 0 \<le> a \<or> b dvd a"
    using m by (auto simp: sgn_if)
qed

lemma sint_max_ns [simp]: "sint max_ns = 1000000000"
  by (simp add: max_ns_def)

lemma div_mod_ns:
  shows "sint (long_div w max_ns) = sint w sdiv 1000000000"
    and "sint (long_mod w max_ns) = sint w smod 1000000000"
proof -
  have w: "- (2 ^ 63) \<le> sint w" "sint w < 2 ^ 63" using sint_ge [of w] sint_lt [of w] by simp_all
  have "\<bar>sint w\<bar> div 1000000000 \<le> \<bar>sint w\<bar> div 2" by (rule zdiv_mono2) simp_all
  then have "\<bar>sint w sdiv 1000000000\<bar> \<le> \<bar>sint w\<bar> div 2"
    by (auto simp: signed_divide_int_def sgn_if abs_mult)
  then have "fits_long (sint w sdiv 1000000000)" using w by (auto simp: fits_long_def)
  moreover have "fits_long (sint w smod 1000000000)"
    using smod_sign(1) [of 1000000000 "sint w"] by (auto simp: fits_long_def)
  ultimately show "sint (long_div w max_ns) = sint w sdiv 1000000000"
    "sint (long_mod w max_ns) = sint w smod 1000000000"
    by (simp_all add: long_div_def long_mod_def)
qed

text \<open>
  Adding nanoseconds to a timestamp adds exactly that much time, as long as the sums
  stay within 64 bits; the nanoseconds of the result are below a second in size, but
  they are negative when the sum of the nanoseconds is negative and no whole second.
\<close>

theorem plus_nanos_adds:
  assumes "fits_long (sint (ts_nanos t) + sint n)"
    and "fits_long (sint (ts_seconds t) + (sint (ts_nanos t) + sint n) sdiv 1000000000)"
  shows "ts_total (ts_plusNanos n t) = ts_total t + sint n \<and>
    \<bar>sint (ts_nanos (ts_plusNanos n t))\<bar> < 1000000000 \<and>
    (ts_normal (ts_plusNanos n t) \<longleftrightarrow>
       0 \<le> sint (ts_nanos t) + sint n \<or> 1000000000 dvd sint (ts_nanos t) + sint n)"
proof -
  let ?ns = "sint (ts_nanos t) + sint n"
  have ns: "sint (ts_nanos t + n) = ?ns" by (rule sint_add [OF assms(1)])
  have nanos: "sint (ts_nanos (ts_plusNanos n t)) = ?ns smod 1000000000"
    by (simp add: ts_plusNanos_def Let_def div_mod_ns ns)
  have secs: "sint (ts_seconds (ts_plusNanos n t)) = sint (ts_seconds t) + ?ns sdiv 1000000000"
    using assms(2) by (simp add: ts_plusNanos_def Let_def sint_add div_mod_ns ns)
  have "?ns sdiv 1000000000 * 1000000000 + ?ns smod 1000000000 = ?ns"
    by (rule sdiv_mult_smod_eq)
  then have "ts_total (ts_plusNanos n t) = ts_total t + sint n"
    unfolding ts_total_def nanos secs by (simp add: distrib_right)
  moreover have "\<bar>?ns smod 1000000000\<bar> < 1000000000"
    "0 \<le> ?ns smod 1000000000 \<longleftrightarrow> 0 \<le> ?ns \<or> 1000000000 dvd ?ns"
    by (rule smod_sign; simp)+
  ultimately show ?thesis unfolding ts_normal_def nanos by auto
qed

theorem plus_nanos_adds_witness:
  "ts_total (ts_plusNanos 700000000 \<lparr>ts_seconds = 5, ts_nanos = 400000000\<rparr>) = 6100000000"
  using plus_nanos_adds [of "\<lparr>ts_seconds = 5, ts_nanos = 400000000\<rparr>" 700000000]
  by (simp add: fits_long_def ts_total_def)

lemma long_toInt_fits: "long_toInt w = sint w \<longleftrightarrow> - (2 ^ 31) \<le> sint w \<and> sint w < 2 ^ 31"
  by (simp add: long_toInt_def signed_take_bit_int_eq_self_iff)

lemma long_of_sint [simp]: "word_of_int (sint (w :: long)) = w"
  by simp

text \<open>
  A timestamp survives its message exactly when its seconds fit in 32 bits: reading
  truncates the seconds, so times from the year 2038 on come back wrong.
\<close>

theorem timestamp_2038:
  assumes "ts_normal t"
  shows "ts_fromProtobuf (ts_toProtobuf t) = t \<longleftrightarrow>
    - (2 ^ 31) \<le> sint (ts_seconds t) \<and> sint (ts_seconds t) < 2 ^ 31"
proof -
  have "long_toInt (ts_nanos t) = sint (ts_nanos t)"
    unfolding long_toInt_fits using assms by (simp add: ts_normal_def)
  then have "word_of_int (long_toInt (ts_nanos t)) = ts_nanos t" by simp
  moreover have "word_of_int (long_toInt (ts_seconds t)) = ts_seconds t \<longleftrightarrow>
      long_toInt (ts_seconds t) = sint (ts_seconds t)"
  proof
    assume e: "word_of_int (long_toInt (ts_seconds t)) = ts_seconds t"
    have "fits_long (long_toInt (ts_seconds t))"
      using signed_take_bit_int_greater_eq_minus_exp [of 31 "sint (ts_seconds t)"]
        signed_take_bit_int_less_exp [of 31 "sint (ts_seconds t)"]
      by (simp add: fits_long_def long_toInt_def)
    then show "long_toInt (ts_seconds t) = sint (ts_seconds t)" using e sint_of_int by metis
  qed simp
  ultimately show ?thesis
    by (cases t) (simp add: ts_fromProtobuf_def ts_toProtobuf_def long_toInt_fits)
qed

theorem timestamp_2038_witness:
  "ts_fromProtobuf (ts_toProtobuf \<lparr>ts_seconds = 2147483648, ts_nanos = 0\<rparr>) \<noteq>
     \<lparr>ts_seconds = 2147483648, ts_nanos = 0\<rparr>"
  using timestamp_2038 [of "\<lparr>ts_seconds = 2147483648, ts_nanos = 0\<rparr>"] by (simp add: ts_normal_def)

text \<open>
  A generated valid start is a proper timestamp in the past: with a clock of now
  milliseconds it lies, up to the drift added, at least 7999 and at most 12999
  milliseconds before now.
\<close>

theorem generated_valid_start:
  assumes "is_random r1" "is_random r2" "12999 \<le> now" "now < 2 ^ 53" "\<bar>drift\<bar> < 2 ^ 53"
  shows "ts_normal (ts_generate now drift r1 r2) \<and>
    (now - 12999) * 1000000 \<le> ts_total (ts_generate now drift r1 r2) - drift * 1000000000 \<and>
    ts_total (ts_generate now drift r1 r2) - drift * 1000000000 < (now - 7999) * 1000000"
proof -
  define j where "j = int (random_index r1 5000)"
  define q where "q = int (random_index r2 1000000)"
  have j: "0 \<le> j" "j < 5000" and q: "0 \<le> q" "q < 1000000"
    using random_index_less [OF assms(1), of 5000] random_index_less [OF assms(2), of 1000000]
    by (simp_all add: j_def q_def)
  let ?n = "now - (j + 8000)"
  have n: "0 \<le> ?n" "?n < 2 ^ 53" using j assms(3,4) by auto
  have m: "?n smod 1000 = ?n mod 1000" using n by (intro smod_mod_positive) simp_all
  have b: "0 \<le> ?n mod 1000" "?n mod 1000 < 1000" by simp_all
  have s: "0 \<le> ?n div 1000" "?n div 1000 < 2 ^ 53" using n by auto
  define t where "t = ts_generate now drift r1 r2"
  have t: "t = \<lparr>ts_seconds = word_of_int (?n div 1000 + drift),
      ts_nanos = word_of_int (?n mod 1000 * 1000000 + q)\<rparr>"
    unfolding t_def ts_generate_def Let_def j_def [symmetric] q_def [symmetric] m ..
  have "sint (ts_seconds t) = ?n div 1000 + drift"
    unfolding t timestamp.simps by (rule sint_of_int) (use s assms(5) in \<open>auto simp: fits_long_def\<close>)
  moreover have nanos: "sint (ts_nanos t) = ?n mod 1000 * 1000000 + q"
    unfolding t timestamp.simps by (rule sint_of_int) (use b q in \<open>auto simp: fits_long_def\<close>)
  moreover have "(d + drift) * 1000000000 + (k * 1000000 + q) = n * 1000000 + drift * 1000000000 + q"
    if "d * 1000 + k = n" for d k n :: int
    unfolding that [symmetric] by (simp add: algebra_simps)
  ultimately have "ts_total t = ?n * 1000000 + drift * 1000000000 + q"
    unfolding ts_total_def using div_mult_mod_eq [of ?n 1000] by presburger
  moreover have "ts_normal t" unfolding ts_normal_def nanos using b q by auto
  ultimately show ?thesis using q j by (simp add: t_def)
qed

theorem generated_valid_start_witness:
  "ts_normal (ts_generate 1700000000000 0 0 0)"
  using generated_valid_start [of 0 0 1700000000000 0] by (simp add: is_random_def)

subsection \<open>Transaction ids\<close>

record 'k tx_id =
  ti_accountId :: "'k account_id option"
  ti_validStart :: "timestamp option"
  ti_scheduled :: bool
  ti_nonce :: "long option"

definition txid_setNonce :: "long \<Rightarrow> 'k tx_id \<Rightarrow> 'k tx_id" where
  "txid_setNonce n i = i\<lparr>ti_nonce := Some n\<rparr>"

definition txid_new ::
  "'k account_id option \<Rightarrow> timestamp option \<Rightarrow> bool \<Rightarrow> long option \<Rightarrow> 'k tx_id" where
  "txid_new acc start scheduled nonce =
     (let i = \<lparr>ti_accountId = acc, ti_validStart = start, ti_scheduled = scheduled, ti_nonce = None\<rparr>
      in case nonce of
           None \<Rightarrow> i
         | Some n \<Rightarrow> if n \<noteq> 0 then txid_setNonce n i else i)"

definition txid_withValidStart :: "'k account_id \<Rightarrow> timestamp \<Rightarrow> 'k tx_id" where
  "txid_withValidStart acc start = txid_new (Some acc) (Some start) False None"

text \<open>\<open>generate\<close> copies an account given as an object by its three numbers only.\<close>

definition txid_generate ::
  "(string \<Rightarrow> long js) \<Rightarrow> (string \<Rightarrow> 'k js) \<Rightarrow> timestamp \<Rightarrow> string + 'k account_id \<Rightarrow> 'k tx_id js" where
  "txid_generate parse pk_parse start i =
     js_bind
       (case i of
          Inl t \<Rightarrow> account_fromString parse pk_parse t
        | Inr a \<Rightarrow> account_new (Props (Some (ac_shard a)) (Some (ac_realm a)) (ac_num a)) None None None None)
       (\<lambda>a. Inr (txid_new (Some a) (Some start) False None))"

definition txid_setScheduled :: "bool \<Rightarrow> 'k tx_id \<Rightarrow> 'k tx_id" where
  "txid_setScheduled b i = i\<lparr>ti_scheduled := b\<rparr>"

text \<open>\<open>s.split(sep)\<close> for a separator of several characters.\<close>

function split_str :: "string \<Rightarrow> string \<Rightarrow> string list" where
  "split_str sep [] = [[]]"
| "split_str sep (c # s) =
     (if sep \<noteq> [] \<and> take (length sep) (c # s) = sep then [] # split_str sep (drop (length sep) (c # s))
      else (case split_str sep s of w # ws \<Rightarrow> (c # w) # ws | [] \<Rightarrow> [[c]]))"
  by pat_completeness auto
termination by (relation "measure (\<lambda>(sep, s). length s)") auto

text \<open>Nanoseconds, scheduled flag and nonce of what follows the first dot after the at sign.\<close>

definition txid_tail :: "string \<Rightarrow> (string \<times> bool \<times> string option) js" where
  "txid_tail rest =
     (if CHR ''?'' \<in> set rest then
        (case split_str ''?scheduled'' rest of
           nanos # rest # _ \<Rightarrow>
             Inr (nanos, True, if CHR ''/'' \<in> set rest then Some (remove1 CHR ''/'' rest) else None)
         | _ \<Rightarrow> Inl TypeErr)
      else if CHR ''/'' \<in> set rest then
        (case js_split CHR ''/'' rest of
           nanos # nonce # _ \<Rightarrow> Inr (nanos, False, Some nonce)
         | _ \<Rightarrow> Inl TypeErr)
      else Inr (rest, False, None))"

definition txid_fromString ::
  "(string \<Rightarrow> long js) \<Rightarrow> (string \<Rightarrow> 'k js) \<Rightarrow> string \<Rightarrow> 'k tx_id js" where
  "txid_fromString parse pk_parse t =
     (case js_split CHR ''@'' t of
        account # rest # _ \<Rightarrow>
          (case js_split CHR ''.'' rest of
             seconds # rest # _ \<Rightarrow>
               js_bind (txid_tail rest) (\<lambda>(nanos, scheduled, nonce).
               js_bind (account_fromString parse pk_parse account) (\<lambda>a.
               js_bind (parse seconds) (\<lambda>s.
               js_bind (parse nanos) (\<lambda>n.
               js_bind (case nonce of None \<Rightarrow> Inr None | Some u \<Rightarrow> js_bind (parse u) (\<lambda>k. Inr (Some k))) (\<lambda>k.
                 Inr (txid_new (Some a) (Some \<lparr>ts_seconds = s, ts_nanos = n\<rparr>) scheduled k))))))
           | _ \<Rightarrow> Inl TypeErr)
      | _ \<Rightarrow> Inl TypeErr)"

definition txid_toString :: "(long \<Rightarrow> string) \<Rightarrow> ('k \<Rightarrow> string) \<Rightarrow> 'k tx_id \<Rightarrow> string js" where
  "txid_toString print pk_print i =
     (case (ti_accountId i, ti_validStart i) of
        (Some a, Some t) \<Rightarrow>
          (let nanos = pad_start 9 CHR ''0'' (print (ts_nanos t));
               nonce = (case ti_nonce i of Some n \<Rightarrow> ''/'' @ print n | None \<Rightarrow> []);
               scheduled = (if ti_scheduled i then ''?scheduled'' else [])
           in Inr (account_toString print pk_print a @ ''@'' @ print (ts_seconds t) @ ''.'' @ nanos @
                   scheduled @ nonce))
      | _ \<Rightarrow> Inl BadTransactionId)"

definition txid_clone :: "'k tx_id \<Rightarrow> 'k tx_id" where
  "txid_clone i = txid_new (ti_accountId i) (ti_validStart i) (ti_scheduled i) (ti_nonce i)"

text \<open>Comparing ids without an account or a valid start throws a \<open>TypeError\<close>.\<close>

definition txid_compare :: "('k \<Rightarrow> string) \<Rightarrow> 'k tx_id \<Rightarrow> 'k tx_id \<Rightarrow> int js" where
  "txid_compare pk_print i j =
     (case (ti_accountId i, ti_accountId j) of
        (Some a, Some b) \<Rightarrow>
          (let c = account_compare pk_print a b
           in if c \<noteq> 0 then Inr c
              else (case (ti_validStart i, ti_validStart j) of
                      (Some s, Some t) \<Rightarrow> Inr (ts_compare s t)
                    | _ \<Rightarrow> Inl TypeErr))
      | _ \<Rightarrow> Inl TypeErr)"

lemma split_str_absent: "sep \<noteq> [] \<Longrightarrow> hd sep \<notin> set s \<Longrightarrow> split_str sep s = [s]"
proof (induction s)
  case (Cons c s)
  then have "take (length sep) (c # s) \<noteq> sep" by (cases sep) auto
  with Cons show ?case by simp
qed simp

lemma split_str_append:
  "sep \<noteq> [] \<Longrightarrow> hd sep \<notin> set s \<Longrightarrow> split_str sep (s @ sep @ t) = s # split_str sep t"
proof (induction s)
  case Nil
  then show ?case by (cases sep) simp_all
next
  case (Cons c s)
  then have "take (length sep) (c # s @ sep @ t) \<noteq> sep" by (cases sep) auto
  with Cons show ?case by simp
qed

lemma digits_avoid:
  assumes "list_all is_digit t" "\<not> is_digit c"
  shows "c \<notin> set t"
  using assms by (auto simp: list_all_iff)

lemma not_digit_marks [simp]:
  "\<not> is_digit CHR ''@''" "\<not> is_digit CHR ''?''" "\<not> is_digit CHR ''/''"
  by (simp_all add: is_digit_def char_code_def)

definition nonce_text :: "nat option \<Rightarrow> string" where
  "nonce_text k = (case k of None \<Rightarrow> [] | Some n \<Rightarrow> ''/'' @ dec n)"

lemma txid_tail_text:
  assumes "list_all is_digit nanos"
  shows "txid_tail (nanos @ (if scheduled then ''?scheduled'' else []) @ nonce_text k) =
    Inr (nanos, scheduled, map_option dec k)"
proof -
  have n: "c \<notin> set nanos" if "\<not> is_digit c" for c using digits_avoid [OF assms that] .
  have k: "c \<notin> set (dec m)" if "\<not> is_digit c" for c m using digits_avoid [OF dec_digits that] .
  show ?thesis
  proof (cases scheduled)
    case True
    have q: "CHR ''?'' \<notin> set (nonce_text k)" by (auto simp: nonce_text_def k split: option.splits)
    have "split_str ''?scheduled'' (nanos @ ''?scheduled'' @ nonce_text k) = nanos # [nonce_text k]"
      using q n by (subst split_str_append) (simp_all add: split_str_absent)
    then show ?thesis using True by (auto simp: txid_tail_def nonce_text_def k split: option.split)
  next
    case False
    show ?thesis
    proof (cases k)
      case None
      then show ?thesis using False n by (simp add: txid_tail_def nonce_text_def)
    next
      case (Some m)
      have "js_split CHR ''/'' (nanos @ CHR ''/'' # dec m) = [nanos, dec m]"
        using n k by (simp add: js_split_append js_split_absent)
      then show ?thesis using False Some n k by (simp add: txid_tail_def nonce_text_def)
    qed
  qed
qed

lemma parse_padded:
  assumes "long_text print parse" "0 \<le> sint n"
  shows "list_all is_digit (pad_start 9 CHR ''0'' (print n))"
    "parse (pad_start 9 CHR ''0'' (print n)) = Inr n"
proof -
  have z: "CHR ''0'' = digit_char 0" by (simp add: digit_char_def)
  have p: "print n = dec (unat n)" by (rule long_print_parse(2) [OF assms])
  have d: "list_all is_digit (pad_start 9 CHR ''0'' (print n))"
    using dec_digits [of "unat n"] by (auto simp: p z pad_start_def list_all_iff)
  have "parse_dec (pad_start 9 CHR ''0'' (print n)) = unat n"
    by (simp add: p z parse_dec_pad_start)
  moreover have "unat n < 2 ^ 63"
  proof -
    have "sint n < 2 ^ 63" using sint_lt [of n] by simp
    then have "nat (sint n) < 2 ^ 63" using assms(2) by simp
    then show ?thesis using long_nat [OF assms(2)] by simp
  qed
  moreover have "pad_start 9 CHR ''0'' (print n) \<noteq> []" by (simp add: p pad_start_def)
  ultimately show "list_all is_digit (pad_start 9 CHR ''0'' (print n))"
    "parse (pad_start 9 CHR ''0'' (print n)) = Inr n"
    using d assms(1) by (simp_all add: long_text_def)
qed

lemma txid_round_trip:
  assumes "long_text print parse"
    and "account_fromString parse pk_parse (account_toString print pk_print a) = Inr a"
    and "CHR ''@'' \<notin> set (account_toString print pk_print a)"
    and "0 \<le> sint s" "0 \<le> sint n" "\<forall>k. nonce = Some k \<longrightarrow> 0 \<le> sint k \<and> k \<noteq> 0"
    and "i = \<lparr>ti_accountId = Some a, ti_validStart = Some \<lparr>ts_seconds = s, ts_nanos = n\<rparr>,
             ti_scheduled = scheduled, ti_nonce = nonce\<rparr>"
  shows "\<exists>t. txid_toString print pk_print i = Inr t \<and> txid_fromString parse pk_parse t = Inr i"
proof -
  let ?n = "pad_start 9 CHR ''0'' (print n)" and ?k = "map_option unat nonce"
  let ?acc = "account_toString print pk_print a"
  let ?tail = "?n @ (if scheduled then ''?scheduled'' else []) @ nonce_text ?k"
  have s: "print s = dec (unat s)" "parse (print s) = Inr s"
    using long_print_parse [OF assms(1,4)] by simp_all
  have k: "print m = dec (unat m) \<and> parse (print m) = Inr m" if "nonce = Some m" for m
    using long_print_parse [OF assms(1), of m] assms(6) that by simp
  have "txid_toString print pk_print i = Inr (?acc @ CHR ''@'' # print s @ CHR ''.'' # ?tail)"
    using k by (auto simp: txid_toString_def assms(7) Let_def nonce_text_def split: option.split)
  moreover have dot: "CHR ''.'' \<notin> set (print s)" "CHR ''@'' \<notin> set (print s @ CHR ''.'' # ?tail)"
    "CHR ''.'' \<notin> set ?tail"
    using digits_avoid [OF parse_padded(1) [OF assms(1,5)]] digits_avoid [OF dec_digits]
    by (auto simp: s(1) nonce_text_def split: option.splits)
  moreover have "txid_tail ?tail = Inr (?n, scheduled, map_option dec ?k)"
    by (rule txid_tail_text [OF parse_padded(1) [OF assms(1,5)]])
  moreover have "(case map_option dec ?k of None \<Rightarrow> Inr None | Some u \<Rightarrow> js_bind (parse u) (\<lambda>k. Inr (Some k))) =
      Inr nonce"
    using k by (cases nonce) fastforce+
  moreover have "txid_new (Some a) (Some \<lparr>ts_seconds = s, ts_nanos = n\<rparr>) scheduled nonce = i"
    using assms(6,7) by (auto simp: txid_new_def txid_setNonce_def Let_def split: option.split)
  ultimately show ?thesis
    using assms(2) s(2) parse_padded(2) [OF assms(1,5)]
    by (simp add: txid_fromString_def js_split_append [OF assms(3)] js_split_append [OF dot(1)]
        js_split_absent [OF dot(2)] js_split_absent [OF dot(3)])
qed

lemma plain_account_text:
  "account_toString print pk_print (plain_account i) = entity_text print i"
  by (cases i) (simp add: account_toString_def plain_account_def entity_text_def)

text \<open>
  C34. Transaction ids survive printing and parsing, with the scheduled mark and a nonce
  that is not 0: for every account given by number (whose text does not have exactly 40
  characters) and every valid start with non-negative parts, whatever the number of
  digits of the nanoseconds.
\<close>

theorem transaction_ids_round_trip:
  assumes "long_text print parse" "id_valid ids" "length (entity_text print ids) \<noteq> 40"
    and "0 \<le> sint s" "0 \<le> sint n" "\<forall>k. nonce = Some k \<longrightarrow> 0 \<le> sint k \<and> k \<noteq> 0"
    and "i = \<lparr>ti_accountId = Some (plain_account ids),
             ti_validStart = Some \<lparr>ts_seconds = s, ts_nanos = n\<rparr>,
             ti_scheduled = scheduled, ti_nonce = nonce\<rparr>"
  shows "\<exists>t. txid_toString print pk_print i = Inr t \<and> txid_fromString parse pk_parse t = Inr i"
proof (rule txid_round_trip [OF assms(1) _ _ assms(4-7)])
  obtain x y z where ids: "ids = (x, y, z)" by (cases ids)
  show "account_fromString parse pk_parse (account_toString print pk_print (plain_account ids)) =
      Inr (plain_account ids)"
    using account_plain_round_trip [OF assms(1,2) [unfolded ids], of None] assms(3)
    by (simp add: plain_account_text ids checksum_shape_def checksum_suffix_def)
  show "CHR ''@'' \<notin> set (account_toString print pk_print (plain_account ids))"
    using entity_text_dec [OF assms(1,2) [unfolded ids]] digits_avoid [OF dec_digits]
    by (simp add: plain_account_text ids)
qed

theorem transaction_ids_round_trip_witness:
  "\<exists>t. txid_toString std_print id \<lparr>ti_accountId = Some (plain_account (0, 0, 5)),
      ti_validStart = Some \<lparr>ts_seconds = 5, ts_nanos = 4\<rparr>, ti_scheduled = True, ti_nonce = Some 117\<rparr> = Inr t \<and>
    txid_fromString std_parse (\<lambda>_. Inl BadKey :: string js) t = Inr \<lparr>ti_accountId = Some (plain_account (0, 0, 5)),
      ti_validStart = Some \<lparr>ts_seconds = 5, ts_nanos = 4\<rparr>, ti_scheduled = True, ti_nonce = Some 117\<rparr>"
  by (rule transaction_ids_round_trip [OF std_long_text, of "(0, 0, 5)" 5 4 "Some 117"])
     (simp_all add: id_valid_def entity_text_def std_print_def dec.simps)

text \<open>
  Generating an id for an account given as an object forgets its alias key and its
  EVM address: the id names the account of the same numbers (0.0.0 for an account known
  only by its address).
\<close>

theorem generate_forgets_alias:
  assumes "txid_generate parse pk_parse start (Inr a) = Inr i"
  shows "ti_accountId i = Some (plain_account (account_triple a)) \<and> id_valid (account_triple a) \<and>
    ti_validStart i = Some start \<and> \<not> ti_scheduled i \<and> ti_nonce i = None"
proof -
  from assms obtain c where c: "account_new (Props (Some (ac_shard a)) (Some (ac_realm a)) (ac_num a)) None None None None = Inr c"
    and i: "i = txid_new (Some c) (Some start) False None"
    by (auto simp: txid_generate_def js_bind_eq_Inr)
  from c obtain t where t: "entity_constructor (Props (Some (ac_shard a)) (Some (ac_realm a)) (ac_num a)) None None = Inr t"
    "c = plain_account t"
    by (auto simp: account_new_def js_bind_eq_Inr plain_account_def)
  then have "t = account_triple a"
    by (auto simp: entity_constructor_def account_triple_def split: if_splits)
  then show ?thesis
    using t entity_constructor_valid [OF t(1)] i by (simp add: txid_new_def)
qed

theorem generate_forgets_alias_witness:
  "ti_accountId (projr (txid_generate std_parse (\<lambda>_. Inl BadKey :: string js) \<lparr>ts_seconds = 5, ts_nanos = 4\<rparr>
     (Inr ((plain_account (0, 0, 0))\<lparr>ac_evmAddress := Some [171]\<rparr>)))) = Some (plain_account (0, 0, 0))"
proof -
  let ?g = "txid_generate std_parse (\<lambda>_. Inl BadKey :: string js) \<lparr>ts_seconds = 5, ts_nanos = 4\<rparr>
     (Inr ((plain_account (0, 0, 0))\<lparr>ac_evmAddress := Some [171]\<rparr>))"
  have "?g = Inr (projr ?g)"
    by (simp add: txid_generate_def account_new_def plain_account_def entity_constructor_def long_isNegative_def)
  from generate_forgets_alias [OF this] show ?thesis by (simp add: account_triple_def plain_account_def)
qed

end
