(* ===== verification/Ids.thy ===== *)
theory Ids
  imports TxId
begin

text \<open>
  The ids of files, topics, schedules and contracts: \<open>file/FileId.js\<close>, \<open>topic/TopicId.js\<close>,
  \<open>schedule/ScheduleId.js\<close>, \<open>contract/ContractId.js\<close>, \<open>contract/DelegateContractId.js\<close>, and the
  protobuf messages of all ids, those of \<open>token/TokenId.js\<close>, \<open>token/NftId.js\<close>,
  \<open>account/AccountId.js\<close> and \<open>transaction/TransactionId.js\<close> included.  A message is the record
  of its fields; its encoder and decoder are arguments.
\<close>

subsection \<open>Messages\<close>

record id_message =
  im_shard :: "long option"
  im_realm :: "long option"
  im_num :: "long option"

definition or_zero :: "long option \<Rightarrow> long" where
  "or_zero x = (case x of Some n \<Rightarrow> n | None \<Rightarrow> 0)"

definition id_toMessage :: "id_triple \<Rightarrow> id_message" where
  "id_toMessage i = (case i of (s, r, n) \<Rightarrow> \<lparr>im_shard = Some s, im_realm = Some r, im_num = Some n\<rparr>)"

subsection \<open>Files\<close>

record file_id =
  fl_ids :: id_triple
  fl_checksum :: "string option"

definition file_new :: "id_props \<Rightarrow> long option \<Rightarrow> long option \<Rightarrow> file_id js" where
  "file_new props realm num =
     js_bind (entity_constructor props realm num) (\<lambda>i. Inr \<lparr>fl_ids = i, fl_checksum = None\<rparr>)"

definition file_fromString :: "(string \<Rightarrow> long js) \<Rightarrow> string \<Rightarrow> file_id js" where
  "file_fromString parse t =
     js_bind (entity_fromString parse t) (\<lambda>((s, r, n), k).
     js_bind (file_new (Props (Some s) (Some r) n) None None) (\<lambda>i. Inr (i\<lparr>fl_checksum := k\<rparr>)))"

text \<open>A file id reads the numbers of its message through their texts.\<close>

definition reread_long :: "(long \<Rightarrow> string) \<Rightarrow> (string \<Rightarrow> long js) \<Rightarrow> long option \<Rightarrow> long js" where
  "reread_long print parse x = (case x of Some n \<Rightarrow> parse (print n) | None \<Rightarrow> Inr 0)"

definition file_fromProtobuf ::
  "(long \<Rightarrow> string) \<Rightarrow> (string \<Rightarrow> long js) \<Rightarrow> id_message \<Rightarrow> file_id js" where
  "file_fromProtobuf print parse m =
     js_bind (reread_long print parse (im_shard m)) (\<lambda>s.
     js_bind (reread_long print parse (im_realm m)) (\<lambda>r.
     js_bind (reread_long print parse (im_num m)) (\<lambda>n. file_new (Num s) (Some r) (Some n))))"

definition file_validateChecksum :: "(long \<Rightarrow> string) \<Rightarrow> ledger_id option \<Rightarrow> file_id \<Rightarrow> unit js" where
  "file_validateChecksum print ledger i = validateChecksum print ledger (fl_ids i) (fl_checksum i)"

definition file_fromBytes ::
  "(bytes \<Rightarrow> id_message js) \<Rightarrow> (long \<Rightarrow> string) \<Rightarrow> (string \<Rightarrow> long js) \<Rightarrow> bytes \<Rightarrow> file_id js" where
  "file_fromBytes decode print parse bs = js_bind (decode bs) (file_fromProtobuf print parse)"

definition file_fromSolidityAddress :: "string \<Rightarrow> file_id js" where
  "file_fromSolidityAddress t =
     js_bind (fromSolidityAddress t) (\<lambda>(s, r, n). file_new (Num s) (Some r) (Some n))"

definition file_toSolidityAddress :: "(long \<Rightarrow> string) \<Rightarrow> file_id \<Rightarrow> string" where
  "file_toSolidityAddress print i = toSolidityAddress print (fl_ids i)"

definition file_toProtobuf :: "file_id \<Rightarrow> id_message" where
  "file_toProtobuf i = id_toMessage (fl_ids i)"

definition file_toString :: "(long \<Rightarrow> string) \<Rightarrow> file_id \<Rightarrow> string" where
  "file_toString print i = entity_text print (fl_ids i)"

definition file_toStringWithChecksum :: "(long \<Rightarrow> string) \<Rightarrow> ledger_id option \<Rightarrow> file_id \<Rightarrow> string js" where
  "file_toStringWithChecksum print ledger i = toStringWithChecksum ledger (file_toString print i)"

definition file_toBytes :: "(id_message \<Rightarrow> bytes) \<Rightarrow> file_id \<Rightarrow> bytes" where
  "file_toBytes encode i = encode (file_toProtobuf i)"

definition file_clone :: "file_id \<Rightarrow> file_id js" where
  "file_clone i =
     (case fl_ids i of (s, r, n) \<Rightarrow>
        js_bind (file_new (Props (Some s) (Some r) n) None None)
          (\<lambda>c. Inr (c\<lparr>fl_checksum := fl_checksum i\<rparr>)))"

definition file_compare :: "file_id \<Rightarrow> file_id \<Rightarrow> int" where
  "file_compare a b = entity_compare (fl_ids a) (fl_ids b)"

definition file_addressBook :: "file_id js" where "file_addressBook = file_new (Num 102) None None"
definition file_feeSchedule :: "file_id js" where "file_feeSchedule = file_new (Num 111) None None"
definition file_exchangeRates :: "file_id js" where "file_exchangeRates = file_new (Num 112) None None"

subsection \<open>Topics\<close>

record topic_id =
  tp_ids :: id_triple
  tp_checksum :: "string option"

definition topic_new :: "id_props \<Rightarrow> long option \<Rightarrow> long option \<Rightarrow> topic_id js" where
  "topic_new props realm num =
     js_bind (entity_constructor props realm num) (\<lambda>i. Inr \<lparr>tp_ids = i, tp_checksum = None\<rparr>)"

definition topic_fromString :: "(string \<Rightarrow> long js) \<Rightarrow> string \<Rightarrow> topic_id js" where
  "topic_fromString parse t =
     js_bind (entity_fromString parse t) (\<lambda>((s, r, n), k).
     js_bind (topic_new (Props (Some s) (Some r) n) None None) (\<lambda>i. Inr (i\<lparr>tp_checksum := k\<rparr>)))"

definition topic_fromProtobuf :: "id_message \<Rightarrow> topic_id js" where
  "topic_fromProtobuf m =
     topic_new (Num (or_zero (im_shard m))) (Some (or_zero (im_realm m))) (Some (or_zero (im_num m)))"

definition topic_validateChecksum :: "(long \<Rightarrow> string) \<Rightarrow> ledger_id option \<Rightarrow> topic_id \<Rightarrow> unit js" where
  "topic_validateChecksum print ledger i = validateChecksum print ledger (tp_ids i) (tp_checksum i)"

definition topic_fromBytes :: "(bytes \<Rightarrow> id_message js) \<Rightarrow> bytes \<Rightarrow> topic_id js" where
  "topic_fromBytes decode bs = js_bind (decode bs) topic_fromProtobuf"

definition topic_fromSolidityAddress :: "string \<Rightarrow> topic_id js" where
  "topic_fromSolidityAddress t =
     js_bind (fromSolidityAddress t) (\<lambda>(s, r, n). topic_new (Num s) (Some r) (Some n))"

definition topic_toSolidityAddress :: "(long \<Rightarrow> string) \<Rightarrow> topic_id \<Rightarrow> string" where
  "topic_toSolidityAddress print i = toSolidityAddress print (tp_ids i)"

definition topic_toProtobuf :: "topic_id \<Rightarrow> id_message" where
  "topic_toProtobuf i = id_toMessage (tp_ids i)"

definition topic_toString :: "(long \<Rightarrow> string) \<Rightarrow> topic_id \<Rightarrow> string" where
  "topic_toString print i = entity_text print (tp_ids i)"

definition topic_toStringWithChecksum :: "(long \<Rightarrow> string) \<Rightarrow> ledger_id option \<Rightarrow> topic_id \<Rightarrow> string js" where
  "topic_toStringWithChecksum print ledger i = toStringWithChecksum ledger (topic_toString print i)"

definition topic_toBytes :: "(id_message \<Rightarrow> bytes) \<Rightarrow> topic_id \<Rightarrow> bytes" where
  "topic_toBytes encode i = encode (topic_toProtobuf i)"

definition topic_clone :: "topic_id \<Rightarrow> topic_id js" where
  "topic_clone i =
     (case tp_ids i of (s, r, n) \<Rightarrow>
        js_bind (topic_new (Props (Some s) (Some r) n) None None)
          (\<lambda>c. Inr (c\<lparr>tp_checksum := tp_checksum i\<rparr>)))"

definition topic_compare :: "topic_id \<Rightarrow> topic_id \<Rightarrow> int" where
  "topic_compare a b = entity_compare (tp_ids a) (tp_ids b)"

subsection \<open>Schedules\<close>

record schedule_id =
  sc_ids :: id_triple
  sc_checksum :: "string option"

definition schedule_new :: "id_props \<Rightarrow> long option \<Rightarrow> long option \<Rightarrow> schedule_id js" where
  "schedule_new props realm num =
     js_bind (entity_constructor props realm num) (\<lambda>i. Inr \<lparr>sc_ids = i, sc_checksum = None\<rparr>)"

definition schedule_fromString :: "(string \<Rightarrow> long js) \<Rightarrow> string \<Rightarrow> schedule_id js" where
  "schedule_fromString parse t =
     js_bind (entity_fromString parse t) (\<lambda>((s, r, n), k).
     js_bind (schedule_new (Props (Some s) (Some r) n) None None) (\<lambda>i. Inr (i\<lparr>sc_checksum := k\<rparr>)))"

definition schedule_fromProtobuf :: "id_message \<Rightarrow> schedule_id js" where
  "schedule_fromProtobuf m =
     schedule_new (Num (or_zero (im_shard m))) (Some (or_zero (im_realm m))) (Some (or_zero (im_num m)))"

definition schedule_validateChecksum :: "(long \<Rightarrow> string) \<Rightarrow> ledger_id option \<Rightarrow> schedule_id \<Rightarrow> unit js" where
  "schedule_validateChecksum print ledger i = validateChecksum print ledger (sc_ids i) (sc_checksum i)"

definition schedule_fromBytes :: "(bytes \<Rightarrow> id_message js) \<Rightarrow> bytes \<Rightarrow> schedule_id js" where
  "schedule_fromBytes decode bs = js_bind (decode bs) schedule_fromProtobuf"

definition schedule_fromSolidityAddress :: "string \<Rightarrow> schedule_id js" where
  "schedule_fromSolidityAddress t =
     js_bind (fromSolidityAddress t) (\<lambda>(s, r, n). schedule_new (Num s) (Some r) (Some n))"

definition schedule_toSolidityAddress :: "(long \<Rightarrow> string) \<Rightarrow> schedule_id \<Rightarrow> string" where
  "schedule_toSolidityAddress print i = toSolidityAddress print (sc_ids i)"

definition schedule_toProtobuf :: "schedule_id \<Rightarrow> id_message" where
  "schedule_toProtobuf i = id_toMessage (sc_ids i)"

definition schedule_toString :: "(long \<Rightarrow> string) \<Rightarrow> schedule_id \<Rightarrow> string" where
  "schedule_toString print i = entity_text print (sc_ids i)"

definition schedule_toStringWithChecksum :: "(long \<Rightarrow> string) \<Rightarrow> ledger_id option \<Rightarrow> schedule_id \<Rightarrow> string js" where
  "schedule_toStringWithChecksum print ledger i = toStringWithChecksum ledger (schedule_toString print i)"

definition schedule_toBytes :: "(id_message \<Rightarrow> bytes) \<Rightarrow> schedule_id \<Rightarrow> bytes" where
  "schedule_toBytes encode i = encode (schedule_toProtobuf i)"

definition schedule_clone :: "schedule_id \<Rightarrow> schedule_id js" where
  "schedule_clone i =
     (case sc_ids i of (s, r, n) \<Rightarrow>
        js_bind (schedule_new (Props (Some s) (Some r) n) None None)
          (\<lambda>c. Inr (c\<lparr>sc_checksum := sc_checksum i\<rparr>)))"

definition schedule_compare :: "schedule_id \<Rightarrow> schedule_id \<Rightarrow> int" where
  "schedule_compare a b = entity_compare (sc_ids a) (sc_ids b)"


subsection \<open>Messages of token ids\<close>

definition token_fromProtobuf :: "id_message \<Rightarrow> token_id js" where
  "token_fromProtobuf m =
     token_new (Num (or_zero (im_shard m))) (Some (or_zero (im_realm m))) (Some (or_zero (im_num m)))"

definition token_fromBytes :: "(bytes \<Rightarrow> id_message js) \<Rightarrow> bytes \<Rightarrow> token_id js" where
  "token_fromBytes decode bs = js_bind (decode bs) token_fromProtobuf"

definition token_toProtobuf :: "token_id \<Rightarrow> id_message" where
  "token_toProtobuf i = id_toMessage (tk_ids i)"

definition token_toBytes :: "(id_message \<Rightarrow> bytes) \<Rightarrow> token_id \<Rightarrow> bytes" where
  "token_toBytes encode i = encode (token_toProtobuf i)"

record nft_message =
  nm_token :: "id_message option"
  nm_serial :: "long option"

definition nft_new :: "token_id \<Rightarrow> long \<Rightarrow> nft_id" where
  "nft_new token serial = \<lparr>nf_tokenId = token, nf_serial = serial\<rparr>"

definition nft_fromProtobuf :: "nft_message \<Rightarrow> nft_id js" where
  "nft_fromProtobuf m =
     (case nm_token m of
        None \<Rightarrow> Inl TypeErr
      | Some t \<Rightarrow> js_bind (token_fromProtobuf t) (\<lambda>i. Inr (nft_new i (or_zero (nm_serial m)))))"

definition nft_toProtobuf :: "nft_id \<Rightarrow> nft_message" where
  "nft_toProtobuf i = \<lparr>nm_token = Some (token_toProtobuf (nf_tokenId i)), nm_serial = Some (nf_serial i)\<rparr>"

subsection \<open>Contracts\<close>

record contract_id =
  cn_ids :: id_triple
  cn_evmAddress :: "bytes option"
  cn_checksum :: "string option"

record contract_message = id_message +
  cm_evmAddress :: "bytes option"

definition contract_new ::
  "id_props \<Rightarrow> long option \<Rightarrow> long option \<Rightarrow> bytes option \<Rightarrow> contract_id js" where
  "contract_new props realm num evm =
     js_bind (entity_constructor props realm num) (\<lambda>i.
       Inr \<lparr>cn_ids = i, cn_evmAddress = evm, cn_checksum = None\<rparr>)"

definition contract_fromEvmAddress :: "long \<Rightarrow> long \<Rightarrow> string \<Rightarrow> contract_id js" where
  "contract_fromEvmAddress s r t = contract_new (Num s) (Some r) (Some 0) (Some (hex_decode t))"

definition contract_fromString :: "(string \<Rightarrow> long js) \<Rightarrow> string \<Rightarrow> contract_id js" where
  "contract_fromString parse t =
     js_bind (fromStringSplitter t) (\<lambda>p.
     js_bind (parse (ip_shard p)) (\<lambda>s.
     js_bind (parse (ip_realm p)) (\<lambda>r.
       if length (ip_numOrHex p) < 40
       then js_bind (parse (ip_numOrHex p)) (\<lambda>n. contract_new (Num s) (Some r) (Some n) None)
       else contract_new (Num s) (Some r) (Some 0) (Some (hex_decode (ip_numOrHex p))))))"

definition contract_fromProtobuf :: "'a id_message_scheme \<Rightarrow> contract_id js" where
  "contract_fromProtobuf m =
     contract_new (Num (or_zero (im_shard m))) (Some (or_zero (im_realm m))) (Some (or_zero (im_num m))) None"

definition contract_validateChecksum :: "(long \<Rightarrow> string) \<Rightarrow> ledger_id option \<Rightarrow> contract_id \<Rightarrow> unit js" where
  "contract_validateChecksum print ledger i = validateChecksum print ledger (cn_ids i) (cn_checksum i)"

definition contract_fromBytes :: "(bytes \<Rightarrow> contract_message js) \<Rightarrow> bytes \<Rightarrow> contract_id js" where
  "contract_fromBytes decode bs = js_bind (decode bs) contract_fromProtobuf"

definition contract_fromSolidityAddress :: "string \<Rightarrow> contract_id js" where
  "contract_fromSolidityAddress t =
     js_bind (fromSolidityAddress t) (\<lambda>(s, r, n). contract_new (Num s) (Some r) (Some n) None)"

definition contract_toSolidityAddress :: "(long \<Rightarrow> string) \<Rightarrow> contract_id \<Rightarrow> string" where
  "contract_toSolidityAddress print i =
     (case cn_evmAddress i of
        Some e \<Rightarrow> hex_encode e
      | None \<Rightarrow> toSolidityAddress print (cn_ids i))"

definition contract_toProtobuf :: "contract_id \<Rightarrow> contract_message" where
  "contract_toProtobuf i =
     (case cn_ids i of (s, r, n) \<Rightarrow>
        \<lparr>im_shard = Some s, im_realm = Some r, im_num = Some n, cm_evmAddress = cn_evmAddress i\<rparr>)"

definition contract_toString :: "(long \<Rightarrow> string) \<Rightarrow> contract_id \<Rightarrow> string" where
  "contract_toString print i =
     (case cn_evmAddress i of
        Some e \<Rightarrow> (case cn_ids i of (s, r, n) \<Rightarrow> print s @ ''.'' @ print r @ ''.'' @ hex_encode e)
      | None \<Rightarrow> entity_text print (cn_ids i))"

definition contract_toStringWithChecksum ::
  "(long \<Rightarrow> string) \<Rightarrow> ledger_id option \<Rightarrow> contract_id \<Rightarrow> string js" where
  "contract_toStringWithChecksum print ledger i = toStringWithChecksum ledger (contract_toString print i)"

definition contract_toBytes :: "(contract_message \<Rightarrow> bytes) \<Rightarrow> contract_id \<Rightarrow> bytes" where
  "contract_toBytes encode i = encode (contract_toProtobuf i)"

definition contract_clone :: "contract_id \<Rightarrow> contract_id js" where
  "contract_clone i =
     (case cn_ids i of (s, r, n) \<Rightarrow>
        js_bind (contract_new (Props (Some s) (Some r) n) None None None)
          (\<lambda>c. Inr (c\<lparr>cn_checksum := cn_checksum i, cn_evmAddress := cn_evmAddress i\<rparr>)))"

definition contract_compare :: "contract_id \<Rightarrow> contract_id \<Rightarrow> int" where
  "contract_compare a b = entity_compare (cn_ids a) (cn_ids b)"

text \<open>
  A delegate contract id is made from a contract id: the constructor, given an object, reads
  its numbers only.
\<close>

definition delegate_new ::
  "id_props \<Rightarrow> long option \<Rightarrow> long option \<Rightarrow> bytes option \<Rightarrow> contract_id js" where
  "delegate_new props realm num evm = contract_new props realm num evm"

definition delegate_of :: "contract_id \<Rightarrow> contract_id js" where
  "delegate_of i = (case cn_ids i of (s, r, n) \<Rightarrow> delegate_new (Props (Some s) (Some r) n) None None None)"

definition delegate_fromEvmAddress :: "long \<Rightarrow> long \<Rightarrow> string \<Rightarrow> contract_id js" where
  "delegate_fromEvmAddress s r t = delegate_new (Num s) (Some r) (Some 0) (Some (hex_decode t))"

definition delegate_fromString :: "(string \<Rightarrow> long js) \<Rightarrow> string \<Rightarrow> contract_id js" where
  "delegate_fromString parse t = js_bind (contract_fromString parse t) delegate_of"

definition delegate_fromProtobuf :: "'a id_message_scheme \<Rightarrow> contract_id js" where
  "delegate_fromProtobuf m = js_bind (contract_fromProtobuf m) delegate_of"

definition delegate_fromBytes :: "(bytes \<Rightarrow> contract_message js) \<Rightarrow> bytes \<Rightarrow> contract_id js" where
  "delegate_fromBytes decode bs = js_bind (contract_fromBytes decode bs) delegate_of"

definition delegate_fromSolidityAddress :: "string \<Rightarrow> contract_id js" where
  "delegate_fromSolidityAddress t = js_bind (contract_fromSolidityAddress t) delegate_of"

definition delegate_clone :: "contract_id \<Rightarrow> contract_id js" where
  "delegate_clone i = js_bind (delegate_of i) (\<lambda>c. Inr (c\<lparr>cn_checksum := cn_checksum i\<rparr>))"

subsection \<open>Messages of accounts and transaction ids\<close>

text \<open>
  The alias of an account is the encoding of a key or the 20 bytes of an EVM address.
  \<open>key_encode\<close> and \<open>key_decode\<close> are those of the proto package with the conversions of the
  keys; a key that is no public key decodes to \<open>None\<close>.
\<close>

record account_message =
  am_alias :: "bytes option"
  am_num :: "long option"
  am_shard :: "long option"
  am_realm :: "long option"

definition account_fromProtobuf ::
  "(bytes \<Rightarrow> 'k option js) \<Rightarrow> account_message \<Rightarrow> 'k account_id js" where
  "account_fromProtobuf key_decode m =
     js_bind
       (case am_alias m of
          None \<Rightarrow> Inr (None, None)
        | Some bs \<Rightarrow>
            if length bs = 20 then Inr (None, Some bs)
            else js_bind (key_decode bs) (\<lambda>k. Inr (k, None)))
       (\<lambda>(key, evm).
          account_new (Num (or_zero (am_shard m))) (Some (or_zero (am_realm m)))
            (Some (or_zero (am_num m))) key evm)"

definition account_toProtobuf :: "('k \<Rightarrow> bytes) \<Rightarrow> 'k account_id \<Rightarrow> account_message" where
  "account_toProtobuf key_encode a =
     \<lparr>am_alias =
        (case ac_aliasKey a of
           Some k \<Rightarrow> Some (key_encode k)
         | None \<Rightarrow> ac_evmAddress a),
      am_num = (if ac_aliasKey a \<noteq> None then None else Some (ac_num a)),
      am_shard = Some (ac_shard a), am_realm = Some (ac_realm a)\<rparr>"

definition account_fromBytes ::
  "(bytes \<Rightarrow> account_message js) \<Rightarrow> (bytes \<Rightarrow> 'k option js) \<Rightarrow> bytes \<Rightarrow> 'k account_id js" where
  "account_fromBytes decode key_decode bs = js_bind (decode bs) (account_fromProtobuf key_decode)"

definition account_toBytes ::
  "(account_message \<Rightarrow> bytes) \<Rightarrow> ('k \<Rightarrow> bytes) \<Rightarrow> 'k account_id \<Rightarrow> bytes" where
  "account_toBytes encode key_encode a = encode (account_toProtobuf key_encode a)"

record txid_message =
  xm_accountID :: "account_message option"
  xm_validStart :: "(long \<times> int) option"
  xm_scheduled :: "bool option"
  xm_nonce :: "int option"

definition txid_fromProtobuf :: "(bytes \<Rightarrow> 'k option js) \<Rightarrow> txid_message \<Rightarrow> 'k tx_id js" where
  "txid_fromProtobuf key_decode m =
     (case (xm_accountID m, xm_validStart m) of
        (Some a, Some t) \<Rightarrow>
          js_bind (account_fromProtobuf key_decode a) (\<lambda>acc.
            Inr (txid_new (Some acc) (Some (ts_fromProtobuf t)) (xm_scheduled m = Some True)
                   (map_option word_of_int (xm_nonce m))))
      | _ \<Rightarrow> Inl BadTransactionId)"

definition txid_toProtobuf :: "('k \<Rightarrow> bytes) \<Rightarrow> 'k tx_id \<Rightarrow> txid_message" where
  "txid_toProtobuf key_encode i =
     \<lparr>xm_accountID = map_option (account_toProtobuf key_encode) (ti_accountId i),
      xm_validStart = map_option ts_toProtobuf (ti_validStart i),
      xm_scheduled = Some (ti_scheduled i), xm_nonce = map_option long_toInt (ti_nonce i)\<rparr>"

subsection \<open>Plain ids\<close>

text \<open>
  What the classes of plain ids share: \<open>made i k\<close> is the id with the numbers \<open>i\<close> and the
  checksum \<open>k\<close>.
\<close>

locale plain_ids =
  fixes made :: "id_triple \<Rightarrow> string option \<Rightarrow> 'i"
    and from_text :: "(string \<Rightarrow> long js) \<Rightarrow> string \<Rightarrow> 'i js"
    and to_text :: "(long \<Rightarrow> string) \<Rightarrow> 'i \<Rightarrow> string"
    and from_message :: "(long \<Rightarrow> string) \<Rightarrow> (string \<Rightarrow> long js) \<Rightarrow> id_message \<Rightarrow> 'i js"
    and to_message :: "'i \<Rightarrow> id_message"
    and copy :: "'i \<Rightarrow> 'i js"
  assumes from_text_made: "entity_fromString parse t = Inr (i, k) \<Longrightarrow> id_valid i \<Longrightarrow>
      from_text parse t = Inr (made i k)"
    and to_text_made: "to_text print (made i k) = entity_text print i"
    and message_made: "long_text print parse \<Longrightarrow> id_valid i \<Longrightarrow>
      from_message print parse (to_message (made i k)) = Inr (made i None)"
    and copy_made: "id_valid i \<Longrightarrow> copy (made i k) = Inr (made i k)"
begin

lemma text_back:
  assumes "long_text print parse" "id_valid i" "checksum_shape k"
  shows "from_text parse (to_text print (made i k) @ checksum_suffix k) = Inr (made i k)"
  using from_text_made [OF entity_round_trip [OF assms] assms(2)] by (simp add: to_text_made)

lemma checksum_back:
  assumes "long_text print parse" "id_valid i"
    and "toStringWithChecksum (Some l) (to_text print (made i None)) = Inr t"
  shows "\<exists>k. from_text parse t = Inr (made i (Some k)) \<and> validateChecksum print (Some l) i (Some k) = Inr ()"
proof -
  let ?k = "checksum l (entity_text print i)"
  have "checksum_shape (Some ?k)"
    by (rule checksum_is_shaped [OF entity_text_ok [OF assms(1,2)]])
  from text_back [OF assms(1,2) this] have "from_text parse t = Inr (made i (Some ?k))"
    using assms(3) by (simp add: toStringWithChecksum_def to_text_made checksum_suffix_def)
  then show ?thesis by (intro exI [of _ ?k]) (simp add: validateChecksum_def Let_def)
qed

lemma survives:
  assumes "long_text print parse" "id_valid i" "checksum_shape k"
  shows "from_text parse (to_text print (made i k) @ checksum_suffix k) = Inr (made i k) \<and>
    from_message print parse (to_message (made i k)) = Inr (made i None) \<and>
    copy (made i k) = Inr (made i k)"
  using text_back [OF assms] message_made [OF assms(1,2)] copy_made [OF assms(2)] by blast

end

lemma or_zero_Some [simp]: "or_zero (Some n) = n"
  by (simp add: or_zero_def)

lemma entity_constructor_props [simp]:
  "id_valid (s, r, n) \<Longrightarrow> entity_constructor (Props (Some s) (Some r) n) None None = Inr (s, r, n)"
  by (auto simp: entity_constructor_def id_valid_def long_isNegative_def)

lemma reread_valid:
  assumes "long_text print parse" "0 \<le> sint n"
  shows "reread_long print parse (Some n) = Inr n"
  using long_print_parse [OF assms] by (simp add: reread_long_def)

lemmas id_splits = id_toMessage_def split_def Let_def

interpretation files: plain_ids "\<lambda>i k. \<lparr>fl_ids = i, fl_checksum = k\<rparr>" file_fromString file_toString
  file_fromProtobuf file_toProtobuf file_clone
proof unfold_locales
  fix print parse i k
  assume "long_text print parse" "id_valid i"
  then show "file_fromProtobuf print parse (file_toProtobuf \<lparr>fl_ids = i, fl_checksum = k\<rparr>) =
      Inr \<lparr>fl_ids = i, fl_checksum = None\<rparr>"
    by (cases i) (simp add: file_fromProtobuf_def file_toProtobuf_def id_toMessage_def reread_valid
        file_new_def id_valid_def)
qed (auto simp: file_fromString_def file_new_def file_toString_def file_clone_def)

interpretation topics: plain_ids "\<lambda>i k. \<lparr>tp_ids = i, tp_checksum = k\<rparr>" topic_fromString topic_toString
  "\<lambda>print parse. topic_fromProtobuf" topic_toProtobuf topic_clone
  by unfold_locales
    (auto simp: topic_fromString_def topic_new_def topic_toString_def topic_clone_def
      topic_fromProtobuf_def topic_toProtobuf_def id_toMessage_def)

interpretation schedules: plain_ids "\<lambda>i k. \<lparr>sc_ids = i, sc_checksum = k\<rparr>" schedule_fromString
  schedule_toString "\<lambda>print parse. schedule_fromProtobuf" schedule_toProtobuf schedule_clone
  by unfold_locales
    (auto simp: schedule_fromString_def schedule_new_def schedule_toString_def schedule_clone_def
      schedule_fromProtobuf_def schedule_toProtobuf_def id_toMessage_def)

interpretation tokens: plain_ids "\<lambda>i k. \<lparr>tk_ids = i, tk_checksum = k\<rparr>" token_fromString token_toString
  "\<lambda>print parse. token_fromProtobuf" token_toProtobuf token_clone
  by unfold_locales
    (auto simp: token_fromString_def token_new_def token_toString_def token_clone_def
      token_fromProtobuf_def token_toProtobuf_def id_toMessage_def)

text \<open>
  Ids of files, topics, schedules and tokens survive every conversion: printed, with the
  checksum appended that they carry, and parsed again they are the same id; sent as a
  message they lose nothing but the checksum; a clone is the same id.
\<close>

theorem plain_ids_survive:
  assumes "long_text print parse" "id_valid i" "checksum_shape k"
  shows "(let x = \<lparr>fl_ids = i, fl_checksum = k\<rparr>
      in file_fromString parse (file_toString print x @ checksum_suffix k) = Inr x \<and>
         file_fromProtobuf print parse (file_toProtobuf x) = Inr (x\<lparr>fl_checksum := None\<rparr>) \<and>
         file_clone x = Inr x) \<and>
    (let x = \<lparr>tp_ids = i, tp_checksum = k\<rparr>
      in topic_fromString parse (topic_toString print x @ checksum_suffix k) = Inr x \<and>
         topic_fromProtobuf (topic_toProtobuf x) = Inr (x\<lparr>tp_checksum := None\<rparr>) \<and>
         topic_clone x = Inr x) \<and>
    (let x = \<lparr>sc_ids = i, sc_checksum = k\<rparr>
      in schedule_fromString parse (schedule_toString print x @ checksum_suffix k) = Inr x \<and>
         schedule_fromProtobuf (schedule_toProtobuf x) = Inr (x\<lparr>sc_checksum := None\<rparr>) \<and>
         schedule_clone x = Inr x) \<and>
    (let x = \<lparr>tk_ids = i, tk_checksum = k\<rparr>
      in token_fromString parse (token_toString print x @ checksum_suffix k) = Inr x \<and>
         token_fromProtobuf (token_toProtobuf x) = Inr (x\<lparr>tk_checksum := None\<rparr>) \<and>
         token_clone x = Inr x)"
  using files.survives [OF assms] topics.survives [OF assms] schedules.survives [OF assms]
    tokens.survives [OF assms]
  by (simp add: Let_def)

theorem plain_ids_survive_witness:
  "file_fromString std_parse
     (file_toString std_print \<lparr>fl_ids = (0, 0, 111), fl_checksum = Some ''abcde''\<rparr> @ checksum_suffix (Some ''abcde'')) =
   Inr \<lparr>fl_ids = (0, 0, 111), fl_checksum = Some ''abcde''\<rparr>"
proof -
  have "id_valid (0, 0, 111)" "checksum_shape (Some ''abcde'')"
    by (simp_all add: id_valid_def checksum_shape_def is_lower_def char_code_def)
  from plain_ids_survive [OF std_long_text this] show ?thesis by (simp add: Let_def)
qed

subsection \<open>No id is negative\<close>

lemma id_valid_alt: "id_valid i \<longleftrightarrow> 0 \<le> sint (fst i) \<and> 0 \<le> sint (fst (snd i)) \<and> 0 \<le> sint (snd (snd i))"
  by (cases i) (simp add: id_valid_def)

lemma news_valid:
  "file_new p r n = Inr f \<Longrightarrow> id_valid (fl_ids f)"
  "topic_new p r n = Inr t \<Longrightarrow> id_valid (tp_ids t)"
  "schedule_new p r n = Inr s \<Longrightarrow> id_valid (sc_ids s)"
  "token_new p r n = Inr k \<Longrightarrow> id_valid (tk_ids k)"
  "contract_new p r n e = Inr c \<Longrightarrow> id_valid (cn_ids c)"
  "delegate_new p r n e = Inr c \<Longrightarrow> id_valid (cn_ids c)"
  "account_new p r n key e = Inr a \<Longrightarrow> id_valid (account_triple a)"
  by (auto simp: file_new_def topic_new_def schedule_new_def token_new_def contract_new_def
      delegate_new_def account_new_def account_triple_def js_bind_eq_Inr dest!: entity_constructor_valid)

lemma delegate_of_valid: "delegate_of c = Inr d \<Longrightarrow> id_valid (cn_ids d)"
  by (auto simp: delegate_of_def news_valid split: prod.splits)

text \<open>
  C38. No id is ever negative: whatever text, message, address or other id it is made from,
  the id of a file, topic, schedule, token, contract or account that comes out has three
  numbers that are not negative; every other input throws.
\<close>

theorem ids_never_negative:
  "(file_fromString parse x = Inr f \<or> file_fromProtobuf print parse m = Inr f \<or>
      file_fromSolidityAddress x = Inr f \<or> file_clone f' = Inr f \<longrightarrow> id_valid (fl_ids f)) \<and>
   (topic_fromString parse x = Inr t \<or> topic_fromProtobuf m = Inr t \<or>
      topic_fromSolidityAddress x = Inr t \<or> topic_clone t' = Inr t \<longrightarrow> id_valid (tp_ids t)) \<and>
   (schedule_fromString parse x = Inr s \<or> schedule_fromProtobuf m = Inr s \<or>
      schedule_fromSolidityAddress x = Inr s \<or> schedule_clone s' = Inr s \<longrightarrow> id_valid (sc_ids s)) \<and>
   (token_fromString parse x = Inr k \<or> token_fromProtobuf m = Inr k \<or>
      token_fromSolidityAddress x = Inr k \<or> token_clone k' = Inr k \<longrightarrow> id_valid (tk_ids k)) \<and>
   (contract_fromString parse x = Inr c \<or> contract_fromProtobuf m = Inr c \<or>
      contract_fromSolidityAddress x = Inr c \<or> contract_clone c' = Inr c \<or>
      delegate_fromString parse x = Inr c \<or> delegate_fromProtobuf m = Inr c \<or>
      delegate_clone c' = Inr c \<longrightarrow> id_valid (cn_ids c)) \<and>
   (account_fromString parse pk_parse x = Inr a \<or> account_fromProtobuf key_decode am = Inr a \<or>
      account_fromSolidityAddress x = Inr a \<or> account_clone a' = Inr a \<longrightarrow> id_valid (account_triple a))"
proof (intro conjI impI)
  show "id_valid (fl_ids f)" if "file_fromString parse x = Inr f \<or> file_fromProtobuf print parse m = Inr f \<or>
      file_fromSolidityAddress x = Inr f \<or> file_clone f' = Inr f"
    using that by (auto simp: file_fromString_def file_fromProtobuf_def file_fromSolidityAddress_def
        file_clone_def js_bind_eq_Inr news_valid split: prod.splits)
  show "id_valid (tp_ids t)" if "topic_fromString parse x = Inr t \<or> topic_fromProtobuf m = Inr t \<or>
      topic_fromSolidityAddress x = Inr t \<or> topic_clone t' = Inr t"
    using that by (auto simp: topic_fromString_def topic_fromProtobuf_def topic_fromSolidityAddress_def
        topic_clone_def js_bind_eq_Inr news_valid split: prod.splits)
  show "id_valid (sc_ids s)" if "schedule_fromString parse x = Inr s \<or> schedule_fromProtobuf m = Inr s \<or>
      schedule_fromSolidityAddress x = Inr s \<or> schedule_clone s' = Inr s"
    using that by (auto simp: schedule_fromString_def schedule_fromProtobuf_def
        schedule_fromSolidityAddress_def schedule_clone_def js_bind_eq_Inr news_valid split: prod.splits)
  show "id_valid (tk_ids k)" if "token_fromString parse x = Inr k \<or> token_fromProtobuf m = Inr k \<or>
      token_fromSolidityAddress x = Inr k \<or> token_clone k' = Inr k"
    using that by (auto simp: token_fromString_def token_fromProtobuf_def token_fromSolidityAddress_def
        token_clone_def js_bind_eq_Inr news_valid split: prod.splits)
  show "id_valid (cn_ids c)" if "contract_fromString parse x = Inr c \<or> contract_fromProtobuf m = Inr c \<or>
      contract_fromSolidityAddress x = Inr c \<or> contract_clone c' = Inr c \<or>
      delegate_fromString parse x = Inr c \<or> delegate_fromProtobuf m = Inr c \<or> delegate_clone c' = Inr c"
    using that by (auto simp: contract_fromString_def contract_fromProtobuf_def
        contract_fromSolidityAddress_def contract_clone_def delegate_fromString_def
        delegate_fromProtobuf_def delegate_clone_def js_bind_eq_Inr news_valid delegate_of_valid
        split: prod.splits if_splits)
  show "id_valid (account_triple a)" if "account_fromString parse pk_parse x = Inr a \<or>
      account_fromProtobuf key_decode am = Inr a \<or> account_fromSolidityAddress x = Inr a \<or>
      account_clone a' = Inr a"
    using that by (auto simp: account_fromString_def account_fromProtobuf_def
        account_fromSolidityAddress_def account_clone_def js_bind_eq_Inr news_valid
        split: prod.splits if_splits dest: news_valid(7) simp: account_triple_def)
qed

theorem ids_never_negative_witness:
  "\<exists>f. file_clone \<lparr>fl_ids = (0, 0, 111), fl_checksum = None\<rparr> = Inr f \<and> id_valid (fl_ids f)"
proof -
  let ?f = "\<lparr>fl_ids = (0, 0, 111), fl_checksum = None\<rparr>"
  have made: "file_clone ?f = Inr ?f"
    by (simp add: file_clone_def file_new_def id_valid_def)
  then show ?thesis using ids_never_negative [where f = ?f and f' = ?f] by blast
qed

subsection \<open>The EVM address of a contract\<close>

lemma contract_text_back:
  assumes "long_text print parse" "id_valid (s, r, n)" "20 \<le> length e"
  shows "contract_fromString parse
      (contract_toString print \<lparr>cn_ids = (s, r, n), cn_evmAddress = Some e, cn_checksum = k\<rparr>) =
    Inr \<lparr>cn_ids = (s, r, 0), cn_evmAddress = Some e, cn_checksum = None\<rparr>"
proof -
  have v: "0 \<le> sint s" "0 \<le> sint r" using assms(2) by (simp_all add: id_valid_def)
  note p = long_print_parse [OF assms(1) v(1)] long_print_parse [OF assms(1) v(2)]
  have "list_all is_hex (hex_encode e)" using hex_encode_hex by (auto simp: list_all_iff)
  moreover have "hex_encode e \<noteq> []" using assms(3) length_hex_encode [of e] by (auto simp del: length_hex_encode)
  ultimately have "fromStringSplitter (print s @ ''.'' @ print r @ ''.'' @ hex_encode e @ checksum_suffix None) =
      Inr \<lparr>ip_shard = print s, ip_realm = print r, ip_numOrHex = hex_encode e, ip_checksum = None\<rparr>"
    by (intro splitter_parts) (simp_all add: p dec_digits checksum_shape_def)
  then show ?thesis
    using p(1,3) assms(3) v
    by (simp add: contract_fromString_def contract_toString_def checksum_suffix_def contract_new_def id_valid_def)
qed

text \<open>
  A contract given by its EVM address loses it on the way.  Printing and parsing it, or
  cloning it, keeps the address; but read back from its message it is the contract with the
  bare number, usually 0.0.0, with another text and another Solidity address; and a delegate
  contract id drops the address whenever it is parsed or cloned.
\<close>

theorem contract_evm_address_lost:
  assumes "long_text print parse" "id_valid (s, r, n)" "20 \<le> length e"
  shows "let x = \<lparr>cn_ids = (s, r, n), cn_evmAddress = Some e, cn_checksum = k\<rparr>;
      bare = \<lparr>cn_ids = (s, r, n), cn_evmAddress = None, cn_checksum = None\<rparr>
    in contract_clone x = Inr x \<and>
       contract_fromString parse (contract_toString print x) =
         Inr (x\<lparr>cn_ids := (s, r, 0), cn_checksum := None\<rparr>) \<and>
       contract_fromProtobuf (contract_toProtobuf x) = Inr bare \<and>
       contract_toString print bare \<noteq> contract_toString print x \<and>
       delegate_clone x = Inr (bare\<lparr>cn_checksum := k\<rparr>) \<and>
       delegate_fromString parse (contract_toString print x) = Inr (bare\<lparr>cn_ids := (s, r, 0)\<rparr>)"
proof -
  let ?x = "\<lparr>cn_ids = (s, r, n), cn_evmAddress = Some e, cn_checksum = k\<rparr>"
  note parsed = contract_text_back [OF assms, of k]
  have v: "0 \<le> sint s" "0 \<le> sint r" "0 \<le> sint n" using assms(2) by (simp_all add: id_valid_def)
  have "print n = dec (unat n)" by (rule long_print_parse(2) [OF assms(1) v(3)])
  then have "length (print n) < length (hex_encode e)" using length_dec_long [OF v(3)] assms(3) by simp
  then have "print n \<noteq> hex_encode e" by auto
  then have "contract_toString print \<lparr>cn_ids = (s, r, n), cn_evmAddress = None, cn_checksum = None\<rparr> \<noteq>
      contract_toString print ?x"
    by (simp add: contract_toString_def entity_text_def)
  moreover have "contract_clone ?x = Inr ?x"
    "contract_fromProtobuf (contract_toProtobuf ?x) =
       Inr \<lparr>cn_ids = (s, r, n), cn_evmAddress = None, cn_checksum = None\<rparr>"
    "delegate_clone ?x = Inr \<lparr>cn_ids = (s, r, n), cn_evmAddress = None, cn_checksum = k\<rparr>"
    using assms(2) by (simp_all add: contract_clone_def contract_new_def contract_fromProtobuf_def
        contract_toProtobuf_def delegate_clone_def delegate_of_def delegate_new_def)
  moreover have "id_valid (s, r, 0)" using v by (simp add: id_valid_def)
  then have "delegate_fromString parse (contract_toString print ?x) =
      Inr \<lparr>cn_ids = (s, r, 0), cn_evmAddress = None, cn_checksum = None\<rparr>"
    using parsed by (simp add: delegate_fromString_def delegate_of_def delegate_new_def contract_new_def)
  ultimately show ?thesis using parsed by (simp add: Let_def)
qed

theorem contract_evm_address_lost_witness:
  "contract_fromProtobuf (contract_toProtobuf
     \<lparr>cn_ids = (0, 0, 0), cn_evmAddress = Some (replicate 20 7), cn_checksum = None\<rparr>) =
   Inr \<lparr>cn_ids = (0, 0, 0), cn_evmAddress = None, cn_checksum = None\<rparr>"
proof -
  have "id_valid (0, 0, 0)" "20 \<le> length (replicate 20 (7 :: 8 word))" by (simp_all add: id_valid_def)
  from contract_evm_address_lost [OF std_long_text this, of None] show ?thesis by (simp add: Let_def)
qed

subsection \<open>Accounts and transaction ids as messages\<close>

definition account_sent :: "'k account_id \<Rightarrow> 'k account_id" where
  "account_sent a =
     (case ac_aliasKey a of
        None \<Rightarrow> a\<lparr>ac_checksum := None\<rparr>
      | Some k \<Rightarrow> a\<lparr>ac_checksum := None, ac_num := 0, ac_evmAddress := None\<rparr>)"

lemma account_back:
  assumes "id_valid (account_triple a)"
    and "\<forall>k. ac_aliasKey a = Some k \<longrightarrow> key_decode (key_encode k) = Inr (Some k) \<and> length (key_encode k) \<noteq> 20"
    and "\<forall>e. ac_evmAddress a = Some e \<longrightarrow> length e = 20"
  shows "account_fromProtobuf key_decode (account_toProtobuf key_encode a) = Inr (account_sent a)"
proof (cases "ac_aliasKey a")
  case None
  then show ?thesis using assms(1,3)
    by (cases "ac_evmAddress a"; cases a)
      (simp_all add: account_fromProtobuf_def account_toProtobuf_def account_sent_def account_new_def
        account_triple_def)
next
  case (Some k)
  have "id_valid (ac_shard a, ac_realm a, 0)" using assms(1) by (simp add: account_triple_def id_valid_def)
  with Some assms(2) show ?thesis
    by (cases a) (simp add: account_fromProtobuf_def account_toProtobuf_def account_sent_def account_new_def
        or_zero_def [of None])
qed

text \<open>
  Accounts and transaction ids sent as messages come back as they were, with what the
  message has no room for: an account loses its checksum, and one with an alias key its
  number and EVM address too; the times and the nonce of a transaction id come back as long
  as they fit in 32 bits.
\<close>

theorem account_messages_round_trip:
  assumes "id_valid (account_triple a)"
    and "\<forall>k. ac_aliasKey a = Some k \<longrightarrow> key_decode (key_encode k) = Inr (Some k) \<and> length (key_encode k) \<noteq> 20"
    and "\<forall>e. ac_evmAddress a = Some e \<longrightarrow> length e = 20"
    and "\<forall>x \<in> {ts_seconds t, ts_nanos t} \<union> set_option nonce. - (2 ^ 31) \<le> sint x \<and> sint x < 2 ^ 31"
  shows "account_fromProtobuf key_decode (account_toProtobuf key_encode a) = Inr (account_sent a) \<and>
    txid_fromProtobuf key_decode (txid_toProtobuf key_encode (txid_new (Some a) (Some t) scheduled nonce)) =
      Inr (txid_new (Some (account_sent a)) (Some t) scheduled nonce)"
proof
  show acc: "account_fromProtobuf key_decode (account_toProtobuf key_encode a) = Inr (account_sent a)"
    by (rule account_back [OF assms(1,2,3)])
  have fits: "long_toInt x = sint x" if "x \<in> {ts_seconds t, ts_nanos t} \<union> set_option nonce" for x
    using assms(4) that unfolding long_toInt_fits by blast
  have "ts_fromProtobuf (ts_toProtobuf t) = t"
    using fits by (simp add: ts_fromProtobuf_def ts_toProtobuf_def)
  moreover have "(case map_option word_of_int (map_option long_toInt nonce) of
      None \<Rightarrow> i | Some n \<Rightarrow> if n \<noteq> 0 then txid_setNonce n i else i) =
      (case nonce of None \<Rightarrow> i | Some n \<Rightarrow> if n \<noteq> 0 then txid_setNonce n i else i)" for i :: "'a tx_id"
    using fits by (cases nonce) simp_all
  ultimately show "txid_fromProtobuf key_decode (txid_toProtobuf key_encode (txid_new (Some a) (Some t) scheduled nonce)) =
      Inr (txid_new (Some (account_sent a)) (Some t) scheduled nonce)"
    using acc fits
    by (cases nonce)
      (simp_all add: txid_fromProtobuf_def txid_toProtobuf_def txid_new_def Let_def txid_setNonce_def)
qed

theorem account_messages_round_trip_witness:
  "txid_fromProtobuf (\<lambda>_. Inr (Some ())) (txid_toProtobuf (\<lambda>_. [1, 2])
     (txid_new (Some ((plain_account (0, 0, 5))\<lparr>ac_aliasKey := Some ()\<rparr>))
        (Some \<lparr>ts_seconds = 1700000000, ts_nanos = 7\<rparr>) True (Some 3))) =
   Inr (txid_new (Some ((plain_account (0, 0, 0))\<lparr>ac_aliasKey := Some ()\<rparr>))
        (Some \<lparr>ts_seconds = 1700000000, ts_nanos = 7\<rparr>) True (Some 3))"
  using account_messages_round_trip [of "(plain_account (0, 0, 5))\<lparr>ac_aliasKey := Some ()\<rparr>"
      "\<lambda>_. Inr (Some ())" "\<lambda>_. [1, 2]" "\<lparr>ts_seconds = 1700000000, ts_nanos = 7\<rparr>" "Some 3" True]
  by (simp add: plain_account_def account_triple_def id_valid_def account_sent_def)

end
