(* ===== verification/RoundRobin.thy ===== *)
theory RoundRobin
  imports Prelude
begin

text \<open>
  The list type of \<open>src/src/transaction/List.js\<close>: an array with a cursor that
  moves round robin and a lock that guards \<open>setList\<close> and \<open>push\<close>.  The cursor is
  \<open>None\<close> where the code computes \<open>NaN\<close> (\<open>advance\<close> on an empty list divides by
  zero).  \<open>rl_clone\<close> copies the array by reference in the code; the model copies
  its value, which agrees as long as neither copy is pushed to.
\<close>

subsection \<open>State and operations\<close>

record 'a rlist =
  rl_list :: "'a list"
  rl_locked :: bool
  rl_index :: "nat option"

definition rl_new :: "'a rlist" where
  "rl_new = \<lparr>rl_list = [], rl_locked = False, rl_index = Some 0\<rparr>"

definition rl_setList :: "'a rlist \<Rightarrow> 'a list \<Rightarrow> 'a rlist js" where
  "rl_setList l xs =
     (if rl_locked l then Inl ListLocked
      else Inr (l\<lparr>rl_list := xs, rl_index := Some 0\<rparr>))"

definition rl_push :: "'a rlist \<Rightarrow> 'a list \<Rightarrow> 'a rlist js" where
  "rl_push l xs =
     (if rl_locked l then Inl ListLocked else Inr (l\<lparr>rl_list := rl_list l @ xs\<rparr>))"

definition rl_setLocked :: "'a rlist \<Rightarrow> 'a rlist" where
  "rl_setLocked l = l\<lparr>rl_locked := True\<rparr>"

definition rl_clear :: "'a rlist \<Rightarrow> 'a rlist" where
  "rl_clear l = l\<lparr>rl_list := [], rl_index := Some 0\<rparr>"

definition rl_length :: "'a rlist \<Rightarrow> nat" where
  "rl_length l = length (rl_list l)"

definition rl_isEmpty :: "'a rlist \<Rightarrow> bool" where
  "rl_isEmpty l = (rl_length l = 0)"

text \<open>A read at \<open>NaN\<close> or past the end is \<open>undefined\<close>.\<close>

definition rl_get :: "'a rlist \<Rightarrow> nat option \<Rightarrow> 'a option" where
  "rl_get l i = (case i of None \<Rightarrow> None | Some k \<Rightarrow> js_nth (rl_list l) k)"

text \<open>
  A write at \<open>NaN\<close> creates a property named NaN and leaves the array alone; a
  write past the end leaves holes, which read as \<open>hole\<close>.
\<close>

definition rl_set :: "'a \<Rightarrow> 'a rlist \<Rightarrow> nat option \<Rightarrow> 'a \<Rightarrow> 'a rlist" where
  "rl_set hole l i x =
     (case i of
        None \<Rightarrow> l
      | Some k \<Rightarrow>
          (if k = rl_length l then l\<lparr>rl_list := rl_list l @ [x]\<rparr>
           else l\<lparr>rl_list := js_upd hole (rl_list l) k x\<rparr>))"

text \<open>For nullable elements: \<open>None\<close> is \<open>null\<close> (or a hole), tested with \<open>== null\<close>.\<close>

definition rl_setIfAbsent :: "'a option rlist \<Rightarrow> nat \<Rightarrow> 'a \<Rightarrow> 'a option rlist" where
  "rl_setIfAbsent l k x =
     (if k = rl_length l \<or> rl_get l (Some k) = None \<or> rl_get l (Some k) = Some None
      then rl_set None l (Some k) (Some x) else l)"

definition rl_current :: "'a rlist \<Rightarrow> 'a option" where
  "rl_current l = rl_get l (rl_index l)"

definition rl_advance :: "'a rlist \<Rightarrow> nat option \<times> 'a rlist" where
  "rl_advance l =
     (rl_index l,
      l\<lparr>rl_index :=
          (case rl_index l of
             None \<Rightarrow> None
           | Some i \<Rightarrow> if rl_list l = [] then None
                       else Some (Suc i mod length (rl_list l)))\<rparr>)"

definition rl_next :: "'a rlist \<Rightarrow> 'a option \<times> 'a rlist" where
  "rl_next l = (let (i, l') = rl_advance l in (rl_get l' i, l'))"

definition rl_clone :: "'a rlist \<Rightarrow> 'a rlist" where
  "rl_clone l = rl_new\<lparr>rl_list := rl_list l, rl_locked := rl_locked l\<rparr>"

lemmas rl_defs = rl_new_def rl_setList_def rl_push_def rl_setLocked_def rl_clear_def
  rl_length_def rl_isEmpty_def rl_get_def rl_set_def rl_setIfAbsent_def rl_current_def
  rl_advance_def rl_next_def rl_clone_def

subsection \<open>The invariant of the cursor\<close>

text \<open>The cursor points into a non-empty list; it is \<open>0\<close> or \<open>NaN\<close> on an empty one.\<close>

definition rl_inv :: "'a rlist \<Rightarrow> bool" where
  "rl_inv l \<longleftrightarrow>
     (case rl_index l of
        None \<Rightarrow> rl_list l = []
      | Some i \<Rightarrow> (rl_list l = [] \<and> i = 0) \<or> i < length (rl_list l))"

lemma rl_inv_new [simp]: "rl_inv rl_new"
  by (simp add: rl_inv_def rl_defs)

lemma rl_inv_setList: "rl_setList l xs = Inr l' \<Longrightarrow> rl_inv l'"
  by (auto simp: rl_inv_def rl_defs split: if_splits)

lemma rl_inv_setLocked [simp]: "rl_inv (rl_setLocked l) = rl_inv l"
  by (auto simp: rl_inv_def rl_defs split: option.splits)

lemma rl_inv_clear [simp]: "rl_inv (rl_clear l)"
  by (simp add: rl_inv_def rl_defs)

lemma rl_inv_advance: "rl_inv l \<Longrightarrow> rl_inv (snd (rl_advance l))"
  by (auto simp: rl_inv_def rl_defs split: option.splits)

lemma rl_inv_clone [simp]: "rl_inv (rl_clone l)"
  by (auto simp: rl_inv_def rl_defs)

lemma rl_inv_set:
  "rl_inv l \<Longrightarrow> rl_index l \<noteq> None \<Longrightarrow> rl_inv (rl_set hole l i x)"
  by (auto simp: rl_inv_def rl_defs js_upd_def split: option.splits)

text \<open>
  Pushing to an empty list whose cursor was advanced is the one way to a non-empty
  list that can never be read again: the cursor stays \<open>NaN\<close>.
\<close>

lemma rl_push_after_empty_advance:
  "rl_push (snd (rl_advance rl_new)) [x] = Inr l \<Longrightarrow>
     rl_current l = None \<and> rl_current (snd (rl_advance l)) = None"
  by (auto simp: rl_defs)

lemma rl_locked_simps [simp]:
  "rl_locked (rl_setLocked l)"
  "rl_locked (rl_clear l) = rl_locked l"
  "rl_locked (snd (rl_advance l)) = rl_locked l"
  "rl_locked (rl_set h l i x) = rl_locked l"
  "rl_locked (rl_clone l) = rl_locked l"
  "\<not> rl_locked rl_new"
  by (auto simp: rl_defs split: option.splits)

lemma rl_list_simps [simp]:
  "rl_list (rl_setLocked l) = rl_list l"
  "rl_list (rl_clear l) = []"
  "rl_list (snd (rl_advance l)) = rl_list l"
  "rl_list (rl_clone l) = rl_list l"
  "rl_list rl_new = []"
  by (auto simp: rl_defs)

lemma rl_index_simps [simp]:
  "rl_index (rl_setLocked l) = rl_index l"
  "rl_index (rl_clear l) = Some 0"
  "rl_index (rl_clone l) = Some 0"
  "rl_index rl_new = Some 0"
  by (auto simp: rl_defs)

lemma rl_setList_locked [simp]: "rl_locked l \<Longrightarrow> rl_setList l xs = Inl ListLocked"
  by (simp add: rl_defs)

lemma rl_push_locked [simp]: "rl_locked l \<Longrightarrow> rl_push l xs = Inl ListLocked"
  by (simp add: rl_defs)

subsection \<open>Round robin\<close>

definition rl_steps :: "nat \<Rightarrow> 'a rlist \<Rightarrow> 'a rlist" where
  "rl_steps k l = ((\<lambda>l. snd (rl_advance l)) ^^ k) l"

lemma rl_steps_0 [simp]: "rl_steps 0 l = l"
  by (simp add: rl_steps_def)

lemma rl_steps_Suc: "rl_steps (Suc k) l = snd (rl_advance (rl_steps k l))"
  by (simp add: rl_steps_def)

lemma rl_steps_Suc2: "rl_steps (Suc k) l = rl_steps k (snd (rl_advance l))"
  by (simp add: rl_steps_def funpow_Suc_right del: funpow.simps)

lemma rl_steps_list [simp]: "rl_list (rl_steps k l) = rl_list l"
  by (induction k) (simp_all add: rl_steps_Suc)

lemma rl_steps_locked [simp]: "rl_locked (rl_steps k l) = rl_locked l"
  by (induction k) (simp_all add: rl_steps_Suc)

lemma rl_inv_steps: "rl_inv l \<Longrightarrow> rl_inv (rl_steps k l)"
  by (induction k) (simp_all add: rl_steps_Suc rl_inv_advance)

lemma rl_steps_add: "rl_steps (j + k) l = rl_steps j (rl_steps k l)"
  by (simp add: rl_steps_def funpow_add)

lemma rl_steps_index:
  assumes "rl_index l = Some i" "rl_list l \<noteq> []" "i < length (rl_list l)"
  shows "rl_index (rl_steps k l) = Some ((i + k) mod length (rl_list l))"
proof (induction k)
  case 0
  with assms show ?case by simp
next
  case (Suc k)
  then show ?case using assms(2)
    by (simp add: rl_steps_Suc rl_advance_def mod_Suc_eq)
qed

lemma rl_current_steps:
  assumes "rl_inv l" "rl_list l \<noteq> []"
  shows "\<exists>i < length (rl_list l). rl_index l = Some i \<and>
     (\<forall>k. rl_current (rl_steps k l) =
            Some (rl_list l ! ((i + k) mod length (rl_list l))))"
proof -
  from assms obtain i where i: "rl_index l = Some i" "i < length (rl_list l)"
    by (auto simp: rl_inv_def split: option.splits)
  then show ?thesis using assms(2)
    by (auto simp: rl_current_def rl_get_def rl_steps_index js_nth_def)
qed

lemma rl_current_in:
  assumes "rl_inv l" "rl_list l \<noteq> []"
  shows "\<exists>a. rl_current l = Some a \<and> a \<in> set (rl_list l)"
proof -
  from rl_current_steps [OF assms] obtain i where
    "\<forall>k. rl_current (rl_steps k l) = Some (rl_list l ! ((i + k) mod length (rl_list l)))" by blast
  then have "rl_current l = Some (rl_list l ! (i mod length (rl_list l)))"
    by (metis add_0_right rl_steps_0)
  then show ?thesis using assms(2) by simp
qed

text \<open>
  Round robin covers the whole list: from any state that keeps the cursor
  invariant, a list of n elements returns after n calls of advance to where it was,
  and in those n calls current reads every element exactly once, in cyclic order.
\<close>

theorem round_robin_full_cycle:
  assumes "rl_inv l" "rl_list l \<noteq> []"
  shows "rl_steps (rl_length l) l = l \<and>
    mset (map (\<lambda>k. rl_current (rl_steps k l)) [0..<rl_length l]) =
      mset (map Some (rl_list l))"
proof
  let ?n = "length (rl_list l)"
  from rl_current_steps [OF assms] obtain i
    where i: "i < ?n" "rl_index l = Some i"
      and cur: "\<And>k. rl_current (rl_steps k l) = Some (rl_list l ! ((i + k) mod ?n))"
    by blast
  have "rl_index (rl_steps ?n l) = rl_index l"
    using i assms(2) by (simp add: rl_steps_index)
  then show "rl_steps (rl_length l) l = l"
    by (cases l; cases "rl_steps ?n l")
       (use rl_steps_list [of ?n l] rl_steps_locked [of ?n l] in \<open>simp add: rl_length_def\<close>)
  have "map (\<lambda>k. rl_current (rl_steps k l)) [0..<?n]
          = map (\<lambda>k. Some (rl_list l ! ((i + k) mod ?n))) [0..<?n]"
    by (simp add: cur)
  also have "\<dots> = map Some (rotate i (rl_list l))"
    by (rule nth_equalityI) (auto simp: nth_rotate add.commute)
  finally have "mset (map (\<lambda>k. rl_current (rl_steps k l)) [0..<?n]) =
      mset (map Some (rotate i (rl_list l)))"
    by (rule arg_cong)
  also have "\<dots> = mset (map Some (rl_list l))"
    by (simp add: mset_rotate)
  finally show "mset (map (\<lambda>k. rl_current (rl_steps k l)) [0..<rl_length l]) =
      mset (map Some (rl_list l))"
    by (simp only: rl_length_def)
qed

theorem round_robin_full_cycle_witness:
  "rl_steps 3 \<lparr>rl_list = [10, 20, 30 :: nat], rl_locked = True, rl_index = Some 2\<rparr> =
     \<lparr>rl_list = [10, 20, 30], rl_locked = True, rl_index = Some 2\<rparr>"
  using round_robin_full_cycle
    [of "\<lparr>rl_list = [10, 20, 30 :: nat], rl_locked = True, rl_index = Some 2\<rparr>"]
  by (simp add: rl_inv_def rl_length_def eval_nat_numeral)

end
