(* ===== verification/NodeBackoff.thy ===== *)
theory NodeBackoff
  imports JsValues
begin

text \<open>
  Nodes of the network: \<open>src/src/ManagedNodeAddress.js\<close>, \<open>src/src/ManagedNode.js\<close>
  and its subclass \<open>src/src/Node.js\<close>.  Times and backoffs are JavaScript numbers in
  milliseconds (\<open>rat\<close>: the code only adds, doubles, halves and compares them, which
  doubles do exactly in this range); every \<open>Date.now()\<close> is the argument \<open>now\<close>.
  A channel is an element of the type parameter \<open>'ch\<close>; what opens one is passed in.
  Account IDs appear here through their string form, which is all a node uses.
\<close>

subsection \<open>Addresses\<close>

record node_address =
  na_address :: string
  na_port :: "nat option"

definition js_space :: "char \<Rightarrow> bool" where
  "js_space c \<longleftrightarrow> char_code c \<in> {9, 10, 11, 12, 13, 32, 160}"

text \<open>
  \<open>HOST_AND_PORT\<close>, the regular expression for one or more non-space characters, a
  colon and one or more digits up to the end: the trailing digits must be preceded
  by a colon, and everything before that colon is the host.
\<close>

definition host_and_port :: "string \<Rightarrow> (string \<times> string) option" where
  "host_and_port s =
     (let ds = takeWhile is_digit (rev s); rest = dropWhile is_digit (rev s)
      in case rest of
           [] \<Rightarrow> None
         | c # h \<Rightarrow>
             if c = CHR '':'' \<and> ds \<noteq> [] \<and> h \<noteq> [] \<and> list_all (\<lambda>x. \<not> js_space x) h
             then Some (rev h, rev ds) else None)"

definition na_new ::
  "string option \<Rightarrow> string option \<Rightarrow> nat option \<Rightarrow> node_address js" where
  "na_new address host port =
     (case address of
        Some a \<Rightarrow>
          (case host_and_port a of
             None \<Rightarrow> Inl BadAddress
           | Some (h, p) \<Rightarrow> Inr \<lparr>na_address = h, na_port = Some (parse_dec p)\<rparr>)
      | None \<Rightarrow>
          (case (host, port) of
             (Some h, Some p) \<Rightarrow> Inr \<lparr>na_address = h, na_port = Some p\<rparr>
           | _ \<Rightarrow> Inl BadAddress))"

definition na_fromString :: "string \<Rightarrow> node_address js" where
  "na_fromString a = na_new (Some a) None None"

definition na_toInsecure :: "node_address \<Rightarrow> node_address js" where
  "na_toInsecure a =
     na_new None (Some (na_address a))
       (if na_port a = Some 50212 then Some 50211 else na_port a)"

definition na_toSecure :: "node_address \<Rightarrow> node_address js" where
  "na_toSecure a =
     na_new None (Some (na_address a))
       (if na_port a = Some 50211 then Some 50212 else na_port a)"

definition na_isTransportSecurity :: "node_address \<Rightarrow> bool" where
  "na_isTransportSecurity a \<longleftrightarrow> na_port a = Some 50212 \<or> na_port a = Some 443"

definition na_toString :: "node_address \<Rightarrow> string" where
  "na_toString a =
     (case na_port a of None \<Rightarrow> na_address a
      | Some p \<Rightarrow> na_address a @ '':'' @ dec p)"

lemmas na_defs = na_new_def na_fromString_def na_toInsecure_def na_toSecure_def
  na_isTransportSecurity_def na_toString_def

lemma host_and_port_render:
  assumes "h \<noteq> []" "list_all (\<lambda>x. \<not> js_space x) h"
  shows "host_and_port (h @ CHR '':'' # dec p) = Some (h, dec p)"
proof -
  have colon: "\<not> is_digit (CHR '':'')" by (simp add: is_digit_def char_code_def)
  have "takeWhile is_digit (rev (dec p) @ CHR '':'' # rev h) = rev (dec p)"
    using colon by (subst takeWhile_append2) auto
  moreover have "dropWhile is_digit (rev (dec p) @ CHR '':'' # rev h) = CHR '':'' # rev h"
    using colon by (subst dropWhile_append2) auto
  ultimately show ?thesis
    using assms by (simp add: host_and_port_def)
qed

lemma host_and_port_sound:
  assumes "host_and_port s = Some (h, p)"
  shows "s = h @ CHR '':'' # p \<and> h \<noteq> [] \<and> list_all (\<lambda>x. \<not> js_space x) h \<and>
    p \<noteq> [] \<and> list_all is_digit p"
proof -
  from assms obtain h' where r: "dropWhile is_digit (rev s) = CHR '':'' # h'"
    and h: "h = rev h'" "h' \<noteq> []" "list_all (\<lambda>x. \<not> js_space x) h'"
    and p: "p = rev (takeWhile is_digit (rev s))" "takeWhile is_digit (rev s) \<noteq> []"
    by (auto simp: host_and_port_def Let_def split: list.splits if_splits)
  have "rev s = takeWhile is_digit (rev s) @ CHR '':'' # h'"
    using r by (metis takeWhile_dropWhile_id)
  then have "s = rev (takeWhile is_digit (rev s) @ CHR '':'' # h')"
    by (metis rev_rev_ident)
  then have "s = h @ CHR '':'' # p" using h p by simp
  then show ?thesis using h p
    by (auto simp: list_all_iff dest: set_takeWhileD)
qed

text \<open>
  Parsing a node address accepts exactly the strings host:port with a non-empty
  host without white space and a non-empty run of digits, and printing an address
  that was built from such a host parses back to the same address.
\<close>

theorem node_address_roundtrip:
  "(js_ok (na_fromString s) \<longleftrightarrow>
      (\<exists>h p. s = h @ CHR '':'' # p \<and> h \<noteq> [] \<and> list_all (\<lambda>x. \<not> js_space x) h \<and>
             p \<noteq> [] \<and> list_all is_digit p)) \<and>
   (\<forall>a. na_fromString s = Inr a \<longrightarrow> na_fromString (na_toString a) = Inr a)"
proof (intro conjI iffI allI impI)
  assume "js_ok (na_fromString s)"
  then obtain h p where "host_and_port s = Some (h, p)"
    by (auto simp: na_defs split: option.splits)
  then show "\<exists>h p. s = h @ CHR '':'' # p \<and> h \<noteq> [] \<and> list_all (\<lambda>x. \<not> js_space x) h \<and>
             p \<noteq> [] \<and> list_all is_digit p"
    using host_and_port_sound by blast
next
  assume "\<exists>h p. s = h @ CHR '':'' # p \<and> h \<noteq> [] \<and> list_all (\<lambda>x. \<not> js_space x) h \<and>
             p \<noteq> [] \<and> list_all is_digit p"
  then obtain h p where s: "s = h @ CHR '':'' # p" "h \<noteq> []"
      "list_all (\<lambda>x. \<not> js_space x) h" "p \<noteq> []" "list_all is_digit p" by blast
  have colon: "\<not> is_digit (CHR '':'')" by (simp add: is_digit_def char_code_def)
  have "takeWhile is_digit (rev p @ CHR '':'' # rev h) = rev p"
    using colon s(5) by (subst takeWhile_append2) (auto simp: list_all_iff)
  moreover have "dropWhile is_digit (rev p @ CHR '':'' # rev h) = CHR '':'' # rev h"
    using colon s(5) by (subst dropWhile_append2) (auto simp: list_all_iff)
  ultimately show "js_ok (na_fromString s)"
    using s by (simp add: host_and_port_def na_defs)
next
  fix a assume "na_fromString s = Inr a"
  then obtain h p where hp: "host_and_port s = Some (h, p)"
      and a: "a = \<lparr>na_address = h, na_port = Some (parse_dec p)\<rparr>"
    by (auto simp: na_defs split: option.splits)
  from host_and_port_sound [OF hp] show "na_fromString (na_toString a) = Inr a"
    by (simp add: a na_defs host_and_port_render)
qed

theorem node_address_roundtrip_witness:
  "na_fromString ''10.0.0.1:50211'' = Inr \<lparr>na_address = ''10.0.0.1'', na_port = Some 50211\<rparr> \<and>
   na_fromString (na_toString \<lparr>na_address = ''10.0.0.1'', na_port = Some 50211\<rparr>) =
     Inr \<lparr>na_address = ''10.0.0.1'', na_port = Some 50211\<rparr>"
proof -
  have p: "na_fromString ''10.0.0.1:50211'' =
      Inr \<lparr>na_address = ''10.0.0.1'', na_port = Some 50211\<rparr>"
    by (simp add: na_defs host_and_port_def is_digit_def js_space_def char_code_def
        parse_dec_def digit_val_def)
  with node_address_roundtrip [of "''10.0.0.1:50211''"] show ?thesis by blast
qed

subsection \<open>Managed nodes\<close>

record 'ch node =
  nd_address :: node_address
  nd_cert :: "string option"
  nd_channel :: "'ch option"
  nd_lastUsed :: rat
  nd_readmitTime :: rat
  nd_useCount :: nat
  nd_badGrpcStatusCount :: nat
  nd_minBackoff :: rat
  nd_maxBackoff :: rat
  nd_currentBackoff :: rat
  nd_account :: string

definition node_new :: "rat \<Rightarrow> node_address \<Rightarrow> string \<Rightarrow> 'ch node" where
  "node_new now addr account =
     \<lparr>nd_address = addr, nd_cert = None, nd_channel = None,
      nd_lastUsed = now, nd_readmitTime = now, nd_useCount = 0,
      nd_badGrpcStatusCount = 0, nd_minBackoff = 8000,
      nd_maxBackoff = 1000 * 60 * 60, nd_currentBackoff = 8000, nd_account = account\<rparr>"

text \<open>The clone takes its maximum from the original's minimum (line 110 of the source).\<close>

definition node_clone :: "'ch node \<Rightarrow> node_address \<Rightarrow> 'ch node" where
  "node_clone n addr =
     \<lparr>nd_address = addr, nd_cert = nd_cert n, nd_channel = nd_channel n,
      nd_lastUsed = nd_lastUsed n, nd_readmitTime = nd_readmitTime n,
      nd_useCount = nd_useCount n, nd_badGrpcStatusCount = nd_badGrpcStatusCount n,
      nd_minBackoff = nd_minBackoff n, nd_maxBackoff = nd_minBackoff n,
      nd_currentBackoff = nd_currentBackoff n, nd_account = nd_account n\<rparr>"

definition node_setMinBackoff :: "rat \<Rightarrow> 'ch node \<Rightarrow> 'ch node" where
  "node_setMinBackoff b n =
     (if nd_currentBackoff n \<le> b then n\<lparr>nd_currentBackoff := b\<rparr> else n)\<lparr>nd_minBackoff := b\<rparr>"

definition node_setMaxBackoff :: "rat \<Rightarrow> 'ch node \<Rightarrow> 'ch node" where
  "node_setMaxBackoff b n =
     (if nd_currentBackoff n \<le> b then n\<lparr>nd_currentBackoff := b\<rparr> else n)\<lparr>nd_maxBackoff := b\<rparr>"

text \<open>
  The time is written to the misspelt field \<open>__lastUsed\<close>, which nothing reads, so
  \<open>nd_lastUsed\<close> keeps its value.
\<close>

definition node_getChannel ::
  "(string \<Rightarrow> string option \<Rightarrow> 'ch) \<Rightarrow> 'ch node \<Rightarrow> 'ch \<times> 'ch node" where
  "node_getChannel init n =
     (let n = n\<lparr>nd_useCount := Suc (nd_useCount n)\<rparr>
      in case nd_channel n of
           Some c \<Rightarrow> (c, n)
         | None \<Rightarrow>
             (let c = init (na_toString (nd_address n)) (nd_cert n)
              in (c, n\<lparr>nd_channel := Some c\<rparr>)))"

definition node_isHealthy :: "rat \<Rightarrow> 'ch node \<Rightarrow> bool" where
  "node_isHealthy now n \<longleftrightarrow> nd_readmitTime n \<le> now"

definition node_increaseBackoff :: "rat \<Rightarrow> 'ch node \<Rightarrow> 'ch node" where
  "node_increaseBackoff now n =
     (let b = min (nd_currentBackoff n * 2) (nd_maxBackoff n)
      in n\<lparr>nd_currentBackoff := b, nd_readmitTime := now + b\<rparr>)"

definition node_decreaseBackoff :: "'ch node \<Rightarrow> 'ch node" where
  "node_decreaseBackoff n =
     n\<lparr>nd_currentBackoff := max (nd_currentBackoff n / 2) (nd_minBackoff n)\<rparr>"

definition node_getRemainingTime :: "'ch node \<Rightarrow> rat" where
  "node_getRemainingTime n = nd_readmitTime n - nd_lastUsed n"

definition node_compare :: "'ch node \<Rightarrow> 'ch node \<Rightarrow> rat" where
  "node_compare a b =
     (let c = node_getRemainingTime a - node_getRemainingTime b in
      if c \<noteq> 0 then c else
      let c = nd_currentBackoff a - nd_currentBackoff b in
      if c \<noteq> 0 then c else
      let c = of_nat (nd_badGrpcStatusCount a) - of_nat (nd_badGrpcStatusCount b) in
      if c \<noteq> 0 then c else
      let c = of_nat (nd_useCount a) - of_nat (nd_useCount b) in
      if c \<noteq> 0 then c else
      nd_lastUsed a - nd_lastUsed b)"

definition node_close :: "'ch node \<Rightarrow> 'ch node" where
  "node_close n = n\<lparr>nd_channel := None\<rparr>"

text \<open>The subclass \<open>Node\<close>: its key is its account, and it switches ports by cloning.\<close>

definition node_getKey :: "'ch node \<Rightarrow> string" where
  "node_getKey n = nd_account n"

definition node_toInsecure :: "'ch node \<Rightarrow> 'ch node js" where
  "node_toInsecure n = js_bind (na_toInsecure (nd_address n)) (\<lambda>a. Inr (node_clone n a))"

definition node_toSecure :: "'ch node \<Rightarrow> 'ch node js" where
  "node_toSecure n = js_bind (na_toSecure (nd_address n)) (\<lambda>a. Inr (node_clone n a))"

text \<open>
  The certificate tables of \<open>NodeCerts.js\<close> are the argument \<open>certs\<close>: network name
  and account to certificate.
\<close>

definition node_setCert ::
  "(string \<Rightarrow> string \<Rightarrow> string option) \<Rightarrow> string \<Rightarrow> 'ch node \<Rightarrow> 'ch node" where
  "node_setCert certs ledger n =
     (if ledger \<in> {''previewnet'', ''testnet'', ''mainnet''}
      then n\<lparr>nd_cert := certs ledger (nd_account n)\<rparr> else n)"

lemmas node_defs = node_new_def node_clone_def node_setMinBackoff_def node_setMaxBackoff_def
  node_getChannel_def node_isHealthy_def node_increaseBackoff_def node_decreaseBackoff_def
  node_getRemainingTime_def node_close_def node_getKey_def node_setCert_def

subsection \<open>Bounds of the backoff\<close>

definition backoff_inv :: "'ch node \<Rightarrow> bool" where
  "backoff_inv n \<longleftrightarrow> 0 < nd_minBackoff n \<and> nd_minBackoff n \<le> nd_currentBackoff n \<and>
     nd_currentBackoff n \<le> nd_maxBackoff n"

datatype backoff_event = Failed rat | Answered

fun backoff_step :: "'ch node \<Rightarrow> backoff_event \<Rightarrow> 'ch node" where
  "backoff_step n (Failed now) = node_increaseBackoff now n"
| "backoff_step n Answered = node_decreaseBackoff n"

lemma backoff_inv_new [simp]: "backoff_inv (node_new now a k)"
  by (simp add: backoff_inv_def node_defs)

lemma backoff_inv_step: "backoff_inv n \<Longrightarrow> backoff_inv (backoff_step n e)"
  by (cases e) (auto simp: backoff_inv_def node_defs Let_def)

lemma node_increaseBackoff_frame [simp]:
  "nd_minBackoff (node_increaseBackoff now n) = nd_minBackoff n"
  "nd_maxBackoff (node_increaseBackoff now n) = nd_maxBackoff n"
  "nd_account (node_increaseBackoff now n) = nd_account n"
  "nd_address (node_increaseBackoff now n) = nd_address n"
  "nd_badGrpcStatusCount (node_increaseBackoff now n) = nd_badGrpcStatusCount n"
  by (simp_all add: node_increaseBackoff_def Let_def)

lemma node_decreaseBackoff_frame [simp]:
  "nd_minBackoff (node_decreaseBackoff n) = nd_minBackoff n"
  "nd_maxBackoff (node_decreaseBackoff n) = nd_maxBackoff n"
  "nd_account (node_decreaseBackoff n) = nd_account n"
  "nd_address (node_decreaseBackoff n) = nd_address n"
  "nd_readmitTime (node_decreaseBackoff n) = nd_readmitTime n"
  "nd_badGrpcStatusCount (node_decreaseBackoff n) = nd_badGrpcStatusCount n"
  by (simp_all add: node_decreaseBackoff_def)

lemma backoff_step_frame [simp]:
  "nd_minBackoff (backoff_step n e) = nd_minBackoff n"
  "nd_maxBackoff (backoff_step n e) = nd_maxBackoff n"
  "nd_account (backoff_step n e) = nd_account n"
  "nd_address (backoff_step n e) = nd_address n"
  "nd_badGrpcStatusCount (backoff_step n e) = nd_badGrpcStatusCount n"
  by (cases e; simp)+

lemma backoff_inv_run: "backoff_inv n \<Longrightarrow> backoff_inv (foldl backoff_step n es)"
  by (induction es arbitrary: n) (auto intro: backoff_inv_step)

lemma backoff_run_frame [simp]:
  "nd_minBackoff (foldl backoff_step n es) = nd_minBackoff n"
  "nd_maxBackoff (foldl backoff_step n es) = nd_maxBackoff n"
  by (induction es arbitrary: n) auto

lemma increase_current:
  "nd_currentBackoff (node_increaseBackoff now n) =
     min (nd_currentBackoff n * 2) (nd_maxBackoff n)"
  by (simp add: node_defs Let_def)

lemma increases_current:
  assumes "0 \<le> nd_currentBackoff n" "nd_currentBackoff n \<le> nd_maxBackoff n"
  shows "nd_currentBackoff (foldl backoff_step n (map Failed ts)) =
    min (nd_currentBackoff n * 2 ^ length ts) (nd_maxBackoff n)"
  using assms
proof (induction ts arbitrary: n)
  case Nil
  then show ?case by simp
next
  case (Cons t ts)
  let ?m = "backoff_step n (Failed t)"
  have "0 \<le> nd_maxBackoff n" using Cons.prems by simp
  moreover have "1 \<le> (2::rat) ^ length ts" by simp
  ultimately have grow: "nd_maxBackoff n \<le> nd_maxBackoff n * 2 ^ length ts"
    using mult_left_mono [of 1 "2 ^ length ts" "nd_maxBackoff n"] by simp
  have "nd_currentBackoff (foldl backoff_step ?m (map Failed ts)) =
      min (nd_currentBackoff ?m * 2 ^ length ts) (nd_maxBackoff ?m)"
    by (rule Cons.IH) (use Cons.prems in \<open>auto simp: increase_current node_increaseBackoff_def Let_def\<close>)
  moreover have "min (min (nd_currentBackoff n * 2) (nd_maxBackoff n) * 2 ^ length ts)
      (nd_maxBackoff n) = min (nd_currentBackoff n * (2 * 2 ^ length ts)) (nd_maxBackoff n)"
  proof (cases "nd_currentBackoff n * 2 \<le> nd_maxBackoff n")
    case True
    then show ?thesis by (simp add: min_def mult.assoc)
  next
    case False
    then have "nd_maxBackoff n * 2 ^ length ts \<le> nd_currentBackoff n * 2 * 2 ^ length ts"
      by (intro mult_right_mono) auto
    from order_trans [OF grow this]
    have "nd_maxBackoff n \<le> nd_currentBackoff n * (2 * 2 ^ length ts)"
      unfolding mult.assoc .
    with False grow show ?thesis by (simp add: min_absorb1 min_absorb2)
  qed
  ultimately show ?case by (simp add: increase_current)
qed

text \<open>
  C40. Exponential backoff of a node: after any history of failures and answers the
  backoff of a fresh node stays between the minimum of 8 seconds and the maximum of
  one hour; k failures in a row multiply it by 2 ^ k, cut at the maximum; and after
  a failure the node is unhealthy exactly until the backoff has passed.
\<close>

theorem backoff_doubles_within_bounds:
  assumes "n = foldl backoff_step (node_new t0 addr account) es"
  shows "8000 \<le> nd_currentBackoff n \<and> nd_currentBackoff n \<le> 3600000 \<and>
    nd_currentBackoff (foldl backoff_step n (map Failed ts)) =
      min (nd_currentBackoff n * 2 ^ length ts) 3600000 \<and>
    (\<forall>now later. node_isHealthy later (node_increaseBackoff now n) \<longleftrightarrow>
       now + min (nd_currentBackoff n * 2) 3600000 \<le> later)"
proof -
  have inv: "backoff_inv n" unfolding assms by (rule backoff_inv_run) simp
  have b: "nd_minBackoff n = 8000" "nd_maxBackoff n = 3600000"
    by (simp_all add: assms) (simp_all add: node_new_def)
  show ?thesis
    using inv b increases_current [of n ts]
    by (auto simp: backoff_inv_def node_isHealthy_def node_increaseBackoff_def Let_def)
qed

theorem backoff_doubles_within_bounds_witness:
  "nd_currentBackoff (foldl backoff_step
      (node_new 0 \<lparr>na_address = ''a'', na_port = Some 1\<rparr> ''0.0.3'' :: unit node)
      (map Failed [0, 0, 0])) = 64000"
proof -
  let ?n = "node_new 0 \<lparr>na_address = ''a'', na_port = Some 1\<rparr> ''0.0.3'' :: unit node"
  have "nd_currentBackoff (foldl backoff_step ?n (map Failed [0, 0, 0])) =
      min (nd_currentBackoff ?n * 2 ^ length [0, 0, 0 :: rat]) 3600000"
    using backoff_doubles_within_bounds
      [of ?n 0 "\<lparr>na_address = ''a'', na_port = Some 1\<rparr>" "''0.0.3''" "[]" "[0, 0, 0]"]
    by simp
  then show ?thesis by (simp add: node_new_def)
qed

lemma backoff_step_pinned:
  assumes "nd_maxBackoff n = nd_minBackoff n" "0 < nd_minBackoff n"
    and "nd_minBackoff n \<le> nd_currentBackoff n"
  shows "nd_currentBackoff (backoff_step n (Failed t)) = nd_minBackoff n"
    and "nd_minBackoff n \<le> nd_currentBackoff (backoff_step n e)"
    and "nd_currentBackoff n = nd_minBackoff n \<Longrightarrow>
      nd_currentBackoff (backoff_step n e) = nd_minBackoff n"
  using assms by (cases e; auto simp: node_defs Let_def)+

lemma backoff_run_pinned:
  assumes "nd_maxBackoff n = nd_minBackoff n" "0 < nd_minBackoff n"
    and "nd_currentBackoff n = nd_minBackoff n"
  shows "nd_currentBackoff (foldl backoff_step n es) = nd_minBackoff n"
  using assms
proof (induction es arbitrary: n)
  case Nil
  then show ?case by simp
next
  case (Cons e es)
  then show ?case using backoff_step_pinned(3) [of n e] by simp
qed

text \<open>
  A cloned node stops backing off: toSecure and toInsecure clone a node with its
  minimum backoff as its maximum, so from the first failure on its backoff is the
  minimum, whatever failures and answers come before or after.
\<close>

theorem cloned_node_never_backs_off:
  assumes "node_toSecure n = Inr m \<or> node_toInsecure n = Inr m" "backoff_inv n"
  shows "nd_currentBackoff (foldl backoff_step m (es @ Failed t # es')) = nd_minBackoff n"
proof -
  have m: "nd_maxBackoff m = nd_minBackoff m" "nd_minBackoff m = nd_minBackoff n"
      "nd_minBackoff m \<le> nd_currentBackoff m" "0 < nd_minBackoff m"
    using assms by (auto simp: node_toSecure_def node_toInsecure_def js_bind_eq_Inr
        node_clone_def backoff_inv_def)
  let ?k = "foldl backoff_step m es"
  have low: "nd_minBackoff n \<le> nd_currentBackoff ?k"
  proof (induction es rule: rev_induct)
    case Nil
    then show ?case using m by simp
  next
    case (snoc e es)
    then show ?case
      using m backoff_step_pinned(2) [of "foldl backoff_step m es" e] by simp
  qed
  have "nd_currentBackoff (backoff_step ?k (Failed t)) = nd_minBackoff n"
    using backoff_step_pinned(1) [of ?k t] low m by simp
  then have "nd_currentBackoff (foldl backoff_step (backoff_step ?k (Failed t)) es') = nd_minBackoff n"
    using backoff_run_pinned [of "backoff_step ?k (Failed t)" es'] m by simp
  then show ?thesis by simp
qed

theorem cloned_node_never_backs_off_witness:
  "nd_currentBackoff (foldl backoff_step
      (node_clone (node_new 0 \<lparr>na_address = ''a'', na_port = Some 50211\<rparr> ''0.0.3'' :: unit node)
         \<lparr>na_address = ''a'', na_port = Some 50212\<rparr>)
      ([Failed 0, Answered] @ Failed 1 # [Failed 2, Failed 3])) = 8000"
proof -
  let ?n = "node_new 0 \<lparr>na_address = ''a'', na_port = Some 50211\<rparr> ''0.0.3'' :: unit node"
  have "node_toSecure ?n = Inr (node_clone ?n \<lparr>na_address = ''a'', na_port = Some 50212\<rparr>)"
    by (simp add: node_toSecure_def na_defs node_new_def)
  then have "nd_currentBackoff (foldl backoff_step
      (node_clone ?n \<lparr>na_address = ''a'', na_port = Some 50212\<rparr>)
      ([Failed 0, Answered] @ Failed 1 # [Failed 2, Failed 3])) = nd_minBackoff ?n"
    by (intro cloned_node_never_backs_off) simp_all
  then show ?thesis by (simp add: node_new_def)
qed

text \<open>
  setMaxBackoff does not cap: it raises the current backoff to a maximum it is
  below, and it leaves a current backoff that is above the new maximum where it is,
  which is the opposite of keeping the current backoff within the maximum.  Together
  with the matching test in setMinBackoff (which is right) this makes the bounds hold
  afterwards exactly when the new maximum is at least the old current backoff.
\<close>

theorem setMaxBackoff_raises_current:
  assumes "backoff_inv n"
  shows "nd_currentBackoff (node_setMaxBackoff b n) = max b (nd_currentBackoff n) \<and>
    (backoff_inv (node_setMaxBackoff b n) \<longleftrightarrow> nd_currentBackoff n \<le> b) \<and>
    (0 < b \<and> b \<le> nd_maxBackoff n \<longrightarrow> backoff_inv (node_setMinBackoff b n))"
  using assms by (auto simp: node_defs backoff_inv_def)

theorem setMaxBackoff_raises_current_witness:
  "nd_currentBackoff (node_setMaxBackoff 60000
      (node_new 0 \<lparr>na_address = ''a'', na_port = Some 1\<rparr> ''0.0.3'' :: unit node)) = 60000"
proof -
  let ?n = "node_new 0 \<lparr>na_address = ''a'', na_port = Some 1\<rparr> ''0.0.3'' :: unit node"
  have "backoff_inv ?n" by simp
  from setMaxBackoff_raises_current [OF this, of 60000, THEN conjunct1] show ?thesis
    by (simp add: node_new_def)
qed

end
