(* ===== verification/Network.thy ===== *)
theory Network
  imports NodeBackoff "HOL-Library.AList"
begin

text \<open>
  The network of a client: \<open>src/src/client/ManagedNetwork.js\<close> and its subclasses
  \<open>Network.js\<close> and \<open>MirrorNetwork.js\<close>.  A node is mutable and shared between the
  arrays \<open>_nodes\<close>, \<open>_healthyNodes\<close> and the lists of the map \<open>_network\<close>, so nodes live in
  a store (\<open>nw_store\<close>, indexed by the order of creation) and the arrays hold indices;
  comparing two nodes with \<open>==\<close> compares indices.  A JavaScript \<open>Map\<close> is an association
  list in insertion order (\<open>AList.update\<close> is \<open>Map.set\<close>, \<open>AList.delete\<close> is \<open>Map.delete\<close>).
  The virtual method \<open>getKey\<close> is the argument \<open>key\<close>.  A method that may throw returns
  its result or error together with the state it leaves behind.  \<open>Date.now()\<close> and
  \<open>Math.random()\<close> are arguments; within one synchronous call of \<open>getNode\<close> or
  \<open>_setNetwork\<close> the clock is read as one value.
\<close>

subsection \<open>State\<close>

record 'ch network =
  nw_store :: "'ch node list"
  nw_network :: "(string \<times> nat list) list"
  nw_nodes :: "nat list"
  nw_healthy :: "nat list"
  nw_unhealthyCount :: int
  nw_ledgerId :: "string option"
  nw_minBackoff :: rat
  nw_maxBackoff :: rat
  nw_maxNodeAttempts :: int
  nw_nodeMinReadmit :: rat
  nw_nodeMaxReadmit :: rat
  nw_earliestReadmit :: rat
  nw_maxNodesPerTx :: int
  nw_transportSecurity :: bool

definition nw_new :: "rat \<Rightarrow> 'ch network" where
  "nw_new now =
     \<lparr>nw_store = [], nw_network = [], nw_nodes = [], nw_healthy = [],
      nw_unhealthyCount = 0, nw_ledgerId = None, nw_minBackoff = 8000,
      nw_maxBackoff = 1000 * 60 * 60, nw_maxNodeAttempts = - 1,
      nw_nodeMinReadmit = 8000, nw_nodeMaxReadmit = 1000 * 60 * 60,
      nw_earliestReadmit = now + 8000, nw_maxNodesPerTx = - 1,
      nw_transportSecurity = False\<rparr>"

definition nw_node :: "'ch network \<Rightarrow> nat \<Rightarrow> 'ch node" where
  "nw_node net n = nw_store net ! n"

definition nw_update :: "nat \<Rightarrow> ('ch node \<Rightarrow> 'ch node) \<Rightarrow> 'ch network \<Rightarrow> 'ch network" where
  "nw_update n f net = net\<lparr>nw_store := (nw_store net)[n := f (nw_node net n)]\<rparr>"

definition nw_alloc :: "'ch node \<Rightarrow> 'ch network \<Rightarrow> nat \<times> 'ch network" where
  "nw_alloc nd net = (length (nw_store net), net\<lparr>nw_store := nw_store net @ [nd]\<rparr>)"

subsection \<open>Operations of ManagedNetwork\<close>

definition mn_setLedgerId :: "string option \<Rightarrow> 'ch network \<Rightarrow> 'ch network" where
  "mn_setLedgerId l net = net\<lparr>nw_ledgerId := l\<rparr>"

text \<open>\<open>splice(j, 1)\<close> of the first occurrence, then \<open>break\<close>.\<close>

definition mn_removeNodeFromNetwork ::
  "('ch node \<Rightarrow> string) \<Rightarrow> nat \<Rightarrow> 'ch network \<Rightarrow> unit js \<times> 'ch network" where
  "mn_removeNodeFromNetwork key n net =
     (let k = key (nw_node net n) in
      case map_of (nw_network net) k of
        None \<Rightarrow> (Inl TypeErr, net)
      | Some ns \<Rightarrow>
          (let ns' = remove1 n ns
           in (Inr (), net\<lparr>nw_network :=
                 (if ns' = [] then AList.delete k (nw_network net)
                  else AList.update k ns' (nw_network net))\<rparr>)))"

definition mn_closeNode ::
  "('ch node \<Rightarrow> string) \<Rightarrow> nat \<Rightarrow> 'ch network \<Rightarrow> unit js \<times> 'ch network" where
  "mn_closeNode key i net =
     (case js_nth (nw_nodes net) i of
        None \<Rightarrow> (Inl TypeErr, net)
      | Some n \<Rightarrow>
          (case mn_removeNodeFromNetwork key n (nw_update n node_close net) of
             (Inl e, net) \<Rightarrow> (Inl e, net)
           | (Inr _, net) \<Rightarrow>
               (Inr (), net\<lparr>nw_nodes := take i (nw_nodes net) @ drop (Suc i) (nw_nodes net)\<rparr>)))"

fun mn_removeDead_loop ::
  "('ch node \<Rightarrow> string) \<Rightarrow> nat \<Rightarrow> 'ch network \<Rightarrow> unit js \<times> 'ch network" where
  "mn_removeDead_loop key 0 net = (Inr (), net)"
| "mn_removeDead_loop key (Suc i) net =
     (if int (nd_badGrpcStatusCount (nw_node net (nw_nodes net ! i))) < nw_maxNodeAttempts net
      then mn_removeDead_loop key i net
      else case mn_closeNode key i net of
             (Inl e, net) \<Rightarrow> (Inl e, net)
           | (Inr _, net) \<Rightarrow> mn_removeDead_loop key i net)"

definition mn_removeDeadNodes ::
  "('ch node \<Rightarrow> string) \<Rightarrow> 'ch network \<Rightarrow> unit js \<times> 'ch network" where
  "mn_removeDeadNodes key net =
     (if 0 < nw_maxNodeAttempts net then mn_removeDead_loop key (length (nw_nodes net)) net
      else (Inr (), net))"

text \<open>
  One pass over \<open>_nodes\<close>; \<open>next\<close> and \<open>search\<close> are \<open>nextEarliestReadmitTime\<close> and
  \<open>searchForNextEarliestReadmitTime\<close>.  The inner loop looks for the node among the
  healthy ones, and it updates \<open>next\<close> whenever it runs at least once.
\<close>

fun mn_readmit_loop ::
  "rat \<Rightarrow> nat list \<Rightarrow> rat \<Rightarrow> bool \<Rightarrow> 'ch network \<Rightarrow> rat \<times> 'ch network" where
  "mn_readmit_loop now [] next search net = (next, net)"
| "mn_readmit_loop now (n # ns) next search net =
     (let t = nd_readmitTime (nw_node net n);
          next = (if nw_healthy net \<noteq> [] \<and> search \<and> now < t then min t next else next)
      in if n \<in> set (nw_healthy net) then mn_readmit_loop now ns next search net
         else mn_readmit_loop now ns next False
                (if t \<le> now
                 then net\<lparr>nw_unhealthyCount := nw_unhealthyCount net - 1,
                          nw_healthy := nw_healthy net @ [n]\<rparr>
                 else net))"

definition max_safe_integer :: rat where
  "max_safe_integer = 9007199254740991"

definition mn_readmitNodes :: "rat \<Rightarrow> 'ch network \<Rightarrow> 'ch network" where
  "mn_readmitNodes now net =
     (if nw_earliestReadmit net \<le> now
      then (case mn_readmit_loop now (nw_nodes net) max_safe_integer True net of
              (next, net) \<Rightarrow>
                net\<lparr>nw_earliestReadmit :=
                  min (max next (nw_nodeMinReadmit net)) (nw_nodeMaxReadmit net)\<rparr>)
      else net)"

text \<open>
  \<open>getNode\<close>: with a key, the first node of that key, and when the key is unknown
  the first node of a random key; without one, a random healthy node.  \<open>None\<close> is
  the \<open>undefined\<close> an empty list would give.
\<close>

definition mn_getNode ::
  "rat \<Rightarrow> rat \<Rightarrow> string option \<Rightarrow> 'ch network \<Rightarrow> nat option js \<times> 'ch network" where
  "mn_getNode now r key net =
     (let net = mn_readmitNodes now net
      in (case key of
            Some k \<Rightarrow>
              (case map_of (nw_network net) k of
                 Some ns \<Rightarrow> Inr (js_nth ns 0)
               | None \<Rightarrow>
                   (let ks = map fst (nw_network net)
                    in case js_nth ks (random_index r (length ks)) of
                         None \<Rightarrow> Inl TypeErr
                       | Some k' \<Rightarrow>
                           (case map_of (nw_network net) k' of
                              None \<Rightarrow> Inl TypeErr
                            | Some ns \<Rightarrow> Inr (js_nth ns 0))))
          | None \<Rightarrow>
              (if nw_healthy net = [] then Inl NoHealthyNode
               else Inr (js_nth (nw_healthy net)
                      (random_index r (length (nw_healthy net)))))
          , net))"

text \<open>
  The loop of \<open>increaseBackoff\<close> splices inside the \<open>for\<close>, so it skips the element
  after a removed one; the second component counts the removals.
\<close>

fun mn_splice_loop :: "nat \<Rightarrow> nat list \<Rightarrow> nat list \<times> nat" where
  "mn_splice_loop n [] = ([], 0)"
| "mn_splice_loop n [m] = (if m = n then ([], 1) else ([m], 0))"
| "mn_splice_loop n (m # m' # ms) =
     (if m = n then (case mn_splice_loop n ms of (r, c) \<Rightarrow> (m' # r, Suc c))
      else (case mn_splice_loop n (m' # ms) of (r, c) \<Rightarrow> (m # r, c)))"

definition mn_increaseBackoff :: "rat \<Rightarrow> nat \<Rightarrow> 'ch network \<Rightarrow> 'ch network" where
  "mn_increaseBackoff now n net =
     (let net = nw_update n (node_increaseBackoff now) net
      in case mn_splice_loop n (nw_healthy net) of
           (h, c) \<Rightarrow> net\<lparr>nw_healthy := h,
                         nw_unhealthyCount := nw_unhealthyCount net + int c\<rparr>)"

definition mn_decreaseBackoff :: "nat \<Rightarrow> 'ch network \<Rightarrow> 'ch network" where
  "mn_decreaseBackoff n net = nw_update n node_decreaseBackoff net"

text \<open>\<open>node.getChannel()\<close> on a node of the network; \<open>init\<close> opens a channel.\<close>

definition mn_getChannel ::
  "(string \<Rightarrow> string option \<Rightarrow> 'ch) \<Rightarrow> nat \<Rightarrow> 'ch network \<Rightarrow> 'ch network" where
  "mn_getChannel init n net = nw_update n (\<lambda>nd. snd (node_getChannel init nd)) net"

definition mn_setMaxNodeAttempts :: "int \<Rightarrow> 'ch network \<Rightarrow> 'ch network" where
  "mn_setMaxNodeAttempts k net = net\<lparr>nw_maxNodeAttempts := k\<rparr>"

definition mn_setMinBackoff :: "rat \<Rightarrow> 'ch network \<Rightarrow> 'ch network" where
  "mn_setMinBackoff b net =
     fold (\<lambda>n. nw_update n (node_setMinBackoff b)) (nw_nodes net) (net\<lparr>nw_minBackoff := b\<rparr>)"

definition mn_setMaxBackoff :: "rat \<Rightarrow> 'ch network \<Rightarrow> 'ch network" where
  "mn_setMaxBackoff b net =
     fold (\<lambda>n. nw_update n (node_setMaxBackoff b)) (nw_nodes net) (net\<lparr>nw_maxBackoff := b\<rparr>)"

definition mn_setNodeMinReadmitPeriod :: "rat \<Rightarrow> rat \<Rightarrow> 'ch network \<Rightarrow> 'ch network" where
  "mn_setNodeMinReadmitPeriod now p net =
     net\<lparr>nw_nodeMinReadmit := p, nw_earliestReadmit := now + p\<rparr>"

definition mn_setNodeMaxReadmitPeriod :: "rat \<Rightarrow> 'ch network \<Rightarrow> 'ch network" where
  "mn_setNodeMaxReadmitPeriod p net = net\<lparr>nw_nodeMaxReadmit := p\<rparr>"

definition mn_close :: "'ch network \<Rightarrow> 'ch network" where
  "mn_close net =
     (fold (\<lambda>n. nw_update n node_close) (nw_nodes net) net)\<lparr>nw_network := [], nw_nodes := []\<rparr>"

text \<open>
  \<open>_getNumberOfMostHealthyNodes\<close>.  Every turn of the loop draws a node with
  \<open>getNode()\<close>, which reads the clock and a random number: one pair of \<open>draws\<close>.  A draw
  that adds nothing is undone by \<open>i--\<close>, so the loop has no bound of its own; \<open>None\<close> is a
  loop that has used up all the draws it was given.
\<close>

fun mn_pick_loop ::
  "('ch node \<Rightarrow> string) \<Rightarrow> int \<Rightarrow> (rat \<times> rat) list \<Rightarrow> nat \<Rightarrow> nat list \<Rightarrow> 'ch network \<Rightarrow>
   (nat list js \<times> 'ch network) option" where
  "mn_pick_loop key cnt draws i nodes net =
     (if i < length (nw_healthy net) then
        if int (length nodes) = cnt - nw_unhealthyCount net \<and> nodes \<noteq> []
        then Some (Inr nodes, net)
        else
          (case draws of
             [] \<Rightarrow> None
           | (now, r) # ds \<Rightarrow>
               (case mn_getNode now r None net of
                  (Inl e, net) \<Rightarrow> Some (Inl e, net)
                | (Inr None, net) \<Rightarrow> Some (Inl TypeErr, net)
                | (Inr (Some n), net) \<Rightarrow>
                    (if key (nw_node net n) \<notin> set (map (\<lambda>m. key (nw_node net m)) nodes) \<or>
                        na_address (nd_address (nw_node net n)) \<notin>
                          set (map (\<lambda>m. na_address (nd_address (nw_node net m))) nodes)
                     then mn_pick_loop key cnt ds (Suc i) (nodes @ [n]) net
                     else mn_pick_loop key cnt ds i nodes net)))
      else Some (Inr nodes, net))"

declare mn_pick_loop.simps [simp del]

definition mn_mostHealthyNodes ::
  "('ch node \<Rightarrow> string) \<Rightarrow> int \<Rightarrow> (rat \<times> rat) list \<Rightarrow> 'ch network \<Rightarrow>
   (nat list js \<times> 'ch network) option" where
  "mn_mostHealthyNodes key cnt draws net =
     (case mn_removeDeadNodes key net of
        (Inl e, net) \<Rightarrow> Some (Inl e, net)
      | (Inr _, net) \<Rightarrow> mn_pick_loop key cnt draws 0 [] net)"

text \<open>
  \<open>_setNetwork\<close>: \<open>remove\<close> are the indices of \<open>_getNodesToRemove\<close>, \<open>create\<close> is
  \<open>_createNodeFromNetworkEntry\<close>, \<open>entries\<close> the new map with every value as a string.
\<close>

fun mn_close_all ::
  "('ch node \<Rightarrow> string) \<Rightarrow> nat list \<Rightarrow> 'ch network \<Rightarrow> unit js \<times> 'ch network" where
  "mn_close_all key [] net = (Inr (), net)"
| "mn_close_all key (i # js) net =
     (case mn_closeNode key i net of
        (Inl e, net) \<Rightarrow> (Inl e, net)
      | (Inr _, net) \<Rightarrow> mn_close_all key js net)"

fun mn_add_entries ::
  "('ch network \<Rightarrow> string \<times> string \<Rightarrow> 'ch node js) \<Rightarrow> string set \<Rightarrow> string set \<Rightarrow>
   (string \<times> string) list \<Rightarrow> nat list \<Rightarrow> 'ch network \<Rightarrow> nat list js \<times> 'ch network" where
  "mn_add_entries create ks as [] new net = (Inr new, net)"
| "mn_add_entries create ks as ((a, v) # es) new net =
     (if v \<in> ks \<and> a \<in> as then mn_add_entries create ks as es new net
      else case create net (a, v) of
             Inl e \<Rightarrow> (Inl e, net)
           | Inr nd \<Rightarrow>
               (case nw_alloc nd net of
                  (n, net) \<Rightarrow> mn_add_entries create ks as es (new @ [n]) net))"

definition mn_add_to_map ::
  "('ch node \<Rightarrow> string) \<Rightarrow> 'ch network \<Rightarrow> nat \<Rightarrow> (string \<times> nat list) list \<Rightarrow>
   (string \<times> nat list) list" where
  "mn_add_to_map key net n m =
     (let k = key (nw_node net n)
      in AList.update k ((case map_of m k of None \<Rightarrow> [] | Some ns \<Rightarrow> ns) @ [n]) m)"

definition mn_setNetwork ::
  "('ch node \<Rightarrow> string) \<Rightarrow> ('ch network \<Rightarrow> string \<times> string \<Rightarrow> 'ch node js) \<Rightarrow>
   rat \<Rightarrow> (nat \<Rightarrow> rat) \<Rightarrow> nat list \<Rightarrow> (string \<times> string) list \<Rightarrow> 'ch network \<Rightarrow>
   unit js \<times> 'ch network" where
  "mn_setNetwork key create now rnd remove entries net =
     (case mn_close_all key remove net of
        (Inl e, net) \<Rightarrow> (Inl e, net)
      | (Inr _, net) \<Rightarrow>
          (case mn_add_entries create
                  (set (map (\<lambda>n. key (nw_node net n)) (nw_nodes net)))
                  (set (map (\<lambda>n. na_toString (nd_address (nw_node net n))) (nw_nodes net)))
                  entries (nw_nodes net) net of
             (Inl e, net) \<Rightarrow> (Inl e, net)
           | (Inr new, net) \<Rightarrow>
               (let new = js_shuffle rnd new;
                    healthy = filter (\<lambda>n. node_isHealthy now (nw_node net n)) new
                in (Inr (),
                    net\<lparr>nw_nodes := new, nw_healthy := healthy,
                        nw_network := fold (mn_add_to_map key net) healthy [],
                        nw_ledgerId := None\<rparr>))))"

subsection \<open>Network\<close>

text \<open>
  Entries are pairs of an address and an account ID in its string form; a network is
  given with its account IDs parsed.
\<close>

definition nw_createNode :: "rat \<Rightarrow> 'ch network \<Rightarrow> string \<times> string \<Rightarrow> 'ch node js" where
  "nw_createNode now net entry =
     js_bind (na_fromString (fst entry))
       (\<lambda>a. Inr (node_setMinBackoff (nw_minBackoff net) (node_new now a (snd entry))))"

definition nw_getNodesToRemove :: "(string \<times> string) list \<Rightarrow> 'ch network \<Rightarrow> nat list" where
  "nw_getNodesToRemove entries net =
     filter (\<lambda>i. let nd = nw_node net (nw_nodes net ! i) in
                 map_of entries (na_toString (nd_address nd)) \<noteq> Some (nd_account nd))
       (rev [0..<length (nw_nodes net)])"

definition nw_setNetwork ::
  "rat \<Rightarrow> (nat \<Rightarrow> rat) \<Rightarrow> (string \<times> string) list \<Rightarrow> 'ch network \<Rightarrow> unit js \<times> 'ch network" where
  "nw_setNetwork now rnd entries net =
     mn_setNetwork node_getKey (nw_createNode now) now rnd
       (nw_getNodesToRemove entries net) entries net"

text \<open>
  An address book is a list of accounts with the endpoints of their nodes, an endpoint
  being its port and its rendered form; object keys keep the first position and the
  last value.
\<close>

definition nw_addressBookEntries ::
  "bool \<Rightarrow> (string option \<times> (nat option \<times> string) list) list \<Rightarrow> (string \<times> string) list" where
  "nw_addressBookEntries secure book =
     (let port = (if secure then 50212 else 50211)
      in fold (\<lambda>(acc, eps). fold (\<lambda>(p, s). case acc of
                 None \<Rightarrow> id
               | Some a \<Rightarrow> if p = Some port then AList.update s a else id) eps) book [])"

definition nw_setNetworkFromAddressBook ::
  "rat \<Rightarrow> (nat \<Rightarrow> rat) \<Rightarrow> (string option \<times> (nat option \<times> string) list) list \<Rightarrow>
   'ch network \<Rightarrow> unit js \<times> 'ch network" where
  "nw_setNetworkFromAddressBook now rnd book net =
     nw_setNetwork now rnd (nw_addressBookEntries (nw_transportSecurity net) book) net"

definition nw_getNetwork :: "'ch network \<Rightarrow> (string \<times> string) list" where
  "nw_getNetwork net =
     fold (\<lambda>n. AList.update (na_toString (nd_address (nw_node net n))) (nd_account (nw_node net n)))
       (nw_nodes net) []"

definition nw_checkNetworkContainsEntry :: "string \<times> string \<Rightarrow> 'ch network \<Rightarrow> bool" where
  "nw_checkNetworkContainsEntry entry net =
     list_ex (\<lambda>n. na_toString (nd_address (nw_node net n)) = fst entry) (nw_nodes net)"

definition nw_setMaxNodesPerTransaction :: "int \<Rightarrow> 'ch network \<Rightarrow> 'ch network" where
  "nw_setMaxNodesPerTransaction k net = net\<lparr>nw_maxNodesPerTx := k\<rparr>"

text \<open>
  \<open>setTransportSecurity\<close> replaces every node by a clone on the other port; \<open>i\<close> counts
  up to the end of \<open>_nodes\<close>.
\<close>

fun nw_transport_loop ::
  "(string \<Rightarrow> string \<Rightarrow> string option) \<Rightarrow> bool \<Rightarrow> nat list \<Rightarrow> nat list \<Rightarrow> 'ch network \<Rightarrow>
   unit js \<times> 'ch network" where
  "nw_transport_loop certs secure acc [] net = (Inr (), net\<lparr>nw_nodes := acc\<rparr>)"
| "nw_transport_loop certs secure acc (n # ns) net =
     (let net = nw_update n node_close net;
          nd = nw_node net n
      in case (if secure
               then js_bind (node_toSecure nd) (\<lambda>m. Inr (node_setCert certs
                      (case nw_ledgerId net of None \<Rightarrow> [] | Some l \<Rightarrow> l) m))
               else node_toInsecure nd) of
           Inl e \<Rightarrow> (Inl e, net\<lparr>nw_nodes := acc @ n # ns\<rparr>)
         | Inr m \<Rightarrow>
             (case nw_alloc m net of
                (k, net) \<Rightarrow>
                  nw_transport_loop certs secure (acc @ [k]) ns
                    (net\<lparr>nw_network := mn_add_to_map node_getKey net k (nw_network net)\<rparr>)))"

definition nw_setTransportSecurity ::
  "(string \<Rightarrow> string \<Rightarrow> string option) \<Rightarrow> bool \<Rightarrow> 'ch network \<Rightarrow> unit js \<times> 'ch network" where
  "nw_setTransportSecurity certs secure net =
     (if nw_transportSecurity net = secure then (Inr (), net)
      else case nw_transport_loop certs secure [] (nw_nodes net) (net\<lparr>nw_network := []\<rparr>) of
             (Inl e, net) \<Rightarrow> (Inl e, net)
           | (Inr _, net) \<Rightarrow>
               (Inr (), net\<lparr>nw_healthy := nw_nodes net, nw_transportSecurity := secure\<rparr>))"

definition nw_numberOfNodesForTransaction :: "'ch network \<Rightarrow> int" where
  "nw_numberOfNodesForTransaction net =
     (if 0 < nw_maxNodesPerTx net then nw_maxNodesPerTx net
      else if length (nw_nodes net) \<le> 9 then int (length (nw_nodes net))
      else int ((length (nw_nodes net) + 3 - 1) div 3))"

definition nw_nodeAccountIdsForExecute ::
  "(rat \<times> rat) list \<Rightarrow> 'ch network \<Rightarrow> (string list js \<times> 'ch network) option" where
  "nw_nodeAccountIdsForExecute draws net =
     (case mn_mostHealthyNodes node_getKey (nw_numberOfNodesForTransaction net) draws net of
        None \<Rightarrow> None
      | Some (Inl e, net) \<Rightarrow> Some (Inl e, net)
      | Some (Inr ns, net) \<Rightarrow> Some (Inr (map (\<lambda>n. nd_account (nw_node net n)) ns), net))"

subsection \<open>MirrorNetwork\<close>

definition mirror_getKey :: "'ch node \<Rightarrow> string" where
  "mirror_getKey nd = na_toString (nd_address nd)"

definition mirror_createNode :: "rat \<Rightarrow> 'ch network \<Rightarrow> string \<times> string \<Rightarrow> 'ch node js" where
  "mirror_createNode now net entry =
     js_bind (na_fromString (snd entry))
       (\<lambda>a. Inr (node_setMinBackoff (nw_minBackoff net) (node_new now a [])))"

text \<open>
  \<open>Object.values\<close> of a \<open>Map\<close> is the empty array, whatever the map holds (line 86), so no
  address is ever included and every node is to be removed.
\<close>

definition mirror_getNodesToRemove :: "(string \<times> string) list \<Rightarrow> 'ch network \<Rightarrow> nat list" where
  "mirror_getNodesToRemove entries net =
     (let values = [] :: string list
      in filter (\<lambda>i. na_toString (nd_address (nw_node net (nw_nodes net ! i))) \<notin> set values)
           (rev [0..<length (nw_nodes net)]))"

definition mirror_setNetwork ::
  "rat \<Rightarrow> (nat \<Rightarrow> rat) \<Rightarrow> string list \<Rightarrow> 'ch network \<Rightarrow> unit js \<times> 'ch network" where
  "mirror_setNetwork now rnd addrs net =
     (let entries = fold (\<lambda>a. AList.update a a) addrs []
      in mn_setNetwork mirror_getKey (mirror_createNode now) now rnd
           (mirror_getNodesToRemove entries net) entries net)"

definition mirror_getNetwork :: "'ch network \<Rightarrow> string list" where
  "mirror_getNetwork net = map (\<lambda>n. na_toString (nd_address (nw_node net n))) (nw_nodes net)"

definition mirror_getNextMirrorNode ::
  "bool \<Rightarrow> (rat \<times> rat) list \<Rightarrow> 'ch network \<Rightarrow> (nat option js \<times> 'ch network) option" where
  "mirror_getNextMirrorNode hasChannel draws net =
     (if \<not> hasChannel then Some (Inl MirrorNotSupported, net)
      else case mn_mostHealthyNodes mirror_getKey 1 draws net of
             None \<Rightarrow> None
           | Some (Inl e, net) \<Rightarrow> Some (Inl e, net)
           | Some (Inr ns, net) \<Rightarrow> Some (Inr (js_nth ns 0), net))"

subsection \<open>Frames\<close>

lemma nw_node_frame [simp]:
  "nw_node (net\<lparr>nw_healthy := h\<rparr>) n = nw_node net n"
  "nw_node (net\<lparr>nw_nodes := h\<rparr>) n = nw_node net n"
  "nw_node (net\<lparr>nw_network := m\<rparr>) n = nw_node net n"
  "nw_node (net\<lparr>nw_unhealthyCount := c\<rparr>) n = nw_node net n"
  "nw_node (net\<lparr>nw_ledgerId := l\<rparr>) n = nw_node net n"
  "nw_node (net\<lparr>nw_earliestReadmit := t\<rparr>) n = nw_node net n"
  "nw_node (net\<lparr>nw_transportSecurity := b\<rparr>) n = nw_node net n"
  by (simp_all add: nw_node_def)

lemma nw_update_frame [simp]:
  "length (nw_store (nw_update n f net)) = length (nw_store net)"
  "nw_network (nw_update n f net) = nw_network net"
  "nw_nodes (nw_update n f net) = nw_nodes net"
  "nw_healthy (nw_update n f net) = nw_healthy net"
  "nw_unhealthyCount (nw_update n f net) = nw_unhealthyCount net"
  "nw_earliestReadmit (nw_update n f net) = nw_earliestReadmit net"
  "nw_nodeMaxReadmit (nw_update n f net) = nw_nodeMaxReadmit net"
  "nw_nodeMinReadmit (nw_update n f net) = nw_nodeMinReadmit net"
  "nw_maxNodeAttempts (nw_update n f net) = nw_maxNodeAttempts net"
  "nw_maxNodesPerTx (nw_update n f net) = nw_maxNodesPerTx net"
  by (simp_all add: nw_update_def)

lemma nw_node_update:
  "n < length (nw_store net) \<Longrightarrow>
   nw_node (nw_update n f net) m = (if m = n then f (nw_node net n) else nw_node net m)"
  by (simp add: nw_node_def nw_update_def nth_list_update)

lemma nw_node_update_key:
  "(\<And>nd. g (f nd) = g nd) \<Longrightarrow> g (nw_node (nw_update n f net) m) = g (nw_node net m)"
  by (cases "n < length (nw_store net)")
     (auto simp: nw_node_update, simp add: nw_update_def nw_node_def list_update_beyond)

subsection \<open>The invariant of the pool of nodes\<close>

text \<open>
  The healthy nodes are some of the nodes, each once; the map holds nodes under their
  own key and no empty list; no bad status was ever counted (nothing in the SDK
  increments \<open>_badGrpcStatusCount\<close>).
\<close>

definition map_inv :: "('ch node \<Rightarrow> string) \<Rightarrow> 'ch network \<Rightarrow> bool" where
  "map_inv key net \<longleftrightarrow>
     (\<forall>(k, ns) \<in> set (nw_network net). ns \<noteq> [] \<and>
        (\<forall>n \<in> set ns. n \<in> set (nw_nodes net) \<and> key (nw_node net n) = k))"

definition nw_inv :: "('ch node \<Rightarrow> string) \<Rightarrow> 'ch network \<Rightarrow> bool" where
  "nw_inv key net \<longleftrightarrow>
     distinct (nw_nodes net) \<and> distinct (nw_healthy net) \<and>
     set (nw_healthy net) \<subseteq> set (nw_nodes net) \<and>
     (\<forall>n \<in> set (nw_nodes net). n < length (nw_store net)) \<and>
     (\<forall>n \<in> set (nw_nodes net). nd_badGrpcStatusCount (nw_node net n) = 0) \<and>
     map_inv key net"

text \<open>The counter is the number of nodes that are not in the healthy list.\<close>

definition nw_counted :: "'ch network \<Rightarrow> bool" where
  "nw_counted net \<longleftrightarrow>
     nw_unhealthyCount net + int (length (nw_healthy net)) = int (length (nw_nodes net))"

lemma nw_inv_update:
  assumes "nw_inv key net" "\<And>nd. key (f nd) = key nd"
    "\<And>nd. nd_badGrpcStatusCount (f nd) = nd_badGrpcStatusCount nd"
  shows "nw_inv key (nw_update n f net)"
  using assms(1) nw_node_update_key [of key f] nw_node_update_key [of nd_badGrpcStatusCount f]
    assms(2,3)
  by (auto simp: nw_inv_def map_inv_def)

subsection \<open>Readmission\<close>

lemma readmit_loop_frame:
  assumes "mn_readmit_loop now ns next s net = (next', net')"
  shows "nw_nodes net' = nw_nodes net \<and> nw_network net' = nw_network net \<and>
    nw_store net' = nw_store net \<and> nw_nodeMaxReadmit net' = nw_nodeMaxReadmit net \<and>
    nw_nodeMinReadmit net' = nw_nodeMinReadmit net \<and>
    nw_maxNodeAttempts net' = nw_maxNodeAttempts net \<and>
    nw_maxNodesPerTx net' = nw_maxNodesPerTx net \<and>
    nw_unhealthyCount net' + int (length (nw_healthy net')) =
      nw_unhealthyCount net + int (length (nw_healthy net))"
  using assms
  by (induction now ns "next" s net rule: mn_readmit_loop.induct)
     (auto simp: Let_def split: if_splits)

lemma readmit_loop_healthy:
  assumes "mn_readmit_loop now ns next s net = (next', net')" "distinct (nw_healthy net)"
  shows "distinct (nw_healthy net') \<and>
    set (nw_healthy net') =
      set (nw_healthy net) \<union> {n \<in> set ns. nd_readmitTime (nw_node net n) \<le> now}"
  using assms
proof (induction now ns "next" s net rule: mn_readmit_loop.induct)
  case (1 now "next" search net)
  then show ?case by simp
next
  case (2 now n ns "next" search net)
  show ?case
  proof (cases "n \<in> set (nw_healthy net)")
    case True
    with 2(1) [OF refl refl] 2(3,4) show ?thesis
      by (auto simp: Let_def)
  next
    case False
    with 2(2) [OF refl refl] 2(3,4) show ?thesis
      by (auto simp: Let_def split: if_splits)
  qed
qed

lemma readmit_frame [simp]:
  "nw_nodes (mn_readmitNodes now net) = nw_nodes net"
  "nw_network (mn_readmitNodes now net) = nw_network net"
  "nw_store (mn_readmitNodes now net) = nw_store net"
  "nw_nodeMaxReadmit (mn_readmitNodes now net) = nw_nodeMaxReadmit net"
  "nw_maxNodeAttempts (mn_readmitNodes now net) = nw_maxNodeAttempts net"
  "nw_maxNodesPerTx (mn_readmitNodes now net) = nw_maxNodesPerTx net"
  "nw_node (mn_readmitNodes now net) n = nw_node net n"
  "nw_counted (mn_readmitNodes now net) = nw_counted net"
  by (auto simp: mn_readmitNodes_def nw_node_def nw_counted_def split: prod.splits
      dest: readmit_loop_frame)

lemma readmit_healthy:
  assumes "distinct (nw_healthy net)"
  shows "distinct (nw_healthy (mn_readmitNodes now net))"
    and "set (nw_healthy (mn_readmitNodes now net)) =
      set (nw_healthy net) \<union>
      (if nw_earliestReadmit net \<le> now
       then {n \<in> set (nw_nodes net). nd_readmitTime (nw_node net n) \<le> now} else {})"
  using assms
  by (auto simp: mn_readmitNodes_def split: prod.splits dest: readmit_loop_healthy)

lemma readmit_inv: "nw_inv key net \<Longrightarrow> nw_inv key (mn_readmitNodes now net)"
  by (auto simp: nw_inv_def map_inv_def readmit_healthy split: if_splits)

lemma readmit_id:
  assumes "set (nw_healthy net) = set (nw_nodes net)" "distinct (nw_healthy net)"
  shows "nw_healthy (mn_readmitNodes now net) = nw_healthy net \<and>
     nw_unhealthyCount (mn_readmitNodes now net) = nw_unhealthyCount net"
proof -
  have loop: "nw_healthy (snd (mn_readmit_loop now ns nx s net)) = nw_healthy net \<and>
      nw_unhealthyCount (snd (mn_readmit_loop now ns nx s net)) = nw_unhealthyCount net"
    if "set ns \<subseteq> set (nw_healthy net)" for ns nx s
    using that by (induction ns arbitrary: nx s) (auto simp: Let_def)
  show ?thesis
    using loop [of "nw_nodes net"] assms
    by (auto simp: mn_readmitNodes_def split: prod.splits) (metis snd_conv subset_refl)+
qed

subsection \<open>Choosing and reporting nodes\<close>

lemma splice_distinct:
  "distinct ms \<Longrightarrow>
     mn_splice_loop n ms = (remove1 n ms, if n \<in> set ms then 1 else 0)"
proof (induction n ms rule: mn_splice_loop.induct)
  case (3 n m m' ms)
  then show ?case by (auto simp: remove1_idem)
qed auto

lemma increase_frame [simp]:
  "nw_nodes (mn_increaseBackoff now n net) = nw_nodes net"
  "nw_network (mn_increaseBackoff now n net) = nw_network net"
  "length (nw_store (mn_increaseBackoff now n net)) = length (nw_store net)"
  "nw_node (mn_increaseBackoff now n net) m = nw_node (nw_update n (node_increaseBackoff now) net) m"
  "nw_maxNodesPerTx (mn_increaseBackoff now n net) = nw_maxNodesPerTx net"
  "nw_maxNodeAttempts (mn_increaseBackoff now n net) = nw_maxNodeAttempts net"
  by (auto simp: mn_increaseBackoff_def Let_def nw_node_def split: prod.splits)

lemma increase_healthy:
  assumes "distinct (nw_healthy net)"
  shows "nw_healthy (mn_increaseBackoff now n net) = remove1 n (nw_healthy net)"
    and "nw_unhealthyCount (mn_increaseBackoff now n net) =
      nw_unhealthyCount net + (if n \<in> set (nw_healthy net) then 1 else 0)"
  using assms by (simp_all add: mn_increaseBackoff_def splice_distinct Let_def)

lemma increase_inv:
  assumes "nw_inv key net" "\<And>nd. key (node_increaseBackoff now nd) = key nd"
  shows "nw_inv key (mn_increaseBackoff now n net)"
proof -
  have d: "distinct (nw_healthy net)" using assms(1) by (simp add: nw_inv_def)
  have "nw_inv key (nw_update n (node_increaseBackoff now) net)"
    using assms by (intro nw_inv_update) auto
  then show ?thesis
    by (auto simp: nw_inv_def map_inv_def increase_healthy [OF d] dest: notin_set_remove1)
qed

lemma increase_counted:
  assumes "nw_counted net" "distinct (nw_healthy net)"
  shows "nw_counted (mn_increaseBackoff now n net)"
  using assms distinct_remove1_length [of n "nw_healthy net"]
  by (auto simp: nw_counted_def increase_healthy remove1_idem simp flip: of_nat_Suc)

lemma decrease_frame [simp]:
  "nw_nodes (mn_decreaseBackoff n net) = nw_nodes net"
  "nw_healthy (mn_decreaseBackoff n net) = nw_healthy net"
  "nw_network (mn_decreaseBackoff n net) = nw_network net"
  "nw_counted (mn_decreaseBackoff n net) = nw_counted net"
  "nw_maxNodesPerTx (mn_decreaseBackoff n net) = nw_maxNodesPerTx net"
  by (simp_all add: mn_decreaseBackoff_def nw_counted_def)

lemma decrease_inv:
  "nw_inv key net \<Longrightarrow> (\<And>nd. key (node_decreaseBackoff nd) = key nd) \<Longrightarrow>
     nw_inv key (mn_decreaseBackoff n net)"
  by (simp add: mn_decreaseBackoff_def nw_inv_update)

lemma node_getKey_frame [simp]:
  "node_getKey (node_increaseBackoff now nd) = node_getKey nd"
  "node_getKey (node_decreaseBackoff nd) = node_getKey nd"
  "node_getKey (node_close nd) = node_getKey nd"
  by (simp_all add: node_getKey_def node_close_def)

lemma mirror_getKey_frame [simp]:
  "mirror_getKey (node_increaseBackoff now nd) = mirror_getKey nd"
  "mirror_getKey (node_decreaseBackoff nd) = mirror_getKey nd"
  by (simp_all add: mirror_getKey_def)

lemma getChannel_frame [simp]:
  "nd_account (snd (node_getChannel init nd)) = nd_account nd"
  "nd_badGrpcStatusCount (snd (node_getChannel init nd)) = nd_badGrpcStatusCount nd"
  "nd_readmitTime (snd (node_getChannel init nd)) = nd_readmitTime nd"
  "nd_minBackoff (snd (node_getChannel init nd)) = nd_minBackoff nd"
  "nd_maxBackoff (snd (node_getChannel init nd)) = nd_maxBackoff nd"
  "nd_currentBackoff (snd (node_getChannel init nd)) = nd_currentBackoff nd"
  "nd_address (snd (node_getChannel init nd)) = nd_address nd"
  "node_getKey (snd (node_getChannel init nd)) = node_getKey nd"
  by (auto simp: node_getChannel_def node_getKey_def Let_def split: option.splits)

lemma mn_getChannel_frame [simp]:
  "nw_nodes (mn_getChannel init n net) = nw_nodes net"
  "nw_network (mn_getChannel init n net) = nw_network net"
  "nw_healthy (mn_getChannel init n net) = nw_healthy net"
  "nw_counted (mn_getChannel init n net) = nw_counted net"
  "nd_account (nw_node (mn_getChannel init n net) m) = nd_account (nw_node net m)"
  "nd_readmitTime (nw_node (mn_getChannel init n net) m) = nd_readmitTime (nw_node net m)"
  "nd_minBackoff (nw_node (mn_getChannel init n net) m) = nd_minBackoff (nw_node net m)"
  "nd_maxBackoff (nw_node (mn_getChannel init n net) m) = nd_maxBackoff (nw_node net m)"
  "nd_currentBackoff (nw_node (mn_getChannel init n net) m) = nd_currentBackoff (nw_node net m)"
  by (simp_all add: mn_getChannel_def nw_counted_def nw_node_update_key)

lemma mn_getChannel_inv:
  "nw_inv node_getKey net \<Longrightarrow> nw_inv node_getKey (mn_getChannel init n net)"
  by (simp add: mn_getChannel_def nw_inv_update)

lemma getNode_net: "snd (mn_getNode now r k net) = mn_readmitNodes now net"
  by (simp add: mn_getNode_def Let_def)

lemma map_inv_lookup:
  assumes "map_inv key net" "map_of (nw_network net) k = Some ns"
  shows "ns \<noteq> [] \<and> hd ns \<in> set (nw_nodes net) \<and> key (nw_node net (hd ns)) = k"
  using assms map_of_SomeD [OF assms(2)] hd_in_set [of ns] by (fastforce simp: map_inv_def)

lemma js_nth_0: "xs \<noteq> [] \<Longrightarrow> js_nth xs 0 = Some (hd xs)"
  by (simp add: js_nth_def hd_conv_nth)

text \<open>What a successful \<open>getNode\<close> returns, with and without a key.\<close>

lemma getNode_member:
  assumes "nw_inv key net" "is_random r" "mn_getNode now r k net = (Inr x, net')"
  shows "\<exists>n. x = Some n \<and> n \<in> set (nw_nodes net')"
proof -
  have net': "net' = mn_readmitNodes now net"
    using getNode_net [of now r k net] assms(3) by simp
  have inv: "map_inv key net'"
    using readmit_inv [OF assms(1)] by (simp add: nw_inv_def net')
  show ?thesis
  proof (cases k)
    case None
    with assms(3) have h: "nw_healthy net' \<noteq> []"
        "x = js_nth (nw_healthy net') (random_index r (length (nw_healthy net')))"
      by (auto simp: mn_getNode_def net' Let_def split: if_splits)
    then have "random_index r (length (nw_healthy net')) < length (nw_healthy net')"
      using assms(2) by (intro random_index_less) auto
    then show ?thesis
      using h readmit_inv [OF assms(1), of now] by (auto simp: nw_inv_def net')
  next
    case (Some k)
    then obtain k' ns where "map_of (nw_network net') k' = Some ns" "x = js_nth ns 0"
      using assms(3) by (auto simp: mn_getNode_def net' Let_def split: option.splits)
    then show ?thesis using map_inv_lookup [OF inv] js_nth_0 by metis
  qed
qed

lemma getNode_healthy:
  assumes "is_random r" "mn_getNode now r None net = (Inr x, net')"
  shows "\<exists>n. x = Some n \<and> n \<in> set (nw_healthy net')"
proof -
  have net': "net' = mn_readmitNodes now net"
    using getNode_net [of now r None net] assms(2) by simp
  with assms(2) have h: "nw_healthy net' \<noteq> []"
      "x = js_nth (nw_healthy net') (random_index r (length (nw_healthy net')))"
    by (auto simp: mn_getNode_def Let_def split: if_splits)
  then have "random_index r (length (nw_healthy net')) < length (nw_healthy net')"
    using assms(1) by (intro random_index_less) auto
  then show ?thesis using h by auto
qed

subsection \<open>The contract a request relies on\<close>

text \<open>
  What \<open>Executable\<close> calls on a network, and what it may rely on: a node it is handed
  belongs to the pool, and no call breaks the pool.
\<close>

datatype 'n node_call =
  GetNode rat rat "string option" | UseChannel 'n | Increase rat 'n | Decrease 'n

fun run_call ::
  "(rat \<Rightarrow> rat \<Rightarrow> string option \<Rightarrow> 's \<Rightarrow> 'n option js \<times> 's) \<Rightarrow> ('n \<Rightarrow> 's \<Rightarrow> 's) \<Rightarrow>
   (rat \<Rightarrow> 'n \<Rightarrow> 's \<Rightarrow> 's) \<Rightarrow> ('n \<Rightarrow> 's \<Rightarrow> 's) \<Rightarrow> 's \<Rightarrow> 'n node_call \<Rightarrow> 's" where
  "run_call get chan incr decr s (GetNode now r k) = snd (get now r k s)"
| "run_call get chan incr decr s (UseChannel n) = chan n s"
| "run_call get chan incr decr s (Increase now n) = incr now n s"
| "run_call get chan incr decr s (Decrease n) = decr n s"

locale node_provider =
  fixes inv :: "'s \<Rightarrow> bool"
    and members :: "'s \<Rightarrow> 'n set"
    and get :: "rat \<Rightarrow> rat \<Rightarrow> string option \<Rightarrow> 's \<Rightarrow> 'n option js \<times> 's"
    and chan :: "'n \<Rightarrow> 's \<Rightarrow> 's"
    and incr :: "rat \<Rightarrow> 'n \<Rightarrow> 's \<Rightarrow> 's"
    and decr :: "'n \<Rightarrow> 's \<Rightarrow> 's"
  assumes get_inv: "inv s \<Longrightarrow> inv (snd (get now r k s))"
    and get_members: "inv s \<Longrightarrow> members (snd (get now r k s)) = members s"
    and get_member: "inv s \<Longrightarrow> is_random r \<Longrightarrow> get now r k s = (Inr x, s') \<Longrightarrow>
      \<exists>n. x = Some n \<and> n \<in> members s'"
    and chan_inv: "inv s \<Longrightarrow> inv (chan n s)"
    and chan_members: "inv s \<Longrightarrow> members (chan n s) = members s"
    and incr_inv: "inv s \<Longrightarrow> inv (incr now n s)"
    and incr_members: "inv s \<Longrightarrow> members (incr now n s) = members s"
    and decr_inv: "inv s \<Longrightarrow> inv (decr n s)"
    and decr_members: "inv s \<Longrightarrow> members (decr n s) = members s"
begin

abbreviation call :: "'s \<Rightarrow> 'n node_call \<Rightarrow> 's" where
  "call \<equiv> run_call get chan incr decr"

lemma calls_keep_pool: "inv s \<Longrightarrow> inv (foldl call s cs) \<and> members (foldl call s cs) = members s"
proof (induction cs arbitrary: s)
  case Nil
  then show ?case by simp
next
  case (Cons c cs)
  then have "inv (call s c) \<and> members (call s c) = members s"
    by (cases c) (auto simp: get_inv get_members chan_inv chan_members incr_inv incr_members decr_inv decr_members)
  with Cons.IH [of "call s c"] show ?case by simp
qed

lemma get_after_calls:
  assumes "inv s" "is_random r" "get now r k (foldl call s cs) = (Inr x, s')"
  shows "\<exists>n \<in> members s. x = Some n"
proof -
  have "inv (foldl call s cs)" "members (foldl call s cs) = members s"
    using calls_keep_pool [OF assms(1)] by auto
  with get_member [OF this(1) assms(2,3)] get_members [OF this(1), of now r k] assms(3)
  show ?thesis by auto
qed

end

text \<open>The pool of the model, with the counter of unhealthy nodes as part of its invariant.\<close>

definition pool_inv :: "'ch network \<Rightarrow> bool" where
  "pool_inv net \<longleftrightarrow> nw_inv node_getKey net \<and> nw_counted net"

lemma pool_inv_readmit: "pool_inv net \<Longrightarrow> pool_inv (mn_readmitNodes now net)"
  by (simp add: pool_inv_def readmit_inv)

lemma pool_inv_channel: "pool_inv net \<Longrightarrow> pool_inv (mn_getChannel init n net)"
  by (simp add: pool_inv_def mn_getChannel_inv)

lemma pool_inv_increase: "pool_inv net \<Longrightarrow> pool_inv (mn_increaseBackoff now n net)"
  by (auto simp: pool_inv_def increase_inv increase_counted nw_inv_def [of _ net])

lemma pool_inv_decrease: "pool_inv net \<Longrightarrow> pool_inv (mn_decreaseBackoff n net)"
  by (simp add: pool_inv_def decrease_inv)

interpretation np: node_provider pool_inv "\<lambda>net. set (nw_nodes net)"
  mn_getNode "mn_getChannel init" mn_increaseBackoff mn_decreaseBackoff for init
proof unfold_locales
  fix net net' :: "'a network" and now r k x
  assume "pool_inv net" "is_random r" "mn_getNode now r k net = (Inr x, net')"
  then show "\<exists>n. x = Some n \<and> n \<in> set (nw_nodes net')"
    by (intro getNode_member [of node_getKey net r now k]) (simp_all add: pool_inv_def)
qed (simp_all add: pool_inv_readmit pool_inv_channel pool_inv_increase pool_inv_decrease getNode_net)

text \<open>
  C16. Accounting of the pool: whatever sequence of node choices, failures and answers
  the requests of a client make, the healthy nodes stay a subset of the nodes without
  repetition, the counter of unhealthy nodes stays the number of the others, no node
  enters or leaves, and a node that is handed out is one of the nodes.
\<close>

theorem pool_accounting:
  assumes "nw_inv node_getKey net" "nw_counted net"
    and "net' = foldl (run_call mn_getNode (mn_getChannel init) mn_increaseBackoff mn_decreaseBackoff)
      net calls"
  shows "nw_inv node_getKey net' \<and> nw_counted net' \<and>
    set (nw_nodes net') = set (nw_nodes net) \<and>
    (\<forall>now r k x net''. is_random r \<and> mn_getNode now r k net' = (Inr x, net'') \<longrightarrow>
       (\<exists>n \<in> set (nw_nodes net). x = Some n))"
proof -
  have "pool_inv net" using assms(1,2) by (simp add: pool_inv_def)
  with np.calls_keep_pool [of net init calls] np.get_after_calls [of net _ _ _ init calls] show ?thesis
    unfolding assms(3) by (auto simp: pool_inv_def)
qed

subsection \<open>Choosing several nodes\<close>

lemma removeDead_loop_id:
  assumes "nw_inv key net" "0 < nw_maxNodeAttempts net" "i \<le> length (nw_nodes net)"
  shows "mn_removeDead_loop key i net = (Inr (), net)"
  using assms by (induction i) (auto simp: nw_inv_def)

lemma removeDeadNodes_id:
  "nw_inv key net \<Longrightarrow> mn_removeDeadNodes key net = (Inr (), net)"
  by (simp add: mn_removeDeadNodes_def removeDead_loop_id)

definition node_pair :: "('ch node \<Rightarrow> string) \<Rightarrow> 'ch network \<Rightarrow> nat \<Rightarrow> string \<times> string" where
  "node_pair key net n = (key (nw_node net n), na_address (nd_address (nw_node net n)))"

lemma node_pair_readmit [simp]:
  "node_pair key (mn_readmitNodes now net) = node_pair key net"
  by (simp add: node_pair_def fun_eq_iff)

definition pick_inv ::
  "('ch node \<Rightarrow> string) \<Rightarrow> nat \<Rightarrow> nat list \<Rightarrow> 'ch network \<Rightarrow> bool" where
  "pick_inv key i nodes net \<longleftrightarrow>
     nw_inv key net \<and> i = length nodes \<and> distinct (map (node_pair key net) nodes) \<and>
     set nodes \<subseteq> set (nw_healthy net)"

lemma pick_inv_draw:
  assumes "pick_inv key i nodes net" "is_random r"
    and "mn_getNode now r None net = (Inr x, net')"
  shows "\<exists>n. x = Some n \<and> n \<in> set (nw_healthy net') \<and> pick_inv key i nodes net' \<and>
    (node_pair key net' n \<notin> node_pair key net' ` set nodes \<longrightarrow>
       pick_inv key (Suc i) (nodes @ [n]) net')"
proof -
  have net': "net' = mn_readmitNodes now net"
    using getNode_net [of now r None net] assms(3) by simp
  from getNode_healthy [OF assms(2,3)] obtain n where
    "x = Some n" "n \<in> set (nw_healthy net')" by blast
  moreover have "pick_inv key i nodes net'"
    using assms(1) readmit_inv [of key net now] readmit_healthy(2) [of net now]
    by (auto simp: pick_inv_def net' nw_inv_def [of key net])
  ultimately show ?thesis by (auto simp: pick_inv_def)
qed

definition pick_done :: "int \<Rightarrow> nat \<Rightarrow> nat list \<Rightarrow> 'ch network \<Rightarrow> bool" where
  "pick_done cnt i nodes net \<longleftrightarrow>
     length (nw_healthy net) \<le> i \<or>
     (int (length nodes) = cnt - nw_unhealthyCount net \<and> nodes \<noteq> [])"

definition pick_fresh ::
  "('ch node \<Rightarrow> string) \<Rightarrow> 'ch network \<Rightarrow> nat list \<Rightarrow> nat \<Rightarrow> bool" where
  "pick_fresh key net nodes n \<longleftrightarrow>
     key (nw_node net n) \<notin> set (map (\<lambda>m. key (nw_node net m)) nodes) \<or>
     na_address (nd_address (nw_node net n)) \<notin>
       set (map (\<lambda>m. na_address (nd_address (nw_node net m))) nodes)"

lemma pick_loop_steps:
  "pick_done cnt i nodes net \<Longrightarrow>
     mn_pick_loop key cnt draws i nodes net = Some (Inr nodes, net)"
  "\<not> pick_done cnt i nodes net \<Longrightarrow> mn_pick_loop key cnt [] i nodes net = None"
  "\<not> pick_done cnt i nodes net \<Longrightarrow> mn_getNode now r None net = (Inl e, net') \<Longrightarrow>
     mn_pick_loop key cnt ((now, r) # ds) i nodes net = Some (Inl e, net')"
  "\<not> pick_done cnt i nodes net \<Longrightarrow> mn_getNode now r None net = (Inr (Some n), net') \<Longrightarrow>
     pick_fresh key net' nodes n \<Longrightarrow>
     mn_pick_loop key cnt ((now, r) # ds) i nodes net =
       mn_pick_loop key cnt ds (Suc i) (nodes @ [n]) net'"
  "\<not> pick_done cnt i nodes net \<Longrightarrow> mn_getNode now r None net = (Inr (Some n), net') \<Longrightarrow>
     \<not> pick_fresh key net' nodes n \<Longrightarrow>
     mn_pick_loop key cnt ((now, r) # ds) i nodes net = mn_pick_loop key cnt ds i nodes net'"
  by (subst mn_pick_loop.simps, auto simp: pick_done_def pick_fresh_def)+

lemma pick_fresh_pair:
  "pick_fresh key net nodes n \<Longrightarrow> node_pair key net n \<notin> node_pair key net ` set nodes"
  by (auto simp: node_pair_def pick_fresh_def)

lemma pick_loop_correct:
  assumes "mn_pick_loop key cnt draws i nodes net = Some (Inr ns, net')"
    and "pick_inv key i nodes net" "\<forall>(now, r) \<in> set draws. is_random r"
  shows "pick_inv key (length ns) ns net' \<and> pick_done cnt (length ns) ns net'"
  using assms
proof (induction draws arbitrary: i nodes net)
  case Nil
  then show ?case
    by (cases "pick_done cnt i nodes net") (auto simp: pick_loop_steps pick_inv_def)
next
  case (Cons d ds)
  obtain now r where d: "d = (now, r)" by (cases d)
  show ?case
  proof (cases "pick_done cnt i nodes net")
    case True
    then show ?thesis using Cons.prems by (auto simp: pick_loop_steps pick_inv_def)
  next
    case False
    obtain res net'' where g: "mn_getNode now r None net = (res, net'')"
      by (cases "mn_getNode now r None net")
    show ?thesis
    proof (cases res)
      case (Inl e)
      then show ?thesis using Cons.prems(1) False g d by (simp add: pick_loop_steps)
    next
      case (Inr x)
      then obtain n where n: "x = Some n" "pick_inv key i nodes net''"
          "node_pair key net'' n \<notin> node_pair key net'' ` set nodes \<longrightarrow>
             pick_inv key (Suc i) (nodes @ [n]) net''"
        using pick_inv_draw [OF Cons.prems(2), of r now x net''] Cons.prems(3) d g by auto
      show ?thesis
      proof (cases "pick_fresh key net'' nodes n")
        case True
        then show ?thesis
          using Cons.IH [of "Suc i" "nodes @ [n]" net''] Cons.prems(1,3) d g False n Inr
            pick_fresh_pair [OF True] by (simp add: pick_loop_steps)
      next
        case nfresh: False
        then show ?thesis
          using Cons.IH [of i nodes net''] Cons.prems(1,3) d g False n Inr
          by (simp add: pick_loop_steps)
      qed
    qed
  qed
qed

lemma mostHealthy_start:
  "nw_inv key net \<Longrightarrow>
     mn_mostHealthyNodes key cnt draws net = mn_pick_loop key cnt draws 0 [] net \<and>
     pick_inv key 0 [] net"
  by (simp add: mn_mostHealthyNodes_def removeDeadNodes_id pick_inv_def)

text \<open>
  Choosing nodes for a request, when it returns: the nodes are healthy, no two of
  them agree in both key and host, and their number is the requested one less the
  count of unhealthy nodes, or else they are all the healthy nodes there are.
\<close>

theorem most_healthy_nodes_correct:
  assumes "nw_inv key net" "\<forall>(now, r) \<in> set draws. is_random r"
    and "mn_mostHealthyNodes key cnt draws net = Some (Inr ns, net')"
  shows "set ns \<subseteq> set (nw_healthy net') \<and>
    distinct (map (\<lambda>n. (key (nw_node net' n), na_address (nd_address (nw_node net' n)))) ns) \<and>
    (int (length ns) = cnt - nw_unhealthyCount net' \<or> set ns = set (nw_healthy net'))"
proof -
  have "pick_inv key (length ns) ns net' \<and> pick_done cnt (length ns) ns net'"
    using pick_loop_correct [of key cnt draws 0 "[]" net ns net'] mostHealthy_start [OF assms(1)]
      assms(2,3) by simp
  then have inv: "nw_inv key net'" "distinct (map (node_pair key net') ns)"
      "set ns \<subseteq> set (nw_healthy net')"
    and "length (nw_healthy net') \<le> length ns \<or>
      int (length ns) = cnt - nw_unhealthyCount net'"
    by (auto simp: pick_inv_def pick_done_def)
  moreover have "set ns = set (nw_healthy net')" if "length (nw_healthy net') \<le> length ns"
  proof (rule card_subset_eq)
    have "distinct ns" "distinct (nw_healthy net')"
      using inv by (auto simp: distinct_map nw_inv_def)
    then show "card (set ns) = card (set (nw_healthy net'))"
      using that card_mono [OF _ inv(3)] by (simp add: distinct_card)
  qed (use inv in simp_all)
  ultimately show ?thesis by (auto simp: node_pair_def [abs_def])
qed

lemma readmit_all_healthy:
  assumes "nw_inv key net" "set (nw_healthy net) = set (nw_nodes net)"
  shows "nw_healthy (mn_readmitNodes now net) = nw_healthy net"
    and "nw_unhealthyCount (mn_readmitNodes now net) = nw_unhealthyCount net"
  using readmit_id [of net now] assms by (auto simp: nw_inv_def)

lemma pick_loop_stuck:
  assumes "\<forall>(now, r) \<in> set draws. is_random r"
    and "nw_inv key net" "set (nw_healthy net) = set (nw_nodes net)"
    and "2 \<le> length (nw_healthy net)" "cnt - nw_unhealthyCount net \<noteq> 1"
    and "\<forall>n \<in> set (nw_healthy net). node_pair key net n = p"
    and "nodes = [] \<or> (\<exists>n \<in> set (nw_healthy net). nodes = [n])"
  shows "mn_pick_loop key cnt draws (length nodes) nodes net = None"
  using assms
proof (induction draws arbitrary: nodes net)
  case Nil
  then have "\<not> pick_done cnt (length nodes) nodes net" by (auto simp: pick_done_def)
  then show ?case by (simp add: pick_loop_steps)
next
  case (Cons d ds)
  obtain now r where d: "d = (now, r)" by (cases d)
  have busy: "\<not> pick_done cnt (length nodes) nodes net"
    using Cons.prems by (auto simp: pick_done_def)
  obtain x net' where g: "mn_getNode now r None net = (Inr x, net')"
      and net': "net' = mn_readmitNodes now net"
    using Cons.prems(4) readmit_all_healthy [OF Cons.prems(2,3), of now]
    by (cases "nw_healthy net = []") (auto simp: mn_getNode_def Let_def)
  have same: "nw_healthy net' = nw_healthy net" "nw_unhealthyCount net' = nw_unhealthyCount net"
    by (simp_all add: net' readmit_all_healthy [OF Cons.prems(2,3)])
  have r: "is_random r" using Cons.prems(1) d by auto
  from getNode_healthy [OF r g] obtain n
    where n: "x = Some n" "n \<in> set (nw_healthy net)" by (auto simp: same)
  have pair: "\<forall>n \<in> set (nw_healthy net'). node_pair key net' n = p"
    using Cons.prems(6) by (simp add: net' same [unfolded net'])
  have IH: "mn_pick_loop key cnt ds (length nodes') nodes' net' = None"
    if "nodes' = [] \<or> (\<exists>n \<in> set (nw_healthy net'). nodes' = [n])" for nodes'
  proof (rule Cons.IH [OF _ _ _ _ _ pair that])
    show "nw_inv key net'" using Cons.prems(2) by (simp add: net' readmit_inv)
    show "set (nw_healthy net') = set (nw_nodes net')"
      using Cons.prems(3) by (simp add: same) (simp add: net')
  qed (use Cons.prems same in auto)
  show ?case
  proof (cases "pick_fresh key net' nodes n")
    case True
    have "node_pair key net' n = p" using pair n same by simp
    moreover have "\<forall>m \<in> set nodes. node_pair key net' m = p"
      using Cons.prems(7) pair same by auto
    ultimately have "nodes = []"
      using pick_fresh_pair [OF True] by (cases nodes) auto
    then show ?thesis
      using busy g n True IH [of "[n]"] same by (simp add: d pick_loop_steps)
  next
    case False
    then show ?thesis
      using busy g n Cons.prems(7) IH [of nodes] same by (simp add: d pick_loop_steps)
  qed
qed

text \<open>
  Choosing nodes can run forever, against the comment in the method: when all the
  nodes are healthy and there are at least two of them, all with the same account and
  host (two proxies of one node, say), then a request for any number of nodes but one
  ends the loop for no sequence of random draws, however long.
\<close>

theorem most_healthy_nodes_diverges:
  assumes "nw_inv key net" "set (nw_healthy net) = set (nw_nodes net)"
    and "2 \<le> length (nw_healthy net)" "cnt - nw_unhealthyCount net \<noteq> 1"
    and "\<forall>n \<in> set (nw_healthy net). key (nw_node net n) = k \<and>
           na_address (nd_address (nw_node net n)) = host"
    and "\<forall>(now, r) \<in> set draws. is_random r"
  shows "mn_mostHealthyNodes key cnt draws net = None"
proof -
  have "mn_pick_loop key cnt draws (length ([] :: nat list)) [] net = None"
    using assms by (intro pick_loop_stuck [of draws key net cnt "(k, host)"])
      (auto simp: node_pair_def)
  then show ?thesis using mostHealthy_start [OF assms(1)] by simp
qed

text \<open>When the nodes differ pairwise, enough draws end the loop.\<close>

lemma random_index_hit:
  assumes "k < n"
  shows "is_random (of_nat k / of_nat n) \<and> random_index (of_nat k / of_nat n) n = k"
  using assms by (simp add: is_random_def random_index_def)

lemma pick_loop_fills:
  assumes "nw_inv key net" "set (nw_healthy net) = set (nw_nodes net)"
    and "distinct (map (\<lambda>n. key (nw_node net n)) (nw_healthy net)) \<or>
      distinct (map (\<lambda>n. na_address (nd_address (nw_node net n))) (nw_healthy net))"
    and "n = length (nw_healthy net)" "i \<le> n"
  shows "\<exists>ns net'. mn_pick_loop key cnt (map (\<lambda>k. (now, of_nat k / of_nat n)) [i..<n]) i
    (take i (nw_healthy net)) net = Some (Inr ns, net')"
  using assms
proof (induction "n - i" arbitrary: i net)
  case 0
  then show ?case by (simp add: pick_loop_steps(1) pick_done_def)
next
  case (Suc d)
  let ?h = "nw_healthy net" and ?ds = "map (\<lambda>k. (now, of_nat k / of_nat n))"
  show ?case
  proof (cases "pick_done cnt i (take i ?h) net")
    case True
    then show ?thesis by (simp add: pick_loop_steps)
  next
    case False
    from Suc.hyps(2) have i: "i < n" by simp
    let ?net = "mn_readmitNodes now net"
    have same: "nw_healthy ?net = ?h" by (rule readmit_all_healthy [OF Suc.prems(1,2)])
    have g: "mn_getNode now (of_nat i / of_nat n) None net = (Inr (Some (?h ! i)), ?net)"
      using random_index_hit [OF i] i Suc.prems(4)
      by (cases "?h = []") (auto simp: mn_getNode_def Let_def same)
    have split: "?h = take i ?h @ ?h ! i # drop (Suc i) ?h"
      using i Suc.prems(4) by (simp add: id_take_nth_drop)
    have "distinct (map f ?h) \<Longrightarrow> f (?h ! i) \<notin> f ` set (take i ?h)" for f :: "nat \<Rightarrow> string"
      by (subst (asm) split) auto
    then have fresh: "pick_fresh key ?net (take i ?h) (?h ! i)"
      using Suc.prems(3) by (auto simp: pick_fresh_def)
    have "\<exists>ns net'. mn_pick_loop key cnt (?ds [Suc i..<n]) (Suc i) (take (Suc i) (nw_healthy ?net)) ?net
        = Some (Inr ns, net')"
    proof (rule Suc.hyps(1))
      show "nw_inv key ?net" using Suc.prems(1) by (simp add: readmit_inv)
      show "set (nw_healthy ?net) = set (nw_nodes ?net)" using Suc.prems(2) same by simp
      show "distinct (map (\<lambda>n. key (nw_node ?net n)) (nw_healthy ?net)) \<or>
        distinct (map (\<lambda>n. na_address (nd_address (nw_node ?net n))) (nw_healthy ?net))"
        using Suc.prems(3) same by simp
    qed (use Suc.hyps(2) Suc.prems(4) i same in auto)
    then show ?thesis
      using False g fresh i Suc.prems(4) same
      by (simp add: upt_conv_Cons pick_loop_steps take_Suc_conv_app_nth)
  qed
qed

text \<open>
  Choosing nodes can finish when the nodes are told apart: if all nodes are healthy
  and no two have the same account, or no two have the same host, then for every
  requested number there is a sequence of random draws, as long as the list of nodes,
  with which the loop returns.
\<close>

theorem most_healthy_nodes_finishes:
  assumes "nw_inv key net" "set (nw_healthy net) = set (nw_nodes net)"
    and "distinct (map (\<lambda>n. key (nw_node net n)) (nw_healthy net)) \<or>
      distinct (map (\<lambda>n. na_address (nd_address (nw_node net n))) (nw_healthy net))"
  shows "\<exists>draws ns net'. length draws = length (nw_nodes net) \<and>
    (\<forall>(now, r) \<in> set draws. is_random r) \<and>
    mn_mostHealthyNodes key cnt draws net = Some (Inr ns, net')"
proof -
  let ?n = "length (nw_healthy net)"
  let ?draws = "map (\<lambda>k. (0 :: rat, of_nat k / of_nat ?n :: rat)) [0..<?n]"
  from pick_loop_fills [OF assms refl, of 0 cnt 0]
  have "\<exists>ns net'. mn_mostHealthyNodes key cnt ?draws net = Some (Inr ns, net')"
    using mostHealthy_start [OF assms(1), of cnt ?draws] by simp
  moreover have "\<forall>(now, r) \<in> set ?draws. is_random r"
    using random_index_hit by fastforce
  moreover have "length ?draws = length (nw_nodes net)"
    using assms(1,2) by (metis nw_inv_def distinct_card length_map map_nth length_upt minus_nat.diff_0)
  ultimately show ?thesis by blast
qed

subsection \<open>Readmission\<close>

text \<open>
  C17. Readmission: once the earliest readmit time has come, a readmission makes exactly
  the nodes healthy that were so or whose own readmit time has come, and it keeps the
  counter right.  The next earliest time is cut at the maximum readmit period, which
  is a duration and not a point in time, so from then on every readmission at a time
  after that duration scans the nodes again, whatever the readmit times of the nodes.
\<close>

theorem readmission_complete:
  assumes "nw_inv key net" "nw_counted net" "nw_earliestReadmit net \<le> now"
    and "nw_nodeMaxReadmit net \<le> later"
  shows "nw_counted (mn_readmitNodes now net) \<and>
    set (nw_healthy (mn_readmitNodes now net)) =
      set (nw_healthy net) \<union> {n \<in> set (nw_nodes net). node_isHealthy now (nw_node net n)} \<and>
    nw_earliestReadmit (mn_readmitNodes now net) \<le> nw_nodeMaxReadmit net \<and>
    {n \<in> set (nw_nodes net). node_isHealthy later (nw_node net n)} \<subseteq>
      set (nw_healthy (mn_readmitNodes later (mn_readmitNodes now net)))"
proof -
  have d: "distinct (nw_healthy net)" using assms(1) by (simp add: nw_inv_def)
  have e: "nw_earliestReadmit (mn_readmitNodes now net) \<le> nw_nodeMaxReadmit net"
    using assms(3) by (auto simp: mn_readmitNodes_def split: prod.splits dest: readmit_loop_frame)
  show ?thesis
    using e d assms readmit_healthy(1) [OF d, of now]
    by (auto simp: readmit_healthy node_isHealthy_def)
qed

subsection \<open>Replacing the network\<close>

text \<open>Two networks with the same nodes, up to their channels.\<close>

definition same_nodes :: "'ch network \<Rightarrow> 'ch network \<Rightarrow> bool" where
  "same_nodes net net' \<longleftrightarrow>
     length (nw_store net') = length (nw_store net) \<and>
     (\<forall>n. nd_account (nw_node net' n) = nd_account (nw_node net n) \<and>
          nd_address (nw_node net' n) = nd_address (nw_node net n) \<and>
          nd_readmitTime (nw_node net' n) = nd_readmitTime (nw_node net n) \<and>
          nd_badGrpcStatusCount (nw_node net' n) = nd_badGrpcStatusCount (nw_node net n))"

lemma same_nodes_refl [simp]: "same_nodes net net"
  by (simp add: same_nodes_def)

lemma same_nodes_trans:
  "same_nodes net net' \<Longrightarrow> same_nodes net' net'' \<Longrightarrow> same_nodes net net''"
  by (simp add: same_nodes_def)

lemma same_nodes_store:
  "nw_store net' = nw_store net \<Longrightarrow> same_nodes net net'"
  by (simp add: same_nodes_def nw_node_def)

lemma same_nodes_close: "same_nodes net (nw_update n node_close net)"
  unfolding same_nodes_def
  by (intro conjI allI nw_update_frame nw_node_update_key) (simp_all add: node_close_def)

lemma same_nodes_key: "same_nodes net net' \<Longrightarrow> node_getKey (nw_node net' n) = node_getKey (nw_node net n)"
  by (simp add: same_nodes_def node_getKey_def)

text \<open>What removing nodes leaves alone: everything but the node lists and the map.\<close>

definition removal_frame :: "'ch network \<Rightarrow> 'ch network \<Rightarrow> bool" where
  "removal_frame net net' \<longleftrightarrow>
     same_nodes net net' \<and> nw_healthy net' = nw_healthy net \<and>
     nw_unhealthyCount net' = nw_unhealthyCount net \<and>
     nw_minBackoff net' = nw_minBackoff net \<and>
     set (map fst (nw_network net')) \<subseteq> set (map fst (nw_network net))"

lemma removal_frame_refl [simp]: "removal_frame net net"
  by (simp add: removal_frame_def)

lemma removal_frame_trans:
  "removal_frame net net' \<Longrightarrow> removal_frame net' net'' \<Longrightarrow> removal_frame net net''"
  by (auto simp: removal_frame_def simp del: set_map intro: same_nodes_trans)

lemma removeNode_frame:
  assumes "mn_removeNodeFromNetwork node_getKey n net = (res, net')"
  shows "removal_frame net net' \<and> nw_nodes net' = nw_nodes net \<and>
    (\<forall>e. res = Inl e \<longrightarrow> e = TypeErr) \<and>
    (res = Inr () \<longrightarrow> node_getKey (nw_node net n) \<in> set (map fst (nw_network net)))"
proof (cases "map_of (nw_network net) (node_getKey (nw_node net n))")
  case None
  with assms show ?thesis by (auto simp: mn_removeNodeFromNetwork_def)
next
  case (Some ns)
  then have "node_getKey (nw_node net n) \<in> set (map fst (nw_network net))"
    by (metis map_of_eq_None_iff option.distinct(1) set_map)
  with Some assms show ?thesis
    by (auto simp: mn_removeNodeFromNetwork_def Let_def removal_frame_def same_nodes_store
        AList.update_keys AList.delete_keys simp del: set_map split: if_splits)
qed

lemma closeNode_frame:
  assumes "mn_closeNode node_getKey i net = (res, net')" "i < length (nw_nodes net)"
  shows "removal_frame net net' \<and>
    (\<forall>e. res = Inl e \<longrightarrow> e = TypeErr) \<and>
    (res = Inr () \<longrightarrow>
       nw_nodes net' = take i (nw_nodes net) @ drop (Suc i) (nw_nodes net) \<and>
       node_getKey (nw_node net (nw_nodes net ! i)) \<in> set (map fst (nw_network net)))"
proof -
  let ?n = "nw_nodes net ! i"
  let ?net = "nw_update ?n node_close net"
  obtain res1 net1 where r: "mn_removeNodeFromNetwork node_getKey ?n ?net = (res1, net1)"
    by (cases "mn_removeNodeFromNetwork node_getKey ?n ?net")
  note fr = removeNode_frame [OF r]
  have "nw_minBackoff ?net = nw_minBackoff net" by (simp add: nw_update_def)
  then have "removal_frame net ?net" by (simp add: removal_frame_def same_nodes_close)
  then have r1: "removal_frame net net1" using fr removal_frame_trans by blast
  moreover have "removal_frame net1 (net1\<lparr>nw_nodes := ns\<rparr>)" for ns
    by (simp add: removal_frame_def same_nodes_store)
  ultimately have "removal_frame net (net1\<lparr>nw_nodes := ns\<rparr>)" for ns
    using removal_frame_trans by blast
  moreover have "node_getKey (nw_node ?net ?n) = node_getKey (nw_node net ?n)"
    by (rule same_nodes_key [OF same_nodes_close])
  ultimately show ?thesis
    using assms fr r r1 by (auto simp: mn_closeNode_def split: sum.splits simp del: set_map)
qed

text \<open>Removing a descending list of indices removes those nodes and no others.\<close>

lemma close_all_descending:
  assumes "mn_close_all node_getKey (filter P (rev [0..<k])) net = (res, net')"
    and "k \<le> length (nw_nodes net)" "\<And>i. i < k \<Longrightarrow> P i = Q (nw_nodes net ! i)"
  shows "removal_frame net net' \<and>
    (\<forall>e. res = Inl e \<longrightarrow> e = TypeErr) \<and>
    (res = Inr () \<longrightarrow>
       nw_nodes net' = filter (\<lambda>n. \<not> Q n) (take k (nw_nodes net)) @ drop k (nw_nodes net) \<and>
       (\<forall>n \<in> set (take k (nw_nodes net)). Q n \<longrightarrow>
          node_getKey (nw_node net n) \<in> set (map fst (nw_network net))))"
  using assms
proof (induction k arbitrary: net)
  case 0
  then show ?case by auto
next
  case (Suc k)
  have k: "k < length (nw_nodes net)" using Suc.prems(2) by simp
  have tk: "take (Suc k) (nw_nodes net) = take k (nw_nodes net) @ [nw_nodes net ! k]"
    using k by (simp add: take_Suc_conv_app_nth)
  have Pk: "P k = Q (nw_nodes net ! k)" using Suc.prems(3) by simp
  show ?case
  proof (cases "P k")
    case False
    then have "mn_close_all node_getKey (filter P (rev [0..<k])) net = (res, net')"
      using Suc.prems(1) by simp
    from Suc.IH [OF this] show ?thesis
      using Suc.prems(2,3) k False Pk by (auto simp: tk Cons_nth_drop_Suc simp del: set_map)
  next
    case True
    obtain res1 net1 where c: "mn_closeNode node_getKey k net = (res1, net1)"
      by (cases "mn_closeNode node_getKey k net")
    note fr = closeNode_frame [OF c k]
    show ?thesis
    proof (cases res1)
      case (Inl e)
      then show ?thesis using fr c Suc.prems(1) True by auto
    next
      case (Inr u)
      then have run: "mn_close_all node_getKey (filter P (rev [0..<k])) net1 = (res, net')"
        using c Suc.prems(1) True by simp
      have nodes1: "nw_nodes net1 = take k (nw_nodes net) @ drop (Suc k) (nw_nodes net)"
        using fr Inr by simp
      have IH: "removal_frame net1 net' \<and> (\<forall>e. res = Inl e \<longrightarrow> e = TypeErr) \<and>
        (res = Inr () \<longrightarrow>
         nw_nodes net' = filter (\<lambda>n. \<not> Q n) (take k (nw_nodes net1)) @ drop k (nw_nodes net1) \<and>
         (\<forall>n \<in> set (take k (nw_nodes net1)). Q n \<longrightarrow>
            node_getKey (nw_node net1 n) \<in> set (map fst (nw_network net1))))"
        by (rule Suc.IH [OF run]) (use k Suc.prems(3) in \<open>auto simp: nodes1 nth_append\<close>)
      have "node_getKey (nw_node net1 n) = node_getKey (nw_node net n)" for n
        using fr same_nodes_key removal_frame_def by blast
      moreover have "set (map fst (nw_network net1)) \<subseteq> set (map fst (nw_network net))"
        using fr by (simp add: removal_frame_def)
      moreover have "removal_frame net net'" using fr IH removal_frame_trans by blast
      ultimately show ?thesis
        using IH fr Inr k True Pk by (auto simp: tk nodes1 simp del: set_map)
    qed
  qed
qed

definition node_entry :: "'ch network \<Rightarrow> nat \<Rightarrow> string \<times> string" where
  "node_entry net n = (na_toString (nd_address (nw_node net n)), nd_account (nw_node net n))"

definition node_id :: "'ch network \<Rightarrow> nat \<Rightarrow> node_address js \<times> string" where
  "node_id net n = (Inr (nd_address (nw_node net n)), nd_account (nw_node net n))"

definition entry_id :: "string \<times> string \<Rightarrow> node_address js \<times> string" where
  "entry_id e = (na_fromString (fst e), snd e)"

lemma same_nodes_entry: "same_nodes net net' \<Longrightarrow> node_entry net' n = node_entry net n"
  by (simp add: same_nodes_def node_entry_def)

lemma nw_alloc_frame:
  assumes "nw_alloc nd net = (n, net')"
  shows "n = length (nw_store net) \<and> nw_node net' n = nd \<and>
    length (nw_store net') = Suc (length (nw_store net)) \<and>
    (\<forall>m < length (nw_store net). nw_node net' m = nw_node net m) \<and>
    nw_nodes net' = nw_nodes net \<and> nw_unhealthyCount net' = nw_unhealthyCount net \<and>
    nw_network net' = nw_network net \<and> nw_ledgerId net' = nw_ledgerId net"
  using assms by (auto simp: nw_alloc_def nw_node_def nth_append)

text \<open>The nodes added are new, one for every entry that is not skipped.\<close>

lemma add_entries_frame:
  assumes "mn_add_entries (nw_createNode now) ks as es new net = (Inr new', net')"
  shows "\<exists>fresh. new' = new @ fresh \<and> distinct fresh \<and>
    length (nw_store net) \<le> length (nw_store net') \<and>
    (\<forall>n \<in> set fresh. length (nw_store net) \<le> n \<and> n < length (nw_store net') \<and>
       nd_readmitTime (nw_node net' n) = now \<and> nd_badGrpcStatusCount (nw_node net' n) = 0) \<and>
    (\<forall>n < length (nw_store net). nw_node net' n = nw_node net n) \<and>
    nw_nodes net' = nw_nodes net \<and> nw_unhealthyCount net' = nw_unhealthyCount net \<and>
    node_id net' ` set fresh = entry_id ` {(a, v) \<in> set es. \<not> (v \<in> ks \<and> a \<in> as)}"
  using assms
proof (induction es arbitrary: new net)
  case Nil
  then show ?case by auto
next
  case (Cons e es)
  obtain a v where e: "e = (a, v)" by (cases e)
  show ?case
  proof (cases "v \<in> ks \<and> a \<in> as")
    case True
    then have "mn_add_entries (nw_createNode now) ks as es new net = (Inr new', net')"
      using Cons.prems e by simp
    moreover have "{(a, v) \<in> set (e # es). \<not> (v \<in> ks \<and> a \<in> as)} =
        {(a, v) \<in> set es. \<not> (v \<in> ks \<and> a \<in> as)}" using True e by auto
    ultimately show ?thesis using Cons.IH by simp
  next
    case False
    with Cons.prems e obtain nd where nd: "nw_createNode now net (a, v) = Inr nd"
      by (auto split: sum.splits)
    obtain n net1 where al: "nw_alloc nd net = (n, net1)" by (cases "nw_alloc nd net")
    note fr = nw_alloc_frame [OF al]
    have nd': "na_fromString a = Inr (nd_address nd)" "nd_account nd = v"
        "nd_readmitTime nd = now" "nd_badGrpcStatusCount nd = 0"
      using nd by (auto simp: nw_createNode_def js_bind_eq_Inr node_setMinBackoff_def node_new_def)
    have "mn_add_entries (nw_createNode now) ks as es (new @ [n]) net1 = (Inr new', net')"
      using Cons.prems e False nd al by auto
    from Cons.IH [OF this] obtain fresh where f:
      "new' = (new @ [n]) @ fresh" "distinct fresh"
      "length (nw_store net1) \<le> length (nw_store net')"
      "\<forall>m \<in> set fresh. length (nw_store net1) \<le> m \<and> m < length (nw_store net') \<and>
       nd_readmitTime (nw_node net' m) = now \<and> nd_badGrpcStatusCount (nw_node net' m) = 0"
      "\<forall>m < length (nw_store net1). nw_node net' m = nw_node net1 m"
      "nw_nodes net' = nw_nodes net1" "nw_unhealthyCount net' = nw_unhealthyCount net1"
      "node_id net' ` set fresh = entry_id ` {(a, v) \<in> set es. \<not> (v \<in> ks \<and> a \<in> as)}"
      by blast
    have n: "nw_node net' n = nd" "n = length (nw_store net)" "n < length (nw_store net')"
      using f fr by auto
    have set_e: "{(a, v) \<in> set (e # es). \<not> (v \<in> ks \<and> a \<in> as)} =
        insert (a, v) {(a, v) \<in> set es. \<not> (v \<in> ks \<and> a \<in> as)}" using False e by auto
    have img: "node_id net' ` set (n # fresh) =
        entry_id ` {(a, v) \<in> set (e # es). \<not> (v \<in> ks \<and> a \<in> as)}"
      unfolding set_e using f(8) n nd' by (simp add: node_id_def entry_id_def)
    show ?thesis
      by (rule exI [of _ "n # fresh"], intro conjI img)
         (use f(1-7) n nd' fr in \<open>auto simp: Suc_le_eq\<close>)
  qed
qed

definition buckets_ok ::
  "('ch node \<Rightarrow> string) \<Rightarrow> 'ch network \<Rightarrow> nat set \<Rightarrow> (string \<times> nat list) list \<Rightarrow> bool" where
  "buckets_ok key net S m \<longleftrightarrow>
     (\<forall>(k, ns) \<in> set m. ns \<noteq> [] \<and> (\<forall>n \<in> set ns. n \<in> S \<and> key (nw_node net n) = k))"

lemma add_to_map_fold:
  assumes "m' = fold (mn_add_to_map key net) hs m"
  shows "set (map fst m') = set (map fst m) \<union> (\<lambda>n. key (nw_node net n)) ` set hs \<and>
    (buckets_ok key net S m \<longrightarrow> set hs \<subseteq> S \<longrightarrow> buckets_ok key net S m')"
  using assms
proof (induction hs arbitrary: m)
  case Nil
  then show ?case by simp
next
  case (Cons h hs)
  let ?k = "key (nw_node net h)" and ?m = "mn_add_to_map key net h m"
  have upd: "set (AList.update k v al) \<subseteq> insert (k, v) (set al)" for k :: string and v :: "nat list" and al
    by (induction al) auto
  have keys: "set (map fst ?m) = insert ?k (set (map fst m))"
    by (simp add: mn_add_to_map_def Let_def AList.dom_update)
  have "buckets_ok key net S ?m" if bk: "buckets_ok key net S m" and h: "h \<in> S"
  proof -
    note ok = bk [unfolded buckets_ok_def]
    let ?old = "case map_of m ?k of None \<Rightarrow> [] | Some ns \<Rightarrow> ns"
    have "\<forall>n \<in> set (?old @ [h]). n \<in> S \<and> key (nw_node net n) = ?k"
    proof (cases "map_of m ?k")
      case None
      then show ?thesis using h by simp
    next
      case (Some ns)
      then show ?thesis using ok h bspec [OF ok map_of_SomeD [OF Some]] by auto
    qed
    then have new: "?old @ [h] \<noteq> [] \<and> (\<forall>n \<in> set (?old @ [h]). n \<in> S \<and> key (nw_node net n) = ?k)"
      by simp
    show ?thesis unfolding buckets_ok_def
    proof (rule ballI, clarify del: conjI)
      fix k ns assume "(k, ns) \<in> set ?m"
      then have "(k, ns) = (?k, ?old @ [h]) \<or> (k, ns) \<in> set m"
        using upd [of ?k "?old @ [h]" m] unfolding mn_add_to_map_def Let_def by blast
      then show "ns \<noteq> [] \<and> (\<forall>n \<in> set ns. n \<in> S \<and> key (nw_node net n) = k)"
        using new ok by blast
    qed
  qed
  with keys Cons.IH [of ?m] Cons.prems show ?case by auto
qed

definition kept :: "(string \<times> string) list \<Rightarrow> 'ch network \<Rightarrow> nat \<Rightarrow> bool" where
  "kept entries net n \<longleftrightarrow>
     map_of entries (na_toString (nd_address (nw_node net n))) = Some (nd_account (nw_node net n))"

lemma setNetwork_removal:
  assumes "mn_close_all node_getKey (nw_getNodesToRemove entries net) net = (res, net')"
  shows "removal_frame net net' \<and>
    (\<forall>e. res = Inl e \<longrightarrow> e = TypeErr) \<and>
    (res = Inr () \<longrightarrow>
       nw_nodes net' = filter (kept entries net) (nw_nodes net) \<and>
       (\<forall>n \<in> set (nw_nodes net). \<not> kept entries net n \<longrightarrow>
          node_getKey (nw_node net n) \<in> set (map fst (nw_network net))))"
proof -
  let ?P = "\<lambda>i. \<not> kept entries net (nw_nodes net ! i)"
  have "nw_getNodesToRemove entries net = filter ?P (rev [0..<length (nw_nodes net)])"
    by (simp add: nw_getNodesToRemove_def Let_def kept_def)
  with close_all_descending [of ?P "length (nw_nodes net)" net res net' "\<lambda>n. \<not> kept entries net n"]
    assms show ?thesis by (simp del: set_map)
qed

definition fresh_entries :: "(string \<times> string) list \<Rightarrow> 'ch network \<Rightarrow> (string \<times> string) set" where
  "fresh_entries entries net =
     {(a, v) \<in> set entries.
        \<not> ((\<exists>n \<in> set (nw_nodes net). kept entries net n \<and> nd_account (nw_node net n) = v) \<and>
           (\<exists>n \<in> set (nw_nodes net). kept entries net n \<and>
              na_toString (nd_address (nw_node net n)) = a))}"

text \<open>What a successful \<open>setNetwork\<close> of the class \<open>Network\<close> has done.\<close>

lemma setNetwork_run:
  assumes run: "nw_setNetwork now rnd entries net = (Inr (), net')"
    and rnd: "\<And>k. is_random (rnd k)" and inv: "nw_inv node_getKey net"
  shows "nw_inv node_getKey net' \<and>
    nw_healthy net' = filter (\<lambda>n. node_isHealthy now (nw_node net' n)) (nw_nodes net') \<and>
    set (map fst (nw_network net')) = (\<lambda>n. node_getKey (nw_node net' n)) ` set (nw_healthy net') \<and>
    nw_unhealthyCount net' = nw_unhealthyCount net \<and> nw_ledgerId net' = None \<and>
    node_id net' ` set (nw_nodes net') =
      node_id net ` {n \<in> set (nw_nodes net). kept entries net n} \<union>
      entry_id ` fresh_entries entries net"
proof -
  obtain res1 net1 where c: "mn_close_all node_getKey (nw_getNodesToRemove entries net) net = (res1, net1)"
    by (cases "mn_close_all node_getKey (nw_getNodesToRemove entries net) net")
  with run have res1: "res1 = Inr ()"
    by (cases res1) (auto simp: nw_setNetwork_def mn_setNetwork_def)
  let ?K = "set (map (\<lambda>n. node_getKey (nw_node net1 n)) (nw_nodes net1))"
  let ?A = "set (map (\<lambda>n. na_toString (nd_address (nw_node net1 n))) (nw_nodes net1))"
  obtain res2 net2 where
    a: "mn_add_entries (nw_createNode now) ?K ?A entries (nw_nodes net1) net1 = (res2, net2)"
    by (cases "mn_add_entries (nw_createNode now) ?K ?A entries (nw_nodes net1) net1")
  with run c res1 obtain new where new: "res2 = Inr new"
    by (cases res2) (auto simp: nw_setNetwork_def mn_setNetwork_def simp del: set_map)
  note rem = setNetwork_removal [OF c]
  have nodes1: "nw_nodes net1 = filter (kept entries net) (nw_nodes net)"
    and count1: "nw_unhealthyCount net1 = nw_unhealthyCount net"
    and same1: "same_nodes net net1"
    using rem res1 by (auto simp: removal_frame_def)
  from add_entries_frame [OF a [unfolded new]] obtain fresh where f:
      "new = nw_nodes net1 @ fresh" "distinct fresh"
      "length (nw_store net1) \<le> length (nw_store net2)"
      "\<forall>n \<in> set fresh. length (nw_store net1) \<le> n \<and> n < length (nw_store net2) \<and>
         nd_readmitTime (nw_node net2 n) = now \<and> nd_badGrpcStatusCount (nw_node net2 n) = 0"
      "\<forall>n < length (nw_store net1). nw_node net2 n = nw_node net1 n"
      "nw_unhealthyCount net2 = nw_unhealthyCount net1"
      "node_id net2 ` set fresh = entry_id ` {(a, v) \<in> set entries. \<not> (v \<in> ?K \<and> a \<in> ?A)}"
    by blast
  let ?new = "js_shuffle rnd new"
  let ?h = "filter (\<lambda>n. node_isHealthy now (nw_node net2 n)) ?new"
  let ?m = "fold (mn_add_to_map node_getKey net2) ?h []"
  have net': "net' = net2\<lparr>nw_nodes := ?new, nw_healthy := ?h, nw_network := ?m, nw_ledgerId := None\<rparr>"
    using run c res1 a new
    by (simp add: nw_setNetwork_def mn_setNetwork_def Let_def del: set_map)
  have old: "\<forall>n \<in> set (nw_nodes net1). n < length (nw_store net1) \<and> nw_node net2 n = nw_node net1 n"
    using inv f(5) same1 by (auto simp: nodes1 nw_inv_def same_nodes_def)
  have setnew: "set ?new = set (nw_nodes net1) \<union> set fresh"
    using f(1) by (simp add: set_js_shuffle [OF rnd])
  have distinct: "distinct ?new"
    using f(1,2,4) old inv by (fastforce simp: distinct_js_shuffle [OF rnd] nodes1 nw_inv_def)
  have m: "set (map fst ?m) = (\<lambda>n. node_getKey (nw_node net2 n)) ` set ?h"
    "\<forall>(k, ns) \<in> set ?m. ns \<noteq> [] \<and>
       (\<forall>n \<in> set ns. n \<in> set ?new \<and> node_getKey (nw_node net2 n) = k)"
    using add_to_map_fold [of ?m node_getKey net2 ?h "[]" "set ?new"]
    by (auto simp: buckets_ok_def)
  have nd: "nw_node net' n = nw_node net2 n" for n by (simp add: net' nw_node_def)
  have "nw_inv node_getKey net'"
  proof -
    have "n < length (nw_store net2) \<and> nd_badGrpcStatusCount (nw_node net2 n) = 0"
      if "n \<in> set ?new" for n
    proof (cases "n \<in> set fresh")
      case True
      then show ?thesis using f(4) by simp
    next
      case False
      then have "n \<in> set (nw_nodes net1)" using that setnew by simp
      then show ?thesis
        using old f(3) inv same1 by (auto simp: nodes1 nw_inv_def same_nodes_def)
    qed
    then show ?thesis
      using distinct m(2) by (simp add: nw_inv_def map_inv_def nd) (simp add: net')
  qed
  moreover have "node_id net' ` set (nw_nodes net') =
      node_id net ` {n \<in> set (nw_nodes net). kept entries net n} \<union>
      entry_id ` fresh_entries entries net"
  proof -
    have "node_id net' ` set (nw_nodes net') = node_id net2 ` (set (nw_nodes net1) \<union> set fresh)"
      unfolding setnew [symmetric] by (simp add: node_id_def [abs_def] nd) (simp add: net')
    also have "\<dots> = node_id net2 ` set (nw_nodes net1) \<union> node_id net2 ` set fresh"
      by (rule image_Un)
    also have "node_id net2 ` set (nw_nodes net1) =
        node_id net ` {n \<in> set (nw_nodes net). kept entries net n}"
      using old same1 by (auto simp: nodes1 same_nodes_def node_id_def intro!: image_cong)
    also have "{(a, v) \<in> set entries. \<not> (v \<in> ?K \<and> a \<in> ?A)} = fresh_entries entries net"
      using same1 by (auto simp: nodes1 same_nodes_def node_getKey_def fresh_entries_def)
    then have "node_id net2 ` set fresh = entry_id ` fresh_entries entries net"
      using f(7) by simp
    finally show ?thesis .
  qed
  ultimately show ?thesis
    using m(1) f(6) count1 by (simp add: nd del: set_map) (simp add: net' nd)
qed

text \<open>
  Replacing the network, when it returns: if every entry has an account and an
  address in its canonical form, the pairs of address and account of the nodes are
  exactly the entries; the healthy nodes are those whose readmit time has come, the
  map holds the keys of these, and the pool invariant holds.  The counter of unhealthy
  nodes is left as it was, although the lists it counts are new.
\<close>

theorem setNetwork_installs_entries:
  assumes "nw_inv node_getKey net" "\<And>k. is_random (rnd k)" "distinct (map fst entries)"
    and "\<And>a v. (a, v) \<in> set entries \<Longrightarrow> \<exists>x. na_fromString a = Inr x \<and> na_toString x = a"
    and "nw_setNetwork now rnd entries net = (Inr (), net')"
  shows "(\<lambda>n. (na_toString (nd_address (nw_node net' n)), nd_account (nw_node net' n))) `
      set (nw_nodes net') = set entries \<and>
    nw_healthy net' = filter (\<lambda>n. node_isHealthy now (nw_node net' n)) (nw_nodes net') \<and>
    set (map fst (nw_network net')) =
      (\<lambda>n. node_getKey (nw_node net' n)) ` set (nw_healthy net') \<and>
    nw_inv node_getKey net' \<and> nw_unhealthyCount net' = nw_unhealthyCount net"
proof -
  let ?K = "{n \<in> set (nw_nodes net). kept entries net n}" and ?E = "fresh_entries entries net"
  let ?g = "\<lambda>(x, v). ((case x of Inl e \<Rightarrow> [] | Inr y \<Rightarrow> na_toString y), v)"
  note run = setNetwork_run [OF assms(5) assms(2) assms(1)]
  have g: "?g ` node_id m ` A = node_entry m ` A" for A and m :: "'a network"
    by (simp add: image_image node_entry_def node_id_def)
  have "?g ` node_id net' ` set (nw_nodes net') = ?g ` node_id net ` ?K \<union> ?g ` entry_id ` ?E"
    using run by (metis image_Un)
  moreover have "?g ` entry_id ` ?E = ?E"
  proof -
    have "?g (entry_id e) = e" if "e \<in> ?E" for e
      using that assms(4) [of "fst e" "snd e"] by (auto simp: fresh_entries_def entry_id_def)
    then show ?thesis by (simp add: image_image)
  qed
  ultimately have pairs: "node_entry net' ` set (nw_nodes net') = node_entry net ` ?K \<union> ?E"
    by (simp only: g)
  have "node_entry net ` ?K \<subseteq> set entries"
    by (auto simp: kept_def node_entry_def dest: map_of_SomeD)
  moreover have "?E \<subseteq> set entries" by (auto simp: fresh_entries_def)
  moreover have "e \<in> node_entry net ` ?K" if e: "e \<in> set entries" "e \<notin> ?E" for e
  proof -
    obtain a v where av: "e = (a, v)" by (cases e)
    with e obtain n where n: "n \<in> ?K" "na_toString (nd_address (nw_node net n)) = a"
      by (auto simp: fresh_entries_def)
    moreover have "map_of entries a = Some v" using e(1) av assms(3) by simp
    ultimately have "node_entry net n = e" by (simp add: kept_def node_entry_def av)
    with n show ?thesis by blast
  qed
  ultimately have "node_entry net' ` set (nw_nodes net') = set entries"
    unfolding pairs by blast
  with run show ?thesis by (simp add: node_entry_def [abs_def])
qed

text \<open>
  Replacing the network twice can throw: a node that is unhealthy at the first
  setNetwork stays in the list of nodes but is left out of the map, so, if it is the
  only node of its account, a second setNetwork that drops it reads a property of
  undefined and throws a TypeError instead of installing the new network.
\<close>

theorem setNetwork_crashes_after_unhealthy:
  assumes "nw_inv node_getKey net" "\<And>k. is_random (rnd k)"
    and "nw_setNetwork now rnd entries net = (Inr (), net')"
    and "n \<in> set (nw_nodes net')" "\<not> node_isHealthy now (nw_node net' n)"
    and "\<forall>m \<in> set (nw_nodes net'). nd_account (nw_node net' m) = nd_account (nw_node net' n) \<longrightarrow> m = n"
    and "na_toString (nd_address (nw_node net' n)) \<notin> set (map fst entries')"
  shows "fst (nw_setNetwork now' rnd' entries' net') = Inl TypeErr"
proof -
  obtain res net2 where c:
    "mn_close_all node_getKey (nw_getNodesToRemove entries' net') net' = (res, net2)"
    by (cases "mn_close_all node_getKey (nw_getNodesToRemove entries' net') net'")
  note run = setNetwork_run [OF assms(3) assms(2) assms(1)]
  have "\<not> kept entries' net' n"
    using assms(7) by (auto simp: kept_def dest!: map_of_SomeD intro: rev_image_eqI)
  moreover have "node_getKey (nw_node net' n) \<notin> set (map fst (nw_network net'))"
  proof
    assume "node_getKey (nw_node net' n) \<in> set (map fst (nw_network net'))"
    then obtain m where m: "m \<in> set (nw_healthy net')"
        "node_getKey (nw_node net' m) = node_getKey (nw_node net' n)"
      using run by (auto simp del: set_map)
    then have "m \<in> set (nw_nodes net')" "node_isHealthy now (nw_node net' m)"
      using run by (metis mem_Collect_eq set_filter)+
    then show False using m(2) assms(5,6) by (auto simp: node_getKey_def)
  qed
  ultimately have "res \<noteq> Inr ()"
    using setNetwork_removal [OF c] assms(4) by blast
  then have "res = Inl TypeErr"
    using setNetwork_removal [OF c] by (cases res) auto
  with c show ?thesis by (simp add: nw_setNetwork_def mn_setNetwork_def)
qed

subsection \<open>Switching transport security\<close>

lemma nw_alloc_healthy:
  "nw_alloc nd net = (n, net') \<Longrightarrow> nw_healthy net' = nw_healthy net"
  by (auto simp: nw_alloc_def)

lemma clone_switch:
  assumes "(if secure then js_bind (node_toSecure nd) (\<lambda>m. Inr (node_setCert certs l m))
            else node_toInsecure nd) = Inr m"
  shows "nd_account m = nd_account nd \<and> nd_maxBackoff m = nd_minBackoff m"
  using assms
  by (auto simp: js_bind_eq_Inr node_toSecure_def node_toInsecure_def node_setCert_def
      node_clone_def split: if_splits)

lemma transport_loop_frame:
  assumes "nw_transport_loop certs secure acc ns net = (Inr (), net')"
    and "\<forall>n \<in> set acc \<union> set ns. n < length (nw_store net)"
  shows "\<exists>new. nw_nodes net' = acc @ new \<and>
    map (\<lambda>n. nd_account (nw_node net' n)) new = map (\<lambda>n. nd_account (nw_node net n)) ns \<and>
    (\<forall>n \<in> set new. nd_maxBackoff (nw_node net' n) = nd_minBackoff (nw_node net' n)) \<and>
    (\<forall>n < length (nw_store net). n \<notin> set ns \<longrightarrow> nw_node net' n = nw_node net n) \<and>
    length (nw_store net) \<le> length (nw_store net') \<and>
    nw_unhealthyCount net' = nw_unhealthyCount net"
  using assms
proof (induction ns arbitrary: acc net)
  case Nil
  then show ?case by auto
next
  case (Cons n ns)
  let ?net = "nw_update n node_close net"
  let ?res = "if secure
               then js_bind (node_toSecure (nw_node ?net n)) (\<lambda>m. Inr (node_setCert certs
                      (case nw_ledgerId ?net of None \<Rightarrow> [] | Some l \<Rightarrow> l) m))
               else node_toInsecure (nw_node ?net n)"
  from Cons.prems(1) obtain m where m: "?res = Inr m"
    by (cases ?res) (auto simp: Let_def)
  obtain k net1 where al: "nw_alloc m ?net = (k, net1)" by (cases "nw_alloc m ?net")
  note fr = nw_alloc_frame [OF al]
  let ?net2 = "net1\<lparr>nw_network := mn_add_to_map node_getKey net1 k (nw_network net1)\<rparr>"
  have run: "nw_transport_loop certs secure (acc @ [k]) ns ?net2 = (Inr (), net')"
    using Cons.prems(1) m al by (simp add: Let_def)
  have lt: "n < length (nw_store net)" "\<forall>m \<in> set acc \<union> set ns. m < length (nw_store net)"
    using Cons.prems(2) by auto
  have k: "k = length (nw_store net)" "nw_node net1 k = m"
    "length (nw_store net1) = Suc (length (nw_store net))" using fr by auto
  have len2: "length (nw_store ?net2) = length (nw_store net1)" by simp
  have old: "nw_node ?net2 j = (if j = n then node_close (nw_node net n) else nw_node net j)"
    if "j < length (nw_store net)" for j
    using fr that lt by (auto simp: nw_node_update)
  have "\<forall>m \<in> set (acc @ [k]) \<union> set ns. m < length (nw_store ?net2)"
    using lt k by (auto intro: less_SucI)
  from Cons.IH [OF run this] obtain new where new:
    "nw_nodes net' = (acc @ [k]) @ new"
    "map (\<lambda>n. nd_account (nw_node net' n)) new = map (\<lambda>n. nd_account (nw_node ?net2 n)) ns"
    "\<forall>n \<in> set new. nd_maxBackoff (nw_node net' n) = nd_minBackoff (nw_node net' n)"
    "\<forall>n < length (nw_store ?net2). n \<notin> set ns \<longrightarrow> nw_node net' n = nw_node ?net2 n"
    "length (nw_store ?net2) \<le> length (nw_store net')"
    "nw_unhealthyCount net' = nw_unhealthyCount ?net2"
    by blast
  have kk: "nw_node net' k = m"
    using new(4) k lt by (auto simp: len2)
  have acc_m: "nd_account m = nd_account (nw_node net n) \<and> nd_maxBackoff m = nd_minBackoff m"
    using clone_switch [OF m] lt by (simp add: nw_node_update node_close_def)
  have "nd_account (nw_node ?net2 j) = nd_account (nw_node net j)" if "j \<in> set ns" for j
    using old [of j] lt that by (auto simp: node_close_def)
  then have "map (\<lambda>n. nd_account (nw_node net' n)) (k # new) =
      map (\<lambda>n. nd_account (nw_node net n)) (n # ns)"
    using new(2) kk acc_m by simp
  then show ?case
    using new kk acc_m k old fr by (intro exI [of _ "k # new"]) auto
qed

text \<open>
  Switching transport security: every node is replaced by a clone of the same
  account and all nodes are healthy again, but the counter of unhealthy nodes stays
  what it was, so it is right afterwards only if no node was unhealthy before; and
  the maximum backoff of every node is now its minimum.
\<close>

theorem transport_switch_resets_health:
  assumes "nw_inv node_getKey net" "nw_counted net" "nw_transportSecurity net \<noteq> secure"
    and "nw_setTransportSecurity certs secure net = (Inr (), net')"
  shows "nw_healthy net' = nw_nodes net' \<and>
    map (\<lambda>n. nd_account (nw_node net' n)) (nw_nodes net') =
      map (\<lambda>n. nd_account (nw_node net n)) (nw_nodes net) \<and>
    nw_unhealthyCount net' = nw_unhealthyCount net \<and>
    (nw_counted net' \<longleftrightarrow> length (nw_healthy net) = length (nw_nodes net)) \<and>
    (\<forall>n \<in> set (nw_nodes net'). nd_maxBackoff (nw_node net' n) = nd_minBackoff (nw_node net' n))"
proof -
  let ?net0 = "net\<lparr>nw_network := []\<rparr>"
  from assms(3,4) obtain net1 where
    run: "nw_transport_loop certs secure [] (nw_nodes net) ?net0 = (Inr (), net1)" and
    net': "net' = net1\<lparr>nw_healthy := nw_nodes net1, nw_transportSecurity := secure\<rparr>"
    by (auto simp: nw_setTransportSecurity_def split: prod.splits sum.splits)
  have "\<forall>n \<in> set [] \<union> set (nw_nodes net). n < length (nw_store ?net0)"
    using assms(1) by (simp add: nw_inv_def)
  from transport_loop_frame [OF run this]
  have fr: "map (\<lambda>n. nd_account (nw_node net1 n)) (nw_nodes net1) =
      map (\<lambda>n. nd_account (nw_node net n)) (nw_nodes net)"
    "\<forall>n \<in> set (nw_nodes net1). nd_maxBackoff (nw_node net1 n) = nd_minBackoff (nw_node net1 n)"
    "nw_unhealthyCount net1 = nw_unhealthyCount net"
    by auto
  have "length (nw_nodes net1) = length (nw_nodes net)"
    using fr(1) by (metis length_map)
  with fr assms(2) show ?thesis by (auto simp: net' nw_counted_def)
qed

subsection \<open>Witnesses\<close>

text \<open>A network of two healthy nodes, and one in which the second node has failed at 0.\<close>

definition example_node :: "string \<Rightarrow> string \<Rightarrow> unit node" where
  "example_node host acc = node_new 0 \<lparr>na_address = host, na_port = Some 7\<rparr> acc"

definition example_net :: "string \<Rightarrow> string \<Rightarrow> string \<Rightarrow> string \<Rightarrow> unit network" where
  "example_net h1 a1 h2 a2 =
     (nw_new 0)\<lparr>nw_store := [example_node h1 a1, example_node h2 a2], nw_nodes := [0, 1],
       nw_healthy := [0, 1],
       nw_network := mn_add_to_map node_getKey
         ((nw_new 0)\<lparr>nw_store := [example_node h1 a1, example_node h2 a2]\<rparr>) 1 [(a1, [0])]\<rparr>"

lemmas example_simps = example_net_def example_node_def nw_new_def node_new_def nw_node_def
  node_getKey_def mn_add_to_map_def

lemma example_inv [simp]: "nw_inv node_getKey (example_net h1 a1 h2 a2)"
  by (auto simp: nw_inv_def map_inv_def example_simps nth_Cons')

lemma example_counted [simp]: "nw_counted (example_net h1 a1 h2 a2)"
  by (simp add: nw_counted_def example_simps)

lemma example_fields [simp]:
  "nw_nodes (example_net h1 a1 h2 a2) = [0, 1]"
  "nw_healthy (example_net h1 a1 h2 a2) = [0, 1]"
  "nw_unhealthyCount (example_net h1 a1 h2 a2) = 0"
  "nw_nodeMaxReadmit (example_net h1 a1 h2 a2) = 3600000"
  "nw_earliestReadmit (example_net h1 a1 h2 a2) = 8000"
  "\<not> nw_transportSecurity (example_net h1 a1 h2 a2)"
  "length (nw_store (example_net h1 a1 h2 a2)) = 2"
  by (simp_all add: example_simps)

lemma example_nodes [simp]:
  "nw_node (example_net h1 a1 h2 a2) 0 = example_node h1 a1"
  "nw_node (example_net h1 a1 h2 a2) (Suc 0) = example_node h2 a2"
  "na_address (nd_address (example_node h a)) = h"
  "nd_account (example_node h a) = a"
  "node_getKey (example_node h a) = a"
  by (simp_all add: example_simps)

theorem pool_accounting_witness:
  "nw_counted (foldl (run_call mn_getNode (mn_getChannel (\<lambda>_ _. ())) mn_increaseBackoff mn_decreaseBackoff)
     (example_net ''a'' ''3'' ''b'' ''4'') [GetNode 5 0 None, Increase 7 1, GetNode 9 0 None])"
  using pool_accounting [of "example_net ''a'' ''3'' ''b'' ''4''" _ "\<lambda>_ _. ()"
      "[GetNode 5 0 None, Increase 7 1, GetNode 9 0 None]", OF _ _ refl]
  by simp

theorem most_healthy_nodes_diverges_witness:
  "mn_mostHealthyNodes node_getKey 2 (replicate 100 (5, 1 / 3)) (example_net ''a'' ''3'' ''a'' ''3'')
     = None"
  by (rule most_healthy_nodes_diverges [where k = "''3''" and host = "''a''"])
     (simp_all add: is_random_def)

theorem most_healthy_nodes_finishes_witness:
  "\<exists>draws ns net'. length draws = 2 \<and>
     mn_mostHealthyNodes node_getKey 2 draws (example_net ''a'' ''3'' ''b'' ''3'')
       = Some (Inr ns, net')"
  using most_healthy_nodes_finishes [of node_getKey "example_net ''a'' ''3'' ''b'' ''3''" 2]
  by (auto simp: numeral_2_eq_2)

theorem readmission_complete_witness:
  "set (nw_healthy (mn_readmitNodes 16007 (mn_increaseBackoff 7 1 (example_net ''a'' ''3'' ''b'' ''4''))))
     = {0, 1}"
proof -
  let ?net = "mn_increaseBackoff 7 1 (example_net ''a'' ''3'' ''b'' ''4'')"
  have inv: "nw_inv node_getKey ?net" "nw_counted ?net"
    by (simp_all add: increase_inv increase_counted)
  have "set (nw_healthy (mn_readmitNodes 16007 ?net)) =
      set (nw_healthy ?net) \<union> {n \<in> set (nw_nodes ?net). node_isHealthy 16007 (nw_node ?net n)}"
    using readmission_complete [OF inv, of 16007 3600000]
    by (simp add: mn_increaseBackoff_def example_simps Let_def)
  also have "\<dots> = {0, 1}"
    by (auto simp: mn_increaseBackoff_def nw_update_def node_isHealthy_def
        node_increaseBackoff_def example_simps Let_def)
  finally show ?thesis .
qed

theorem most_healthy_nodes_correct_witness:
  "\<exists>ns net'. mn_mostHealthyNodes node_getKey 2 [(5, 0), (5, 0), (5, 1 / 2)]
      (example_net ''a'' ''3'' ''b'' ''4'') = Some (Inr ns, net') \<and>
    (int (length ns) = 2 - nw_unhealthyCount net' \<or> set ns = set (nw_healthy net'))"
proof -
  let ?net = "example_net ''a'' ''3'' ''b'' ''4''" and ?ds = "[(5, 0), (5, 0), (5, 1 / 2)] :: (rat \<times> rat) list"
  have get: "mn_getNode 5 0 None ?net = (Inr (Some 0), ?net)"
    "mn_getNode 5 (1 / 2) None ?net = (Inr (Some 1), ?net)"
    by (simp_all add: mn_getNode_def mn_readmitNodes_def random_index_def)
  have "mn_mostHealthyNodes node_getKey 2 ?ds ?net = Some (Inr [0, 1], ?net)"
    using mostHealthy_start [of node_getKey ?net 2 ?ds]
    by (simp add: pick_loop_steps pick_done_def get pick_fresh_def)
  with most_healthy_nodes_correct [of node_getKey ?net ?ds 2] show ?thesis
    by (simp add: is_random_def)
qed

text \<open>The addresses of the examples, parsed and printed.\<close>

lemma example_addresses:
  "na_fromString ''b:7'' = Inr \<lparr>na_address = ''b'', na_port = Some 7\<rparr>"
  "na_fromString ''c:8'' = Inr \<lparr>na_address = ''c'', na_port = Some 8\<rparr>"
  "na_toString \<lparr>na_address = ''a'', na_port = Some 7\<rparr> = ''a:7''"
  "na_toString \<lparr>na_address = ''b'', na_port = Some 7\<rparr> = ''b:7''"
  "na_toString \<lparr>na_address = ''c'', na_port = Some 8\<rparr> = ''c:8''"
  by (simp_all add: na_defs host_and_port_def is_digit_def js_space_def char_code_def
      parse_dec_def digit_val_def dec.simps digit_char_def)

lemma example_close [simp]: "node_close (example_node h a) = example_node h a"
  by (simp add: node_close_def example_node_def node_new_def)

lemma example_toString [simp]:
  "na_toString (nd_address (example_node h a)) = na_toString \<lparr>na_address = h, na_port = Some 7\<rparr>"
  by (simp add: example_simps)

lemma example_setNetwork:
  "fst (nw_setNetwork 5 (\<lambda>_. 0) [(''b:7'', ''4''), (''c:8'', ''5'')]
      (example_net ''a'' ''3'' ''b'' ''4'')) = Inr ()"
proof -
  let ?net = "example_net ''a'' ''3'' ''b'' ''4''" and ?es = "[(''b:7'', ''4''), (''c:8'', ''5'')]"
  have up: "[0..<2] = [0, 1 :: nat]" by (simp add: upt_rec)
  have "nw_getNodesToRemove ?es ?net = [0]"
    by (simp add: nw_getNodesToRemove_def Let_def example_addresses up)
  moreover have "fst (mn_close_all node_getKey [0] ?net) = Inr ()"
    by (simp add: mn_closeNode_def mn_removeNodeFromNetwork_def example_simps nw_update_def Let_def
        node_close_def)
  then obtain net1 where "mn_close_all node_getKey [0] ?net = (Inr (), net1)"
    by (metis prod.collapse)
  moreover have add: "\<exists>ns net'. mn_add_entries (nw_createNode 5) ks as ?es new net = (Inr ns, net')"
    for ks as new and net :: "unit network"
    by (auto simp: nw_createNode_def example_addresses split: prod.splits)
  obtain ns net2 where "mn_add_entries (nw_createNode 5)
      (set (map (\<lambda>n. node_getKey (nw_node net1 n)) (nw_nodes net1)))
      (set (map (\<lambda>n. na_toString (nd_address (nw_node net1 n))) (nw_nodes net1)))
      ?es (nw_nodes net1) net1 = (Inr ns, net2)"
    using add by blast
  ultimately show ?thesis
    by (simp add: nw_setNetwork_def mn_setNetwork_def Let_def del: set_map mn_add_entries.simps
        mn_close_all.simps)
qed

theorem setNetwork_installs_entries_witness:
  "\<exists>net'. nw_setNetwork 5 (\<lambda>_. 0) [(''b:7'', ''4''), (''c:8'', ''5'')]
      (example_net ''a'' ''3'' ''b'' ''4'') = (Inr (), net') \<and>
    (\<lambda>n. (na_toString (nd_address (nw_node net' n)), nd_account (nw_node net' n))) `
      set (nw_nodes net') = {(''b:7'', ''4''), (''c:8'', ''5'')}"
proof -
  let ?net = "example_net ''a'' ''3'' ''b'' ''4''" and ?es = "[(''b:7'', ''4''), (''c:8'', ''5'')]"
  obtain net' where run: "nw_setNetwork 5 (\<lambda>_. 0) ?es ?net = (Inr (), net')"
    using example_setNetwork by (metis prod.collapse)
  have canon: "\<exists>x. na_fromString a = Inr x \<and> na_toString x = a" if "(a, v) \<in> set ?es" for a v
    using that by (auto simp: example_addresses)
  show ?thesis
    using setNetwork_installs_entries [OF _ _ _ canon run] run by (simp add: is_random_def)
qed

text \<open>Node 0 fails, both nodes are set again, then node 0 is dropped.\<close>

theorem setNetwork_crashes_after_unhealthy_witness:
  "\<exists>net'. nw_setNetwork 8 (\<lambda>_. 0) [(''a:7'', ''3''), (''b:7'', ''4'')]
      (mn_increaseBackoff 7 0 (example_net ''a'' ''3'' ''b'' ''4'')) = (Inr (), net') \<and>
    fst (nw_setNetwork 9 (\<lambda>_. 0) [(''b:7'', ''4'')] net') = Inl TypeErr"
proof -
  let ?net = "mn_increaseBackoff 7 0 (example_net ''a'' ''3'' ''b'' ''4'')"
  let ?es = "[(''a:7'', ''3''), (''b:7'', ''4'')]" and ?new = "js_shuffle (\<lambda>_. 0) [0, 1 :: nat]"
  let ?h = "filter (\<lambda>n. node_isHealthy 8 (nw_node ?net n)) ?new"
  have inv: "nw_inv node_getKey ?net" by (simp add: increase_inv)
  have addr: "nd_address (example_node h a) = \<lparr>na_address = h, na_port = Some 7\<rparr>" for h a
    by (simp add: example_node_def node_new_def)
  have up: "[0..<2] = [0, 1 :: nat]" by (simp add: upt_rec)
  have rem: "nw_getNodesToRemove ?es ?net = []"
    by (simp add: nw_getNodesToRemove_def Let_def nw_node_update addr example_addresses up)
  have add: "mn_add_entries (nw_createNode 8) ks as ?es new net = (Inr new, net)"
    if "ks = {''3'', ''4''}" "as = {''a:7'', ''b:7''}" for ks as new and net :: "unit network"
    using that by simp
  define net' where "net' = ?net\<lparr>nw_nodes := ?new, nw_healthy := ?h,
    nw_network := fold (mn_add_to_map node_getKey ?net) ?h [], nw_ledgerId := None\<rparr>"
  have run: "nw_setNetwork 8 (\<lambda>_. 0) ?es ?net = (Inr (), net')"
    by (simp add: nw_setNetwork_def mn_setNetwork_def rem add nw_node_update addr example_addresses
        node_getKey_def Let_def net'_def del: mn_add_entries.simps)
  have node: "nw_node net' n = nw_node ?net n" for n
    by (simp add: net'_def del: increase_frame)
  have "set (nw_nodes net') = {0, 1}"
    by (simp add: net'_def set_js_shuffle is_random_def)
  moreover have "\<not> node_isHealthy 8 (nw_node net' 0)"
    by (simp add: node nw_node_update node_isHealthy_def node_increaseBackoff_def example_node_def
        node_new_def Let_def)
  ultimately have "fst (nw_setNetwork 9 (\<lambda>_. 0) [(''b:7'', ''4'')] net') = Inl TypeErr"
    using setNetwork_crashes_after_unhealthy [OF inv _ run, of 0 "[(''b:7'', ''4'')]" 9 "\<lambda>_. 0"]
    by (simp add: is_random_def node nw_node_update addr example_addresses)
  with run show ?thesis by blast
qed

theorem transport_switch_resets_health_witness:
  "\<exists>net'. nw_setTransportSecurity (\<lambda>_ _. None) True
      (mn_increaseBackoff 7 1 (example_net ''a'' ''3'' ''b'' ''4'')) = (Inr (), net') \<and>
    nw_healthy net' = nw_nodes net' \<and> nw_unhealthyCount net' = 1 \<and> \<not> nw_counted net'"
proof -
  let ?net = "mn_increaseBackoff 7 1 (example_net ''a'' ''3'' ''b'' ''4'')"
  have inv: "nw_inv node_getKey ?net" "nw_counted ?net" "\<not> nw_transportSecurity ?net"
    by (simp_all add: increase_inv increase_counted)
       (simp add: mn_increaseBackoff_def nw_update_def Let_def)
  have "fst (nw_setTransportSecurity (\<lambda>_ _. None) True ?net) = Inr ()"
    by (simp add: nw_setTransportSecurity_def mn_increaseBackoff_def nw_update_def nw_alloc_def
        example_simps Let_def node_toSecure_def na_defs node_close_def node_increaseBackoff_def)
  then obtain net' where run: "nw_setTransportSecurity (\<lambda>_ _. None) True ?net = (Inr (), net')"
    by (metis prod.collapse)
  have "nw_unhealthyCount ?net = 1" "nw_healthy ?net = [0]"
    by (simp_all add: increase_healthy)
  with transport_switch_resets_health [OF inv(1,2) _ run] inv(3) run show ?thesis
    by simp
qed

end
