(* ===== verification/Client.thy ===== *)
theory Client
  imports Network
begin

text \<open>
  The client of \<open>src/src/client/Client.js\<close>: the two networks, the operator and the
  defaults a request takes over.  Amounts are integers in the smallest unit.  Keys and
  signers are those of the operator: a public key is its raw string, a signer a
  function on byte strings.  Timers (the scheduled address book query) are not modelled.
\<close>



record operator =
  op_account :: string
  op_publicKey :: string
  op_signer :: "bytes \<Rightarrow> bytes"

record 'ch client =
  cl_network :: "'ch network"
  cl_mirrorNetwork :: "'ch network"
  cl_operator :: "operator option"
  cl_defaultMaxTransactionFee :: "int option"
  cl_maxQueryPayment :: int
  cl_maxAttempts :: "nat option"
  cl_signOnDemand :: bool
  cl_autoValidateChecksums :: bool
  cl_minBackoff :: rat
  cl_maxBackoff :: rat
  cl_defaultRegenerateTransactionId :: bool
  cl_requestTimeout :: "rat option"
  cl_isShutdown :: bool

definition cl_new :: "rat \<Rightarrow> 'ch client" where
  "cl_new now =
     \<lparr>cl_network = nw_new now, cl_mirrorNetwork = nw_new now, cl_operator = None,
      cl_defaultMaxTransactionFee = None, cl_maxQueryPayment = 100000000,
      cl_maxAttempts = None, cl_signOnDemand = False, cl_autoValidateChecksums = False,
      cl_minBackoff = 250, cl_maxBackoff = 8000, cl_defaultRegenerateTransactionId = True,
      cl_requestTimeout = None, cl_isShutdown = False\<rparr>"

subsection \<open>Setters that check or delegate\<close>

text \<open>
  \<open>validate\<close> is \<open>AccountId.validateChecksum\<close> of an account for a ledger; it is only
  called when the ledger is known.
\<close>

definition cl_setOperatorWith ::
  "(string \<Rightarrow> string \<Rightarrow> unit js) \<Rightarrow> operator \<Rightarrow> 'ch client \<Rightarrow> 'ch client js" where
  "cl_setOperatorWith validate oper c =
     js_bind (case nw_ledgerId (cl_network c) of
                None \<Rightarrow> Inr ()
              | Some l \<Rightarrow> validate l (op_account oper))
       (\<lambda>_. Inr (c\<lparr>cl_operator := Some oper\<rparr>))"

definition cl_setMinBackoff :: "rat option \<Rightarrow> 'ch client \<Rightarrow> 'ch client js" where
  "cl_setMinBackoff b c =
     (case b of
        None \<Rightarrow> Inl MinBackoffNull
      | Some m \<Rightarrow>
          if cl_maxBackoff c < m then Inl MinBackoffTooLarge else Inr (c\<lparr>cl_minBackoff := m\<rparr>))"

definition cl_setMaxBackoff :: "rat option \<Rightarrow> 'ch client \<Rightarrow> 'ch client js" where
  "cl_setMaxBackoff b c =
     (case b of
        None \<Rightarrow> Inl MaxBackoffNull
      | Some m \<Rightarrow>
          if m < cl_minBackoff c then Inl MaxBackoffTooSmall else Inr (c\<lparr>cl_maxBackoff := m\<rparr>))"

definition cl_getMaxAttempts :: "'ch client \<Rightarrow> nat" where
  "cl_getMaxAttempts c = (case cl_maxAttempts c of None \<Rightarrow> 10 | Some k \<Rightarrow> k)"

definition cl_setMaxAttempts :: "nat \<Rightarrow> 'ch client \<Rightarrow> 'ch client" where
  "cl_setMaxAttempts k c = c\<lparr>cl_maxAttempts := Some k\<rparr>"

definition cl_setRequestTimeout :: "rat \<Rightarrow> 'ch client \<Rightarrow> 'ch client" where
  "cl_setRequestTimeout t c = c\<lparr>cl_requestTimeout := Some t\<rparr>"

definition cl_setSignOnDemand :: "bool \<Rightarrow> 'ch client \<Rightarrow> 'ch client" where
  "cl_setSignOnDemand b c = c\<lparr>cl_signOnDemand := b\<rparr>"

definition cl_setAutoValidateChecksums :: "bool \<Rightarrow> 'ch client \<Rightarrow> 'ch client" where
  "cl_setAutoValidateChecksums b c = c\<lparr>cl_autoValidateChecksums := b\<rparr>"

definition cl_setDefaultMaxTransactionFee :: "int \<Rightarrow> 'ch client \<Rightarrow> 'ch client" where
  "cl_setDefaultMaxTransactionFee f c = c\<lparr>cl_defaultMaxTransactionFee := Some f\<rparr>"

definition cl_setDefaultRegenerateTransactionId :: "bool \<Rightarrow> 'ch client \<Rightarrow> 'ch client" where
  "cl_setDefaultRegenerateTransactionId b c = c\<lparr>cl_defaultRegenerateTransactionId := b\<rparr>"

definition cl_setMaxQueryPayment :: "int \<Rightarrow> 'ch client \<Rightarrow> 'ch client" where
  "cl_setMaxQueryPayment p c = c\<lparr>cl_maxQueryPayment := p\<rparr>"

definition cl_onNetwork :: "('ch network \<Rightarrow> 'ch network) \<Rightarrow> 'ch client \<Rightarrow> 'ch client" where
  "cl_onNetwork f c = c\<lparr>cl_network := f (cl_network c)\<rparr>"

definition cl_setLedgerId :: "string option \<Rightarrow> 'ch client \<Rightarrow> 'ch client" where
  "cl_setLedgerId l = cl_onNetwork (mn_setLedgerId l)"

definition cl_setMaxNodeAttempts :: "int \<Rightarrow> 'ch client \<Rightarrow> 'ch client" where
  "cl_setMaxNodeAttempts k = cl_onNetwork (mn_setMaxNodeAttempts k)"

definition cl_setMaxNodesPerTransaction :: "int \<Rightarrow> 'ch client \<Rightarrow> 'ch client" where
  "cl_setMaxNodesPerTransaction k = cl_onNetwork (nw_setMaxNodesPerTransaction k)"

definition cl_setNodeMinBackoff :: "rat \<Rightarrow> 'ch client \<Rightarrow> 'ch client" where
  "cl_setNodeMinBackoff b = cl_onNetwork (mn_setMinBackoff b)"

definition cl_setNodeMaxBackoff :: "rat \<Rightarrow> 'ch client \<Rightarrow> 'ch client" where
  "cl_setNodeMaxBackoff b = cl_onNetwork (mn_setMaxBackoff b)"

definition cl_setNodeMinReadmitPeriod :: "rat \<Rightarrow> rat \<Rightarrow> 'ch client \<Rightarrow> 'ch client" where
  "cl_setNodeMinReadmitPeriod now p = cl_onNetwork (mn_setNodeMinReadmitPeriod now p)"

definition cl_setNodeMaxReadmitPeriod :: "rat \<Rightarrow> 'ch client \<Rightarrow> 'ch client" where
  "cl_setNodeMaxReadmitPeriod p = cl_onNetwork (mn_setNodeMaxReadmitPeriod p)"

definition cl_setTransportSecurity ::
  "(string \<Rightarrow> string \<Rightarrow> string option) \<Rightarrow> bool \<Rightarrow> 'ch client \<Rightarrow> unit js \<times> 'ch client" where
  "cl_setTransportSecurity certs b c =
     (case nw_setTransportSecurity certs b (cl_network c) of
        (res, net) \<Rightarrow> (res, c\<lparr>cl_network := net\<rparr>))"

definition cl_setNetworkFromAddressBook ::
  "rat \<Rightarrow> (nat \<Rightarrow> rat) \<Rightarrow> (string option \<times> (nat option \<times> string) list) list \<Rightarrow>
   'ch client \<Rightarrow> unit js \<times> 'ch client" where
  "cl_setNetworkFromAddressBook now rnd book c =
     (case nw_setNetworkFromAddressBook now rnd book (cl_network c) of
        (res, net) \<Rightarrow> (res, c\<lparr>cl_network := net\<rparr>))"

definition cl_close :: "'ch client \<Rightarrow> 'ch client" where
  "cl_close c =
     c\<lparr>cl_network := mn_close (cl_network c), cl_mirrorNetwork := mn_close (cl_mirrorNetwork c),
       cl_isShutdown := True\<rparr>"

subsection \<open>The bounds of the request backoff\<close>

datatype backoff_setting = SetMin "rat option" | SetMax "rat option"

definition cl_set_backoff :: "'ch client \<Rightarrow> backoff_setting \<Rightarrow> 'ch client" where
  "cl_set_backoff c s =
     (case (case s of SetMin b \<Rightarrow> cl_setMinBackoff b c | SetMax b \<Rightarrow> cl_setMaxBackoff b c) of
        Inl _ \<Rightarrow> c | Inr c' \<Rightarrow> c')"

lemma cl_backoff_ordered:
  "cl_minBackoff c \<le> cl_maxBackoff c \<Longrightarrow>
   cl_minBackoff (foldl cl_set_backoff c ss) \<le> cl_maxBackoff (foldl cl_set_backoff c ss)"
proof (induction ss arbitrary: c)
  case Nil
  then show ?case by simp
next
  case (Cons s ss)
  have "cl_minBackoff (cl_set_backoff c s) \<le> cl_maxBackoff (cl_set_backoff c s)"
    using Cons.prems
    by (auto simp: cl_set_backoff_def cl_setMinBackoff_def cl_setMaxBackoff_def
        split: backoff_setting.split option.split)
  with Cons.IH show ?case by simp
qed

end
