(* ===== verification/Execute.thy ===== *)
theory Execute
  imports RoundRobin Client
begin

text \<open>
  The retry loop of \<open>src/src/Executable.js\<close>, with \<open>src/src/grpc/GrpcStatus.js\<close> and
  \<open>GrpcServiceError.js\<close>.  A request of any class is an extension of the record
  \<open>executable\<close>, and its virtual methods are a record of functions.  What an attempt reads
  from outside (clocks, the random number of the node choice, the reply of the node) is
  an explicit input per attempt, and every loop returns the list of what it did.
  Logging is not modelled, nor is the text of the last error in the final message.
\<close>

subsection \<open>State\<close>

record executable =
  ex_maxAttempts :: nat
  ex_nodeIds :: "string rlist"
  ex_signOnDemand :: bool
  ex_minBackoff :: "rat option"
  ex_maxBackoff :: rat
  ex_operator :: "operator option"
  ex_requestTimeout :: "rat option"
  ex_grpcDeadline :: "rat option"

definition ex_new :: executable where
  "ex_new =
     \<lparr>ex_maxAttempts = 10, ex_nodeIds = rl_new, ex_signOnDemand = False,
      ex_minBackoff = None, ex_maxBackoff = 8000, ex_operator = None,
      ex_requestTimeout = None, ex_grpcDeadline = None\<rparr>"

definition ex_getNodeAccountIds ::
  "'m executable_scheme \<Rightarrow> string list option \<times> 'm executable_scheme" where
  "ex_getNodeAccountIds q =
     (if rl_isEmpty (ex_nodeIds q) then (None, q)
      else (Some (rl_list (ex_nodeIds q)), q\<lparr>ex_nodeIds := rl_setLocked (ex_nodeIds q)\<rparr>))"

definition ex_setNodeAccountIds ::
  "string list \<Rightarrow> 'm executable_scheme \<Rightarrow> 'm executable_scheme js" where
  "ex_setNodeAccountIds ids q =
     js_bind (rl_setList (ex_nodeIds q) ids) (\<lambda>l. Inr (q\<lparr>ex_nodeIds := rl_setLocked l\<rparr>))"

definition ex_setMaxAttempts :: "nat \<Rightarrow> 'm executable_scheme \<Rightarrow> 'm executable_scheme" where
  "ex_setMaxAttempts k q = q\<lparr>ex_maxAttempts := k\<rparr>"

definition ex_setGrpcDeadline :: "rat \<Rightarrow> 'm executable_scheme \<Rightarrow> 'm executable_scheme" where
  "ex_setGrpcDeadline d q = q\<lparr>ex_grpcDeadline := Some d\<rparr>"

definition ex_setMinBackoff :: "rat option \<Rightarrow> 'm executable_scheme \<Rightarrow> 'm executable_scheme js" where
  "ex_setMinBackoff b q =
     (case b of
        None \<Rightarrow> Inl MinBackoffNull
      | Some m \<Rightarrow> if ex_maxBackoff q < m then Inl MinBackoffTooLarge
                  else Inr (q\<lparr>ex_minBackoff := Some m\<rparr>))"

definition ex_setMaxBackoff :: "rat option \<Rightarrow> 'm executable_scheme \<Rightarrow> 'm executable_scheme js" where
  "ex_setMaxBackoff b q =
     (case b of
        None \<Rightarrow> Inl MaxBackoffNull
      | Some m \<Rightarrow>
          if (case ex_minBackoff q of None \<Rightarrow> False | Some k \<Rightarrow> m < k) then Inl MaxBackoffTooSmall
          else Inr (q\<lparr>ex_maxBackoff := m\<rparr>))"

definition ex_advanceRequest :: "'m executable_scheme \<Rightarrow> 'm executable_scheme" where
  "ex_advanceRequest q = q\<lparr>ex_nodeIds := snd (rl_advance (ex_nodeIds q))\<rparr>"

definition ex_setOperatorWith :: "operator \<Rightarrow> 'm executable_scheme \<Rightarrow> 'm executable_scheme" where
  "ex_setOperatorWith oper q = q\<lparr>ex_operator := Some oper\<rparr>"

subsection \<open>Replies\<close>

text \<open>
  A call of a node ends with a response or an error: one with a gRPC code and details,
  an \<open>HttpError\<close>, or any other \<open>Error\<close>.
\<close>

datatype failure = GrpcFailure nat string | HttpFailure nat | OtherFailure js_error

datatype 's reply = Response 's | Failure failure

text \<open>A call may never end; otherwise it ends after some time.\<close>

datatype 's outcome = Never | After rat "'s reply"

definition grpc_codes :: "nat list" where
  "grpc_codes = [0..<18]"

abbreviation "grpc_ResourceExhausted \<equiv> 8 :: nat"
abbreviation "grpc_Internal \<equiv> 13 :: nat"
abbreviation "grpc_Unavailable \<equiv> 14 :: nat"
abbreviation "grpc_Timeout \<equiv> 17 :: nat"

definition grpc_fromValue :: "nat \<Rightarrow> nat js" where
  "grpc_fromValue c = (if c \<in> set grpc_codes then Inr c else Inl (BadGrpcStatus c))"

text \<open>
  \<open>RST_STREAM\<close>: the word rst, one character that is no letter or digit, the word
  stream, in any case, with word boundaries on both sides.
\<close>

definition word_char :: "char \<Rightarrow> bool" where
  "word_char c \<longleftrightarrow> is_digit c \<or> (65 \<le> char_code c \<and> char_code c \<le> 90) \<or>
     (97 \<le> char_code c \<and> char_code c \<le> 122) \<or> c = CHR ''_''"

definition lower :: "char \<Rightarrow> nat" where
  "lower c = (if 65 \<le> char_code c \<and> char_code c \<le> 90 then char_code c + 32 else char_code c)"

definition same_word :: "string \<Rightarrow> string \<Rightarrow> bool" where
  "same_word s w \<longleftrightarrow> map lower s = map lower w"

definition rst_here :: "string \<Rightarrow> bool" where
  "rst_here s \<longleftrightarrow>
     same_word (take 3 s) ''rst'' \<and> same_word (take 6 (drop 4 s)) ''stream'' \<and>
     (case drop 3 s of [] \<Rightarrow> False | c # _ \<Rightarrow> \<not> word_char c \<or> c = CHR ''_'') \<and>
     (case drop 10 s of [] \<Rightarrow> True | c # _ \<Rightarrow> \<not> word_char c)"

fun rst_search :: "bool \<Rightarrow> string \<Rightarrow> bool" where
  "rst_search inside [] = False"
| "rst_search inside (c # s) = ((\<not> inside \<and> rst_here (c # s)) \<or> rst_search (word_char c) s)"

definition rst_stream :: "string \<Rightarrow> bool" where
  "rst_stream s = rst_search False s"

text \<open>
  \<open>_shouldRetryExceptionally\<close>, together with the guard of its caller that the error is
  a gRPC or an HTTP error.
\<close>

definition ex_shouldRetryExceptionally :: "failure \<Rightarrow> bool" where
  "ex_shouldRetryExceptionally f =
     (case f of
        GrpcFailure c details \<Rightarrow>
          c = grpc_Timeout \<or> c = grpc_Unavailable \<or> c = grpc_ResourceExhausted \<or>
          (c = grpc_Internal \<and> rst_stream details)
      | HttpFailure _ \<Rightarrow> True
      | OtherFailure _ \<Rightarrow> False)"

definition failure_error :: "failure \<Rightarrow> js_error" where
  "failure_error f =
     (case f of GrpcFailure c d \<Rightarrow> GrpcError c d | HttpFailure c \<Rightarrow> HttpError c
      | OtherFailure e \<Rightarrow> e)"

text \<open>\<open>_fromResponse\<close> throws on a code that no \<open>GrpcStatus\<close> has.\<close>

definition grpc_fromResponse :: "failure \<Rightarrow> failure js" where
  "grpc_fromResponse f =
     (case f of
        GrpcFailure c d \<Rightarrow> js_bind (grpc_fromValue c) (\<lambda>c. Inr (GrpcFailure c d))
      | _ \<Rightarrow> Inr f)"

text \<open>
  \<open>Promise.race\<close> of the call with the deadline timer, if a deadline is set; \<open>None\<close> is a
  race that never ends.  A reply at the very moment of the deadline loses.
\<close>

definition ex_race :: "rat option \<Rightarrow> 's outcome \<Rightarrow> 's reply option" where
  "ex_race deadline out =
     (case out of
        Never \<Rightarrow>
          (case deadline of None \<Rightarrow> None | Some _ \<Rightarrow> Some (Failure (OtherFailure GrpcDeadlineExceeded)))
      | After t r \<Rightarrow>
          (case deadline of None \<Rightarrow> Some r
           | Some d \<Rightarrow> if t < d then Some r else Some (Failure (OtherFailure GrpcDeadlineExceeded))))"

text \<open>\<open>delayForAttempt\<close>: the time waited.\<close>

definition delayForAttempt :: "nat \<Rightarrow> rat \<Rightarrow> rat \<Rightarrow> rat" where
  "delayForAttempt attempt minB maxB = min (of_int \<lfloor>minB * 2 ^ attempt\<rfloor>) maxB"

subsection \<open>The loop\<close>

datatype exec_state = Finished | Retry | Error

record ('q, 'r, 's, 'o) methods =
  mt_makeRequest :: "'q \<Rightarrow> 'r js \<times> 'q"
  mt_shouldRetry :: "'q \<Rightarrow> 'r \<Rightarrow> 's \<Rightarrow> exec_state js \<times> 'q"
  mt_mapResponse :: "'q \<Rightarrow> 's \<Rightarrow> string option \<Rightarrow> 'r \<Rightarrow> 'o js \<times> 'q"
  mt_mapStatusError :: "'q \<Rightarrow> 'r \<Rightarrow> 's \<Rightarrow> js_error \<times> 'q"

record 's env =
  at_now :: rat
  at_random :: rat
  at_health :: rat
  at_outcome :: "'s outcome"
  at_failed :: rat

text \<open>What an attempt did: attempt number, node and request or delay.\<close>

datatype 'r event = Sent nat nat 'r | Skipped nat nat | Delayed nat rat

datatype 'o step = Next | Done "'o js" | Pending

definition ex_pickNode ::
  "'s env \<Rightarrow> 'm executable_scheme \<Rightarrow> 'ch network \<Rightarrow>
   (string option \<times> nat) js \<times> 'm executable_scheme \<times> 'ch network" where
  "ex_pickNode e q net =
     (if rl_locked (ex_nodeIds q) then
        (let key = rl_current (ex_nodeIds q)
         in case mn_getNode (at_now e) (at_random e) key net of
              (Inl err, net) \<Rightarrow> (Inl err, q, net)
            | (Inr None, net) \<Rightarrow>
                (Inl (if key = None then TypeErr else NodeNotRecognized), q, net)
            | (Inr (Some n), net) \<Rightarrow> (Inr (key, n), q, net))
      else
        (case mn_getNode (at_now e) (at_random e) None net of
           (Inl err, net) \<Rightarrow> (Inl err, q, net)
         | (Inr None, net) \<Rightarrow> (Inl TypeErr, q, net)
         | (Inr (Some n), net) \<Rightarrow>
             (let acc = nd_account (nw_node net n)
              in case rl_setList (ex_nodeIds q) [acc] of
                   Inl err \<Rightarrow> (Inl err, q, net)
                 | Inr l \<Rightarrow> (Inr (Some acc, n), q\<lparr>ex_nodeIds := l\<rparr>, net))))"

definition ex_attempt ::
  "('m executable_scheme, 'r, 's, 'o) methods \<Rightarrow> (string \<Rightarrow> string option \<Rightarrow> 'ch) \<Rightarrow> nat \<Rightarrow> rat \<Rightarrow>
   's env \<Rightarrow> nat \<Rightarrow> 'm executable_scheme \<Rightarrow> 'ch network \<Rightarrow>
   'o step \<times> 'm executable_scheme \<times> 'ch network \<times> 'r event list" where
  "ex_attempt m init maxA start e attempt q net =
     (if (case ex_requestTimeout q of None \<Rightarrow> False | Some t \<Rightarrow> start + t \<le> at_now e)
      then (Done (Inl TimeoutExceeded), q, net, [])
      else case ex_pickNode e q net of
        (Inl err, q, net) \<Rightarrow> (Done (Inl err), q, net, [])
      | (Inr (acc, n), q, net) \<Rightarrow>
          (let net = mn_getChannel init n net
           in case mt_makeRequest m q of
             (Inl err, q) \<Rightarrow> (Done (Inl err), q, net, [])
           | (Inr r, q) \<Rightarrow>
               (let q = ex_advanceRequest q
                in if \<not> node_isHealthy (at_health e) (nw_node net n)
                   then (Next, q, net, [Skipped attempt n])
                   else case ex_race (ex_grpcDeadline q) (at_outcome e) of
                     None \<Rightarrow> (Pending, q, net, [Sent attempt n r])
                   | Some (Failure f) \<Rightarrow>
                       (case grpc_fromResponse f of
                          Inl err \<Rightarrow> (Done (Inl err), q, net, [Sent attempt n r])
                        | Inr f \<Rightarrow>
                            (if ex_shouldRetryExceptionally f \<and> attempt \<le> maxA
                             then (Next, q, mn_increaseBackoff (at_failed e) n net, [Sent attempt n r])
                             else (Done (Inl (failure_error f)), q, net, [Sent attempt n r])))
                   | Some (Response s) \<Rightarrow>
                       (let net = mn_decreaseBackoff n net
                        in case mt_shouldRetry m q r s of
                             (Inl err, q) \<Rightarrow> (Done (Inl err), q, net, [Sent attempt n r])
                           | (Inr Retry, q) \<Rightarrow>
                               (Next, q, net, [Sent attempt n r, Delayed attempt
                                  (delayForAttempt attempt
                                     (case ex_minBackoff q of None \<Rightarrow> 0 | Some b \<Rightarrow> b)
                                     (ex_maxBackoff q))])
                           | (Inr Finished, q) \<Rightarrow>
                               (case mt_mapResponse m q s acc r of
                                  (res, q) \<Rightarrow> (Done res, q, net, [Sent attempt n r]))
                           | (Inr Error, q) \<Rightarrow>
                               (case mt_mapStatusError m q r s of
                                  (err, q) \<Rightarrow>
                                    (Done (Inl err), q, net, [Sent attempt n r]))))))"

function ex_loop ::
  "('m executable_scheme, 'r, 's, 'o) methods \<Rightarrow> (string \<Rightarrow> string option \<Rightarrow> 'ch) \<Rightarrow> nat \<Rightarrow> rat \<Rightarrow>
   (nat \<Rightarrow> 's env) \<Rightarrow> nat \<Rightarrow> 'm executable_scheme \<Rightarrow> 'ch network \<Rightarrow>
   'o js option \<times> 'm executable_scheme \<times> 'ch network \<times> 'r event list" where
  "ex_loop m init maxA start env attempt q net =
     (if attempt \<le> maxA then
        (case ex_attempt m init maxA start (env attempt) attempt q net of
           (Next, q, net, evs) \<Rightarrow>
             (case ex_loop m init maxA start env (Suc attempt) q net of
                (res, q, net, evs') \<Rightarrow> (res, q, net, evs @ evs'))
         | (Done res, q, net, evs) \<Rightarrow> (Some res, q, net, evs)
         | (Pending, q, net, evs) \<Rightarrow> (None, q, net, evs))
      else (Some (Inl MaxAttemptsReached), q, net, []))"
  by pat_completeness auto
termination
  by (relation "measure (\<lambda>(m, init, maxA, start, env, attempt, q, net). Suc maxA - attempt)") auto

declare ex_loop.simps [simp del]

text \<open>
  \<open>execute\<close>: \<open>before\<close> is \<open>_beforeExecute\<close>, which may change both the request and the
  client, \<open>start\<close> the time read before the loop.  The maximum backoff of a request is
  never null, so the client's is never taken over.
\<close>

definition ex_execute ::
  "('m executable_scheme, 'r, 's, 'o) methods \<Rightarrow>
   ('ch client \<Rightarrow> 'm executable_scheme \<Rightarrow> unit js \<times> 'ch client \<times> 'm executable_scheme) \<Rightarrow>
   (string \<Rightarrow> string option \<Rightarrow> 'ch) \<Rightarrow> rat option \<Rightarrow> rat \<Rightarrow> (nat \<Rightarrow> 's env) \<Rightarrow>
   'ch client \<Rightarrow> 'm executable_scheme \<Rightarrow>
   'o js option \<times> 'm executable_scheme \<times> 'ch client \<times> 'r event list" where
  "ex_execute m before init timeout start env c q =
     (let q = (if ex_requestTimeout q = None
               then q\<lparr>ex_requestTimeout :=
                        (case timeout of None \<Rightarrow> cl_requestTimeout c | Some t \<Rightarrow> Some t)\<rparr>
               else q)
      in case before c q of
           (Inl err, c, q) \<Rightarrow> (Some (Inl err), q, c, [])
         | (Inr _, c, q) \<Rightarrow>
             (let q = (if ex_minBackoff q = None then q\<lparr>ex_minBackoff := Some (cl_minBackoff c)\<rparr>
                       else q);
                  maxA = (case cl_maxAttempts c of None \<Rightarrow> ex_maxAttempts q | Some k \<Rightarrow> k)
              in case ex_loop m init maxA start env 1 q (cl_network c) of
                   (res, q, net, evs) \<Rightarrow> (res, q, c\<lparr>cl_network := net\<rparr>, evs)))"

subsection \<open>What an attempt can do\<close>

definition ex_timedOut :: "rat \<Rightarrow> 's env \<Rightarrow> 'm executable_scheme \<Rightarrow> bool" where
  "ex_timedOut start e q \<longleftrightarrow>
     (case ex_requestTimeout q of None \<Rightarrow> False | Some t \<Rightarrow> start + t \<le> at_now e)"

text \<open>The attempt that reached the point of sending.\<close>

definition ex_ready ::
  "('m executable_scheme, 'r, 's, 'o) methods \<Rightarrow> (string \<Rightarrow> string option \<Rightarrow> 'ch) \<Rightarrow> rat \<Rightarrow>
   's env \<Rightarrow> 'm executable_scheme \<Rightarrow> 'ch network \<Rightarrow>
   string option \<Rightarrow> nat \<Rightarrow> 'r \<Rightarrow> 'm executable_scheme \<Rightarrow> 'ch network \<Rightarrow> bool" where
  "ex_ready m init start e q net acc n r q3 net2 \<longleftrightarrow>
     \<not> ex_timedOut start e q \<and>
     (\<exists>q1 net1 q2. ex_pickNode e q net = (Inr (acc, n), q1, net1) \<and>
        net2 = mn_getChannel init n net1 \<and> mt_makeRequest m q1 = (Inr r, q2) \<and>
        q3 = ex_advanceRequest q2)"

lemma attempt_cases [consumes 1]:
  assumes "ex_attempt m init maxA start e k q net = (st, q', net', evs)"
  obtains
    (early) res where "st = Done (Inl res)" "evs = []"
      "net' = net \<or> net' = mn_readmitNodes (at_now e) net \<or>
         (\<exists>n. net' = mn_getChannel init n (mn_readmitNodes (at_now e) net))"
  | (skip) acc n r where "ex_ready m init start e q net acc n r q' net'" "st = Next" "evs = [Skipped k n]"
      "\<not> node_isHealthy (at_health e) (nw_node net' n)"
  | (pending) acc n r where "ex_ready m init start e q net acc n r q' net'" "st = Pending"
      "evs = [Sent k n r]" "node_isHealthy (at_health e) (nw_node net' n)"
      "ex_race (ex_grpcDeadline q') (at_outcome e) = None"
  | (retried) acc n r net2 f where "ex_ready m init start e q net acc n r q' net2" "st = Next"
      "evs = [Sent k n r]" "node_isHealthy (at_health e) (nw_node net2 n)"
      "ex_race (ex_grpcDeadline q') (at_outcome e) = Some (Failure f)"
      "ex_shouldRetryExceptionally f" "net' = mn_increaseBackoff (at_failed e) n net2"
  | (failed) acc n r f res where "ex_ready m init start e q net acc n r q' net'" "st = Done (Inl res)"
      "evs = [Sent k n r]" "node_isHealthy (at_health e) (nw_node net' n)"
      "ex_race (ex_grpcDeadline q') (at_outcome e) = Some (Failure f)"
  | (again) acc n r q3 net2 s where "ex_ready m init start e q net acc n r q3 net2" "st = Next"
      "evs = [Sent k n r, Delayed k (delayForAttempt k
          (case ex_minBackoff q' of None \<Rightarrow> 0 | Some b \<Rightarrow> b) (ex_maxBackoff q'))]"
      "node_isHealthy (at_health e) (nw_node net2 n)"
      "ex_race (ex_grpcDeadline q3) (at_outcome e) = Some (Response s)"
      "mt_shouldRetry m q3 r s = (Inr Retry, q')" "net' = mn_decreaseBackoff n net2"
  | (answered) acc n r q3 net2 s res where "ex_ready m init start e q net acc n r q3 net2" "st = Done res"
      "evs = [Sent k n r]" "node_isHealthy (at_health e) (nw_node net2 n)"
      "ex_race (ex_grpcDeadline q3) (at_outcome e) = Some (Response s)"
      "net' = mn_decreaseBackoff n net2"
      "(\<exists>q4. mt_shouldRetry m q3 r s = (Inr Finished, q4) \<and>
          mt_mapResponse m q4 s acc r = (res, q')) \<or> (\<exists>err. res = Inl err)"
proof (cases "ex_timedOut start e q")
  case True
  then show ?thesis
    using assms by (intro early [of TimeoutExceeded]) (simp_all add: ex_attempt_def ex_timedOut_def)
next
  case notimeout: False
  obtain pick q1 net1 where p: "ex_pickNode e q net = (pick, q1, net1)"
    by (cases "ex_pickNode e q net")
  have net1: "net1 = mn_readmitNodes (at_now e) net"
  proof -
    have "snd (mn_getNode (at_now e) (at_random e) k net) = mn_readmitNodes (at_now e) net" for k
      by (rule getNode_net)
    then show ?thesis using p
      by (auto simp: ex_pickNode_def Let_def split: if_splits prod.splits sum.splits option.splits)
         (metis snd_conv)+
  qed
  note run = assms [unfolded ex_attempt_def, folded ex_timedOut_def]
  show ?thesis
  proof (cases pick)
    case (Inl err)
    then show ?thesis using run notimeout p net1 early by auto
  next
    case (Inr an)
    obtain acc n where an: "an = (acc, n)" by (cases an)
    let ?net2 = "mn_getChannel init n net1"
    obtain mk q2 where mk: "mt_makeRequest m q1 = (mk, q2)" by (cases "mt_makeRequest m q1")
    show ?thesis
    proof (cases mk)
      case (Inl err)
      then show ?thesis using run notimeout p Inr an mk net1 early by (auto simp: Let_def)
    next
      case mkr: (Inr r)
      let ?q3 = "ex_advanceRequest q2"
      have ready: "ex_ready m init start e q net acc n r ?q3 ?net2"
        using notimeout p Inr an mk mkr by (auto simp: ex_ready_def)
      show ?thesis
      proof (cases "node_isHealthy (at_health e) (nw_node ?net2 n)")
        case False
        then show ?thesis
          using run notimeout p Inr an mk mkr ready skip by (auto simp: Let_def)
      next
        case healthy: True
        show ?thesis
        proof (cases "ex_race (ex_grpcDeadline ?q3) (at_outcome e)")
          case None
          then show ?thesis
            using run notimeout p Inr an mk mkr ready healthy pending by (auto simp: Let_def)
        next
          case (Some rep)
          show ?thesis
          proof (cases rep)
            case (Failure f)
            show ?thesis
            proof (cases "grpc_fromResponse f")
              case (Inl err)
              then show ?thesis
                using run notimeout p Inr an mk mkr ready healthy Some Failure failed [of acc n r err f]
                by (auto simp: Let_def)
            next
              case (Inr f')
              then have "f' = f"
                by (auto simp: grpc_fromResponse_def grpc_fromValue_def js_bind_eq_Inr
                    split: failure.splits if_splits)
              with Inr have eq: "(if ex_shouldRetryExceptionally f \<and> k \<le> maxA
                  then (Next, ?q3, mn_increaseBackoff (at_failed e) n ?net2, [Sent k n r])
                  else (Done (Inl (failure_error f)), ?q3, ?net2, [Sent k n r])) = (st, q', net', evs)"
                using run notimeout p \<open>pick = Inr an\<close> an mk mkr healthy Some Failure
                by (simp add: Let_def)
              show ?thesis
              proof (cases "ex_shouldRetryExceptionally f \<and> k \<le> maxA")
                case True
                with eq show ?thesis using ready healthy Some Failure
                  by (intro retried [of acc n r ?net2 f]) auto
              next
                case False
                with eq have "st = Done (Inl (failure_error f))" "q' = ?q3" "net' = ?net2"
                    "evs = [Sent k n r]" by auto
                then show ?thesis using ready healthy Some Failure
                  by (intro failed [of acc n r "failure_error f" f]) auto
              qed
            qed
          next
            case (Response s)
            obtain sr q4 where sr: "mt_shouldRetry m ?q3 r s = (sr, q4)"
              by (cases "mt_shouldRetry m ?q3 r s")
            note facts = run notimeout p Inr an mk mkr ready healthy Some Response sr
            show ?thesis
            proof (cases sr)
              case (Inl err)
              then show ?thesis using facts answered [OF ready, of "Inl err" s] by (auto simp: Let_def)
            next
              case srx: (Inr x)
              show ?thesis
              proof (cases x)
                case Finished
                then show ?thesis
                  using facts srx answered [OF ready, of "fst (mt_mapResponse m q4 s acc r)" s]
                  by (auto simp: Let_def split: prod.splits)
              next
                case Retry
                then show ?thesis using facts srx again [OF ready] by (auto simp: Let_def)
              next
                case Error
                then show ?thesis
                  using facts srx answered [OF ready, of "Inl (fst (mt_mapStatusError m q4 r s))" s]
                  by (auto simp: Let_def split: prod.splits)
              qed
            qed
          qed
        qed
      qed
    qed
  qed
qed

subsection \<open>The loop and the pool of nodes\<close>

abbreviation network_calls ::
  "(string \<Rightarrow> string option \<Rightarrow> 'ch) \<Rightarrow> 'ch network \<Rightarrow> nat node_call list \<Rightarrow> 'ch network" where
  "network_calls init \<equiv>
     foldl (run_call mn_getNode (mn_getChannel init) mn_increaseBackoff mn_decreaseBackoff)"

lemma readmit_call:
  "mn_readmitNodes now net = network_calls init net [GetNode now 0 None]"
  by (simp add: getNode_net)

lemma pickNode_net:
  assumes "ex_pickNode e q net = (p, q', net')"
  shows "net' = mn_readmitNodes (at_now e) net"
proof -
  have "snd (mn_getNode (at_now e) (at_random e) k net) = mn_readmitNodes (at_now e) net" for k
    by (rule getNode_net)
  then show ?thesis using assms
    by (auto simp: ex_pickNode_def Let_def split: if_splits prod.splits sum.splits option.splits)
       (metis snd_conv)+
qed

lemma ready_net:
  "ex_ready m init start e q net acc n r q3 net2 \<Longrightarrow>
     net2 = mn_getChannel init n (mn_readmitNodes (at_now e) net)"
  by (auto simp: ex_ready_def dest: pickNode_net)

lemma attempt_calls:
  assumes "ex_attempt m init maxA start e k q net = (st, q', net', evs)"
  shows "\<exists>cs. net' = network_calls init net cs"
  using assms
proof (cases rule: attempt_cases)
  case (early res)
  moreover have "net = network_calls init net []" by simp
  moreover have "mn_getChannel init n (mn_readmitNodes (at_now e) net) =
      network_calls init net [GetNode (at_now e) 0 None, UseChannel n]" for n
    by (simp add: getNode_net)
  ultimately show ?thesis using readmit_call by metis
next
  case (skip acc n r)
  then have "net' = network_calls init net [GetNode (at_now e) 0 None, UseChannel n]"
    by (simp add: getNode_net ready_net)
  then show ?thesis by blast
next
  case (pending acc n r)
  then have "net' = network_calls init net [GetNode (at_now e) 0 None, UseChannel n]"
    by (simp add: getNode_net ready_net)
  then show ?thesis by blast
next
  case (retried acc n r net2 f)
  then have "net' = network_calls init net
      [GetNode (at_now e) 0 None, UseChannel n, Increase (at_failed e) n]"
    using ready_net [OF retried(1)] by (simp add: getNode_net)
  then show ?thesis by blast
next
  case (failed acc n r f res)
  then have "net' = network_calls init net [GetNode (at_now e) 0 None, UseChannel n]"
    by (simp add: getNode_net ready_net)
  then show ?thesis by blast
next
  case (again acc n r q3 net2 s)
  then have "net' = network_calls init net [GetNode (at_now e) 0 None, UseChannel n, Decrease n]"
    using ready_net [OF again(1)] by (simp add: getNode_net)
  then show ?thesis by blast
next
  case (answered acc n r q3 net2 s res)
  then have "net' = network_calls init net [GetNode (at_now e) 0 None, UseChannel n, Decrease n]"
    using ready_net [OF answered(1)] by (simp add: getNode_net)
  then show ?thesis by blast
qed

text \<open>One unfolding of the loop, as an elimination rule.\<close>

lemma loop_cases [consumes 1]:
  assumes "ex_loop m init maxA start env k q net = (res, q', net', evs)"
  obtains
    (exhausted) "maxA < k" "res = Some (Inl MaxAttemptsReached)" "q' = q" "net' = net" "evs = []"
  | (step) q1 net1 evs1 evs2 where "k \<le> maxA"
      "ex_attempt m init maxA start (env k) k q net = (Next, q1, net1, evs1)"
      "ex_loop m init maxA start env (Suc k) q1 net1 = (res, q', net', evs2)" "evs = evs1 @ evs2"
  | (finished) res1 where "k \<le> maxA"
      "ex_attempt m init maxA start (env k) k q net = (Done res1, q', net', evs)" "res = Some res1"
  | (hanging) "k \<le> maxA"
      "ex_attempt m init maxA start (env k) k q net = (Pending, q', net', evs)" "res = None"
proof (cases "k \<le> maxA")
  case False
  then show ?thesis
    using assms exhausted by (subst (asm) ex_loop.simps) auto
next
  case True
  obtain st q1 net1 evs1 where a: "ex_attempt m init maxA start (env k) k q net = (st, q1, net1, evs1)"
    by (metis prod.collapse)
  show ?thesis
  proof (cases st)
    case Next
    obtain res2 q2 net2 evs2 where
      l: "ex_loop m init maxA start env (Suc k) q1 net1 = (res2, q2, net2, evs2)"
      by (metis prod.collapse)
    from assms have "res2 = res \<and> q2 = q' \<and> net2 = net' \<and> evs = evs1 @ evs2"
      using True a Next l by (subst (asm) ex_loop.simps) auto
    then show ?thesis using step True a Next l by simp
  next
    case (Done r)
    from assms have "res = Some r \<and> q1 = q' \<and> net1 = net' \<and> evs = evs1"
      using True a Done by (subst (asm) ex_loop.simps) auto
    then show ?thesis using finished True a Done by simp
  next
    case Pending
    from assms have "res = None \<and> q1 = q' \<and> net1 = net' \<and> evs = evs1"
      using True a Pending by (subst (asm) ex_loop.simps) auto
    then show ?thesis using hanging True a Pending by simp
  qed
qed

text \<open>Induction over the attempts that are left.\<close>

lemma loop_induct [consumes 1, case_names exhausted step finished hanging]:
  assumes "ex_loop m init maxA start env k q net = (res, q', net', evs)"
    and "\<And>k q net. maxA < k \<Longrightarrow> P k q net (Some (Inl MaxAttemptsReached)) q net []"
    and "\<And>k q net q1 net1 evs1 res q' net' evs2. k \<le> maxA \<Longrightarrow>
      ex_attempt m init maxA start (env k) k q net = (Next, q1, net1, evs1) \<Longrightarrow>
      ex_loop m init maxA start env (Suc k) q1 net1 = (res, q', net', evs2) \<Longrightarrow>
      P (Suc k) q1 net1 res q' net' evs2 \<Longrightarrow> P k q net res q' net' (evs1 @ evs2)"
    and "\<And>k q net res q' net' evs. k \<le> maxA \<Longrightarrow>
      ex_attempt m init maxA start (env k) k q net = (Done res, q', net', evs) \<Longrightarrow>
      P k q net (Some res) q' net' evs"
    and "\<And>k q net q' net' evs. k \<le> maxA \<Longrightarrow>
      ex_attempt m init maxA start (env k) k q net = (Pending, q', net', evs) \<Longrightarrow>
      P k q net None q' net' evs"
  shows "P k q net res q' net' evs"
  using assms(1)
proof (induction "Suc maxA - k" arbitrary: k q net evs rule: less_induct)
  case less
  from less.prems show ?case
  proof (cases rule: loop_cases)
    case exhausted
    then show ?thesis using assms(2) by simp
  next
    case (step q1 net1 evs1 evs2)
    have "Suc maxA - Suc k < Suc maxA - k" using step(1) by simp
    then have "P (Suc k) q1 net1 res q' net' evs2" using less.hyps step(3) by blast
    then show ?thesis using assms(3) step by blast
  next
    case (finished res1)
    then show ?thesis using assms(4) by blast
  next
    case hanging
    then show ?thesis using assms(5) by blast
  qed
qed

lemma loop_calls:
  assumes "ex_loop m init maxA start env k q net = (res, q', net', evs)"
  shows "\<exists>cs. net' = network_calls init net cs"
  using assms
proof (induction rule: loop_induct)
  case (exhausted k q net)
  have "net = network_calls init net []" by simp
  then show ?case by blast
next
  case (step k q net q1 net1 evs1 res q' net' evs2)
  from attempt_calls [OF step(2)] step(4) obtain cs cs' where
    "net1 = network_calls init net cs" "net' = network_calls init net1 cs'" by blast
  then have "net' = network_calls init net (cs @ cs')" by simp
  then show ?case by blast
next
  case (finished k q net res q' net' evs)
  from finished(2) show ?case by (rule attempt_calls)
next
  case (hanging k q net q' net' evs)
  from hanging(2) show ?case by (rule attempt_calls)
qed

lemma loop_pool:
  assumes "ex_loop m init maxA start env k q net = (res, q', net', evs)" "pool_inv net"
  shows "pool_inv net' \<and> set (nw_nodes net') = set (nw_nodes net)"
  using loop_calls [OF assms(1)] np.calls_keep_pool [OF assms(2), of init] by auto

subsection \<open>How often and how long\<close>

fun ev_attempt :: "'r event \<Rightarrow> nat" where
  "ev_attempt (Sent k n r) = k"
| "ev_attempt (Skipped k n) = k"
| "ev_attempt (Delayed k d) = k"

fun ev_sent :: "'r event \<Rightarrow> bool" where
  "ev_sent (Sent k n r) = True"
| "ev_sent _ = False"

lemma attempt_events:
  assumes "ex_attempt m init maxA start e k q net = (st, q', net', evs)"
  shows "\<forall>ev \<in> set evs. ev_attempt ev = k" and "length (filter ev_sent evs) \<le> 1"
  using assms by (cases rule: attempt_cases; auto)+

lemma sent_once:
  assumes "length (filter ev_sent evs) \<le> 1" "evs = xs @ Sent i n r # ys"
  shows "\<not> list_ex ev_sent ys"
proof -
  have "filter ev_sent ys = []" using assms by simp
  then show ?thesis by (simp add: filter_empty_conv list_ex_iff)
qed

lemma loop_attempts:
  assumes "ex_loop m init maxA start env k q net = (res, q', net', evs)"
  shows "(\<forall>ev \<in> set evs. k \<le> ev_attempt ev \<and> ev_attempt ev \<le> maxA) \<and>
    sorted_wrt (<) (map ev_attempt (filter ev_sent evs))"
  using assms
proof (induction rule: loop_induct)
  case (exhausted k q net)
  then show ?case by simp
next
  case (step k q net q1 net1 evs1 res q' net' evs2)
  have one: "\<forall>ev \<in> set evs1. ev_attempt ev = k" "length (filter ev_sent evs1) \<le> 1"
    using attempt_events [OF step(2)] by auto
  have "sorted_wrt (<) (map ev_attempt (filter ev_sent evs1))"
    using one(2) by (cases "filter ev_sent evs1") auto
  with one step show ?case by (fastforce simp: sorted_wrt_append)
next
  case (finished k q net res q' net' evs)
  then show ?case using attempt_events [OF finished(2)]
    by (cases "filter ev_sent evs") auto
next
  case (hanging k q net q' net' evs)
  then show ?case using attempt_events [OF hanging(2)]
    by (cases "filter ev_sent evs") auto
qed

lemma sorted_bounded_length:
  assumes "sorted_wrt (<) (xs :: nat list)" "\<forall>x \<in> set xs. a \<le> x \<and> x \<le> b"
  shows "length xs \<le> Suc b - a"
proof -
  have "distinct xs" using assms(1) strict_sorted_iff by blast
  then have "length xs = card (set xs)" by (simp add: distinct_card)
  also have "\<dots> \<le> card {a..b}" using assms(2) by (intro card_mono) auto
  finally show ?thesis by simp
qed

text \<open>
  C13. Bound on the work of a request: whatever the nodes answer, the loop makes at most
  maxAttempts calls, at most one per attempt and in the order of the attempts.
\<close>

theorem execution_is_bounded:
  assumes "ex_loop m init maxA start env 1 q net = (res, q', net', evs)"
  shows "length (filter ev_sent evs) \<le> maxA \<and>
    sorted_wrt (<) (map ev_attempt (filter ev_sent evs)) \<and>
    (\<forall>ev \<in> set evs. 1 \<le> ev_attempt ev \<and> ev_attempt ev \<le> maxA)"
proof -
  note l = loop_attempts [OF assms]
  have "length (map ev_attempt (filter ev_sent evs)) \<le> Suc maxA - 1"
    by (rule sorted_bounded_length) (use l in auto)
  with l show ?thesis by auto
qed

subsection \<open>When a request is sent again and when it succeeds\<close>

definition outcome_retry ::
  "('q, 'r, 's, 'o) methods \<Rightarrow> 'r \<Rightarrow> 's outcome \<Rightarrow> bool" where
  "outcome_retry m r out \<longleftrightarrow>
     (\<exists>t f. out = After t (Failure f) \<and> ex_shouldRetryExceptionally f) \<or>
     (\<exists>t s q q'. out = After t (Response s) \<and> mt_shouldRetry m q r s = (Inr Retry, q'))"

definition outcome_success ::
  "('q, 'r, 's, 'o) methods \<Rightarrow> 'r \<Rightarrow> 's outcome \<Rightarrow> 'q \<Rightarrow> 'o \<Rightarrow> bool" where
  "outcome_success m r out q' x \<longleftrightarrow>
     (\<exists>t s q q4 acc. out = After t (Response s) \<and> mt_shouldRetry m q r s = (Inr Finished, q4) \<and>
        mt_mapResponse m q4 s acc r = (Inr x, q'))"

lemma race_response: "ex_race d out = Some (Response s) \<Longrightarrow> \<exists>t. out = After t (Response s)"
  by (auto simp: ex_race_def split: outcome.splits option.splits if_splits)

lemma race_failure:
  "ex_race d out = Some (Failure f) \<Longrightarrow> ex_shouldRetryExceptionally f \<Longrightarrow>
     \<exists>t. out = After t (Failure f)"
  by (auto simp: ex_race_def ex_shouldRetryExceptionally_def
      split: outcome.splits option.splits if_splits)

lemma attempt_next:
  assumes "ex_attempt m init maxA start e k q net = (Next, q', net', evs)" "Sent k' n r \<in> set evs"
  shows "outcome_retry m r (at_outcome e)"
  using assms(1)
proof (cases rule: attempt_cases)
  case (retried acc n' r' net2 f)
  then show ?thesis using assms(2) race_failure [OF retried(5,6)] by (auto simp: outcome_retry_def)
next
  case (again acc n' r' q3 net2 s)
  then show ?thesis using assms(2) race_response by (fastforce simp: outcome_retry_def)
qed (use assms(2) in auto)

lemma attempt_success:
  assumes "ex_attempt m init maxA start e k q net = (Done (Inr x), q', net', evs)"
  shows "\<exists>n r. evs = [Sent k n r] \<and> outcome_success m r (at_outcome e) q' x"
  using assms
proof (cases rule: attempt_cases)
  case (answered acc n r q3 net2 s res)
  then show ?thesis using race_response [of _ _ s] by (fastforce simp: outcome_success_def)
qed auto

lemma loop_outcomes:
  assumes "ex_loop m init maxA start env k q net = (res, q', net', evs)"
  shows "(\<forall>xs i n r ys. evs = xs @ Sent i n r # ys \<and> list_ex ev_sent ys \<longrightarrow>
      outcome_retry m r (at_outcome (env i))) \<and>
    (\<forall>x. res = Some (Inr x) \<longrightarrow>
      (\<exists>xs i n r. evs = xs @ [Sent i n r] \<and> outcome_success m r (at_outcome (env i)) q' x))"
  using assms
proof (induction rule: loop_induct)
  case (exhausted k q net)
  then show ?case by simp
next
  case (step k q net q1 net1 evs1 res q' net' evs2)
  have first: "outcome_retry m r (at_outcome (env i))" if "Sent i n r \<in> set evs1" for i n r
    using attempt_next [OF step(2) that] attempt_events(1) [OF step(2)] that by auto
  have "outcome_retry m r (at_outcome (env i))"
    if "evs1 @ evs2 = xs @ Sent i n r # ys" "list_ex ev_sent ys" for xs i n r ys
    using that(1)
  proof (cases rule: append_split_at)
    case (left zs)
    then show ?thesis using first [of i n r] by simp
  next
    case (right zs)
    then show ?thesis using step(4) that(2) by blast
  qed
  moreover have "\<exists>xs i n r. evs1 @ evs2 = xs @ [Sent i n r] \<and>
      outcome_success m r (at_outcome (env i)) q' x" if "res = Some (Inr x)" for x
  proof -
    from step(4) that obtain xs i n r where
      "evs2 = xs @ [Sent i n r]" "outcome_success m r (at_outcome (env i)) q' x" by blast
    then show ?thesis by (intro exI [of _ "evs1 @ xs"]) auto
  qed
  ultimately show ?case by blast
next
  case (finished k q net res q' net' evs)
  note last = sent_once [OF attempt_events(2) [OF finished(2)]]
  have "\<exists>xs i n r. evs = xs @ [Sent i n r] \<and>
      outcome_success m r (at_outcome (env i)) q' x" if "Some res = Some (Inr x)" for x
  proof -
    from that have "res = Inr x" by simp
    with attempt_success [of m init maxA start "env k" k q net x q' net' evs] finished(2)
    obtain n r where "evs = [Sent k n r]" "outcome_success m r (at_outcome (env k)) q' x" by auto
    then show ?thesis by (intro exI [of _ "[]"]) auto
  qed
  with last show ?case by blast
next
  case (hanging k q net q' net' evs)
  then show ?case using sent_once [OF attempt_events(2) [OF hanging(2)]] by blast
qed

text \<open>
  C14. A request is sent again only after a retriable outcome, and it succeeds only by its
  last call: every call but the last ended with an error the retry test accepts or with
  a response classified as Retry, and if the loop returns a value, the last call was
  answered by a response classified as Finished, and the value is what that response
  maps to.
\<close>

theorem retries_and_success:
  assumes "ex_loop m init maxA start env k q net = (res, q', net', evs)"
  shows "(\<forall>xs i n r ys. evs = xs @ Sent i n r # ys \<and> list_ex ev_sent ys \<longrightarrow>
      outcome_retry m r (at_outcome (env i))) \<and>
    (\<forall>x. res = Some (Inr x) \<longrightarrow>
      (\<exists>xs i n r. evs = xs @ [Sent i n r] \<and> outcome_success m r (at_outcome (env i)) q' x))"
  by (rule loop_outcomes [OF assms])

subsection \<open>Failed nodes are left alone\<close>

definition nodes_ok :: "'ch network \<Rightarrow> bool" where
  "nodes_ok net \<longleftrightarrow> pool_inv net \<and> (\<forall>n \<in> set (nw_nodes net). backoff_inv (nw_node net n))"

text \<open>How the nodes may move: readmit times grow, the backoff bounds stay.\<close>

definition nodes_le :: "'ch network \<Rightarrow> 'ch network \<Rightarrow> bool" where
  "nodes_le net net' \<longleftrightarrow>
     set (nw_nodes net') = set (nw_nodes net) \<and>
     (\<forall>n \<in> set (nw_nodes net).
        nd_readmitTime (nw_node net n) \<le> nd_readmitTime (nw_node net' n) \<and>
        nd_minBackoff (nw_node net' n) = nd_minBackoff (nw_node net n))"

lemma nodes_le_refl [simp]: "nodes_le net net"
  by (simp add: nodes_le_def)

lemma nodes_le_trans: "nodes_le a b \<Longrightarrow> nodes_le b c \<Longrightarrow> nodes_le a c"
  by (fastforce simp: nodes_le_def)

lemma backoff_inv_cong:
  "nd_minBackoff a = nd_minBackoff b \<Longrightarrow> nd_maxBackoff a = nd_maxBackoff b \<Longrightarrow>
     nd_currentBackoff a = nd_currentBackoff b \<Longrightarrow> backoff_inv a = backoff_inv b"
  by (simp add: backoff_inv_def)

lemma nodes_ok_readmit:
  "nodes_ok net \<Longrightarrow> nodes_ok (mn_readmitNodes now net) \<and> nodes_le net (mn_readmitNodes now net)"
  by (simp add: nodes_ok_def nodes_le_def pool_inv_readmit)

lemma nodes_ok_channel:
  "nodes_ok net \<Longrightarrow> nodes_ok (mn_getChannel init n net) \<and> nodes_le net (mn_getChannel init n net)"
  by (simp add: nodes_ok_def nodes_le_def pool_inv_channel backoff_inv_def)

lemma nodes_ok_length: "nodes_ok net \<Longrightarrow> n \<in> set (nw_nodes net) \<Longrightarrow> n < length (nw_store net)"
  by (simp add: nodes_ok_def pool_inv_def nw_inv_def)

lemma nodes_ok_decrease:
  assumes "nodes_ok net" "n \<in> set (nw_nodes net)"
  shows "nodes_ok (mn_decreaseBackoff n net) \<and> nodes_le net (mn_decreaseBackoff n net)"
proof -
  have "backoff_inv (node_decreaseBackoff (nw_node net n))"
    using assms backoff_inv_step [of "nw_node net n" Answered] by (simp add: nodes_ok_def)
  then show ?thesis
    using assms pool_inv_decrease [of net n] nodes_ok_length [OF assms]
    by (auto simp: nodes_ok_def nodes_le_def) (auto simp: mn_decreaseBackoff_def nw_node_update)
qed

lemma nodes_ok_increase:
  assumes "nodes_ok net" "n \<in> set (nw_nodes net)" "nd_readmitTime (nw_node net n) \<le> now"
  shows "nodes_ok (mn_increaseBackoff now n net) \<and> nodes_le net (mn_increaseBackoff now n net) \<and>
    now + nd_minBackoff (nw_node net n) \<le>
      nd_readmitTime (nw_node (mn_increaseBackoff now n net) n)"
proof -
  let ?nd = "nw_node net n"
  have inv: "backoff_inv ?nd" using assms by (simp add: nodes_ok_def)
  then have inv': "backoff_inv (node_increaseBackoff now ?nd)"
    using backoff_inv_step [of ?nd "Failed now"] by simp
  have "nd_minBackoff ?nd \<le> min (nd_currentBackoff ?nd * 2) (nd_maxBackoff ?nd)" "0 < nd_minBackoff ?nd"
    using inv by (auto simp: backoff_inv_def)
  then have late: "now + nd_minBackoff ?nd \<le> nd_readmitTime (node_increaseBackoff now ?nd)"
      "nd_readmitTime ?nd \<le> nd_readmitTime (node_increaseBackoff now ?nd)"
    using assms(3) by (auto simp: node_increaseBackoff_def Let_def)
  show ?thesis
    using assms pool_inv_increase [of net now n] inv' late nodes_ok_length [OF assms(1,2)]
    by (auto simp: nodes_ok_def nodes_le_def nw_node_update)
qed

lemma ready_member:
  assumes "ex_ready m init start e q net acc n r q3 net2" "nodes_ok net" "is_random (at_random e)"
  shows "nodes_ok net2 \<and> nodes_le net net2 \<and> n \<in> set (nw_nodes net2)"
proof -
  have net2: "net2 = mn_getChannel init n (mn_readmitNodes (at_now e) net)"
    by (rule ready_net [OF assms(1)])
  from assms(1) obtain q1 net1 where p: "ex_pickNode e q net = (Inr (acc, n), q1, net1)"
    by (auto simp: ex_ready_def)
  then obtain k where g: "mn_getNode (at_now e) (at_random e) k net = (Inr (Some n), net1)"
    by (auto simp: ex_pickNode_def Let_def split: if_splits prod.splits sum.splits option.splits)
  have "n \<in> set (nw_nodes net1)"
    using getNode_member [OF _ assms(3) g] assms(2) by (auto simp: nodes_ok_def pool_inv_def)
  moreover have "net1 = mn_readmitNodes (at_now e) net" by (rule pickNode_net [OF p])
  ultimately show ?thesis
    using nodes_ok_readmit [OF assms(2)] nodes_ok_channel nodes_le_trans
    by (fastforce simp: net2)
qed

lemma attempt_nodes:
  assumes "ex_attempt m init maxA start e k q net = (st, q', net', evs)" "nodes_ok net"
    and "is_random (at_random e)" "at_health e \<le> at_failed e"
  shows "nodes_ok net' \<and> nodes_le net net' \<and>
    (\<forall>i n r. Sent i n r \<in> set evs \<longrightarrow> n \<in> set (nw_nodes net) \<and>
       nd_readmitTime (nw_node net n) \<le> at_health e \<and>
       (st = Next \<longrightarrow> (\<exists>t f. at_outcome e = After t (Failure f)) \<longrightarrow>
          at_failed e + nd_minBackoff (nw_node net n) \<le> nd_readmitTime (nw_node net' n)))"
  using assms(1)
proof (cases rule: attempt_cases)
  case (early res)
  then show ?thesis
    using assms(2) nodes_ok_readmit [OF assms(2)] nodes_ok_channel nodes_le_trans by fastforce
next
  case (skip acc n r)
  then show ?thesis using ready_member [OF skip(1) assms(2,3)] by simp
next
  case (pending acc n r)
  then show ?thesis using ready_member [OF pending(1) assms(2,3)]
    by (fastforce simp: nodes_le_def node_isHealthy_def)
next
  case (retried acc n r net2 f)
  note r = ready_member [OF retried(1) assms(2,3)]
  have le: "nd_readmitTime (nw_node net2 n) \<le> at_failed e"
    using retried(4) assms(4) by (simp add: node_isHealthy_def)
  have "nodes_le net net'" using r nodes_ok_increase [of net2 n, OF _ _ le] nodes_le_trans retried(7) by blast
  moreover have "nd_readmitTime (nw_node net n) \<le> at_health e" "n \<in> set (nw_nodes net)"
    "nd_minBackoff (nw_node net2 n) = nd_minBackoff (nw_node net n)"
    using r retried(4) by (fastforce simp: nodes_le_def node_isHealthy_def)+
  ultimately show ?thesis
    using nodes_ok_increase [of net2 n, OF _ _ le] r retried(3,7) by auto
next
  case (failed acc n r f res)
  then show ?thesis using ready_member [OF failed(1) assms(2,3)]
    by (fastforce simp: nodes_le_def node_isHealthy_def)
next
  case (again acc n r q3 net2 s)
  note r = ready_member [OF again(1) assms(2,3)]
  have "nodes_le net net'" using r nodes_ok_decrease [of net2 n] nodes_le_trans again(7) by blast
  moreover have "nd_readmitTime (nw_node net n) \<le> at_health e" "n \<in> set (nw_nodes net)"
    using r again(4) by (fastforce simp: nodes_le_def node_isHealthy_def)+
  ultimately show ?thesis
    using nodes_ok_decrease [of net2 n] r again race_response [OF again(5)] by auto
next
  case (answered acc n r q3 net2 s res)
  note r = ready_member [OF answered(1) assms(2,3)]
  have "nodes_le net net'" using r nodes_ok_decrease [of net2 n] nodes_le_trans answered(6) by blast
  moreover have "nd_readmitTime (nw_node net n) \<le> at_health e" "n \<in> set (nw_nodes net)"
    using r answered(4) by (fastforce simp: nodes_le_def node_isHealthy_def)+
  ultimately show ?thesis
    using nodes_ok_decrease [of net2 n] r answered by auto
qed

lemma loop_readmit:
  assumes "ex_loop m init maxA start env k q net = (res, q', net', evs)" "nodes_ok net"
    and "\<forall>i. is_random (at_random (env i)) \<and> at_health (env i) \<le> at_failed (env i)"
  shows "\<forall>i n r. Sent i n r \<in> set evs \<longrightarrow> n \<in> set (nw_nodes net) \<and>
    nd_readmitTime (nw_node net n) \<le> at_health (env i)"
  using assms(1,2)
proof (induction rule: loop_induct)
  case (exhausted k q net)
  then show ?case by simp
next
  case (step k q net q1 net1 evs1 res q' net' evs2)
  note a = attempt_nodes [OF step(2) step(5)] attempt_events(1) [OF step(2)]
  have ok: "nodes_ok net1" "nodes_le net net1" using a assms(3) by auto
  have "n \<in> set (nw_nodes net) \<and> nd_readmitTime (nw_node net n) \<le> at_health (env i)"
    if s: "Sent i n r \<in> set (evs1 @ evs2)" for i n r
  proof (cases "Sent i n r \<in> set evs1")
    case True
    then have "i = k" using a(2) by auto
    with True show ?thesis using a(1) assms(3) by blast
  next
    case False
    with s have "n \<in> set (nw_nodes net1) \<and> nd_readmitTime (nw_node net1 n) \<le> at_health (env i)"
      using step(4) [OF ok(1)] by auto
    with ok(2) show ?thesis by (fastforce simp: nodes_le_def)
  qed
  then show ?case by blast
next
  case (finished k q net res q' net' evs)
  then show ?case
    using attempt_nodes [OF finished(2,3)] attempt_events(1) [OF finished(2)] assms(3) by fastforce
next
  case (hanging k q net q' net' evs)
  then show ?case
    using attempt_nodes [OF hanging(2,3)] attempt_events(1) [OF hanging(2)] assms(3) by fastforce
qed

definition left_alone :: "(nat \<Rightarrow> 's env) \<Rightarrow> 'ch network \<Rightarrow> 'r event list \<Rightarrow> bool" where
  "left_alone env net evs \<longleftrightarrow>
     (\<forall>xs i n r ys j r'. evs = xs @ Sent i n r # ys \<and> Sent j n r' \<in> set ys \<and>
        (\<exists>t f. at_outcome (env i) = After t (Failure f)) \<longrightarrow>
        at_failed (env i) + nd_minBackoff (nw_node net n) \<le> at_health (env j))"

lemma left_alone_single: "length (filter ev_sent evs) \<le> 1 \<Longrightarrow> left_alone env net evs"
  using sent_once by (fastforce simp: left_alone_def list_ex_iff)

lemma left_alone_step:
  assumes "ex_attempt m init maxA start (env k) k q net = (Next, q1, net1, evs1)" "nodes_ok net"
    and "ex_loop m init maxA start env (Suc k) q1 net1 = (res, q', net', evs2)"
    and "\<forall>i. is_random (at_random (env i)) \<and> at_health (env i) \<le> at_failed (env i)"
    and "left_alone env net1 evs2"
  shows "left_alone env net (evs1 @ evs2)"
  unfolding left_alone_def
proof (intro allI impI, elim conjE)
  note a = attempt_nodes [OF assms(1,2)] attempt_events [OF assms(1)]
  have ok: "nodes_ok net1" "nodes_le net net1" using a assms(4) by auto
  note later = loop_readmit [OF assms(3) ok(1) assms(4)]
  fix xs i n r ys j r'
  assume s: "evs1 @ evs2 = xs @ Sent i n r # ys" "Sent j n r' \<in> set ys"
    "\<exists>t f. at_outcome (env i) = After t (Failure f)"
  from s(1) show "at_failed (env i) + nd_minBackoff (nw_node net n) \<le> at_health (env j)"
  proof (cases rule: append_split_at)
    case (left zs)
    then have "Sent j n r' \<in> set evs2"
      using s(2) sent_once [OF a(3) left(1)] by (auto simp: list_ex_iff)
    then have "nd_readmitTime (nw_node net1 n) \<le> at_health (env j)" using later by blast
    moreover have "i = k" using a(2) left by auto
    then have "at_failed (env i) + nd_minBackoff (nw_node net n) \<le> nd_readmitTime (nw_node net1 n)"
      using a(1) assms(4) s(3) left(1) by (metis in_set_conv_decomp)
    ultimately show ?thesis by linarith
  next
    case (right zs)
    then have "at_failed (env i) + nd_minBackoff (nw_node net1 n) \<le> at_health (env j)"
      using assms(5) s(2,3) unfolding left_alone_def by blast
    moreover have "n \<in> set (nw_nodes net1)" using later right(2) by auto
    ultimately show ?thesis using ok(2) by (auto simp: nodes_le_def)
  qed
qed

text \<open>
  C15. A node that failed is left alone: in the course of one request, after a call to a
  node that ended with a retriable error, no further call goes to that node before its
  minimum backoff has passed since the failure; and the request leaves the pool of nodes
  and its counter in order.
\<close>

theorem failed_node_left_alone:
  assumes "ex_loop m init maxA start env k q net = (res, q', net', evs)" "nodes_ok net"
    and "\<forall>i. is_random (at_random (env i)) \<and> at_health (env i) \<le> at_failed (env i)"
  shows "nw_inv node_getKey net' \<and> nw_counted net' \<and>
    set (nw_nodes net') = set (nw_nodes net) \<and>
    (\<forall>xs i n r ys j r'. evs = xs @ Sent i n r # ys \<and> Sent j n r' \<in> set ys \<and>
       (\<exists>t f. at_outcome (env i) = After t (Failure f)) \<longrightarrow>
       at_failed (env i) + nd_minBackoff (nw_node net n) \<le> at_health (env j))"
proof -
  have "left_alone env net evs"
    using assms(1,2)
  proof (induction rule: loop_induct)
    case (exhausted k q net)
    then show ?case by (simp add: left_alone_def)
  next
    case (step k q net q1 net1 evs1 res q' net' evs2)
    then show ?case
      using left_alone_step [OF step(2) step(5) step(3) assms(3)] attempt_nodes [OF step(2,5)]
        assms(3) by blast
  next
    case (finished k q net res q' net' evs)
    then show ?case by (intro left_alone_single attempt_events(2))
  next
    case (hanging k q net q' net' evs)
    then show ?case by (intro left_alone_single attempt_events(2))
  qed
  with loop_pool [OF assms(1)] assms(2) show ?thesis
    by (simp add: nodes_ok_def pool_inv_def left_alone_def)
qed

subsection \<open>What a class of requests must keep\<close>

text \<open>
  The settings of a request that the loop reads on every attempt.  A class of requests
  keeps them in its virtual methods, and its \<open>_makeRequestAsync\<close> moves the cursor of the
  node list by \<open>adv\<close> (which may depend on signing on demand).
\<close>

definition ex_settings ::
  "'m executable_scheme \<Rightarrow> rat option \<times> rat option \<times> rat option \<times> rat \<times> bool" where
  "ex_settings q =
     (ex_requestTimeout q, ex_grpcDeadline q, ex_minBackoff q, ex_maxBackoff q, ex_signOnDemand q)"

lemma ex_settings_eq:
  "ex_settings q = ex_settings q' \<longleftrightarrow>
     ex_requestTimeout q = ex_requestTimeout q' \<and> ex_grpcDeadline q = ex_grpcDeadline q' \<and>
     ex_minBackoff q = ex_minBackoff q' \<and> ex_maxBackoff q = ex_maxBackoff q' \<and>
     ex_signOnDemand q = ex_signOnDemand q'"
  by (auto simp: ex_settings_def)

lemma ex_settings_advance [simp]: "ex_settings (ex_advanceRequest q) = ex_settings q"
  by (simp add: ex_settings_def ex_advanceRequest_def)

lemma pickNode_settings:
  "ex_pickNode e q net = (p, q', net') \<Longrightarrow> ex_settings q' = ex_settings q"
  by (auto simp: ex_pickNode_def ex_settings_def Let_def
      split: if_splits prod.splits sum.splits option.splits)

definition ex_inTime :: "rat \<Rightarrow> 'm executable_scheme \<Rightarrow> 's env \<Rightarrow> bool" where
  "ex_inTime start q e \<longleftrightarrow>
     (case ex_requestTimeout q of None \<Rightarrow> True | Some t \<Rightarrow> at_now e < start + t)"

fun ev_within :: "(nat \<Rightarrow> 's env) \<Rightarrow> rat \<Rightarrow> 'm executable_scheme \<Rightarrow> 'r event \<Rightarrow> bool" where
  "ev_within env start q (Sent k n r) = ex_inTime start q (env k)"
| "ev_within env start q (Skipped k n) = ex_inTime start q (env k)"
| "ev_within env start q (Delayed k d) = (d = delayForAttempt k
      (case ex_minBackoff q of None \<Rightarrow> 0 | Some b \<Rightarrow> b) (ex_maxBackoff q))"

lemma ev_within_settings:
  assumes "ex_settings q = ex_settings q'"
  shows "ev_within env start q ev = ev_within env start q' ev"
  using assms by (cases ev) (simp_all add: ex_settings_eq ex_inTime_def)

locale request_class =
  fixes m :: "('m executable_scheme, 'r, 's, 'o) methods"
  assumes make_settings: "ex_settings (snd (mt_makeRequest m q)) = ex_settings q"
    and retry_settings: "ex_settings (snd (mt_shouldRetry m q r s)) = ex_settings q"
begin

lemma ready_settings:
  "ex_ready m init start e q net acc n r q3 net2 \<Longrightarrow> ex_settings q3 = ex_settings q"
  using make_settings by (auto simp: ex_ready_def dest!: pickNode_settings) (metis snd_conv)

lemma retry_settings_eq: "mt_shouldRetry m q r s = (x, q') \<Longrightarrow> ex_settings q' = ex_settings q"
  using retry_settings [of q r s] by simp

lemma attempt_settings:
  assumes "ex_attempt m init maxA start e k q net = (Next, q', net', evs)"
  shows "ex_settings q' = ex_settings q"
  using assms
proof (cases rule: attempt_cases)
  case (again acc n r q3 net2 s)
  then show ?thesis using ready_settings retry_settings_eq by metis
qed (auto dest: ready_settings)

lemma attempt_within:
  assumes "ex_attempt m init maxA start (env k) k q net = (st, q', net', evs)"
  shows "\<forall>ev \<in> set evs. ev_within env start q ev"
proof -
  have time: "ex_inTime start q (env k)"
    if "ex_ready m init start (env k) q net acc n r q3 net2" for acc n r q3 net2
    using that by (auto simp: ex_ready_def ex_timedOut_def ex_inTime_def split: option.splits)
  show ?thesis
    using assms
  proof (cases rule: attempt_cases)
    case (again acc n r q3 net2 s)
    then have "ex_settings q' = ex_settings q" using ready_settings retry_settings_eq by metis
    then show ?thesis using again time [OF again(1)] by (auto simp: ex_settings_eq)
  qed (use time in auto)
qed

lemma attempt_hangs:
  assumes "ex_attempt m init maxA start e k q net = (Pending, q', net', evs)"
  shows "ex_grpcDeadline q = None \<and> at_outcome e = Never"
  using assms
proof (cases rule: attempt_cases)
  case (pending acc n r)
  then have "ex_grpcDeadline q' = ex_grpcDeadline q"
    using ready_settings [OF pending(1)] by (simp add: ex_settings_eq)
  then show ?thesis using pending
    by (auto simp: ex_race_def split: outcome.splits option.splits if_splits)
qed auto

lemma loop_within:
  assumes "ex_loop m init maxA start env k q net = (res, q', net', evs)"
  shows "(\<forall>ev \<in> set evs. ev_within env start q ev) \<and>
    (res = None \<longrightarrow> ex_grpcDeadline q = None \<and> (\<exists>i. at_outcome (env i) = Never))"
  using assms
proof (induction rule: loop_induct)
  case (exhausted k q net)
  then show ?case by simp
next
  case (step k q net q1 net1 evs1 res q' net' evs2)
  have same: "ex_settings q1 = ex_settings q" by (rule attempt_settings [OF step(2)])
  then have "ex_grpcDeadline q1 = ex_grpcDeadline q" by (simp add: ex_settings_eq)
  then show ?case
    using step(4) attempt_within [of init maxA start env, OF step(2)]
    by (auto simp: ev_within_settings [OF same])
next
  case (finished k q net res q' net' evs)
  then show ?case using attempt_within [of init maxA start env, OF finished(2)] by blast
next
  case (hanging k q net q' net' evs)
  then show ?case using attempt_within [of init maxA start env, OF hanging(2)] attempt_hangs by blast
qed

end

locale node_order = request_class m
  for m :: "('m executable_scheme, 'r, 's, 'o) methods" +
  fixes adv :: "bool \<Rightarrow> nat"
  assumes make_nodes: "mt_makeRequest m q = (Inr r, q') \<Longrightarrow>
      rl_locked (ex_nodeIds q) \<Longrightarrow>
      ex_nodeIds q' = rl_steps (adv (ex_signOnDemand q)) (ex_nodeIds q)"
    and retry_nodes: "ex_nodeIds (snd (mt_shouldRetry m q r s)) = ex_nodeIds q"
begin

lemma pickNode_known:
  assumes "ex_pickNode e q net = (Inr (acc, n), q1, net1)" "rl_locked (ex_nodeIds q)"
    and "rl_current (ex_nodeIds q) = Some a" "a \<in> set (map fst (nw_network net))"
    and "pool_inv net"
  shows "nd_account (nw_node net n) = a \<and> q1 = q"
proof -
  let ?net = "mn_readmitNodes (at_now e) net"
  have inv: "map_inv node_getKey ?net"
    using pool_inv_readmit [OF assms(5)] by (simp add: pool_inv_def nw_inv_def)
  from assms(4) obtain ns where ns: "map_of (nw_network ?net) a = Some ns"
    by (metis map_of_eq_None_iff option.exhaust readmit_frame(2) set_map)
  have "mn_getNode (at_now e) (at_random e) (Some a) net = (Inr (js_nth ns 0), ?net)"
    using ns by (simp add: mn_getNode_def Let_def)
  moreover have "js_nth ns 0 = Some (hd ns)"
    using map_inv_lookup [OF inv ns] js_nth_0 by blast
  ultimately have "n = hd ns \<and> q1 = q"
    using assms(1-3) by (simp add: ex_pickNode_def)
  then show ?thesis
    using map_inv_lookup [OF inv ns] by (simp add: node_getKey_def)
qed

lemma attempt_order:
  assumes "ex_attempt m init maxA start e k q net = (st, q', net', evs)"
    and "rl_locked (ex_nodeIds q)" "rl_current (ex_nodeIds q) = Some a"
    and "a \<in> set (map fst (nw_network net))" "pool_inv net"
  shows "\<forall>i n r. Sent i n r \<in> set evs \<or> Skipped i n \<in> set evs \<longrightarrow> nd_account (nw_node net n) = a"
    and "st = Next \<longrightarrow> ex_nodeIds q' = rl_steps (Suc (adv (ex_signOnDemand q))) (ex_nodeIds q)"
proof -
  have ready: "nd_account (nw_node net n) = a \<and>
      ex_nodeIds q3 = rl_steps (Suc (adv (ex_signOnDemand q))) (ex_nodeIds q)"
    if r: "ex_ready m init start e q net acc n r q3 net2" for acc n r q3 net2
  proof -
    from r obtain q1 net1 q2 where p: "ex_pickNode e q net = (Inr (acc, n), q1, net1)"
      "mt_makeRequest m q1 = (Inr r, q2)" "q3 = ex_advanceRequest q2"
      by (auto simp: ex_ready_def)
    from pickNode_known [OF p(1) assms(2-5)] p(2,3) make_nodes [of q r q2] assms(2)
    show ?thesis by (auto simp: ex_advanceRequest_def rl_steps_Suc)
  qed
  have nodes: "mt_shouldRetry m q3 r s = (x, q') \<Longrightarrow> ex_nodeIds q' = ex_nodeIds q3" for q3 r s x
    using retry_nodes [of q3 r s] by simp
  from assms(1) show "\<forall>i n r. Sent i n r \<in> set evs \<or> Skipped i n \<in> set evs \<longrightarrow>
      nd_account (nw_node net n) = a"
    by (cases rule: attempt_cases) (auto dest: ready)
  from assms(1) show "st = Next \<longrightarrow>
      ex_nodeIds q' = rl_steps (Suc (adv (ex_signOnDemand q))) (ex_nodeIds q)"
  proof (cases rule: attempt_cases)
    case (again acc n r q3 net2 s)
    then show ?thesis using ready [OF again(1)] nodes [OF again(6)] by simp
  qed (auto dest: ready)
qed

text \<open>The network map and the accounts of the nodes do not change in a loop.\<close>

lemma calls_map:
  "nw_network (network_calls init net cs) = nw_network net \<and>
     (\<forall>n. nd_account (nw_node (network_calls init net cs) n) = nd_account (nw_node net n))"
proof (induction cs arbitrary: net)
  case Nil
  then show ?case by simp
next
  case (Cons c cs)
  then show ?case
    by (cases c) (simp_all add: getNode_net nw_node_update_key mn_decreaseBackoff_def)
qed

lemma loop_order:
  assumes "ex_loop m init maxA start env k q net = (res, q', net', evs)"
    and "rl_locked (ex_nodeIds q)" "rl_inv (ex_nodeIds q)" "rl_list (ex_nodeIds q) = ids" "ids \<noteq> []"
    and "set ids \<subseteq> set (map fst (nw_network net))" "pool_inv net"
  shows "\<forall>i n r. Sent i n r \<in> set evs \<or> Skipped i n \<in> set evs \<longrightarrow>
    Some (nd_account (nw_node net n)) =
      rl_current (rl_steps ((i - k) * Suc (adv (ex_signOnDemand q))) (ex_nodeIds q))"
  using assms
proof (induction rule: loop_induct)
  case (exhausted k q net)
  then show ?case by simp
next
  case (step k q net q1 net1 evs1 res q' net' evs2)
  let ?s = "Suc (adv (ex_signOnDemand q))"
  obtain a where a: "rl_current (ex_nodeIds q) = Some a" "a \<in> set ids"
    using rl_current_steps [OF step(6)] step(7,8) by (metis mod_less_divisor length_greater_0_conv nth_mem rl_steps_0)
  note o = attempt_order [OF step(2) step(5) a(1) _ step(10)]
  have known: "a \<in> set (map fst (nw_network net))" using a(2) step(9) by blast
  have q1: "ex_nodeIds q1 = rl_steps ?s (ex_nodeIds q)" using o(2) [OF known] by simp
  have sod: "ex_signOnDemand q1 = ex_signOnDemand q"
    using attempt_settings [OF step(2)] by (simp add: ex_settings_eq)
  from attempt_calls [OF step(2)] obtain cs where cs: "net1 = network_calls init net cs" by blast
  have frame: "nw_network net1 = nw_network net"
      "\<And>n. nd_account (nw_node net1 n) = nd_account (nw_node net n)"
    using calls_map [of init net cs] cs by auto
  have inv1: "rl_inv (ex_nodeIds q1)"
    unfolding q1 by (rule rl_inv_steps [OF step(6)])
  have pool1: "pool_inv net1" using np.calls_keep_pool [OF step(10), of init cs] cs by simp
  have IH: "\<forall>i n r. Sent i n r \<in> set evs2 \<or> Skipped i n \<in> set evs2 \<longrightarrow>
      Some (nd_account (nw_node net1 n)) =
        rl_current (rl_steps ((i - Suc k) * Suc (adv (ex_signOnDemand q1))) (ex_nodeIds q1))"
    by (rule step(4)) (use step q1 inv1 pool1 frame in auto)
  have later: "Suc k \<le> ev_attempt ev" if "ev \<in> set evs2" for ev
    using loop_attempts [OF step(3)] that by blast
  show ?case
  proof (intro allI impI)
    fix i n r assume ev: "Sent i n r \<in> set (evs1 @ evs2) \<or> Skipped i n \<in> set (evs1 @ evs2)"
    show "Some (nd_account (nw_node net n)) =
        rl_current (rl_steps ((i - k) * ?s) (ex_nodeIds q))"
    proof (cases "Sent i n r \<in> set evs1 \<or> Skipped i n \<in> set evs1")
      case True
      then have "i = k" using attempt_events(1) [OF step(2)] by fastforce
      moreover have "nd_account (nw_node net n) = a" using o(1) [OF known] True by blast
      ultimately show ?thesis using a(1) by simp
    next
      case False
      then have e2: "Sent i n r \<in> set evs2 \<or> Skipped i n \<in> set evs2" using ev by auto
      then have "Suc k \<le> i" using later by fastforce
      then have "i - k = Suc (i - Suc k)" by simp
      then have "(i - k) * ?s = (i - Suc k) * ?s + ?s" by simp
      then have "rl_steps ((i - k) * ?s) (ex_nodeIds q) =
          rl_steps ((i - Suc k) * ?s) (rl_steps ?s (ex_nodeIds q))"
        by (simp only: rl_steps_add)
      then show ?thesis using IH e2 frame(2) unfolding q1 sod by metis
    qed
  qed
next
  case (finished k q net res q' net' evs)
  obtain a where a: "rl_current (ex_nodeIds q) = Some a" "a \<in> set ids"
    using rl_current_steps [OF finished(4)] finished(5,6)
    by (metis mod_less_divisor length_greater_0_conv nth_mem rl_steps_0)
  have "a \<in> set (map fst (nw_network net))" using a(2) finished(7) by blast
  with attempt_order(1) [OF finished(2,3) a(1) _ finished(8)] attempt_events(1) [OF finished(2)] a(1)
  show ?case by fastforce
next
  case (hanging k q net q' net' evs)
  obtain a where a: "rl_current (ex_nodeIds q) = Some a" "a \<in> set ids"
    using rl_current_steps [OF hanging(4)] hanging(5,6)
    by (metis mod_less_divisor length_greater_0_conv nth_mem rl_steps_0)
  have "a \<in> set (map fst (nw_network net))" using a(2) hanging(7) by blast
  with attempt_order(1) [OF hanging(2,3) a(1) _ hanging(8)] attempt_events(1) [OF hanging(2)] a(1)
  show ?case by fastforce
qed

end

text \<open>
  A class of requests that addresses each request to the node it is sent to: \<open>inv\<close> is an
  invariant of the request object, \<open>sent a r\<close> says that the request \<open>r\<close> is meant for the
  node account \<open>a\<close>.
\<close>

locale addressed_requests = node_order m adv
  for m :: "('m executable_scheme, 'r, 's, 'o) methods" and adv +
  fixes inv :: "'m executable_scheme \<Rightarrow> bool" and sent :: "string \<Rightarrow> 'r \<Rightarrow> bool"
  assumes make_sent: "inv q \<Longrightarrow> rl_locked (ex_nodeIds q) \<Longrightarrow> mt_makeRequest m q = (Inr r, q') \<Longrightarrow>
      rl_current (ex_nodeIds q) = Some a \<Longrightarrow> sent a r \<and> inv q'"
    and advance_inv: "inv q \<Longrightarrow> inv (ex_advanceRequest q)"
    and retry_inv: "inv q \<Longrightarrow> inv (snd (mt_shouldRetry m q r s))"
begin

lemma ready_sent:
  assumes "ex_ready m init start e q net acc n r q3 net2" "inv q"
    and "rl_locked (ex_nodeIds q)" "rl_current (ex_nodeIds q) = Some a"
    and "a \<in> set (map fst (nw_network net))" "pool_inv net"
  shows "nd_account (nw_node net n) = a \<and> sent a r \<and> inv q3"
proof -
  from assms(1) obtain q1 net1 q2 where p: "ex_pickNode e q net = (Inr (acc, n), q1, net1)"
    "mt_makeRequest m q1 = (Inr r, q2)" "q3 = ex_advanceRequest q2"
    by (auto simp: ex_ready_def)
  from pickNode_known [OF p(1) assms(3-6)] have n: "nd_account (nw_node net n) = a" "q1 = q" by auto
  with make_sent [OF assms(2,3) _ assms(4), of r q2] p(2,3) advance_inv [of q2] show ?thesis by simp
qed

lemma attempt_sent:
  assumes "ex_attempt m init maxA start e k q net = (st, q', net', evs)" "inv q"
    and "rl_locked (ex_nodeIds q)" "rl_current (ex_nodeIds q) = Some a"
    and "a \<in> set (map fst (nw_network net))" "pool_inv net"
  shows "(\<forall>i n r. Sent i n r \<in> set evs \<longrightarrow> sent (nd_account (nw_node net n)) r) \<and> (st = Next \<longrightarrow> inv q')"
  using assms(1)
proof (cases rule: attempt_cases)
  case (again acc n r q3 net2 s)
  have "inv q'" using retry_inv [of q3 r s] ready_sent [OF again(1) assms(2-6)] again(6) by simp
  then show ?thesis using again ready_sent [OF again(1) assms(2-6)] by auto
qed (auto dest: ready_sent [OF _ assms(2-6)])

lemma loop_sent:
  assumes "ex_loop m init maxA start env k q net = (res, q', net', evs)" "inv q"
    and "rl_locked (ex_nodeIds q)" "rl_inv (ex_nodeIds q)" "rl_list (ex_nodeIds q) = ids" "ids \<noteq> []"
    and "set ids \<subseteq> set (map fst (nw_network net))" "pool_inv net"
  shows "\<forall>i n r. Sent i n r \<in> set evs \<longrightarrow> sent (nd_account (nw_node net n)) r"
  using assms
proof (induction rule: loop_induct)
  case (step k q net q1 net1 evs1 res q' net' evs2)
  obtain a where a: "rl_current (ex_nodeIds q) = Some a" "a \<in> set ids"
    using rl_current_in [OF step(7)] step(8,9) by auto
  then have known: "a \<in> set (map fst (nw_network net))" using step(10) by blast
  have q1: "ex_nodeIds q1 = rl_steps (Suc (adv (ex_signOnDemand q))) (ex_nodeIds q)"
    using attempt_order(2) [OF step(2) step(6) a(1) known step(11)] by simp
  obtain cs where cs: "net1 = network_calls init net cs" using attempt_calls [OF step(2)] by blast
  have frame: "nw_network net1 = nw_network net"
      "\<And>n. nd_account (nw_node net1 n) = nd_account (nw_node net n)"
    using calls_map [of init net cs] cs by auto
  have "\<forall>i n r. Sent i n r \<in> set evs2 \<longrightarrow> sent (nd_account (nw_node net1 n)) r"
    using step q1 frame(1) rl_inv_steps [OF step(7)] np.calls_keep_pool [OF step(11), of init cs] cs
      attempt_sent [OF step(2,5,6) a(1) known step(11)]
    by (intro step(4)) auto
  then show ?case
    using attempt_sent [OF step(2,5,6) a(1) known step(11)] frame(2) by auto
next
  case (finished k q net res q' net' evs)
  obtain a where a: "rl_current (ex_nodeIds q) = Some a" "a \<in> set ids"
    using rl_current_in [OF finished(5)] finished(6,7) by auto
  then show ?case
    using attempt_sent [OF finished(2-4) a(1) _ finished(9)] finished(8) by blast
next
  case (hanging k q net q' net' evs)
  obtain a where a: "rl_current (ex_nodeIds q) = Some a" "a \<in> set ids"
    using rl_current_in [OF hanging(5)] hanging(6,7) by auto
  then show ?case
    using attempt_sent [OF hanging(2-4) a(1) _ hanging(9)] hanging(8) by blast
qed simp

end

subsection \<open>Properties that a run keeps\<close>

text \<open>A property that the methods of a class and the choice of nodes keep is kept by a run.\<close>

definition kept_by ::
  "('m executable_scheme, 'r, 's, 'o) methods \<Rightarrow> ('m executable_scheme \<Rightarrow> bool) \<Rightarrow> bool" where
  "kept_by m P \<longleftrightarrow>
     (\<forall>q. P q \<longrightarrow> (\<forall>l. P (q\<lparr>ex_nodeIds := l\<rparr>)) \<and> P (snd (mt_makeRequest m q)) \<and>
       (\<forall>r s. P (snd (mt_shouldRetry m q r s))) \<and> (\<forall>s a r. P (snd (mt_mapResponse m q s a r))) \<and>
       (\<forall>r s. P (snd (mt_mapStatusError m q r s))))"

lemma attempt_keeps:
  assumes "kept_by m P" "P q" "ex_attempt m init maxA start e k q net = (st, q', net', evs)"
  shows "P q'"
proof -
  note keep = assms(1) [unfolded kept_by_def, rule_format]
  obtain pick q1 net1 where p: "ex_pickNode e q net = (pick, q1, net1)"
    by (cases "ex_pickNode e q net")
  have q1: "P q1"
    using p assms(2) keep by (auto simp: ex_pickNode_def Let_def split: if_splits prod.splits sum.splits option.splits)
  show ?thesis
  proof (cases "ex_timedOut start e q")
    case True
    then show ?thesis using assms(2,3) by (simp add: ex_attempt_def ex_timedOut_def)
  next
    case notime: False
    note run = assms(3) [unfolded ex_attempt_def, folded ex_timedOut_def]
    show ?thesis
    proof (cases pick)
      case (Inl err)
      then show ?thesis using run notime p q1 by simp
    next
      case (Inr an)
      obtain acc n where an: "an = (acc, n)" by (cases an)
      let ?net2 = "mn_getChannel init n net1"
      obtain mk q2 where mk: "mt_makeRequest m q1 = (mk, q2)" by (cases "mt_makeRequest m q1")
      have q2: "P q2" "P (ex_advanceRequest q2)"
        using keep [OF q1] mk keep by (auto simp: ex_advanceRequest_def dest: sym)
      show ?thesis
      proof (cases mk)
        case (Inl err)
        then show ?thesis using run notime p Inr an mk q2 by (simp add: Let_def)
      next
        case mkr: (Inr r)
        let ?q3 = "ex_advanceRequest q2"
        note facts = run notime p Inr an mk mkr
        show ?thesis
        proof (cases "\<exists>s. node_isHealthy (at_health e) (nw_node ?net2 n) \<and>
            ex_race (ex_grpcDeadline ?q3) (at_outcome e) = Some (Response s)")
          case True
          then obtain s where s: "node_isHealthy (at_health e) (nw_node ?net2 n)"
            "ex_race (ex_grpcDeadline ?q3) (at_outcome e) = Some (Response s)" by blast
          obtain sr q4 where sr: "mt_shouldRetry m ?q3 r s = (sr, q4)" by (cases "mt_shouldRetry m ?q3 r s")
          have q4: "P q4" using keep [OF q2(2)] sr by (metis snd_conv)
          have "q' = q4 \<or> q' = snd (mt_mapResponse m q4 s acc r) \<or> q' = snd (mt_mapStatusError m q4 r s)"
            using facts s sr by (auto simp: Let_def split: sum.splits exec_state.splits prod.splits)
          then show ?thesis using q4 keep [OF q4] by auto
        next
          case False
          then have "q' = ?q3"
            using facts by (auto simp: Let_def split: if_splits option.splits reply.splits sum.splits)
          then show ?thesis using q2 by simp
        qed
      qed
    qed
  qed
qed

lemma loop_keeps:
  assumes "kept_by m P" "P q" "ex_loop m init maxA start env k q net = (res, q', net', evs)"
  shows "P q'"
  using assms(3,2)
proof (induction rule: loop_induct)
  case (step k q net q1 net1 evs1 res q' net' evs2)
  then show ?case using attempt_keeps [OF assms(1)] by blast
qed (auto dest: attempt_keeps [OF assms(1)])

text \<open>One execution is the preparation and, when that succeeds, one run of the loop.\<close>

lemma execute_cases [consumes 1]:
  assumes "ex_execute m before init timeout start env c q = (res, q', c', evs)"
  obtains
    (failed) t err c1 where "before c (q\<lparr>ex_requestTimeout := t\<rparr>) = (Inl err, c1, q')"
      "c' = c1" "res = Some (Inl err)" "evs = []"
  | (ran) t c1 q1 b maxA net where "before c (q\<lparr>ex_requestTimeout := t\<rparr>) = (Inr (), c1, q1)"
      "ex_loop m init maxA start env 1 (q1\<lparr>ex_minBackoff := b\<rparr>) (cl_network c1) = (res, q', net, evs)"
      "c' = c1\<lparr>cl_network := net\<rparr>"
      "maxA = (case cl_maxAttempts c1 of None \<Rightarrow> ex_maxAttempts q1 | Some k \<Rightarrow> k)"
proof -
  define t where "t = (if ex_requestTimeout q = None
      then (case timeout of None \<Rightarrow> cl_requestTimeout c | Some t \<Rightarrow> Some t) else ex_requestTimeout q)"
  have t: "(if ex_requestTimeout q = None
               then q\<lparr>ex_requestTimeout :=
                        (case timeout of None \<Rightarrow> cl_requestTimeout c | Some t \<Rightarrow> Some t)\<rparr>
               else q) = q\<lparr>ex_requestTimeout := t\<rparr>"
    by (simp add: t_def)
  obtain r c1 q1 where b: "before c (q\<lparr>ex_requestTimeout := t\<rparr>) = (r, c1, q1)" by (metis prod_cases3)
  show thesis
  proof (cases r)
    case (Inl e)
    then show thesis using assms b failed unfolding ex_execute_def t by simp
  next
    case (Inr u)
    define q2 where "q2 = (if ex_minBackoff q1 = None then q1\<lparr>ex_minBackoff := Some (cl_minBackoff c1)\<rparr> else q1)"
    have q2: "\<exists>b. q2 = q1\<lparr>ex_minBackoff := b\<rparr>"
      by (cases "ex_minBackoff q1 = None") (auto simp: q2_def intro: exI [of _ "ex_minBackoff q1"])
    define maxA where "maxA = (case cl_maxAttempts c1 of None \<Rightarrow> ex_maxAttempts q2 | Some k \<Rightarrow> k)"
    obtain res2 q3 net evs2 where l: "ex_loop m init maxA start env 1 q2 (cl_network c1) = (res2, q3, net, evs2)"
      by (metis prod_cases4)
    have "(res2, q3, c1\<lparr>cl_network := net\<rparr>, evs2) = (res, q', c', evs)"
      using assms
      unfolding ex_execute_def t Let_def b Inr prod.case sum.case q2_def [symmetric] maxA_def [symmetric] l .
    then have res: "res2 = res" "q3 = q'" "c' = c1\<lparr>cl_network := net\<rparr>" "evs2 = evs" by simp_all
    have mx: "maxA = (case cl_maxAttempts c1 of None \<Rightarrow> ex_maxAttempts q1 | Some k \<Rightarrow> k)"
      by (simp add: maxA_def q2_def split: option.split)
    obtain bo where bo: "q2 = q1\<lparr>ex_minBackoff := bo\<rparr>" using q2 by blast
    have before: "before c (q\<lparr>ex_requestTimeout := t\<rparr>) = (Inr (), c1, q1)" using b Inr by simp
    show thesis by (rule ran [OF before l [unfolded bo res] res(3) mx])
  qed
qed

subsection \<open>The retry test on gRPC errors\<close>

definition rst_match :: "string \<Rightarrow> bool" where
  "rst_match s \<longleftrightarrow>
     (\<exists>a c b post. s = a @ c # b @ post \<and> same_word a ''rst'' \<and> same_word b ''stream'' \<and>
        (\<not> word_char c \<or> c = CHR ''_'') \<and> (post = [] \<or> \<not> word_char (hd post)))"

lemma same_word_length: "same_word s w \<Longrightarrow> length s = length w"
  unfolding same_word_def by (metis length_map)

lemma rst_here_match: "rst_here s = rst_match s"
proof
  assume h: "rst_here s"
  have len: "length (take 3 s) = 3" "length (take 6 (drop 4 s)) = 6"
    using h same_word_length by (fastforce simp: rst_here_def)+
  then have l: "10 \<le> length s" by simp
  have "s = take 3 s @ s ! 3 # drop 4 s" using id_take_nth_drop [of 3 s] l by simp
  moreover have "drop 4 s = take 6 (drop 4 s) @ drop 10 s"
    using append_take_drop_id [of 6 "drop 4 s"] by simp
  ultimately have "s = take 3 s @ s ! 3 # take 6 (drop 4 s) @ drop 10 s" by metis
  moreover have "drop 3 s = s ! 3 # drop 4 s" using l by (simp add: Cons_nth_drop_Suc eval_nat_numeral)
  ultimately show "rst_match s"
    using h unfolding rst_here_def rst_match_def
    by (intro exI [of _ "take 3 s"] exI [of _ "s ! 3"] exI [of _ "take 6 (drop 4 s)"]
        exI [of _ "drop 10 s"]) (cases "drop 10 s"; simp)
next
  assume "rst_match s"
  then obtain a c b post where s: "s = a @ c # b @ post" and w: "same_word a ''rst''" "same_word b ''stream''"
    and c: "\<not> word_char c \<or> c = CHR ''_''" "post = [] \<or> \<not> word_char (hd post)"
    by (auto simp: rst_match_def)
  have len: "length a = 3" "length b = 6" using w same_word_length by fastforce+
  have "take 3 s = a" "drop 3 s = c # b @ post" using s len by auto
  moreover have "drop 4 s = b @ post" "drop 10 s = post"
    using s len by (auto simp: drop_Cons')
  ultimately show "rst_here s"
    using w c len by (cases post) (auto simp: rst_here_def)
qed

lemma rst_search_match:
  "rst_search inside s \<longleftrightarrow>
     (\<exists>pre t. s = pre @ t \<and> t \<noteq> [] \<and> rst_match t \<and>
        (if pre = [] then \<not> inside else \<not> word_char (last pre)))"
proof (induction s arbitrary: inside)
  case Nil
  then show ?case by simp
next
  case (Cons c s)
  have "(\<exists>pre t. c # s = pre @ t \<and> t \<noteq> [] \<and> rst_match t \<and>
        (if pre = [] then \<not> inside else \<not> word_char (last pre))) \<longleftrightarrow>
    (\<not> inside \<and> rst_match (c # s)) \<or>
    (\<exists>pre t. s = pre @ t \<and> t \<noteq> [] \<and> rst_match t \<and>
        (if pre = [] then \<not> word_char c else \<not> word_char (last pre)))"
    (is "?L \<longleftrightarrow> ?A \<or> ?B")
  proof
    assume ?L
    then obtain pre t where p: "c # s = pre @ t" "t \<noteq> []" "rst_match t"
      "if pre = [] then \<not> inside else \<not> word_char (last pre)" by blast
    show "?A \<or> ?B"
    proof (cases pre)
      case Nil
      then have ?A using p by simp
      then show ?thesis ..
    next
      case (Cons x pre')
      then have "s = pre' @ t \<and> t \<noteq> [] \<and> rst_match t \<and>
          (if pre' = [] then \<not> word_char c else \<not> word_char (last pre'))"
        using p by auto
      then have ?B by (intro exI)
      then show ?thesis ..
    qed
  next
    assume "?A \<or> ?B"
    then show ?L
    proof
      assume ?A
      then have "c # s = [] @ (c # s) \<and> c # s \<noteq> [] \<and> rst_match (c # s) \<and>
          (if ([] :: string) = [] then \<not> inside else \<not> word_char (last []))"
        by simp
      then show ?L by (intro exI)
    next
      assume ?B
      then obtain pre t where "s = pre @ t" "t \<noteq> []" "rst_match t"
        "if pre = [] then \<not> word_char c else \<not> word_char (last pre)" by blast
      then have "c # s = (c # pre) @ t \<and> t \<noteq> [] \<and> rst_match t \<and>
          (if c # pre = [] then \<not> inside else \<not> word_char (last (c # pre)))"
        by simp
      then show ?L by (intro exI)
    qed
  qed
  then show ?case using Cons.IH [of "word_char c"] by (simp add: rst_here_match)
qed

text \<open>
  The retry test on errors: it accepts exactly the gRPC codes Timeout (17),
  Unavailable (14) and ResourceExhausted (8), Internal (13) when the details contain the
  words rst and stream in any case, separated by one character that is no letter or
  digit and on word boundaries, and every HTTP error.
\<close>

theorem retriable_errors:
  "ex_shouldRetryExceptionally f \<longleftrightarrow>
     (\<exists>d. f = GrpcFailure 17 d \<or> f = GrpcFailure 14 d \<or> f = GrpcFailure 8 d) \<or>
     (\<exists>d. f = GrpcFailure 13 d \<and>
        (\<exists>pre a c b post. d = pre @ a @ c # b @ post \<and>
           same_word a ''rst'' \<and> same_word b ''stream'' \<and> (\<not> word_char c \<or> c = CHR ''_'') \<and>
           (pre = [] \<or> \<not> word_char (last pre)) \<and> (post = [] \<or> \<not> word_char (hd post)))) \<or>
     (\<exists>c. f = HttpFailure c)"
proof -
  have "rst_stream d \<longleftrightarrow> (\<exists>pre a c b post. d = pre @ a @ c # b @ post \<and>
           same_word a ''rst'' \<and> same_word b ''stream'' \<and> (\<not> word_char c \<or> c = CHR ''_'') \<and>
           (pre = [] \<or> \<not> word_char (last pre)) \<and> (post = [] \<or> \<not> word_char (hd post)))" for d
  proof -
    have "rst_stream d \<longleftrightarrow> (\<exists>pre t. d = pre @ t \<and> rst_match t \<and>
        (pre = [] \<or> \<not> word_char (last pre)))" (is "_ \<longleftrightarrow> ?R")
    proof -
      have "t \<noteq> []" if "rst_match t" for t using that by (auto simp: rst_match_def)
      then show ?thesis unfolding rst_stream_def rst_search_match by (metis (full_types))
    qed
    also have "?R \<longleftrightarrow> (\<exists>pre a c b post. d = pre @ a @ c # b @ post \<and>
           same_word a ''rst'' \<and> same_word b ''stream'' \<and> (\<not> word_char c \<or> c = CHR ''_'') \<and>
           (pre = [] \<or> \<not> word_char (last pre)) \<and> (post = [] \<or> \<not> word_char (hd post)))"
      unfolding rst_match_def by blast
    finally show ?thesis .
  qed
  then show ?thesis
    by (cases f) (auto simp: ex_shouldRetryExceptionally_def)
qed

theorem retriable_errors_witness:
  "ex_shouldRetryExceptionally (GrpcFailure 13 ''code: RST_STREAM!'')"
proof -
  have "same_word ''RST'' ''rst'' \<and> same_word ''STREAM'' ''stream'' \<and>
      \<not> word_char (last ''code: '') \<and> \<not> word_char (hd ''!'')"
    by (simp add: same_word_def lower_def char_code_def word_char_def is_digit_def)
  then have "\<exists>pre a c b post. ''code: RST_STREAM!'' = pre @ a @ c # b @ post \<and>
      same_word a ''rst'' \<and> same_word b ''stream'' \<and> (\<not> word_char c \<or> c = CHR ''_'') \<and>
      (pre = [] \<or> \<not> word_char (last pre)) \<and> (post = [] \<or> \<not> word_char (hd post))"
    by (intro exI [of _ "''code: ''"] exI [of _ "''RST''"] exI [of _ "CHR ''_''"]
        exI [of _ "''STREAM''"] exI [of _ "''!''"]) simp
  then show ?thesis by (subst retriable_errors) simp
qed

subsection \<open>Unknown nodes\<close>

text \<open>
  A node account the network does not know is not rejected: with a locked node list
  whose current account is not in the network map, the loop picks a node of another
  account (the error "NodeAccountId not recognized" cannot occur), while it goes on to
  treat the response as one of the account asked for.
\<close>

theorem unknown_account_goes_elsewhere:
  assumes "nw_inv node_getKey net" "is_random (at_random e)"
    and "rl_locked (ex_nodeIds q)" "rl_current (ex_nodeIds q) = Some a"
    and "a \<notin> set (map fst (nw_network net))" "nw_network net \<noteq> []"
  shows "\<exists>n net'. ex_pickNode e q net = (Inr (Some a, n), q, net') \<and>
    n \<in> set (nw_nodes net) \<and> nd_account (nw_node net n) \<noteq> a"
proof -
  let ?net = "mn_readmitNodes (at_now e) net" and ?ks = "map fst (nw_network net)"
  let ?k = "?ks ! random_index (at_random e) (length ?ks)"
  have inv: "map_inv node_getKey ?net"
    using readmit_inv [OF assms(1)] by (simp add: nw_inv_def)
  have i: "random_index (at_random e) (length ?ks) < length ?ks"
    using assms(2,6) by (intro random_index_less) auto
  then have k: "?k \<in> set ?ks" by (rule nth_mem)
  then obtain ns where ns: "map_of (nw_network ?net) ?k = Some ns"
    by (metis map_of_eq_None_iff option.exhaust readmit_frame(2) set_map)
  have none: "map_of (nw_network ?net) a = None"
    using assms(5) by (simp add: map_of_eq_None_iff)
  note l = map_inv_lookup [OF inv ns]
  have "mn_getNode (at_now e) (at_random e) (Some a) net = (Inr (js_nth ns 0), ?net)"
    using none ns i by (simp add: mn_getNode_def Let_def)
  then have "ex_pickNode e q net = (Inr (Some a, hd ns), q, ?net)"
    using assms(3,4) l js_nth_0 [of ns] by (simp add: ex_pickNode_def)
  moreover have "nd_account (nw_node net (hd ns)) \<noteq> a"
    using l k assms(5) by (auto simp: node_getKey_def)
  ultimately show ?thesis using l by auto
qed

subsection \<open>Witnesses\<close>

text \<open>
  A request with a constant message whose response 0 is final and whose other responses
  ask for a retry; in its first attempt the node is unavailable, afterwards it answers 0.
\<close>

definition echo_methods :: "(executable, nat, nat, nat) methods" where
  "echo_methods =
     \<lparr>mt_makeRequest = (\<lambda>q. (Inr 7, q)),
      mt_shouldRetry = (\<lambda>q r s. (Inr (if s = 0 then Finished else Retry), q)),
      mt_mapResponse = (\<lambda>q s acc r. (Inr s, q)),
      mt_mapStatusError = (\<lambda>q r s. (StatusError s, q))\<rparr>"

definition echo_env :: "nat \<Rightarrow> nat env" where
  "echo_env i =
     \<lparr>at_now = 10, at_random = 0, at_health = 10,
      at_outcome = After 1 (if i = 1 then Failure (GrpcFailure 14 []) else Response 0),
      at_failed = 12\<rparr>"

abbreviation "echo_net \<equiv> example_net ''a'' ''3'' ''b'' ''4''"

definition echo_result ::
  "nat js option \<times> executable \<times> unit network \<times> nat event list" where
  "echo_result = ex_loop echo_methods (\<lambda>_ _. ()) 10 0 echo_env 1 ex_new echo_net"

lemma echo_run:
  "fst echo_result = Some (Inr 0) \<and> snd (snd (snd echo_result)) = [Sent 1 0 7, Sent 2 1 7]"
  by (simp add: echo_result_def ex_loop.simps ex_attempt_def ex_pickNode_def echo_env_def
      echo_methods_def ex_new_def rl_defs example_simps Let_def mn_getNode_def mn_readmitNodes_def
      random_index_def mn_getChannel_def nw_update_def node_getChannel_def ex_advanceRequest_def
      node_isHealthy_def ex_race_def grpc_fromResponse_def grpc_fromValue_def grpc_codes_def
      ex_shouldRetryExceptionally_def mn_increaseBackoff_def node_increaseBackoff_def
      mn_decreaseBackoff_def node_decreaseBackoff_def js_nth_def)

lemma echo_loop:
  "ex_loop echo_methods (\<lambda>_ _. ()) 10 0 echo_env 1 ex_new echo_net =
     (Some (Inr 0), fst (snd echo_result), fst (snd (snd echo_result)), [Sent 1 0 7, Sent 2 1 7])"
  using echo_run by (metis echo_result_def prod.collapse)

theorem execution_is_bounded_witness:
  "length (filter ev_sent [Sent 1 0 (7 :: nat), Sent 2 1 7]) \<le> 10"
  using execution_is_bounded [OF echo_loop] by blast

theorem retries_and_success_witness:
  "outcome_retry echo_methods 7 (at_outcome (echo_env 1))"
proof -
  have "[Sent 1 0 7, Sent 2 1 7] = [] @ Sent 1 0 7 # [Sent 2 1 7] \<and> list_ex ev_sent [Sent 2 1 (7 :: nat)]"
    by simp
  with retries_and_success [OF echo_loop, THEN conjunct1] show ?thesis by blast
qed

lemma echo_nodes_ok: "nodes_ok echo_net"
  by (auto simp: nodes_ok_def pool_inv_def example_node_def)

theorem failed_node_left_alone_witness:
  "nw_counted (fst (snd (snd echo_result))) \<and>
   set (nw_nodes (fst (snd (snd echo_result)))) = {0, 1}"
  using failed_node_left_alone [OF echo_loop echo_nodes_ok]
  by (simp add: echo_env_def is_random_def)

theorem unknown_account_goes_elsewhere_witness:
  "\<exists>n net'. ex_pickNode (echo_env 1)
      (ex_new\<lparr>ex_nodeIds := \<lparr>rl_list = [''9''], rl_locked = True, rl_index = Some 0\<rparr>\<rparr>) echo_net =
    (Inr (Some ''9'', n),
     ex_new\<lparr>ex_nodeIds := \<lparr>rl_list = [''9''], rl_locked = True, rl_index = Some 0\<rparr>\<rparr>, net') \<and>
    nd_account (nw_node echo_net n) \<noteq> ''9''"
proof -
  let ?q = "ex_new\<lparr>ex_nodeIds := \<lparr>rl_list = [''9''], rl_locked = True, rl_index = Some 0\<rparr>\<rparr>"
  have "''9'' \<notin> set (map fst (nw_network echo_net))" "nw_network echo_net \<noteq> []"
    by (simp_all add: example_simps)
  with unknown_account_goes_elsewhere [of echo_net "echo_env 1" ?q "''9''"] show ?thesis
    by (auto simp: echo_env_def is_random_def rl_current_def rl_get_def)
qed

end
