(* ===== verification/Status.thy ===== *)
theory Status
  imports JsValues
begin

text \<open>
  The codes of \<open>src/src/Status.js\<close>: \<open>_fromCode\<close> accepts exactly these and throws on any
  other.  A status is represented by its code, which \<open>valueOf\<close> returns; the names that
  \<open>toString\<close> prints are not modelled.
\<close>

definition status_codes :: "nat list" where
  "status_codes =
     [0..<109] @
     [110..<114] @
     [150..<151] @
     [155..<161] @
     [162..<333]"

definition status_fromCode :: "nat \<Rightarrow> nat js" where
  "status_fromCode c = (if c \<in> set status_codes then Inr c else Inl (BadStatus c))"

lemma status_fromCode_known: "status_fromCode c = Inr s \<Longrightarrow> s = c"
  by (simp add: status_fromCode_def split: if_splits)

end
