(* ===== verification/Tx.thy ===== *)
theory Tx
  imports Execute TxId Status
begin

text \<open>
  \<open>src/src/transaction/Transaction.js\<close>: the life of a transaction from its setters over
  freezing and signing to the request of an attempt.  The classes of transactions are
  extensions of the record; their \<open>_makeTransactionData\<close> and the encoders of the generated
  protobuf package are fields of \<open>codec\<close>.  Accounts are given by their text, as in the client.
  The results of \<open>Timestamp.generate\<close> are a field of the state: \<open>tx_starts k\<close> is what its
  \<open>k\<close>-th call on this transaction returns.
\<close>

subsection \<open>State\<close>

record txid =
  td_account :: string
  td_start :: timestamp
  td_scheduled :: bool
  td_nonce :: "long option"

record 'd body =
  bd_data :: 'd
  bd_fee :: "int option"
  bd_memo :: string
  bd_txid :: txid
  bd_node :: "string option"
  bd_duration :: int

record signed =
  sg_body :: bytes
  sg_sigs :: "(string \<times> bytes) list"

record transaction = executable +
  tx_transactions :: "bytes option rlist"
  tx_signed :: "signed rlist"
  tx_signerKeys :: "string list"
  tx_validDuration :: int
  tx_defaultMaxFee :: int
  tx_maxFee :: "int option"
  tx_memo :: string
  tx_ids :: "txid rlist"
  tx_publicKeys :: "string list"
  tx_signers :: "(bytes \<Rightarrow> bytes) option list"
  tx_regenerate :: "bool option"
  tx_operatorAccountId :: "string option"
  tx_starts :: "nat \<Rightarrow> timestamp"
  tx_generated :: nat

record ('m, 'd) codec =
  cd_data :: "'m transaction_scheme \<Rightarrow> 'd js"
  cd_body :: "'d body \<Rightarrow> bytes"
  cd_signed :: "signed \<Rightarrow> bytes"
  cd_list :: "bytes option list \<Rightarrow> bytes"
  cd_hash :: "bytes \<Rightarrow> bytes"

definition tx_new :: "(nat \<Rightarrow> timestamp) \<Rightarrow> transaction" where
  "tx_new starts = executable.extend ex_new
     (transaction.fields rl_new rl_new [] 120 200000000 None [] rl_new [] [] None None starts 0)"

subsection \<open>Guards and setters\<close>

definition tx_isFrozen :: "'m transaction_scheme \<Rightarrow> bool" where
  "tx_isFrozen q \<longleftrightarrow> 0 < rl_length (tx_signed q)"

definition tx_isFrozen_any :: "'m transaction_scheme \<Rightarrow> bool" where
  "tx_isFrozen_any q \<longleftrightarrow>
     ex_signOnDemand q \<or> 0 < rl_length (tx_signed q) \<or> 0 < rl_length (tx_transactions q)"

definition tx_requireNotFrozen :: "'m transaction_scheme \<Rightarrow> unit js" where
  "tx_requireNotFrozen q = (if tx_isFrozen_any q then Inl TxImmutable else Inr ())"

definition tx_requireFrozen :: "'m transaction_scheme \<Rightarrow> unit js" where
  "tx_requireFrozen q = (if \<not> tx_isFrozen_any q then Inl TxNotFrozen else Inr ())"

definition tx_requireNotSignOnDemand :: "'m transaction_scheme \<Rightarrow> unit js" where
  "tx_requireNotSignOnDemand q = (if ex_signOnDemand q then Inl TxSignOnDemand else Inr ())"

definition tx_requireOneNodeAccountId :: "'m transaction_scheme \<Rightarrow> unit js" where
  "tx_requireOneNodeAccountId q =
     (if rl_length (ex_nodeIds q) \<noteq> 1 then Inl TxNotOneNode else Inr ())"

definition tx_setNodeAccountIds ::
  "string list \<Rightarrow> 'm transaction_scheme \<Rightarrow> 'm transaction_scheme js" where
  "tx_setNodeAccountIds ids q =
     js_bind (tx_requireNotFrozen q) (\<lambda>_. ex_setNodeAccountIds ids q)"

definition tx_setTransactionValidDuration ::
  "int \<Rightarrow> 'm transaction_scheme \<Rightarrow> 'm transaction_scheme js" where
  "tx_setTransactionValidDuration d q =
     js_bind (tx_requireNotFrozen q) (\<lambda>_. Inr (q\<lparr>tx_validDuration := d\<rparr>))"

definition tx_setMaxTransactionFee ::
  "int \<Rightarrow> 'm transaction_scheme \<Rightarrow> 'm transaction_scheme js" where
  "tx_setMaxTransactionFee f q =
     js_bind (tx_requireNotFrozen q) (\<lambda>_. Inr (q\<lparr>tx_maxFee := Some f\<rparr>))"

definition tx_setRegenerateTransactionId ::
  "bool \<Rightarrow> 'm transaction_scheme \<Rightarrow> 'm transaction_scheme js" where
  "tx_setRegenerateTransactionId b q =
     js_bind (tx_requireNotFrozen q) (\<lambda>_. Inr (q\<lparr>tx_regenerate := Some b\<rparr>))"

definition tx_setTransactionMemo ::
  "string \<Rightarrow> 'm transaction_scheme \<Rightarrow> 'm transaction_scheme js" where
  "tx_setTransactionMemo t q =
     js_bind (tx_requireNotFrozen q) (\<lambda>_. Inr (q\<lparr>tx_memo := t\<rparr>))"

definition tx_setTransactionId :: "txid \<Rightarrow> 'm transaction_scheme \<Rightarrow> 'm transaction_scheme js" where
  "tx_setTransactionId i q =
     js_bind (tx_requireNotFrozen q) (\<lambda>_.
     js_bind (rl_setList (tx_ids q) [i]) (\<lambda>l. Inr (q\<lparr>tx_ids := rl_setLocked l\<rparr>)))"

text \<open>Reading the transaction id locks it.\<close>

definition tx_transactionId :: "'m transaction_scheme \<Rightarrow> txid option \<times> 'm transaction_scheme" where
  "tx_transactionId q =
     (if rl_isEmpty (tx_ids q) then (None, q)
      else (rl_current (tx_ids q), q\<lparr>tx_ids := rl_setLocked (tx_ids q)\<rparr>))"

definition tx_getTransactionId :: "'m transaction_scheme \<Rightarrow> txid js \<times> 'm transaction_scheme" where
  "tx_getTransactionId q =
     (case tx_transactionId q of
        (None, q) \<Rightarrow> (Inl TxNotFrozen, q)
      | (Some i, q) \<Rightarrow> (Inr i, q))"

definition tx_lockIds :: "'m transaction_scheme \<Rightarrow> 'm transaction_scheme" where
  "tx_lockIds q =
     q\<lparr>tx_ids := rl_setLocked (tx_ids q), ex_nodeIds := rl_setLocked (ex_nodeIds q)\<rparr>"

definition tx_lockBuilt :: "'m transaction_scheme \<Rightarrow> 'm transaction_scheme" where
  "tx_lockBuilt q =
     q\<lparr>tx_transactions := rl_setLocked (tx_transactions q),
       tx_signed := rl_setLocked (tx_signed q)\<rparr>"

subsection \<open>Bodies and signed transactions\<close>

definition tx_makeTransactionBody ::
  "('m, 'd) codec \<Rightarrow> string option \<Rightarrow> 'm transaction_scheme \<Rightarrow> 'd body js" where
  "tx_makeTransactionBody cd node q =
     js_bind (cd_data cd q) (\<lambda>d.
       case rl_current (tx_ids q) of
         None \<Rightarrow> Inl TypeErr
       | Some i \<Rightarrow>
           Inr \<lparr>bd_data = d, bd_fee = tx_maxFee q, bd_memo = tx_memo q, bd_txid = i,
                bd_node = node, bd_duration = tx_validDuration q\<rparr>)"

definition tx_makeSignedTransaction ::
  "('m, 'd) codec \<Rightarrow> string option \<Rightarrow> 'm transaction_scheme \<Rightarrow> signed js" where
  "tx_makeSignedTransaction cd node q =
     js_bind (tx_makeTransactionBody cd node q) (\<lambda>b. Inr \<lparr>sg_body = cd_body cd b, sg_sigs = []\<rparr>)"

definition tx_buildSignedTransactions ::
  "('m, 'd) codec \<Rightarrow> 'm transaction_scheme \<Rightarrow> unit js \<times> 'm transaction_scheme" where
  "tx_buildSignedTransactions cd q =
     (if rl_locked (tx_signed q) then (Inr (), q)
      else case js_map (\<lambda>n. tx_makeSignedTransaction cd (Some n) q) (rl_list (ex_nodeIds q)) of
             Inl e \<Rightarrow> (Inl e, q)
           | Inr ss \<Rightarrow>
               (case rl_setList (tx_signed q) ss of
                  Inl e \<Rightarrow> (Inl e, q)
                | Inr l \<Rightarrow> (Inr (), q\<lparr>tx_signed := l\<rparr>)))"

definition tx_buildNewTransactionIdList :: "'m transaction_scheme \<Rightarrow> 'm transaction_scheme" where
  "tx_buildNewTransactionIdList q =
     (case tx_operatorAccountId q of
        None \<Rightarrow> q
      | Some a \<Rightarrow>
          if rl_locked (tx_ids q) then q
          else
            let i = \<lparr>td_account = a, td_start = tx_starts q (tx_generated q),
                     td_scheduled = False, td_nonce = None\<rparr>
            in q\<lparr>tx_generated := Suc (tx_generated q),
                 tx_ids := rl_set i (tx_ids q) (rl_index (tx_ids q)) i\<rparr>)"

subsection \<open>Freezing\<close>

text \<open>
  \<open>pick\<close> is the call of \<open>getNodeAccountIdsForExecute\<close> on the network of the client,
  \<open>validate\<close> that of \<open>AccountId.validateChecksum\<close> with the ledger of the client.
\<close>

definition tx_setNodeAccountIds_client ::
  "('ch client \<Rightarrow> string list js \<times> 'ch client) \<Rightarrow> 'ch client option \<Rightarrow>
   'm transaction_scheme \<Rightarrow> unit js \<times> 'ch client option \<times> 'm transaction_scheme" where
  "tx_setNodeAccountIds_client pick client q =
     (if \<not> rl_isEmpty (ex_nodeIds q) then (Inr (), client, q)
      else case client of
        None \<Rightarrow> (Inl NodeIdMissing, client, q)
      | Some c \<Rightarrow>
          (case pick c of
             (Inl e, c) \<Rightarrow> (Inl e, Some c, q)
           | (Inr ids, c) \<Rightarrow>
               (case rl_setList (ex_nodeIds q) ids of
                  Inl e \<Rightarrow> (Inl e, Some c, q)
                | Inr l \<Rightarrow> (Inr (), Some c, q\<lparr>ex_nodeIds := l\<rparr>))))"

definition tx_setTransactionId_check :: "'m transaction_scheme \<Rightarrow> unit js" where
  "tx_setTransactionId_check q =
     (if tx_operatorAccountId q = None \<and> rl_isEmpty (tx_ids q) then Inl TxIdMissing else Inr ())"

definition tx_freezeDefaults :: "'ch client option \<Rightarrow> 'm transaction_scheme \<Rightarrow> 'm transaction_scheme" where
  "tx_freezeDefaults client q =
     (let oper = (case client of None \<Rightarrow> None | Some c \<Rightarrow> cl_operator c)
      in q\<lparr>ex_signOnDemand := (case client of None \<Rightarrow> False | Some c \<Rightarrow> cl_signOnDemand c),
           ex_operator := oper,
           tx_operatorAccountId :=
             (if tx_operatorAccountId q = None then map_option op_account oper
              else tx_operatorAccountId q),
           tx_maxFee :=
             (if tx_maxFee q = None then
                (case client of
                   None \<Rightarrow> Some (tx_defaultMaxFee q)
                 | Some c \<Rightarrow>
                     (case cl_defaultMaxTransactionFee c of
                        Some f \<Rightarrow> Some f | None \<Rightarrow> Some (tx_defaultMaxFee q)))
              else tx_maxFee q),
           tx_regenerate :=
             (case client of
                None \<Rightarrow> tx_regenerate q
              | Some c \<Rightarrow>
                  if tx_regenerate q = None then Some (cl_defaultRegenerateTransactionId c)
                  else tx_regenerate q)\<rparr>)"

definition tx_validateIds ::
  "(string \<Rightarrow> string \<Rightarrow> unit js) \<Rightarrow> 'ch client option \<Rightarrow> 'm transaction_scheme \<Rightarrow> unit js" where
  "tx_validateIds validate client q =
     (case client of
        None \<Rightarrow> Inr ()
      | Some c \<Rightarrow>
          (case nw_ledgerId (cl_network c) of
             None \<Rightarrow> Inr ()
           | Some l \<Rightarrow>
               js_bind (js_map (\<lambda>i. validate l (td_account i)) (rl_list (tx_ids q))) (\<lambda>_. Inr ())))"

definition tx_freezeWith ::
  "('m, 'd) codec \<Rightarrow> (string \<Rightarrow> string \<Rightarrow> unit js) \<Rightarrow> ('ch client \<Rightarrow> string list js \<times> 'ch client) \<Rightarrow>
   'ch client option \<Rightarrow> 'm transaction_scheme \<Rightarrow>
   unit js \<times> 'ch client option \<times> 'm transaction_scheme" where
  "tx_freezeWith cd validate pick client q =
     (let q = tx_freezeDefaults client q
      in case tx_setNodeAccountIds_client pick client q of
           (Inl e, client, q) \<Rightarrow> (Inl e, client, q)
         | (Inr _, client, q) \<Rightarrow>
             (case tx_setTransactionId_check q of
                Inl e \<Rightarrow> (Inl e, client, q)
              | Inr _ \<Rightarrow>
                  (case tx_validateIds validate client q of
                     Inl e \<Rightarrow> (Inl e, client, q)
                   | Inr _ \<Rightarrow>
                       (let q = tx_buildNewTransactionIdList q
                        in if \<not> ex_signOnDemand q
                           then (case tx_buildSignedTransactions cd q of (r, q) \<Rightarrow> (r, client, q))
                           else (Inr (), client, q)))))"

definition tx_freeze ::
  "('m, 'd) codec \<Rightarrow> 'm transaction_scheme \<Rightarrow> unit js \<times> 'm transaction_scheme" where
  "tx_freeze cd q =
     (case tx_freezeWith cd (\<lambda>_ _. Inr ()) (\<lambda>c. (Inr [], c)) (None :: unit client option) q of
        (r, _, q) \<Rightarrow> (r, q))"

subsection \<open>Signing\<close>

definition sg_add :: "string \<Rightarrow> bytes \<Rightarrow> signed \<Rightarrow> signed" where
  "sg_add key sig s = s\<lparr>sg_sigs := sg_sigs s @ [(key, sig)]\<rparr>"

definition tx_signWith ::
  "string \<Rightarrow> (bytes \<Rightarrow> bytes) \<Rightarrow> 'm transaction_scheme \<Rightarrow> 'm transaction_scheme js" where
  "tx_signWith key signer q =
     js_bind (if \<not> ex_signOnDemand q then tx_requireFrozen q else Inr ()) (\<lambda>_.
       if key \<in> set (tx_signerKeys q) then Inr q
       else
         let q = q\<lparr>tx_transactions := rl_clear (tx_transactions q),
                   tx_signerKeys := tx_signerKeys q @ [key]\<rparr>
         in if ex_signOnDemand q then
              Inr (q\<lparr>tx_publicKeys := tx_publicKeys q @ [key],
                     tx_signers := tx_signers q @ [Some signer]\<rparr>)
            else
              let q = tx_lockIds q
              in Inr (q\<lparr>tx_signed := (tx_signed q)\<lparr>rl_list :=
                   map (\<lambda>s. sg_add key (signer (sg_body s)) s) (rl_list (tx_signed q))\<rparr>\<rparr>))"

definition tx_signWithOperator ::
  "('m, 'd) codec \<Rightarrow> (string \<Rightarrow> string \<Rightarrow> unit js) \<Rightarrow> ('ch client \<Rightarrow> string list js \<times> 'ch client) \<Rightarrow>
   'ch client \<Rightarrow> 'm transaction_scheme \<Rightarrow> unit js \<times> 'ch client \<times> 'm transaction_scheme" where
  "tx_signWithOperator cd validate pick c q =
     (case cl_operator c of
        None \<Rightarrow> (Inl NoOperator, c, q)
      | Some oper \<Rightarrow>
          (case (if \<not> tx_isFrozen_any q then tx_freezeWith cd validate pick (Some c) q
                 else (Inr (), Some c, q)) of
             (Inl e, c', q) \<Rightarrow> (Inl e, the c', q)
           | (Inr _, c', q) \<Rightarrow>
               (case tx_signWith (op_publicKey oper) (op_signer oper) q of
                  Inl e \<Rightarrow> (Inl e, the c', q)
                | Inr q \<Rightarrow> (Inr (), the c', q))))"

definition tx_addSignature ::
  "('m, 'd) codec \<Rightarrow> string \<Rightarrow> bytes \<Rightarrow> 'm transaction_scheme \<Rightarrow> unit js \<times> 'm transaction_scheme" where
  "tx_addSignature cd key sig q =
     (case tx_requireOneNodeAccountId q of
        Inl e \<Rightarrow> (Inl e, q)
      | Inr _ \<Rightarrow>
          (case (if \<not> tx_isFrozen q then tx_freeze cd q else (Inr (), q)) of
             (Inl e, q) \<Rightarrow> (Inl e, q)
           | (Inr _, q) \<Rightarrow>
               (if key \<in> set (tx_signerKeys q) then (Inr (), q)
                else
                  let q = tx_lockIds (q\<lparr>tx_transactions := rl_clear (tx_transactions q)\<rparr>)
                  in (Inr (), q\<lparr>tx_signed := rl_setLocked ((tx_signed q)\<lparr>rl_list :=
                        map (sg_add key sig) (rl_list (tx_signed q))\<rparr>),
                        tx_signerKeys := tx_signerKeys q @ [key],
                        tx_publicKeys := tx_publicKeys q @ [key],
                        tx_signers := tx_signers q @ [None]\<rparr>))))"

subsection \<open>Building\<close>

text \<open>Encoding a signed transaction that does not exist throws a \<open>TypeError\<close>.\<close>

fun tx_pushNulls :: "nat \<Rightarrow> bytes option rlist \<Rightarrow> bytes option rlist js" where
  "tx_pushNulls 0 l = Inr l"
| "tx_pushNulls (Suc k) l = js_bind (rl_push l [None]) (tx_pushNulls k)"

definition tx_buildTransaction ::
  "('m, 'd) codec \<Rightarrow> nat option \<Rightarrow> 'm transaction_scheme \<Rightarrow> unit js \<times> 'm transaction_scheme" where
  "tx_buildTransaction cd index q =
     (case index of
        None \<Rightarrow> (Inl TypeErr, q)
      | Some k \<Rightarrow>
          (case tx_pushNulls (k - rl_length (tx_transactions q)) (tx_transactions q) of
             Inl e \<Rightarrow> (Inl e, q)
           | Inr l \<Rightarrow>
               (if k = rl_length l \<or> rl_get l (Some k) = None \<or> rl_get l (Some k) = Some None then
                  (case rl_get (tx_signed q) (Some k) of
                     None \<Rightarrow> (Inl TypeErr, q\<lparr>tx_transactions := l\<rparr>)
                   | Some s \<Rightarrow> (Inr (), q\<lparr>tx_transactions := rl_setIfAbsent l k (cd_signed cd s)\<rparr>))
                else (Inr (), q\<lparr>tx_transactions := l\<rparr>))))"

fun tx_build_loop ::
  "('m, 'd) codec \<Rightarrow> nat list \<Rightarrow> 'm transaction_scheme \<Rightarrow> unit js \<times> 'm transaction_scheme" where
  "tx_build_loop cd [] q = (Inr (), q)"
| "tx_build_loop cd (i # is) q =
     (case tx_buildTransaction cd (Some i) q of
        (Inl e, q) \<Rightarrow> (Inl e, q)
      | (Inr _, q) \<Rightarrow> tx_build_loop cd is q)"

definition tx_buildAllTransactions ::
  "('m, 'd) codec \<Rightarrow> 'm transaction_scheme \<Rightarrow> unit js \<times> 'm transaction_scheme" where
  "tx_buildAllTransactions cd q = tx_build_loop cd [0..<rl_length (tx_signed q)] q"

text \<open>Signing with all keys that have a signer; the node is the next of the list.\<close>

fun tx_sign_loop :: "string list \<Rightarrow> (bytes \<Rightarrow> bytes) option list \<Rightarrow> signed \<Rightarrow> signed" where
  "tx_sign_loop (k # ks) (Some f # fs) s = tx_sign_loop ks fs (sg_add k (f (sg_body s)) s)"
| "tx_sign_loop (k # ks) (None # fs) s = tx_sign_loop ks fs s"
| "tx_sign_loop _ _ s = s"

definition tx_signTransaction ::
  "('m, 'd) codec \<Rightarrow> 'm transaction_scheme \<Rightarrow> signed js \<times> 'm transaction_scheme" where
  "tx_signTransaction cd q =
     (case rl_next (ex_nodeIds q) of
        (node, l) \<Rightarrow>
          let q = q\<lparr>ex_nodeIds := l\<rparr>
          in (js_bind (tx_makeSignedTransaction cd node q)
                (\<lambda>s. Inr (tx_sign_loop (tx_publicKeys q) (tx_signers q) s)), q))"

definition tx_buildTransactionAsync ::
  "('m, 'd) codec \<Rightarrow> 'm transaction_scheme \<Rightarrow> bytes js \<times> 'm transaction_scheme" where
  "tx_buildTransactionAsync cd q =
     (case tx_signTransaction cd q of
        (r, q) \<Rightarrow> (js_bind r (\<lambda>s. Inr (cd_signed cd s)), q))"

fun tx_push_loop ::
  "('m, 'd) codec \<Rightarrow> nat \<Rightarrow> 'm transaction_scheme \<Rightarrow> unit js \<times> 'm transaction_scheme" where
  "tx_push_loop cd 0 q = (Inr (), q)"
| "tx_push_loop cd (Suc k) q =
     (case tx_buildTransactionAsync cd q of
        (Inl e, q) \<Rightarrow> (Inl e, q)
      | (Inr raw, q) \<Rightarrow>
          (case rl_push (tx_transactions q) [Some raw] of
             Inl e \<Rightarrow> (Inl e, q)
           | Inr l \<Rightarrow> tx_push_loop cd k (q\<lparr>tx_transactions := l\<rparr>)))"

definition tx_buildAllTransactionsAsync ::
  "('m, 'd) codec \<Rightarrow> 'm transaction_scheme \<Rightarrow> unit js \<times> 'm transaction_scheme" where
  "tx_buildAllTransactionsAsync cd q =
     (if \<not> ex_signOnDemand q then tx_buildAllTransactions cd q
      else case tx_buildSignedTransactions cd q of
        (Inl e, q) \<Rightarrow> (Inl e, q)
      | (Inr _, q) \<Rightarrow>
          (if rl_locked (tx_transactions q) then (Inr (), q)
           else tx_push_loop cd (rl_length (tx_signed q)) q))"

subsection \<open>What leaves a transaction\<close>

definition tx_toBytes ::
  "('m, 'd) codec \<Rightarrow> 'm transaction_scheme \<Rightarrow> bytes js \<times> 'm transaction_scheme" where
  "tx_toBytes cd q =
     (case js_bind (tx_requireFrozen q) (\<lambda>_. tx_requireNotSignOnDemand q) of
        Inl e \<Rightarrow> (Inl e, q)
      | Inr _ \<Rightarrow>
          (case tx_buildAllTransactions cd (tx_lockIds q) of
             (Inl e, q) \<Rightarrow> (Inl e, q)
           | (Inr _, q) \<Rightarrow> (Inr (cd_list cd (rl_list (tx_transactions q))), q)))"

definition tx_toBytesAsync ::
  "('m, 'd) codec \<Rightarrow> 'm transaction_scheme \<Rightarrow> bytes js \<times> 'm transaction_scheme" where
  "tx_toBytesAsync cd q =
     (case tx_buildAllTransactionsAsync cd (tx_lockIds q) of
        (Inl e, q) \<Rightarrow> (Inl e, q)
      | (Inr _, q) \<Rightarrow>
          let q = tx_lockBuilt q in (Inr (cd_list cd (rl_list (tx_transactions q))), q))"

text \<open>\<open>SignatureMap._fromTransaction\<close>: the signatures per node account.\<close>

definition tx_signatureMap ::
  "'m transaction_scheme \<Rightarrow> (string \<times> (string \<times> bytes) list) list js" where
  "tx_signatureMap q =
     js_map (\<lambda>i. case rl_get (tx_signed q) (Some i) of
                   None \<Rightarrow> Inl TypeErr
                 | Some s \<Rightarrow> Inr (rl_list (ex_nodeIds q) ! i, sg_sigs s))
       [0..<rl_length (ex_nodeIds q)]"

definition tx_getSignatures ::
  "('m, 'd) codec \<Rightarrow> 'm transaction_scheme \<Rightarrow>
   (string \<times> (string \<times> bytes) list) list js \<times> 'm transaction_scheme" where
  "tx_getSignatures cd q =
     (case js_bind (tx_requireFrozen q) (\<lambda>_. tx_requireNotSignOnDemand q) of
        Inl e \<Rightarrow> (Inl e, q)
      | Inr _ \<Rightarrow>
          (case tx_buildAllTransactions cd q of
             (Inl e, q) \<Rightarrow> (Inl e, q)
           | (Inr _, q) \<Rightarrow> let q = tx_lockIds q in (tx_signatureMap q, q)))"

definition tx_getSignaturesAsync ::
  "('m, 'd) codec \<Rightarrow> 'm transaction_scheme \<Rightarrow>
   (string \<times> (string \<times> bytes) list) list js \<times> 'm transaction_scheme" where
  "tx_getSignaturesAsync cd q =
     (case tx_buildAllTransactionsAsync cd (tx_lockIds q) of
        (Inl e, q) \<Rightarrow> (Inl e, q)
      | (Inr _, q) \<Rightarrow> let q = tx_lockBuilt q in (tx_signatureMap q, q))"

definition tx_getTransactionHash ::
  "('m, 'd) codec \<Rightarrow> 'm transaction_scheme \<Rightarrow> bytes js \<times> 'm transaction_scheme" where
  "tx_getTransactionHash cd q =
     (case tx_requireFrozen q of
        Inl e \<Rightarrow> (Inl e, q)
      | Inr _ \<Rightarrow>
          (case tx_buildAllTransactionsAsync cd (tx_lockIds q) of
             (Inl e, q) \<Rightarrow> (Inl e, q)
           | (Inr _, q) \<Rightarrow>
               (let q = tx_lockBuilt q
                in case rl_get (tx_transactions q) (Some 0) of
                     Some (Some raw) \<Rightarrow> (Inr (cd_hash cd raw), q)
                   | _ \<Rightarrow> (Inl TypeErr, q))))"

text \<open>\<open>TransactionHashMap._fromTransaction\<close>: the hashes per node account.\<close>

definition tx_getTransactionHashPerNode ::
  "('m, 'd) codec \<Rightarrow> 'm transaction_scheme \<Rightarrow> (string \<times> bytes) list js \<times> 'm transaction_scheme" where
  "tx_getTransactionHashPerNode cd q =
     (case tx_requireFrozen q of
        Inl e \<Rightarrow> (Inl e, q)
      | Inr _ \<Rightarrow>
          (case tx_buildAllTransactionsAsync cd (tx_lockIds q) of
             (Inl e, q) \<Rightarrow> (Inl e, q)
           | (Inr _, q) \<Rightarrow>
               (js_map (\<lambda>i. case rl_get (tx_transactions q) (Some i) of
                              Some (Some raw) \<Rightarrow> Inr (rl_list (ex_nodeIds q) ! i, cd_hash cd raw)
                            | _ \<Rightarrow> Inl TypeErr)
                  [0..<rl_length (ex_nodeIds q)], q)))"

subsection \<open>Execution\<close>

definition tx_beforeExecute ::
  "('m, 'd) codec \<Rightarrow> ('m transaction_scheme \<Rightarrow> unit js) \<Rightarrow> (string \<Rightarrow> string \<Rightarrow> unit js) \<Rightarrow>
   ('ch client \<Rightarrow> string list js \<times> 'ch client) \<Rightarrow> 'ch client \<Rightarrow> 'm transaction_scheme \<Rightarrow>
   unit js \<times> 'ch client \<times> 'm transaction_scheme" where
  "tx_beforeExecute cd checksums validate pick c q =
     (case (if \<not> tx_isFrozen_any q then tx_freezeWith cd validate pick (Some c) q
            else (Inr (), Some c, q)) of
        (Inl e, c', q) \<Rightarrow> (Inl e, the c', q)
      | (Inr _, c', q) \<Rightarrow>
          (let c = the c'
           in case (if cl_autoValidateChecksums c then checksums q else Inr ()) of
                Inl e \<Rightarrow> (Inl e, c, q)
              | Inr _ \<Rightarrow>
                  (let q = (if ex_operator q = None then q\<lparr>ex_operator := cl_operator c\<rparr> else q);
                       q = (if tx_operatorAccountId q = None
                            then q\<lparr>tx_operatorAccountId := map_option op_account (cl_operator c)\<rparr>
                            else q)
                   in case ex_operator q of
                        None \<Rightarrow> (Inr (), c, q)
                      | Some oper \<Rightarrow>
                          (case tx_signWith (op_publicKey oper) (op_signer oper) q of
                             Inl e \<Rightarrow> (Inl e, c, q)
                           | Inr q \<Rightarrow> (Inr (), c, q)))))"

text \<open>The position of the request of an attempt; \<open>None\<close> is \<open>NaN\<close>.\<close>

definition tx_requestIndex :: "'m transaction_scheme \<Rightarrow> nat option" where
  "tx_requestIndex q =
     (case (rl_index (tx_ids q), rl_index (ex_nodeIds q)) of
        (Some i, Some j) \<Rightarrow> Some (i * rl_length (ex_nodeIds q) + j)
      | _ \<Rightarrow> None)"

definition tx_makeRequest ::
  "('m, 'd) codec \<Rightarrow> 'm transaction_scheme \<Rightarrow> bytes js \<times> 'm transaction_scheme" where
  "tx_makeRequest cd q =
     (if \<not> ex_signOnDemand q then
        (case tx_buildTransaction cd (tx_requestIndex q) q of
           (Inl e, q') \<Rightarrow> (Inl e, q')
         | (Inr _, q') \<Rightarrow>
             (case rl_get (tx_transactions q') (tx_requestIndex q) of
                Some (Some raw) \<Rightarrow> (Inr raw, q')
              | _ \<Rightarrow> (Inl TypeErr, q')))
      else tx_buildTransactionAsync cd q)"

abbreviation "status_Ok \<equiv> 0 :: nat"
abbreviation "status_TransactionExpired \<equiv> 4 :: nat"
abbreviation "status_Busy \<equiv> 12 :: nat"
abbreviation "status_Unknown \<equiv> 21 :: nat"
abbreviation "status_PlatformTransactionNotCreated \<equiv> 69 :: nat"
abbreviation "status_PlatformNotActive \<equiv> 67 :: nat"

text \<open>
  A response is its precheck code, if it has one.
\<close>

definition tx_status :: "nat option \<Rightarrow> nat js" where
  "tx_status code = status_fromCode (case code of None \<Rightarrow> status_Ok | Some c \<Rightarrow> c)"

definition tx_shouldRetry ::
  "'m transaction_scheme \<Rightarrow> nat option \<Rightarrow> exec_state js \<times> 'm transaction_scheme" where
  "tx_shouldRetry q code =
     (case tx_status code of
        Inl e \<Rightarrow> (Inl e, q)
      | Inr status \<Rightarrow>
          (if status = status_Busy \<or> status = status_Unknown \<or>
              status = status_PlatformTransactionNotCreated \<or> status = status_PlatformNotActive
           then (Inr Retry, q)
           else if status = status_Ok then (Inr Finished, q)
           else if status = status_TransactionExpired then
             (if tx_regenerate q = None \<or> tx_regenerate q = Some True
              then (Inr Retry, tx_buildNewTransactionIdList q)
              else (Inr Error, q))
           else (Inr Error, q)))"

record tx_response =
  tr_nodeId :: "string option"
  tr_hash :: bytes
  tr_transactionId :: txid

definition tx_mapResponse ::
  "('m, 'd) codec \<Rightarrow> 'm transaction_scheme \<Rightarrow> string option \<Rightarrow> bytes \<Rightarrow>
   tx_response js \<times> 'm transaction_scheme" where
  "tx_mapResponse cd q node raw =
     (case tx_getTransactionId q of
        (Inl e, q) \<Rightarrow> (Inl e, q)
      | (Inr i, q) \<Rightarrow>
          (Inr \<lparr>tr_nodeId = node, tr_hash = cd_hash cd raw, tr_transactionId = i\<rparr>,
           q\<lparr>tx_ids := snd (rl_advance (tx_ids q))\<rparr>))"

definition tx_mapStatusError ::
  "'m transaction_scheme \<Rightarrow> nat option \<Rightarrow> js_error \<times> 'm transaction_scheme" where
  "tx_mapStatusError q code =
     (case tx_status code of
        Inl e \<Rightarrow> (e, q)
      | Inr status \<Rightarrow>
          (case tx_getTransactionId q of
             (Inl e, q) \<Rightarrow> (e, q)
           | (Inr i, q) \<Rightarrow> (PrecheckError status, q)))"

definition tx_methods ::
  "('m, 'd) codec \<Rightarrow>
   ('m transaction_scheme, bytes, nat option, tx_response) methods" where
  "tx_methods cd =
     \<lparr>mt_makeRequest = tx_makeRequest cd,
      mt_shouldRetry = (\<lambda>q r s. tx_shouldRetry q s),
      mt_mapResponse = (\<lambda>q s acc r. tx_mapResponse cd q acc r),
      mt_mapStatusError = (\<lambda>q r s. tx_mapStatusError q s)\<rparr>"

end
