(* ===== verification/TxRun.thy ===== *)
theory TxRun
  imports Tx
begin

text \<open>
  What holds of transactions: the frame of each operation, the consistency of the built
  requests with the signatures, and the execution of a transaction by the loop of
  \<open>Execute\<close>, whose request classes the methods of a transaction instantiate.
\<close>

subsection \<open>What making a request changes\<close>

lemma pushNulls_list:
  "tx_pushNulls k l = Inr l' \<Longrightarrow> rl_list l' = rl_list l @ replicate k None \<and> rl_locked l' = rl_locked l"
proof (induction k arbitrary: l)
  case (Suc k)
  then obtain m where "rl_push l [None] = Inr m" "tx_pushNulls k m = Inr l'"
    by (auto simp: js_bind_eq_Inr)
  with Suc.IH [of m] show ?case by (auto simp: rl_push_def split: if_splits)
qed simp

text \<open>Building touches the cached requests only.\<close>

definition tx_frame :: "'m transaction_scheme \<Rightarrow> 'm transaction_scheme" where
  "tx_frame q = q\<lparr>tx_transactions := rl_new\<rparr>"

lemma frame_upd [simp]: "tx_frame (q\<lparr>tx_transactions := l\<rparr>) = tx_frame q"
  by (simp add: tx_frame_def)

lemma frame_select:
  "tx_signed (tx_frame q) = tx_signed q" "ex_nodeIds (tx_frame q) = ex_nodeIds q"
  "tx_ids (tx_frame q) = tx_ids q" "tx_signerKeys (tx_frame q) = tx_signerKeys q"
  "ex_signOnDemand (tx_frame q) = ex_signOnDemand q" "ex_settings (tx_frame q) = ex_settings q"
  "tx_requestIndex (tx_frame q) = tx_requestIndex q" "tx_publicKeys (tx_frame q) = tx_publicKeys q"
  "tx_signers (tx_frame q) = tx_signers q"
  by (simp_all add: tx_frame_def ex_settings_def tx_requestIndex_def split: option.split)

lemma frame_fields:
  assumes "tx_frame q = tx_frame q'"
  shows "tx_signed q = tx_signed q'" "ex_nodeIds q = ex_nodeIds q'" "tx_ids q = tx_ids q'"
    "tx_signerKeys q = tx_signerKeys q'" "ex_signOnDemand q = ex_signOnDemand q'"
    "ex_settings q = ex_settings q'" "tx_requestIndex q = tx_requestIndex q'"
    "tx_publicKeys q = tx_publicKeys q'" "tx_signers q = tx_signers q'"
  using assms frame_select [of q] frame_select [of q'] by simp_all

lemma buildTransaction_frame: "tx_frame (snd (tx_buildTransaction cd i q)) = tx_frame q"
  by (auto simp: tx_buildTransaction_def split: option.split sum.split)

lemma build_loop_frame: "tx_frame (snd (tx_build_loop cd is q)) = tx_frame q"
proof (induction "is" arbitrary: q)
  case (Cons i "is")
  then show ?case using buildTransaction_frame [of cd "Some i" q]
    by (auto split: prod.split sum.split)
qed simp

lemma makeRequest_direct:
  "\<not> ex_signOnDemand q \<Longrightarrow> tx_frame (snd (tx_makeRequest cd q)) = tx_frame q"
  using buildTransaction_frame [of cd "tx_requestIndex q" q]
  by (auto simp: tx_makeRequest_def split: prod.split sum.split option.split)

lemma makeRequest_demand:
  assumes "ex_signOnDemand q"
  shows "snd (tx_makeRequest cd q) = q\<lparr>ex_nodeIds := snd (rl_advance (ex_nodeIds q))\<rparr>"
  using assms by (simp add: tx_makeRequest_def tx_buildTransactionAsync_def tx_signTransaction_def
      rl_next_def Let_def split: prod.split)

lemma newIdList_frame [simp]:
  "ex_nodeIds (tx_buildNewTransactionIdList q) = ex_nodeIds q"
  "tx_signed (tx_buildNewTransactionIdList q) = tx_signed q"
  "tx_transactions (tx_buildNewTransactionIdList q) = tx_transactions q"
  "tx_signerKeys (tx_buildNewTransactionIdList q) = tx_signerKeys q"
  "tx_publicKeys (tx_buildNewTransactionIdList q) = tx_publicKeys q"
  "tx_signers (tx_buildNewTransactionIdList q) = tx_signers q"
  "ex_signOnDemand (tx_buildNewTransactionIdList q) = ex_signOnDemand q"
  "ex_settings (tx_buildNewTransactionIdList q) = ex_settings q"
  by (simp_all add: tx_buildNewTransactionIdList_def ex_settings_def Let_def split: option.split)

lemma shouldRetry_cases:
  "snd (tx_shouldRetry q code) = q \<or> snd (tx_shouldRetry q code) = tx_buildNewTransactionIdList q"
  by (auto simp: tx_shouldRetry_def split: sum.split)

lemma transaction_class: "request_class (tx_methods cd)"
proof
  fix q r s
  show "ex_settings (snd (mt_makeRequest (tx_methods cd) q)) = ex_settings q"
  proof (cases "ex_signOnDemand q")
    case True
    then show ?thesis by (simp add: tx_methods_def makeRequest_demand ex_settings_def)
  next
    case False
    then show ?thesis
      using frame_fields(6) [OF makeRequest_direct [of q cd]] by (simp add: tx_methods_def)
  qed
  show "ex_settings (snd (mt_shouldRetry (tx_methods cd) q r s)) = ex_settings q"
    using shouldRetry_cases [of q s] by (auto simp: tx_methods_def)
qed

text \<open>
  A request of a transaction leaves the cursor of the nodes alone, except when signing on
  demand, where it moves it by one.
\<close>

definition tx_adv :: "bool \<Rightarrow> nat" where
  "tx_adv sod = (if sod then 1 else 0)"

lemma transaction_order: "node_order (tx_methods cd) tx_adv"
proof (intro node_order.intro transaction_class node_order_axioms.intro)
  fix q r s q'
  assume "mt_makeRequest (tx_methods cd) q = (Inr r, q')"
  then have q': "q' = snd (tx_makeRequest cd q)" by (simp add: tx_methods_def)
  show "ex_nodeIds q' = rl_steps (tx_adv (ex_signOnDemand q)) (ex_nodeIds q)"
  proof (cases "ex_signOnDemand q")
    case True
    then show ?thesis by (simp add: q' makeRequest_demand tx_adv_def rl_steps_def)
  next
    case False
    then show ?thesis using frame_fields(2) [OF makeRequest_direct [of q cd]] by (simp add: q' tx_adv_def)
  qed
next
  fix q r s
  show "ex_nodeIds (snd (mt_shouldRetry (tx_methods cd) q r s)) = ex_nodeIds q"
    using shouldRetry_cases [of q s] by (auto simp: tx_methods_def)
qed

subsection \<open>Built requests and signatures\<close>

text \<open>The signed transaction of position \<open>k\<close>: addressed to node \<open>k\<close> modulo the number of nodes.\<close>

definition tx_addressed :: "('m, 'd) codec \<Rightarrow> string option \<Rightarrow> signed \<Rightarrow> bool" where
  "tx_addressed cd node s \<longleftrightarrow> (\<exists>b. bd_node b = node \<and> sg_body s = cd_body cd b)"

definition tx_consistent :: "('m, 'd) codec \<Rightarrow> 'm transaction_scheme \<Rightarrow> bool" where
  "tx_consistent cd q \<longleftrightarrow>
     length (rl_list (tx_transactions q)) \<le> length (rl_list (tx_signed q)) \<and>
     (\<forall>k < length (rl_list (tx_transactions q)).
        rl_list (tx_transactions q) ! k = None \<or>
        rl_list (tx_transactions q) ! k = Some (cd_signed cd (rl_list (tx_signed q) ! k))) \<and>
     (\<forall>k < length (rl_list (tx_signed q)).
        tx_addressed cd (js_nth (rl_list (ex_nodeIds q)) (k mod length (rl_list (ex_nodeIds q))))
          (rl_list (tx_signed q) ! k) \<and>
        map fst (sg_sigs (rl_list (tx_signed q) ! k)) = tx_signerKeys q) \<and>
     distinct (tx_signerKeys q) \<and>
     (rl_list (tx_signed q) = [] \<longrightarrow> tx_signerKeys q = [] \<or> rl_locked (tx_signed q)) \<and>
     (tx_signerKeys q \<noteq> [] \<longrightarrow> rl_locked (ex_nodeIds q))"

text \<open>Building position \<open>k\<close> fills it with the encoding of the signed transaction.\<close>

lemma buildTransaction_ok:
  assumes "tx_consistent cd q" "k < length (rl_list (tx_signed q))"
    and "tx_buildTransaction cd (Some k) q = (r, q')"
  shows "tx_consistent cd q' \<and>
    (r = Inr () \<longrightarrow>
       rl_get (tx_transactions q') (Some k) = Some (Some (cd_signed cd (rl_list (tx_signed q) ! k))) \<and>
       length (rl_list (tx_transactions q')) = max (Suc k) (length (rl_list (tx_transactions q))) \<and>
       (\<forall>j. j \<noteq> k \<longrightarrow> j < length (rl_list (tx_transactions q)) \<longrightarrow>
          rl_list (tx_transactions q') ! j = rl_list (tx_transactions q) ! j))"
proof -
  let ?ts = "rl_list (tx_transactions q)" and ?ss = "rl_list (tx_signed q)"
  have len: "length ?ts \<le> length ?ss"
    and cached: "\<And>j. j < length ?ts \<Longrightarrow> ?ts ! j = None \<or> ?ts ! j = Some (cd_signed cd (?ss ! j))"
    using assms(1) by (auto simp: tx_consistent_def)
  show ?thesis
  proof (cases "tx_pushNulls (k - rl_length (tx_transactions q)) (tx_transactions q)")
    case (Inl e)
    then show ?thesis using assms by (auto simp: tx_buildTransaction_def)
  next
    case (Inr l)
    have l: "rl_list l = ?ts @ replicate (k - length ?ts) None"
      using pushNulls_list [OF Inr] by (simp add: rl_length_def)
    define ts' where "ts' = rl_list (tx_transactions q')"
    have frame: "tx_frame q' = tx_frame q"
      using buildTransaction_frame [of cd "Some k" q] assms(3) by simp
    have sk: "rl_get (tx_signed q) (Some k) = Some (?ss ! k)" using assms(2) by (simp add: rl_get_def)
    have "r = Inr () \<and> ts' = (if k < length ?ts then ?ts[k := Some (cd_signed cd (?ss ! k))]
        else ?ts @ replicate (k - length ?ts) None @ [Some (cd_signed cd (?ss ! k))])"
    proof (cases "k < length ?ts")
      case True
      then have lts: "rl_list l = ?ts" using l by simp
      then have g: "k \<noteq> rl_length l" "rl_get l (Some k) = Some (?ts ! k)"
        using True by (simp_all add: rl_length_def rl_get_def)
      show ?thesis
      proof (cases "?ts ! k")
        case None
        then have "r = Inr ()" "tx_transactions q' = rl_setIfAbsent l k (cd_signed cd (?ss ! k))"
          using assms(3) Inr sk g by (auto simp: tx_buildTransaction_def)
        then show ?thesis using None True g lts
          by (simp add: ts'_def rl_setIfAbsent_def rl_set_def js_upd_def)
      next
        case (Some x)
        then have "r = Inr ()" "tx_transactions q' = l"
          using assms(3) Inr sk g by (auto simp: tx_buildTransaction_def)
        moreover have "?ts[k := Some (cd_signed cd (?ss ! k))] = ?ts"
          using cached [OF True] Some list_update_id [of ?ts k] by simp
        ultimately show ?thesis using True lts by (simp add: ts'_def)
      qed
    next
      case False
      then have "k = rl_length l" using l by (simp add: rl_length_def)
      then show ?thesis
        using assms(3) Inr sk False l
        by (auto simp: tx_buildTransaction_def rl_setIfAbsent_def rl_set_def rl_length_def ts'_def)
    qed
    then have r: "r = Inr ()" and ts': "ts' = (if k < length ?ts then ?ts[k := Some (cd_signed cd (?ss ! k))]
        else ?ts @ replicate (k - length ?ts) None @ [Some (cd_signed cd (?ss ! k))])" by auto
    have n: "length ts' = max (Suc k) (length ?ts)" by (auto simp: ts')
    have at: "ts' ! k = Some (cd_signed cd (?ss ! k))" by (auto simp: ts' nth_append)
    have other: "ts' ! j = ?ts ! j" if "j \<noteq> k" "j < length ?ts" for j
      using that by (auto simp: ts' nth_append)
    have gap: "ts' ! j = None" if "length ?ts \<le> j" "j < k" for j
      using that by (auto simp: ts' nth_append)
    have "ts' ! j = None \<or> ts' ! j = Some (cd_signed cd (?ss ! j))" if "j < length ts'" for j
      using at other [of j] gap [of j] cached [of j] that n by (cases "j = k"; cases "j < length ?ts") auto
    then have "tx_consistent cd q'"
      using assms(1,2) n len frame_fields [OF frame] by (simp add: tx_consistent_def ts'_def [symmetric])
    then show ?thesis
      using r at other n by (simp add: rl_get_def ts'_def [symmetric])
  qed
qed

lemma build_loop_ok:
  assumes "tx_consistent cd q" "n \<le> length (rl_list (tx_signed q))"
    and "i \<le> length (rl_list (tx_transactions q))" "i \<le> n"
    and "\<forall>j < i. rl_list (tx_transactions q) ! j = Some (cd_signed cd (rl_list (tx_signed q) ! j))"
    and "tx_build_loop cd [i..<n] q = (r, q')"
  shows "tx_consistent cd q' \<and> tx_frame q' = tx_frame q \<and>
    (r = Inr () \<longrightarrow> n \<le> length (rl_list (tx_transactions q')) \<and>
      (\<forall>j < n. rl_list (tx_transactions q') ! j = Some (cd_signed cd (rl_list (tx_signed q) ! j))))"
  using assms
proof (induction "n - i" arbitrary: i q)
  case 0
  then show ?case by simp
next
  case (Suc d)
  then have i: "i < n" "[i..<n] = i # [Suc i..<n]" by (auto simp: upt_rec)
  obtain r1 q1 where b: "tx_buildTransaction cd (Some i) q = (r1, q1)"
    by (cases "tx_buildTransaction cd (Some i) q")
  have fr: "tx_frame q1 = tx_frame q" using buildTransaction_frame [of cd "Some i" q] b by simp
  note ok = buildTransaction_ok [OF Suc.prems(1) _ b]
  have ii: "i < length (rl_list (tx_signed q))" using i Suc.prems(2) by simp
  show ?case
  proof (cases r1)
    case (Inl e)
    then have "q' = q1" "r = Inl e" using Suc.prems(6) b i by auto
    then show ?thesis using ok [OF ii] fr by simp
  next
    case (Inr u)
    then have r1: "r1 = Inr ()" by simp
    note ok1 = ok [OF ii, THEN conjunct1]
    note ok2 = ok [OF ii, THEN conjunct2, rule_format, OF r1]
    have same: "tx_signed q1 = tx_signed q" by (rule frame_fields(1) [OF fr])
    have "rl_list (tx_transactions q1) ! j = Some (cd_signed cd (rl_list (tx_signed q1) ! j))"
      if "j < Suc i" for j
    proof (cases "j = i")
      case True
      then show ?thesis using ok2 same by (simp add: rl_get_def js_nth_eq_Some)
    next
      case False
      then show ?thesis using that ok2 Suc.prems(3,5) same by simp
    qed
    moreover have "Suc i \<le> length (rl_list (tx_transactions q1))" using ok2 by simp
    moreover have "tx_build_loop cd [Suc i..<n] q1 = (r, q')" using Suc.prems(6) b i Inr by simp
    moreover have "d = n - Suc i" using Suc.hyps(2) by simp
    ultimately have "tx_consistent cd q' \<and> tx_frame q' = tx_frame q1 \<and>
      (r = Inr () \<longrightarrow> n \<le> length (rl_list (tx_transactions q')) \<and>
        (\<forall>j < n. rl_list (tx_transactions q') ! j = Some (cd_signed cd (rl_list (tx_signed q1) ! j))))"
      using Suc.hyps(1) [of "Suc i" q1] ok1 same Suc.prems(2) i by simp
    then show ?thesis using fr same by simp
  qed
qed

lemma buildAll_ok:
  assumes "tx_consistent cd q" "tx_buildAllTransactions cd q = (r, q')"
  shows "tx_consistent cd q' \<and> tx_frame q' = tx_frame q \<and>
    (r = Inr () \<longrightarrow> rl_list (tx_transactions q') = map (Some \<circ> cd_signed cd) (rl_list (tx_signed q)))"
proof -
  note b = build_loop_ok [OF assms(1) order.refl _ _ _ assms(2) [unfolded tx_buildAllTransactions_def rl_length_def]]
  have c: "tx_consistent cd q'" and f: "tx_frame q' = tx_frame q"
    and all: "r = Inr () \<Longrightarrow> length (rl_list (tx_signed q)) \<le> length (rl_list (tx_transactions q')) \<and>
      (\<forall>j < length (rl_list (tx_signed q)).
        rl_list (tx_transactions q') ! j = Some (cd_signed cd (rl_list (tx_signed q) ! j)))"
    using b by simp_all
  have "length (rl_list (tx_transactions q')) \<le> length (rl_list (tx_signed q))"
    using c frame_fields(1) [OF f] by (simp add: tx_consistent_def)
  then have "rl_list (tx_transactions q') = map (Some \<circ> cd_signed cd) (rl_list (tx_signed q))" if "r = Inr ()"
    using all [OF that] by (intro nth_equalityI) auto
  with c f show ?thesis by blast
qed

lemma consistent_lockIds [simp]: "tx_consistent cd q \<Longrightarrow> tx_consistent cd (tx_lockIds q)"
  by (simp add: tx_consistent_def tx_lockIds_def)

lemma consistent_lockBuilt [simp]: "tx_consistent cd q \<Longrightarrow> tx_consistent cd (tx_lockBuilt q)"
  by (simp add: tx_consistent_def tx_lockBuilt_def)

lemma lock_fields [simp]:
  "tx_signed (tx_lockIds q) = tx_signed q" "tx_transactions (tx_lockIds q) = tx_transactions q"
  "tx_signerKeys (tx_lockIds q) = tx_signerKeys q" "ex_signOnDemand (tx_lockIds q) = ex_signOnDemand q"
  "rl_list (ex_nodeIds (tx_lockIds q)) = rl_list (ex_nodeIds q)"
  "rl_list (tx_signed (tx_lockBuilt q)) = rl_list (tx_signed q)"
  "rl_list (tx_transactions (tx_lockBuilt q)) = rl_list (tx_transactions q)"
  "ex_signOnDemand (tx_lockBuilt q) = ex_signOnDemand q"
  "tx_signerKeys (tx_lockBuilt q) = tx_signerKeys q"
  by (simp_all add: tx_lockIds_def tx_lockBuilt_def)

text \<open>Signing all positions with a new key.\<close>

lemma consistent_sign:
  assumes "tx_consistent cd q" "key \<notin> set (tx_signerKeys q)"
    and "rl_list (tx_signed q) = [] \<Longrightarrow> rl_locked (tx_signed q')"
    and "rl_list (tx_transactions q') = []" "rl_list (ex_nodeIds q') = rl_list (ex_nodeIds q)"
    and "rl_list (tx_signed q') = map (\<lambda>s. sg_add key (f s) s) (rl_list (tx_signed q))"
    and "tx_signerKeys q' = tx_signerKeys q @ [key]" "rl_locked (ex_nodeIds q')"
  shows "tx_consistent cd q'"
  using assms by (auto simp: tx_consistent_def sg_add_def tx_addressed_def)

text \<open>A transaction without signed transactions.\<close>

lemma consistent_unsigned:
  "rl_list (tx_signed q) = [] \<Longrightarrow>
     tx_consistent cd q \<longleftrightarrow> rl_list (tx_transactions q) = [] \<and> distinct (tx_signerKeys q) \<and>
       (tx_signerKeys q = [] \<or> rl_locked (tx_signed q) \<and> rl_locked (ex_nodeIds q))"
  by (auto simp: tx_consistent_def)

lemma makeSigned_ok:
  assumes "tx_makeSignedTransaction cd node q = Inr s"
  shows "tx_addressed cd node s \<and> sg_sigs s = []"
proof -
  from assms obtain b where "tx_makeTransactionBody cd node q = Inr b" "s = \<lparr>sg_body = cd_body cd b, sg_sigs = []\<rparr>"
    by (auto simp: tx_makeSignedTransaction_def js_bind_eq_Inr)
  moreover from this(1) have "bd_node b = node"
    by (auto simp: tx_makeTransactionBody_def js_bind_eq_Inr split: option.splits)
  ultimately show ?thesis unfolding tx_addressed_def by auto
qed

lemma buildSigned_ok:
  assumes "tx_buildSignedTransactions cd q = (r, q')" "tx_consistent cd q" "rl_list (tx_signed q) = []"
  shows "tx_consistent cd q' \<and> (r = Inr () \<longrightarrow> \<not> rl_locked (tx_signed q) \<longrightarrow>
    length (rl_list (tx_signed q')) = length (rl_list (ex_nodeIds q')))"
proof (cases "rl_locked (tx_signed q)")
  case True
  then show ?thesis using assms by (auto simp: tx_buildSignedTransactions_def)
next
  case unlocked: False
  then have empty: "rl_list (tx_transactions q) = []" "tx_signerKeys q = []"
    using assms(2) consistent_unsigned [OF assms(3), of cd] by auto
  show ?thesis
  proof (cases "js_map (\<lambda>n. tx_makeSignedTransaction cd (Some n) q) (rl_list (ex_nodeIds q))")
    case (Inl e)
    then show ?thesis using assms unlocked by (auto simp: tx_buildSignedTransactions_def)
  next
    case (Inr ss)
    then have q': "q' = q\<lparr>tx_signed := (tx_signed q)\<lparr>rl_list := ss, rl_index := Some 0\<rparr>\<rparr>"
      using assms(1) unlocked by (auto simp: tx_buildSignedTransactions_def rl_setList_def)
    note m = js_map_Inr [OF Inr]
    have "tx_addressed cd (js_nth (rl_list (ex_nodeIds q)) (k mod length (rl_list (ex_nodeIds q)))) (ss ! k) \<and>
        sg_sigs (ss ! k) = []" if "k < length ss" for k
      using m that makeSigned_ok [of cd "Some (rl_list (ex_nodeIds q) ! k)" q "ss ! k"] by simp
    then show ?thesis using q' empty m by (simp add: tx_consistent_def)
  qed
qed

lemma freezeWith_ok:
  assumes "tx_freezeWith cd validate pick client q = (r, client', q')"
    and "tx_consistent cd q" "rl_list (tx_signed q) = []"
  shows "tx_consistent cd q' \<and>
    ex_signOnDemand q' = (case client of None \<Rightarrow> False | Some c \<Rightarrow> cl_signOnDemand c)"
proof -
  let ?q1 = "tx_freezeDefaults client q"
  have d: "tx_transactions ?q1 = tx_transactions q" "tx_signerKeys ?q1 = tx_signerKeys q"
    "tx_signed ?q1 = tx_signed q"
    "ex_signOnDemand ?q1 = (case client of None \<Rightarrow> False | Some c \<Rightarrow> cl_signOnDemand c)"
    "ex_nodeIds ?q1 = ex_nodeIds q"
    by (simp_all add: tx_freezeDefaults_def Let_def)
  obtain r2 c2 q2 where p: "tx_setNodeAccountIds_client pick client ?q1 = (r2, c2, q2)"
    by (metis prod_cases3)
  have e: "tx_transactions q2 = tx_transactions q" "tx_signerKeys q2 = tx_signerKeys q"
    "tx_signed q2 = tx_signed q" "ex_signOnDemand q2 = ex_signOnDemand ?q1"
    "rl_locked (ex_nodeIds q2) = rl_locked (ex_nodeIds q)"
    using p d by (auto simp: tx_setNodeAccountIds_client_def rl_setList_def split: if_splits option.splits prod.splits sum.splits)
  note run = assms(1) [unfolded tx_freezeWith_def Let_def p]
  let ?q3 = "tx_buildNewTransactionIdList q2"
  obtain r4 q4 where b: "tx_buildSignedTransactions cd ?q3 = (r4, q4)"
    by (cases "tx_buildSignedTransactions cd ?q3")
  have q3: "tx_consistent cd q2" "tx_consistent cd ?q3"
    using assms(2,3) e consistent_unsigned [of q cd] by (auto simp: consistent_unsigned)
  have q4: "tx_consistent cd q4"
    using buildSigned_ok [OF b q3(2)] e assms(3) by simp
  have s4: "ex_signOnDemand q4 = ex_signOnDemand ?q1"
    using e b by (auto simp: tx_buildSignedTransactions_def split: if_splits sum.splits)
  have "q' = q2 \<or> q' = ?q3 \<or> q' = q4"
    using run b by (auto split: sum.splits if_splits)
  then show ?thesis
    using q3 q4 s4 e d by auto
qed

lemma not_frozen_start:
  assumes "\<not> tx_isFrozen_any q"
  shows "rl_list (tx_transactions q) = []" "rl_list (tx_signed q) = []" "\<not> ex_signOnDemand q"
  using assms by (auto simp: tx_isFrozen_any_def rl_length_def)

subsection \<open>The life of a transaction\<close>

text \<open>
  The operations of a transaction as steps; each keeps its change of state also when it
  ends in an error.  Freezing is a step of a transaction that is not frozen yet;
  adding a signature one of a transaction that does not sign on demand; and the
  execution loop asks for positions of signed transactions only.
\<close>

inductive tx_step ::
  "('m, 'd) codec \<Rightarrow> ('ch client \<Rightarrow> string list js \<times> 'ch client) \<Rightarrow>
   'm transaction_scheme \<Rightarrow> 'm transaction_scheme \<Rightarrow> bool"
  for cd pick where
  setNodes: "tx_setNodeAccountIds ids q = Inr q' \<Longrightarrow> tx_step cd pick q q'"
| setDuration: "tx_setTransactionValidDuration d q = Inr q' \<Longrightarrow> tx_step cd pick q q'"
| setFee: "tx_setMaxTransactionFee f q = Inr q' \<Longrightarrow> tx_step cd pick q q'"
| setRegenerate: "tx_setRegenerateTransactionId b q = Inr q' \<Longrightarrow> tx_step cd pick q q'"
| setMemo: "tx_setTransactionMemo t q = Inr q' \<Longrightarrow> tx_step cd pick q q'"
| setId: "tx_setTransactionId i q = Inr q' \<Longrightarrow> tx_step cd pick q q'"
| readId: "tx_transactionId q = (i, q') \<Longrightarrow> tx_step cd pick q q'"
| freeze: "\<not> tx_isFrozen_any q \<Longrightarrow> tx_freezeWith cd validate pick client q = (r, client', q') \<Longrightarrow>
    tx_step cd pick q q'"
| sign: "tx_signWith key signer q = Inr q' \<Longrightarrow> tx_step cd pick q q'"
| addSignature: "\<not> ex_signOnDemand q \<Longrightarrow> tx_addSignature cd key sig q = (r, q') \<Longrightarrow> tx_step cd pick q q'"
| toBytes: "tx_toBytes cd q = (bs, q') \<Longrightarrow> tx_step cd pick q q'"
| toBytesAsync: "tx_toBytesAsync cd q = (bs, q') \<Longrightarrow> tx_step cd pick q q'"
| signatures: "tx_getSignatures cd q = (sm, q') \<Longrightarrow> tx_step cd pick q q'"
| signaturesAsync: "tx_getSignaturesAsync cd q = (sm, q') \<Longrightarrow> tx_step cd pick q q'"
| hash: "tx_getTransactionHash cd q = (h, q') \<Longrightarrow> tx_step cd pick q q'"
| hashPerNode: "tx_getTransactionHashPerNode cd q = (hm, q') \<Longrightarrow> tx_step cd pick q q'"
| request: "ex_signOnDemand q \<or> (\<exists>k. tx_requestIndex q = Some k \<and> k < rl_length (tx_signed q)) \<Longrightarrow>
    tx_makeRequest cd q = (raw, q') \<Longrightarrow> tx_step cd pick q q'"
| advance: "q' = ex_advanceRequest q \<Longrightarrow> tx_step cd pick q q'"
| retry: "tx_shouldRetry q code = (x, q') \<Longrightarrow> tx_step cd pick q q'"
| respond: "tx_mapResponse cd q node raw = (y, q') \<Longrightarrow> tx_step cd pick q q'"
| fail: "tx_mapStatusError q code = (err, q') \<Longrightarrow> tx_step cd pick q q'"

definition tx_inv :: "('m, 'd) codec \<Rightarrow> 'm transaction_scheme \<Rightarrow> bool" where
  "tx_inv cd q \<longleftrightarrow> (\<not> ex_signOnDemand q \<longrightarrow> tx_consistent cd q)"

lemma consistent_other:
  assumes "tx_transactions q' = tx_transactions q" "tx_signed q' = tx_signed q"
    "tx_signerKeys q' = tx_signerKeys q" "rl_list (ex_nodeIds q') = rl_list (ex_nodeIds q)"
    "rl_locked (ex_nodeIds q') = rl_locked (ex_nodeIds q)"
  shows "tx_consistent cd q' = tx_consistent cd q"
  using assms by (simp add: tx_consistent_def)

lemma inv_setter:
  assumes "tx_inv cd q" "tx_requireNotFrozen q = Inr ()"
    and "tx_transactions q' = tx_transactions q" "tx_signed q' = tx_signed q"
    and "tx_signerKeys q' = tx_signerKeys q"
    and "rl_locked (ex_nodeIds q) \<Longrightarrow> rl_locked (ex_nodeIds q')"
  shows "tx_inv cd q'"
proof -
  have nf: "\<not> tx_isFrozen_any q" using assms(2) by (simp add: tx_requireNotFrozen_def split: if_splits)
  note start = not_frozen_start [OF nf]
  have "tx_consistent cd q" using assms(1) start(3) by (simp add: tx_inv_def)
  then show ?thesis using assms(3-6) start by (auto simp: tx_inv_def consistent_unsigned)
qed

lemma inv_buildAll:
  assumes "tx_inv cd q" "tx_buildAllTransactions cd q = (r, q')" "\<not> ex_signOnDemand q"
  shows "tx_inv cd q'"
  using buildAll_ok [OF _ assms(2)] assms(1,3) frame_fields(5) by (fastforce simp: tx_inv_def)

lemma inv_lockIds [simp]: "tx_inv cd q \<Longrightarrow> tx_inv cd (tx_lockIds q)"
  by (simp add: tx_inv_def)

lemma inv_lockBuilt [simp]: "tx_inv cd q \<Longrightarrow> tx_inv cd (tx_lockBuilt q)"
  by (simp add: tx_inv_def)

lemma push_loop_demand: "tx_push_loop cd k q = (r, q') \<Longrightarrow> ex_signOnDemand q' = ex_signOnDemand q"
proof (induction k arbitrary: q)
  case (Suc k)
  obtain r1 q1 where b: "tx_buildTransactionAsync cd q = (r1, q1)" by (cases "tx_buildTransactionAsync cd q")
  then have d: "ex_signOnDemand q1 = ex_signOnDemand q"
    by (auto simp: tx_buildTransactionAsync_def tx_signTransaction_def Let_def split: prod.splits)
  show ?case
  proof (cases r1)
    case (Inl e)
    then show ?thesis using Suc.prems b d by simp
  next
    case (Inr raw)
    show ?thesis
    proof (cases "rl_push (tx_transactions q1) [Some raw]")
      case (Inl e)
      then show ?thesis using Suc.prems b d Inr by simp
    next
      case l: (Inr l)
      then have "tx_push_loop cd k (q1\<lparr>tx_transactions := l\<rparr>) = (r, q')" using Suc.prems b Inr by simp
      from Suc.IH [OF this] d show ?thesis by simp
    qed
  qed
qed simp

lemma inv_buildAllAsync:
  assumes "tx_inv cd q" "tx_buildAllTransactionsAsync cd q = (r, q')"
  shows "tx_inv cd q' \<and> ex_signOnDemand q' = ex_signOnDemand q"
proof (cases "ex_signOnDemand q")
  case False
  then have b: "tx_buildAllTransactions cd q = (r, q')"
    using assms(2) by (simp add: tx_buildAllTransactionsAsync_def)
  have "tx_frame q' = tx_frame q"
    using b build_loop_frame unfolding tx_buildAllTransactions_def by (metis snd_conv)
  then show ?thesis using inv_buildAll [OF assms(1) b False] frame_fields(5) by blast
next
  case True
  have s: "ex_signOnDemand (snd (tx_buildSignedTransactions cd q)) = ex_signOnDemand q"
    by (simp add: tx_buildSignedTransactions_def split: sum.split)
  obtain r1 q1 where b: "tx_buildSignedTransactions cd q = (r1, q1)"
    by (cases "tx_buildSignedTransactions cd q")
  then have d: "ex_signOnDemand q1" using s True by simp
  have "q' = q1 \<or> tx_push_loop cd (rl_length (tx_signed q1)) q1 = (r, q')"
    using assms(2) True b by (auto simp: tx_buildAllTransactionsAsync_def split: sum.splits if_splits)
  then have "ex_signOnDemand q'" using push_loop_demand [of cd "rl_length (tx_signed q1)" q1] d by auto
  then show ?thesis using True by (simp add: tx_inv_def)
qed

lemmas setter_defs = tx_setNodeAccountIds_def tx_setTransactionValidDuration_def
  tx_setMaxTransactionFee_def tx_setRegenerateTransactionId_def tx_setTransactionMemo_def
  tx_setTransactionId_def ex_setNodeAccountIds_def

lemma inv_sign:
  assumes "tx_inv cd q" "tx_signWith key signer q = Inr q'"
  shows "tx_inv cd q' \<and> ex_signOnDemand q' = ex_signOnDemand q"
proof (cases "ex_signOnDemand q \<or> key \<in> set (tx_signerKeys q)")
  case True
  then show ?thesis using assms by (auto simp: tx_signWith_def tx_inv_def js_bind_eq_Inr Let_def split: if_splits)
next
  case False
  then have c: "tx_consistent cd q" and k: "key \<notin> set (tx_signerKeys q)"
    using assms(1) by (simp_all add: tx_inv_def)
  have "tx_isFrozen_any q" using assms(2) False
    by (auto simp: tx_signWith_def tx_requireFrozen_def js_bind_eq_Inr split: if_splits)
  then have ne: "rl_list (tx_signed q) \<noteq> []"
    using False c consistent_unsigned [of q cd] by (auto simp: tx_isFrozen_any_def rl_length_def)
  have q': "q' = (let q = tx_lockIds (q\<lparr>tx_transactions := rl_clear (tx_transactions q),
                   tx_signerKeys := tx_signerKeys q @ [key]\<rparr>)
              in q\<lparr>tx_signed := (tx_signed q)\<lparr>rl_list :=
                   map (\<lambda>s. sg_add key (signer (sg_body s)) s) (rl_list (tx_signed q))\<rparr>\<rparr>)"
    using assms(2) False by (auto simp: tx_signWith_def js_bind_eq_Inr Let_def tx_lockIds_def split: if_splits)
  have "tx_consistent cd q'"
    by (rule consistent_sign [OF c k, where f = "\<lambda>s. signer (sg_body s)"])
      (use ne in \<open>simp_all add: q' Let_def tx_lockIds_def rl_clear_def\<close>)
  then show ?thesis using False by (simp add: tx_inv_def q' Let_def tx_lockIds_def)
qed

lemma inv_addSignature:
  assumes "tx_inv cd q" "\<not> ex_signOnDemand q" "tx_addSignature cd key sig q = (r, q')"
  shows "tx_inv cd q'"
proof (cases "tx_requireOneNodeAccountId q")
  case (Inl e)
  then show ?thesis using assms by (simp add: tx_addSignature_def)
next
  case one: (Inr u)
  define p where "p = (if \<not> tx_isFrozen q then tx_freeze cd q else (Inr (), q))"
  obtain r1 q1 where p1: "p = (r1, q1)" by (cases p)
  have c: "tx_consistent cd q" using assms(1,2) by (simp add: tx_inv_def)
  have q1: "tx_consistent cd q1"
  proof (cases "tx_isFrozen q")
    case False
    then have "rl_list (tx_signed q) = []" by (simp add: tx_isFrozen_def rl_length_def)
    moreover obtain cl where "tx_freezeWith cd (\<lambda>_ _. Inr ()) (\<lambda>c. (Inr [], c)) (None :: unit client option) q = (r1, cl, q1)"
      using p1 False by (auto simp: p_def tx_freeze_def split: prod.splits)
    ultimately show ?thesis using c freezeWith_ok by blast
  qed (use p1 c in \<open>simp add: p_def\<close>)
  show ?thesis
  proof (cases "r1 = Inr () \<and> key \<notin> set (tx_signerKeys q1)")
    case True
    define q2 where "q2 = tx_lockIds (q1\<lparr>tx_transactions := rl_clear (tx_transactions q1)\<rparr>)"
    have q': "q' = q2\<lparr>tx_signed := rl_setLocked ((tx_signed q2)\<lparr>rl_list :=
                        map (sg_add key sig) (rl_list (tx_signed q2))\<rparr>),
                        tx_signerKeys := tx_signerKeys q2 @ [key],
                        tx_publicKeys := tx_publicKeys q2 @ [key],
                        tx_signers := tx_signers q2 @ [None]\<rparr>"
      using assms(3) one True p1 by (simp add: tx_addSignature_def p_def [symmetric] q2_def Let_def tx_lockIds_def)
    have "tx_consistent cd q'"
      by (rule consistent_sign [OF q1, where f = "\<lambda>_. sig" and key = key])
        (use True in \<open>simp_all add: q' q2_def tx_lockIds_def rl_clear_def rl_setLocked_def\<close>)
    then show ?thesis by (simp add: tx_inv_def)
  next
    case False
    then have "q' = q1" using assms(3) one p1
      by (auto simp: tx_addSignature_def p_def [symmetric] split: sum.splits if_splits)
    then show ?thesis using q1 by (simp add: tx_inv_def)
  qed
qed

lemma inv_makeRequest:
  assumes "tx_inv cd q" "tx_makeRequest cd q = (raw, q')"
    and "ex_signOnDemand q \<or> (\<exists>k. tx_requestIndex q = Some k \<and> k < rl_length (tx_signed q))"
  shows "tx_inv cd q' \<and> ex_signOnDemand q' = ex_signOnDemand q"
proof (cases "ex_signOnDemand q")
  case True
  then show ?thesis using makeRequest_demand [OF True, of cd] assms(2) by (auto simp: tx_inv_def)
next
  case False
  then obtain k where k: "tx_requestIndex q = Some k" "k < length (rl_list (tx_signed q))"
    using assms(3) by (auto simp: rl_length_def)
  obtain r1 q1 where b: "tx_buildTransaction cd (Some k) q = (r1, q1)"
    by (cases "tx_buildTransaction cd (Some k) q")
  have "tx_consistent cd q1"
    using buildTransaction_ok [OF _ k(2) b] assms(1) False by (simp add: tx_inv_def)
  moreover have "q' = q1" using assms(2) b k(1) False
    by (auto simp: tx_makeRequest_def split: sum.splits option.splits)
  ultimately show ?thesis
    using frame_fields(5) [of q1 q] buildTransaction_frame [of cd "Some k" q] b by (simp add: tx_inv_def)
qed

lemma inv_toBytes:
  assumes "tx_inv cd q" "tx_toBytes cd q = (bs, q')"
  shows "tx_inv cd q'"
proof -
  obtain r q1 where b: "tx_buildAllTransactions cd (tx_lockIds q) = (r, q1)"
    by (cases "tx_buildAllTransactions cd (tx_lockIds q)")
  have l: "tx_inv cd (tx_lockIds q)" using assms(1) by simp
  have "q' = q \<or> q' = q1 \<and> \<not> ex_signOnDemand q"
    using assms(2) b by (auto simp: tx_toBytes_def tx_requireNotSignOnDemand_def js_bind_eq_Inr
      split: sum.splits if_splits)
  then show ?thesis using inv_buildAll [OF l b] assms(1) by auto
qed

lemma inv_getSignatures: "tx_inv cd q \<Longrightarrow> tx_getSignatures cd q = (sm, q') \<Longrightarrow> tx_inv cd q'"
  using inv_buildAll [of cd q]
  by (auto simp: tx_getSignatures_def tx_requireNotSignOnDemand_def js_bind_eq_Inr Let_def
      split: sum.splits prod.splits if_splits)

lemma inv_async:
  assumes "tx_inv cd q" "tx_buildAllTransactionsAsync cd (tx_lockIds q) = (r, q1)"
  shows "tx_inv cd q1" "tx_inv cd (tx_lockBuilt q1)"
  using inv_buildAllAsync [of cd "tx_lockIds q" r q1] assms by simp_all

lemma inv_toBytesAsync: "tx_inv cd q \<Longrightarrow> tx_toBytesAsync cd q = (bs, q') \<Longrightarrow> tx_inv cd q'"
  using inv_async [of cd q] by (auto simp: tx_toBytesAsync_def Let_def split: sum.splits prod.splits)

lemma inv_getSignaturesAsync: "tx_inv cd q \<Longrightarrow> tx_getSignaturesAsync cd q = (sm, q') \<Longrightarrow> tx_inv cd q'"
  using inv_async [of cd q] by (auto simp: tx_getSignaturesAsync_def Let_def split: sum.splits prod.splits)

lemma inv_hash: "tx_inv cd q \<Longrightarrow> tx_getTransactionHash cd q = (h, q') \<Longrightarrow> tx_inv cd q'"
  using inv_async [of cd q]
  by (auto simp: tx_getTransactionHash_def Let_def split: sum.splits prod.splits option.splits)

lemma inv_hashPerNode: "tx_inv cd q \<Longrightarrow> tx_getTransactionHashPerNode cd q = (h, q') \<Longrightarrow> tx_inv cd q'"
  using inv_async(1) [of cd q]
  by (cases "tx_buildAllTransactionsAsync cd (tx_lockIds q)")
    (simp add: tx_getTransactionHashPerNode_def split: sum.splits)

lemma inv_same:
  assumes "tx_inv cd q" "tx_transactions q' = tx_transactions q" "tx_signed q' = tx_signed q"
    "tx_signerKeys q' = tx_signerKeys q" "rl_list (ex_nodeIds q') = rl_list (ex_nodeIds q)"
    "rl_locked (ex_nodeIds q') = rl_locked (ex_nodeIds q)" "ex_signOnDemand q' = ex_signOnDemand q"
  shows "tx_inv cd q'"
  using assms(1,7) by (simp add: tx_inv_def consistent_other [OF assms(2-6)])

lemma inv_ids [simp]: "tx_inv cd (q\<lparr>tx_ids := l\<rparr>) = tx_inv cd q"
  by (simp add: tx_inv_def tx_consistent_def)

lemma inv_readId: "tx_inv cd q \<Longrightarrow> tx_inv cd (snd (tx_transactionId q))"
  by (simp add: tx_transactionId_def)

lemma inv_getId: "tx_inv cd q \<Longrightarrow> tx_inv cd (snd (tx_getTransactionId q))"
  using inv_readId [of cd q]
  by (cases "tx_transactionId q"; cases "fst (tx_transactionId q)") (simp_all add: tx_getTransactionId_def)

text \<open>Every operation keeps the invariant.\<close>

lemma step_setter:
  assumes "tx_inv cd q" "js_bind (tx_requireNotFrozen q) f = Inr q'"
    and "\<And>p. f () = Inr p \<Longrightarrow> tx_transactions p = tx_transactions q \<and> tx_signed p = tx_signed q \<and>
      tx_signerKeys p = tx_signerKeys q \<and> (rl_locked (ex_nodeIds q) \<longrightarrow> rl_locked (ex_nodeIds p))"
  shows "tx_inv cd q'"
proof -
  from assms(2) have "tx_requireNotFrozen q = Inr ()" "f () = Inr q'"
    by (auto simp: js_bind_eq_Inr)
  with assms(3) [of q'] inv_setter [OF assms(1)] show ?thesis by blast
qed

lemma tx_step_inv: "tx_step cd pick q q' \<Longrightarrow> tx_inv cd q \<Longrightarrow> tx_inv cd q'"
proof (induction rule: tx_step.induct)
  case (freeze q validate client r client' q')
  note nf = not_frozen_start [OF freeze(1)]
  have "tx_consistent cd q" using freeze.prems nf(3) by (simp add: tx_inv_def)
  then show ?case using freezeWith_ok [OF freeze(2)] nf(2) by (simp add: tx_inv_def)
next
  case (advance q' q)
  show ?case by (rule inv_same [OF advance.prems]) (simp_all add: advance ex_advanceRequest_def rl_advance_def)
next
  case (retry q code x q')
  then have "q' = q \<or> q' = tx_buildNewTransactionIdList q" using shouldRetry_cases [of q code] by auto
  then show ?case using retry.prems inv_same [of cd q q'] by auto
next
  case (respond q node raw y q')
  then show ?case using inv_getId [of cd q]
    by (auto simp: tx_mapResponse_def split: prod.splits sum.splits)
next
  case (fail q code err q')
  then show ?case using inv_getId [of cd q]
    by (auto simp: tx_mapStatusError_def split: prod.splits sum.splits)
next
  case (readId q i q')
  then show ?case using inv_readId [of cd q] by simp
next
  case (setNodes ids q q')
  show ?case by (rule step_setter [OF setNodes.prems setNodes(1) [unfolded tx_setNodeAccountIds_def]])
      (auto simp: ex_setNodeAccountIds_def js_bind_eq_Inr)
next
  case (setDuration d q q')
  show ?case by (rule step_setter [OF setDuration.prems setDuration(1) [unfolded setter_defs]]) auto
next
  case (setFee f q q')
  show ?case by (rule step_setter [OF setFee.prems setFee(1) [unfolded setter_defs]]) auto
next
  case (setRegenerate b q q')
  show ?case by (rule step_setter [OF setRegenerate.prems setRegenerate(1) [unfolded setter_defs]]) auto
next
  case (setMemo t q q')
  show ?case by (rule step_setter [OF setMemo.prems setMemo(1) [unfolded setter_defs]]) auto
next
  case (setId i q q')
  show ?case by (rule step_setter [OF setId.prems setId(1) [unfolded setter_defs]])
      (auto simp: js_bind_eq_Inr)
qed (blast intro: inv_sign [THEN conjunct1] inv_addSignature inv_toBytes inv_getSignatures
  inv_toBytesAsync inv_getSignaturesAsync inv_hash inv_hashPerNode inv_makeRequest [THEN conjunct1])+

subsection \<open>Building returns\<close>

text \<open>
  Filling the positions in order never pads the list, so that its lock is not asked for.
\<close>

lemma buildTransaction_returns:
  assumes "k \<le> length (rl_list (tx_transactions q))" "k < length (rl_list (tx_signed q))"
  shows "fst (tx_buildTransaction cd (Some k) q) = Inr ()"
  using assms by (simp add: tx_buildTransaction_def rl_length_def rl_get_def)

lemma build_loop_returns:
  "tx_consistent cd q \<Longrightarrow> n \<le> length (rl_list (tx_signed q)) \<Longrightarrow>
    i \<le> length (rl_list (tx_transactions q)) \<Longrightarrow> fst (tx_build_loop cd [i..<n] q) = Inr ()"
proof (induction "n - i" arbitrary: i q)
  case (Suc d)
  then have i: "i < n" "[i..<n] = i # [Suc i..<n]" by (auto simp: upt_rec)
  obtain r1 q1 where b: "tx_buildTransaction cd (Some i) q = (r1, q1)"
    by (cases "tx_buildTransaction cd (Some i) q")
  have k: "i < length (rl_list (tx_signed q))" using i Suc.prems(2) by simp
  have r1: "r1 = Inr ()" using buildTransaction_returns [OF Suc.prems(3) k, of cd] b by simp
  note ok = buildTransaction_ok [OF Suc.prems(1) k b]
  have s: "tx_signed q1 = tx_signed q"
    using frame_fields(1) [of q1 q] buildTransaction_frame [of cd "Some i" q] b by simp
  have "fst (tx_build_loop cd [Suc i..<n] q1) = Inr ()"
    using Suc.hyps(1) [of "Suc i" q1] Suc.hyps(2) ok r1 s Suc.prems(2) by simp
  then show ?case using i b r1 by simp
qed simp

lemma toBytes_frozen:
  assumes "tx_consistent cd q" "tx_isFrozen q" "\<not> ex_signOnDemand q"
  shows "fst (tx_toBytes cd q) = Inr (cd_list cd (map (Some \<circ> cd_signed cd) (rl_list (tx_signed q))))"
proof -
  obtain r q' where b: "tx_buildAllTransactions cd (tx_lockIds q) = (r, q')"
    by (cases "tx_buildAllTransactions cd (tx_lockIds q)")
  have c: "tx_consistent cd (tx_lockIds q)" using assms(1) by simp
  have "r = Inr ()"
    using build_loop_returns [OF c order.refl, of 0] b by (simp add: tx_buildAllTransactions_def rl_length_def)
  moreover from this buildAll_ok [OF c b]
  have "rl_list (tx_transactions q') = map (Some \<circ> cd_signed cd) (rl_list (tx_signed q))" by simp
  ultimately show ?thesis
    using assms(2,3) b
    by (simp add: tx_toBytes_def tx_requireFrozen_def tx_requireNotSignOnDemand_def
        tx_isFrozen_any_def tx_isFrozen_def)
qed


subsection \<open>A frozen transaction\<close>

text \<open>What can happen to the signed transactions: each may gain signatures at its end.\<close>

definition sg_grown :: "signed \<Rightarrow> signed \<Rightarrow> bool" where
  "sg_grown s s' \<longleftrightarrow> sg_body s' = sg_body s \<and> prefix (sg_sigs s) (sg_sigs s')"

definition tx_grown :: "'m transaction_scheme \<Rightarrow> 'm transaction_scheme \<Rightarrow> bool" where
  "tx_grown q q' \<longleftrightarrow>
     list_all2 sg_grown (rl_list (tx_signed q)) (rl_list (tx_signed q')) \<and>
     rl_list (ex_nodeIds q') = rl_list (ex_nodeIds q) \<and>
     ex_signOnDemand q' = ex_signOnDemand q"

lemma sg_grown_refl [simp]: "sg_grown s s"
  by (simp add: sg_grown_def)

lemma sg_grown_trans: "sg_grown s t \<Longrightarrow> sg_grown t u \<Longrightarrow> sg_grown s u"
  by (auto simp: sg_grown_def)

lemma tx_grown_trans:
  assumes "tx_grown p q" "tx_grown q r"
  shows "tx_grown p r"
proof -
  have "list_all2 sg_grown (rl_list (tx_signed p)) (rl_list (tx_signed r))"
    using assms by (auto simp: tx_grown_def intro: list_all2_trans [OF sg_grown_trans])
  then show ?thesis using assms by (simp add: tx_grown_def)
qed

lemma tx_grown_same:
  "rl_list (tx_signed q') = rl_list (tx_signed q) \<Longrightarrow>
    rl_list (ex_nodeIds q') = rl_list (ex_nodeIds q) \<Longrightarrow>
    ex_signOnDemand q' = ex_signOnDemand q \<Longrightarrow> tx_grown q q'"
  by (simp add: tx_grown_def list.rel_refl)

lemma tx_grown_frame: "tx_frame q' = tx_frame q \<Longrightarrow> tx_grown q q'"
  using frame_fields [of q' q] by (intro tx_grown_same) simp_all

lemma buildAll_grown: "tx_buildAllTransactions cd q = (r, q') \<Longrightarrow> tx_grown q q'"
  using build_loop_frame [of cd "[0..<rl_length (tx_signed q)]" q]
  by (intro tx_grown_frame) (simp add: tx_buildAllTransactions_def)

lemma buildAllAsync_grown:
  "\<not> ex_signOnDemand q \<Longrightarrow> tx_buildAllTransactionsAsync cd q = (r, q') \<Longrightarrow> tx_grown q q'"
  using buildAll_grown [of cd q r q'] by (simp add: tx_buildAllTransactionsAsync_def)

lemma lockIds_grown: "tx_grown q (tx_lockIds q)"
  by (rule tx_grown_same) simp_all

lemma lockBuilt_grown: "tx_grown q (tx_lockBuilt q)"
  by (rule tx_grown_same) (simp_all add: tx_lockBuilt_def)

lemma tx_grown_refl [simp]: "tx_grown q q"
  by (rule tx_grown_same) simp_all

lemma async_grown:
  assumes "\<not> ex_signOnDemand q" "tx_buildAllTransactionsAsync cd (tx_lockIds q) = (r, q1)"
  shows "tx_grown q q1" "tx_grown q (tx_lockBuilt q1)"
proof -
  show "tx_grown q q1"
    using assms buildAllAsync_grown [of "tx_lockIds q"] lockIds_grown [of q] by (auto intro: tx_grown_trans)
  then show "tx_grown q (tx_lockBuilt q1)" using lockBuilt_grown by (rule tx_grown_trans)
qed

lemma sign_grown:
  assumes "\<not> ex_signOnDemand q" "tx_signWith key signer q = Inr q'"
  shows "tx_grown q q'"
proof (cases "key \<in> set (tx_signerKeys q)")
  case True
  then show ?thesis using assms by (auto simp: tx_signWith_def js_bind_eq_Inr split: if_splits)
next
  case False
  then have "rl_list (tx_signed q') = map (\<lambda>s. sg_add key (signer (sg_body s)) s) (rl_list (tx_signed q)) \<and>
      rl_list (ex_nodeIds q') = rl_list (ex_nodeIds q) \<and> \<not> ex_signOnDemand q'"
    using assms by (auto simp: tx_signWith_def js_bind_eq_Inr Let_def tx_lockIds_def split: if_splits)
  then show ?thesis
    using assms(1) by (auto simp: tx_grown_def sg_grown_def sg_add_def list_all2_conv_all_nth)
qed

lemma addSignature_frozen:
  assumes "tx_isFrozen q"
  shows "tx_addSignature cd key sig q =
    (case tx_requireOneNodeAccountId q of
       Inl e \<Rightarrow> (Inl e, q)
     | Inr _ \<Rightarrow>
         if key \<in> set (tx_signerKeys q) then (Inr (), q)
         else (Inr (), tx_lockIds q\<lparr>tx_transactions := rl_clear (tx_transactions q),
                 tx_signed := rl_setLocked ((tx_signed q)\<lparr>rl_list :=
                        map (sg_add key sig) (rl_list (tx_signed q))\<rparr>),
                 tx_signerKeys := tx_signerKeys q @ [key],
                 tx_publicKeys := tx_publicKeys q @ [key],
                 tx_signers := tx_signers q @ [None]\<rparr>))"
  using assms by (simp add: tx_addSignature_def tx_lockIds_def Let_def split: sum.split)

lemma addSignature_grown:
  assumes "tx_isFrozen q" "tx_addSignature cd key sig q = (r, q')"
  shows "tx_grown q q'"
proof -
  have "q' = q \<or> rl_list (tx_signed q') = map (sg_add key sig) (rl_list (tx_signed q)) \<and>
      rl_list (ex_nodeIds q') = rl_list (ex_nodeIds q) \<and> ex_signOnDemand q' = ex_signOnDemand q"
    using assms(2) unfolding addSignature_frozen [OF assms(1)]
    by (auto simp: tx_lockIds_def rl_setLocked_def split: sum.splits if_splits)
  then show ?thesis
    by (auto simp: tx_grown_def sg_grown_def sg_add_def list_all2_conv_all_nth)
qed

lemma makeRequest_grown:
  "\<not> ex_signOnDemand q \<Longrightarrow> tx_makeRequest cd q = (raw, q') \<Longrightarrow> tx_grown q q'"
  using makeRequest_direct [of q cd] by (intro tx_grown_frame) simp

lemma readId_grown: "tx_grown q (snd (tx_transactionId q))" "tx_grown q (snd (tx_getTransactionId q))"
proof -
  show a: "tx_grown q (snd (tx_transactionId q))"
    by (simp add: tx_transactionId_def tx_grown_same)
  then show "tx_grown q (snd (tx_getTransactionId q))"
    by (cases "tx_transactionId q"; cases "fst (tx_transactionId q)") (simp_all add: tx_getTransactionId_def)
qed

lemma setters_frozen:
  assumes "tx_isFrozen_any q"
  shows "tx_setNodeAccountIds ids q = Inl TxImmutable" "tx_setTransactionValidDuration d q = Inl TxImmutable"
    "tx_setMaxTransactionFee f q = Inl TxImmutable" "tx_setRegenerateTransactionId b q = Inl TxImmutable"
    "tx_setTransactionMemo t q = Inl TxImmutable" "tx_setTransactionId i q = Inl TxImmutable"
  using assms by (simp_all add: setter_defs tx_requireNotFrozen_def)

lemma tx_step_grown:
  "tx_step cd pick q q' \<Longrightarrow> tx_isFrozen q \<Longrightarrow> \<not> ex_signOnDemand q \<Longrightarrow> tx_grown q q'"
proof (induction rule: tx_step.induct)
  case (toBytes q bs q')
  obtain r q1 where b: "tx_buildAllTransactions cd (tx_lockIds q) = (r, q1)"
    by (cases "tx_buildAllTransactions cd (tx_lockIds q)")
  have "q' = q \<or> q' = q1"
    using toBytes(1) b by (auto simp: tx_toBytes_def split: sum.splits)
  then show ?case using tx_grown_trans [OF lockIds_grown buildAll_grown [OF b]] by auto
next
  case (signatures q sm q')
  obtain r q1 where b: "tx_buildAllTransactions cd q = (r, q1)"
    by (cases "tx_buildAllTransactions cd q")
  have "q' = q \<or> q' = q1 \<or> q' = tx_lockIds q1"
    using signatures(1) b by (auto simp: tx_getSignatures_def Let_def split: sum.splits)
  then show ?case
    using buildAll_grown [OF b] tx_grown_trans [OF buildAll_grown [OF b] lockIds_grown] by auto
next
  case (toBytesAsync q bs q')
  obtain r q1 where b: "tx_buildAllTransactionsAsync cd (tx_lockIds q) = (r, q1)"
    by (cases "tx_buildAllTransactionsAsync cd (tx_lockIds q)")
  have "q' = q1 \<or> q' = tx_lockBuilt q1"
    using toBytesAsync(1) b by (auto simp: tx_toBytesAsync_def Let_def split: sum.splits)
  then show ?case using async_grown [OF toBytesAsync(3) b] by auto
next
  case (signaturesAsync q sm q')
  obtain r q1 where b: "tx_buildAllTransactionsAsync cd (tx_lockIds q) = (r, q1)"
    by (cases "tx_buildAllTransactionsAsync cd (tx_lockIds q)")
  have "q' = q1 \<or> q' = tx_lockBuilt q1"
    using signaturesAsync(1) b by (auto simp: tx_getSignaturesAsync_def Let_def split: sum.splits)
  then show ?case using async_grown [OF signaturesAsync(3) b] by auto
next
  case (hash q h q')
  obtain r q1 where b: "tx_buildAllTransactionsAsync cd (tx_lockIds q) = (r, q1)"
    by (cases "tx_buildAllTransactionsAsync cd (tx_lockIds q)")
  have "q' = q \<or> q' = q1 \<or> q' = tx_lockBuilt q1"
    using hash(1) b by (auto simp: tx_getTransactionHash_def Let_def split: sum.splits option.splits)
  then show ?case using async_grown [OF hash(3) b] by auto
next
  case (hashPerNode q hm q')
  obtain r q1 where b: "tx_buildAllTransactionsAsync cd (tx_lockIds q) = (r, q1)"
    by (cases "tx_buildAllTransactionsAsync cd (tx_lockIds q)")
  have "q' = q \<or> q' = q1"
    using hashPerNode(1) b by (auto simp: tx_getTransactionHashPerNode_def split: sum.splits)
  then show ?case using async_grown [OF hashPerNode(3) b] by auto
next
  case (retry q code x q')
  then have "q' = q \<or> q' = tx_buildNewTransactionIdList q" using shouldRetry_cases [of q code] by auto
  then show ?case by (auto intro: tx_grown_same)
next
  case (respond q node raw y q')
  obtain i q1 where i: "tx_getTransactionId q = (i, q1)" by (cases "tx_getTransactionId q")
  then have "q' = q1 \<or> (\<exists>l. q' = q1\<lparr>tx_ids := l\<rparr>)"
    using respond(1) by (cases i) (auto simp: tx_mapResponse_def)
  then show ?case using readId_grown(2) [of q] i by (auto simp: tx_grown_def)
next
  case (fail q code err q')
  obtain i q1 where i: "tx_getTransactionId q = (i, q1)" by (cases "tx_getTransactionId q")
  then have "q' = q \<or> q' = q1"
    using fail(1) by (cases i) (auto simp: tx_mapStatusError_def split: sum.splits)
  then show ?case using readId_grown(2) [of q] i by auto
next
  case (readId q i q')
  then show ?case using readId_grown(1) [of q] by simp
next
  case (advance q' q)
  then show ?case by (auto simp: ex_advanceRequest_def intro: tx_grown_same)
next
  case (freeze q)
  then show ?case by (simp add: tx_isFrozen_any_def tx_isFrozen_def)
qed (auto simp: setters_frozen tx_isFrozen_any_def tx_isFrozen_def
    intro: sign_grown addSignature_grown makeRequest_grown)


end
