(* ===== verification/TxExec.thy ===== *)
theory TxExec
  imports TxRun
begin

text \<open>
  The execution of transactions: the methods of \<open>Transaction.js\<close> are an instance of the
  request classes of \<open>Execute\<close>, and the laws proved once there for all of them say where
  the attempts of a transaction go and what they carry.
\<close>

subsection \<open>Transactions as addressed requests\<close>

text \<open>The keys whose signatures a request carries, in their order.\<close>

definition tx_keys :: "'m transaction_scheme \<Rightarrow> string list" where
  "tx_keys q =
     (if ex_signOnDemand q
      then map fst (filter (\<lambda>p. \<not> Option.is_none (snd p)) (zip (tx_publicKeys q) (tx_signers q)))
      else tx_signerKeys q)"

definition tx_ready :: "('m, 'd) codec \<Rightarrow> string list \<Rightarrow> 'm transaction_scheme \<Rightarrow> bool" where
  "tx_ready cd ks q \<longleftrightarrow> tx_inv cd q \<and> tx_keys q = ks"

definition tx_meant :: "('m, 'd) codec \<Rightarrow> string list \<Rightarrow> string \<Rightarrow> bytes \<Rightarrow> bool" where
  "tx_meant cd ks a r \<longleftrightarrow>
     (\<exists>s. tx_addressed cd (Some a) s \<and> map fst (sg_sigs s) = ks \<and> r = cd_signed cd s)"

lemma sign_loop_ok:
  "sg_body (tx_sign_loop ks fs s) = sg_body s \<and>
   map fst (sg_sigs (tx_sign_loop ks fs s)) =
     map fst (sg_sigs s) @ map fst (filter (\<lambda>p. \<not> Option.is_none (snd p)) (zip ks fs))"
  by (induction ks fs s rule: tx_sign_loop.induct) (auto simp: sg_add_def)

lemma next_current: "fst (rl_next l) = rl_current l"
  by (simp add: rl_next_def rl_advance_def rl_current_def rl_get_def split: option.split)

lemma demand_meant:
  assumes "ex_signOnDemand q" "tx_makeRequest cd q = (Inr r, q')" "rl_current (ex_nodeIds q) = Some a"
  shows "tx_meant cd (tx_keys q) a r \<and> tx_keys q' = tx_keys q"
proof -
  obtain l where n: "rl_next (ex_nodeIds q) = (Some a, l)"
    using next_current [of "ex_nodeIds q"] assms(3) by (cases "rl_next (ex_nodeIds q)") auto
  let ?q = "q\<lparr>ex_nodeIds := l\<rparr>"
  have run: "tx_makeRequest cd q =
      (js_bind (js_bind (tx_makeSignedTransaction cd (Some a) ?q)
         (\<lambda>s. Inr (tx_sign_loop (tx_publicKeys q) (tx_signers q) s))) (\<lambda>s. Inr (cd_signed cd s)), ?q)"
    using assms(1) n by (simp add: tx_makeRequest_def tx_buildTransactionAsync_def tx_signTransaction_def Let_def)
  from assms(2) have q': "q' = ?q" unfolding run by simp
  from assms(2) obtain s where s: "tx_makeSignedTransaction cd (Some a) ?q = Inr s"
      "r = cd_signed cd (tx_sign_loop (tx_publicKeys q) (tx_signers q) s)"
    unfolding run prod.inject js_bind_eq_Inr by blast
  have "tx_addressed cd (Some a) s \<and> sg_sigs s = []" by (rule makeSigned_ok [OF s(1)])
  then have "tx_addressed cd (Some a) (tx_sign_loop (tx_publicKeys q) (tx_signers q) s) \<and>
      map fst (sg_sigs (tx_sign_loop (tx_publicKeys q) (tx_signers q) s)) = tx_keys q"
    using sign_loop_ok [of "tx_publicKeys q" "tx_signers q" s] assms(1)
    by (simp add: tx_keys_def tx_addressed_def)
  then show ?thesis unfolding tx_meant_def s(2) q' by (auto simp: tx_keys_def)
qed

lemma direct_meant:
  assumes "\<not> ex_signOnDemand q" "tx_consistent cd q" "tx_makeRequest cd q = (Inr r, q')"
    and "rl_current (ex_nodeIds q) = Some a"
  shows "tx_meant cd (tx_keys q) a r \<and> tx_consistent cd q' \<and> tx_frame q' = tx_frame q"
proof -
  let ?ns = "rl_list (ex_nodeIds q)" and ?ss = "rl_list (tx_signed q)"
  obtain j where j: "rl_index (ex_nodeIds q) = Some j" "j < length ?ns" "?ns ! j = a"
    using assms(4) by (auto simp: rl_current_def rl_get_def js_nth_eq_Some split: option.splits)
  obtain r1 where b: "tx_buildTransaction cd (tx_requestIndex q) q = (Inr r1, q')"
    and raw: "rl_get (tx_transactions q') (tx_requestIndex q) = Some (Some r)"
    using assms(1,3) by (auto simp: tx_makeRequest_def split: prod.splits sum.splits option.splits)
  have "tx_requestIndex q \<noteq> None"
  proof
    assume "tx_requestIndex q = None"
    then show False using b by (simp add: tx_buildTransaction_def)
  qed
  then obtain i where k: "tx_requestIndex q = Some (i * length ?ns + j)"
    using j(1) by (auto simp: tx_requestIndex_def rl_length_def split: option.splits)
  let ?k = "i * length ?ns + j"
  have bk: "tx_buildTransaction cd (Some ?k) q = (Inr r1, q')" using b k by simp
  have k_in: "?k < length ?ss"
  proof (rule ccontr)
    assume no: "\<not> ?thesis"
    then have none: "rl_get (tx_signed q) (Some ?k) = None" by (simp add: rl_get_def)
    have le: "length (rl_list (tx_transactions q)) \<le> ?k"
      using no assms(2) unfolding tx_consistent_def by linarith
    have len: "?k = rl_length l"
      if "tx_pushNulls (?k - rl_length (tx_transactions q)) (tx_transactions q) = Inr l" for l
      using pushNulls_list [OF that] le by (simp add: rl_length_def)
    show False
    proof (cases "tx_pushNulls (?k - rl_length (tx_transactions q)) (tx_transactions q)")
      case (Inl e)
      then show False using bk by (simp add: tx_buildTransaction_def)
    next
      case (Inr l)
      show False using bk none Inr len [OF Inr] by (simp add: tx_buildTransaction_def)
    qed
  qed
  note ok = buildTransaction_ok [OF assms(2) k_in bk]
  have r: "r = cd_signed cd (?ss ! ?k)" using ok raw k by simp
  have "?k mod length ?ns = j" using j(2) by simp
  then have "tx_addressed cd (Some a) (?ss ! ?k) \<and> map fst (sg_sigs (?ss ! ?k)) = tx_signerKeys q"
    using assms(2) k_in j by (auto simp: tx_consistent_def)
  then show ?thesis
    using ok r assms(1) buildTransaction_frame [of cd "Some ?k" q] bk by (auto simp: tx_meant_def tx_keys_def)
qed

interpretation tr: addressed_requests "tx_methods cd" tx_adv "tx_ready cd ks" "tx_meant cd ks" for cd ks
proof (intro addressed_requests.intro transaction_order addressed_requests_axioms.intro)
  fix q r q' a
  assume q: "tx_ready cd ks q" "mt_makeRequest (tx_methods cd) q = (Inr r, q')"
    "rl_current (ex_nodeIds q) = Some a"
  then have m: "tx_makeRequest cd q = (Inr r, q')" by (simp add: tx_methods_def)
  show "tx_meant cd ks a r \<and> tx_ready cd ks q'"
  proof (cases "ex_signOnDemand q")
    case True
    then show ?thesis using demand_meant [OF True m q(3)] makeRequest_demand [OF True, of cd] m q(1)
      by (auto simp: tx_ready_def tx_inv_def)
  next
    case False
    then have "tx_consistent cd q" using q(1) by (simp add: tx_ready_def tx_inv_def)
    note d = direct_meant [OF False this m q(3)]
    then show ?thesis using q(1) False frame_fields [of q' q] by (simp add: tx_ready_def tx_inv_def tx_keys_def)
  qed
next
  fix q assume "tx_ready cd ks q"
  then show "tx_ready cd ks (ex_advanceRequest q)"
    using inv_same [of cd q "ex_advanceRequest q"]
    by (auto simp: tx_ready_def tx_keys_def ex_advanceRequest_def)
next
  fix q r s assume "tx_ready cd ks q"
  then show "tx_ready cd ks (snd (mt_shouldRetry (tx_methods cd) q r s))"
    using shouldRetry_cases [of q s] inv_same [of cd q "tx_buildNewTransactionIdList q"]
    by (auto simp: tx_ready_def tx_keys_def tx_methods_def)
qed

subsection \<open>Executing a transaction\<close>

lemma inv_settings [simp]:
  "tx_inv cd (q\<lparr>ex_requestTimeout := t\<rparr>) = tx_inv cd q"
  "tx_inv cd (q\<lparr>ex_minBackoff := b\<rparr>) = tx_inv cd q"
  "tx_inv cd (q\<lparr>ex_operator := x\<rparr>) = tx_inv cd q"
  "tx_inv cd (q\<lparr>tx_operatorAccountId := y\<rparr>) = tx_inv cd q"
  by (simp_all add: tx_inv_def tx_consistent_def)

definition tx_operatorFor :: "'ch client \<Rightarrow> 'm transaction_scheme \<Rightarrow> operator option" where
  "tx_operatorFor c q = (if ex_operator q = None then cl_operator c else ex_operator q)"

definition tx_setOperator :: "'ch client \<Rightarrow> 'm transaction_scheme \<Rightarrow> 'm transaction_scheme" where
  "tx_setOperator c q =
     q\<lparr>ex_operator := tx_operatorFor c q,
       tx_operatorAccountId :=
         (if tx_operatorAccountId q = None then map_option op_account (cl_operator c)
          else tx_operatorAccountId q)\<rparr>"

lemma setOperator_fields [simp]:
  "ex_operator (tx_setOperator c q) = tx_operatorFor c q"
  "ex_nodeIds (tx_setOperator c q) = ex_nodeIds q"
  "ex_signOnDemand (tx_setOperator c q) = ex_signOnDemand q"
  "tx_signerKeys (tx_setOperator c q) = tx_signerKeys q"
  "tx_publicKeys (tx_setOperator c q) = tx_publicKeys q"
  "tx_signers (tx_setOperator c q) = tx_signers q"
  "tx_inv cd (tx_setOperator c q) = tx_inv cd q"
  by (simp_all add: tx_setOperator_def)

lemma before_sign:
  assumes "tx_beforeExecute cd checksums validate pick c q = (Inr u, c1, q1)"
    and "tx_isFrozen_any q" "tx_operatorFor c q = Some oper"
  shows "c1 = c \<and> tx_signWith (op_publicKey oper) (op_signer oper) (tx_setOperator c q) = Inr q1"
proof -
  have *: "(if tx_operatorAccountId p = None
       then p\<lparr>tx_operatorAccountId := map_option op_account (cl_operator c)\<rparr> else p) = tx_setOperator c q"
    if "p = (if ex_operator q = None then q\<lparr>ex_operator := cl_operator c\<rparr> else q)" for p
    using that by (simp add: tx_setOperator_def tx_operatorFor_def)
  have frozen: "tx_isFrozen_any q = True" using assms(2) by simp
  have "tx_beforeExecute cd checksums validate pick c q =
      (case (if cl_autoValidateChecksums c then checksums q else Inr ()) of
         Inl e \<Rightarrow> (Inl e, c, q)
       | Inr _ \<Rightarrow>
           (case tx_operatorFor c q of
              None \<Rightarrow> (Inr (), c, tx_setOperator c q)
            | Some oper \<Rightarrow>
                (case tx_signWith (op_publicKey oper) (op_signer oper) (tx_setOperator c q) of
                   Inl e \<Rightarrow> (Inl e, c, tx_setOperator c q)
                 | Inr q \<Rightarrow> (Inr (), c, q))))"
    unfolding tx_beforeExecute_def frozen not_True_eq_False if_False prod.case sum.case Let_def
      option.sel * [OF refl] setOperator_fields ..
  then show ?thesis
    using assms(1,3)
    by (cases "if cl_autoValidateChecksums c then checksums q else Inr ()";
        cases "tx_signWith (op_publicKey oper) (op_signer oper) (tx_setOperator c q)") simp_all
qed

text \<open>What a call of \<open>signWith\<close> leaves of a transaction that does not sign on demand.\<close>

lemma sign_direct:
  assumes "tx_signWith key signer q = Inr q1" "tx_inv cd q" "\<not> ex_signOnDemand q"
  shows "tx_inv cd q1 \<and> \<not> ex_signOnDemand q1 \<and> key \<in> set (tx_signerKeys q1) \<and>
    ex_nodeIds q1 = rl_setLocked (ex_nodeIds q)"
proof -
  have "key \<in> set (tx_signerKeys q1) \<and> ex_nodeIds q1 = rl_setLocked (ex_nodeIds q)"
  proof (cases "key \<in> set (tx_signerKeys q)")
    case True
    then have "rl_locked (ex_nodeIds q)"
      using assms(2,3) by (auto simp: tx_inv_def tx_consistent_def)
    then show ?thesis using assms(1) True
      by (auto simp: tx_signWith_def js_bind_eq_Inr rl_setLocked_def split: if_splits)
  next
    case False
    then show ?thesis using assms(1,3)
      by (auto simp: tx_signWith_def js_bind_eq_Inr Let_def tx_lockIds_def split: if_splits)
  qed
  then show ?thesis using inv_sign [OF assms(2,1)] assms(3) by simp
qed

lemma execute_run:
  assumes "ex_execute m before init timeout start env c q = (res, q', c', evs)" "evs \<noteq> []"
  obtains t c1 q1 b maxA net where "before c (q\<lparr>ex_requestTimeout := t\<rparr>) = (Inr (), c1, q1)"
    "ex_loop m init maxA start env 1 (q1\<lparr>ex_minBackoff := b\<rparr>) (cl_network c1) = (res, q', net, evs)"
    "c' = c1\<lparr>cl_network := net\<rparr>"
  using assms(1) by (cases rule: execute_cases) (use assms(2) that in auto)

lemma steps_locked: "rl_current (rl_steps k (rl_setLocked l)) = rl_current (rl_steps k l)"
proof -
  have "rl_steps k (rl_setLocked l) = rl_setLocked (rl_steps k l)"
    by (induction k) (simp_all add: rl_steps_Suc rl_advance_def rl_setLocked_def split: option.split)
  then show ?thesis by (simp add: rl_current_def rl_get_def split: option.split)
qed


text \<open>
  C30. Signing on demand skips nodes: preparing the request moves the cursor of the node
  list once and the loop moves it again, so attempt i goes to the node at distance
  2 * (i - 1) from the cursor.  Each request still names the node it is sent to, but with
  an even number of nodes every second node is never contacted, however many attempts
  fail, although the loop is meant to go through the list one by one.
\<close>

theorem sign_on_demand_skips_nodes:
  assumes "ex_loop (tx_methods cd) init maxA start env 1 q net = (res, q', net', evs)"
    and "ex_signOnDemand q" "rl_locked (ex_nodeIds q)" "rl_index (ex_nodeIds q) = Some j"
    and "j < rl_length (ex_nodeIds q)" "even (rl_length (ex_nodeIds q))"
    and "set (rl_list (ex_nodeIds q)) \<subseteq> set (map fst (nw_network net))" "pool_inv net"
    and "Sent i n r \<in> set evs"
  shows "(\<exists>k < rl_length (ex_nodeIds q). even (k + j) \<and>
      nd_account (nw_node net n) = rl_list (ex_nodeIds q) ! k) \<and>
    (\<exists>s. tx_addressed cd (Some (nd_account (nw_node net n))) s \<and> r = cd_signed cd s)"
proof -
  let ?l = "ex_nodeIds q" and ?m = "(i - 1) * Suc (tx_adv (ex_signOnDemand q))"
  let ?k = "(j + (i - 1) * 2) mod rl_length ?l"
  have len: "j < length (rl_list ?l)" using assms(5) by (simp add: rl_length_def)
  then have inv: "rl_inv ?l" and ne: "rl_list ?l \<noteq> []"
    using assms(4) by (auto simp: rl_inv_def)
  have "Some (nd_account (nw_node net n)) = rl_current (rl_steps ?m ?l)"
    using tr.loop_order [OF assms(1,3) inv refl ne assms(7,8)] assms(9) by blast
  moreover have "rl_index (rl_steps ?m ?l) = Some ?k"
    using rl_steps_index [OF assms(4) ne len, of ?m] assms(2) by (simp add: tx_adv_def rl_length_def mult.commute mult_2)
  moreover have k: "?k < rl_length ?l" using assms(5) by simp
  ultimately have at: "nd_account (nw_node net n) = rl_list ?l ! ?k"
    by (simp add: rl_current_def rl_get_def rl_length_def)
  have "even (?k + j)"
    using assms(6) by (simp add: dvd_mod_iff)
  then have "\<exists>k < rl_length ?l. even (k + j) \<and> nd_account (nw_node net n) = rl_list ?l ! k"
    using at k by blast
  moreover have "tx_ready cd (tx_keys q) q" using assms(2) by (simp add: tx_ready_def tx_inv_def)
  then have "tx_meant cd (tx_keys q) (nd_account (nw_node net n)) r"
    using tr.loop_sent [OF assms(1) _ assms(3) inv refl ne assms(7,8)] assms(9) by blast
  ultimately show ?thesis by (auto simp: tx_meant_def)
qed

subsection \<open>Freezing twice\<close>

lemma buildSigned_unsigned:
  assumes "tx_buildSignedTransactions cd q = (Inr u, q')" "\<not> rl_locked (tx_signed q)"
  shows "(\<forall>s \<in> set (rl_list (tx_signed q')). sg_sigs s = []) \<and>
    tx_signerKeys q' = tx_signerKeys q \<and> tx_transactions q' = tx_transactions q \<and>
    ex_signOnDemand q' = ex_signOnDemand q"
proof (cases "js_map (\<lambda>n. tx_makeSignedTransaction cd (Some n) q) (rl_list (ex_nodeIds q))")
  case (Inl e)
  then show ?thesis using assms by (simp add: tx_buildSignedTransactions_def)
next
  case (Inr ss)
  then have q': "q' = q\<lparr>tx_signed := (tx_signed q)\<lparr>rl_list := ss, rl_index := Some 0\<rparr>\<rparr>"
    using assms by (simp add: tx_buildSignedTransactions_def rl_setList_def)
  have "sg_sigs s = []" if "s \<in> set ss" for s
    using that js_map_Inr [OF Inr] makeSigned_ok [of cd _ q s] by (fastforce simp: in_set_conv_nth)
  then show ?thesis by (simp add: q')
qed

text \<open>
  C31. Freezing is not guarded: \<open>freezeWith\<close> on a transaction that is already frozen and
  signed rebuilds the signed transactions without their signatures, while the list of
  signers stays; from then on signing with any of these keys changes nothing, so that the
  signatures cannot be put back, and the requests built before are kept.
\<close>

theorem freezing_again_drops_signatures:
  assumes "tx_freezeWith cd validate pick client q = (Inr u, client', q')"
    and "\<not> rl_locked (tx_signed q)"
    and "case client of None \<Rightarrow> True | Some c \<Rightarrow> \<not> cl_signOnDemand c"
  shows "(\<forall>s \<in> set (rl_list (tx_signed q')). sg_sigs s = []) \<and>
    tx_transactions q' = tx_transactions q \<and> tx_signerKeys q' = tx_signerKeys q \<and>
    (tx_isFrozen_any q' \<longrightarrow>
      (\<forall>key \<in> set (tx_signerKeys q). \<forall>signer. tx_signWith key signer q' = Inr q'))"
proof -
  let ?q1 = "tx_freezeDefaults client q"
  have d: "tx_transactions ?q1 = tx_transactions q" "tx_signerKeys ?q1 = tx_signerKeys q"
    "tx_signed ?q1 = tx_signed q" "\<not> ex_signOnDemand ?q1"
    using assms(3) by (auto simp: tx_freezeDefaults_def Let_def split: option.split)
  obtain r2 c2 q2 where p: "tx_setNodeAccountIds_client pick client ?q1 = (r2, c2, q2)"
    by (metis prod_cases3)
  have e: "tx_transactions q2 = tx_transactions q" "tx_signerKeys q2 = tx_signerKeys q"
    "tx_signed q2 = tx_signed q" "\<not> ex_signOnDemand q2"
    using p d by (auto simp: tx_setNodeAccountIds_client_def split: if_splits option.splits prod.splits sum.splits)
  let ?q3 = "tx_buildNewTransactionIdList q2"
  note run = assms(1) [unfolded tx_freezeWith_def Let_def p]
  have b: "tx_buildSignedTransactions cd ?q3 = (Inr u, q')"
    using run e(4) by (auto split: sum.splits prod.splits)
  note u = buildSigned_unsigned [OF b]
  show ?thesis using u e assms(2) by (auto simp: tx_signWith_def tx_requireFrozen_def)
qed

subsection \<open>Expired transactions\<close>

lemma rl_get_set_same: "rl_get (rl_set h l (Some k) x) (Some k) = Some x"
  by (auto simp: rl_get_def rl_set_def rl_length_def js_upd_def js_nth_def nth_append)

text \<open>
  C29. The answers of the network to a transaction: busy, unknown and the two platform codes
  are retried as they are, \<open>OK\<close> ends the execution, a code that no status has throws, and
  every other status is an error.  An expired transaction is retried unless regeneration
  was switched off.  Its current id is then replaced by a new one of the operator, with
  the next generated time, only while the ids are not locked; and since signing directly
  locks them, a transaction that was signed directly is sent again exactly as it was, with
  the id that has expired.
\<close>

theorem transaction_answers:
  "fst (tx_shouldRetry q (Some code)) =
      (if code \<notin> set status_codes then Inl (BadStatus code)
       else if code \<in> {12, 21, 67, 69} then Inr Retry
       else if code = 0 then Inr Finished
       else if code = 4 \<and> tx_regenerate q \<noteq> Some False then Inr Retry
       else Inr Error) \<and>
    (code \<noteq> 4 \<or> rl_locked (tx_ids q) \<longrightarrow> snd (tx_shouldRetry q (Some code)) = q) \<and>
    (\<not> rl_locked (tx_ids q) \<and> tx_regenerate q \<noteq> Some False \<and> tx_operatorAccountId q = Some a \<and>
       rl_index (tx_ids q) = Some k \<longrightarrow>
       rl_get (tx_ids (snd (tx_shouldRetry q (Some 4)))) (Some k) =
         Some \<lparr>td_account = a, td_start = tx_starts q (tx_generated q), td_scheduled = False,
               td_nonce = None\<rparr>) \<and>
    (\<not> ex_signOnDemand q \<and> key \<notin> set (tx_signerKeys q) \<and> tx_signWith key signer q = Inr q1 \<longrightarrow>
       snd (tx_shouldRetry q1 (Some 4)) = q1)"
proof (intro conjI impI)
  show "fst (tx_shouldRetry q (Some code)) =
      (if code \<notin> set status_codes then Inl (BadStatus code)
       else if code \<in> {12, 21, 67, 69} then Inr Retry
       else if code = 0 then Inr Finished
       else if code = 4 \<and> tx_regenerate q \<noteq> Some False then Inr Retry
       else Inr Error)"
    by (cases "tx_regenerate q") (auto simp: tx_shouldRetry_def tx_status_def status_fromCode_def)
next
  assume "code \<noteq> 4 \<or> rl_locked (tx_ids q)"
  then show "snd (tx_shouldRetry q (Some code)) = q"
    by (auto simp: tx_shouldRetry_def tx_status_def status_fromCode_def tx_buildNewTransactionIdList_def
        split: option.split)
next
  assume h: "\<not> rl_locked (tx_ids q) \<and> tx_regenerate q \<noteq> Some False \<and> tx_operatorAccountId q = Some a \<and>
       rl_index (tx_ids q) = Some k"
  have "4 \<in> set status_codes" by (simp add: status_codes_def)
  then have "snd (tx_shouldRetry q (Some 4)) = tx_buildNewTransactionIdList q"
    using h by (cases "tx_regenerate q") (auto simp: tx_shouldRetry_def tx_status_def status_fromCode_def)
  then show "rl_get (tx_ids (snd (tx_shouldRetry q (Some 4)))) (Some k) =
         Some \<lparr>td_account = a, td_start = tx_starts q (tx_generated q), td_scheduled = False,
               td_nonce = None\<rparr>"
    using h by (simp add: tx_buildNewTransactionIdList_def Let_def rl_get_set_same)
next
  assume h: "\<not> ex_signOnDemand q \<and> key \<notin> set (tx_signerKeys q) \<and> tx_signWith key signer q = Inr q1"
  then have "rl_locked (tx_ids q1)"
    by (auto simp: tx_signWith_def js_bind_eq_Inr Let_def tx_lockIds_def split: if_splits)
  then show "snd (tx_shouldRetry q1 (Some 4)) = q1"
    by (auto simp: tx_shouldRetry_def tx_buildNewTransactionIdList_def split: sum.split option.split)
qed

subsection \<open>Witnesses\<close>

definition demo_codec :: "(unit, nat) codec" where
  "demo_codec =
     \<lparr>cd_data = (\<lambda>_. Inr 0),
      cd_body = (\<lambda>b. case bd_node b of None \<Rightarrow> [] | Some a \<Rightarrow> [of_nat (length a)]),
      cd_signed = (\<lambda>s. sg_body s @ concat (map snd (sg_sigs s))),
      cd_list = (\<lambda>l. concat (map (\<lambda>x. case x of None \<Rightarrow> [] | Some b \<Rightarrow> b) l)),
      cd_hash = id\<rparr>"

definition demo_id :: txid where
  "demo_id = \<lparr>td_account = ''2'', td_start = \<lparr>ts_seconds = 5, ts_nanos = 0\<rparr>,
              td_scheduled = False, td_nonce = None\<rparr>"

definition demo_new :: transaction where
  "demo_new = tx_new (\<lambda>_. \<lparr>ts_seconds = 9, ts_nanos = 0\<rparr>)"

definition demo_set :: transaction where
  "demo_set = demo_new\<lparr>ex_nodeIds := \<lparr>rl_list = [''3'', ''4''], rl_locked = True, rl_index = Some 0\<rparr>,
     tx_ids := \<lparr>rl_list = [demo_id], rl_locked = True, rl_index = Some 0\<rparr>\<rparr>"

definition demo_frozen :: transaction where
  "demo_frozen = snd (tx_freeze demo_codec demo_set)"

definition demo_signed :: transaction where
  "demo_signed = (case tx_signWith ''k'' (\<lambda>b. [7]) demo_frozen of Inl _ \<Rightarrow> demo_new | Inr q \<Rightarrow> q)"

lemmas demo_simps = demo_codec_def demo_id_def demo_new_def demo_set_def demo_frozen_def
  tx_new_def ex_new_def executable.defs transaction.defs setter_defs tx_requireNotFrozen_def
  tx_isFrozen_any_def tx_freeze_def tx_freezeWith_def tx_freezeDefaults_def
  tx_setNodeAccountIds_client_def tx_setTransactionId_check_def tx_validateIds_def
  tx_buildNewTransactionIdList_def tx_buildSignedTransactions_def tx_makeSignedTransaction_def
  tx_makeTransactionBody_def rl_defs Let_def

lemma demo_frozen_eq:
  "tx_freeze demo_codec demo_set = (Inr (), demo_frozen) \<and>
   rl_list (tx_signed demo_frozen) = [\<lparr>sg_body = [1], sg_sigs = []\<rparr>, \<lparr>sg_body = [1], sg_sigs = []\<rparr>] \<and>
   \<not> rl_locked (tx_signed demo_frozen) \<and>
   \<not> ex_signOnDemand demo_frozen \<and> tx_signerKeys demo_frozen = [] \<and>
   ex_operator demo_frozen = None \<and> ex_nodeIds demo_frozen = ex_nodeIds demo_set"
  by (simp add: demo_simps)

lemma demo_steps:
  "(tx_step demo_codec (\<lambda>c :: unit client. (Inr [], c)))\<^sup>*\<^sup>* demo_new demo_frozen"
proof -
  let ?step = "tx_step demo_codec (\<lambda>c :: unit client. (Inr [], c))"
  let ?q = "demo_new\<lparr>ex_nodeIds := \<lparr>rl_list = [''3'', ''4''], rl_locked = True, rl_index = Some 0\<rparr>\<rparr>"
  have "?step demo_new ?q"
    by (rule tx_step.setNodes [where ids = "[''3'', ''4'']"]) (simp add: demo_simps)
  moreover have "?step ?q demo_set"
    by (rule tx_step.setId [where i = demo_id]) (simp add: demo_simps)
  moreover have "?step demo_set demo_frozen"
  proof -
    obtain cl where f: "tx_freezeWith demo_codec (\<lambda>_ _. Inr ()) (\<lambda>c. (Inr [], c)) (None :: unit client option) demo_set =
        (Inr (), cl, demo_frozen)"
      using demo_frozen_eq by (auto simp: tx_freeze_def split: prod.splits)
    show ?thesis
      by (rule tx_step.freeze [OF _ f]) (simp add: demo_simps)
  qed
  ultimately show ?thesis by (meson converse_rtranclp_into_rtranclp r_into_rtranclp rtranclp_trans)
qed

lemma demo_sign:
  "tx_signWith ''k'' (\<lambda>b. [7]) demo_frozen = Inr demo_signed"
  "rl_list (tx_signed demo_signed) =
     [\<lparr>sg_body = [1], sg_sigs = [(''k'', [7])]\<rparr>, \<lparr>sg_body = [1], sg_sigs = [(''k'', [7])]\<rparr>]"
  "tx_signerKeys demo_signed = [''k'']" "\<not> ex_signOnDemand demo_signed" "tx_isFrozen demo_signed"
  "\<not> rl_locked (tx_signed demo_signed)"
  using demo_frozen_eq
  by (simp_all add: demo_signed_def tx_signWith_def tx_requireFrozen_def tx_isFrozen_any_def
      tx_isFrozen_def rl_length_def Let_def tx_lockIds_def sg_add_def)

lemma demo_signed_steps:
  "(tx_step demo_codec (\<lambda>c :: unit client. (Inr [], c)))\<^sup>*\<^sup>* demo_frozen demo_signed"
  using tx_step.sign [OF demo_sign(1)] by blast



theorem freezing_again_drops_signatures_witness:
  "map sg_sigs (rl_list (tx_signed (snd (tx_freeze demo_codec demo_signed)))) = [[], []]"
proof -
  obtain cl q where f: "tx_freezeWith demo_codec (\<lambda>_ _. Inr ()) (\<lambda>c. (Inr [], c)) (None :: unit client option)
      demo_signed = (Inr (), cl, q)" and l: "length (rl_list (tx_signed q)) = 2"
    using demo_frozen_eq
    by (simp add: demo_signed_def tx_signWith_def tx_requireFrozen_def tx_isFrozen_def tx_lockIds_def demo_simps)
  have "\<forall>s \<in> set (rl_list (tx_signed q)). sg_sigs s = []"
    using freezing_again_drops_signatures [OF f demo_sign(6)] by simp
  moreover obtain s1 s2 where "rl_list (tx_signed q) = [s1, s2]"
    using l by (auto simp: length_Suc_conv numeral_2_eq_2)
  ultimately show ?thesis using f by (simp add: tx_freeze_def)
qed

theorem transaction_answers_witness:
  "snd (tx_shouldRetry demo_signed (Some 4)) = demo_signed \<and>
   fst (tx_shouldRetry demo_signed (Some 4)) = Inr Retry"
proof -
  have "snd (tx_shouldRetry demo_signed (Some 4)) = demo_signed"
    using transaction_answers [of demo_frozen 0 "''2''" 0 "''k''" "\<lambda>b. [7]" demo_signed]
      demo_frozen_eq demo_sign(1) by simp
  moreover have "tx_regenerate demo_signed = None"
    by (simp add: demo_signed_def tx_signWith_def tx_requireFrozen_def tx_lockIds_def demo_simps)
  then have "fst (tx_shouldRetry demo_signed (Some 4)) = Inr Retry"
    using transaction_answers [of demo_signed 4, THEN conjunct1] by (simp add: status_codes_def)
  ultimately show ?thesis by blast
qed

definition demo_operator :: operator where
  "demo_operator = \<lparr>op_account = ''2'', op_publicKey = ''k'', op_signer = (\<lambda>b. [7])\<rparr>"

definition demo_client :: "unit client" where
  "demo_client = (cl_new 0)\<lparr>cl_network := echo_net, cl_operator := Some demo_operator\<rparr>"

definition demo_env :: "nat \<Rightarrow> nat option env" where
  "demo_env i =
     \<lparr>at_now = 10, at_random = 0, at_health = 10,
      at_outcome = After 1 (if i = 1 then Failure (GrpcFailure 14 []) else Response (Some 0)),
      at_failed = 12\<rparr>"

definition demo_run ::
  "tx_response js option \<times> transaction \<times> unit client \<times> bytes event list" where
  "demo_run = ex_execute (tx_methods demo_codec)
     (tx_beforeExecute demo_codec (\<lambda>_. Inr ()) (\<lambda>_ _. Inr ()) (\<lambda>c. (Inr [], c)))
     (\<lambda>_ _. ()) None 0 demo_env demo_client demo_frozen"

lemma demo_run_events: "snd (snd (snd demo_run)) = [Sent 1 0 [1, 7], Sent 2 1 [1, 7]]"
  by (simp add: demo_run_def ex_execute_def demo_client_def demo_operator_def cl_new_def demo_simps
      tx_beforeExecute_def tx_signWith_def tx_requireFrozen_def tx_lockIds_def sg_add_def
      ex_loop.simps ex_attempt_def ex_pickNode_def demo_env_def
      tx_methods_def tx_makeRequest_def tx_requestIndex_def tx_buildTransaction_def
      tx_shouldRetry_def tx_status_def status_fromCode_def status_codes_def tx_mapResponse_def
      tx_getTransactionId_def tx_transactionId_def
      example_simps mn_getNode_def mn_readmitNodes_def
      random_index_def mn_getChannel_def nw_update_def node_getChannel_def ex_advanceRequest_def
      node_isHealthy_def ex_race_def grpc_fromResponse_def grpc_fromValue_def grpc_codes_def
      ex_shouldRetryExceptionally_def mn_increaseBackoff_def node_increaseBackoff_def
      mn_decreaseBackoff_def node_decreaseBackoff_def js_nth_def)

lemma echo_pool: "pool_inv echo_net" "set (map fst (nw_network echo_net)) = {''3'', ''4''}"
  by (auto simp: pool_inv_def example_node_def) (auto simp: example_simps)


definition demand_tx :: transaction where
  "demand_tx = demo_set\<lparr>ex_signOnDemand := True, tx_publicKeys := [''k''], tx_signers := [Some (\<lambda>b. [7])],
     tx_signerKeys := [''k'']\<rparr>"

definition demand_run ::
  "tx_response js option \<times> transaction \<times> unit network \<times> bytes event list" where
  "demand_run = ex_loop (tx_methods demo_codec) (\<lambda>_ _. ()) 2 0 demo_env 1 demand_tx echo_net"

lemma demand_run_events: "snd (snd (snd demand_run)) = [Sent 1 0 [1, 7], Skipped 2 0]"
  by (simp add: demand_run_def demand_tx_def demo_client_def demo_operator_def cl_new_def demo_simps
      tx_signWith_def tx_requireFrozen_def tx_lockIds_def sg_add_def
      ex_loop.simps ex_attempt_def ex_pickNode_def demo_env_def
      tx_methods_def tx_makeRequest_def tx_buildTransactionAsync_def tx_signTransaction_def
      tx_shouldRetry_def tx_status_def status_fromCode_def status_codes_def tx_mapResponse_def
      tx_getTransactionId_def tx_transactionId_def
      example_simps mn_getNode_def mn_readmitNodes_def
      random_index_def mn_getChannel_def nw_update_def node_getChannel_def ex_advanceRequest_def
      node_isHealthy_def ex_race_def grpc_fromResponse_def grpc_fromValue_def grpc_codes_def
      ex_shouldRetryExceptionally_def mn_increaseBackoff_def node_increaseBackoff_def
      mn_decreaseBackoff_def node_decreaseBackoff_def js_nth_def)

theorem sign_on_demand_skips_nodes_witness:
  "\<exists>k < 2. even (k + 0) \<and> ''3'' = [''3'', ''4''] ! k"
proof -
  obtain res q' net' where run: "demand_run = (res, q', net', [Sent 1 0 [1, 7], Skipped 2 0])"
    using demand_run_events by (metis prod.collapse)
  have d: "ex_signOnDemand demand_tx" "rl_locked (ex_nodeIds demand_tx)"
    "rl_index (ex_nodeIds demand_tx) = Some 0" "0 < rl_length (ex_nodeIds demand_tx)"
    "even (rl_length (ex_nodeIds demand_tx))"
    "set (rl_list (ex_nodeIds demand_tx)) \<subseteq> set (map fst (nw_network echo_net))"
    "rl_list (ex_nodeIds demand_tx) = [''3'', ''4'']"
    using echo_pool(2) by (simp_all add: demand_tx_def demo_set_def rl_length_def)
  have "Sent 1 0 [1, 7] \<in> set [Sent 1 0 [1, 7], Skipped 2 0 :: bytes event]" by simp
  from sign_on_demand_skips_nodes [OF run [unfolded demand_run_def] d(1-6) echo_pool(1) this]
  show ?thesis using d(7) by (simp add: rl_length_def numeral_2_eq_2)
qed

end
