(* ===== verification/Wire.thy ===== *)
theory Wire
  imports JsValues
begin

text \<open>
  A self-delimiting encoding of plain data, with numbers in unary.  It stands for the
  encoders of the generated protobuf package in the witnesses of the theorems that assume
  only that decoding undoes encoding.
\<close>

definition codes :: "('a \<Rightarrow> bytes) \<Rightarrow> (bytes \<Rightarrow> 'a \<times> bytes) \<Rightarrow> bool" where
  "codes put get \<longleftrightarrow> (\<forall>x rest. get (put x @ rest) = (x, rest))"

definition put_nat :: "nat \<Rightarrow> bytes" where
  "put_nat n = replicate n 1 @ [0]"

fun get_nat :: "bytes \<Rightarrow> nat \<times> bytes" where
  "get_nat [] = (0, [])"
| "get_nat (b # bs) = (if b = 0 then (0, bs) else case get_nat bs of (n, r) \<Rightarrow> (Suc n, r))"

lemma codes_nat: "codes put_nat get_nat"
proof -
  have "get_nat (replicate n 1 @ 0 # rest) = (n, rest)" for n rest
    by (induction n) simp_all
  then show ?thesis by (simp add: codes_def put_nat_def)
qed

definition put_pair :: "('a \<Rightarrow> bytes) \<Rightarrow> ('b \<Rightarrow> bytes) \<Rightarrow> 'a \<times> 'b \<Rightarrow> bytes" where
  "put_pair pa pb p = pa (fst p) @ pb (snd p)"

definition get_pair :: "(bytes \<Rightarrow> 'a \<times> bytes) \<Rightarrow> (bytes \<Rightarrow> 'b \<times> bytes) \<Rightarrow> bytes \<Rightarrow> ('a \<times> 'b) \<times> bytes" where
  "get_pair ga gb bs = (case ga bs of (a, r) \<Rightarrow> case gb r of (b, r) \<Rightarrow> ((a, b), r))"

lemma codes_pair: "codes pa ga \<Longrightarrow> codes pb gb \<Longrightarrow> codes (put_pair pa pb) (get_pair ga gb)"
  by (simp add: codes_def put_pair_def get_pair_def)

text \<open>A type that another one represents.\<close>

definition put_via :: "('a \<Rightarrow> 'b) \<Rightarrow> ('b \<Rightarrow> bytes) \<Rightarrow> 'a \<Rightarrow> bytes" where
  "put_via f p x = p (f x)"

definition get_via :: "('b \<Rightarrow> 'a) \<Rightarrow> (bytes \<Rightarrow> 'b \<times> bytes) \<Rightarrow> bytes \<Rightarrow> 'a \<times> bytes" where
  "get_via g get bs = (case get bs of (y, r) \<Rightarrow> (g y, r))"

lemma codes_via: "codes p get \<Longrightarrow> (\<And>x. g (f x) = x) \<Longrightarrow> codes (put_via f p) (get_via g get)"
  by (simp add: codes_def put_via_def get_via_def)

fun put_items :: "('a \<Rightarrow> bytes) \<Rightarrow> 'a list \<Rightarrow> bytes" where
  "put_items p [] = []"
| "put_items p (x # xs) = p x @ put_items p xs"

fun get_items :: "nat \<Rightarrow> (bytes \<Rightarrow> 'a \<times> bytes) \<Rightarrow> bytes \<Rightarrow> 'a list \<times> bytes" where
  "get_items 0 get bs = ([], bs)"
| "get_items (Suc n) get bs = (case get bs of (x, r) \<Rightarrow> case get_items n get r of (xs, r) \<Rightarrow> (x # xs, r))"

definition put_list :: "('a \<Rightarrow> bytes) \<Rightarrow> 'a list \<Rightarrow> bytes" where
  "put_list p xs = put_nat (length xs) @ put_items p xs"

definition get_list :: "(bytes \<Rightarrow> 'a \<times> bytes) \<Rightarrow> bytes \<Rightarrow> 'a list \<times> bytes" where
  "get_list get bs = (case get_nat bs of (n, r) \<Rightarrow> get_items n get r)"

lemma codes_list:
  assumes "codes p get"
  shows "codes (put_list p) (get_list get)"
proof -
  have "get_items (length xs) get (put_items p xs @ rest) = (xs, rest)" for xs rest
    using assms by (induction xs) (simp_all add: codes_def)
  then show ?thesis using codes_nat by (simp add: codes_def put_list_def get_list_def)
qed

definition put_opt :: "('a \<Rightarrow> bytes) \<Rightarrow> 'a option \<Rightarrow> bytes" where
  "put_opt p x = (case x of None \<Rightarrow> put_nat 0 | Some y \<Rightarrow> put_nat 1 @ p y)"

definition get_opt :: "(bytes \<Rightarrow> 'a \<times> bytes) \<Rightarrow> bytes \<Rightarrow> 'a option \<times> bytes" where
  "get_opt get bs =
     (case get_nat bs of
        (n, r) \<Rightarrow> if n = 0 then (None, r) else case get r of (y, r) \<Rightarrow> (Some y, r))"

lemma codes_opt: "codes p get \<Longrightarrow> codes (put_opt p) (get_opt get)"
  using codes_nat by (auto simp: codes_def put_opt_def get_opt_def split: option.split)

abbreviation "put_word \<equiv> put_via unat put_nat"
abbreviation "get_word \<equiv> get_via of_nat get_nat"
abbreviation "put_string \<equiv> put_list (put_via (of_char :: char \<Rightarrow> nat) put_nat)"
abbreviation "get_string \<equiv> get_list (get_via (char_of :: nat \<Rightarrow> char) get_nat)"
abbreviation "put_bytes \<equiv> put_list (put_word :: 8 word \<Rightarrow> bytes)"
abbreviation "get_bytes \<equiv> get_list (get_word :: bytes \<Rightarrow> 8 word \<times> bytes)"

lemma codes_word: "codes put_word get_word"
  by (rule codes_via [OF codes_nat]) simp

lemma codes_string: "codes put_string get_string"
  by (rule codes_list [OF codes_via [OF codes_nat]]) simp

lemma codes_bytes: "codes put_bytes get_bytes"
  by (rule codes_list [OF codes_word])

lemma codes_end: "codes put get \<Longrightarrow> fst (get (put x)) = x"
  unfolding codes_def by (metis append_Nil2 fst_conv)

end
