(* ===== verification/TxBytes.thy ===== *)
theory TxBytes
  imports TxExec Wire
begin

text \<open>
  Reading a transaction from its bytes: \<open>Transaction.fromBytes\<close> and
  \<open>_fromProtobufTransactions\<close>, with \<open>util.compare\<close> on which the check of the bodies
  rests.  The decoders of the protobuf package, the registry of the transaction classes
  with the constructor each applies to the bodies, and the text of a transaction id are
  fields of \<open>decoder\<close>.
\<close>

subsection \<open>Comparing decoded messages\<close>

datatype jval = JNull | JUndefined | JNumber rat | JString string | JBool bool
  | JObject "(string \<times> jval) list"

fun js_compare :: "string list \<Rightarrow> jval \<Rightarrow> jval \<Rightarrow> bool js"
  and js_compare_fields :: "string list \<Rightarrow> (string \<times> jval) list \<Rightarrow> (string \<times> jval) list \<Rightarrow> bool js" where
  "js_compare ign (JObject xs) (JObject ys) =
     (if length xs \<noteq> length ys then Inr False else js_compare_fields ign xs ys)"
| "js_compare ign JNull (JObject _) = Inl TypeErr"
| "js_compare ign (JObject _) JNull = Inl TypeErr"
| "js_compare ign JNull JNull = Inl TypeErr"
| "js_compare ign (JNumber a) (JNumber b) = Inr (a = b)"
| "js_compare ign (JString a) (JString b) = Inr (a = b)"
| "js_compare ign (JBool a) (JBool b) = Inr (a = b)"
| "js_compare ign _ _ = Inr False"
| "js_compare_fields ign ((k, a) # xs) ((l, b) # ys) =
     (if k \<noteq> l then Inr False
      else if k \<in> set ign then js_compare_fields ign xs ys
      else js_bind (js_compare ign a b)
             (\<lambda>same. if \<not> same then Inr False else js_compare_fields ign xs ys))"
| "js_compare_fields ign _ _ = Inr True"

text \<open>Values without \<open>null\<close> and \<open>undefined\<close>, outside the ignored fields.\<close>

fun jval_plain :: "string list \<Rightarrow> jval \<Rightarrow> bool" where
  "jval_plain ign JNull = False"
| "jval_plain ign JUndefined = False"
| "jval_plain ign (JObject xs) = (\<forall>(k, a) \<in> set xs. k \<in> set ign \<or> jval_plain ign a)"
| "jval_plain ign _ = True"

text \<open>What remains of a value when the ignored fields are blanked out.\<close>

fun jval_erase :: "string list \<Rightarrow> jval \<Rightarrow> jval" where
  "jval_erase ign (JObject xs) =
     JObject (map (\<lambda>(k, a). (k, if k \<in> set ign then JNull else jval_erase ign a)) xs)"
| "jval_erase ign v = v"

lemma compare_equal:
  "jval_plain ign a \<Longrightarrow> jval_plain ign b \<Longrightarrow>
     js_compare ign a b = Inr (jval_erase ign a = jval_erase ign b)"
  "(\<forall>(k, a) \<in> set xs. k \<in> set ign \<or> jval_plain ign a) \<Longrightarrow>
   (\<forall>(k, a) \<in> set ys. k \<in> set ign \<or> jval_plain ign a) \<Longrightarrow> length xs = length ys \<Longrightarrow>
     js_compare_fields ign xs ys =
       Inr (map (\<lambda>(k, a). (k, if k \<in> set ign then JNull else jval_erase ign a)) xs =
            map (\<lambda>(k, a). (k, if k \<in> set ign then JNull else jval_erase ign a)) ys)"
proof (induction ign a b and ign xs ys rule: js_compare_js_compare_fields.induct)
  case (1 ign xs ys)
  then show ?case by (auto dest: map_eq_imp_length_eq)
next
  case (9 ign k a xs l b ys)
  then show ?case by auto
qed auto

text \<open>
  C27. \<open>util.compare\<close> is equality: on values without \<open>null\<close> and \<open>undefined\<close> it answers whether
  the two are the same once the ignored fields are blanked out, at every depth.  Where a
  \<open>null\<close> meets an object it throws.
\<close>

theorem compare_is_equality:
  "(jval_plain ign a \<longrightarrow> jval_plain ign b \<longrightarrow> js_compare ign a b = Inr (jval_erase ign a = jval_erase ign b)) \<and>
   js_compare ign JNull (JObject xs) = Inl TypeErr \<and> js_compare ign (JObject xs) JNull = Inl TypeErr"
  using compare_equal(1) by simp

theorem compare_is_equality_witness:
  "js_compare [''n''] (JObject [(''n'', JNull), (''a'', JObject [(''b'', JNumber 1)])])
     (JObject [(''n'', JNumber 7), (''a'', JObject [(''b'', JNumber 1)])]) = Inr True \<and>
   js_compare [''n''] (JObject [(''a'', JNumber 1)]) (JObject [(''a'', JNumber 2)]) = Inr False"
  using compare_is_equality [of "[''n'']" "JObject [(''n'', JNull), (''a'', JObject [(''b'', JNumber 1)])]"
      "JObject [(''n'', JNumber 7), (''a'', JObject [(''b'', JNumber 1)])]"]
    compare_is_equality [of "[''n'']" "JObject [(''a'', JNumber 1)]" "JObject [(''a'', JNumber 2)]"]
  by simp

subsection \<open>Reading the bytes\<close>

record 'd pbody =
  pb_data :: "'d option"
  pb_fee :: "int option"
  pb_memo :: "string option"
  pb_txid :: "txid option"
  pb_node :: "string option"
  pb_duration :: "int option"

record ('m, 'd) decoder =
  dc_list :: "bytes \<Rightarrow> bytes list js"
  dc_transaction :: "bytes \<Rightarrow> (bytes \<times> signed) js"
  dc_encode :: "signed \<Rightarrow> bytes"
  dc_signed :: "bytes \<Rightarrow> signed js"
  dc_body :: "bytes \<Rightarrow> 'd pbody js"
  dc_view :: "'d pbody \<Rightarrow> jval"
  dc_make :: "'d pbody list \<Rightarrow> 'm transaction_scheme js"
  dc_idText :: "txid \<Rightarrow> string"
  dc_checkKey :: "string \<Rightarrow> unit js"

definition tx_listOf :: "('m, 'd) decoder \<Rightarrow> bytes \<Rightarrow> bytes list js" where
  "tx_listOf dc raw =
     js_bind (dc_list dc raw) (\<lambda>l.
       if l = [] then
         js_bind (dc_transaction dc raw) (\<lambda>(signedBytes, legacy).
           Inr [if signedBytes \<noteq> [] then signedBytes else dc_encode dc legacy])
       else Inr l)"

definition add_unseen :: "('a \<Rightarrow> string) \<Rightarrow> 'a \<Rightarrow> 'a list \<Rightarrow> 'a list" where
  "add_unseen text x xs = (if text x \<in> set (map text xs) then xs else xs @ [x])"

fun tx_decode_loop ::
  "('m, 'd) decoder \<Rightarrow> bytes list \<Rightarrow> signed list \<Rightarrow> txid list \<Rightarrow> string list \<Rightarrow> 'd pbody list \<Rightarrow>
   (signed list \<times> txid list \<times> string list \<times> 'd pbody list) js" where
  "tx_decode_loop dc [] ss ids nodes bodies = Inr (ss, ids, nodes, bodies)"
| "tx_decode_loop dc (raw # raws) ss ids nodes bodies =
     js_bind (dc_signed dc raw) (\<lambda>s.
     js_bind (dc_body dc (sg_body s)) (\<lambda>b.
       if pb_data b = None then Inl BodyDataMissing
       else tx_decode_loop dc raws (ss @ [s])
              (case pb_txid b of None \<Rightarrow> ids | Some i \<Rightarrow> add_unseen (dc_idText dc) i ids)
              (case pb_node b of None \<Rightarrow> nodes | Some a \<Rightarrow> add_unseen id a nodes)
              (bodies @ [b])))"

definition body_view :: "('m, 'd) decoder \<Rightarrow> 'd pbody list \<Rightarrow> nat \<Rightarrow> jval" where
  "body_view dc bodies k = (if k < length bodies then dc_view dc (bodies ! k) else JUndefined)"

text \<open>The check of the bodies: each row agrees except for the node.\<close>

definition tx_checkBodies :: "('m, 'd) decoder \<Rightarrow> nat \<Rightarrow> nat \<Rightarrow> 'd pbody list \<Rightarrow> unit js" where
  "tx_checkBodies dc rows n bodies =
     js_bind (js_map (\<lambda>(i, j).
         js_bind (js_compare [''nodeAccountID'']
             (body_view dc bodies (i * n + j)) (body_view dc bodies (i * n + j + 1)))
           (\<lambda>same. if same then Inr () else Inl BodiesMismatch))
       (List.product [0..<rows] [0..<n - 1])) (\<lambda>_. Inr ())"

text \<open>The signatures of the first row give the signers, one entry per signature.\<close>

fun tx_load_keys :: "('m, 'd) decoder \<Rightarrow> string list \<Rightarrow> 'm transaction_scheme \<Rightarrow> 'm transaction_scheme js" where
  "tx_load_keys dc [] q = Inr q"
| "tx_load_keys dc (k # ks) q =
     js_bind (dc_checkKey dc k) (\<lambda>_.
       tx_load_keys dc ks
         (q\<lparr>tx_signerKeys := (if k \<in> set (tx_signerKeys q) then tx_signerKeys q
                             else tx_signerKeys q @ [k]),
            tx_publicKeys := tx_publicKeys q @ [k],
            tx_signers := tx_signers q @ [None]\<rparr>))"

text \<open>\<open>Long.toInt\<close> keeps the low 32 bits, signed.\<close>

definition to_int32 :: "int \<Rightarrow> int" where
  "to_int32 d = signed_take_bit 31 d"

lemma to_int32_small: "- (2 ^ 31) \<le> d \<Longrightarrow> d < 2 ^ 31 \<Longrightarrow> to_int32 d = d"
  by (simp add: to_int32_def signed_take_bit_int_eq_self)

definition tx_fromProtobufTransactions ::
  "('m, 'd) decoder \<Rightarrow> 'm transaction_scheme \<Rightarrow> bytes list \<Rightarrow> signed list \<Rightarrow> txid list \<Rightarrow>
   string list \<Rightarrow> 'd pbody list \<Rightarrow> 'm transaction_scheme js" where
  "tx_fromProtobufTransactions dc q raws ss ids nodes bodies =
     (case bodies of
        [] \<Rightarrow> Inl TypeErr
      | body # _ \<Rightarrow>
          js_bind (tx_checkBodies dc (length ids) (length nodes) bodies) (\<lambda>_.
          let nodes = filter (\<lambda>a. a \<noteq> ''0.0.0'') nodes
          in js_bind (rl_setList (tx_transactions q) (map Some raws)) (\<lambda>ts.
             js_bind (rl_setList (tx_signed q) ss) (\<lambda>sl.
             js_bind (rl_setList (tx_ids q) ids) (\<lambda>il.
             js_bind (rl_setList (ex_nodeIds q) nodes) (\<lambda>nl.
             js_bind (tx_load_keys dc
                 (concat (map (\<lambda>s. map fst (sg_sigs s)) (take (length nodes) ss)))
                 (q\<lparr>tx_transactions := ts, tx_signed := rl_setLocked sl,
                    tx_ids := rl_setLocked il, ex_nodeIds := rl_setLocked nl,
                    tx_validDuration := (case pb_duration body of None \<Rightarrow> 120 | Some d \<Rightarrow> to_int32 d),
                    tx_maxFee := Some (case pb_fee body of None \<Rightarrow> 0 | Some f \<Rightarrow> f),
                    tx_memo := (case pb_memo body of None \<Rightarrow> [] | Some t \<Rightarrow> t)\<rparr>)) (\<lambda>q.
               if length ss < length nodes then Inl TypeErr else Inr q)))))))"

definition tx_fromBytes :: "('m, 'd) decoder \<Rightarrow> bytes \<Rightarrow> 'm transaction_scheme js" where
  "tx_fromBytes dc raw =
     js_bind (tx_listOf dc raw) (\<lambda>raws.
     js_bind (tx_decode_loop dc raws [] [] [] []) (\<lambda>(ss, ids, nodes, bodies).
       case bodies of
         [] \<Rightarrow> Inl NoTransactionInBytes
       | _ \<Rightarrow> js_bind (dc_make dc bodies) (\<lambda>q.
                tx_fromProtobufTransactions dc q raws ss ids nodes bodies)))"

subsection \<open>Documented behaviour of the encoders\<close>

definition pbody_of :: "'d body \<Rightarrow> 'd pbody" where
  "pbody_of b =
     \<lparr>pb_data = Some (bd_data b), pb_fee = bd_fee b, pb_memo = Some (bd_memo b),
      pb_txid = Some (bd_txid b), pb_node = bd_node b, pb_duration = Some (bd_duration b)\<rparr>"

text \<open>
  A body that the messages can carry: amounts in 63 bits, and a valid start before 2038,
  since \<open>Timestamp._fromProtobuf\<close> reads the seconds with 32 bits.
\<close>

definition body_fits :: "'d body \<Rightarrow> bool" where
  "body_fits b \<longleftrightarrow>
     (case bd_fee b of None \<Rightarrow> False | Some f \<Rightarrow> 0 \<le> f \<and> f < 2 ^ 63) \<and>
     0 \<le> bd_duration b \<and> bd_duration b < 2 ^ 31 \<and>
     unat (ts_seconds (td_start (bd_txid b))) < 2 ^ 31"

definition decodes :: "('m, 'd) codec \<Rightarrow> ('m, 'd) decoder \<Rightarrow> bool" where
  "decodes cd dc \<longleftrightarrow>
     (\<forall>raws. raws \<noteq> [] \<longrightarrow> dc_list dc (cd_list cd (map Some raws)) = Inr raws) \<and>
     (\<forall>s. dc_signed dc (cd_signed cd s) = Inr s) \<and>
     (\<forall>b. body_fits b \<longrightarrow> dc_body dc (cd_body cd b) = Inr (pbody_of b)) \<and>
     (\<forall>b a1 a2. js_compare [''nodeAccountID''] (dc_view dc (pbody_of (b\<lparr>bd_node := Some a1\<rparr>)))
        (dc_view dc (pbody_of (b\<lparr>bd_node := Some a2\<rparr>))) = Inr True)"

text \<open>The same for the bodies with one data, which is all that reading them back needs.\<close>

definition decodes_data :: "'d \<Rightarrow> ('m, 'd) codec \<Rightarrow> ('m, 'd) decoder \<Rightarrow> bool" where
  "decodes_data d cd dc \<longleftrightarrow>
     (\<forall>raws. raws \<noteq> [] \<longrightarrow> dc_list dc (cd_list cd (map Some raws)) = Inr raws) \<and>
     (\<forall>s. dc_signed dc (cd_signed cd s) = Inr s) \<and>
     (\<forall>b. bd_data b = d \<longrightarrow> body_fits b \<longrightarrow> dc_body dc (cd_body cd b) = Inr (pbody_of b)) \<and>
     (\<forall>b a1 a2. bd_data b = d \<longrightarrow> js_compare [''nodeAccountID''] (dc_view dc (pbody_of (b\<lparr>bd_node := Some a1\<rparr>)))
        (dc_view dc (pbody_of (b\<lparr>bd_node := Some a2\<rparr>))) = Inr True)"

lemma decodes_each: "decodes cd dc \<Longrightarrow> decodes_data d cd dc"
  by (simp add: decodes_def decodes_data_def)

subsection \<open>Reading what was written\<close>

lemma decode_loop_ok:
  assumes "decodes_data (bd_data b) cd dc" "\<forall>a \<in> set as. body_fits (b\<lparr>bd_node := Some a\<rparr>)"
    and "length ss' = length as"
    and "\<forall>k < length as. sg_body (ss' ! k) = cd_body cd (b\<lparr>bd_node := Some (as ! k)\<rparr>)"
    and "distinct (nodes @ as)" "ids = [] \<or> ids = [bd_txid b]"
  shows "tx_decode_loop dc (map (cd_signed cd) ss') ss ids nodes bodies =
    Inr (ss @ ss', if as = [] then ids else [bd_txid b], nodes @ as,
         bodies @ map (\<lambda>a. pbody_of (b\<lparr>bd_node := Some a\<rparr>)) as)"
  using assms
proof (induction as arbitrary: ss' ss ids nodes bodies)
  case (Cons a as)
  then obtain s ss2 where s: "ss' = s # ss2" by (cases ss') auto
  have body: "sg_body s = cd_body cd (b\<lparr>bd_node := Some a\<rparr>)" using Cons.prems(4) s by force
  have dec: "dc_signed dc (cd_signed cd s) = Inr s"
    "dc_body dc (sg_body s) = Inr (pbody_of (b\<lparr>bd_node := Some a\<rparr>))"
    using Cons.prems(1,2) body by (simp_all add: decodes_data_def)
  have ids: "add_unseen (dc_idText dc) (bd_txid b) ids = [bd_txid b]"
    using Cons.prems(6) by (auto simp: add_unseen_def)
  have nodes: "add_unseen id a nodes = nodes @ [a]"
    using Cons.prems(5) by (simp add: add_unseen_def)
  have rest: "\<forall>k < length as. sg_body (ss2 ! k) = cd_body cd (b\<lparr>bd_node := Some (as ! k)\<rparr>)"
    using Cons.prems(4) s by force
  have "tx_decode_loop dc (map (cd_signed cd) ss2) (ss @ [s]) [bd_txid b] (nodes @ [a])
      (bodies @ [pbody_of (b\<lparr>bd_node := Some a\<rparr>)]) =
    Inr ((ss @ [s]) @ ss2, if as = [] then [bd_txid b] else [bd_txid b], (nodes @ [a]) @ as,
         (bodies @ [pbody_of (b\<lparr>bd_node := Some a\<rparr>)]) @ map (\<lambda>a. pbody_of (b\<lparr>bd_node := Some a\<rparr>)) as)"
    using Cons.prems s rest by (intro Cons.IH) auto
  then show ?case using s dec ids nodes by (simp add: pbody_of_def)
qed simp

lemma checkBodies_ok:
  assumes "decodes_data (bd_data b) cd dc"
  shows "tx_checkBodies dc (Suc 0) (length as) (map (\<lambda>a. pbody_of (b\<lparr>bd_node := Some a\<rparr>)) as) = Inr ()"
proof -
  have "js_map (\<lambda>(i, j). js_bind (js_compare [''nodeAccountID'']
             (body_view dc (map (\<lambda>a. pbody_of (b\<lparr>bd_node := Some a\<rparr>)) as) (i * length as + j))
             (body_view dc (map (\<lambda>a. pbody_of (b\<lparr>bd_node := Some a\<rparr>)) as) (i * length as + j + 1)))
           (\<lambda>same. if same then Inr () else Inl BodiesMismatch))
       (List.product [0..<Suc 0] [0..<length as - 1]) =
     Inr (map (\<lambda>_. ()) (List.product [0..<Suc 0] [0..<length as - 1]))"
    using assms by (intro js_map_total) (auto simp: body_view_def decodes_data_def)
  then show ?thesis by (simp add: tx_checkBodies_def)
qed

lemma load_keys_ok:
  "\<forall>k \<in> set ks. dc_checkKey dc k = Inr () \<Longrightarrow>
     tx_load_keys dc ks q = Inr (q\<lparr>tx_signerKeys := foldl (\<lambda>l k. if k \<in> set l then l else l @ [k]) (tx_signerKeys q) ks,
       tx_publicKeys := tx_publicKeys q @ ks,
       tx_signers := tx_signers q @ replicate (length ks) None\<rparr>)"
  by (induction ks arbitrary: q) simp_all

lemma foldl_seen: "set ks \<subseteq> set l \<Longrightarrow> foldl (\<lambda>l k. if k \<in> set l then l else l @ [k]) l ks = l"
  by (induction ks) auto

lemma foldl_fresh:
  "distinct (l @ ks) \<Longrightarrow> foldl (\<lambda>l k. if k \<in> set l then l else l @ [k]) l ks = l @ ks"
proof (induction ks arbitrary: l)
  case (Cons k ks)
  then show ?case using Cons.IH [of "l @ [k]"] by auto
qed simp

lemma foldl_rows:
  assumes "distinct ks" "n \<noteq> 0"
  shows "foldl (\<lambda>l k. if k \<in> set l then l else l @ [k]) [] (concat (replicate n ks)) = ks"
proof -
  obtain m where "n = Suc m" using assms(2) by (cases n) auto
  then have "concat (replicate n ks) = ks @ concat (replicate m ks)" by simp
  moreover have "set (concat (replicate m ks)) \<subseteq> set ks" by (auto split: if_splits)
  ultimately show ?thesis using foldl_fresh [of "[]" ks] assms(1) by (simp add: foldl_seen)
qed

text \<open>What freezing puts into the signed transactions.\<close>

definition tx_bodyOf :: "'d \<Rightarrow> txid \<Rightarrow> 'm transaction_scheme \<Rightarrow> 'd body" where
  "tx_bodyOf d i q =
     \<lparr>bd_data = d, bd_fee = tx_maxFee q, bd_memo = tx_memo q, bd_txid = i, bd_node = None,
      bd_duration = tx_validDuration q\<rparr>"

lemma freeze_bodies:
  assumes "tx_freezeWith cd validate pick client q0 = (Inr u, client', q1)"
    and "\<not> rl_locked (tx_signed q0)" "case client of None \<Rightarrow> True | Some c \<Rightarrow> \<not> cl_signOnDemand c"
    and "rl_list (ex_nodeIds q1) \<noteq> []"
  shows "\<not> ex_signOnDemand q1 \<and>
    (\<exists>d i. cd_data cd (q1\<lparr>tx_signed := tx_signed q0\<rparr>) = Inr d \<and> rl_current (tx_ids q1) = Some i \<and>
      rl_list (tx_signed q1) = map (\<lambda>a. \<lparr>sg_body = cd_body cd (tx_bodyOf d i q1\<lparr>bd_node := Some a\<rparr>),
        sg_sigs = []\<rparr>) (rl_list (ex_nodeIds q1)))"
proof -
  let ?q1 = "tx_freezeDefaults client q0"
  have d: "tx_signed ?q1 = tx_signed q0" "\<not> ex_signOnDemand ?q1"
    using assms(3) by (auto simp: tx_freezeDefaults_def Let_def split: option.split)
  obtain r2 c2 q2 where p: "tx_setNodeAccountIds_client pick client ?q1 = (r2, c2, q2)"
    by (metis prod_cases3)
  have e: "tx_signed q2 = tx_signed q0" "\<not> ex_signOnDemand q2"
    using p d by (auto simp: tx_setNodeAccountIds_client_def split: if_splits option.splits prod.splits sum.splits)
  let ?q3 = "tx_buildNewTransactionIdList q2"
  note run = assms(1) [unfolded tx_freezeWith_def Let_def p]
  have b: "tx_buildSignedTransactions cd ?q3 = (Inr u, q1)"
    using run e(2) by (auto split: sum.splits prod.splits)
  obtain ss where ss: "js_map (\<lambda>n. tx_makeSignedTransaction cd (Some n) ?q3) (rl_list (ex_nodeIds ?q3)) = Inr ss"
    and q1: "q1 = ?q3\<lparr>tx_signed := (tx_signed ?q3)\<lparr>rl_list := ss, rl_index := Some 0\<rparr>\<rparr>"
    using b e(1) assms(2) by (auto simp: tx_buildSignedTransactions_def rl_setList_def split: sum.splits if_splits)
  let ?ns = "rl_list (ex_nodeIds q1)"
  have ns: "rl_list (ex_nodeIds ?q3) = ?ns" by (simp add: q1)
  note m = js_map_Inr [OF ss [unfolded ns]]
  have "0 < length ?ns" using assms(4) by simp
  then have "tx_makeSignedTransaction cd (Some (?ns ! 0)) ?q3 = Inr (ss ! 0)" using m by blast
  then obtain d i where di: "cd_data cd ?q3 = Inr d" "rl_current (tx_ids ?q3) = Some i"
    by (auto simp: tx_makeSignedTransaction_def tx_makeTransactionBody_def js_bind_eq_Inr split: option.splits)
  have "ss ! k = \<lparr>sg_body = cd_body cd (tx_bodyOf d i q1\<lparr>bd_node := Some (?ns ! k)\<rparr>), sg_sigs = []\<rparr>"
    if "k < length ?ns" for k
  proof -
    have "tx_makeSignedTransaction cd (Some (?ns ! k)) ?q3 = Inr (ss ! k)" using m that by blast
    then show ?thesis using di
      by (auto simp: tx_makeSignedTransaction_def tx_makeTransactionBody_def tx_bodyOf_def q1)
  qed
  then have "ss = map (\<lambda>a. \<lparr>sg_body = cd_body cd (tx_bodyOf d i q1\<lparr>bd_node := Some a\<rparr>), sg_sigs = []\<rparr>) ?ns"
    using m by (intro nth_equalityI) auto
  moreover have "q1\<lparr>tx_signed := tx_signed q0\<rparr> = ?q3"
    by (rule transaction.equality) (simp_all add: q1 e(1))
  then have "cd_data cd (q1\<lparr>tx_signed := tx_signed q0\<rparr>) = Inr d"
    using di(1) by simp
  ultimately show ?thesis using di(2) e(2) by (auto simp: q1)
qed

text \<open>A transaction as a constructor leaves it.\<close>

definition tx_blank :: "'m transaction_scheme \<Rightarrow> bool" where
  "tx_blank q \<longleftrightarrow>
     tx_transactions q = rl_new \<and> tx_signed q = rl_new \<and> tx_ids q = rl_new \<and> ex_nodeIds q = rl_new \<and>
     tx_signerKeys q = [] \<and> tx_publicKeys q = [] \<and> tx_signers q = [] \<and> \<not> ex_signOnDemand q"

lemma fromProtobufTransactions_ok:
  assumes "tx_checkBodies dc (length ids) (length nodes) (pb # pbs) = Inr ()"
    and "''0.0.0'' \<notin> set nodes" "length ss = length nodes"
    and "concat (map (\<lambda>s. map fst (sg_sigs s)) ss) = keys" "\<forall>k \<in> set keys. dc_checkKey dc k = Inr ()"
    and "\<not> rl_locked (tx_transactions q)" "\<not> rl_locked (tx_signed q)"
      "\<not> rl_locked (tx_ids q)" "\<not> rl_locked (ex_nodeIds q)" "tx_signerKeys q = []"
      "tx_publicKeys q = []" "tx_signers q = []"
  shows "tx_fromProtobufTransactions dc q raws ss ids nodes (pb # pbs) =
    Inr (q\<lparr>tx_transactions := (tx_transactions q)\<lparr>rl_list := map Some raws, rl_index := Some 0\<rparr>,
           tx_signed := \<lparr>rl_list = ss, rl_locked = True, rl_index = Some 0\<rparr>,
           tx_ids := \<lparr>rl_list = ids, rl_locked = True, rl_index = Some 0\<rparr>,
           ex_nodeIds := \<lparr>rl_list = nodes, rl_locked = True, rl_index = Some 0\<rparr>,
           tx_validDuration := (case pb_duration pb of None \<Rightarrow> 120 | Some d \<Rightarrow> to_int32 d),
           tx_maxFee := Some (case pb_fee pb of None \<Rightarrow> 0 | Some f \<Rightarrow> f),
           tx_memo := (case pb_memo pb of None \<Rightarrow> [] | Some t \<Rightarrow> t),
           tx_signerKeys := foldl (\<lambda>l k. if k \<in> set l then l else l @ [k]) [] keys,
           tx_publicKeys := keys, tx_signers := replicate (length keys) None\<rparr>)"
proof -
  have nodes: "filter (\<lambda>a. a \<noteq> ''0.0.0'') nodes = nodes" using assms(2) by (intro filter_True) auto
  show ?thesis
    using assms(1,3-12) by (simp add: tx_fromProtobufTransactions_def nodes rl_setList_def rl_setLocked_def
        Let_def load_keys_ok [OF assms(5)])
qed

lemma fromBytes_ok:
  fixes cd :: "('m, 'd) codec" and ss :: "signed list" and b :: "'d body"
  assumes dec: "decodes_data (bd_data b) cd dc" and fits: "body_fits b" and n: "as \<noteq> []" "distinct as" "''0.0.0'' \<notin> set as"
    and len: "length ss = length as"
    and bodies: "\<forall>k < length as. sg_body (ss ! k) = cd_body cd (b\<lparr>bd_node := Some (as ! k)\<rparr>)"
    and sigs: "\<forall>k < length as. map fst (sg_sigs (ss ! k)) = ks" "distinct ks"
    and keys: "\<forall>k \<in> set ks. dc_checkKey dc k = Inr ()"
    and make: "dc_make dc (map (\<lambda>a. pbody_of (b\<lparr>bd_node := Some a\<rparr>)) as) = Inr fresh"
    and fresh: "\<not> rl_locked (tx_transactions fresh)" "\<not> rl_locked (tx_signed fresh)"
      "\<not> rl_locked (tx_ids fresh)" "\<not> rl_locked (ex_nodeIds fresh)" "tx_signerKeys fresh = []"
      "tx_publicKeys fresh = []" "tx_signers fresh = []"
  shows "tx_fromBytes dc (cd_list cd (map (Some \<circ> cd_signed cd) ss)) =
    Inr (fresh\<lparr>tx_transactions := (tx_transactions fresh)\<lparr>rl_list := map (Some \<circ> cd_signed cd) ss, rl_index := Some 0\<rparr>,
           tx_signed := \<lparr>rl_list = ss, rl_locked = True, rl_index = Some 0\<rparr>,
           tx_ids := \<lparr>rl_list = [bd_txid b], rl_locked = True, rl_index = Some 0\<rparr>,
           ex_nodeIds := \<lparr>rl_list = as, rl_locked = True, rl_index = Some 0\<rparr>,
           tx_validDuration := bd_duration b, tx_maxFee := bd_fee b, tx_memo := bd_memo b,
           tx_signerKeys := ks, tx_publicKeys := concat (replicate (length as) ks),
           tx_signers := replicate (length as * length ks) None\<rparr>)"
proof -
  let ?raws = "map (cd_signed cd) ss" and ?pbs = "map (\<lambda>a. pbody_of (b\<lparr>bd_node := Some a\<rparr>)) as"
  have ne: "?raws \<noteq> []" using len n(1) by (cases as) auto
  have raws: "map (Some \<circ> cd_signed cd) ss = map Some ?raws" by simp
  have list: "tx_listOf dc (cd_list cd (map Some ?raws)) = Inr ?raws"
  proof -
    have "dc_list dc (cd_list cd (map Some ?raws)) = Inr ?raws"
      using dec ne unfolding decodes_data_def by blast
    then show ?thesis using ne by (simp add: tx_listOf_def del: map_map list.map_comp)
  qed
  have fits': "\<forall>a \<in> set as. body_fits (b\<lparr>bd_node := Some a\<rparr>)" using fits by (simp add: body_fits_def)
  have loop: "tx_decode_loop dc ?raws [] [] [] [] = Inr (ss, [bd_txid b], as, ?pbs)"
    using decode_loop_ok [OF dec fits' len bodies, of "[]" "[]" "[]" "[]"] n by simp
  obtain a as' where as: "as = a # as'" using n(1) by (cases as) auto
  obtain pb pbs where pbs: "?pbs = pb # pbs" and pb: "pb = pbody_of (b\<lparr>bd_node := Some a\<rparr>)"
    using as by simp
  have allkeys: "concat (map (\<lambda>s. map fst (sg_sigs s)) ss) = concat (replicate (length as) ks)"
  proof -
    have "map (\<lambda>s. map fst (sg_sigs s)) ss = replicate (length as) ks"
      using len sigs(1) by (intro nth_equalityI) auto
    then show ?thesis by simp
  qed
  have ks: "\<forall>k \<in> set (concat (replicate (length as) ks)). dc_checkKey dc k = Inr ()"
    using keys by (auto split: if_splits)
  have lenks: "length (concat (replicate (length as) ks)) = length as * length ks"
    by (induction as) simp_all
  have fee': "Some (case bd_fee b of None \<Rightarrow> 0 | Some f \<Rightarrow> f) = bd_fee b"
    using fits by (cases "bd_fee b") (auto simp: body_fits_def)
  have dur: "to_int32 (bd_duration b) = bd_duration b"
    using fits by (intro to_int32_small) (auto simp: body_fits_def)
  have fo: "foldl (\<lambda>l k. if k \<in> set l then l else l @ [k]) [] (concat (replicate (length as) ks)) = ks"
    using foldl_rows [OF sigs(2)] n(1) by simp
  have check: "tx_checkBodies dc (length [bd_txid b]) (length as) (pb # pbs) = Inr ()"
    using checkBodies_ok [OF dec, of as] pbs by simp
  note res = fromProtobufTransactions_ok [OF check n(3) len allkeys ks fresh, of ?raws]
  show ?thesis
    unfolding tx_fromBytes_def raws list js_bind_Inr loop prod.case pbs list.case
      make [unfolded pbs] res lenks fo
    by (simp add: pb pbody_of_def fee' dur)
qed

lemma bytes_back:
  assumes "tx_consistent cd q0" "\<not> tx_isFrozen_any q0" "\<not> rl_locked (tx_signed q0)"
    and "tx_freezeWith cd validate pick client q0 = (Inr u, client', q1)"
    and "case client of None \<Rightarrow> True | Some c \<Rightarrow> \<not> cl_signOnDemand c"
    and "(tx_step cd pick2)\<^sup>*\<^sup>* q1 q2"
    and "rl_list (ex_nodeIds q1) \<noteq> []" "distinct (rl_list (ex_nodeIds q1))"
      "''0.0.0'' \<notin> set (rl_list (ex_nodeIds q1))"
    and "rl_current (tx_ids q1) = Some i" "cd_data cd (q1\<lparr>tx_signed := tx_signed q0\<rparr>) = Inr d"
    and "body_fits (tx_bodyOf d i q1)" "decodes_data d cd dc"
    and "\<forall>k \<in> set (tx_signerKeys q2). dc_checkKey dc k = Inr ()"
    and "dc_make dc (map (\<lambda>a. pbody_of (tx_bodyOf d i q1\<lparr>bd_node := Some a\<rparr>)) (rl_list (ex_nodeIds q1))) =
      Inr fresh" "tx_blank fresh"
  shows "\<exists>q3. js_bind (fst (tx_toBytes cd q2)) (tx_fromBytes dc) = Inr q3 \<and>
    rl_list (tx_signed q3) = rl_list (tx_signed q2) \<and>
    rl_list (ex_nodeIds q3) = rl_list (ex_nodeIds q1) \<and> rl_list (tx_ids q3) = [i] \<and>
    tx_memo q3 = tx_memo q1 \<and> tx_maxFee q3 = tx_maxFee q1 \<and>
    tx_validDuration q3 = tx_validDuration q1 \<and> tx_signerKeys q3 = tx_signerKeys q2 \<and>
    fst (tx_toBytes cd q3) = fst (tx_toBytes cd q2) \<and>
    transaction.more q3 = transaction.more fresh"
proof -
  let ?as = "rl_list (ex_nodeIds q1)" and ?b = "tx_bodyOf d i q1"
  have bodies: "\<not> ex_signOnDemand q1" "rl_list (tx_signed q1) = map (\<lambda>a. \<lparr>sg_body = cd_body cd (?b\<lparr>bd_node := Some a\<rparr>),
        sg_sigs = []\<rparr>) ?as"
    using freeze_bodies [OF assms(4,3,5,7)] assms(10,11) by auto
  have frozen1: "tx_isFrozen q1" using assms(7) bodies(2) by (simp add: tx_isFrozen_def rl_length_def)
  have c1: "tx_consistent cd q1"
    using freezeWith_ok [OF assms(4,1)] not_frozen_start(2) [OF assms(2)] by blast
  then have inv1: "tx_inv cd q1" by (simp add: tx_inv_def)
  have grown: "tx_grown q1 q2 \<and> tx_inv cd q2" using assms(6)
  proof (induction rule: rtranclp_induct)
    case (step r r')
    then have "tx_isFrozen r" "\<not> ex_signOnDemand r"
      using frozen1 bodies(1) by (auto simp: tx_grown_def tx_isFrozen_def rl_length_def dest: list_all2_lengthD)
    with step tx_step_grown tx_step_inv show ?case by (blast intro: tx_grown_trans)
  qed (simp add: inv1)
  then have q2: "\<not> ex_signOnDemand q2" "rl_list (ex_nodeIds q2) = ?as" "length (rl_list (tx_signed q2)) = length ?as"
    using bodies by (auto simp: tx_grown_def dest: list_all2_lengthD)
  then have c2: "tx_consistent cd q2" and frozen2: "tx_isFrozen q2"
    using grown assms(7) by (simp_all add: tx_inv_def tx_isFrozen_def rl_length_def)
  have b2: "\<forall>k < length ?as. sg_body (rl_list (tx_signed q2) ! k) = cd_body cd (?b\<lparr>bd_node := Some (?as ! k)\<rparr>)"
    using grown bodies(2) by (auto simp: tx_grown_def sg_grown_def list_all2_conv_all_nth)
  have s2: "\<forall>k < length ?as. map fst (sg_sigs (rl_list (tx_signed q2) ! k)) = tx_signerKeys q2"
    "distinct (tx_signerKeys q2)"
    using c2 q2(3) by (simp_all add: tx_consistent_def)
  have bytes2: "fst (tx_toBytes cd q2) = Inr (cd_list cd (map (Some \<circ> cd_signed cd) (rl_list (tx_signed q2))))"
    by (rule toBytes_frozen [OF c2 frozen2 q2(1)])
  have dec: "decodes_data (bd_data ?b) cd dc" using assms(13) by (simp add: tx_bodyOf_def)
  note res = fromBytes_ok [OF dec assms(12,7,8,9) q2(3) b2 s2 assms(14,15)]
  obtain q3 where q3: "tx_fromBytes dc (cd_list cd (map (Some \<circ> cd_signed cd) (rl_list (tx_signed q2)))) = Inr q3"
    and f: "rl_list (tx_signed q3) = rl_list (tx_signed q2)" "rl_list (ex_nodeIds q3) = ?as"
      "rl_list (tx_ids q3) = [i]" "tx_memo q3 = tx_memo q1" "tx_maxFee q3 = tx_maxFee q1"
      "tx_validDuration q3 = tx_validDuration q1" "tx_signerKeys q3 = tx_signerKeys q2"
      "rl_list (tx_transactions q3) = map (Some \<circ> cd_signed cd) (rl_list (tx_signed q2))"
      "rl_locked (tx_signed q3)" "rl_locked (ex_nodeIds q3)" "\<not> ex_signOnDemand q3"
      "transaction.more q3 = transaction.more fresh"
    using res assms(16) by (simp add: tx_blank_def tx_bodyOf_def)
  have "tx_consistent cd q3"
    using c2 f q2(2) by (simp add: tx_consistent_def)
  moreover have "tx_isFrozen q3" using f(1) frozen2 by (simp add: tx_isFrozen_def rl_length_def)
  ultimately have "fst (tx_toBytes cd q3) = fst (tx_toBytes cd q2)"
    using toBytes_frozen [of cd q3] f(1,11) bytes2 by simp
  then show ?thesis using bytes2 q3 f by simp
qed


subsection \<open>Witness\<close>

definition put_int :: "int \<Rightarrow> bytes" where
  "put_int = put_via (\<lambda>i. (nat i, nat (- i))) (put_pair put_nat put_nat)"

definition get_int :: "bytes \<Rightarrow> int \<times> bytes" where
  "get_int = get_via (\<lambda>(a, b). int a - int b) (get_pair get_nat get_nat)"

lemma codes_int: "codes put_int get_int"
  unfolding put_int_def get_int_def by (rule codes_via) (simp_all add: codes_pair codes_nat)

definition put_bool :: "bool \<Rightarrow> bytes" where
  "put_bool = put_via (\<lambda>b. if b then 1 else 0) put_nat"

definition get_bool :: "bytes \<Rightarrow> bool \<times> bytes" where
  "get_bool = get_via (\<lambda>n. n \<noteq> 0) get_nat"

lemma codes_bool: "codes put_bool get_bool"
  unfolding put_bool_def get_bool_def by (rule codes_via [OF codes_nat]) simp

definition put_txid :: "txid \<Rightarrow> bytes" where
  "put_txid = put_via (\<lambda>i. (td_account i, ts_seconds (td_start i), ts_nanos (td_start i), td_scheduled i, td_nonce i))
     (put_pair put_string (put_pair put_word (put_pair put_word (put_pair put_bool (put_opt put_word)))))"

definition get_txid :: "bytes \<Rightarrow> txid \<times> bytes" where
  "get_txid = get_via (\<lambda>(a, s, n, b, k). \<lparr>td_account = a, td_start = \<lparr>ts_seconds = s, ts_nanos = n\<rparr>,
       td_scheduled = b, td_nonce = k\<rparr>)
     (get_pair get_string (get_pair get_word (get_pair get_word (get_pair get_bool (get_opt get_word)))))"

lemma codes_txid: "codes put_txid get_txid"
  unfolding put_txid_def get_txid_def
  by (rule codes_via) (simp_all add: codes_pair codes_string codes_word codes_bool codes_opt)

definition put_body :: "nat body \<Rightarrow> bytes" where
  "put_body = put_via (\<lambda>b. (bd_data b, bd_fee b, bd_memo b, bd_txid b, bd_node b, bd_duration b))
     (put_pair put_nat (put_pair (put_opt put_int) (put_pair put_string (put_pair put_txid
       (put_pair (put_opt put_string) put_int)))))"

definition get_body :: "bytes \<Rightarrow> nat body \<times> bytes" where
  "get_body = get_via (\<lambda>(d, f, m, i, a, t). \<lparr>bd_data = d, bd_fee = f, bd_memo = m, bd_txid = i,
       bd_node = a, bd_duration = t\<rparr>)
     (get_pair get_nat (get_pair (get_opt get_int) (get_pair get_string (get_pair get_txid
       (get_pair (get_opt get_string) get_int)))))"

lemma codes_body: "codes put_body get_body"
  unfolding put_body_def get_body_def
  by (rule codes_via) (simp_all add: codes_pair codes_nat codes_string codes_int codes_txid codes_opt)

definition put_signed :: "signed \<Rightarrow> bytes" where
  "put_signed = put_via (\<lambda>s. (sg_body s, sg_sigs s))
     (put_pair put_bytes (put_list (put_pair put_string put_bytes)))"

definition get_signed :: "bytes \<Rightarrow> signed \<times> bytes" where
  "get_signed = get_via (\<lambda>(b, l). \<lparr>sg_body = b, sg_sigs = l\<rparr>)
     (get_pair get_bytes (get_list (get_pair get_string get_bytes)))"

lemma codes_signed: "codes put_signed get_signed"
  unfolding put_signed_def get_signed_def
  by (rule codes_via) (simp_all add: codes_pair codes_bytes codes_string codes_list)

definition wire_codec :: "(unit, nat) codec" where
  "wire_codec =
     \<lparr>cd_data = (\<lambda>_. Inr 0), cd_body = put_body, cd_signed = put_signed,
      cd_list = (\<lambda>l. put_list put_bytes (map (\<lambda>x. case x of None \<Rightarrow> [] | Some b \<Rightarrow> b) l)),
      cd_hash = id\<rparr>"

definition wire_decoder :: "(unit, nat) decoder" where
  "wire_decoder =
     \<lparr>dc_list = (\<lambda>bs. Inr (fst (get_list get_bytes bs))),
      dc_transaction = (\<lambda>_. Inl (LibraryError [])), dc_encode = put_signed,
      dc_signed = (\<lambda>bs. Inr (fst (get_signed bs))),
      dc_body = (\<lambda>bs. Inr (pbody_of (fst (get_body bs)))),
      dc_view = (\<lambda>b. JObject [(''nodeAccountID'', JString (case pb_node b of None \<Rightarrow> [] | Some a \<Rightarrow> a)),
        (''memo'', JString (case pb_memo b of None \<Rightarrow> [] | Some t \<Rightarrow> t))]),
      dc_make = (\<lambda>_. Inr demo_new), dc_idText = td_account, dc_checkKey = (\<lambda>_. Inr ())\<rparr>"

lemma wire_decodes: "decodes wire_codec wire_decoder"
  by (simp add: decodes_def wire_codec_def wire_decoder_def comp_def codes_end [OF codes_signed]
      codes_end [OF codes_body] codes_end [OF codes_list [OF codes_bytes]] pbody_of_def)

definition wire_frozen :: transaction where
  "wire_frozen = snd (tx_freeze wire_codec demo_set)"

definition wire_signed :: transaction where
  "wire_signed = (case tx_signWith ''k'' (\<lambda>b. [7]) wire_frozen of Inl _ \<Rightarrow> demo_new | Inr q \<Rightarrow> q)"

lemma wire_frozen_eq:
  "tx_freeze wire_codec demo_set = (Inr (), wire_frozen)"
  "rl_list (ex_nodeIds wire_frozen) = [''3'', ''4'']" "rl_current (tx_ids wire_frozen) = Some demo_id"
  "tx_maxFee wire_frozen = Some 200000000" "tx_validDuration wire_frozen = 120" "tx_memo wire_frozen = []"
  "\<not> ex_signOnDemand wire_frozen" "tx_signerKeys wire_frozen = []" "tx_isFrozen wire_frozen"
  by (simp_all add: wire_frozen_def wire_codec_def demo_simps tx_isFrozen_def)


end
