(* ===== verification/Chunks.thy ===== *)
theory Chunks
  imports Ids TxBytes
begin

text \<open>
  Transactions that are sent in chunks: \<open>src/src/topic/TopicMessageSubmitTransaction.js\<close> and
  \<open>src/src/file/FileAppendTransaction.js\<close>.  Sizes and numbers of chunks are natural numbers.
  The UTF-8 encoding of a text is the argument \<open>utf8\<close>.
\<close>

subsection \<open>State\<close>

text \<open>What the data of a chunk says: the target, the bytes and, for a topic, the place of the chunk.\<close>

record chunk_info =
  ci_initial :: txid
  ci_total :: nat
  ci_number :: nat

record chunk_message =
  cm_target :: "id_message option"
  cm_bytes :: "bytes option"
  cm_info :: "chunk_info option"

record topic_tx = transaction +
  tm_topicId :: "topic_id option"
  tm_message :: "bytes option"
  tm_maxChunks :: nat
  tm_chunkSize :: nat
  tm_chunkInfo :: "chunk_info option"

record append_tx = transaction +
  fa_fileId :: "file_id option"
  fa_contents :: "bytes option"
  fa_maxChunks :: nat
  fa_chunkSize :: nat

definition topic_blank :: "(nat \<Rightarrow> timestamp) \<Rightarrow> topic_tx" where
  "topic_blank starts = transaction.extend (tx_new starts) (topic_tx.fields None None 20 1024 None)"

definition append_blank :: "(nat \<Rightarrow> timestamp) \<Rightarrow> append_tx" where
  "append_blank starts =
     transaction.extend (tx_new starts\<lparr>tx_defaultMaxFee := 500000000\<rparr>) (append_tx.fields None None 20 4096)"

definition topic_setTopicId ::
  "(string \<Rightarrow> long js) \<Rightarrow> topic_id + string \<Rightarrow> topic_tx \<Rightarrow> topic_tx js" where
  "topic_setTopicId parse a q =
     js_bind (tx_requireNotFrozen q) (\<lambda>_.
     js_bind (case a of Inl i \<Rightarrow> topic_clone i | Inr t \<Rightarrow> topic_fromString parse t) (\<lambda>i.
       Inr (q\<lparr>tm_topicId := Some i\<rparr>)))"

definition topic_setMessage :: "(string \<Rightarrow> bytes) \<Rightarrow> bytes + string \<Rightarrow> topic_tx \<Rightarrow> topic_tx js" where
  "topic_setMessage utf8 a q =
     js_bind (tx_requireNotFrozen q) (\<lambda>_.
       Inr (q\<lparr>tm_message := Some (case a of Inl b \<Rightarrow> b | Inr t \<Rightarrow> utf8 t)\<rparr>))"

definition topic_setMaxChunks :: "nat \<Rightarrow> topic_tx \<Rightarrow> topic_tx js" where
  "topic_setMaxChunks n q = js_bind (tx_requireNotFrozen q) (\<lambda>_. Inr (q\<lparr>tm_maxChunks := n\<rparr>))"

definition topic_setChunkSize :: "nat \<Rightarrow> topic_tx \<Rightarrow> topic_tx" where
  "topic_setChunkSize n q = q\<lparr>tm_chunkSize := n\<rparr>"

definition append_setFileId ::
  "(string \<Rightarrow> long js) \<Rightarrow> file_id + string \<Rightarrow> append_tx \<Rightarrow> append_tx js" where
  "append_setFileId parse a q =
     js_bind (tx_requireNotFrozen q) (\<lambda>_.
     js_bind (case a of Inl i \<Rightarrow> file_clone i | Inr t \<Rightarrow> file_fromString parse t) (\<lambda>i.
       Inr (q\<lparr>fa_fileId := Some i\<rparr>)))"

definition append_setContents :: "(string \<Rightarrow> bytes) \<Rightarrow> bytes + string \<Rightarrow> append_tx \<Rightarrow> append_tx js" where
  "append_setContents utf8 a q =
     js_bind (tx_requireNotFrozen q) (\<lambda>_.
       Inr (q\<lparr>fa_contents := Some (case a of Inl b \<Rightarrow> b | Inr t \<Rightarrow> utf8 t)\<rparr>))"

definition append_setMaxChunks :: "nat \<Rightarrow> append_tx \<Rightarrow> append_tx js" where
  "append_setMaxChunks n q = js_bind (tx_requireNotFrozen q) (\<lambda>_. Inr (q\<lparr>fa_maxChunks := n\<rparr>))"

definition append_setChunkSize :: "nat \<Rightarrow> append_tx \<Rightarrow> append_tx" where
  "append_setChunkSize n q = q\<lparr>fa_chunkSize := n\<rparr>"

definition append_validateChecksums :: "(long \<Rightarrow> string) \<Rightarrow> ledger_id option \<Rightarrow> append_tx \<Rightarrow> unit js" where
  "append_validateChecksums print ledger q =
     (case fa_fileId q of None \<Rightarrow> Inr () | Some i \<Rightarrow> file_validateChecksum print ledger i)"

definition topic_new_tx ::
  "(string \<Rightarrow> long js) \<Rightarrow> (string \<Rightarrow> bytes) \<Rightarrow> (nat \<Rightarrow> timestamp) \<Rightarrow> (topic_id + string) option \<Rightarrow>
   (bytes + string) option \<Rightarrow> nat option \<Rightarrow> nat option \<Rightarrow> topic_tx js" where
  "topic_new_tx parse utf8 starts topicId message maxChunks chunkSize =
     js_bind (when_given (topic_setTopicId parse) topicId (topic_blank starts)) (\<lambda>q.
     js_bind (when_given (topic_setMessage utf8) message q) (\<lambda>q.
     js_bind (when_given topic_setMaxChunks maxChunks q) (\<lambda>q.
       when_given (\<lambda>n q. Inr (topic_setChunkSize n q)) chunkSize q)))"

definition append_new ::
  "(string \<Rightarrow> long js) \<Rightarrow> (string \<Rightarrow> bytes) \<Rightarrow> (nat \<Rightarrow> timestamp) \<Rightarrow> (file_id + string) option \<Rightarrow>
   (bytes + string) option \<Rightarrow> nat option \<Rightarrow> nat option \<Rightarrow> append_tx js" where
  "append_new parse utf8 starts fileId contents maxChunks chunkSize =
     js_bind (when_given (append_setFileId parse) fileId (append_blank starts)) (\<lambda>q.
     js_bind (when_given (append_setContents utf8) contents q) (\<lambda>q.
     js_bind (when_given append_setMaxChunks maxChunks q) (\<lambda>q.
       when_given (\<lambda>n q. Inr (append_setChunkSize n q)) chunkSize q)))"

text \<open>The guards of \<open>schedule\<close>.\<close>

definition topic_schedule_check :: "topic_tx \<Rightarrow> unit js" where
  "topic_schedule_check q =
     js_bind (tx_requireNotFrozen q) (\<lambda>_.
       case tm_message q of
         None \<Rightarrow> Inr ()
       | Some b \<Rightarrow> if length b > tm_chunkSize q then Inl ChunkedSchedule else Inr ())"

definition append_schedule_check :: "append_tx \<Rightarrow> unit js" where
  "append_schedule_check q =
     js_bind (tx_requireNotFrozen q) (\<lambda>_.
       case fa_contents q of
         None \<Rightarrow> Inr ()
       | Some b \<Rightarrow> if length b > fa_chunkSize q then Inl ChunkedSchedule else Inr ())"

subsection \<open>Data\<close>

definition js_slice :: "nat \<Rightarrow> nat \<Rightarrow> bytes \<Rightarrow> bytes" where
  "js_slice a b bs = take (b - a) (drop a bs)"

definition topic_makeTransactionData :: "topic_tx \<Rightarrow> chunk_message" where
  "topic_makeTransactionData q =
     (case (tm_chunkInfo q, tm_message q) of
        (Some info, Some bs) \<Rightarrow>
          (let start = (ci_number info - 1) * tm_chunkSize q;
               stop = (if start + tm_chunkSize q > length bs then length bs else start + tm_chunkSize q)
           in \<lparr>cm_target = map_option topic_toProtobuf (tm_topicId q),
               cm_bytes = Some (js_slice start stop bs), cm_info = Some info\<rparr>)
      | _ \<Rightarrow> \<lparr>cm_target = map_option topic_toProtobuf (tm_topicId q), cm_bytes = tm_message q, cm_info = None\<rparr>)"

text \<open>The chunk of a file is that of the cursor of the transaction ids; at \<open>NaN\<close> it is empty.\<close>

definition append_makeTransactionData :: "append_tx \<Rightarrow> chunk_message" where
  "append_makeTransactionData q =
     (let len = (case fa_contents q of None \<Rightarrow> 0 | Some bs \<Rightarrow> length bs)
      in \<lparr>cm_target = map_option file_toProtobuf (fa_fileId q),
          cm_bytes = map_option (\<lambda>bs.
            case rl_index (tx_ids q) of
              None \<Rightarrow> []
            | Some i \<Rightarrow> js_slice (i * fa_chunkSize q) (min (i * fa_chunkSize q + fa_chunkSize q) len) bs)
            (fa_contents q),
          cm_info = None\<rparr>)"

definition topic_codec ::
  "('m, chunk_message) codec \<Rightarrow> (unit topic_tx_ext, chunk_message) codec" where
  "topic_codec cd =
     \<lparr>cd_data = \<lambda>q. Inr (topic_makeTransactionData q), cd_body = cd_body cd, cd_signed = cd_signed cd,
      cd_list = cd_list cd, cd_hash = cd_hash cd\<rparr>"

definition append_codec ::
  "('m, chunk_message) codec \<Rightarrow> (unit append_tx_ext, chunk_message) codec" where
  "append_codec cd =
     \<lparr>cd_data = \<lambda>q. Inr (append_makeTransactionData q), cd_body = cd_body cd, cd_signed = cd_signed cd,
      cd_list = cd_list cd, cd_hash = cd_hash cd\<rparr>"

subsection \<open>Freezing\<close>

text \<open>
  The number of chunks is the quotient of two numbers of JavaScript: with chunks of no bytes it is
  infinite (\<open>None\<close>), or negative or \<open>NaN\<close>, which are no chunks, for at most one byte.
\<close>

definition chunk_count :: "nat \<Rightarrow> nat \<Rightarrow> nat option" where
  "chunk_count len chunk =
     (if chunk = 0 then (if len \<le> 1 then Some 0 else None) else Some ((len + (chunk - 1)) div chunk))"

text \<open>The nanoseconds are counted up without a carry into the seconds.\<close>

definition chunk_nextId :: "txid \<Rightarrow> txid" where
  "chunk_nextId i =
     \<lparr>td_account = td_account i, td_start = (td_start i)\<lparr>ts_nanos := ts_nanos (td_start i) + 1\<rparr>,
      td_scheduled = False, td_nonce = None\<rparr>"

fun chunk_rows ::
  "('m, 'd) codec \<Rightarrow> string list \<Rightarrow> 'm transaction_scheme \<Rightarrow> unit js \<times> 'm transaction_scheme" where
  "chunk_rows cd [] q = (Inr (), q)"
| "chunk_rows cd (n # ns) q =
     (case js_bind (tx_makeSignedTransaction cd (Some n) q) (\<lambda>s. rl_push (tx_signed q) [s]) of
        Inl e \<Rightarrow> (Inl e, q)
      | Inr l \<Rightarrow> chunk_rows cd ns (q\<lparr>tx_signed := l\<rparr>))"

text \<open>\<open>mark k\<close> is what the loop sets before the chunk \<open>k\<close>.\<close>

fun chunk_loop ::
  "('m, 'd) codec \<Rightarrow> (nat \<Rightarrow> 'm transaction_scheme \<Rightarrow> 'm transaction_scheme) \<Rightarrow> nat \<Rightarrow> nat \<Rightarrow> txid \<Rightarrow>
   'm transaction_scheme \<Rightarrow> unit js \<times> 'm transaction_scheme" where
  "chunk_loop cd mark k 0 next q = (Inr (), q)"
| "chunk_loop cd mark k (Suc r) next q =
     (let q = mark k q
      in case rl_push (tx_ids q) [next] of
           Inl e \<Rightarrow> (Inl e, q)
         | Inr l \<Rightarrow>
             (let q = q\<lparr>tx_ids := snd (rl_advance l)\<rparr>
              in case chunk_rows cd (rl_list (ex_nodeIds q)) q of
                   (Inl e, q) \<Rightarrow> (Inl e, q)
                 | (Inr _, q) \<Rightarrow> chunk_loop cd mark (Suc k) r (chunk_nextId next) q))"

definition chunk_reset :: "'m transaction_scheme \<Rightarrow> 'm transaction_scheme" where
  "chunk_reset q =
     q\<lparr>tx_transactions := rl_clear (tx_transactions q),
       tx_ids := rl_clear ((tx_ids q)\<lparr>rl_locked := False\<rparr>), tx_signed := rl_clear (tx_signed q)\<rparr>"

definition topic_mark :: "txid \<Rightarrow> nat \<Rightarrow> nat \<Rightarrow> topic_tx \<Rightarrow> topic_tx" where
  "topic_mark i n k q = q\<lparr>tm_chunkInfo := Some \<lparr>ci_initial = i, ci_total = n, ci_number = k + 1\<rparr>\<rparr>"

definition topic_chunks ::
  "(unit topic_tx_ext, chunk_message) codec \<Rightarrow> nat \<Rightarrow> topic_tx \<Rightarrow> unit js \<times> topic_tx" where
  "topic_chunks cd n q =
     (case tx_getTransactionId q of
        (Inl e, q) \<Rightarrow> (Inl e, q)
      | (Inr i, q) \<Rightarrow>
          (case chunk_loop cd (topic_mark i n) 0 n i (chunk_reset q) of
             (Inl e, q) \<Rightarrow> (Inl e, q)
           | (Inr _, q) \<Rightarrow>
               (Inr (), q\<lparr>tx_ids := snd (rl_advance (tx_ids q)), tm_chunkInfo := None\<rparr>)))"

definition append_chunks ::
  "(unit append_tx_ext, chunk_message) codec \<Rightarrow> nat \<Rightarrow> append_tx \<Rightarrow> unit js \<times> append_tx" where
  "append_chunks cd n q =
     (case tx_getTransactionId q of
        (Inl e, q) \<Rightarrow> (Inl e, q)
      | (Inr i, q) \<Rightarrow>
          (case chunk_loop cd (\<lambda>_ q. q) 0 n i (chunk_reset q) of
             (Inl e, q) \<Rightarrow> (Inl e, q)
           | (Inr _, q) \<Rightarrow> (Inr (), q\<lparr>tx_ids := rl_setLocked (snd (rl_advance (tx_ids q)))\<rparr>)))"

definition topic_freezeWith ::
  "('m, chunk_message) codec \<Rightarrow> (string \<Rightarrow> string \<Rightarrow> unit js) \<Rightarrow>
   ('ch client \<Rightarrow> string list js \<times> 'ch client) \<Rightarrow> 'ch client option \<Rightarrow> topic_tx \<Rightarrow>
   unit js \<times> 'ch client option \<times> topic_tx" where
  "topic_freezeWith cd validate pick client q =
     (case tx_freezeWith (topic_codec cd) validate pick client q of
        (Inl e, client, q) \<Rightarrow> (Inl e, client, q)
      | (Inr _, client, q) \<Rightarrow>
          (case tm_message q of
             None \<Rightarrow> (Inr (), client, q)
           | Some bs \<Rightarrow>
               (case chunk_count (length bs) (tm_chunkSize q) of
                  None \<Rightarrow> (Inl (TooManyChunks (length bs) (tm_maxChunks q)), client, q)
                | Some n \<Rightarrow>
                    (if n > tm_maxChunks q
                     then (Inl (TooManyChunks (length bs) (tm_maxChunks q)), client, q)
                     else case topic_chunks (topic_codec cd) n q of (r, q) \<Rightarrow> (r, client, q)))))"

definition append_freezeWith ::
  "('m, chunk_message) codec \<Rightarrow> (string \<Rightarrow> string \<Rightarrow> unit js) \<Rightarrow>
   ('ch client \<Rightarrow> string list js \<times> 'ch client) \<Rightarrow> 'ch client option \<Rightarrow> append_tx \<Rightarrow>
   unit js \<times> 'ch client option \<times> append_tx" where
  "append_freezeWith cd validate pick client q =
     (case tx_freezeWith (append_codec cd) validate pick client q of
        (Inl e, client, q) \<Rightarrow> (Inl e, client, q)
      | (Inr _, client, q) \<Rightarrow>
          (case fa_contents q of
             None \<Rightarrow> (Inr (), client, q)
           | Some bs \<Rightarrow>
               (case chunk_count (length bs) (fa_chunkSize q) of
                  None \<Rightarrow> (Inl (TooManyChunks (length bs) (fa_maxChunks q)), client, q)
                | Some n \<Rightarrow>
                    (if n > fa_maxChunks q
                     then (Inl (TooManyChunks (length bs) (fa_maxChunks q)), client, q)
                     else case append_chunks (append_codec cd) n q of (r, q) \<Rightarrow> (r, client, q)))))"

subsection \<open>Execution\<close>

text \<open>
  \<open>run k t\<close> is the call of \<open>execute\<close> of the class \<open>Transaction\<close> for the chunk \<open>k\<close> with the
  timeout \<open>t\<close>; \<open>None\<close> is an execution that never ends.  \<open>stamps k\<close> are the readings of the clock
  around it: the rest of the timeout is what the execution took.  A file waits for the receipt
  of each chunk.  The number of transaction ids does not change while the chunks are sent.
\<close>

type_synonym ('q, 'c) chunk_run =
  "nat \<Rightarrow> rat option \<Rightarrow> 'c \<Rightarrow> 'q \<Rightarrow> tx_response js option \<times> 'q \<times> 'c \<times> bytes event list"

fun execute_loop ::
  "('q, 'c) chunk_run \<Rightarrow> (nat \<Rightarrow> tx_response \<Rightarrow> 'c \<Rightarrow> unit js option \<times> 'c) \<Rightarrow> (nat \<Rightarrow> rat \<times> rat) \<Rightarrow>
   nat \<Rightarrow> nat \<Rightarrow> rat option \<Rightarrow> 'c \<Rightarrow> 'q \<Rightarrow> tx_response list \<Rightarrow>
   tx_response list js option \<times> 'q \<times> 'c \<times> bytes event list list" where
  "execute_loop run receipt stamps k 0 timeout c q done = (Some (Inr done), q, c, [])"
| "execute_loop run receipt stamps k (Suc r) timeout c q done =
     (case run k timeout c q of
        (None, q, c, evs) \<Rightarrow> (None, q, c, [evs])
      | (Some (Inl e), q, c, evs) \<Rightarrow> (Some (Inl e), q, c, [evs])
      | (Some (Inr res), q, c, evs) \<Rightarrow>
          (case receipt k res c of
             (None, c) \<Rightarrow> (None, q, c, [evs])
           | (Some (Inl e), c) \<Rightarrow> (Some (Inl e), q, c, [evs])
           | (Some (Inr _), c) \<Rightarrow>
               (case execute_loop run receipt stamps (Suc k) r
                       (map_option (\<lambda>_. snd (stamps k) - fst (stamps k)) timeout) c q (done @ [res]) of
                  (out, q, c, evss) \<Rightarrow> (out, q, c, evs # evss))))"

definition chunk_signWithOperator ::
  "('ch client option \<Rightarrow> 'm transaction_scheme \<Rightarrow> unit js \<times> 'ch client option \<times> 'm transaction_scheme) \<Rightarrow>
   'ch client \<Rightarrow> 'm transaction_scheme \<Rightarrow> unit js \<times> 'ch client \<times> 'm transaction_scheme" where
  "chunk_signWithOperator freeze c q =
     (case cl_operator c of
        None \<Rightarrow> (Inl NoOperator, c, q)
      | Some oper \<Rightarrow>
          (case (if \<not> tx_isFrozen_any q then freeze (Some c) q else (Inr (), Some c, q)) of
             (Inl e, c', q) \<Rightarrow> (Inl e, the c', q)
           | (Inr _, c', q) \<Rightarrow>
               (case tx_signWith (op_publicKey oper) (op_signer oper) q of
                  Inl e \<Rightarrow> (Inl e, the c', q)
                | Inr q \<Rightarrow> (Inr (), the c', q))))"

definition chunk_executeAll ::
  "('ch client option \<Rightarrow> 'm transaction_scheme \<Rightarrow> unit js \<times> 'ch client option \<times> 'm transaction_scheme) \<Rightarrow>
   ('m transaction_scheme, 'ch client) chunk_run \<Rightarrow> (nat \<Rightarrow> tx_response \<Rightarrow> 'ch client \<Rightarrow> unit js option \<times> 'ch client) \<Rightarrow>
   (nat \<Rightarrow> rat \<times> rat) \<Rightarrow> rat option \<Rightarrow> 'ch client \<Rightarrow> 'm transaction_scheme \<Rightarrow>
   tx_response list js option \<times> 'm transaction_scheme \<times> 'ch client \<times> bytes event list list" where
  "chunk_executeAll freeze run receipt stamps timeout c q =
     (case (if \<not> tx_isFrozen_any q then freeze (Some c) q else (Inr (), Some c, q)) of
        (Inl e, c', q) \<Rightarrow> (Some (Inl e), q, the c', [])
      | (Inr _, c', q) \<Rightarrow>
          (case tx_getTransactionId q of
             (Inl e, q) \<Rightarrow> (Some (Inl e), q, the c', [])
           | (Inr i, q) \<Rightarrow>
               (case (if map_option op_account (cl_operator (the c')) = Some (td_account i)
                      then chunk_signWithOperator freeze (the c') q else (Inr (), the c', q)) of
                  (Inl e, c, q) \<Rightarrow> (Some (Inl e), q, c, [])
                | (Inr _, c, q) \<Rightarrow> execute_loop run receipt stamps 0 (rl_length (tx_ids q)) timeout c q [])))"

definition topic_executeAll ::
  "('m, chunk_message) codec \<Rightarrow> (string \<Rightarrow> string \<Rightarrow> unit js) \<Rightarrow>
   ('ch client \<Rightarrow> string list js \<times> 'ch client) \<Rightarrow> (topic_tx, 'ch client) chunk_run \<Rightarrow>
   (nat \<Rightarrow> rat \<times> rat) \<Rightarrow> rat option \<Rightarrow> 'ch client \<Rightarrow> topic_tx \<Rightarrow>
   tx_response list js option \<times> topic_tx \<times> 'ch client \<times> bytes event list list" where
  "topic_executeAll cd validate pick run stamps timeout c q =
     chunk_executeAll (topic_freezeWith cd validate pick) run (\<lambda>k res c. (Some (Inr ()), c)) stamps timeout c q"

definition append_executeAll ::
  "('m, chunk_message) codec \<Rightarrow> (string \<Rightarrow> string \<Rightarrow> unit js) \<Rightarrow>
   ('ch client \<Rightarrow> string list js \<times> 'ch client) \<Rightarrow> (append_tx, 'ch client) chunk_run \<Rightarrow>
   (nat \<Rightarrow> tx_response \<Rightarrow> 'ch client \<Rightarrow> unit js option \<times> 'ch client) \<Rightarrow>
   (nat \<Rightarrow> rat \<times> rat) \<Rightarrow> rat option \<Rightarrow> 'ch client \<Rightarrow> append_tx \<Rightarrow>
   tx_response list js option \<times> append_tx \<times> 'ch client \<times> bytes event list list" where
  "append_executeAll cd validate pick run receipt stamps timeout c q =
     chunk_executeAll (append_freezeWith cd validate pick) run receipt stamps timeout c q"

text \<open>\<open>execute\<close> gives the first response, or \<open>undefined\<close> (\<open>None\<close>).\<close>

definition chunk_first :: "tx_response list js option \<Rightarrow> tx_response option js option" where
  "chunk_first r = map_option (map_sum id (\<lambda>l. js_nth l 0)) r"

subsection \<open>Reading\<close>

definition topic_ofBodies ::
  "(nat \<Rightarrow> timestamp) \<Rightarrow> chunk_message pbody list \<Rightarrow> topic_tx js" where
  "topic_ofBodies starts bodies =
     (case bodies of
        [] \<Rightarrow> Inl TypeErr
      | b # _ \<Rightarrow>
          (case pb_data b of
             None \<Rightarrow> Inl TypeErr
           | Some m \<Rightarrow>
               js_bind (case cm_target m of None \<Rightarrow> Inr None | Some i \<Rightarrow> js_bind (topic_fromProtobuf i) (\<lambda>i. Inr (Some i))) (\<lambda>i.
               js_bind (case i of None \<Rightarrow> Inr None | Some i \<Rightarrow> js_bind (topic_clone i) (\<lambda>i. Inr (Some i))) (\<lambda>i.
                 Inr ((topic_blank starts)\<lparr>tm_topicId := i, tm_message := cm_bytes m\<rparr>)))))"

text \<open>
  The contents of a file are collected from every \<open>n\<close>-th body, where \<open>n\<close> is the number of
  nodes.  Without a node the loop stays where it is; \<open>None\<close> is a loop that never ends.
\<close>

partial_function (option) append_loop ::
  "nat \<Rightarrow> chunk_message pbody list \<Rightarrow> nat \<Rightarrow> bytes option \<Rightarrow> bytes option js option" where
  "append_loop n bodies i acc =
     (if i < length bodies then
        (case pb_data (bodies ! i) of
           None \<Rightarrow> Some (Inl TypeErr)
         | Some m \<Rightarrow>
             (case cm_bytes m of
                None \<Rightarrow> Some (Inr acc)
              | Some bs \<Rightarrow>
                  append_loop n bodies (i + n) (Some (case acc of None \<Rightarrow> bs | Some cs \<Rightarrow> cs @ bs))))
      else Some (Inr acc))"

definition append_ofBodies ::
  "(long \<Rightarrow> string) \<Rightarrow> (string \<Rightarrow> long js) \<Rightarrow> (nat \<Rightarrow> timestamp) \<Rightarrow> string list \<Rightarrow>
   chunk_message pbody list \<Rightarrow> append_tx js option" where
  "append_ofBodies print parse starts nodes bodies =
     (case bodies of
        [] \<Rightarrow> Some (Inl TypeErr)
      | b # _ \<Rightarrow>
          map_option (\<lambda>r.
            js_bind r (\<lambda>contents.
            js_bind (case pb_data b of None \<Rightarrow> Inl TypeErr | Some m \<Rightarrow>
                (case cm_target m of None \<Rightarrow> Inr None
                 | Some i \<Rightarrow> js_bind (file_fromProtobuf print parse i) (\<lambda>i. js_bind (file_clone i) (\<lambda>i. Inr (Some i))))) (\<lambda>i.
              Inr ((append_blank starts)\<lparr>fa_fileId := i, fa_contents := contents\<rparr>))))
            (append_loop (length nodes) bodies 0 None))"

end
