(* ===== verification/ChunkSend.thy ===== *)
theory ChunkSend
  imports Chunks
begin

text \<open>
  What freezing leaves of a message that is cut into chunks, in both classes of \<open>Chunks\<close>: the
  loop over the chunks is treated once, in the locale \<open>chunked\<close>, for what the classes have
  in common.  Then what is read back, and what happens when there is nothing to send.
\<close>

subsection \<open>The chunks\<close>

text \<open>A row of the signed transactions.\<close>

definition chunk_row :: "('m, 'd) codec \<Rightarrow> 'm transaction_scheme \<Rightarrow> 'd \<Rightarrow> txid \<Rightarrow> string \<Rightarrow> signed" where
  "chunk_row cd q d i n =
     \<lparr>sg_body = cd_body cd \<lparr>bd_data = d, bd_fee = tx_maxFee q, bd_memo = tx_memo q, bd_txid = i,
        bd_node = Some n, bd_duration = tx_validDuration q\<rparr>, sg_sigs = []\<rparr>"

text \<open>
  What the loop relies on in a class: preparing a chunk touches nothing of the transaction, and
  the data of a prepared chunk depends on the fields \<open>keep\<close> only, once the cursor of the ids is
  at the chunk.
\<close>

locale chunked =
  fixes cd :: "('m, 'd) codec" and mark :: "nat \<Rightarrow> 'm transaction_scheme \<Rightarrow> 'm transaction_scheme"
    and keep :: "'m transaction_scheme \<Rightarrow> 'x" and datum :: "nat \<Rightarrow> 'x \<Rightarrow> 'd"
    and marked :: "nat \<Rightarrow> 'm transaction_scheme \<Rightarrow> bool"
  assumes mark_fields: "tx_ids (mark k q) = tx_ids q" "tx_signed (mark k q) = tx_signed q"
      "ex_nodeIds (mark k q) = ex_nodeIds q" "tx_maxFee (mark k q) = tx_maxFee q" "tx_memo (mark k q) = tx_memo q"
      "tx_validDuration (mark k q) = tx_validDuration q" "keep (mark k q) = keep q" "marked k (mark k q)"
    and keep_ids: "keep (q\<lparr>tx_ids := l\<rparr>) = keep q" "marked k (q\<lparr>tx_ids := l\<rparr>) = marked k q"
    and keep_signed: "keep (q\<lparr>tx_signed := s\<rparr>) = keep q" "marked k (q\<lparr>tx_signed := s\<rparr>) = marked k q"
    and data: "marked k q \<Longrightarrow> rl_index (tx_ids q) = Some k \<Longrightarrow> cd_data cd q = Inr (datum k (keep q))"
begin

lemma rows_ok:
  assumes "marked k q" "rl_index (tx_ids q) = Some k" "rl_current (tx_ids q) = Some i" "\<not> rl_locked (tx_signed q)"
  shows "chunk_rows cd ns q = (Inr (), q\<lparr>tx_signed := (tx_signed q)\<lparr>rl_list :=
    rl_list (tx_signed q) @ map (chunk_row cd q (datum k (keep q)) i) ns\<rparr>\<rparr>)"
  using assms
proof (induction ns arbitrary: q)
  case (Cons n ns)
  let ?l = "(tx_signed q)\<lparr>rl_list := rl_list (tx_signed q) @ [chunk_row cd q (datum k (keep q)) i n]\<rparr>"
  have made: "js_bind (tx_makeSignedTransaction cd (Some n) q) (\<lambda>s. rl_push (tx_signed q) [s]) = Inr ?l"
    using data [OF Cons.prems(1,2)] Cons.prems(3,4)
    by (simp add: tx_makeSignedTransaction_def tx_makeTransactionBody_def chunk_row_def rl_push_def)
  have row: "chunk_row cd (q\<lparr>tx_signed := l\<rparr>) = chunk_row cd q" for l
    by (simp add: fun_eq_iff chunk_row_def)
  show ?case
    using Cons.IH [of "q\<lparr>tx_signed := ?l\<rparr>"] Cons.prems made by (simp add: keep_signed row)
qed simp

lemma loop_ok:
  assumes "\<not> rl_locked (tx_signed q)" "\<not> rl_locked (tx_ids q)" "length (rl_list (tx_ids q)) = k"
    and "rl_index (tx_ids q) = Some (k - 1)"
  shows "\<exists>q'. chunk_loop cd mark k r i q = (Inr (), q') \<and>
    rl_list (tx_signed q') = rl_list (tx_signed q) @ concat (map (\<lambda>j.
      map (chunk_row cd q (datum (k + j) (keep q)) ((chunk_nextId ^^ j) i)) (rl_list (ex_nodeIds q))) [0..<r]) \<and>
    rl_list (tx_ids q') = rl_list (tx_ids q) @ map (\<lambda>j. (chunk_nextId ^^ j) i) [0..<r] \<and>
    rl_index (tx_ids q') = Some (k + r - 1) \<and> \<not> rl_locked (tx_ids q') \<and>
    ex_nodeIds q' = ex_nodeIds q \<and> tx_maxFee q' = tx_maxFee q \<and> tx_memo q' = tx_memo q \<and>
    tx_validDuration q' = tx_validDuration q \<and> keep q' = keep q"
  using assms
proof (induction r arbitrary: k i q)
  case (Suc r)
  let ?l = "(tx_ids q)\<lparr>rl_list := rl_list (tx_ids q) @ [i], rl_index := Some k\<rparr>"
  let ?q1 = "mark k q\<lparr>tx_ids := ?l\<rparr>"
  have push: "rl_push (tx_ids (mark k q)) [i] = Inr ((tx_ids q)\<lparr>rl_list := rl_list (tx_ids q) @ [i]\<rparr>)"
    using Suc.prems by (simp add: mark_fields rl_push_def)
  have adv: "snd (rl_advance ((tx_ids q)\<lparr>rl_list := rl_list (tx_ids q) @ [i]\<rparr>)) = ?l"
    using Suc.prems by (cases k) (simp_all add: rl_advance_def)
  have cur: "rl_current (tx_ids ?q1) = Some i" using Suc.prems(3) by (simp add: rl_current_def rl_get_def js_nth_def nth_append)
  let ?row = "chunk_row cd q (datum k (keep q)) i"
  have row: "chunk_row cd ?q1 (datum k (keep q)) i = ?row" by (simp add: fun_eq_iff chunk_row_def mark_fields)
  let ?q2 = "?q1\<lparr>tx_signed := (tx_signed q)\<lparr>rl_list := rl_list (tx_signed q) @ map ?row (rl_list (ex_nodeIds q))\<rparr>\<rparr>"
  have rows: "chunk_rows cd (rl_list (ex_nodeIds q)) ?q1 = (Inr (), ?q2)"
    using rows_ok [of k ?q1 i "rl_list (ex_nodeIds q)"] Suc.prems(1) cur row by (simp add: keep_ids mark_fields)
  have step: "chunk_loop cd mark k (Suc r) i q = chunk_loop cd mark (Suc k) r (chunk_nextId i) ?q2"
    using push adv rows by (simp add: mark_fields)
  have row2: "chunk_row cd ?q2 = chunk_row cd q" by (simp add: fun_eq_iff chunk_row_def mark_fields)
  obtain q' where q': "chunk_loop cd mark (Suc k) r (chunk_nextId i) ?q2 = (Inr (), q')"
    "rl_list (tx_signed q') = rl_list (tx_signed ?q2) @ concat (map (\<lambda>j.
      map (chunk_row cd ?q2 (datum (Suc k + j) (keep ?q2)) ((chunk_nextId ^^ j) (chunk_nextId i))) (rl_list (ex_nodeIds ?q2))) [0..<r])"
    "rl_list (tx_ids q') = rl_list (tx_ids ?q2) @ map (\<lambda>j. (chunk_nextId ^^ j) (chunk_nextId i)) [0..<r]"
    "rl_index (tx_ids q') = Some (Suc k + r - 1)" "\<not> rl_locked (tx_ids q')"
    "ex_nodeIds q' = ex_nodeIds ?q2" "tx_maxFee q' = tx_maxFee ?q2" "tx_memo q' = tx_memo ?q2"
    "tx_validDuration q' = tx_validDuration ?q2" "keep q' = keep ?q2"
    using Suc.IH [of ?q2 "Suc k" "chunk_nextId i"] Suc.prems by auto
  have keep2: "keep ?q2 = keep q" by (simp add: keep_ids keep_signed mark_fields)
  have upt: "[0..<Suc r] = 0 # map Suc [0..<r]" by (simp add: upt_conv_Cons map_Suc_upt del: upt_Suc)
  have pow: "(chunk_nextId ^^ j) (chunk_nextId i) = (chunk_nextId ^^ Suc j) i" for j by (simp add: funpow_swap1)
  show ?case
    unfolding step upt using q' by (intro exI [of _ q']) (simp add: row2 keep2 pow comp_def mark_fields)
qed simp

end

subsection \<open>Cutting\<close>

abbreviation "pieces chunk bs n \<equiv> map (\<lambda>k. take chunk (drop (k * chunk) bs)) [0..<n]"

lemma slice_piece:
  "js_slice (k * c) (if k * c + c > length bs then length bs else k * c + c) bs = take c (drop (k * c) bs)"
  "js_slice (k * c) (min (k * c + c) (length bs)) bs = take c (drop (k * c) bs)"
  by (auto simp: js_slice_def min_def)

lemma chunk_count_bounds:
  assumes "chunk_count (length bs) chunk = Some n" "0 < chunk" "bs \<noteq> []"
  shows "1 \<le> n" "(n - 1) * chunk < length bs" "length bs \<le> n * chunk"
proof -
  have n: "n = (length bs + (chunk - 1)) div chunk" using assms(1,2) by (simp add: chunk_count_def)
  have len: "1 \<le> length bs" using assms(3) by (cases bs) simp_all
  have "chunk \<le> length bs + (chunk - 1)" using len assms(2) by simp
  then show "1 \<le> n" unfolding n using assms(2) by (simp add: Suc_le_eq div_greater_zero_iff)
  have bounds: "n * chunk \<le> length bs + (chunk - 1)" "length bs + (chunk - 1) < n * chunk + chunk"
    unfolding n using assms(2) dividend_less_div_times [of chunk "length bs + (chunk - 1)"] by simp_all
  show "length bs \<le> n * chunk" using bounds(2) assms(2) by simp
  have "chunk \<le> n * chunk" using \<open>1 \<le> n\<close> by (cases n) simp_all
  then show "(n - 1) * chunk < length bs" using bounds(1) assms(2) unfolding diff_mult_distrib by linarith
qed

lemma pieces_ok:
  assumes "chunk_count (length bs) chunk = Some n" "0 < chunk" "bs \<noteq> []"
  shows "concat (pieces chunk bs n) = bs" "\<forall>c \<in> set (pieces chunk bs n). c \<noteq> [] \<and> length c \<le> chunk"
proof -
  note b = chunk_count_bounds [OF assms]
  show "concat (pieces chunk bs n) = bs" using b(3) by (simp add: concat_pieces)
  have "k * chunk < length bs" if "k < n" for k
  proof -
    have "k \<le> n - 1" using that by simp
    from mult_le_mono1 [OF this, of chunk] show ?thesis using b(2) by (rule le_less_trans)
  qed
  then have "take chunk (drop (k * chunk) bs) \<noteq> []" if "k < n" for k using that assms(2) by fastforce
  then show "\<forall>c \<in> set (pieces chunk bs n). c \<noteq> [] \<and> length c \<le> chunk" by auto
qed

subsection \<open>The two classes\<close>

definition topic_datum ::
  "txid \<Rightarrow> nat \<Rightarrow> nat \<Rightarrow> topic_id option \<times> bytes option \<times> nat \<Rightarrow> chunk_message" where
  "topic_datum i n k =
     (\<lambda>(t, m, c). \<lparr>cm_target = map_option topic_toProtobuf t, cm_bytes = map_option (\<lambda>bs. take c (drop (k * c) bs)) m,
        cm_info = (if m = None then None else Some \<lparr>ci_initial = i, ci_total = n, ci_number = k + 1\<rparr>)\<rparr>)"

definition append_datum :: "nat \<Rightarrow> file_id option \<times> bytes option \<times> nat \<Rightarrow> chunk_message" where
  "append_datum k =
     (\<lambda>(f, m, c). \<lparr>cm_target = map_option file_toProtobuf f, cm_bytes = map_option (\<lambda>bs. take c (drop (k * c) bs)) m,
        cm_info = None\<rparr>)"

abbreviation "topic_keep q \<equiv> (tm_topicId q, tm_message q, tm_chunkSize q)"
abbreviation "append_keep q \<equiv> (fa_fileId q, fa_contents q, fa_chunkSize q)"

interpretation topic_chunked: chunked "topic_codec cd" "topic_mark i n" topic_keep "topic_datum i n"
  "\<lambda>k q. tm_chunkInfo q = Some \<lparr>ci_initial = i, ci_total = n, ci_number = k + 1\<rparr>"
  for cd :: "('m, chunk_message) codec" and i n
  by unfold_locales
    (auto simp: topic_mark_def topic_codec_def topic_makeTransactionData_def topic_datum_def Let_def
      slice_piece(1) [simplified] split: option.splits)

interpretation append_chunked: chunked "append_codec cd" "\<lambda>_ q. q" append_keep append_datum "\<lambda>_ _. True"
  for cd :: "('m, chunk_message) codec"
  by unfold_locales
    (auto simp: append_codec_def append_makeTransactionData_def append_datum_def Let_def slice_piece(2)
      split: option.splits)

lemma freeze_keeps:
  fixes q :: "'m transaction_scheme"
  assumes "tx_freezeWith cd validate pick client q = (r, client', q1)"
  shows "transaction.more q1 = transaction.more q \<and> rl_locked (tx_signed q1) = rl_locked (tx_signed q)"
proof -
  have defaults: "transaction.more (tx_freezeDefaults client q) = transaction.more q"
    "tx_signed (tx_freezeDefaults client q) = tx_signed q"
    by (simp_all add: tx_freezeDefaults_def Let_def)
  have nodes: "transaction.more q2 = transaction.more p \<and> tx_signed q2 = tx_signed p"
    if "tx_setNodeAccountIds_client pick client p = (r2, c2, q2)" for p q2 r2 c2
    using that by (auto simp: tx_setNodeAccountIds_client_def split: if_splits option.splits prod.splits sum.splits)
  have ids: "transaction.more (tx_buildNewTransactionIdList p) = transaction.more p"
    "tx_signed (tx_buildNewTransactionIdList p) = tx_signed p" for p :: "'m transaction_scheme"
    by (simp_all add: tx_buildNewTransactionIdList_def Let_def split: option.split)
  have build: "transaction.more q2 = transaction.more p \<and> rl_locked (tx_signed q2) = rl_locked (tx_signed p)"
    if "tx_buildSignedTransactions cd p = (r2, q2)" for p q2 r2
    using that by (auto simp: tx_buildSignedTransactions_def rl_setList_def split: if_splits sum.splits)
  show ?thesis
    using assms unfolding tx_freezeWith_def Let_def
    by (auto split: prod.splits sum.splits if_splits dest!: nodes build simp: defaults ids)
qed

lemma topic_more: "transaction.more q1 = transaction.more (q :: topic_tx) \<Longrightarrow>
    topic_keep q1 = topic_keep q \<and> tm_maxChunks q1 = tm_maxChunks q"
  by (cases q1; cases q) simp

lemma append_more: "transaction.more q1 = transaction.more (q :: append_tx) \<Longrightarrow>
    append_keep q1 = append_keep q \<and> fa_maxChunks q1 = fa_maxChunks q"
  by (cases q1; cases q) simp

lemma getId_keeps:
  "tx_getTransactionId q = (r, q1) \<Longrightarrow> transaction.more q1 = transaction.more q \<and>
    rl_locked (tx_signed q1) = rl_locked (tx_signed q) \<and> ex_nodeIds q1 = ex_nodeIds q"
  by (auto simp: tx_getTransactionId_def tx_transactionId_def split: if_splits option.splits)

lemma reset_ok:
  "\<not> rl_locked (tx_ids (chunk_reset q))" "rl_list (tx_ids (chunk_reset q)) = []"
  "rl_index (tx_ids (chunk_reset q)) = Some 0" "rl_list (tx_signed (chunk_reset q)) = []"
  "rl_locked (tx_signed (chunk_reset q)) = rl_locked (tx_signed q)"
  "transaction.more (chunk_reset q) = transaction.more q"
  by (simp_all add: chunk_reset_def rl_clear_def)

lemma chunk_row_cong:
  "tx_maxFee q = tx_maxFee p \<Longrightarrow> tx_memo q = tx_memo p \<Longrightarrow> tx_validDuration q = tx_validDuration p \<Longrightarrow>
    chunk_row cd q = chunk_row cd p"
  by (simp add: fun_eq_iff chunk_row_def)

lemma advance_last:
  "rl_index l = Some (n - 1) \<Longrightarrow> length (rl_list l) = n \<Longrightarrow> 1 \<le> n \<Longrightarrow>
    snd (rl_advance l) = l\<lparr>rl_index := Some 0\<rparr>"
  by (auto simp: rl_advance_def)

text \<open>What a successful loop leaves, in both classes.\<close>

lemma topic_chunks_ok:
  assumes "topic_chunks (topic_codec cd) n q = (Inr (), q')" "1 \<le> n" "\<not> rl_locked (tx_signed q)"
  shows "\<exists>i. rl_list (tx_ids q') = map (\<lambda>k. (chunk_nextId ^^ k) i) [0..<n] \<and> rl_index (tx_ids q') = Some 0 \<and>
    ex_nodeIds q' = ex_nodeIds q \<and>
    rl_list (tx_signed q') = concat (map (\<lambda>k. map (chunk_row (topic_codec cd) q' (topic_datum i n k (topic_keep q))
      ((chunk_nextId ^^ k) i)) (rl_list (ex_nodeIds q'))) [0..<n])"
proof -
  obtain i q1 where i: "tx_getTransactionId q = (Inr i, q1)"
    using assms(1) by (auto simp: topic_chunks_def split: prod.splits sum.splits)
  note kept = getId_keeps [OF i]
  let ?r = "chunk_reset q1"
  have keep: "topic_keep ?r = topic_keep q" using topic_more [of ?r q] kept reset_ok(6) [of q1] by simp
  obtain q2 where loop: "chunk_loop (topic_codec cd) (topic_mark i n) 0 n i ?r = (Inr (), q2)"
    "rl_list (tx_signed q2) = concat (map (\<lambda>k. map (chunk_row (topic_codec cd) ?r (topic_datum i n k (topic_keep q))
      ((chunk_nextId ^^ k) i)) (rl_list (ex_nodeIds ?r))) [0..<n])"
    "rl_list (tx_ids q2) = map (\<lambda>k. (chunk_nextId ^^ k) i) [0..<n]" "rl_index (tx_ids q2) = Some (n - 1)"
    "ex_nodeIds q2 = ex_nodeIds ?r" "tx_maxFee q2 = tx_maxFee ?r" "tx_memo q2 = tx_memo ?r"
    "tx_validDuration q2 = tx_validDuration ?r"
    using topic_chunked.loop_ok [of ?r 0 cd i n n i] kept assms(3) reset_ok [of q1] keep by auto
  have q': "q' = q2\<lparr>tx_ids := (tx_ids q2)\<lparr>rl_index := Some 0\<rparr>, tm_chunkInfo := None\<rparr>"
    using assms(1) i loop(1) advance_last [OF loop(4)] loop(3) assms(2) by (simp add: topic_chunks_def)
  have nodes: "ex_nodeIds ?r = ex_nodeIds q" using kept by (simp add: chunk_reset_def)
  have row: "chunk_row (topic_codec cd) q' = chunk_row (topic_codec cd) ?r"
    unfolding q' using loop(6-8) by (intro chunk_row_cong) simp_all
  show ?thesis unfolding row using loop(2,3,5) nodes by (intro exI [of _ i]) (simp add: q')
qed

lemma append_chunks_ok:
  assumes "append_chunks (append_codec cd) n q = (Inr (), q')" "1 \<le> n" "\<not> rl_locked (tx_signed q)"
  shows "\<exists>i. rl_list (tx_ids q') = map (\<lambda>k. (chunk_nextId ^^ k) i) [0..<n] \<and> rl_index (tx_ids q') = Some 0 \<and>
    ex_nodeIds q' = ex_nodeIds q \<and>
    rl_list (tx_signed q') = concat (map (\<lambda>k. map (chunk_row (append_codec cd) q' (append_datum k (append_keep q))
      ((chunk_nextId ^^ k) i)) (rl_list (ex_nodeIds q'))) [0..<n])"
proof -
  obtain i q1 where i: "tx_getTransactionId q = (Inr i, q1)"
    using assms(1) by (auto simp: append_chunks_def split: prod.splits sum.splits)
  note kept = getId_keeps [OF i]
  let ?r = "chunk_reset q1"
  have keep: "append_keep ?r = append_keep q" using append_more [of ?r q] kept reset_ok(6) [of q1] by simp
  obtain q2 where loop: "chunk_loop (append_codec cd) (\<lambda>_ q. q) 0 n i ?r = (Inr (), q2)"
    "rl_list (tx_signed q2) = concat (map (\<lambda>k. map (chunk_row (append_codec cd) ?r (append_datum k (append_keep q))
      ((chunk_nextId ^^ k) i)) (rl_list (ex_nodeIds ?r))) [0..<n])"
    "rl_list (tx_ids q2) = map (\<lambda>k. (chunk_nextId ^^ k) i) [0..<n]" "rl_index (tx_ids q2) = Some (n - 1)"
    "ex_nodeIds q2 = ex_nodeIds ?r" "tx_maxFee q2 = tx_maxFee ?r" "tx_memo q2 = tx_memo ?r"
    "tx_validDuration q2 = tx_validDuration ?r"
    using append_chunked.loop_ok [of ?r 0 cd n i] kept assms(3) reset_ok [of q1] keep by auto
  have q': "q' = q2\<lparr>tx_ids := rl_setLocked ((tx_ids q2)\<lparr>rl_index := Some 0\<rparr>)\<rparr>"
    using assms(1) i loop(1) advance_last [OF loop(4)] loop(3) assms(2) by (simp add: append_chunks_def)
  have nodes: "ex_nodeIds ?r = ex_nodeIds q" using kept by (simp add: chunk_reset_def)
  have row: "chunk_row (append_codec cd) q' = chunk_row (append_codec cd) ?r"
    unfolding q' using loop(6-8) by (intro chunk_row_cong) simp_all
  show ?thesis unfolding row using loop(2,3,5) nodes by (intro exI [of _ i]) (simp add: q' rl_setLocked_def)
qed

lemma topic_message_cut:
  assumes "topic_freezeWith cd validate pick client q = (Inr (), client', q')"
    and "tm_message q = Some bs" "bs \<noteq> []" "0 < tm_chunkSize q" "\<not> rl_locked (tx_signed q)"
  shows "\<exists>i n. chunk_count (length bs) (tm_chunkSize q) = Some n \<and> n \<le> tm_maxChunks q \<and>
    rl_list (tx_ids q') = map (\<lambda>k. (chunk_nextId ^^ k) i) [0..<n] \<and> rl_index (tx_ids q') = Some 0 \<and>
    rl_list (tx_signed q') = concat (map (\<lambda>k. map (chunk_row (topic_codec cd) q'
      (topic_datum i n k (topic_keep q)) ((chunk_nextId ^^ k) i)) (rl_list (ex_nodeIds q'))) [0..<n])"
proof -
  obtain c1 q1 where f: "tx_freezeWith (topic_codec cd) validate pick client q = (Inr (), c1, q1)"
    using assms(1) by (auto simp: topic_freezeWith_def split: prod.splits sum.splits)
  note same = freeze_keeps [OF f]
  have keep: "topic_keep q1 = topic_keep q \<and> tm_maxChunks q1 = tm_maxChunks q" using same topic_more by blast
  obtain n where n: "chunk_count (length bs) (tm_chunkSize q) = Some n" "n \<le> tm_maxChunks q"
    "topic_chunks (topic_codec cd) n q1 = (Inr (), q')"
    using assms(1,2) f keep
    by (auto simp: topic_freezeWith_def split: option.splits if_splits prod.splits)
  have kept: "topic_keep q1 = topic_keep q" using keep by blast
  show ?thesis
    using topic_chunks_ok [OF n(3) chunk_count_bounds(1) [OF n(1) assms(4,3)]] same assms(5) n(1,2)
    unfolding kept by blast
qed

text \<open>
  C12. A frozen topic message is cut into chunks that give the message back: none is empty,
  none is longer than the chunk size and there are no more than allowed.  For each chunk
  there is one signed transaction per node, in the order of the nodes, whose body has the
  chunk, its number, the total and the id of the first chunk; the ids count up by one
  nanosecond, and the cursor is at the first.
\<close>

theorem topic_message_chunks:
  assumes "topic_freezeWith cd validate pick client q = (Inr (), client', q')"
    and "tm_message q = Some bs" "bs \<noteq> []" "0 < tm_chunkSize q" "\<not> rl_locked (tx_signed q)"
  shows "\<exists>i n chunks. length chunks = n \<and> concat chunks = bs \<and> n \<le> tm_maxChunks q \<and>
    (\<forall>c \<in> set chunks. c \<noteq> [] \<and> length c \<le> tm_chunkSize q) \<and>
    rl_list (tx_ids q') = map (\<lambda>k. (chunk_nextId ^^ k) i) [0..<n] \<and> rl_index (tx_ids q') = Some 0 \<and>
    rl_list (tx_signed q') = concat (map (\<lambda>k. map (chunk_row (topic_codec cd) q'
      \<lparr>cm_target = map_option topic_toProtobuf (tm_topicId q), cm_bytes = Some (chunks ! k),
       cm_info = Some \<lparr>ci_initial = i, ci_total = n, ci_number = k + 1\<rparr>\<rparr>
      ((chunk_nextId ^^ k) i)) (rl_list (ex_nodeIds q'))) [0..<n])"
proof -
  obtain i n where n: "chunk_count (length bs) (tm_chunkSize q) = Some n" "n \<le> tm_maxChunks q"
    and cut: "rl_list (tx_ids q') = map (\<lambda>k. (chunk_nextId ^^ k) i) [0..<n]" "rl_index (tx_ids q') = Some 0"
      "rl_list (tx_signed q') = concat (map (\<lambda>k. map (chunk_row (topic_codec cd) q' (topic_datum i n k (topic_keep q))
        ((chunk_nextId ^^ k) i)) (rl_list (ex_nodeIds q'))) [0..<n])"
    using topic_message_cut [OF assms] by blast
  note pieces = pieces_ok [OF n(1) assms(4,3)]
  have datum: "topic_datum i n k (topic_keep q) =
      \<lparr>cm_target = map_option topic_toProtobuf (tm_topicId q), cm_bytes = Some (pieces (tm_chunkSize q) bs n ! k),
       cm_info = Some \<lparr>ci_initial = i, ci_total = n, ci_number = k + 1\<rparr>\<rparr>" if "k < n" for k
    using that assms(2) by (simp add: topic_datum_def)
  have rows: "map (\<lambda>k. map (chunk_row (topic_codec cd) q' (topic_datum i n k (topic_keep q))
      ((chunk_nextId ^^ k) i)) (rl_list (ex_nodeIds q'))) [0..<n] =
    map (\<lambda>k. map (chunk_row (topic_codec cd) q'
      \<lparr>cm_target = map_option topic_toProtobuf (tm_topicId q), cm_bytes = Some (pieces (tm_chunkSize q) bs n ! k),
       cm_info = Some \<lparr>ci_initial = i, ci_total = n, ci_number = k + 1\<rparr>\<rparr>
      ((chunk_nextId ^^ k) i)) (rl_list (ex_nodeIds q'))) [0..<n]"
    by (intro map_cong refl) (simp add: datum)
  show ?thesis
    using pieces n(2) cut rows
    by (intro exI [of _ i] exI [of _ n] exI [of _ "pieces (tm_chunkSize q) bs n"]) simp
qed

lemma append_file_chunks:
  assumes "append_freezeWith cd validate pick client q = (Inr (), client', q')"
    and "fa_contents q = Some bs" "bs \<noteq> []" "0 < fa_chunkSize q" "\<not> rl_locked (tx_signed q)"
  shows "\<exists>i n. concat (pieces (fa_chunkSize q) bs n) = bs \<and> 1 \<le> n \<and> n \<le> fa_maxChunks q \<and>
    rl_list (tx_ids q') = map (\<lambda>k. (chunk_nextId ^^ k) i) [0..<n] \<and> rl_index (tx_ids q') = Some 0 \<and>
    rl_list (tx_signed q') = concat (map (\<lambda>k. map (chunk_row (append_codec cd) q'
      (append_datum k (append_keep q)) ((chunk_nextId ^^ k) i)) (rl_list (ex_nodeIds q'))) [0..<n])"
proof -
  obtain c1 q1 where f: "tx_freezeWith (append_codec cd) validate pick client q = (Inr (), c1, q1)"
    using assms(1) by (auto simp: append_freezeWith_def split: prod.splits sum.splits)
  note same = freeze_keeps [OF f]
  have keep: "append_keep q1 = append_keep q \<and> fa_maxChunks q1 = fa_maxChunks q" using same append_more by blast
  obtain n where n: "chunk_count (length bs) (fa_chunkSize q) = Some n" "n \<le> fa_maxChunks q"
    "append_chunks (append_codec cd) n q1 = (Inr (), q')"
    using assms(1,2) f keep
    by (auto simp: append_freezeWith_def split: option.splits if_splits prod.splits)
  note one = chunk_count_bounds(1) [OF n(1) assms(4,3)]
  have kept: "append_keep q1 = append_keep q" using keep by blast
  show ?thesis
    using append_chunks_ok [OF n(3) one] same assms(5) pieces_ok(1) [OF n(1) assms(4,3)] one n(2)
    unfolding kept by blast
qed

subsection \<open>Reading the chunks back\<close>

lemma append_loop_collects:
  assumes "length bodies = n * m" "0 < m"
    and "\<And>j. j < n \<Longrightarrow> pb_data (bodies ! (j * m)) = Some (d j) \<and> cm_bytes (d j) = Some (p j)"
  shows "j \<le> n \<Longrightarrow> append_loop m bodies (j * m) (Some acc) = Some (Inr (Some (acc @ concat (map p [j..<n]))))"
proof (induction "n - j" arbitrary: j acc)
  case 0
  then show ?case using assms(1) by (simp add: append_loop.simps)
next
  case (Suc r)
  then have j: "j < n" by simp
  then have inside: "j * m < length bodies" using assms(1,2) by simp
  have "append_loop m bodies (Suc j * m) (Some (acc @ p j)) = Some (Inr (Some ((acc @ p j) @ concat (map p [Suc j..<n]))))"
    using Suc.hyps(2) j by (intro Suc.hyps(1)) simp_all
  then show ?case
    using inside assms(3) [OF j] j
    by (subst append_loop.simps) (simp add: upt_conv_Cons add.commute)
qed

lemma append_loop_all:
  assumes "length bodies = n * m" "0 < m" "1 \<le> n"
    and "\<And>j. j < n \<Longrightarrow> pb_data (bodies ! (j * m)) = Some (d j) \<and> cm_bytes (d j) = Some (p j)"
  shows "append_loop m bodies 0 None = Some (Inr (Some (concat (map p [0..<n]))))"
proof -
  have "0 < length bodies" using assms(1-3) by simp
  moreover have "append_loop m bodies m (Some (p 0)) = Some (Inr (Some (p 0 @ concat (map p [1..<n]))))"
    using append_loop_collects [OF assms(1,2,4), of 1 "p 0"] assms(3) by simp
  ultimately show ?thesis
    using assms(4) [of 0] assms(3) by (subst append_loop.simps) (simp add: upt_conv_Cons)
qed

text \<open>Decoding the bodies of the signed transactions of a frozen transaction.\<close>

definition rows_decoded ::
  "('m, 'd) codec \<Rightarrow> (bytes \<Rightarrow> 'd pbody) \<Rightarrow> 'm transaction_scheme \<Rightarrow> 'd pbody list \<Rightarrow> bool" where
  "rows_decoded cd decode q bodies \<longleftrightarrow>
     (\<forall>s \<in> set (rl_list (tx_signed q)). \<forall>b. sg_body s = cd_body cd b \<longrightarrow> decode (sg_body s) = pbody_of b) \<and>
     bodies = map (\<lambda>s. decode (sg_body s)) (rl_list (tx_signed q))"

lemma rows_decoded_data:
  assumes "rows_decoded cd decode q bodies"
    and "rl_list (tx_signed q) = concat (map (\<lambda>k. map (chunk_row cd q (d k) (i k)) ns) [0..<n])"
  shows "length bodies = n * length ns \<and>
    (\<forall>k < n. \<forall>j < length ns. pb_data (bodies ! (k * length ns + j)) = Some (d k))"
proof -
  let ?rows = "concat (map (\<lambda>k. map (chunk_row cd q (d k) (i k)) ns) [0..<n])"
  have len: "length ?rows = n * length ns" by (simp add: length_concat comp_def sum_list_triv)
  have "pb_data (bodies ! (k * length ns + j)) = Some (d k)" if k: "k < n" "j < length ns" for k j
  proof -
    have at: "?rows ! (k * length ns + j) = chunk_row cd q (d k) (i k) (ns ! j)"
      using k by (subst nth_concat_rows [where n = "length ns"]) auto
    have "k * length ns + j < Suc k * length ns" using k(2) by simp
    also have "\<dots> \<le> n * length ns" using k(1) by (intro mult_le_mono1) simp
    finally have inside: "k * length ns + j < length ?rows" using len by simp
    let ?s = "?rows ! (k * length ns + j)"
    have "?s \<in> set (rl_list (tx_signed q))" unfolding assms(2) using inside by (rule nth_mem)
    then have "decode (sg_body ?s) = pbody_of \<lparr>bd_data = d k, bd_fee = tx_maxFee q, bd_memo = tx_memo q, bd_txid = i k,
        bd_node = Some (ns ! j), bd_duration = tx_validDuration q\<rparr>"
      using assms(1) unfolding rows_decoded_def at by (simp add: chunk_row_def)
    moreover have "bodies ! (k * length ns + j) = decode (sg_body ?s)"
      using assms(1) inside unfolding rows_decoded_def assms(2) by simp
    ultimately show ?thesis by (simp add: pbody_of_def)
  qed
  moreover have "length bodies = n * length ns"
    using assms(1) len unfolding rows_decoded_def assms(2) by simp
  ultimately show ?thesis by blast
qed

lemma append_read_back:
  assumes "append_freezeWith cd validate pick client q = (Inr (), client', q')"
    and "fa_contents q = Some bs" "bs \<noteq> []" "0 < fa_chunkSize q" "\<not> rl_locked (tx_signed q)"
    and "rl_list (ex_nodeIds q') \<noteq> []" "rows_decoded (append_codec cd) decode q' bodies"
    and "long_text print parse" "\<forall>i. fa_fileId q = Some i \<longrightarrow> id_valid (fl_ids i)"
  shows "\<exists>r. append_ofBodies print parse starts (rl_list (ex_nodeIds q')) bodies = Some (Inr r) \<and>
      fa_contents r = Some bs \<and> map_option fl_ids (fa_fileId r) = map_option fl_ids (fa_fileId q)"
proof -
  let ?ns = "rl_list (ex_nodeIds q')"
  obtain i n where q': "concat (pieces (fa_chunkSize q) bs n) = bs" "1 \<le> n"
    "rl_list (tx_signed q') = concat (map (\<lambda>k. map (chunk_row (append_codec cd) q'
      (append_datum k (append_keep q)) ((chunk_nextId ^^ k) i)) ?ns) [0..<n])"
    using append_file_chunks [OF assms(1-5)] by blast
  have m: "0 < length ?ns" using assms(6) by simp
  note rows = rows_decoded_data [OF assms(7) q'(3)]
  have data: "pb_data (bodies ! (j * length ?ns)) = Some (append_datum j (append_keep q)) \<and>
      cm_bytes (append_datum j (append_keep q)) = Some (take (fa_chunkSize q) (drop (j * fa_chunkSize q) bs))" if "j < n" for j
  proof -
    have "pb_data (bodies ! (j * length ?ns + 0)) = Some (append_datum j (append_keep q))"
      using conjunct2 [OF rows] that m by blast
    then show ?thesis using assms(2) by (simp add: append_datum_def)
  qed
  have loop: "append_loop (length ?ns) bodies 0 None = Some (Inr (Some bs))"
    using append_loop_all [OF conjunct1 [OF rows] m q'(2) data] q'(1) by simp
  have "bodies \<noteq> []" using conjunct1 [OF rows] m q'(2) by auto
  then obtain b bs' where b: "bodies = b # bs'" "pb_data b = Some (append_datum 0 (append_keep q))"
    using data [of 0] q'(2) by (cases bodies) auto
  show ?thesis
  proof (cases "fa_fileId q")
    case (Some f)
    then have v: "id_valid (fl_ids f)" using assms(9) by simp
    have "file_fromProtobuf print parse (file_toProtobuf \<lparr>fl_ids = fl_ids f, fl_checksum = fl_checksum f\<rparr>) =
        Inr \<lparr>fl_ids = fl_ids f, fl_checksum = None\<rparr>"
      by (rule Ids.files.message_made [OF assms(8) v])
    then show ?thesis
      using loop b Some Ids.files.copy_made [OF v, of None]
      by (cases f) (simp add: append_ofBodies_def append_datum_def)
  next
    case None
    then show ?thesis using loop b by (simp add: append_ofBodies_def append_datum_def)
  qed
qed

lemma topic_read_back:
  assumes "topic_freezeWith cd validate pick client p = (Inr (), tclient', p')"
    and "tm_message p = Some ms" "ms \<noteq> []" "0 < tm_chunkSize p" "\<not> rl_locked (tx_signed p)"
    and "rl_list (ex_nodeIds p') \<noteq> []" "rows_decoded (topic_codec cd) decode p' tbodies"
    and "long_text print parse" "\<forall>i. tm_topicId p = Some i \<longrightarrow> id_valid (tp_ids i)"
  shows "\<exists>r. topic_ofBodies starts tbodies = Inr r \<and> tm_message r = Some (take (tm_chunkSize p) ms) \<and>
      map_option tp_ids (tm_topicId r) = map_option tp_ids (tm_topicId p)"
proof -
  let ?ms = "rl_list (ex_nodeIds p')"
  obtain i n where p': "chunk_count (length ms) (tm_chunkSize p) = Some n"
    "rl_list (tx_signed p') = concat (map (\<lambda>k. map (chunk_row (topic_codec cd) p'
      (topic_datum i n k (topic_keep p)) ((chunk_nextId ^^ k) i)) ?ms) [0..<n])"
    using topic_message_cut [OF assms(1-5)] by blast
  note one = chunk_count_bounds(1) [OF p'(1) assms(4,3)]
  note rows = rows_decoded_data [OF assms(7) p'(2)]
  have m: "0 < length ?ms" using assms(6) by simp
  have "pb_data (tbodies ! (0 * length ?ms + 0)) = Some (topic_datum i n 0 (topic_keep p))"
    using conjunct2 [OF rows] one m by (metis less_le_trans zero_less_one)
  moreover have "tbodies \<noteq> []" using conjunct1 [OF rows] m one by auto
  ultimately obtain b bs' where b: "tbodies = b # bs'" "pb_data b = Some (topic_datum i n 0 (topic_keep p))"
    by (cases tbodies) auto
  show ?thesis
  proof (cases "tm_topicId p")
    case (Some t)
    then have v: "id_valid (tp_ids t)" using assms(9) by simp
    have "topic_fromProtobuf (topic_toProtobuf \<lparr>tp_ids = tp_ids t, tp_checksum = tp_checksum t\<rparr>) =
        Inr \<lparr>tp_ids = tp_ids t, tp_checksum = None\<rparr>"
      by (rule Ids.topics.message_made [OF assms(8) v])
    then show ?thesis
      using b Some Ids.topics.copy_made [OF v, of None] assms(2)
      by (cases t) (simp add: topic_ofBodies_def topic_datum_def)
  next
    case None
    then show ?thesis using b assms(2) by (simp add: topic_ofBodies_def topic_datum_def)
  qed
qed

text \<open>
  C28. The contents of a file survive being cut up: reading the bodies of the signed
  transactions of a frozen append puts the chunks together again, whatever the number of
  nodes and the chunk size.  A topic message does not: only its first chunk is read.
\<close>

theorem chunks_read_back:
  assumes "append_freezeWith cd validate pick client q = (Inr (), client', q')"
    and "fa_contents q = Some bs" "bs \<noteq> []" "0 < fa_chunkSize q" "\<not> rl_locked (tx_signed q)"
    and "rl_list (ex_nodeIds q') \<noteq> []" "rows_decoded (append_codec cd) decode q' bodies"
    and "topic_freezeWith cd validate pick client p = (Inr (), tclient', p')"
    and "tm_message p = Some ms" "ms \<noteq> []" "0 < tm_chunkSize p" "\<not> rl_locked (tx_signed p)"
    and "rl_list (ex_nodeIds p') \<noteq> []" "rows_decoded (topic_codec cd) decode p' tbodies"
    and "long_text print parse" "\<forall>i. fa_fileId q = Some i \<longrightarrow> id_valid (fl_ids i)"
    and "\<forall>i. tm_topicId p = Some i \<longrightarrow> id_valid (tp_ids i)"
  shows "(\<exists>r. append_ofBodies print parse starts (rl_list (ex_nodeIds q')) bodies = Some (Inr r) \<and>
      fa_contents r = Some bs \<and> map_option fl_ids (fa_fileId r) = map_option fl_ids (fa_fileId q)) \<and>
    (\<exists>r. topic_ofBodies starts tbodies = Inr r \<and> tm_message r = Some (take (tm_chunkSize p) ms) \<and>
      map_option tp_ids (tm_topicId r) = map_option tp_ids (tm_topicId p))"
  using append_read_back [OF assms(1-7) assms(15,16)] topic_read_back [OF assms(8-14) assms(15,17)] by blast

subsection \<open>Nothing to send\<close>

lemma no_chunks:
  "topic_chunks cd 0 q = (Inr (), q') \<Longrightarrow> rl_list (tx_ids q') = [] \<and> rl_list (tx_signed q') = []"
  "append_chunks cd2 0 p = (Inr (), p') \<Longrightarrow> rl_list (tx_ids p') = [] \<and> rl_list (tx_signed p') = []"
  by (auto simp: topic_chunks_def append_chunks_def chunk_reset_def rl_defs split: prod.splits sum.splits)

lemma empty_freezes:
  fixes q :: topic_tx and p :: append_tx
  shows "topic_freezeWith cd validate pick client q = (Inr (), client', q') \<Longrightarrow> tm_message q = Some [] \<Longrightarrow>
      0 < tm_chunkSize q \<Longrightarrow> rl_list (tx_ids q') = [] \<and> rl_list (tx_signed q') = []"
    and "append_freezeWith cd validate pick client p = (Inr (), client', p') \<Longrightarrow> fa_contents p = Some [] \<Longrightarrow>
      0 < fa_chunkSize p \<Longrightarrow> rl_list (tx_ids p') = [] \<and> rl_list (tx_signed p') = []"
  by (auto simp: topic_freezeWith_def append_freezeWith_def chunk_count_def no_chunks
      split: prod.splits sum.splits if_splits option.splits dest!: freeze_keeps topic_more append_more)

lemma executeAll_without_ids:
  assumes "\<not> tx_isFrozen_any q"
    and "\<And>client' q'. freeze (Some c) q = (Inr (), client', q') \<Longrightarrow> rl_list (tx_ids q') = []"
  shows "\<exists>e q' c'. chunk_executeAll freeze run receipt stamps timeout c q = (Some (Inl e), q', c', [])"
proof (cases "freeze (Some c) q")
  case (fields r client' q')
  show ?thesis
  proof (cases r)
    case (Inr u)
    then have "rl_list (tx_ids q') = []" using assms(2) fields by simp
    then show ?thesis
      using fields Inr assms(1)
      by (simp add: chunk_executeAll_def tx_getTransactionId_def tx_transactionId_def rl_defs)
  qed (use fields assms(1) in \<open>simp add: chunk_executeAll_def\<close>)
qed

text \<open>
  An empty message or an empty file is accepted by \<open>freezeWith\<close>, which then leaves no signed
  transaction and no transaction id; \<open>executeAll\<close> sends nothing and ends with an error.
\<close>

theorem empty_message_not_sent:
  fixes q :: topic_tx and p :: append_tx and c :: "'ch client"
  assumes "tm_message q = Some []" "0 < tm_chunkSize q" "\<not> tx_isFrozen_any q"
    and "fa_contents p = Some []" "0 < fa_chunkSize p" "\<not> tx_isFrozen_any p"
    and "topic_freezeWith cd validate pick client q = (Inr (), client', q')"
  shows "rl_list (tx_ids q') = [] \<and> rl_list (tx_signed q') = [] \<and>
    (\<exists>e q2 c2. topic_executeAll cd validate pick run stamps timeout c q = (Some (Inl e), q2, c2, [])) \<and>
    (\<exists>e p2 c2. append_executeAll cd validate pick arun receipt stamps timeout c p = (Some (Inl e), p2, c2, []))"
  using empty_freezes(1) [OF assms(7,1,2)]
    executeAll_without_ids [OF assms(3), of "topic_freezeWith cd validate pick" c run "\<lambda>k res c. (Some (Inr ()), c)" stamps timeout]
    executeAll_without_ids [OF assms(6), of "append_freezeWith cd validate pick" c arun receipt stamps timeout]
    empty_freezes(1) [OF _ assms(1,2)] empty_freezes(2) [OF _ assms(4,5)]
  unfolding topic_executeAll_def append_executeAll_def by blast

subsection \<open>The loop that collects a file\<close>

lemma append_loop_ends:
  assumes "0 < m"
  shows "append_loop m bodies i acc \<noteq> None"
proof (induction "length bodies - i" arbitrary: i acc rule: less_induct)
  case less
  show ?case
  proof (cases "i < length bodies")
    case True
    then have "append_loop m bodies (i + m) a \<noteq> None" for a using less.hyps [of "i + m"] assms by simp
    then show ?thesis by (subst append_loop.simps) (simp split: option.splits)
  qed (simp add: append_loop.simps)
qed

lemma append_loop_stays:
  assumes "append_loop m bodies i acc = Some r"
  shows "m = 0 \<longrightarrow> i < length bodies \<longrightarrow> pb_data (bodies ! i) = Some d \<longrightarrow> cm_bytes d = Some bs \<longrightarrow> False"
proof (rule append_loop.raw_induct [OF _ assms, where P = "\<lambda>m bodies i acc r. m = 0 \<longrightarrow> i < length bodies \<longrightarrow>
    pb_data (bodies ! i) = Some d \<longrightarrow> cm_bytes d = Some bs \<longrightarrow> False"])
qed (auto split: if_splits)

lemma append_loop_zero:
  "append_loop 0 (b # bs) 0 None = None \<longleftrightarrow> (\<exists>d t. pb_data b = Some d \<and> cm_bytes d = Some t)"
proof (cases "\<exists>d t. pb_data b = Some d \<and> cm_bytes d = Some t")
  case True
  then obtain d t where "pb_data b = Some d" "cm_bytes d = Some t" by blast
  then have "append_loop 0 (b # bs) 0 None = None"
    using append_loop_stays [of 0 "b # bs" 0 None] by (cases "append_loop 0 (b # bs) 0 None") auto
  then show ?thesis using True by simp
next
  case False
  then have "append_loop 0 (b # bs) 0 None \<noteq> None"
    by (subst append_loop.simps) (force split: option.split)
  then show ?thesis using False by blast
qed

text \<open>
  C36. Reading a file append ends unless the transaction has no node: without a node it ends
  exactly when there is no body, or the first has no contents.
\<close>

theorem file_read_terminates:
  "(nodes \<noteq> [] \<longrightarrow> append_ofBodies print parse starts nodes bodies \<noteq> None) \<and>
   (append_ofBodies print parse starts [] (b # bs) \<noteq> None \<longleftrightarrow> (\<nexists>d t. pb_data b = Some d \<and> cm_bytes d = Some t))"
proof
  show "nodes \<noteq> [] \<longrightarrow> append_ofBodies print parse starts nodes bodies \<noteq> None"
    using append_loop_ends [of "length nodes" bodies 0 None] by (auto simp: append_ofBodies_def split: list.split)
next
  show "append_ofBodies print parse starts [] (b # bs) \<noteq> None \<longleftrightarrow> (\<nexists>d t. pb_data b = Some d \<and> cm_bytes d = Some t)"
    by (simp add: append_ofBodies_def append_loop_zero)
qed

subsection \<open>Witnesses\<close>

definition demo_list :: "'a list \<Rightarrow> 'a rlist" where
  "demo_list l = \<lparr>rl_list = l, rl_locked = True, rl_index = Some 0\<rparr>"

definition demo_message :: topic_tx where
  "demo_message = (topic_blank (\<lambda>_. \<lparr>ts_seconds = 9, ts_nanos = 0\<rparr>))\<lparr>ex_nodeIds := demo_list [''3''],
     tx_ids := demo_list [demo_id], tm_topicId := Some \<lparr>tp_ids = (0, 0, 7), tp_checksum = None\<rparr>,
     tm_message := Some [1, 2, 3], tm_chunkSize := 2\<rparr>"

definition demo_append :: append_tx where
  "demo_append = (append_blank (\<lambda>_. \<lparr>ts_seconds = 9, ts_nanos = 0\<rparr>))\<lparr>ex_nodeIds := demo_list [''3''],
     tx_ids := demo_list [demo_id], fa_fileId := Some \<lparr>fl_ids = (0, 0, 8), fl_checksum = None\<rparr>,
     fa_contents := Some [4, 5, 6], fa_chunkSize := 2\<rparr>"

definition demo_body :: "chunk_message \<Rightarrow> nat \<Rightarrow> nat \<Rightarrow> chunk_message body" where
  "demo_body m fee k =
     \<lparr>bd_data = m, bd_fee = Some fee, bd_memo = [], bd_txid = (chunk_nextId ^^ k) demo_id, bd_node = Some ''3'',
      bd_duration = 120\<rparr>"

definition demo_bodies :: "chunk_message body list" where
  "demo_bodies = map (\<lambda>k. demo_body (topic_datum demo_id 2 k (topic_keep demo_message)) 200000000 k) [0, 1] @
     map (\<lambda>k. demo_body (append_datum k (append_keep demo_append)) 500000000 k) [0, 1]"

definition chunk_demo_codec :: "(unit, chunk_message) codec" where
  "chunk_demo_codec =
     \<lparr>cd_data = (\<lambda>_. Inl TypeErr),
      cd_body = (\<lambda>b. case filter (\<lambda>k. demo_bodies ! k = b) [0..<4] of [] \<Rightarrow> [] | k # _ \<Rightarrow> [of_nat k]),
      cd_signed = sg_body, cd_list = (\<lambda>_. []), cd_hash = id\<rparr>"

abbreviation "demo_message_frozen \<equiv>
  topic_freezeWith chunk_demo_codec (\<lambda>_ _. Inr ()) (\<lambda>c. (Inr [], c)) (None :: unit client option) demo_message"

abbreviation "demo_append_frozen \<equiv>
  append_freezeWith chunk_demo_codec (\<lambda>_ _. Inr ()) (\<lambda>c. (Inr [], c)) (None :: unit client option) demo_append"

lemmas chunk_demo_simps = demo_message_def demo_append_def demo_list_def topic_blank_def append_blank_def
  transaction.defs topic_tx.defs append_tx.defs topic_freezeWith_def append_freezeWith_def topic_chunks_def append_chunks_def
  chunk_count_def chunk_reset_def topic_mark_def tx_getTransactionId_def tx_transactionId_def
  topic_makeTransactionData_def append_makeTransactionData_def topic_codec_def append_codec_def js_slice_def

definition demo_topic_sent :: topic_tx where
  "demo_topic_sent = snd (snd demo_message_frozen)"

definition demo_append_sent :: append_tx where
  "demo_append_sent = snd (snd demo_append_frozen)"

lemma demo_chunks_frozen:
  "demo_message_frozen = (Inr (), None, demo_topic_sent)" "rl_list (ex_nodeIds demo_topic_sent) = [''3'']"
  "map sg_body (rl_list (tx_signed demo_topic_sent)) = [[0], [1]]"
  "demo_append_frozen = (Inr (), None, demo_append_sent)" "rl_list (ex_nodeIds demo_append_sent) = [''3'']"
  "map sg_body (rl_list (tx_signed demo_append_sent)) = [[2], [3]]"
  by (simp_all add: demo_topic_sent_def demo_append_sent_def chunk_demo_simps demo_simps chunk_demo_codec_def
      demo_bodies_def demo_body_def upt_rec topic_datum_def append_datum_def chunk_nextId_def topic_toProtobuf_def
      file_toProtobuf_def)

lemma demo_body_decoded:
  assumes "[k] = cd_body chunk_demo_codec b"
  shows "b = demo_bodies ! unat k"
proof -
  obtain j js where j: "filter (\<lambda>k. demo_bodies ! k = b) [0..<4] = j # js" "k = of_nat j"
    using assms by (auto simp: chunk_demo_codec_def split: list.splits)
  then have "j \<in> set (filter (\<lambda>k. demo_bodies ! k = b) [0..<4])" by simp
  then show ?thesis using j(2) by (auto simp: unat_of_nat)
qed

definition demo_decode :: "bytes \<Rightarrow> chunk_message pbody" where
  "demo_decode bs = (case bs of [k] \<Rightarrow> pbody_of (demo_bodies ! unat k) | _ \<Rightarrow> pbody_of (demo_bodies ! 0))"

lemma demo_rows_decoded:
  fixes q :: "'m transaction_scheme"
  assumes "map sg_body (rl_list (tx_signed q)) = map (\<lambda>k. [k]) ks" "cd_body cd = cd_body chunk_demo_codec"
  shows "\<exists>bodies. rows_decoded cd demo_decode q bodies"
proof -
  have one: "\<exists>k. sg_body s = [k]" if "s \<in> set (rl_list (tx_signed q))" for s
  proof -
    have "sg_body s \<in> set (map sg_body (rl_list (tx_signed q)))" using that by simp
    then show ?thesis unfolding assms(1) by auto
  qed
  have "demo_decode (sg_body s) = pbody_of b"
    if h: "s \<in> set (rl_list (tx_signed q))" and e: "sg_body s = cd_body chunk_demo_codec b" for s b
  proof -
    obtain k where k: "sg_body s = [k]" using one [OF h] by blast
    then have "b = demo_bodies ! unat k" using demo_body_decoded [of k b] e by simp
    then show ?thesis using k by (simp add: demo_decode_def)
  qed
  then show ?thesis unfolding rows_decoded_def assms(2) by blast
qed

theorem topic_message_chunks_witness:
  "\<exists>i chunks. demo_message_frozen = (Inr (), None, demo_topic_sent) \<and> length chunks = 2 \<and> concat chunks = ([1, 2, 3] :: bytes) \<and>
     rl_list (tx_ids demo_topic_sent) = [i, chunk_nextId i]"
proof -
  have "tm_message demo_message = Some [1, 2, 3]" "0 < tm_chunkSize demo_message" "\<not> rl_locked (tx_signed demo_message)"
    by (simp_all add: chunk_demo_simps demo_simps)
  from topic_message_chunks [OF demo_chunks_frozen(1) this(1) _ this(2,3)] obtain i n chunks where c: "length chunks = n" "concat chunks = [1, 2, 3]"
    "rl_list (tx_ids demo_topic_sent) = map (\<lambda>k. (chunk_nextId ^^ k) i) [0..<n]"
    and rows: "rl_list (tx_signed demo_topic_sent) = concat (map (\<lambda>k. map (chunk_row (topic_codec chunk_demo_codec) demo_topic_sent
      \<lparr>cm_target = map_option topic_toProtobuf (tm_topicId demo_message), cm_bytes = Some (chunks ! k),
       cm_info = Some \<lparr>ci_initial = i, ci_total = n, ci_number = k + 1\<rparr>\<rparr>
      ((chunk_nextId ^^ k) i)) (rl_list (ex_nodeIds demo_topic_sent))) [0..<n])" by blast
  have "length (rl_list (tx_signed demo_topic_sent)) = n" unfolding rows demo_chunks_frozen(2) by (simp add: length_concat comp_def sum_list_triv)
  moreover have "length (rl_list (tx_signed demo_topic_sent)) = 2" using arg_cong [OF demo_chunks_frozen(3), of length] by simp
  ultimately have n: "n = 2" by simp
  show ?thesis using demo_chunks_frozen(1) c unfolding n by (intro exI [of _ i] exI [of _ chunks]) (simp add: upt_rec)
qed

theorem chunks_read_back_witness:
  "\<exists>bodies tbodies r t. demo_append_frozen = (Inr (), None, demo_append_sent) \<and> demo_message_frozen = (Inr (), None, demo_topic_sent) \<and>
     append_ofBodies std_print std_parse (\<lambda>_. \<lparr>ts_seconds = 9, ts_nanos = 0\<rparr>) (rl_list (ex_nodeIds demo_append_sent)) bodies = Some (Inr r) \<and>
     fa_contents r = Some [4, 5, 6] \<and> topic_ofBodies (\<lambda>_. \<lparr>ts_seconds = 9, ts_nanos = 0\<rparr>) tbodies = Inr t \<and> tm_message t = Some [1, 2]"
proof -
  obtain bodies where b: "rows_decoded (append_codec chunk_demo_codec) demo_decode demo_append_sent bodies"
    using demo_rows_decoded [of demo_append_sent "[2, 3]" "append_codec chunk_demo_codec"] demo_chunks_frozen(6) by (auto simp: append_codec_def)
  obtain tbodies where t: "rows_decoded (topic_codec chunk_demo_codec) demo_decode demo_topic_sent tbodies"
    using demo_rows_decoded [of demo_topic_sent "[0, 1]" "topic_codec chunk_demo_codec"] demo_chunks_frozen(3) by (auto simp: topic_codec_def)
  have d: "fa_contents demo_append = Some [4, 5, 6]" "0 < fa_chunkSize demo_append" "\<not> rl_locked (tx_signed demo_append)"
    "tm_message demo_message = Some [1, 2, 3]" "0 < tm_chunkSize demo_message" "\<not> rl_locked (tx_signed demo_message)"
    "fa_fileId demo_append = Some \<lparr>fl_ids = (0, 0, 8), fl_checksum = None\<rparr>"
    "tm_topicId demo_message = Some \<lparr>tp_ids = (0, 0, 7), tp_checksum = None\<rparr>" "tm_chunkSize demo_message = 2"
    by (simp_all add: chunk_demo_simps demo_simps)
  show ?thesis
    using chunks_read_back [OF demo_chunks_frozen(4) d(1) _ d(2,3) _ b demo_chunks_frozen(1) d(4) _ d(5,6) _ t std_long_text,
        of "\<lambda>_. \<lparr>ts_seconds = 9, ts_nanos = 0\<rparr>"] demo_chunks_frozen d(7-9)
    by (auto simp: id_valid_def)
qed

theorem file_read_terminates_witness:
  "append_ofBodies std_print std_parse (\<lambda>_. \<lparr>ts_seconds = 9, ts_nanos = 0\<rparr>) [''3''] [pbody_of (demo_bodies ! 2)] \<noteq> None"
  using file_read_terminates [of "[''3'']"] by blast

abbreviation "demo_no_message \<equiv> demo_message\<lparr>tm_message := Some []\<rparr>"
abbreviation "demo_no_contents \<equiv> demo_append\<lparr>fa_contents := Some []\<rparr>"
abbreviation "no_run \<equiv> \<lambda>k t c q. (None, q, c, [])"

theorem empty_message_not_sent_witness:
  "(\<exists>e q2 c2. topic_executeAll chunk_demo_codec (\<lambda>_ _. Inr ()) (\<lambda>c. (Inr [], c)) no_run (\<lambda>_. (0, 1)) None
      demo_client demo_no_message = (Some (Inl e), q2, c2, [])) \<and>
   (\<exists>e p2 c2. append_executeAll chunk_demo_codec (\<lambda>_ _. Inr ()) (\<lambda>c. (Inr [], c)) no_run (\<lambda>_ _ c. (Some (Inr ()), c))
      (\<lambda>_. (0, 1)) None demo_client demo_no_contents = (Some (Inl e), p2, c2, []))"
proof -
  have h: "tm_message demo_no_message = Some []" "0 < tm_chunkSize demo_no_message" "\<not> tx_isFrozen_any demo_no_message"
    "fa_contents demo_no_contents = Some []" "0 < fa_chunkSize demo_no_contents" "\<not> tx_isFrozen_any demo_no_contents"
    by (simp_all add: chunk_demo_simps demo_simps)
  obtain q' where "topic_freezeWith chunk_demo_codec (\<lambda>_ _. Inr ()) (\<lambda>c. (Inr [], c)) (None :: unit client option)
      demo_no_message = (Inr (), None, q')"
    by (simp add: chunk_demo_simps demo_simps)
  from empty_message_not_sent [OF h this, where c = demo_client] show ?thesis by blast
qed

end
