(* ===== verification/Amounts.thy ===== *)
theory Amounts
  imports EntityId
begin

text \<open>
  Amounts of the currency: \<open>src/src/U2U.js\<close>, \<open>U2UUnit.js\<close>, \<open>long.js\<close>.  An amount is the
  number of its tinybars.  The numbers of the bignumber.js package are rationals; reading
  and printing them are the parameters \<open>bn\<close> and \<open>bn_print\<close>.  Texts are their UTF-8 bytes.
\<close>

subsection \<open>Units\<close>

record u2u_unit =
  un_symbol :: string
  un_tiny :: int

definition hbar :: string where
  "hbar = map char_of [226, 132, 143 :: nat]"

definition mu :: string where
  "mu = map char_of [206, 188 :: nat]"

definition unit_Tiny :: u2u_unit where "unit_Tiny = \<lparr>un_symbol = ''tu2u'', un_tiny = 1\<rparr>"
definition unit_Micro :: u2u_unit where "unit_Micro = \<lparr>un_symbol = mu @ ''u2u'', un_tiny = 100\<rparr>"
definition unit_Milli :: u2u_unit where "unit_Milli = \<lparr>un_symbol = ''mu2u'', un_tiny = 100000\<rparr>"
definition unit_U2U :: u2u_unit where "unit_U2U = \<lparr>un_symbol = ''u2u'', un_tiny = 100000000\<rparr>"
definition unit_Kilo :: u2u_unit where "unit_Kilo = \<lparr>un_symbol = ''ku2u'', un_tiny = 1000 * 100000000\<rparr>"
definition unit_Mega :: u2u_unit where "unit_Mega = \<lparr>un_symbol = ''Mu2u'', un_tiny = 1000000 * 100000000\<rparr>"
definition unit_Giga :: u2u_unit where "unit_Giga = \<lparr>un_symbol = ''Gu2u'', un_tiny = 1000000000 * 100000000\<rparr>"

definition u2u_units :: "u2u_unit list" where
  "u2u_units = [unit_U2U, unit_Tiny, unit_Micro, unit_Milli, unit_Kilo, unit_Mega, unit_Giga]"

definition unit_fromString :: "string \<Rightarrow> u2u_unit js" where
  "unit_fromString t =
     (case List.find (\<lambda>u. un_symbol u = t) u2u_units of None \<Rightarrow> Inl UnknownUnit | Some u \<Rightarrow> Inr u)"

subsection \<open>Amounts\<close>

definition u2u_new :: "rat \<Rightarrow> u2u_unit \<Rightarrow> int js" where
  "u2u_new amount u =
     (let v = amount * of_int (un_tiny u)
      in if of_int \<lfloor>v\<rfloor> = v then Inr \<lfloor>v\<rfloor> else Inl FractionalTinybars)"

definition u2u_fromTiny :: "rat \<Rightarrow> int js" where
  "u2u_fromTiny amount = u2u_new amount unit_Tiny"

text \<open>The symbols of the pattern of \<open>fromString\<close>.\<close>

definition pattern_symbols :: "string list" where
  "pattern_symbols =
     [''t'' @ hbar, mu @ hbar, ''m'' @ hbar, hbar, ''k'' @ hbar, ''M'' @ hbar, ''G'' @ hbar]"

definition pattern_end :: "string \<Rightarrow> bool" where
  "pattern_end t \<longleftrightarrow>
     (case t of [] \<Rightarrow> True | c # smb \<Rightarrow> c = CHR '' '' \<and> smb \<in> set pattern_symbols)"

definition u2u_pattern :: "string \<Rightarrow> bool" where
  "u2u_pattern t \<longleftrightarrow>
     (let t = (case t of c # r \<Rightarrow> if c = CHR ''+'' \<or> c = CHR ''-'' then r else t | [] \<Rightarrow> t);
          r = dropWhile is_digit t
      in takeWhile is_digit t \<noteq> [] \<and>
         (case r of
            c # r2 \<Rightarrow>
              if c = CHR ''.'' then takeWhile is_digit r2 \<noteq> [] \<and> pattern_end (dropWhile is_digit r2)
              else pattern_end r
          | [] \<Rightarrow> True))"

definition u2u_fromString :: "(string \<Rightarrow> rat) \<Rightarrow> string \<Rightarrow> u2u_unit \<Rightarrow> int js" where
  "u2u_fromString bn t u =
     (if u2u_pattern t then
        (case js_split CHR '' '' t of
           [] \<Rightarrow> Inl TypeErr
         | [amount] \<Rightarrow> u2u_new (bn amount) u
         | amount # smb # _ \<Rightarrow> js_bind (unit_fromString smb) (\<lambda>u. u2u_new (bn amount) u))
      else Inl BadAmountText)"

definition u2u_to :: "u2u_unit \<Rightarrow> int \<Rightarrow> rat" where
  "u2u_to u v = of_int v / of_int (un_tiny u)"

definition u2u_toTiny :: "int \<Rightarrow> long" where
  "u2u_toTiny v = word_of_int v"

definition u2u_negated :: "int \<Rightarrow> int" where
  "u2u_negated v = - v"

definition u2u_isNegative :: "int \<Rightarrow> bool" where
  "u2u_isNegative v \<longleftrightarrow> v < 0"

definition u2u_toString :: "(rat \<Rightarrow> string) \<Rightarrow> u2u_unit option \<Rightarrow> int \<Rightarrow> string" where
  "u2u_toString bn_print u v =
     (case u of
        Some u \<Rightarrow> bn_print (u2u_to u v) @ '' '' @ un_symbol u
      | None \<Rightarrow>
          if v < 10000 \<and> v > - 10000 then bn_print (of_int v) @ '' '' @ un_symbol unit_Tiny
          else bn_print (u2u_to unit_U2U v) @ '' '' @ un_symbol unit_U2U)"

subsection \<open>Reading texts\<close>

lemma pattern_no_space:
  assumes "u2u_pattern t"
  obtains amount where "CHR '' '' \<notin> set amount" "t = amount"
  | amount smb where "CHR '' '' \<notin> set amount" "t = amount @ CHR '' '' # smb" "smb \<in> set pattern_symbols"
proof -
  have digits: "CHR '' '' \<notin> set (takeWhile is_digit s)" for s
    by (auto dest!: set_takeWhileD simp: is_digit_def char_code_def)
  define u where "u = (case t of c # r \<Rightarrow> if c = CHR ''+'' \<or> c = CHR ''-'' then r else t | [] \<Rightarrow> t)"
  obtain sign where sign: "t = sign @ u" "CHR '' '' \<notin> set sign"
  proof (cases "\<exists>c r. t = c # r \<and> (c = CHR ''+'' \<or> c = CHR ''-'')")
    case True
    then obtain c r where "t = c # r" "c = CHR ''+'' \<or> c = CHR ''-''" by blast
    then show thesis using that [of "[c]"] by (auto simp: u_def)
  next
    case False
    then have "u = t" by (auto simp: u_def split: list.split)
    then show thesis using that [of "[]"] by simp
  qed
  let ?d = "takeWhile is_digit u" and ?r = "dropWhile is_digit u"
  have split: "t = sign @ ?d @ ?r" using sign(1) by simp
  have pat: "(case ?r of c # r2 \<Rightarrow>
        if c = CHR ''.'' then takeWhile is_digit r2 \<noteq> [] \<and> pattern_end (dropWhile is_digit r2)
        else pattern_end ?r | [] \<Rightarrow> True)"
    using assms unfolding u2u_pattern_def Let_def u_def [symmetric] by blast
  have "\<exists>num e. t = num @ e \<and> CHR '' '' \<notin> set num \<and> pattern_end e"
  proof (cases ?r)
    case Nil
    have "t = (sign @ ?d) @ []" using split unfolding Nil by (simp only: append_assoc)
    then show ?thesis using sign(2) digits [of u]
      by (intro exI [of _ "sign @ ?d"] exI [of _ "[]"]) (simp add: pattern_end_def)
  next
    case (Cons c r2)
    show ?thesis
    proof (cases "c = CHR ''.''")
      case True
      then have "pattern_end (dropWhile is_digit r2)" using pat Cons by simp
      moreover have "t = (sign @ ?d @ c # takeWhile is_digit r2) @ dropWhile is_digit r2"
        using split Cons by simp
      ultimately show ?thesis using sign(2) digits [of u] digits [of r2] True
        by (intro exI [of _ "sign @ ?d @ c # takeWhile is_digit r2"] exI [of _ "dropWhile is_digit r2"]) simp
    next
      case False
      then have "pattern_end ?r" using pat Cons by simp
      then show ?thesis using split sign(2) digits [of u]
        by (intro exI [of _ "sign @ ?d"] exI [of _ ?r]) simp
    qed
  qed
  then obtain num e where e: "t = num @ e" "CHR '' '' \<notin> set num" "pattern_end e" by blast
  show thesis using that(1) [of num] that(2) [of num "tl e"] e
    by (cases e) (simp_all add: pattern_end_def)
qed

lemma pattern_symbols_unknown:
  assumes "smb \<in> set pattern_symbols"
  shows "unit_fromString smb = Inl UnknownUnit" "CHR '' '' \<notin> set smb" "smb \<notin> un_symbol ` set u2u_units"
proof -
  have all: "list_all (\<lambda>t. CHR '' '' \<notin> set t \<and> list_all (\<lambda>u. un_symbol u \<noteq> t) u2u_units) pattern_symbols"
    by code_simp
  then have "CHR '' '' \<notin> set smb" and l: "list_all (\<lambda>u. un_symbol u \<noteq> smb) u2u_units"
    using assms by (auto simp: list_all_iff)
  then show "CHR '' '' \<notin> set smb" by simp
  show "smb \<notin> un_symbol ` set u2u_units" using l by (auto simp: list_all_iff)
  show "unit_fromString smb = Inl UnknownUnit"
    using l by (auto simp: unit_fromString_def list_all_iff find_Some_iff split: option.split)
qed

lemma printed_not_pattern:
  assumes "x \<in> set u2u_units"
  shows "\<not> u2u_pattern (p @ CHR '' '' # un_symbol x)"
proof -
  have space: "CHR '' '' \<notin> set (un_symbol x)"
  proof -
    have "list_all (\<lambda>u. CHR '' '' \<notin> set (un_symbol u)) u2u_units" by code_simp
    then show ?thesis using assms by (simp add: list_all_iff)
  qed
  show ?thesis
  proof
    assume "u2u_pattern (p @ CHR '' '' # un_symbol x)"
    then show False
    proof (cases rule: pattern_no_space)
      case (1 amount)
      then show False by auto
    next
      case (2 amount smb)
      have "rev (un_symbol x) @ CHR '' '' # rev p = rev smb @ CHR '' '' # rev amount"
        using arg_cong [OF 2(2), of rev] by simp
      then have "takeWhile (\<lambda>c. c \<noteq> CHR '' '') (rev (un_symbol x) @ CHR '' '' # rev p) =
          takeWhile (\<lambda>c. c \<noteq> CHR '' '') (rev smb @ CHR '' '' # rev amount)" by simp
      moreover have last: "takeWhile (\<lambda>c. c \<noteq> CHR '' '') (rev u @ CHR '' '' # r) = rev u"
        if "CHR '' '' \<notin> set u" for u r
        using that by (subst takeWhile_append2) auto
      ultimately have "un_symbol x = smb"
        using last [OF space] last [OF pattern_symbols_unknown(2) [OF 2(3)]] by simp
      then show False using pattern_symbols_unknown(3) [OF 2(3)] assms by auto
    qed
  qed
qed

text \<open>
  Amounts written with their unit cannot be read back.  The pattern of \<open>fromString\<close>
  admits the symbols of another currency, which no unit has, so whatever text it accepts
  is a plain number, counted in the default unit; a text with one of the admitted symbols
  throws \<open>Unknown unit\<close>, and every text that \<open>toString\<close> prints is rejected.
\<close>

theorem amounts_with_units_rejected:
  "(u2u_fromString bn t u = Inr v \<longrightarrow>
      u2u_pattern t \<and> CHR '' '' \<notin> set t \<and> of_int v = bn t * of_int (un_tiny u)) \<and>
   (u2u_pattern t \<and> CHR '' '' \<in> set t \<longrightarrow> u2u_fromString bn t u = Inl UnknownUnit) \<and>
   (w \<in> {None} \<union> Some ` set u2u_units \<longrightarrow>
      u2u_fromString bn (u2u_toString bn_print w v) u = Inl BadAmountText)"
proof (intro conjI impI)
  assume ok: "u2u_fromString bn t u = Inr v"
  then have p: "u2u_pattern t" by (simp add: u2u_fromString_def split: if_splits)
  then show "u2u_pattern t" .
  from p show "CHR '' '' \<notin> set t"
  proof (cases rule: pattern_no_space)
    case (2 amount smb)
    then show ?thesis using ok p pattern_symbols_unknown [OF 2(3)]
      by (simp add: u2u_fromString_def js_split_append js_split_absent)
  qed simp
  then have "u2u_new (bn t) u = Inr v" using ok p by (simp add: u2u_fromString_def js_split_absent)
  then show "of_int v = bn t * of_int (un_tiny u)" by (auto simp: u2u_new_def Let_def split: if_splits)
next
  assume p: "u2u_pattern t \<and> CHR '' '' \<in> set t"
  then have "u2u_pattern t" by simp
  then show "u2u_fromString bn t u = Inl UnknownUnit"
  proof (cases rule: pattern_no_space)
    case (2 amount smb)
    then show ?thesis using p pattern_symbols_unknown [OF 2(3)]
      by (simp add: u2u_fromString_def js_split_append js_split_absent)
  qed (use p in simp)
next
  assume w: "w \<in> {None} \<union> Some ` set u2u_units"
  have units: "unit_Tiny \<in> set u2u_units" "unit_U2U \<in> set u2u_units" by (simp_all add: u2u_units_def)
  from w obtain p x where t: "u2u_toString bn_print w v = p @ CHR '' '' # un_symbol x" "x \<in> set u2u_units"
  proof (cases w)
    case None
    then show thesis using that [of "bn_print (of_int v)" unit_Tiny]
        that [of "bn_print (u2u_to unit_U2U v)" unit_U2U] units
      by (cases "v < 10000 \<and> v > - 10000") (simp_all add: u2u_toString_def)
  next
    case (Some y)
    then show thesis using that [of "bn_print (u2u_to y v)" y] w
      by (auto simp: u2u_toString_def)
  qed
  then show "u2u_fromString bn (u2u_toString bn_print w v) u = Inl BadAmountText"
    by (simp add: u2u_fromString_def printed_not_pattern)
qed

theorem amounts_with_units_rejected_witness:
  "u2u_fromString (\<lambda>_. 5) (''5 '' @ hbar) unit_U2U = Inl UnknownUnit \<and>
   u2u_fromString (\<lambda>_. 5) (u2u_toString (\<lambda>_. ''5'') None 500000000) unit_U2U = Inl BadAmountText"
proof
  have "u2u_pattern (''5 '' @ hbar) \<and> CHR '' '' \<in> set (''5 '' @ hbar)" by code_simp
  then show "u2u_fromString (\<lambda>_. 5) (''5 '' @ hbar) unit_U2U = Inl UnknownUnit"
    by (rule amounts_with_units_rejected [THEN conjunct2, THEN conjunct1, THEN mp])
  have "None \<in> {None} \<union> Some ` set u2u_units" by blast
  then show "u2u_fromString (\<lambda>_. 5) (u2u_toString (\<lambda>_. ''5'') None 500000000) unit_U2U = Inl BadAmountText"
    by (rule amounts_with_units_rejected [THEN conjunct2, THEN conjunct2, THEN mp])
qed

end
