(* ===== verification/Transfers.thy ===== *)
theory Transfers
  imports Ids Amounts TxBytes "HOL-Library.AList"
begin

text \<open>
  \<open>src/src/account/TransferTransaction.js\<close> with \<open>Transfer.js\<close>, \<open>token/TokenTransfer.js\<close>,
  \<open>token/TokenNftTransfer.js\<close> and the maps of \<open>ObjectMap.js\<close>.  Reading and printing numbers and
  keys are the fields of \<open>id_text\<close>.  Amounts of tokens and serial numbers are given as \<open>Long\<close>.
\<close>

subsection \<open>State\<close>

record 'k id_text =
  it_parse :: "string \<Rightarrow> long js"
  it_keyParse :: "string \<Rightarrow> 'k js"
  it_print :: "long \<Rightarrow> string"
  it_keyText :: "'k \<Rightarrow> string"

record 'k u2u_transfer =
  ut_account :: "'k account_id"
  ut_amount :: int
  ut_approved :: bool

record 'k token_transfer =
  tt_token :: token_id
  tt_account :: "'k account_id"
  tt_decimals :: "int option"
  tt_amount :: long
  tt_approved :: bool

record 'k nft_transfer =
  nt_token :: token_id
  nt_serial :: long
  nt_sender :: "'k account_id"
  nt_receiver :: "'k account_id"
  nt_approved :: bool

record 'k transfer_tx = transaction +
  tf_tokens :: "'k token_transfer list"
  tf_u2us :: "'k u2u_transfer list"
  tf_nfts :: "'k nft_transfer list"

type_synonym 'k account_arg = "'k account_id + string"
type_synonym token_arg = "token_id + string"

definition arg_account :: "'k id_text \<Rightarrow> 'k account_arg \<Rightarrow> 'k account_id js" where
  "arg_account it a =
     (case a of Inl i \<Rightarrow> Inr i | Inr t \<Rightarrow> account_fromString (it_parse it) (it_keyParse it) t)"

definition arg_token :: "'k id_text \<Rightarrow> token_arg \<Rightarrow> token_id js" where
  "arg_token it a = (case a of Inl i \<Rightarrow> Inr i | Inr t \<Rightarrow> token_fromString (it_parse it) t)"

text \<open>An amount is a \<open>U2U\<close> or a number of them.\<close>

datatype u2u_arg = AmountU2U int | AmountNumber rat

definition arg_amount :: "u2u_arg \<Rightarrow> int js" where
  "arg_amount a = (case a of AmountU2U v \<Rightarrow> Inr v | AmountNumber r \<Rightarrow> u2u_new r unit_U2U)"

subsection \<open>Adding transfers\<close>

text \<open>The loops of the adders: the first element that matches is changed, or a new one is added.\<close>

fun upsert :: "('a \<Rightarrow> bool) \<Rightarrow> ('a \<Rightarrow> 'a) \<Rightarrow> 'a \<Rightarrow> 'a list \<Rightarrow> 'a list" where
  "upsert found change new [] = [new]"
| "upsert found change new (x # xs) =
     (if found x then change x # xs else x # upsert found change new xs)"

definition tf_same_token :: "'k id_text \<Rightarrow> token_id \<Rightarrow> 'k account_id \<Rightarrow> 'k token_transfer \<Rightarrow> bool" where
  "tf_same_token it t a x \<longleftrightarrow>
     token_compare (tt_token x) t = 0 \<and> account_compare (it_keyText it) (tt_account x) a = 0"

definition tf_addTokenTransfer_any ::
  "'k id_text \<Rightarrow> token_arg \<Rightarrow> 'k account_arg \<Rightarrow> long \<Rightarrow> bool \<Rightarrow> 'k transfer_tx \<Rightarrow> 'k transfer_tx js" where
  "tf_addTokenTransfer_any it tokenId accountId value approved q =
     js_bind (tx_requireNotFrozen q) (\<lambda>_.
     js_bind (arg_token it tokenId) (\<lambda>token.
     js_bind (arg_account it accountId) (\<lambda>account.
       Inr (q\<lparr>tf_tokens :=
         upsert (tf_same_token it token account)
           (\<lambda>x. x\<lparr>tt_amount := tt_amount x + value, tt_decimals := None\<rparr>)
           \<lparr>tt_token = token, tt_account = account, tt_decimals = None, tt_amount = value,
            tt_approved = approved\<rparr> (tf_tokens q)\<rparr>))))"

definition tf_addTokenTransfer ::
  "'k id_text \<Rightarrow> token_arg \<Rightarrow> 'k account_arg \<Rightarrow> long \<Rightarrow> 'k transfer_tx \<Rightarrow> 'k transfer_tx js" where
  "tf_addTokenTransfer it tokenId accountId value q = tf_addTokenTransfer_any it tokenId accountId value False q"

definition tf_addApprovedTokenTransfer ::
  "'k id_text \<Rightarrow> token_arg \<Rightarrow> 'k account_arg \<Rightarrow> long \<Rightarrow> 'k transfer_tx \<Rightarrow> 'k transfer_tx js" where
  "tf_addApprovedTokenTransfer it tokenId accountId value q =
     tf_addTokenTransfer_any it tokenId accountId value True q"

text \<open>A mismatch throws after the earlier transfers of the token have been changed.\<close>

fun decimals_loop ::
  "'k id_text \<Rightarrow> token_id \<Rightarrow> 'k account_id \<Rightarrow> long \<Rightarrow> int \<Rightarrow> bool \<Rightarrow> 'k token_transfer list \<Rightarrow>
   bool js \<times> 'k token_transfer list" where
  "decimals_loop it token account value decimals found [] = (Inr found, [])"
| "decimals_loop it token account value decimals found (x # xs) =
     (if token_compare (tt_token x) token = 0 then
        if tt_decimals x \<noteq> None \<and> tt_decimals x \<noteq> Some decimals then (Inl DecimalsMismatch, x # xs)
        else
          (let same = (account_compare (it_keyText it) (tt_account x) account = 0);
               x = x\<lparr>tt_decimals := Some decimals,
                     tt_amount := (if same then tt_amount x + value else tt_amount x)\<rparr>;
               (r, xs) = decimals_loop it token account value decimals (found \<or> same) xs
           in (r, x # xs))
      else
        (let (r, xs) = decimals_loop it token account value decimals found xs in (r, x # xs)))"

definition tf_addTokenTransferWithDecimals ::
  "'k id_text \<Rightarrow> token_arg \<Rightarrow> 'k account_arg \<Rightarrow> long \<Rightarrow> int \<Rightarrow> 'k transfer_tx \<Rightarrow>
   unit js \<times> 'k transfer_tx" where
  "tf_addTokenTransferWithDecimals it tokenId accountId value decimals q =
     (case js_bind (tx_requireNotFrozen q) (\<lambda>_.
           js_bind (arg_token it tokenId) (\<lambda>token.
           js_bind (arg_account it accountId) (\<lambda>account. Inr (token, account)))) of
        Inl e \<Rightarrow> (Inl e, q)
      | Inr (token, account) \<Rightarrow>
          (case decimals_loop it token account value decimals False (tf_tokens q) of
             (Inl e, xs) \<Rightarrow> (Inl e, q\<lparr>tf_tokens := xs\<rparr>)
           | (Inr found, xs) \<Rightarrow>
               (Inr (), q\<lparr>tf_tokens := xs @
                  (if found then []
                   else [\<lparr>tt_token = token, tt_account = account, tt_decimals = Some decimals,
                          tt_amount = value, tt_approved = False\<rparr>])\<rparr>)))"

definition tf_addU2UTransfer_any ::
  "'k id_text \<Rightarrow> 'k account_arg \<Rightarrow> u2u_arg \<Rightarrow> bool \<Rightarrow> 'k transfer_tx \<Rightarrow> 'k transfer_tx js" where
  "tf_addU2UTransfer_any it accountId amount approved q =
     js_bind (tx_requireNotFrozen q) (\<lambda>_.
     js_bind (case accountId of Inl a \<Rightarrow> account_clone a | Inr t \<Rightarrow> arg_account it (Inr t)) (\<lambda>account.
     js_bind (arg_amount amount) (\<lambda>u2us.
       Inr (q\<lparr>tf_u2us :=
         upsert (\<lambda>x. account_compare (it_keyText it) (ut_account x) account = 0)
           (\<lambda>x. x\<lparr>ut_amount := sint (u2u_toTiny (ut_amount x) + u2u_toTiny u2us)\<rparr>)
           \<lparr>ut_account = account, ut_amount = u2us, ut_approved = approved\<rparr> (tf_u2us q)\<rparr>))))"

definition tf_addU2UTransfer ::
  "'k id_text \<Rightarrow> 'k account_arg \<Rightarrow> u2u_arg \<Rightarrow> 'k transfer_tx \<Rightarrow> 'k transfer_tx js" where
  "tf_addU2UTransfer it accountId amount q = tf_addU2UTransfer_any it accountId amount False q"

definition tf_addApprovedU2UTransfer ::
  "'k id_text \<Rightarrow> 'k account_arg \<Rightarrow> u2u_arg \<Rightarrow> 'k transfer_tx \<Rightarrow> 'k transfer_tx js" where
  "tf_addApprovedU2UTransfer it accountId amount q = tf_addU2UTransfer_any it accountId amount True q"

text \<open>
  An NFT is given by its id or by the id of its token and the serial number, each an object or a
  text.  The calls that the types of the code exclude throw.
\<close>

datatype 'k nft_arg =
  NftGiven "nft_id + string" "'k account_arg" "'k account_arg"
| TokenGiven token_arg long "'k account_arg" "'k account_arg"

definition arg_nft :: "'k id_text \<Rightarrow> 'k nft_arg \<Rightarrow> (nft_id \<times> 'k account_id \<times> 'k account_id) js" where
  "arg_nft it a =
     (case a of
        NftGiven nft sender receiver \<Rightarrow>
          js_bind (case nft of Inl i \<Rightarrow> Inr i | Inr t \<Rightarrow> nft_fromString (it_parse it) t) (\<lambda>i.
          js_bind (arg_account it sender) (\<lambda>s.
          js_bind (arg_account it receiver) (\<lambda>r. Inr (i, s, r))))
      | TokenGiven token serial sender receiver \<Rightarrow>
          if (case token of Inl _ \<Rightarrow> False | Inr t \<Rightarrow> js_ok (nft_fromString (it_parse it) t)) then Inl TypeErr
          else
            js_bind (arg_token it token) (\<lambda>t.
            js_bind (arg_account it sender) (\<lambda>s.
            js_bind (arg_account it receiver) (\<lambda>r. Inr (nft_new t serial, s, r)))))"

definition tf_same_nft :: "nft_id \<Rightarrow> 'k nft_transfer \<Rightarrow> bool" where
  "tf_same_nft i x \<longleftrightarrow>
     token_compare (nt_token x) (nf_tokenId i) = 0 \<and> long_compare (nt_serial x) (nf_serial i) = 0"

definition tf_addNftTransfer_any ::
  "'k id_text \<Rightarrow> bool \<Rightarrow> 'k nft_arg \<Rightarrow> 'k transfer_tx \<Rightarrow> 'k transfer_tx js" where
  "tf_addNftTransfer_any it approved a q =
     js_bind (tx_requireNotFrozen q) (\<lambda>_.
     js_bind (arg_nft it a) (\<lambda>(i, sender, receiver).
       Inr (q\<lparr>tf_nfts :=
         upsert (tf_same_nft i) (\<lambda>x. x\<lparr>nt_sender := sender, nt_receiver := receiver\<rparr>)
           \<lparr>nt_token = nf_tokenId i, nt_serial = nf_serial i, nt_sender = sender, nt_receiver = receiver,
            nt_approved = approved\<rparr> (tf_nfts q)\<rparr>)))"

definition tf_addNftTransfer :: "'k id_text \<Rightarrow> 'k nft_arg \<Rightarrow> 'k transfer_tx \<Rightarrow> 'k transfer_tx js" where
  "tf_addNftTransfer it a q = tf_addNftTransfer_any it False a q"

definition tf_addApprovedNftTransfer :: "'k id_text \<Rightarrow> 'k nft_arg \<Rightarrow> 'k transfer_tx \<Rightarrow> 'k transfer_tx js" where
  "tf_addApprovedNftTransfer it a q = tf_addNftTransfer_any it True a q"

text \<open>The approvals have no guard: they change a frozen transaction, but not what it sends.\<close>

definition tf_setU2UTransferApproval ::
  "'k id_text \<Rightarrow> 'k account_arg \<Rightarrow> bool \<Rightarrow> 'k transfer_tx \<Rightarrow> 'k transfer_tx js" where
  "tf_setU2UTransferApproval it accountId b q =
     js_bind (arg_account it accountId) (\<lambda>a.
       Inr (q\<lparr>tf_u2us := map (\<lambda>x. if account_compare (it_keyText it) (ut_account x) a = 0
                                 then x\<lparr>ut_approved := b\<rparr> else x) (tf_u2us q)\<rparr>))"

definition tf_setTokenTransferApproval ::
  "'k id_text \<Rightarrow> token_arg \<Rightarrow> 'k account_arg \<Rightarrow> bool \<Rightarrow> 'k transfer_tx \<Rightarrow> 'k transfer_tx js" where
  "tf_setTokenTransferApproval it tokenId accountId b q =
     js_bind (arg_token it tokenId) (\<lambda>t.
     js_bind (arg_account it accountId) (\<lambda>a.
       Inr (q\<lparr>tf_tokens := map (\<lambda>x. if tf_same_token it t a x then x\<lparr>tt_approved := b\<rparr> else x)
                            (tf_tokens q)\<rparr>)))"

definition tf_setNftTransferApproval ::
  "'k id_text \<Rightarrow> nft_id + string \<Rightarrow> bool \<Rightarrow> 'k transfer_tx \<Rightarrow> 'k transfer_tx js" where
  "tf_setNftTransferApproval it nft b q =
     js_bind (case nft of Inl i \<Rightarrow> Inr i | Inr t \<Rightarrow> nft_fromString (it_parse it) t) (\<lambda>i.
       Inr (q\<lparr>tf_nfts := map (\<lambda>x. if tf_same_nft i x then x\<lparr>nt_approved := b\<rparr> else x) (tf_nfts q)\<rparr>))"

subsection \<open>Construction and reading\<close>

definition tf_blank :: "(nat \<Rightarrow> timestamp) \<Rightarrow> 'k transfer_tx" where
  "tf_blank starts =
     transaction.extend (tx_new starts\<lparr>tx_defaultMaxFee := 100000000\<rparr>) (transfer_tx.fields [] [] [])"

fun js_fold :: "('a \<Rightarrow> 's \<Rightarrow> 's js) \<Rightarrow> 'a list \<Rightarrow> 's \<Rightarrow> 's js" where
  "js_fold f [] s = Inr s"
| "js_fold f (x # xs) s = js_bind (f x s) (js_fold f xs)"

definition tf_new ::
  "'k id_text \<Rightarrow> (nat \<Rightarrow> timestamp) \<Rightarrow> (token_arg \<times> 'k account_arg \<times> long) list \<Rightarrow>
   ('k account_arg \<times> u2u_arg) list \<Rightarrow> (token_arg \<times> long \<times> 'k account_arg \<times> 'k account_arg) list \<Rightarrow>
   'k transfer_tx js" where
  "tf_new it starts tokens u2us nfts =
     js_bind (js_fold (\<lambda>(t, a, v). tf_addTokenTransfer it t a v) tokens (tf_blank starts)) (\<lambda>q.
     js_bind (js_fold (\<lambda>(a, v). tf_addU2UTransfer it a v) u2us q) (\<lambda>q.
       js_fold (\<lambda>(t, n, s, r). tf_addNftTransfer it (TokenGiven t n s r)) nfts q))"

definition tf_validateChecksums :: "'k id_text \<Rightarrow> ledger_id option \<Rightarrow> 'k transfer_tx \<Rightarrow> unit js" where
  "tf_validateChecksums it ledger q =
     js_bind (js_map (\<lambda>x. account_validateChecksum (it_print it) ledger (ut_account x)) (tf_u2us q)) (\<lambda>_.
     js_bind (js_map (\<lambda>x.
         js_bind (token_validateChecksum (it_print it) ledger (tt_token x)) (\<lambda>_.
           account_validateChecksum (it_print it) ledger (tt_account x))) (tf_tokens q)) (\<lambda>_.
     js_bind (js_map (\<lambda>x.
         js_bind (token_validateChecksum (it_print it) ledger (nt_token x)) (\<lambda>_.
         js_bind (account_validateChecksum (it_print it) ledger (nt_sender x)) (\<lambda>_.
           account_validateChecksum (it_print it) ledger (nt_receiver x)))) (tf_nfts q)) (\<lambda>_. Inr ())))"

text \<open>The maps of the getters, by the texts of the keys in the order of their insertion.\<close>

type_synonym 'v object_map = "(string \<times> 'v) list"

definition om_get :: "'v object_map \<Rightarrow> string \<Rightarrow> 'v option" where
  "om_get m k = map_of m k"

definition om_set :: "string \<Rightarrow> 'v \<Rightarrow> 'v object_map \<Rightarrow> 'v object_map" where
  "om_set k v m = AList.update k v m"

definition tf_accountText :: "'k id_text \<Rightarrow> 'k account_id \<Rightarrow> string" where
  "tf_accountText it = account_toString (it_print it) (it_keyText it)"

definition tf_u2uTransfers :: "'k id_text \<Rightarrow> 'k transfer_tx \<Rightarrow> int object_map" where
  "tf_u2uTransfers it q = fold (\<lambda>x. om_set (tf_accountText it (ut_account x)) (ut_amount x)) (tf_u2us q) []"

definition tf_tokenTransfers :: "'k id_text \<Rightarrow> 'k transfer_tx \<Rightarrow> long object_map object_map" where
  "tf_tokenTransfers it q =
     fold (\<lambda>x m.
         let k = token_toString (it_print it) (tt_token x);
             inner = (case om_get m k of Some l \<Rightarrow> l | None \<Rightarrow> [])
         in om_set k (om_set (tf_accountText it (tt_account x)) (tt_amount x) inner) m) (tf_tokens q) []"

definition tf_tokenIdDecimals :: "'k id_text \<Rightarrow> 'k transfer_tx \<Rightarrow> int option object_map" where
  "tf_tokenIdDecimals it q =
     fold (\<lambda>x. om_set (token_toString (it_print it) (tt_token x)) (tt_decimals x)) (tf_tokens q) []"

definition tf_nftTransfers ::
  "'k id_text \<Rightarrow> 'k transfer_tx \<Rightarrow> ('k account_id \<times> 'k account_id \<times> long \<times> bool) list object_map" where
  "tf_nftTransfers it q =
     fold (\<lambda>x m.
         let k = token_toString (it_print it) (nt_token x);
             entry = (nt_sender x, nt_receiver x, nt_serial x, nt_approved x)
         in om_set k ((case om_get m k of Some l \<Rightarrow> l | None \<Rightarrow> []) @ [entry]) m) (tf_nfts q) []"

subsection \<open>Merging\<close>

definition merge_add :: "('a \<Rightarrow> 'b) \<Rightarrow> ('a \<Rightarrow> 'a \<Rightarrow> 'a) \<Rightarrow> 'a \<Rightarrow> 'a list \<Rightarrow> 'a list" where
  "merge_add key join y xs = upsert (\<lambda>x. key x = key y) (\<lambda>x. join x y) y xs"

text \<open>What an element of a merged list is made of: the elements with its key, in their order.\<close>

definition merge_summary ::
  "('a \<Rightarrow> 'b) \<Rightarrow> ('a \<Rightarrow> 'c) \<Rightarrow> ('a \<Rightarrow> 'v) \<Rightarrow> ('v \<Rightarrow> 'v \<Rightarrow> 'v) \<Rightarrow> 'a list \<Rightarrow> 'a \<Rightarrow> bool" where
  "merge_summary key held val comb ys x \<longleftrightarrow>
     (\<exists>y rest. filter (\<lambda>y. key y = key x) ys = y # rest \<and> held x = held y \<and>
        val x = foldl comb (val y) (map val rest))"

text \<open>
  The contract of the three lists: an element is joined to the one with its key; the
  contribution of the new one is combined with what was there.
\<close>

locale merging_list =
  fixes key :: "'a \<Rightarrow> 'b" and held :: "'a \<Rightarrow> 'c" and val :: "'a \<Rightarrow> 'v"
    and comb :: "'v \<Rightarrow> 'v \<Rightarrow> 'v" and join :: "'a \<Rightarrow> 'a \<Rightarrow> 'a"
  assumes join_key: "key (join x y) = key x"
    and join_held: "held (join x y) = held x"
    and join_val: "val (join x y) = comb (val x) (val y)"
begin

lemma add_keys: "map key (merge_add key join y xs) = map key xs @ (if key y \<in> key ` set xs then [] else [key y])"
  by (induction xs) (auto simp: merge_add_def join_key)

lemma add_members:
  "distinct (map key xs) \<Longrightarrow> x \<in> set (merge_add key join y xs) \<Longrightarrow>
    x \<in> set xs \<and> key x \<noteq> key y \<or> x = y \<and> key y \<notin> key ` set xs \<or>
    (\<exists>x0 \<in> set xs. key x0 = key y \<and> x = join x0 y)"
  by (induction xs) (auto simp: merge_add_def image_iff split: if_splits)

lemma add_held: "held ` set (merge_add key join y xs) \<subseteq> held ` insert y (set xs)"
  by (induction xs) (auto simp: merge_add_def join_held)

lemma fold_held: "held ` set (fold (merge_add key join) ys xs) \<subseteq> held ` (set xs \<union> set ys)"
proof (induction ys arbitrary: xs)
  case (Cons y ys)
  show ?case using Cons [of "merge_add key join y xs"] add_held [of y xs] by auto
qed simp

lemma summary_add:
  assumes "distinct (map key xs)" "\<forall>x \<in> set xs. merge_summary key held val comb ys x" "key ` set xs = key ` set ys"
    and "x \<in> set (merge_add key join y xs)"
  shows "merge_summary key held val comb (ys @ [y]) x"
proof -
  consider "x \<in> set xs" "key x \<noteq> key y" | "x = y" "key y \<notin> key ` set xs"
    | x0 where "x0 \<in> set xs" "key x0 = key y" "x = join x0 y"
    using add_members [OF assms(1,4)] by blast
  then show ?thesis
  proof cases
    case 1
    then show ?thesis using assms(2) by (auto simp: merge_summary_def)
  next
    case 2
    then have "filter (\<lambda>z. key z = key y) ys = []" by (auto simp: assms(3) filter_empty_conv image_iff)
    with 2 show ?thesis by (simp add: merge_summary_def)
  next
    case 3
    then obtain z rest where "filter (\<lambda>y. key y = key x0) ys = z # rest" "held x0 = held z"
      "val x0 = foldl comb (val z) (map val rest)"
      using assms(2) by (auto simp: merge_summary_def)
    with 3 show ?thesis
      by (intro iffD2 [OF merge_summary_def] exI [of _ z] exI [of _ "rest @ [y]"]) (simp add: join_key join_held join_val)
  qed
qed

lemma folded:
  "distinct (map key (fold (merge_add key join) ys [])) \<and>
   key ` set (fold (merge_add key join) ys []) = key ` set ys \<and>
   (\<forall>x \<in> set (fold (merge_add key join) ys []). merge_summary key held val comb ys x)"
proof (induction ys rule: rev_induct)
  case (snoc y ys)
  let ?xs = "fold (merge_add key join) ys []"
  have "distinct (map key (merge_add key join y ?xs))" using snoc by (auto simp: add_keys)
  moreover have "key ` set (merge_add key join y ?xs) = insert (key y) (key ` set ?xs)"
    using arg_cong [OF add_keys [of y ?xs], of set] by auto
  moreover have "\<forall>x \<in> set (merge_add key join y ?xs). merge_summary key held val comb (ys @ [y]) x"
    using snoc summary_add [of ?xs ys] by blast
  ultimately show ?case using snoc by simp
qed simp

end

subsection \<open>What the lists add up to\<close>

definition account_ident :: "('k \<Rightarrow> string) \<Rightarrow> 'k account_id \<Rightarrow> long \<times> long \<times> (string + string + long)" where
  "account_ident kt a =
     (ac_shard a, ac_realm a,
      case ac_aliasKey a of
        Some k \<Rightarrow> Inl (kt k)
      | None \<Rightarrow> (case ac_evmAddress a of Some e \<Rightarrow> Inr (Inl (evm_toString e)) | None \<Rightarrow> Inr (Inr (ac_num a))))"

definition account_simple :: "'k account_id \<Rightarrow> bool" where
  "account_simple a \<longleftrightarrow> ac_aliasKey a = None \<or> ac_evmAddress a = None"

lemma token_zero: "token_compare a b = 0 \<longleftrightarrow> tk_ids a = tk_ids b"
proof -
  have "sint u = sint w \<longleftrightarrow> u = w" for u w :: long by (auto intro: signed_word_eqI)
  then show ?thesis
    by (auto simp: token_compare_def entity_compare_def long_compare_def int_compare_def split: prod.split)
qed

lemma long_zero: "long_compare u w = 0 \<longleftrightarrow> u = w"
  by (auto simp: long_compare_def int_compare_def intro: signed_word_eqI)

lemma account_zero:
  "account_simple a \<Longrightarrow> account_simple b \<Longrightarrow>
    account_compare kt a b = 0 \<longleftrightarrow> account_ident kt a = account_ident kt b"
  by (auto simp: account_compare_def account_ident_def account_simple_def long_zero split: option.splits)

lemma upsert_cong: "(\<And>x. x \<in> set xs \<Longrightarrow> f x = g x) \<Longrightarrow> upsert f c n xs = upsert g c n xs"
  by (induction xs) auto

lemma same_nft: "tf_same_nft i = (\<lambda>x. tk_ids (nt_token x) = tk_ids (nf_tokenId i) \<and> nt_serial x = nf_serial i)"
  by (simp add: fun_eq_iff tf_same_nft_def token_zero long_zero)

definition u2u_key :: "'k id_text \<Rightarrow> 'k u2u_transfer \<Rightarrow> long \<times> long \<times> (string + string + long)" where
  "u2u_key it x = account_ident (it_keyText it) (ut_account x)"

definition token_key ::
  "'k id_text \<Rightarrow> 'k token_transfer \<Rightarrow> id_triple \<times> long \<times> long \<times> (string + string + long)" where
  "token_key it x = (tk_ids (tt_token x), account_ident (it_keyText it) (tt_account x))"

definition nft_key :: "'k nft_transfer \<Rightarrow> id_triple \<times> long" where
  "nft_key x = (tk_ids (nt_token x), nt_serial x)"

definition u2u_join :: "'k u2u_transfer \<Rightarrow> 'k u2u_transfer \<Rightarrow> 'k u2u_transfer" where
  "u2u_join x y = x\<lparr>ut_amount := sint (u2u_toTiny (ut_amount x) + u2u_toTiny (ut_amount y))\<rparr>"

definition token_join :: "'k token_transfer \<Rightarrow> 'k token_transfer \<Rightarrow> 'k token_transfer" where
  "token_join x y = x\<lparr>tt_amount := tt_amount x + tt_amount y, tt_decimals := None\<rparr>"

definition nft_join :: "'k nft_transfer \<Rightarrow> 'k nft_transfer \<Rightarrow> 'k nft_transfer" where
  "nft_join x y = x\<lparr>nt_sender := nt_sender y, nt_receiver := nt_receiver y\<rparr>"

interpretation u2us: merging_list "u2u_key it" "\<lambda>x. (ut_account x, ut_approved x)" "\<lambda>x. u2u_toTiny (ut_amount x)"
  "(+)" u2u_join for it :: "'k id_text"
  by unfold_locales (simp_all add: u2u_key_def u2u_join_def u2u_toTiny_def)

interpretation token_list: merging_list "token_key it" "\<lambda>x. (tt_token x, tt_account x, tt_approved x)" tt_amount
  "(+)" token_join for it :: "'k id_text"
  by unfold_locales (simp_all add: token_key_def token_join_def)

interpretation nft_list: merging_list nft_key "\<lambda>x. (nt_token x, nt_approved x)" "\<lambda>x. (nt_sender x, nt_receiver x)"
  "\<lambda>u v. v" nft_join
  by unfold_locales (simp_all add: nft_key_def nft_join_def)

text \<open>The calls that add transfers, and the transfers they stand for.\<close>

datatype 'k transfer_call =
  AddToken token_arg "'k account_arg" long bool
| AddU2U "'k account_arg" u2u_arg bool
| AddNft "'k nft_arg" bool

definition tf_call :: "'k id_text \<Rightarrow> 'k transfer_call \<Rightarrow> 'k transfer_tx \<Rightarrow> 'k transfer_tx js" where
  "tf_call it c q =
     (case c of
        AddToken t a v b \<Rightarrow>
          if b then tf_addApprovedTokenTransfer it t a v q else tf_addTokenTransfer it t a v q
      | AddU2U a v b \<Rightarrow> if b then tf_addApprovedU2UTransfer it a v q else tf_addU2UTransfer it a v q
      | AddNft n b \<Rightarrow> if b then tf_addApprovedNftTransfer it n q else tf_addNftTransfer it n q)"

definition token_entries :: "'k id_text \<Rightarrow> 'k transfer_call \<Rightarrow> 'k token_transfer list" where
  "token_entries it c =
     (case c of
        AddToken t a v b \<Rightarrow>
          (case (arg_token it t, arg_account it a) of
             (Inr t, Inr a) \<Rightarrow>
               [\<lparr>tt_token = t, tt_account = a, tt_decimals = None, tt_amount = v, tt_approved = b\<rparr>]
           | _ \<Rightarrow> [])
      | _ \<Rightarrow> [])"

definition u2u_entries :: "'k id_text \<Rightarrow> 'k transfer_call \<Rightarrow> 'k u2u_transfer list" where
  "u2u_entries it c =
     (case c of
        AddU2U a v b \<Rightarrow>
          (case (case a of Inl i \<Rightarrow> account_clone i | Inr t \<Rightarrow> arg_account it (Inr t), arg_amount v) of
             (Inr a, Inr v) \<Rightarrow> [\<lparr>ut_account = a, ut_amount = v, ut_approved = b\<rparr>]
           | _ \<Rightarrow> [])
      | _ \<Rightarrow> [])"

definition nft_entries :: "'k id_text \<Rightarrow> 'k transfer_call \<Rightarrow> 'k nft_transfer list" where
  "nft_entries it c =
     (case c of
        AddNft n b \<Rightarrow>
          (case arg_nft it n of
             Inr (i, s, r) \<Rightarrow>
               [\<lparr>nt_token = nf_tokenId i, nt_serial = nf_serial i, nt_sender = s, nt_receiver = r,
                 nt_approved = b\<rparr>]
           | _ \<Rightarrow> [])
      | _ \<Rightarrow> [])"

lemmas entries_defs = token_entries_def u2u_entries_def nft_entries_def

lemmas adders = tf_call_def tf_addApprovedTokenTransfer_def tf_addTokenTransfer_def
  tf_addApprovedU2UTransfer_def tf_addU2UTransfer_def tf_addApprovedNftTransfer_def tf_addNftTransfer_def
  tf_addTokenTransfer_any_def tf_addU2UTransfer_any_def tf_addNftTransfer_any_def

lemma call_folds:
  assumes "tf_call it c q = Inr q'"
    and "\<forall>x \<in> set (token_entries it c) \<union> set (tf_tokens q). account_simple (tt_account x)"
    and "\<forall>x \<in> set (u2u_entries it c) \<union> set (tf_u2us q). account_simple (ut_account x)"
  shows "tf_tokens q' = fold (merge_add (token_key it) token_join) (token_entries it c) (tf_tokens q)"
    and "tf_u2us q' = fold (merge_add (u2u_key it) u2u_join) (u2u_entries it c) (tf_u2us q)"
    and "tf_nfts q' = fold (merge_add nft_key nft_join) (nft_entries it c) (tf_nfts q)"
    and "tx_requireNotFrozen q' = tx_requireNotFrozen q"
proof -
  show "tf_tokens q' = fold (merge_add (token_key it) token_join) (token_entries it c) (tf_tokens q)"
  proof (cases c)
    case (AddToken t a v b)
    obtain token account where args: "arg_token it t = Inr token" "arg_account it a = Inr account"
      and q': "tf_tokens q' = upsert (tf_same_token it token account)
           (\<lambda>x. x\<lparr>tt_amount := tt_amount x + v, tt_decimals := None\<rparr>)
           \<lparr>tt_token = token, tt_account = account, tt_decimals = None, tt_amount = v, tt_approved = b\<rparr> (tf_tokens q)"
      using assms(1) by (auto simp: AddToken adders js_bind_eq_Inr split: if_splits)
    have "account_simple account" using assms(2) args by (simp add: entries_defs AddToken)
    then show ?thesis using assms(2) args unfolding q'
      by (simp add: entries_defs AddToken merge_add_def token_join_def)
        (rule upsert_cong, auto simp: tf_same_token_def token_key_def token_zero account_zero)
  qed (use assms(1) in \<open>auto simp: adders entries_defs js_bind_eq_Inr split: if_splits\<close>)
  show "tf_u2us q' = fold (merge_add (u2u_key it) u2u_join) (u2u_entries it c) (tf_u2us q)"
  proof (cases c)
    case (AddU2U a v b)
    obtain account amount where args: "(case a of Inl i \<Rightarrow> account_clone i | Inr t \<Rightarrow> arg_account it (Inr t)) = Inr account"
      "arg_amount v = Inr amount"
      and q': "tf_u2us q' = upsert (\<lambda>x. account_compare (it_keyText it) (ut_account x) account = 0)
           (\<lambda>x. x\<lparr>ut_amount := sint (u2u_toTiny (ut_amount x) + u2u_toTiny amount)\<rparr>)
           \<lparr>ut_account = account, ut_amount = amount, ut_approved = b\<rparr> (tf_u2us q)"
      using assms(1) by (auto simp: AddU2U adders js_bind_eq_Inr split: if_splits)
    have "account_simple account" using assms(3) args by (simp add: entries_defs AddU2U)
    then show ?thesis using assms(3) args unfolding q'
      by (simp add: entries_defs AddU2U merge_add_def u2u_join_def)
        (rule upsert_cong, auto simp: u2u_key_def account_zero)
  qed (use assms(1) in \<open>auto simp: adders entries_defs js_bind_eq_Inr split: if_splits\<close>)
  show "tf_nfts q' = fold (merge_add nft_key nft_join) (nft_entries it c) (tf_nfts q)"
  proof (cases c)
    case (AddNft n b)
    then show ?thesis using assms(1)
      by (auto simp: adders entries_defs js_bind_eq_Inr merge_add_def nft_join_def same_nft nft_key_def
          split: if_splits)
  qed (use assms(1) in \<open>auto simp: adders entries_defs js_bind_eq_Inr split: if_splits\<close>)
  show "tx_requireNotFrozen q' = tx_requireNotFrozen q"
    using assms(1) by (cases c) (auto simp: adders js_bind_eq_Inr tx_requireNotFrozen_def tx_isFrozen_any_def split: if_splits)
qed

lemma calls_fold:
  assumes "js_fold (tf_call it) cs q = Inr q'"
    and "\<forall>x \<in> set (concat (map (token_entries it) cs)) \<union> set (tf_tokens q). account_simple (tt_account x)"
    and "\<forall>x \<in> set (concat (map (u2u_entries it) cs)) \<union> set (tf_u2us q). account_simple (ut_account x)"
  shows "tf_tokens q' = fold (merge_add (token_key it) token_join) (concat (map (token_entries it) cs)) (tf_tokens q) \<and>
    tf_u2us q' = fold (merge_add (u2u_key it) u2u_join) (concat (map (u2u_entries it) cs)) (tf_u2us q) \<and>
    tf_nfts q' = fold (merge_add nft_key nft_join) (concat (map (nft_entries it) cs)) (tf_nfts q)"
  using assms
proof (induction cs arbitrary: q)
  case (Cons c cs)
  obtain q1 where q1: "tf_call it c q = Inr q1" "js_fold (tf_call it) cs q1 = Inr q'"
    using Cons.prems(1) by (auto simp: js_bind_eq_Inr)
  note step = call_folds [OF q1(1)]
  have pre: "\<forall>x \<in> set (token_entries it c) \<union> set (tf_tokens q). account_simple (tt_account x)"
    "\<forall>x \<in> set (u2u_entries it c) \<union> set (tf_u2us q). account_simple (ut_account x)"
    using Cons.prems(2,3) by auto
  have "\<forall>x \<in> set (tf_tokens q1). account_simple (tt_account x)"
    using token_list.fold_held [of it "token_entries it c" "tf_tokens q"] pre(1) unfolding step(1) [OF pre] by fastforce
  moreover have "\<forall>x \<in> set (tf_u2us q1). account_simple (ut_account x)"
    using u2us.fold_held [of it "u2u_entries it c" "tf_u2us q"] pre(2) unfolding step(2) [OF pre] by fastforce
  ultimately have tail: "\<forall>x \<in> set (concat (map (token_entries it) cs)) \<union> set (tf_tokens q1). account_simple (tt_account x)"
    "\<forall>x \<in> set (concat (map (u2u_entries it) cs)) \<union> set (tf_u2us q1). account_simple (ut_account x)"
    using Cons.prems(2,3) by auto
  show ?case using Cons.IH [OF q1(2) tail] by (simp add: step(1-3) [OF pre])
qed simp


subsection \<open>Decimals\<close>

definition decimals_clash :: "token_id \<Rightarrow> int \<Rightarrow> 'k token_transfer \<Rightarrow> bool" where
  "decimals_clash token d x \<longleftrightarrow>
     tk_ids (tt_token x) = tk_ids token \<and> tt_decimals x \<noteq> None \<and> tt_decimals x \<noteq> Some d"

lemma decimals_loop_clash:
  "(\<exists>x \<in> set xs. decimals_clash token d x) \<Longrightarrow>
    fst (decimals_loop it token account v d found xs) = Inl DecimalsMismatch"
  by (induction xs arbitrary: found) (auto simp: decimals_clash_def token_zero Let_def split_def)

lemma decimals_loop_sets:
  assumes "decimals_clash token d z" "\<forall>x \<in> set xs. \<not> decimals_clash token d x"
  shows "\<exists>ws. snd (decimals_loop it token account v d found (xs @ z # ys)) = ws @ z # ys \<and> length ws = length xs \<and>
    (\<forall>i < length xs. tt_token (ws ! i) = tt_token (xs ! i) \<and>
      (tk_ids (tt_token (xs ! i)) = tk_ids token \<longrightarrow> tt_decimals (ws ! i) = Some d))"
  using assms(2)
proof (induction xs arbitrary: found)
  case Nil
  then show ?case using assms(1) by (simp add: decimals_clash_def token_zero)
next
  case (Cons x xs)
  then have ok: "\<not> decimals_clash token d x" "\<forall>x \<in> set xs. \<not> decimals_clash token d x" by simp_all
  define same where "same = (account_compare (it_keyText it) (tt_account x) account = 0)"
  define found' where "found' = (if token_compare (tt_token x) token = 0 then found \<or> same else found)"
  define x' where "x' = (if token_compare (tt_token x) token = 0
    then x\<lparr>tt_decimals := Some d, tt_amount := (if same then tt_amount x + v else tt_amount x)\<rparr> else x)"
  have step: "snd (decimals_loop it token account v d found ((x # xs) @ z # ys)) =
      x' # snd (decimals_loop it token account v d found' (xs @ z # ys))"
    using ok(1) by (auto simp: x'_def found'_def same_def decimals_clash_def token_zero Let_def split_def)
  obtain ws where ws: "snd (decimals_loop it token account v d found' (xs @ z # ys)) = ws @ z # ys"
    "length ws = length xs" "\<forall>i < length xs. tt_token (ws ! i) = tt_token (xs ! i) \<and>
      (tk_ids (tt_token (xs ! i)) = tk_ids token \<longrightarrow> tt_decimals (ws ! i) = Some d)"
    using Cons.IH [OF ok(2), of found'] by blast
  have "tt_token x' = tt_token x \<and> (tk_ids (tt_token x) = tk_ids token \<longrightarrow> tt_decimals x' = Some d)"
    by (simp add: x'_def token_zero)
  then show ?case
    using step ws by (intro exI [of _ "x' # ws"]) (auto simp: nth_Cons split: nat.split)
qed


subsection \<open>Examples\<close>

definition demo_text :: "string id_text" where
  "demo_text =
     \<lparr>it_parse = (\<lambda>t. Inl TypeErr), it_keyParse = Inr, it_print = (\<lambda>w. dec (unat w)), it_keyText = id\<rparr>"

abbreviation "demo_account n \<equiv> plain_account (0, 0, n)"
abbreviation "demo_token n \<equiv> \<lparr>tk_ids = (0, 0, n), tk_checksum = None\<rparr>"

definition demo_start :: "string transfer_tx" where
  "demo_start = tf_blank (\<lambda>_. \<lparr>ts_seconds = 1, ts_nanos = 2\<rparr>)"

definition demo_transfer :: "long \<Rightarrow> long \<Rightarrow> int option \<Rightarrow> string token_transfer" where
  "demo_transfer t a d =
     \<lparr>tt_token = demo_token t, tt_account = demo_account a, tt_decimals = d, tt_amount = 7, tt_approved = False\<rparr>"

definition demo_nft :: "long \<Rightarrow> long \<Rightarrow> string nft_transfer" where
  "demo_nft t a =
     \<lparr>nt_token = demo_token t, nt_serial = 1, nt_sender = demo_account a, nt_receiver = demo_account 9,
      nt_approved = False\<rparr>"

lemma demo_fields:
  "tf_tokens demo_start = []" "tf_u2us demo_start = []" "tf_nfts demo_start = []"
  "tx_requireNotFrozen (demo_start\<lparr>tf_tokens := xs\<rparr>) = Inr ()" "tx_requireNotFrozen (demo_start\<lparr>tf_u2us := us\<rparr>) = Inr ()"
  "tx_requireNotFrozen demo_start = Inr ()"
  by (simp_all add: demo_start_def tf_blank_def tx_new_def ex_new_def transaction.defs executable.defs
      transfer_tx.defs tx_requireNotFrozen_def tx_isFrozen_any_def rl_new_def rl_length_def)

lemma demo_accounts:
  "account_kind (demo_account n) = (False, False)" "account_simple (demo_account n)"
  "0 \<le> sint n \<Longrightarrow> account_clone (demo_account n) = Inr (demo_account n)"
  by (simp_all add: account_kind_def plain_account_def account_simple_def
      account_triple_def id_valid_def account_clone_def account_new_def)



end
