(* ===== verification/TransferData.thy ===== *)
theory TransferData
  imports Transfers
begin

text \<open>
  The data of a transfer transaction: how \<open>_makeTransactionData\<close> of
  \<open>src/src/account/TransferTransaction.js\<close> sorts and groups the transfers, and how
  \<open>_fromProtobuf\<close> reads them back.
\<close>

subsection \<open>The data of the body\<close>

record 'k token_group =
  gr_token :: token_id
  gr_decimals :: "int option"
  gr_transfers :: "'k token_transfer list"
  gr_nfts :: "'k nft_transfer list"

definition tf_compareTokens :: "'k id_text \<Rightarrow> 'k token_transfer \<Rightarrow> 'k token_transfer \<Rightarrow> int" where
  "tf_compareTokens it =
     then_compare (\<lambda>a b. token_compare (tt_token a) (tt_token b))
       (\<lambda>a b. account_compare (it_keyText it) (tt_account a) (tt_account b))"

definition tf_compareNfts :: "'k id_text \<Rightarrow> 'k nft_transfer \<Rightarrow> 'k nft_transfer \<Rightarrow> int" where
  "tf_compareNfts it =
     then_compare (\<lambda>a b. account_compare (it_keyText it) (nt_sender a) (nt_sender b))
       (then_compare (\<lambda>a b. account_compare (it_keyText it) (nt_receiver a) (nt_receiver b))
         (\<lambda>a b. long_compare (nt_serial a) (nt_serial b)))"

text \<open>The three lists are sorted in place.\<close>

definition tf_sorted :: "'k id_text \<Rightarrow> 'k transfer_tx \<Rightarrow> 'k transfer_tx" where
  "tf_sorted it q =
     q\<lparr>tf_tokens := js_sort (tf_compareTokens it) (tf_tokens q),
       tf_nfts := js_sort (tf_compareNfts it) (tf_nfts q),
       tf_u2us := js_sort (\<lambda>a b. account_compare (it_keyText it) (ut_account a) (ut_account b)) (tf_u2us q)\<rparr>"

text \<open>A transfer joins the group at an index, or starts a new one.\<close>

definition join_token :: "'k token_transfer \<Rightarrow> nat \<Rightarrow> 'k token_group list \<Rightarrow> 'k token_group list" where
  "join_token x k gs = gs[k := (gs ! k)\<lparr>gr_transfers := gr_transfers (gs ! k) @ [x]\<rparr>]"

definition join_nft :: "'k nft_transfer \<Rightarrow> nat \<Rightarrow> 'k token_group list \<Rightarrow> 'k token_group list" where
  "join_nft x k gs = gs[k := (gs ! k)\<lparr>gr_nfts := gr_nfts (gs ! k) @ [x]\<rparr>]"

definition last_is :: "'k token_group list \<Rightarrow> token_id \<Rightarrow> bool" where
  "last_is gs t \<longleftrightarrow> gs \<noteq> [] \<and> token_compare (gr_token (last gs)) t = 0"

text \<open>The last group of a token.\<close>

definition find_group :: "'k token_group list \<Rightarrow> token_id \<Rightarrow> nat option" where
  "find_group gs t =
     fold (\<lambda>k r. if token_compare (gr_token (gs ! k)) t = 0 then Some k else r) [0..<length gs] None"

fun merge_loop ::
  "'k token_transfer list \<Rightarrow> 'k nft_transfer list \<Rightarrow> 'k token_group list \<Rightarrow> 'k token_group list" where
  "merge_loop [] [] gs = gs"
| "merge_loop (x # xs) (y # ys) gs =
     (if last_is gs (tt_token x) then merge_loop xs (y # ys) (join_token x (length gs - 1) gs)
      else if last_is gs (nt_token y) then merge_loop (x # xs) ys (join_nft y (length gs - 1) gs)
      else if token_compare (tt_token x) (nt_token y) = 0 then
        merge_loop xs ys (gs @
          [\<lparr>gr_token = tt_token x, gr_decimals = tt_decimals x, gr_transfers = [x], gr_nfts = [y]\<rparr>])
      else if token_compare (tt_token x) (nt_token y) < 0 then
        merge_loop xs (y # ys) (gs @
          [\<lparr>gr_token = tt_token x, gr_decimals = tt_decimals x, gr_transfers = [x], gr_nfts = []\<rparr>])
      else
        merge_loop (x # xs) ys (gs @
          [\<lparr>gr_token = nt_token y, gr_decimals = None, gr_transfers = [], gr_nfts = [y]\<rparr>]))"
| "merge_loop (x # xs) [] gs =
     (case find_group gs (tt_token x) of
        Some k \<Rightarrow> merge_loop xs [] (join_token x k gs)
      | None \<Rightarrow> merge_loop xs [] (gs @
          [\<lparr>gr_token = tt_token x, gr_decimals = tt_decimals x, gr_transfers = [x], gr_nfts = []\<rparr>]))"
| "merge_loop [] (y # ys) gs =
     (case find_group gs (nt_token y) of
        Some k \<Rightarrow> merge_loop [] ys (join_nft y k gs)
      | None \<Rightarrow> merge_loop [] ys (gs @
          [\<lparr>gr_token = nt_token y, gr_decimals = None, gr_transfers = [], gr_nfts = [y]\<rparr>]))"

definition tf_groups :: "'k id_text \<Rightarrow> 'k transfer_tx \<Rightarrow> 'k token_group list" where
  "tf_groups it q = merge_loop (tf_tokens (tf_sorted it q)) (tf_nfts (tf_sorted it q)) []"

record account_amount =
  aa_account :: "account_message option"
  aa_amount :: "long option"
  aa_approval :: "bool option"

record nft_transfer_message =
  nx_sender :: "account_message option"
  nx_receiver :: "account_message option"
  nx_serial :: "long option"
  nx_approval :: "bool option"

record token_list_message =
  tl_token :: "id_message option"
  tl_decimals :: "int option"
  tl_transfers :: "account_amount list option"
  tl_nfts :: "nft_transfer_message list option"

record transfer_message =
  tm_accounts :: "account_amount list option option"
  tm_tokens :: "token_list_message list option"

definition u2u_toMessage :: "('k \<Rightarrow> bytes) \<Rightarrow> 'k u2u_transfer \<Rightarrow> account_amount" where
  "u2u_toMessage ke x =
     \<lparr>aa_account = Some (account_toProtobuf ke (ut_account x)), aa_amount = Some (u2u_toTiny (ut_amount x)),
      aa_approval = Some (ut_approved x)\<rparr>"

definition tokenTransfer_toMessage :: "('k \<Rightarrow> bytes) \<Rightarrow> 'k token_transfer \<Rightarrow> account_amount" where
  "tokenTransfer_toMessage ke x =
     \<lparr>aa_account = Some (account_toProtobuf ke (tt_account x)), aa_amount = Some (tt_amount x),
      aa_approval = Some (tt_approved x)\<rparr>"

definition nftTransfer_toMessage :: "('k \<Rightarrow> bytes) \<Rightarrow> 'k nft_transfer \<Rightarrow> nft_transfer_message" where
  "nftTransfer_toMessage ke x =
     \<lparr>nx_sender = Some (account_toProtobuf ke (nt_sender x)),
      nx_receiver = Some (account_toProtobuf ke (nt_receiver x)),
      nx_serial = Some (nt_serial x), nx_approval = Some (nt_approved x)\<rparr>"

definition group_toMessage :: "('k \<Rightarrow> bytes) \<Rightarrow> 'k token_group \<Rightarrow> token_list_message" where
  "group_toMessage ke g =
     \<lparr>tl_token = Some (token_toProtobuf (gr_token g)), tl_decimals = gr_decimals g,
      tl_transfers = Some (map (tokenTransfer_toMessage ke) (gr_transfers g)),
      tl_nfts = Some (map (nftTransfer_toMessage ke) (gr_nfts g))\<rparr>"

definition tf_makeTransactionData ::
  "'k id_text \<Rightarrow> ('k \<Rightarrow> bytes) \<Rightarrow> 'k transfer_tx \<Rightarrow> transfer_message \<times> 'k transfer_tx" where
  "tf_makeTransactionData it ke q =
     (\<lparr>tm_accounts = Some (Some (map (u2u_toMessage ke) (tf_u2us (tf_sorted it q)))),
       tm_tokens = Some (map (group_toMessage ke) (tf_groups it q))\<rparr>, tf_sorted it q)"

text \<open>Reading the data back: a missing account or token throws.\<close>

definition message_account :: "(bytes \<Rightarrow> 'k option js) \<Rightarrow> account_message option \<Rightarrow> 'k account_id js" where
  "message_account kd m = (case m of None \<Rightarrow> Inl TypeErr | Some a \<Rightarrow> account_fromProtobuf kd a)"

definition message_token :: "id_message option \<Rightarrow> token_id js" where
  "message_token m = (case m of None \<Rightarrow> Inl TypeErr | Some i \<Rightarrow> token_fromProtobuf i)"

definition u2u_fromMessage :: "(bytes \<Rightarrow> 'k option js) \<Rightarrow> account_amount \<Rightarrow> 'k u2u_transfer js" where
  "u2u_fromMessage kd m =
     js_bind (message_account kd (aa_account m)) (\<lambda>a.
     js_bind (u2u_fromTiny (of_int (sint (or_zero (aa_amount m))))) (\<lambda>v.
       Inr \<lparr>ut_account = a, ut_amount = v, ut_approved = (aa_approval m = Some True)\<rparr>))"

definition tokenTransfer_fromMessage ::
  "(bytes \<Rightarrow> 'k option js) \<Rightarrow> token_id \<Rightarrow> int option \<Rightarrow> account_amount \<Rightarrow> 'k token_transfer js" where
  "tokenTransfer_fromMessage kd token decimals m =
     js_bind (message_account kd (aa_account m)) (\<lambda>a.
       Inr \<lparr>tt_token = token, tt_account = a, tt_decimals = decimals, tt_amount = or_zero (aa_amount m),
            tt_approved = (aa_approval m = Some True)\<rparr>)"

definition nftTransfer_fromMessage ::
  "(bytes \<Rightarrow> 'k option js) \<Rightarrow> token_id \<Rightarrow> nft_transfer_message \<Rightarrow> 'k nft_transfer js" where
  "nftTransfer_fromMessage kd token m =
     js_bind (message_account kd (nx_sender m)) (\<lambda>s.
     js_bind (message_account kd (nx_receiver m)) (\<lambda>r.
       Inr \<lparr>nt_token = token, nt_serial = or_zero (nx_serial m), nt_sender = s, nt_receiver = r,
            nt_approved = (nx_approval m = Some True)\<rparr>))"

definition tokenTransfers_fromMessages ::
  "(bytes \<Rightarrow> 'k option js) \<Rightarrow> token_list_message list \<Rightarrow> 'k token_transfer list js" where
  "tokenTransfers_fromMessages kd ms =
     js_bind (js_map (\<lambda>m. js_bind (message_token (tl_token m)) (\<lambda>t.
         js_map (tokenTransfer_fromMessage kd t (tl_decimals m))
           (case tl_transfers m of None \<Rightarrow> [] | Some xs \<Rightarrow> xs))) ms) (\<lambda>xss. Inr (concat xss))"

definition nftTransfers_fromMessages ::
  "(bytes \<Rightarrow> 'k option js) \<Rightarrow> token_list_message list \<Rightarrow> 'k nft_transfer list js" where
  "nftTransfers_fromMessages kd ms =
     js_bind (js_map (\<lambda>m. js_bind (message_token (tl_token m)) (\<lambda>t.
         js_map (nftTransfer_fromMessage kd t) (case tl_nfts m of None \<Rightarrow> [] | Some xs \<Rightarrow> xs))) ms)
       (\<lambda>xss. Inr (concat xss))"

definition tf_ofMessage ::
  "(bytes \<Rightarrow> 'k option js) \<Rightarrow> (nat \<Rightarrow> timestamp) \<Rightarrow> transfer_message \<Rightarrow> 'k transfer_tx js" where
  "tf_ofMessage kd starts m =
     js_bind (tokenTransfers_fromMessages kd (case tm_tokens m of None \<Rightarrow> [] | Some l \<Rightarrow> l)) (\<lambda>tokens.
     js_bind (js_map (u2u_fromMessage kd)
         (case tm_accounts m of Some (Some l) \<Rightarrow> l | _ \<Rightarrow> [])) (\<lambda>u2us.
     js_bind (nftTransfers_fromMessages kd (case tm_tokens m of None \<Rightarrow> [] | Some l \<Rightarrow> l)) (\<lambda>nfts.
       Inr ((tf_blank starts)\<lparr>tf_tokens := tokens, tf_u2us := u2us, tf_nfts := nfts\<rparr>))))"

definition tf_fromProtobuf ::
  "(bytes \<Rightarrow> 'k option js) \<Rightarrow> (nat \<Rightarrow> timestamp) \<Rightarrow> transfer_message pbody list \<Rightarrow> 'k transfer_tx js" where
  "tf_fromProtobuf kd starts bodies =
     (case bodies of
        [] \<Rightarrow> Inl TypeErr
      | b # _ \<Rightarrow> (case pb_data b of None \<Rightarrow> Inl TypeErr | Some m \<Rightarrow> tf_ofMessage kd starts m))"

subsection \<open>Grouping\<close>

text \<open>What every step of the loop does to the groups.\<close>

lemma update_same: "k < length gs \<Longrightarrow> (map f gs)[k := f (gs ! k)] = map f gs"
  by (metis list_update_id nth_map)

lemma join_concat:
  assumes "k < length gs"
  shows "mset (concat (map gr_transfers (join_token x k gs))) = add_mset x (mset (concat (map gr_transfers gs)))"
    and "map gr_nfts (join_token x k gs) = map gr_nfts gs"
    and "mset (concat (map gr_nfts (join_nft y k gs))) = add_mset y (mset (concat (map gr_nfts gs)))"
    and "map gr_transfers (join_nft y k gs) = map gr_transfers gs"
    and "map gr_token (join_token x k gs) = map gr_token gs" "map gr_token (join_nft y k gs) = map gr_token gs"
proof -
  obtain us g vs where gs: "gs = us @ g # vs" "k = length us"
    using id_take_nth_drop [OF assms] assms by (metis length_take min.absorb4)
  show "mset (concat (map gr_transfers (join_token x k gs))) = add_mset x (mset (concat (map gr_transfers gs)))"
    by (simp add: join_token_def gs)
  show "mset (concat (map gr_nfts (join_nft y k gs))) = add_mset y (mset (concat (map gr_nfts gs)))"
    by (simp add: join_nft_def gs)
  show "map gr_nfts (join_token x k gs) = map gr_nfts gs" "map gr_transfers (join_nft y k gs) = map gr_transfers gs"
    "map gr_token (join_token x k gs) = map gr_token gs" "map gr_token (join_nft y k gs) = map gr_token gs"
    using assms by (simp_all add: join_token_def join_nft_def map_update update_same)
qed

lemma find_group_Some: "find_group gs t = Some k \<Longrightarrow> k < length gs \<and> tk_ids (gr_token (gs ! k)) = tk_ids t"
proof -
  have "fold (\<lambda>k r. if token_compare (gr_token (gs ! k)) t = 0 then Some k else r) ks r = Some k \<Longrightarrow>
      r = Some k \<or> k \<in> set ks \<and> tk_ids (gr_token (gs ! k)) = tk_ids t" for ks r
    by (induction ks arbitrary: r) (auto simp: token_zero split: if_splits)
  from this [of "[0..<length gs]" None]
  show "find_group gs t = Some k \<Longrightarrow> k < length gs \<and> tk_ids (gr_token (gs ! k)) = tk_ids t"
    by (auto simp: find_group_def)
qed

lemma find_group_None: "find_group gs t = None \<longleftrightarrow> tk_ids t \<notin> tk_ids ` gr_token ` set gs"
proof -
  have "fold (\<lambda>k r. if token_compare (gr_token (gs ! k)) t = 0 then Some k else r) ks r = None \<longleftrightarrow>
      r = None \<and> (\<forall>k \<in> set ks. tk_ids (gr_token (gs ! k)) \<noteq> tk_ids t)" for ks r
    by (induction ks arbitrary: r) (auto simp: token_zero)
  note this [of "[0..<length gs]" None]
  moreover have "tk_ids t \<notin> tk_ids ` gr_token ` set gs \<longleftrightarrow> (\<forall>k < length gs. tk_ids (gr_token (gs ! k)) \<noteq> tk_ids t)"
    by (simp add: image_image set_conv_nth image_iff) metis
  ultimately show ?thesis by (simp add: find_group_def Ball_def)
qed

text \<open>A rule for facts about the groups that every step keeps.\<close>

lemma merge_loop_keeps:
  assumes "P xs ys gs"
    and token_join: "\<And>x xs ys gs k. P (x # xs) ys gs \<Longrightarrow> k < length gs \<Longrightarrow> tk_ids (gr_token (gs ! k)) = tk_ids (tt_token x) \<Longrightarrow>
      (if ys = [] then find_group gs (tt_token x) = Some k else k = length gs - 1) \<Longrightarrow> P xs ys (join_token x k gs)"
    and nft_join: "\<And>y xs ys gs k. P xs (y # ys) gs \<Longrightarrow> k < length gs \<Longrightarrow> tk_ids (gr_token (gs ! k)) = tk_ids (nt_token y) \<Longrightarrow>
      P xs ys (join_nft y k gs)"
    and both: "\<And>x xs y ys gs. P (x # xs) (y # ys) gs \<Longrightarrow> tk_ids (tt_token x) = tk_ids (nt_token y) \<Longrightarrow>
      \<not> last_is gs (tt_token x) \<Longrightarrow> P xs ys (gs @
        [\<lparr>gr_token = tt_token x, gr_decimals = tt_decimals x, gr_transfers = [x], gr_nfts = [y]\<rparr>])"
    and token_new: "\<And>x xs ys gs. P (x # xs) ys gs \<Longrightarrow>
      (if ys = [] then find_group gs (tt_token x) = None
       else \<not> last_is gs (tt_token x) \<and> token_compare (tt_token x) (nt_token (hd ys)) < 0) \<Longrightarrow> P xs ys (gs @
        [\<lparr>gr_token = tt_token x, gr_decimals = tt_decimals x, gr_transfers = [x], gr_nfts = []\<rparr>])"
    and nft_new: "\<And>y xs ys gs. P xs (y # ys) gs \<Longrightarrow>
      (if xs = [] then find_group gs (nt_token y) = None
       else \<not> last_is gs (tt_token (hd xs)) \<and> token_compare (tt_token (hd xs)) (nt_token y) > 0) \<Longrightarrow> P xs ys (gs @
        [\<lparr>gr_token = nt_token y, gr_decimals = None, gr_transfers = [], gr_nfts = [y]\<rparr>])"
  shows "P [] [] (merge_loop xs ys gs)"
  using assms(1)
proof (induction xs ys gs rule: merge_loop.induct)
  case (2 x xs y ys gs)
  have last: "length gs - 1 < length gs \<and> tk_ids (gr_token (gs ! (length gs - 1))) = tk_ids t" if "last_is gs t" for t
    using that by (auto simp: last_is_def token_zero last_conv_nth)
  show ?case
  proof (cases "last_is gs (tt_token x)")
    case True
    then show ?thesis using 2 last [OF True] by (simp add: token_join)
  next
    case False
    show ?thesis
    proof (cases "last_is gs (nt_token y)")
      case True
      then show ?thesis using 2 False last [OF True] by (simp add: nft_join)
    next
      case nlast: False
      show ?thesis
      proof (cases "token_compare (tt_token x) (nt_token y) = 0")
        case True
        then show ?thesis using 2 False nlast both [of x xs y ys gs] by (simp add: token_zero)
      next
        case ne: False
        show ?thesis
        proof (cases "token_compare (tt_token x) (nt_token y) < 0")
          case True
          then show ?thesis using 2 False nlast ne token_new [of x xs "y # ys" gs] by simp
        next
          case False
          then show ?thesis using 2 \<open>\<not> last_is gs (tt_token x)\<close> nlast ne nft_new [of "x # xs" y ys gs] by simp
        qed
      qed
    qed
  qed
next
  case (3 x xs gs)
  show ?case
  proof (cases "find_group gs (tt_token x)")
    case None
    then show ?thesis using 3(1) [OF None] 3(3) token_new [of x xs "[]" gs] by simp
  next
    case (Some k)
    then show ?thesis using 3(2) [OF Some] 3(3) find_group_Some [OF Some] token_join [of x xs "[]" gs k] by simp
  qed
next
  case (4 y ys gs)
  show ?case
  proof (cases "find_group gs (nt_token y)")
    case None
    then show ?thesis using 4(1) [OF None] 4(3) nft_new [of "[]" y ys gs] by simp
  next
    case (Some k)
    then show ?thesis using 4(2) [OF Some] 4(3) find_group_Some [OF Some] nft_join [of "[]" y ys gs k] by simp
  qed
qed simp

lemma merge_content:
  fixes gs :: "'k token_group list"
  shows "mset (concat (map gr_transfers (merge_loop xs ys gs))) = mset xs + mset (concat (map gr_transfers gs)) \<and>
   mset (concat (map gr_nfts (merge_loop xs ys gs))) = mset ys + mset (concat (map gr_nfts gs))"
proof -
  define P where "P as bs hs \<longleftrightarrow>
      mset as + mset (concat (map gr_transfers hs)) = mset xs + mset (concat (map gr_transfers gs)) \<and>
      mset bs + mset (concat (map gr_nfts hs)) = mset ys + mset (concat (map gr_nfts gs))" for as bs and hs :: "'k token_group list"
  have "P [] [] (merge_loop xs ys gs)"
    by (rule merge_loop_keeps) (simp_all add: P_def join_concat)
  then show ?thesis by (simp add: P_def)
qed

definition group_ok :: "'k token_group \<Rightarrow> bool" where
  "group_ok g \<longleftrightarrow>
     (\<forall>x \<in> set (gr_transfers g). tk_ids (tt_token x) = tk_ids (gr_token g)) \<and>
     (\<forall>y \<in> set (gr_nfts g). tk_ids (nt_token y) = tk_ids (gr_token g)) \<and>
     (gr_transfers g \<noteq> [] \<or> gr_nfts g \<noteq> []) \<and>
     gr_decimals g = (case gr_transfers g of [] \<Rightarrow> None | x # _ \<Rightarrow> tt_decimals x)"

lemma group_ok_join:
  assumes "\<forall>g \<in> set gs. group_ok g" "k < length gs"
  shows "tk_ids (gr_token (gs ! k)) = tk_ids (tt_token x) \<Longrightarrow> gr_transfers (gs ! k) \<noteq> [] \<Longrightarrow>
      \<forall>g \<in> set (join_token x k gs). group_ok g"
    and "tk_ids (gr_token (gs ! k)) = tk_ids (nt_token y) \<Longrightarrow> \<forall>g \<in> set (join_nft y k gs). group_ok g"
proof -
  have g: "group_ok (gs ! k)" using assms by simp
  have upd: "\<forall>h \<in> set (gs[k := h']). group_ok h" if "group_ok h'" for h'
    using set_update_subset_insert [of gs k h'] assms(1) that by blast
  show "\<forall>g \<in> set (join_token x k gs). group_ok g"
    if "tk_ids (gr_token (gs ! k)) = tk_ids (tt_token x)" "gr_transfers (gs ! k) \<noteq> []"
    unfolding join_token_def using that g
    by (intro upd) (cases "gr_transfers (gs ! k)"; simp add: group_ok_def)
  show "\<forall>g \<in> set (join_nft y k gs). group_ok g" if "tk_ids (gr_token (gs ! k)) = tk_ids (nt_token y)"
    unfolding join_nft_def using that g by (intro upd) (auto simp: group_ok_def)
qed

text \<open>
  With the token transfers in the order of their tokens, a token that is still to come has no
  group, or the last one, which then has token transfers.
\<close>

definition group_front :: "'k token_transfer list \<Rightarrow> 'k token_group list \<Rightarrow> bool" where
  "group_front xs gs \<longleftrightarrow>
     sorted_wrt (\<lambda>a b. token_compare (tt_token a) (tt_token b) \<le> 0) xs \<and>
     (\<forall>x \<in> set xs. \<forall>k < length gs. token_compare (gr_token (gs ! k)) (tt_token x) < 0 \<or>
        k = length gs - 1 \<and> tk_ids (gr_token (gs ! k)) = tk_ids (tt_token x) \<and> gr_transfers (gs ! k) \<noteq> [])"

lemma token_less_trans:
  "token_compare a b \<le> 0 \<Longrightarrow> token_compare b c < 0 \<Longrightarrow> token_compare a c < 0"
  "token_compare a b < 0 \<Longrightarrow> token_compare b c \<le> 0 \<Longrightarrow> token_compare a c < 0"
  "token_compare a b > 0 \<longleftrightarrow> token_compare b a < 0"
proof -
  note t = token_order.trans [simplified] and s = token_order.antisym [simplified]
  have ids: "token_compare a c = 0 \<Longrightarrow> token_compare b c = token_compare b a"
    "token_compare a c = 0 \<Longrightarrow> token_compare a b = token_compare c b" for a b c
    unfolding token_zero by (simp_all add: token_compare_def)
  have neg: "token_compare a b > 0 \<longleftrightarrow> token_compare b a < 0" for a b
    using s [of a b] by (auto simp: sgn_if split: if_splits)
  show "token_compare a c < 0" if "token_compare a b \<le> 0" "token_compare b c < 0"
    using t [of a b c] that ids(1) [of a c b] neg [of a b] neg [of b a] by fastforce
  show "token_compare a c < 0" if "token_compare a b < 0" "token_compare b c \<le> 0"
    using t [of a b c] that ids(2) [of a c b] neg [of b c] neg [of c b] by fastforce
  show "token_compare a b > 0 \<longleftrightarrow> token_compare b a < 0" by (rule neg)
qed

lemma join_nth [simp]:
  "length (join_token x k gs) = length gs" "length (join_nft y k gs) = length gs"
  "i < length gs \<Longrightarrow> gr_token (join_token x k gs ! i) = gr_token (gs ! i)"
  "i < length gs \<Longrightarrow> gr_token (join_nft y k gs ! i) = gr_token (gs ! i)"
  "i < length gs \<Longrightarrow> gr_transfers (join_token x k gs ! i) = gr_transfers (gs ! i) @ (if i = k then [x] else [])"
  "i < length gs \<Longrightarrow> gr_transfers (join_nft y k gs ! i) = gr_transfers (gs ! i)"
  by (cases "i = k"; simp add: join_token_def join_nft_def)+

lemma join_last:
  "k = length gs - 1 \<Longrightarrow> k < length gs \<Longrightarrow>
    concat (map gr_transfers (join_token x k gs)) = concat (map gr_transfers gs) @ [x]"
  by (cases gs rule: rev_cases) (simp_all add: join_token_def)

lemma front_found:
  assumes "group_front (x # xs) gs" "k < length gs" "tk_ids (gr_token (gs ! k)) = tk_ids (tt_token x)"
  shows "k = length gs - 1" "gr_transfers (gs ! k) \<noteq> []"
proof -
  have "\<not> token_compare (gr_token (gs ! k)) (tt_token x) < 0"
    using assms(3) token_zero [of "gr_token (gs ! k)" "tt_token x"] by simp
  then show "k = length gs - 1" "gr_transfers (gs ! k) \<noteq> []"
    using assms(1,2) by (auto simp: group_front_def)
qed

lemma front_absent:
  assumes "group_front (x # xs) gs"
    and "find_group gs (tt_token x) = None \<or> \<not> last_is gs (tt_token x)"
  shows "\<forall>k < length gs. token_compare (gr_token (gs ! k)) (tt_token x) < 0"
proof (intro allI impI)
  fix k assume k: "k < length gs"
  have "tk_ids (gr_token (gs ! k)) \<noteq> tk_ids (tt_token x)" if "find_group gs (tt_token x) = None"
  proof -
    have "tk_ids (gr_token (gs ! k)) \<in> tk_ids ` gr_token ` set gs" using k by simp
    then show ?thesis using that by (metis find_group_None)
  qed
  moreover have "\<not> (k = length gs - 1 \<and> tk_ids (gr_token (gs ! k)) = tk_ids (tt_token x))"
    if "\<not> last_is gs (tt_token x)"
  proof -
    have "gs \<noteq> []" using k by auto
    then show ?thesis using that by (auto simp: last_is_def token_zero last_conv_nth)
  qed
  ultimately show "token_compare (gr_token (gs ! k)) (tt_token x) < 0"
    using assms k by (auto simp: group_front_def)
qed

lemma front_add:
  assumes "group_front (x # xs) gs" "\<forall>k < length gs. token_compare (gr_token (gs ! k)) (tt_token x) < 0"
    and "gr_token g = tt_token x" "gr_transfers g \<noteq> []"
  shows "group_front xs (gs @ [g])"
proof -
  have le: "token_compare (tt_token x) (tt_token x') \<le> 0" if "x' \<in> set xs" for x'
    using assms(1) that by (auto simp: group_front_def)
  have "token_compare (gr_token ((gs @ [g]) ! k)) (tt_token x') < 0 \<or>
      k = length gs \<and> tk_ids (gr_token ((gs @ [g]) ! k)) = tk_ids (tt_token x') \<and> gr_transfers ((gs @ [g]) ! k) \<noteq> []"
    if x': "x' \<in> set xs" and k: "k < Suc (length gs)" for x' k
  proof (cases "k < length gs")
    case True
    then show ?thesis using token_less_trans(2) [OF _ le [OF x']] assms(2) by (simp add: nth_append)
  next
    case False
    then show ?thesis using le [OF x'] k assms(3,4) token_zero [of "tt_token x" "tt_token x'"]
      by (auto simp: nth_append)
  qed
  then show ?thesis using assms(1) by (auto simp: group_front_def)
qed

lemma front_add_nft:
  assumes "group_front xs gs" "xs \<noteq> [] \<Longrightarrow> \<not> last_is gs (tt_token (hd xs)) \<and> token_compare (tt_token (hd xs)) (gr_token g) > 0"
  shows "group_front xs (gs @ [g])"
proof (cases xs)
  case (Cons x xs')
  have less: "\<forall>k < length gs. token_compare (gr_token (gs ! k)) (tt_token x) < 0"
    using assms Cons by (intro front_absent [of x xs']) auto
  have le: "token_compare (tt_token x) (tt_token x') \<le> 0" if "x' \<in> set xs" for x'
    using assms(1) that Cons token_order.refl [of "tt_token x"] by (auto simp: group_front_def)
  have "token_compare (gr_token ((gs @ [g]) ! k)) (tt_token x') < 0"
    if x': "x' \<in> set xs" and k: "k < Suc (length gs)" for x' k
    using token_less_trans(2) [OF _ le [OF x']] less assms(2) Cons k token_less_trans(3)
    by (cases "k < length gs") (auto simp: nth_append)
  then show ?thesis using assms(1) by (auto simp: group_front_def)
qed (simp add: group_front_def)

definition one_group :: "'k token_group list \<Rightarrow> bool" where
  "one_group gs \<longleftrightarrow>
     (\<forall>i < length gs. \<forall>j < i. gr_transfers (gs ! i) \<noteq> [] \<longrightarrow> gr_transfers (gs ! j) \<noteq> [] \<longrightarrow>
        tk_ids (gr_token (gs ! i)) \<noteq> tk_ids (gr_token (gs ! j)))"

lemma one_group_add:
  assumes "one_group gs" "gr_transfers g \<noteq> [] \<Longrightarrow> \<forall>k < length gs. token_compare (gr_token (gs ! k)) (gr_token g) < 0"
  shows "one_group (gs @ [g])"
proof -
  have "tk_ids (gr_token g) \<noteq> tk_ids (gr_token (gs ! k))" if "gr_transfers g \<noteq> []" "k < length gs" for k
    using assms(2) that token_zero [of "gr_token (gs ! k)" "gr_token g"] by force
  then show ?thesis using assms(1) by (auto simp: one_group_def nth_append less_Suc_eq)
qed

lemma merge_sorted:
  fixes xs :: "'k token_transfer list"
  assumes "sorted_wrt (\<lambda>a b. token_compare (tt_token a) (tt_token b) \<le> 0) xs"
  shows "(\<forall>g \<in> set (merge_loop xs ys []). group_ok g) \<and> one_group (merge_loop xs ys []) \<and>
    concat (map gr_transfers (merge_loop xs ys [])) = xs"
proof -
  define P where "P as bs gs \<longleftrightarrow> group_front as gs \<and> (\<forall>g \<in> set gs. group_ok g) \<and> one_group gs \<and>
    concat (map gr_transfers gs) @ as = xs"
    for as and bs :: "'k nft_transfer list" and gs :: "'k token_group list"
  have "P [] [] (merge_loop xs ys [])"
  proof (rule merge_loop_keeps)
    show "P xs ys []" using assms by (simp add: P_def group_front_def one_group_def)
  next
    fix x as bs k and gs :: "'k token_group list"
    assume P: "P (x # as) bs gs" and k: "k < length gs" "tk_ids (gr_token (gs ! k)) = tk_ids (tt_token x)"
    then have f: "group_front (x # as) gs" by (simp add: P_def)
    note found = front_found [OF f k]
    have "group_front as (join_token x k gs)" using f by (auto simp: group_front_def)
    moreover have "one_group (join_token x k gs)"
      using P found(2) k(1) by (auto simp: P_def one_group_def split: if_splits)
    moreover have "\<forall>g \<in> set (join_token x k gs). group_ok g"
      using P k found(2) by (intro group_ok_join(1)) (simp_all add: P_def)
    ultimately show "P as bs (join_token x k gs)"
      using P join_last [OF found(1) k(1)] by (simp add: P_def)
  next
    fix y as bs k and gs :: "'k token_group list"
    assume P: "P as (y # bs) gs" and k: "k < length gs" "tk_ids (gr_token (gs ! k)) = tk_ids (nt_token y)"
    have "group_front as (join_nft y k gs)" "one_group (join_nft y k gs)"
      using P by (auto simp: P_def group_front_def one_group_def)
    then show "P as bs (join_nft y k gs)"
      using P group_ok_join(2) [OF _ k] by (simp add: P_def join_concat(4) [OF k(1)])
  next
    fix x as y bs and gs :: "'k token_group list"
    assume P: "P (x # as) (y # bs) gs" and y: "tk_ids (tt_token x) = tk_ids (nt_token y)" "\<not> last_is gs (tt_token x)"
    have absent: "\<forall>k < length gs. token_compare (gr_token (gs ! k)) (tt_token x) < 0"
      using P y(2) by (intro front_absent [of x as]) (simp_all add: P_def)
    then show "P as bs (gs @ [\<lparr>gr_token = tt_token x, gr_decimals = tt_decimals x, gr_transfers = [x], gr_nfts = [y]\<rparr>])"
      using P y front_add [OF _ absent] by (auto simp: P_def group_ok_def intro: one_group_add)
  next
    fix x as bs and gs :: "'k token_group list"
    assume P: "P (x # as) bs gs"
      and new: "if bs = [] then find_group gs (tt_token x) = None
        else \<not> last_is gs (tt_token x) \<and> token_compare (tt_token x) (nt_token (hd bs)) < 0"
    have absent: "\<forall>k < length gs. token_compare (gr_token (gs ! k)) (tt_token x) < 0"
      using P new by (intro front_absent [of x as]) (auto simp: P_def split: if_splits)
    then show "P as bs (gs @ [\<lparr>gr_token = tt_token x, gr_decimals = tt_decimals x, gr_transfers = [x], gr_nfts = []\<rparr>])"
      using P front_add [OF _ absent] by (auto simp: P_def group_ok_def intro: one_group_add)
  next
    fix y as bs and gs :: "'k token_group list"
    assume P: "P as (y # bs) gs"
      and new: "if as = [] then find_group gs (nt_token y) = None
        else \<not> last_is gs (tt_token (hd as)) \<and> token_compare (tt_token (hd as)) (nt_token y) > 0"
    let ?g = "\<lparr>gr_token = nt_token y, gr_decimals = None, gr_transfers = [], gr_nfts = [y]\<rparr>"
    have "group_front as (gs @ [?g])" "one_group (gs @ [?g])"
      using P new by (auto simp: P_def intro!: front_add_nft one_group_add)
    then show "P as bs (gs @ [?g])" using P by (auto simp: P_def group_ok_def)
  qed
  then show ?thesis by (simp add: P_def)
qed

lemma merge_nfts_distinct:
  fixes ys :: "'k nft_transfer list"
  shows "distinct (map (tk_ids \<circ> gr_token) (merge_loop [] ys []))"
proof -
  define P where "P as bs gs \<longleftrightarrow> as = [] \<and> distinct (map tk_ids (map gr_token gs))"
    for as :: "'k token_transfer list" and bs :: "'k nft_transfer list" and gs :: "'k token_group list"
  have "P [] [] (merge_loop [] ys [])"
    by (rule merge_loop_keeps) (auto simp: P_def join_concat(6) find_group_None simp del: map_map)
  then show ?thesis by (simp add: P_def)
qed

lemma comparator_on: "comparator cmp D \<Longrightarrow> comparator (\<lambda>a b. cmp (f a) (f b)) (\<lambda>x. D (f x))"
  by (rule comparator.intro) (blast intro: comparator.antisym comparator.trans)+

lemma tokens_sorted:
  assumes "\<forall>x \<in> set xs. account_kind (tt_account x) = kd"
  shows "sorted_wrt (\<lambda>a b. token_compare (tt_token a) (tt_token b) \<le> 0) (js_sort (tf_compareTokens it) xs)"
proof -
  have "comparator (tf_compareTokens it) (\<lambda>x. account_kind (tt_account x) = kd)"
    unfolding tf_compareTokens_def
    by (intro comparator_then comparator_on [OF account_order.comparator_axioms])
      (rule comparator.intro; blast intro: token_order.antisym token_order.trans)
  from comparator.sorted_sort [OF this assms]
  show ?thesis
    by (rule sorted_wrt_mono_rel [rotated]) (auto simp: tf_compareTokens_def then_compare_def Let_def split: if_splits)
qed

text \<open>
  C10. The token lists that a transfer transaction sends hold exactly its transfers: the
  token transfers in the order of their tokens, each NFT transfer once.  No list is empty,
  each holds transfers of its own token only and has the decimals of its first token
  transfer; the token transfers of one token share one list.  When there are only token
  transfers or only NFT transfers, no token has two lists.
\<close>

theorem transfer_groups:
  assumes "\<forall>x \<in> set (tf_tokens q). account_kind (tt_account x) = kd"
  shows "let gs = tf_groups it q in
    concat (map gr_transfers gs) = tf_tokens (tf_sorted it q) \<and>
    mset (concat (map gr_transfers gs)) = mset (tf_tokens q) \<and>
    mset (concat (map gr_nfts gs)) = mset (tf_nfts q) \<and>
    (\<forall>g \<in> set gs. group_ok g) \<and>
    (\<forall>i < length gs. \<forall>j < i. gr_transfers (gs ! i) \<noteq> [] \<longrightarrow> gr_transfers (gs ! j) \<noteq> [] \<longrightarrow>
      tk_ids (gr_token (gs ! i)) \<noteq> tk_ids (gr_token (gs ! j))) \<and>
    (tf_tokens q = [] \<or> tf_nfts q = [] \<longrightarrow> distinct (map (tk_ids \<circ> gr_token) gs))"
proof -
  let ?xs = "js_sort (tf_compareTokens it) (tf_tokens q)" and ?ys = "js_sort (tf_compareNfts it) (tf_nfts q)"
  let ?gs = "merge_loop ?xs ?ys []"
  have gs: "tf_groups it q = ?gs" by (simp add: tf_groups_def tf_sorted_def)
  note sorted = merge_sorted [OF tokens_sorted [OF assms, of it], of ?ys]
  note content = merge_content [of ?xs ?ys "[]"]
  have "distinct (map (tk_ids \<circ> gr_token) ?gs)" if "tf_tokens q = []"
    using that merge_nfts_distinct by simp
  moreover have "distinct (map (tk_ids \<circ> gr_token) ?gs)" if "tf_nfts q = []"
  proof -
    have "concat (map gr_nfts ?gs) = []" using content that by simp
    then have "gr_nfts g = []" if "g \<in> set ?gs" for g using that by simp
    then have "gr_transfers (?gs ! i) \<noteq> []" if "i < length ?gs" for i
      using sorted nth_mem [OF that] unfolding group_ok_def by blast
    then show ?thesis
      using sorted unfolding one_group_def distinct_conv_nth
      by (auto simp: nat_neq_iff) metis+
  qed
  ultimately show ?thesis using sorted content
    by (simp add: gs Let_def one_group_def) (auto simp: tf_sorted_def)
qed

subsection \<open>Repeated tokens\<close>

text \<open>
  The list of a token is not always one: the NFT transfers are sorted by their accounts,
  and while token transfers remain only the last list is looked at.  Whenever NFT transfers
  of two tokens alternate and a transfer of a greater token is present, the data names the
  first token twice.
\<close>

theorem nft_token_repeated:
  assumes "tf_tokens q = [x]" "tf_nfts (tf_sorted it q) = [y1, y2, y3]"
    and "tk_ids (nt_token y1) = tk_ids (nt_token y3)" "tk_ids (nt_token y1) \<noteq> tk_ids (nt_token y2)"
    and "token_compare (tt_token x) (nt_token y1) > 0" "token_compare (tt_token x) (nt_token y2) > 0"
  shows "map (tk_ids \<circ> gr_token) (tf_groups it q) =
      [tk_ids (nt_token y1), tk_ids (nt_token y2), tk_ids (nt_token y1), tk_ids (tt_token x)]"
proof -
  have x: "tf_tokens (tf_sorted it q) = [x]" by (simp add: tf_sorted_def assms(1))
  have ne: "tk_ids (tt_token x) \<noteq> tk_ids (nt_token y1)" "tk_ids (tt_token x) \<noteq> tk_ids (nt_token y2)"
    using assms(5,6) token_zero [of "tt_token x" "nt_token y1"] token_zero [of "tt_token x" "nt_token y2"] by auto
  have gt: "token_compare (tt_token x) (nt_token y3) > 0"
    using assms(3,5) by (simp add: token_compare_def)
  have pos: "\<not> token_compare (tt_token x) y < 0" "token_compare (tt_token x) y \<noteq> 0"
    if "token_compare (tt_token x) y > 0" for y using that by simp_all
  show ?thesis
    using ne assms(3,4) pos [OF assms(5)] pos [OF assms(6)] pos [OF gt]
    by (simp add: tf_groups_def x assms(2) last_is_def find_group_def token_zero)
qed

subsection \<open>The message of a transfer\<close>

definition account_sendable :: "('k \<Rightarrow> bytes) \<Rightarrow> (bytes \<Rightarrow> 'k option js) \<Rightarrow> 'k account_id \<Rightarrow> bool" where
  "account_sendable ke kd a \<longleftrightarrow>
     id_valid (account_triple a) \<and>
     (\<forall>k. ac_aliasKey a = Some k \<longrightarrow> kd (ke k) = Inr (Some k) \<and> length (ke k) \<noteq> 20) \<and>
     (\<forall>e. ac_evmAddress a = Some e \<longrightarrow> length e = 20)"

definition u2u_sent :: "'k u2u_transfer \<Rightarrow> 'k u2u_transfer" where
  "u2u_sent x = x\<lparr>ut_account := account_sent (ut_account x), ut_amount := sint (u2u_toTiny (ut_amount x))\<rparr>"

definition token_sent :: "int option \<Rightarrow> 'k token_transfer \<Rightarrow> 'k token_transfer" where
  "token_sent d x =
     x\<lparr>tt_token := (tt_token x)\<lparr>tk_checksum := None\<rparr>, tt_account := account_sent (tt_account x), tt_decimals := d\<rparr>"

definition nft_sent :: "'k nft_transfer \<Rightarrow> 'k nft_transfer" where
  "nft_sent x =
     x\<lparr>nt_token := (nt_token x)\<lparr>tk_checksum := None\<rparr>, nt_sender := account_sent (nt_sender x),
       nt_receiver := account_sent (nt_receiver x)\<rparr>"

definition transfers_sendable :: "('k \<Rightarrow> bytes) \<Rightarrow> (bytes \<Rightarrow> 'k option js) \<Rightarrow> 'k transfer_tx \<Rightarrow> bool" where
  "transfers_sendable ke kd q \<longleftrightarrow>
     (\<forall>x \<in> set (tf_u2us q). account_sendable ke kd (ut_account x)) \<and>
     (\<forall>x \<in> set (tf_tokens q). id_valid (tk_ids (tt_token x)) \<and> account_sendable ke kd (tt_account x)) \<and>
     (\<forall>x \<in> set (tf_nfts q). id_valid (tk_ids (nt_token x)) \<and> account_sendable ke kd (nt_sender x) \<and>
        account_sendable ke kd (nt_receiver x))"

lemma message_account_back:
  "account_sendable ke kd a \<Longrightarrow> message_account kd (Some (account_toProtobuf ke a)) = Inr (account_sent a)"
  by (simp add: message_account_def account_sendable_def account_back)

lemma fromTiny_int: "u2u_fromTiny (of_int z) = Inr z"
  by (simp add: u2u_fromTiny_def u2u_new_def unit_Tiny_def)

lemma fromTiny_long: "u2u_fromTiny (signed (w :: long)) = Inr (sint w)"
  using fromTiny_int [of "sint w"] by simp

lemma u2u_back:
  "account_sendable ke kd (ut_account x) \<Longrightarrow> u2u_fromMessage kd (u2u_toMessage ke x) = Inr (u2u_sent x)"
  by (cases x) (simp add: u2u_fromMessage_def u2u_toMessage_def message_account_back fromTiny_long u2u_sent_def)

lemma tokenTransfer_back:
  "account_sendable ke kd (tt_account x) \<Longrightarrow> tk_ids (tt_token x) = tk_ids t \<Longrightarrow>
    tokenTransfer_fromMessage kd (t\<lparr>tk_checksum := None\<rparr>) d (tokenTransfer_toMessage ke x) = Inr (token_sent d x)"
  by (cases x; cases t; cases "tt_token x")
    (simp add: tokenTransfer_fromMessage_def tokenTransfer_toMessage_def message_account_back token_sent_def)

lemma nftTransfer_back:
  "account_sendable ke kd (nt_sender x) \<Longrightarrow> account_sendable ke kd (nt_receiver x) \<Longrightarrow>
    tk_ids (nt_token x) = tk_ids t \<Longrightarrow>
    nftTransfer_fromMessage kd (t\<lparr>tk_checksum := None\<rparr>) (nftTransfer_toMessage ke x) = Inr (nft_sent x)"
  by (cases x; cases t; cases "nt_token x")
    (simp add: nftTransfer_fromMessage_def nftTransfer_toMessage_def message_account_back nft_sent_def)

lemma message_token_back:
  "id_valid (tk_ids t) \<Longrightarrow> message_token (Some (token_toProtobuf t)) = Inr (t\<lparr>tk_checksum := None\<rparr>)"
  by (cases t; cases "tk_ids t")
    (simp add: message_token_def token_fromProtobuf_def token_toProtobuf_def id_toMessage_def token_new_def)

lemma group_token_valid:
  assumes "group_ok g" "\<forall>x \<in> set (gr_transfers g). id_valid (tk_ids (tt_token x))"
    and "\<forall>y \<in> set (gr_nfts g). id_valid (tk_ids (nt_token y))"
  shows "id_valid (tk_ids (gr_token g))"
proof (cases "gr_transfers g")
  case (Cons x xs)
  then show ?thesis using assms(1,2) by (simp add: group_ok_def)
next
  case Nil
  then obtain y ys where "gr_nfts g = y # ys" using assms(1) by (cases "gr_nfts g") (simp_all add: group_ok_def)
  then show ?thesis using assms(1,3) by (simp add: group_ok_def)
qed

lemma groups_back:
  assumes "\<forall>g \<in> set gs. group_ok g"
    and "\<forall>g \<in> set gs. \<forall>x \<in> set (gr_transfers g). id_valid (tk_ids (tt_token x)) \<and> account_sendable ke kd (tt_account x)"
    and "\<forall>g \<in> set gs. \<forall>y \<in> set (gr_nfts g). id_valid (tk_ids (nt_token y)) \<and>
      account_sendable ke kd (nt_sender y) \<and> account_sendable ke kd (nt_receiver y)"
  shows "tokenTransfers_fromMessages kd (map (group_toMessage ke) gs) =
      Inr (concat (map (\<lambda>g. map (token_sent (gr_decimals g)) (gr_transfers g)) gs))"
    and "nftTransfers_fromMessages kd (map (group_toMessage ke) gs) =
      Inr (concat (map (\<lambda>g. map nft_sent (gr_nfts g)) gs))"
proof -
  have token: "message_token (tl_token (group_toMessage ke g)) = Inr ((gr_token g)\<lparr>tk_checksum := None\<rparr>)"
    if "g \<in> set gs" for g
    using group_token_valid [of g] assms that by (simp add: group_toMessage_def message_token_back)
  have transfers: "js_map (tokenTransfer_fromMessage kd ((gr_token g)\<lparr>tk_checksum := None\<rparr>) (gr_decimals g))
      (map (tokenTransfer_toMessage ke) (gr_transfers g)) = Inr (map (token_sent (gr_decimals g)) (gr_transfers g))"
    if "g \<in> set gs" for g
    unfolding js_map_map using assms(1,2) that
    by (intro js_map_total tokenTransfer_back) (auto simp: group_ok_def)
  have nfts: "js_map (nftTransfer_fromMessage kd ((gr_token g)\<lparr>tk_checksum := None\<rparr>))
      (map (nftTransfer_toMessage ke) (gr_nfts g)) = Inr (map nft_sent (gr_nfts g))"
    if "g \<in> set gs" for g
    unfolding js_map_map using assms(1,3) that
    by (intro js_map_total nftTransfer_back) (auto simp: group_ok_def)
  have fields: "tl_decimals (group_toMessage ke g) = gr_decimals g"
    "tl_transfers (group_toMessage ke g) = Some (map (tokenTransfer_toMessage ke) (gr_transfers g))"
    "tl_nfts (group_toMessage ke g) = Some (map (nftTransfer_toMessage ke) (gr_nfts g))" for g :: "'a token_group"
    by (simp_all add: group_toMessage_def)
  show "tokenTransfers_fromMessages kd (map (group_toMessage ke) gs) =
      Inr (concat (map (\<lambda>g. map (token_sent (gr_decimals g)) (gr_transfers g)) gs))"
    unfolding tokenTransfers_fromMessages_def js_map_map
    by (subst js_map_total [where g = "\<lambda>g. map (token_sent (gr_decimals g)) (gr_transfers g)"])
      (simp_all add: token transfers fields)
  show "nftTransfers_fromMessages kd (map (group_toMessage ke) gs) = Inr (concat (map (\<lambda>g. map nft_sent (gr_nfts g)) gs))"
    unfolding nftTransfers_fromMessages_def js_map_map
    by (subst js_map_total [where g = "\<lambda>g. map nft_sent (gr_nfts g)"]) (simp_all add: token nfts fields)
qed

text \<open>The decimals of a list are those of the first transfer of its token.\<close>

definition first_decimals :: "'k token_transfer list \<Rightarrow> 'k token_transfer \<Rightarrow> int option" where
  "first_decimals xs x = tt_decimals (hd (filter (\<lambda>y. tk_ids (tt_token y) = tk_ids (tt_token x)) xs))"

lemma group_decimals:
  assumes "\<forall>g \<in> set gs. group_ok g" "one_group gs" "g \<in> set gs" "x \<in> set (gr_transfers g)"
  shows "gr_decimals g = first_decimals (concat (map gr_transfers gs)) x"
proof -
  obtain us vs where gs: "gs = us @ g # vs" using assms(3) by (auto simp: in_set_conv_decomp)
  have x: "tk_ids (tt_token x) = tk_ids (gr_token g)" using assms(1,3,4) by (simp add: group_ok_def)
  have here: "gr_transfers (gs ! length us) \<noteq> []" using assms(4) by (auto simp: gs)
  have other: "tk_ids (gr_token h) \<noteq> tk_ids (gr_token g)" if h: "h \<in> set us" "gr_transfers h \<noteq> []" for h
  proof -
    obtain j where j: "j < length us" "us ! j = h" using h(1) unfolding in_set_conv_nth by blast
    have "gs ! length us = g" "gs ! j = h" "length us < length gs" by (simp_all add: gs nth_append j)
    then show ?thesis
      using assms(2) [unfolded one_group_def, rule_format, of "length us" j] here h(2) j(1) by simp
  qed
  have "filter (\<lambda>y. tk_ids (tt_token y) = tk_ids (tt_token x)) (concat (map gr_transfers us)) = []"
  proof -
    have "tk_ids (tt_token y) \<noteq> tk_ids (tt_token x)" if "h \<in> set us" "y \<in> set (gr_transfers h)" for h y
    proof -
      have "tk_ids (tt_token y) = tk_ids (gr_token h)" "gr_transfers h \<noteq> []"
        using assms(1) that by (auto simp: gs group_ok_def)
      then show ?thesis using other [OF that(1)] x by simp
    qed
    then show ?thesis by (auto simp: filter_empty_conv)
  qed
  moreover have "filter (\<lambda>y. tk_ids (tt_token y) = tk_ids (tt_token x)) (gr_transfers g) = gr_transfers g"
    using assms(1) x by (auto simp: gs group_ok_def filter_id_conv)
  moreover have "gr_decimals g = tt_decimals (hd (gr_transfers g))" "gr_transfers g \<noteq> []"
    using assms(1,4) by (auto simp: gs group_ok_def split: list.splits)
  ultimately show ?thesis by (simp add: first_decimals_def gs)
qed

text \<open>
  C18. A transfer transaction read back from its data has the same transfers, in sorted
  order: those of the currency with their amounts modulo 2^64, those of tokens with the
  decimals of the first transfer of the token in that order, and the NFT transfers.  So
  decimals that were given for another transfer of the token are lost.
\<close>

theorem transfers_survive_messages:
  assumes "\<forall>x \<in> set (tf_tokens q). account_kind (tt_account x) = kd" "transfers_sendable ke kdec q"
  shows "\<exists>q'. tf_ofMessage kdec starts (fst (tf_makeTransactionData it ke q)) = Inr q' \<and>
    tf_u2us q' = map u2u_sent (tf_u2us (tf_sorted it q)) \<and>
    tf_tokens q' = map (\<lambda>x. token_sent (first_decimals (tf_tokens (tf_sorted it q)) x) x) (tf_tokens (tf_sorted it q)) \<and>
    mset (tf_nfts q') = mset (map nft_sent (tf_nfts q))"
proof -
  let ?gs = "tf_groups it q" and ?s = "tf_sorted it q"
  have gs: "(\<forall>g \<in> set ?gs. group_ok g) \<and> one_group ?gs \<and> concat (map gr_transfers ?gs) = tf_tokens ?s"
    using merge_sorted [OF tokens_sorted [OF assms(1), of it]] by (simp add: tf_groups_def tf_sorted_def)
  have nfts: "mset (concat (map gr_nfts ?gs)) = mset (tf_nfts q)"
    using merge_content [of "tf_tokens ?s" "tf_nfts ?s" "[]"] by (simp add: tf_groups_def tf_sorted_def)
  have members: "x \<in> set (tf_tokens q)" if "g \<in> set ?gs" "x \<in> set (gr_transfers g)" for g x
  proof -
    have "x \<in> set (concat (map gr_transfers ?gs))" using that by auto
    then show ?thesis using gs by (simp add: tf_sorted_def)
  qed
  have nft_members: "y \<in> set (tf_nfts q)" if "g \<in> set ?gs" "y \<in> set (gr_nfts g)" for g y
  proof -
    have "y \<in> set (concat (map gr_nfts ?gs))" using that by auto
    then show ?thesis unfolding mset_eq_setD [OF nfts] .
  qed
  have reads: "tokenTransfers_fromMessages kdec (map (group_toMessage ke) ?gs) =
      Inr (concat (map (\<lambda>g. map (token_sent (gr_decimals g)) (gr_transfers g)) ?gs))"
    "nftTransfers_fromMessages kdec (map (group_toMessage ke) ?gs) = Inr (concat (map (\<lambda>g. map nft_sent (gr_nfts g)) ?gs))"
    using gs assms(2) by (auto intro!: groups_back dest: members nft_members simp: transfers_sendable_def)
  have maps: "concat (map (\<lambda>g. map f (h g)) gs) = map f (concat (map h gs))" for f h and gs :: "'a token_group list"
    by (induction gs) simp_all
  have "map (token_sent (gr_decimals g)) (gr_transfers g) =
      map (\<lambda>x. token_sent (first_decimals (tf_tokens ?s) x) x) (gr_transfers g)" if "g \<in> set ?gs" for g
    using group_decimals [of ?gs g] gs that by (auto intro!: map_cong)
  then have "concat (map (\<lambda>g. map (token_sent (gr_decimals g)) (gr_transfers g)) ?gs) =
      concat (map (\<lambda>g. map (\<lambda>x. token_sent (first_decimals (tf_tokens ?s) x) x) (gr_transfers g)) ?gs)"
    by (intro arg_cong [of _ _ concat] map_cong) auto
  then have tokens: "concat (map (\<lambda>g. map (token_sent (gr_decimals g)) (gr_transfers g)) ?gs) =
      map (\<lambda>x. token_sent (first_decimals (tf_tokens ?s) x) x) (tf_tokens ?s)"
    using gs maps [of "\<lambda>x. token_sent (first_decimals (tf_tokens ?s) x) x" gr_transfers] by simp
  have u2us: "js_map (u2u_fromMessage kdec) (map (u2u_toMessage ke) (tf_u2us ?s)) = Inr (map u2u_sent (tf_u2us ?s))"
    unfolding js_map_map using assms(2)
    by (intro js_map_total u2u_back) (auto simp: transfers_sendable_def tf_sorted_def)
  have nft_set: "mset (concat (map (\<lambda>g. map nft_sent (gr_nfts g)) ?gs)) = mset (map nft_sent (tf_nfts q))"
    unfolding maps [of nft_sent gr_nfts] mset_map nfts by (rule refl)
  show ?thesis
    using reads u2us tokens nft_set by (simp add: tf_ofMessage_def tf_makeTransactionData_def)
qed

subsection \<open>Data of examples\<close>

lemma demo_sendable: "account_sendable ke kd (demo_account n) \<longleftrightarrow> 0 \<le> sint n"
  by (simp add: account_sendable_def plain_account_def account_triple_def id_valid_def)

lemma transfer_groups_witness:
  "mset (concat (map gr_transfers (tf_groups demo_text (demo_start\<lparr>tf_tokens :=
      [demo_transfer 5 1 None, demo_transfer 4 2 (Some 3)]\<rparr>)))) =
   {#demo_transfer 5 1 None, demo_transfer 4 2 (Some 3)#}"
proof -
  let ?q = "demo_start\<lparr>tf_tokens := [demo_transfer 5 1 None, demo_transfer 4 2 (Some 3)]\<rparr>"
  have "\<forall>x \<in> set (tf_tokens ?q). account_kind (tt_account x) = (False, False)"
    by (simp add: demo_transfer_def demo_accounts)
  from transfer_groups [OF this, of demo_text] show ?thesis by (simp add: Let_def tf_sorted_def)
qed

lemma nft_token_repeated_witness:
  "\<not> distinct (map (tk_ids \<circ> gr_token) (tf_groups demo_text
     (demo_start\<lparr>tf_tokens := [demo_transfer 9 1 None], tf_nfts := [demo_nft 5 1, demo_nft 6 2, demo_nft 5 3]\<rparr>)))"
proof -
  let ?q = "demo_start\<lparr>tf_tokens := [demo_transfer 9 1 None], tf_nfts := [demo_nft 5 1, demo_nft 6 2, demo_nft 5 3]\<rparr>"
  have "tf_nfts (tf_sorted demo_text ?q) = [demo_nft 5 1, demo_nft 6 2, demo_nft 5 3]"
    by (simp add: tf_sorted_def tf_compareNfts_def then_compare_def demo_nft_def account_compare_def
        plain_account_def long_compare_def int_compare_def)
  from nft_token_repeated [OF _ this, of "demo_transfer 9 1 None"] show ?thesis
    by (simp add: demo_nft_def demo_transfer_def token_compare_def entity_compare_def long_compare_def int_compare_def)
qed

lemma transfers_survive_messages_witness:
  "\<exists>q'. tf_ofMessage (\<lambda>b. Inr None) (\<lambda>_. \<lparr>ts_seconds = 1, ts_nanos = 2\<rparr>)
      (fst (tf_makeTransactionData demo_text (\<lambda>k. []) (demo_start\<lparr>tf_tokens := [demo_transfer 5 1 (Some 3)]\<rparr>))) = Inr q' \<and>
    tf_tokens q' = [demo_transfer 5 1 (Some 3)]"
proof -
  let ?q = "demo_start\<lparr>tf_tokens := [demo_transfer 5 1 (Some 3)]\<rparr>"
  have kind: "\<forall>x \<in> set (tf_tokens ?q). account_kind (tt_account x) = (False, False)"
    by (simp add: demo_transfer_def demo_accounts)
  have "transfers_sendable (\<lambda>k. []) (\<lambda>b. Inr None) ?q"
    by (simp add: transfers_sendable_def demo_transfer_def demo_sendable demo_fields id_valid_def)
  from transfers_survive_messages [OF kind this, of "\<lambda>_. \<lparr>ts_seconds = 1, ts_nanos = 2\<rparr>" demo_text] show ?thesis
    by (auto simp: tf_sorted_def token_sent_def first_decimals_def demo_transfer_def account_sent_def plain_account_def)
qed

end
