(* ===== verification/Query.thy ===== *)
theory Query
  imports TxExec Amounts
begin

text \<open>
  \<open>src/src/query/Query.js\<close> and \<open>CostQuery.js\<close>: queries, what they cost and how they are
  paid.  The classes of queries are extensions of the record; what a class overrides is
  its \<open>query_class\<close>, and the encoders of the payment are a \<open>pay_codec\<close>.  As in \<open>Tx\<close>,
  \<open>qu_starts k\<close> is what the \<open>k\<close>-th call of \<open>TransactionId.generate\<close> reads from the clock.
\<close>

subsection \<open>State\<close>

record query = executable +
  qu_paymentTransactionId :: "txid option"
  qu_paymentTransactions :: "bytes list"
  qu_queryPayment :: "int option"
  qu_maxQueryPayment :: "int option"
  qu_starts :: "nat \<Rightarrow> timestamp"
  qu_generated :: nat

datatype response_type = AnswerOnly | CostAnswer

record query_header =
  qh_payment :: "bytes option"
  qh_type :: "response_type option"

record ('m, 'r, 's, 'o) query_class =
  qc_required :: "'m query_scheme \<Rightarrow> bool"
  qc_checksums :: "'m query_scheme \<Rightarrow> unit js"
  qc_onMakeRequest :: "query_header option \<Rightarrow> 'm query_scheme \<Rightarrow> 'r"
  qc_shouldRetry :: "'m query_scheme \<Rightarrow> 's \<Rightarrow> exec_state js"
  qc_mapStatusError :: "'m query_scheme \<Rightarrow> 's \<Rightarrow> js_error"
  qc_mapResponse :: "'m query_scheme \<Rightarrow> 's \<Rightarrow> 'o js"
  qc_cost :: "'s \<Rightarrow> long option"

record pay_body =
  py_txid :: txid
  py_node :: string
  py_fee :: long
  py_duration :: int
  py_amounts :: "(string \<times> long) list"

record pay_codec =
  pc_body :: "pay_body \<Rightarrow> bytes"
  pc_signed :: "signed \<Rightarrow> bytes"

definition qu_new :: "(nat \<Rightarrow> timestamp) \<Rightarrow> query" where
  "qu_new starts = executable.extend ex_new (query.fields None [] None None starts 0)"

definition qu_setQueryPayment :: "int \<Rightarrow> 'm query_scheme \<Rightarrow> 'm query_scheme" where
  "qu_setQueryPayment v q = q\<lparr>qu_queryPayment := Some v\<rparr>"

definition qu_setMaxQueryPayment :: "int \<Rightarrow> 'm query_scheme \<Rightarrow> 'm query_scheme" where
  "qu_setMaxQueryPayment v q = q\<lparr>qu_maxQueryPayment := Some v\<rparr>"

definition qu_setPaymentTransactionId :: "txid \<Rightarrow> 'm query_scheme \<Rightarrow> 'm query_scheme" where
  "qu_setPaymentTransactionId i q = q\<lparr>qu_paymentTransactionId := Some i\<rparr>"

definition qu_getTransactionId :: "'m query_scheme \<Rightarrow> txid js" where
  "qu_getTransactionId q =
     (case qu_paymentTransactionId q of None \<Rightarrow> Inl PaymentIdMissing | Some i \<Rightarrow> Inr i)"

text \<open>\<open>TransactionId.generate\<close>.\<close>

definition qu_generate :: "string \<Rightarrow> 'm query_scheme \<Rightarrow> txid \<times> 'm query_scheme" where
  "qu_generate a q =
     (\<lparr>td_account = a, td_start = qu_starts q (qu_generated q), td_scheduled = False, td_nonce = None\<rparr>,
      q\<lparr>qu_generated := Suc (qu_generated q)\<rparr>)"

subsection \<open>Payments\<close>

definition makePaymentTransaction ::
  "pay_codec \<Rightarrow> txid \<Rightarrow> string \<Rightarrow> operator option \<Rightarrow> int \<Rightarrow> bytes" where
  "makePaymentTransaction pc i node oper amount =
     (let payer = (case oper of None \<Rightarrow> ''0.0.0'' | Some p \<Rightarrow> op_account p);
          body = pc_body pc
            \<lparr>py_txid = i, py_node = node, py_fee = u2u_toTiny 100000000, py_duration = 120,
             py_amounts = [(payer, u2u_toTiny (u2u_negated amount)), (node, u2u_toTiny amount)]\<rparr>
      in pc_signed pc
           \<lparr>sg_body = body,
            sg_sigs = (case oper of None \<Rightarrow> [] | Some p \<Rightarrow> [(op_publicKey p, op_signer p body)])\<rparr>)"

subsection \<open>The cost of a query\<close>

record 'm cost_query = executable +
  cq_query :: "'m query_scheme"
  cq_header :: "query_header option"

definition cost_new :: "'m query_scheme \<Rightarrow> 'm cost_query" where
  "cost_new q =
     executable.extend
       (ex_new\<lparr>ex_grpcDeadline := ex_grpcDeadline q, ex_requestTimeout := ex_requestTimeout q,
              ex_nodeIds := rl_clone (ex_nodeIds q), ex_operator := ex_operator q\<rparr>)
       (cost_query.fields q None)"

text \<open>The nodes of a query that has none are those the network picks.\<close>

definition qu_setNodes ::
  "('ch client \<Rightarrow> string list js \<times> 'ch client) \<Rightarrow> 'ch client \<Rightarrow> 'm query_scheme \<Rightarrow>
   unit js \<times> 'ch client \<times> 'm query_scheme" where
  "qu_setNodes pick c q =
     (if \<not> rl_isEmpty (ex_nodeIds q) then (Inr (), c, q)
      else case pick c of
        (Inl e, c) \<Rightarrow> (Inl e, c, q)
      | (Inr ids, c) \<Rightarrow>
          (case rl_setList (ex_nodeIds q) ids of
             Inl e \<Rightarrow> (Inl e, c, q)
           | Inr l \<Rightarrow> (Inr (), c, q\<lparr>ex_nodeIds := l\<rparr>)))"

definition cost_beforeExecute ::
  "pay_codec \<Rightarrow> ('ch client \<Rightarrow> string list js \<times> 'ch client) \<Rightarrow> 'ch client \<Rightarrow>
   'm cost_query \<Rightarrow> unit js \<times> 'ch client \<times> 'm cost_query" where
  "cost_beforeExecute pc pick c cq =
     (case (if ex_operator cq = None then cl_operator c else ex_operator cq) of
        None \<Rightarrow> (Inl NoOperator, c, cq)
      | Some oper \<Rightarrow>
          (case qu_setNodes pick c (cq_query cq) of
             (Inl e, c, q) \<Rightarrow> (Inl e, c, cq\<lparr>cq_query := q\<rparr>)
           | (Inr _, c, q) \<Rightarrow>
               (case qu_generate (op_account oper) q of
                  (i, q) \<Rightarrow>
                    let q = (if qu_paymentTransactionId q = None then qu_setPaymentTransactionId i q else q)
                    in case qu_generate ''0.0.0'' q of
                      (j, q) \<Rightarrow>
                        (Inr (), c,
                         cq\<lparr>cq_query := q,
                            cq_header := Some
                              \<lparr>qh_payment = Some (makePaymentTransaction pc j ''0.0.0'' (Some oper) 0),
                               qh_type = Some CostAnswer\<rparr>\<rparr>))))"

definition cost_methods ::
  "('m, 'r, 's, 'o) query_class \<Rightarrow> ('m cost_query, 'r, 's, int) methods" where
  "cost_methods qc =
     \<lparr>mt_makeRequest = (\<lambda>cq. (Inr (qc_onMakeRequest qc (cq_header cq) (cq_query cq)), cq)),
      mt_shouldRetry = (\<lambda>cq r s. (qc_shouldRetry qc (cq_query cq) s, cq)),
      mt_mapResponse = (\<lambda>cq s acc r.
        (case qc_cost qc s of None \<Rightarrow> Inl TypeErr | Some w \<Rightarrow> u2u_fromTiny (of_int (uint w)), cq)),
      mt_mapStatusError = (\<lambda>cq r s. (qc_mapStatusError qc (cq_query cq) s, cq))\<rparr>"

text \<open>\<open>toFixed(0)\<close> rounds half away from zero.\<close>

definition bn_toFixed0 :: "rat \<Rightarrow> int" where
  "bn_toFixed0 x = (if 0 \<le> x then \<lfloor>x + 1 / 2\<rfloor> else - \<lfloor>- x + 1 / 2\<rfloor>)"

text \<open>A cost query whose answer never comes leaves the result \<open>None\<close>.\<close>

definition qu_getCost ::
  "('m, 'r, 's, 'o) query_class \<Rightarrow> pay_codec \<Rightarrow> ('ch client \<Rightarrow> string list js \<times> 'ch client) \<Rightarrow>
   (string \<Rightarrow> string option \<Rightarrow> 'ch) \<Rightarrow> rat \<Rightarrow> (nat \<Rightarrow> 's env) \<Rightarrow> 'ch client \<Rightarrow> 'm query_scheme \<Rightarrow>
   int js option \<times> 'ch client \<times> 'm query_scheme" where
  "qu_getCost qc pc pick init start env c q =
     (case qu_setNodes pick c q of
        (Inl e, c, q) \<Rightarrow> (Some (Inl e), c, q)
      | (Inr _, c, q) \<Rightarrow>
          (case ex_execute (cost_methods qc) (cost_beforeExecute pc pick) init None start env c (cost_new q) of
             (res, cq, c, evs) \<Rightarrow>
               (case res of
                  None \<Rightarrow> None
                | Some r \<Rightarrow> Some (js_bind r (\<lambda>v. Inr (bn_toFixed0 (of_int v * (11 / 10))))),
                c, cq_query cq)))"

subsection \<open>Before the execution\<close>

text \<open>The check of the limit compares the low 32 bits.\<close>

definition qu_checkLimit :: "int \<Rightarrow> int \<Rightarrow> unit js" where
  "qu_checkLimit limit cost =
     (if long_toInt (u2u_toTiny limit) < long_toInt (u2u_toTiny cost)
      then Inl (MaxQueryPayment cost limit) else Inr ())"

definition qu_setPaymentId ::
  "('m, 'r, 's, 'o) query_class \<Rightarrow> 'm query_scheme \<Rightarrow> unit js \<times> 'm query_scheme" where
  "qu_setPaymentId qc q =
     (if qu_paymentTransactionId q \<noteq> None then (Inr (), q)
      else if qc_required qc q then
        (case ex_operator q of
           None \<Rightarrow> (Inl NoOperator, q)
         | Some oper \<Rightarrow>
             (case qu_generate (op_account oper) q of
                (i, q) \<Rightarrow> (Inr (), q\<lparr>qu_paymentTransactionId := Some i\<rparr>)))
      else
        (case qu_generate ''0.0.0'' q of
           (i, q) \<Rightarrow> (Inr (), q\<lparr>qu_paymentTransactionId := Some i\<rparr>)))"

definition qu_findPayment ::
  "('m, 'r, 's, 'o) query_class \<Rightarrow> pay_codec \<Rightarrow> ('ch client \<Rightarrow> string list js \<times> 'ch client) \<Rightarrow>
   (string \<Rightarrow> string option \<Rightarrow> 'ch) \<Rightarrow> rat \<Rightarrow> (nat \<Rightarrow> 's env) \<Rightarrow> 'ch client \<Rightarrow> 'm query_scheme \<Rightarrow>
   int js option \<times> 'ch client \<times> 'm query_scheme" where
  "qu_findPayment qc pc pick init start env c q =
     (case qu_queryPayment q of
        Some v \<Rightarrow> (Some (Inr v), c, q)
      | None \<Rightarrow>
          if qu_paymentTransactions q = [] \<and> qc_required qc q then
            (let limit = (case qu_maxQueryPayment q of Some v \<Rightarrow> v | None \<Rightarrow> cl_maxQueryPayment c)
             in case qu_getCost qc pc pick init start env c q of
                  (None, c, q) \<Rightarrow> (None, c, q)
                | (Some r, c, q) \<Rightarrow>
                    (Some (js_bind r (\<lambda>v. js_bind (qu_checkLimit limit v) (\<lambda>_. Inr v))), c, q))
          else (Some (Inr 0), c, q))"

definition qu_makePayments ::
  "('m, 'r, 's, 'o) query_class \<Rightarrow> pay_codec \<Rightarrow> txid \<Rightarrow> int \<Rightarrow> 'm query_scheme \<Rightarrow> bytes list" where
  "qu_makePayments qc pc i v q =
     map (\<lambda>node. makePaymentTransaction pc i node (if qc_required qc q then ex_operator q else None) v)
       (rl_list (ex_nodeIds q))"

definition qu_beforeExecute ::
  "('m, 'r, 's, 'o) query_class \<Rightarrow> pay_codec \<Rightarrow> ('ch client \<Rightarrow> string list js \<times> 'ch client) \<Rightarrow>
   (string \<Rightarrow> string option \<Rightarrow> 'ch) \<Rightarrow> rat \<Rightarrow> (nat \<Rightarrow> 's env) \<Rightarrow> 'ch client \<Rightarrow> 'm query_scheme \<Rightarrow>
   unit js option \<times> 'ch client \<times> 'm query_scheme" where
  "qu_beforeExecute qc pc pick init start env c q =
     (if qu_paymentTransactions q \<noteq> [] then (Some (Inr ()), c, q)
      else case (if cl_autoValidateChecksums c then qc_checksums qc q else Inr ()) of
        Inl e \<Rightarrow> (Some (Inl e), c, q)
      | Inr _ \<Rightarrow>
          (case qu_setNodes pick c q of
             (Inl e, c, q) \<Rightarrow> (Some (Inl e), c, q)
           | (Inr _, c, q) \<Rightarrow>
               (let q = (if ex_operator q = None then q\<lparr>ex_operator := cl_operator c\<rparr> else q)
                in case qu_setPaymentId qc q of
                     (Inl e, q) \<Rightarrow> (Some (Inl e), c, q)
                   | (Inr _, q) \<Rightarrow>
                       (case qu_findPayment qc pc pick init start env c q of
                          (None, c, q) \<Rightarrow> (None, c, q)
                        | (Some (Inl e), c, q) \<Rightarrow> (Some (Inl e), c, q)
                        | (Some (Inr v), c, q) \<Rightarrow>
                            (let q = q\<lparr>qu_queryPayment := Some v, ex_nodeIds := rl_setLocked (ex_nodeIds q)\<rparr>
                             in case qu_paymentTransactionId q of
                                  None \<Rightarrow> (Some (Inl TypeErr), c, q)
                                | Some i \<Rightarrow>
                                    (Some (Inr ()), c,
                                     q\<lparr>qu_paymentTransactions := qu_makePayments qc pc i v q\<rparr>))))))"

subsection \<open>Execution\<close>

text \<open>Reading the payments at the index \<open>NaN\<close> gives \<open>undefined\<close>.\<close>

definition qu_payment :: "'m query_scheme \<Rightarrow> bytes option" where
  "qu_payment q =
     (case rl_index (ex_nodeIds q) of None \<Rightarrow> None | Some k \<Rightarrow> js_nth (qu_paymentTransactions q) k)"

definition qu_makeRequest ::
  "('m, 'r, 's, 'o) query_class \<Rightarrow> pay_codec \<Rightarrow> 'm query_scheme \<Rightarrow> 'r js" where
  "qu_makeRequest qc pc q =
     (if qc_required qc q then
        (if rl_locked (ex_nodeIds q) then
           Inr (qc_onMakeRequest qc (Some \<lparr>qh_payment = qu_payment q, qh_type = Some AnswerOnly\<rparr>) q)
         else
           (case (rl_current (ex_nodeIds q), qu_paymentTransactionId q, qu_queryPayment q) of
              (Some node, Some i, Some v) \<Rightarrow>
                Inr (qc_onMakeRequest qc
                  (Some \<lparr>qh_payment = Some (makePaymentTransaction pc i node (ex_operator q) v),
                         qh_type = Some AnswerOnly\<rparr>) q)
            | _ \<Rightarrow> Inl TypeErr))
      else Inr (qc_onMakeRequest qc (Some \<lparr>qh_payment = None, qh_type = Some AnswerOnly\<rparr>) q))"

text \<open>The synchronous \<open>_makeRequest\<close> that \<open>toBytes\<close> uses.\<close>

definition qu_makeRequestSync :: "('m, 'r, 's, 'o) query_class \<Rightarrow> 'm query_scheme \<Rightarrow> 'r" where
  "qu_makeRequestSync qc q =
     qc_onMakeRequest qc
       (Some (if qc_required qc q then \<lparr>qh_payment = qu_payment q, qh_type = Some AnswerOnly\<rparr>
              else \<lparr>qh_payment = None, qh_type = None\<rparr>)) q"

text \<open>The default answers; \<open>precheck\<close> is the code in the header of the response.\<close>

definition qu_shouldRetry :: "nat option \<Rightarrow> exec_state js" where
  "qu_shouldRetry precheck =
     js_bind (tx_status precheck) (\<lambda>status.
       if status = status_Busy \<or> status = status_Unknown \<or> status = status_PlatformTransactionNotCreated
       then Inr Retry
       else if status = status_Ok then Inr Finished
       else Inr Error)"

definition qu_mapStatusError :: "nat option \<Rightarrow> 'm query_scheme \<Rightarrow> js_error" where
  "qu_mapStatusError precheck q =
     (case tx_status precheck of
        Inl e \<Rightarrow> e
      | Inr status \<Rightarrow> (case qu_getTransactionId q of Inl e \<Rightarrow> e | Inr _ \<Rightarrow> PrecheckError status))"

definition qu_methods ::
  "('m, 'r, 's, 'o) query_class \<Rightarrow> pay_codec \<Rightarrow> ('m query_scheme, 'r, 's, 'o) methods" where
  "qu_methods qc pc =
     \<lparr>mt_makeRequest = (\<lambda>q. (qu_makeRequest qc pc q, q)),
      mt_shouldRetry = (\<lambda>q r s. (qc_shouldRetry qc q s, q)),
      mt_mapResponse = (\<lambda>q s acc r. (qc_mapResponse qc q s, q)),
      mt_mapStatusError = (\<lambda>q r s. (qc_mapStatusError qc q s, q))\<rparr>"

text \<open>
  \<open>execute\<close>: the step before the loop may itself wait for ever for the cost.
\<close>

definition qu_execute ::
  "('m, 'r, 's, 'o) query_class \<Rightarrow> pay_codec \<Rightarrow> ('ch client \<Rightarrow> string list js \<times> 'ch client) \<Rightarrow>
   (string \<Rightarrow> string option \<Rightarrow> 'ch) \<Rightarrow> rat option \<Rightarrow> rat \<Rightarrow> (nat \<Rightarrow> 's env) \<Rightarrow> rat \<Rightarrow> (nat \<Rightarrow> 's env) \<Rightarrow>
   'ch client \<Rightarrow> 'm query_scheme \<Rightarrow>
   'o js option \<times> 'm query_scheme \<times> 'ch client \<times> 'r event list" where
  "qu_execute qc pc pick init timeout cstart cenv start env c q =
     (let q = (if ex_requestTimeout q = None
               then q\<lparr>ex_requestTimeout :=
                        (case timeout of None \<Rightarrow> cl_requestTimeout c | Some t \<Rightarrow> Some t)\<rparr>
               else q)
      in case qu_beforeExecute qc pc pick init cstart cenv c q of
           (None, c, q) \<Rightarrow> (None, q, c, [])
         | (Some r, c, q) \<Rightarrow> ex_execute (qu_methods qc pc) (\<lambda>c q. (r, c, q)) init timeout start env c q)"

subsection \<open>Queries as addressed requests\<close>

text \<open>
  The payments of a query that is ready: one for each node, in their order.  A class that
  looks at the nodes to tell whether it is paid for is not one of this SDK.
\<close>

definition qu_ready ::
  "('m, 'r, 's, 'o) query_class \<Rightarrow> pay_codec \<Rightarrow> txid \<Rightarrow> operator option \<Rightarrow> int \<Rightarrow> 'm query_scheme \<Rightarrow> bool" where
  "qu_ready qc pc i oper v q \<longleftrightarrow>
     (\<forall>l. qc_required qc (q\<lparr>ex_nodeIds := l\<rparr>)) \<and>
     qu_paymentTransactions q = map (\<lambda>a. makePaymentTransaction pc i a oper v) (rl_list (ex_nodeIds q))"

definition qu_meant ::
  "('m, 'r, 's, 'o) query_class \<Rightarrow> pay_codec \<Rightarrow> txid \<Rightarrow> operator option \<Rightarrow> int \<Rightarrow> string \<Rightarrow> 'r \<Rightarrow> bool" where
  "qu_meant qc pc i oper v a r \<longleftrightarrow>
     (\<exists>q. r = qc_onMakeRequest qc
        (Some \<lparr>qh_payment = Some (makePaymentTransaction pc i a oper v), qh_type = Some AnswerOnly\<rparr>) q)"

lemma query_order: "node_order (qu_methods qc pc) (\<lambda>_. 0)"
proof (intro node_order.intro request_class.intro node_order_axioms.intro)
qed (auto simp: qu_methods_def)

interpretation qr: addressed_requests "qu_methods qc pc" "\<lambda>_. 0" "qu_ready qc pc i oper v"
  "qu_meant qc pc i oper v" for qc pc i oper v
proof (intro addressed_requests.intro query_order addressed_requests_axioms.intro)
  fix q r q' a
  assume q: "qu_ready qc pc i oper v q" "rl_locked (ex_nodeIds q)"
    "mt_makeRequest (qu_methods qc pc) q = (Inr r, q')" "rl_current (ex_nodeIds q) = Some a"
  obtain k where k: "rl_index (ex_nodeIds q) = Some k" "k < length (rl_list (ex_nodeIds q))"
    "rl_list (ex_nodeIds q) ! k = a"
    using q(4) by (auto simp: rl_current_def rl_get_def js_nth_eq_Some split: option.splits)
  have req: "qc_required qc q"
  proof -
    have "qc_required qc (q\<lparr>ex_nodeIds := ex_nodeIds q\<rparr>)"
      using q(1) unfolding qu_ready_def by blast
    then show ?thesis by simp
  qed
  have "qu_payment q = Some (makePaymentTransaction pc i a oper v)"
    using q(1) k by (simp add: qu_payment_def qu_ready_def js_nth_eq_Some)
  then show "qu_meant qc pc i oper v a r \<and> qu_ready qc pc i oper v q'"
    using q req by (auto simp: qu_methods_def qu_makeRequest_def qu_meant_def)
qed (auto simp: qu_ready_def ex_advanceRequest_def qu_methods_def)

subsection \<open>What a run leaves of the network\<close>

definition net_kept :: "'ch network \<Rightarrow> 'ch network \<Rightarrow> bool" where
  "net_kept net net' \<longleftrightarrow>
     nw_network net' = nw_network net \<and> (\<forall>n. nd_account (nw_node net' n) = nd_account (nw_node net n)) \<and>
     (pool_inv net \<longrightarrow> pool_inv net')"

lemma net_kept_refl [simp]: "net_kept net net"
  by (simp add: net_kept_def)

lemma loop_keeps_net:
  assumes "ex_loop m init maxA start env k q net = (res, q', net', evs)"
  shows "net_kept net net'"
proof -
  obtain cs where cs: "net' = network_calls init net cs" using loop_calls [OF assms] by blast
  then show ?thesis
    using qr.calls_map [of init net cs] np.calls_keep_pool [of net init cs] by (simp add: net_kept_def)
qed

lemma execute_keeps_net:
  assumes "ex_execute m before init timeout start env c q = (res, q', c', evs)"
    and "\<And>t. fst (snd (before c (q\<lparr>ex_requestTimeout := t\<rparr>))) = c"
  shows "\<exists>net. c' = c\<lparr>cl_network := net\<rparr> \<and> net_kept (cl_network c) net"
proof -
  have same: "\<exists>net. c = c\<lparr>cl_network := net\<rparr> \<and> net_kept (cl_network c) net"
    by (intro exI [of _ "cl_network c"]) simp
  from assms(1) show ?thesis
  proof (cases rule: execute_cases)
    case (failed t err c1)
    then show ?thesis using assms(2) [of t] same by simp
  next
    case (ran t c1 q1 b maxA net)
    then show ?thesis using assms(2) [of t] loop_keeps_net [OF ran(2)] by auto
  qed
qed

lemma cost_before_client:
  assumes "\<not> rl_isEmpty (ex_nodeIds (cq_query cq))"
  shows "fst (snd (cost_beforeExecute pc pick c cq)) = c"
  using assms
  by (auto simp: cost_beforeExecute_def qu_setNodes_def Let_def split: option.split prod.split)

lemma cost_before_query:
  assumes "cost_beforeExecute pc pick c cq = (r, c1, cq1)" "\<not> rl_isEmpty (ex_nodeIds (cq_query cq))"
    and "qu_paymentTransactionId (cq_query cq) \<noteq> None"
  shows "\<exists>g. cq_query cq1 = (cq_query cq)\<lparr>qu_generated := g\<rparr>"
proof -
  have same: "\<exists>g. cq_query cq = (cq_query cq)\<lparr>qu_generated := g\<rparr>"
    by (rule exI [of _ "qu_generated (cq_query cq)"]) simp
  show ?thesis
  proof (cases "if ex_operator cq = None then cl_operator c else ex_operator cq")
    case None
    then have "cq1 = cq" using assms(1) by (simp add: cost_beforeExecute_def)
    then show ?thesis using same by simp
  next
    case (Some oper)
    then have "cq_query cq1 = (cq_query cq)\<lparr>qu_generated := Suc (Suc (qu_generated (cq_query cq)))\<rparr>"
      using assms by (auto simp: cost_beforeExecute_def qu_setNodes_def qu_generate_def Let_def)
    then show ?thesis by blast
  qed
qed

lemma cost_query_nodes: "cq_query (q\<lparr>ex_nodeIds := l\<rparr>) = cq_query q"
  by (cases q) simp

lemma getCost_keeps:
  assumes "qu_getCost qc pc pick init start env c q = (r, c', q')"
    and "\<not> rl_isEmpty (ex_nodeIds q)" "qu_paymentTransactionId q \<noteq> None"
  shows "(\<exists>g. q' = q\<lparr>qu_generated := g\<rparr>) \<and>
    (\<exists>net. c' = c\<lparr>cl_network := net\<rparr> \<and> net_kept (cl_network c) net)"
proof -
  obtain res cq c1 evs where run: "ex_execute (cost_methods qc) (cost_beforeExecute pc pick) init None start env c
      (cost_new q) = (res, cq, c1, evs)" by (metis prod_cases4)
  have out: "q' = cq_query cq" "c' = c1"
    using assms(1,2) run by (simp_all add: qu_getCost_def qu_setNodes_def)
  have q: "cq_query ((cost_new q)\<lparr>ex_requestTimeout := t\<rparr>) = q" for t
    by (simp add: cost_new_def executable.defs cost_query.defs)
  have kept: "kept_by (cost_methods qc) (\<lambda>cq. cq_query cq = X)" for X
    by (simp add: kept_by_def cost_methods_def cost_query_nodes)
  have cl: "fst (snd (cost_beforeExecute pc pick c ((cost_new q)\<lparr>ex_requestTimeout := t\<rparr>))) = c" for t
    using cost_before_client [of "(cost_new q)\<lparr>ex_requestTimeout := t\<rparr>"] assms(2) q by simp
  have "\<exists>g. cq_query cq = q\<lparr>qu_generated := g\<rparr>" using run
  proof (cases rule: execute_cases)
    case (failed t err c2)
    then show ?thesis using cost_before_query [OF failed(1)] assms(2,3) q by simp
  next
    case (ran t c2 q2 b maxA net)
    have "\<exists>g. cq_query q2 = q\<lparr>qu_generated := g\<rparr>"
      using cost_before_query [OF ran(1)] assms(2,3) q by simp
    then obtain g where "cq_query (q2\<lparr>ex_minBackoff := b\<rparr>) = q\<lparr>qu_generated := g\<rparr>"
      by (cases q2) auto
    then show ?thesis using loop_keeps [OF kept _ ran(2)] by blast
  qed
  then show ?thesis using execute_keeps_net [OF run cl] out by simp
qed

definition qu_operatorFor :: "'ch client \<Rightarrow> 'm query_scheme \<Rightarrow> operator option" where
  "qu_operatorFor c q = (if ex_operator q = None then cl_operator c else ex_operator q)"

definition qu_limit :: "'ch client \<Rightarrow> 'm query_scheme \<Rightarrow> int" where
  "qu_limit c q = (case qu_maxQueryPayment q of Some v \<Rightarrow> v | None \<Rightarrow> cl_maxQueryPayment c)"

lemma findPayment_keeps:
  assumes "qu_findPayment qc pc pick init start env c q = (Some (Inr v), c', q')"
    and "\<not> rl_isEmpty (ex_nodeIds q)" "qu_paymentTransactionId q \<noteq> None" "qu_paymentTransactions q = []"
    and "qc_required qc q"
  shows "(\<exists>g. q' = q\<lparr>qu_generated := g\<rparr>) \<and>
    (\<exists>net. c' = c\<lparr>cl_network := net\<rparr> \<and> net_kept (cl_network c) net) \<and>
    (qu_queryPayment q = Some v \<or> qu_queryPayment q = None \<and> qu_checkLimit (qu_limit c q) v = Inr ())"
proof (cases "qu_queryPayment q")
  case (Some w)
  then have "v = w" "c' = c" "q' = q" using assms(1) by (simp_all add: qu_findPayment_def)
  moreover have "c = c\<lparr>cl_network := cl_network c\<rparr>" "q = q\<lparr>qu_generated := qu_generated q\<rparr>" by simp_all
  ultimately show ?thesis using Some net_kept_refl by metis
next
  case None
  obtain r c1 q1 where g: "qu_getCost qc pc pick init start env c q = (r, c1, q1)" by (metis prod_cases3)
  then have "c' = c1" "q' = q1" "\<exists>w. r = Some (Inr w) \<and> js_bind (qu_checkLimit (qu_limit c q) w) (\<lambda>_. Inr w) = Inr v"
    using assms(1,4,5) None
    by (auto simp: qu_findPayment_def qu_limit_def Let_def js_bind_eq_Inr split: option.splits)
  moreover from this(3) have "qu_checkLimit (qu_limit c q) v = Inr ()" by (auto simp: js_bind_eq_Inr)
  ultimately show ?thesis using getCost_keeps [OF g assms(2,3)] None by simp
qed

lemma setPaymentId_keeps:
  assumes "qu_setPaymentId qc q = (Inr u, q')"
  shows "\<exists>g i. q' = q\<lparr>qu_generated := g, qu_paymentTransactionId := Some i\<rparr>"
proof (cases "qu_paymentTransactionId q")
  case (Some i)
  then have "q' = q\<lparr>qu_generated := qu_generated q, qu_paymentTransactionId := Some i\<rparr>"
    using assms by (simp add: qu_setPaymentId_def)
  then show ?thesis by blast
next
  case None
  then show ?thesis
    using assms by (auto simp: qu_setPaymentId_def qu_generate_def split: if_splits option.splits)
qed

lemma before_ready:
  assumes "qu_beforeExecute qc pc pick init start env c q = (Some (Inr u), c', q')"
    and "qu_paymentTransactions q = []" "rl_list (ex_nodeIds q) \<noteq> []" "\<forall>p. qc_required qc p"
  shows "\<exists>i v net. qu_ready qc pc i (qu_operatorFor c q) v q' \<and> ex_nodeIds q' = rl_setLocked (ex_nodeIds q) \<and>
    c' = c\<lparr>cl_network := net\<rparr> \<and> net_kept (cl_network c) net \<and>
    (qu_queryPayment q = Some v \<or> qu_queryPayment q = None \<and> qu_checkLimit (qu_limit c q) v = Inr ())"
proof -
  let ?q1 = "q\<lparr>ex_operator := qu_operatorFor c q\<rparr>"
  have ne: "\<not> rl_isEmpty (ex_nodeIds q)" using assms(3) by (simp add: rl_isEmpty_def rl_length_def)
  have q1: "(if ex_operator q = None then q\<lparr>ex_operator := cl_operator c\<rparr> else q) = ?q1"
    by (simp add: qu_operatorFor_def)
  have nodes: "qu_setNodes pick c q = (Inr (), c, q)" using ne by (simp add: qu_setNodes_def)
  obtain r2 q2 where s: "qu_setPaymentId qc ?q1 = (r2, q2)" by (cases "qu_setPaymentId qc ?q1")
  obtain r3 c3 q3 where f: "qu_findPayment qc pc pick init start env c q2 = (r3, c3, q3)" by (metis prod_cases3)
  have run: "(if cl_autoValidateChecksums c then qc_checksums qc q else Inr ()) = Inr () \<and> r2 = Inr ()"
    using assms(1,2) s nodes unfolding qu_beforeExecute_def q1 Let_def
    by (auto simp: q1 split: sum.splits if_splits)
  then obtain g i where q2: "q2 = ?q1\<lparr>qu_generated := g, qu_paymentTransactionId := Some i\<rparr>"
    using setPaymentId_keeps [of qc ?q1 "()" q2] s by blast
  have body: "(case qu_findPayment qc pc pick init start env c q2 of
        (None, c, q) \<Rightarrow> (None, c, q)
      | (Some (Inl e), c, q) \<Rightarrow> (Some (Inl e), c, q)
      | (Some (Inr v), c, q) \<Rightarrow>
          (case qu_paymentTransactionId (q\<lparr>qu_queryPayment := Some v, ex_nodeIds := rl_setLocked (ex_nodeIds q)\<rparr>) of
             None \<Rightarrow> (Some (Inl TypeErr), c, q\<lparr>qu_queryPayment := Some v, ex_nodeIds := rl_setLocked (ex_nodeIds q)\<rparr>)
           | Some i \<Rightarrow>
               (Some (Inr ()), c,
                q\<lparr>qu_queryPayment := Some v, ex_nodeIds := rl_setLocked (ex_nodeIds q),
                  qu_paymentTransactions := qu_makePayments qc pc i v
                    (q\<lparr>qu_queryPayment := Some v, ex_nodeIds := rl_setLocked (ex_nodeIds q)\<rparr>)\<rparr>)))
      = (Some (Inr u), c', q')"
    using assms(1,2) run s nodes unfolding qu_beforeExecute_def Let_def
    by (simp add: q1)
  obtain v where r3: "r3 = Some (Inr v)" using body f by (auto split: option.splits sum.splits)
  have pre: "\<not> rl_isEmpty (ex_nodeIds q2)" "qu_paymentTransactionId q2 \<noteq> None" "qu_paymentTransactions q2 = []"
    "qc_required qc q2" "qu_queryPayment q2 = qu_queryPayment q" "qu_limit c q2 = qu_limit c q"
    using ne assms(2,4) by (simp_all add: q2 qu_limit_def)
  from findPayment_keeps [OF f [unfolded r3] pre(1-4)] obtain g' net where
    q3: "q3 = q2\<lparr>qu_generated := g'\<rparr>" and c3: "c3 = c\<lparr>cl_network := net\<rparr>" "net_kept (cl_network c) net"
    and v: "qu_queryPayment q = Some v \<or> qu_queryPayment q = None \<and> qu_checkLimit (qu_limit c q) v = Inr ()"
    using pre(5,6) by metis
  have c': "c' = c3" and q': "q' = q3\<lparr>qu_queryPayment := Some v, ex_nodeIds := rl_setLocked (ex_nodeIds q3),
      qu_paymentTransactions := qu_makePayments qc pc i v
        (q3\<lparr>qu_queryPayment := Some v, ex_nodeIds := rl_setLocked (ex_nodeIds q3)\<rparr>)\<rparr>"
    using body f r3 by (simp_all add: q3 q2)
  have "qu_ready qc pc i (qu_operatorFor c q) v q' \<and> ex_nodeIds q' = rl_setLocked (ex_nodeIds q)"
    using assms(4) by (simp add: qu_ready_def q' q3 q2 qu_makePayments_def)
  then show ?thesis using c' c3 v by blast
qed

lemma query_ready_settings [simp]:
  "qu_ready qc pc i oper v (q\<lparr>ex_requestTimeout := t\<rparr>) \<longleftrightarrow>
     (\<forall>l. qc_required qc (q\<lparr>ex_requestTimeout := t, ex_nodeIds := l\<rparr>)) \<and>
     qu_paymentTransactions q = map (\<lambda>a. makePaymentTransaction pc i a oper v) (rl_list (ex_nodeIds q))"
  "qu_ready qc pc i oper v (q\<lparr>ex_minBackoff := b\<rparr>) \<longleftrightarrow>
     (\<forall>l. qc_required qc (q\<lparr>ex_minBackoff := b, ex_nodeIds := l\<rparr>)) \<and>
     qu_paymentTransactions q = map (\<lambda>a. makePaymentTransaction pc i a oper v) (rl_list (ex_nodeIds q))"
  by (simp_all add: qu_ready_def)

text \<open>
  C7. A query pays the node it asks.  For every class of queries that has to be paid for,
  every list of known nodes, every behaviour of the network and also when the cost has to
  be asked for first: attempt i goes to the node at distance i - 1 from the cursor of the
  node list, and its request carries the payment transaction made out for exactly that
  node; the amount is the payment set by the caller, or else a cost that passed the check
  against the limit of the query or of the client.
\<close>

theorem query_pays_contacted_node:
  assumes "qu_execute qc pc pick init timeout cstart cenv start env c q = (res, q', c', evs)"
    and "\<forall>p. qc_required qc p" "qu_paymentTransactions q = []"
    and "rl_inv (ex_nodeIds q)" "rl_list (ex_nodeIds q) \<noteq> []"
    and "set (rl_list (ex_nodeIds q)) \<subseteq> set (map fst (nw_network (cl_network c)))"
    and "pool_inv (cl_network c)"
    and "Sent k n r \<in> set evs"
  shows "\<exists>i v p a. a = nd_account (nw_node (cl_network c) n) \<and>
    Some a = rl_current (rl_steps (k - 1) (ex_nodeIds q)) \<and>
    r = qc_onMakeRequest qc
      (Some \<lparr>qh_payment = Some (makePaymentTransaction pc i a (qu_operatorFor c q) v),
             qh_type = Some AnswerOnly\<rparr>) p \<and>
    (qu_queryPayment q = Some v \<or> qu_queryPayment q = None \<and> qu_checkLimit (qu_limit c q) v = Inr ())"
proof -
  define t where "t = (if ex_requestTimeout q = None
      then (case timeout of None \<Rightarrow> cl_requestTimeout c | Some t \<Rightarrow> Some t) else ex_requestTimeout q)"
  let ?q = "q\<lparr>ex_requestTimeout := t\<rparr>"
  have t: "(if ex_requestTimeout q = None
               then q\<lparr>ex_requestTimeout :=
                        (case timeout of None \<Rightarrow> cl_requestTimeout c | Some t \<Rightarrow> Some t)\<rparr>
               else q) = ?q"
    by (simp add: t_def)
  obtain r1 c1 q1 where b: "qu_beforeExecute qc pc pick init cstart cenv c ?q = (r1, c1, q1)"
    by (metis prod_cases3)
  note run = assms(1) [unfolded qu_execute_def t Let_def b prod.case]
  obtain r2 where r1: "r1 = Some r2" and ex: "ex_execute (qu_methods qc pc) (\<lambda>c q. (r2, c, q)) init timeout start env c1 q1 =
      (res, q', c', evs)"
    using run assms(8) by (cases r1) auto
  from ex obtain t2 b2 maxA net2 where r2: "r2 = Inr ()"
    and loop: "ex_loop (qu_methods qc pc) init maxA start env 1 (q1\<lparr>ex_requestTimeout := t2, ex_minBackoff := b2\<rparr>)
      (cl_network c1) = (res, q', net2, evs)"
    by (cases rule: execute_cases) (use assms(8) in auto)
  have limits: "qu_operatorFor c ?q = qu_operatorFor c q" "qu_limit c ?q = qu_limit c q"
    by (simp_all add: qu_operatorFor_def qu_limit_def)
  from before_ready [OF b [unfolded r1 r2]] assms(2,3,5) limits obtain i v net where
    ready: "qu_ready qc pc i (qu_operatorFor c q) v q1" "ex_nodeIds q1 = rl_setLocked (ex_nodeIds q)"
    and c1: "c1 = c\<lparr>cl_network := net\<rparr>" "net_kept (cl_network c) net"
    and v: "qu_queryPayment q = Some v \<or> qu_queryPayment q = None \<and> qu_checkLimit (qu_limit c q) v = Inr ()"
    by auto
  let ?q2 = "q1\<lparr>ex_requestTimeout := t2, ex_minBackoff := b2\<rparr>"
  have ready2: "qu_ready qc pc i (qu_operatorFor c q) v ?q2"
    using ready(1) assms(2) by (simp add: qu_ready_def)
  have nodes: "rl_locked (ex_nodeIds ?q2)" "rl_inv (ex_nodeIds ?q2)" "rl_list (ex_nodeIds ?q2) \<noteq> []"
    "set (rl_list (ex_nodeIds ?q2)) \<subseteq> set (map fst (nw_network (cl_network c1)))"
    "pool_inv (cl_network c1)"
    using assms(4-7) ready(2) c1 by (simp_all add: net_kept_def)
  let ?a = "nd_account (nw_node (cl_network c) n)"
  have acc: "nd_account (nw_node (cl_network c1) n) = ?a" using c1 by (simp add: net_kept_def)
  have "Some ?a = rl_current (rl_steps ((k - 1) * Suc 0) (ex_nodeIds ?q2))"
    using qr.loop_order [OF loop nodes(1,2) refl nodes(3,4,5)] assms(8) acc by metis
  then have "Some ?a = rl_current (rl_steps (k - 1) (ex_nodeIds q))"
    using ready(2) steps_locked [of "k - 1" "ex_nodeIds q"] by simp
  moreover have "qu_meant qc pc i (qu_operatorFor c q) v ?a r"
    using qr.loop_sent [OF loop ready2 nodes(1,2) refl nodes(3,4,5)] assms(8) acc by metis
  ultimately show ?thesis using v unfolding qu_meant_def by blast
qed

lemma toInt_of_int: "long_toInt (u2u_toTiny v) = signed_take_bit 31 v"
  by (simp add: long_toInt_def u2u_toTiny_def signed_of_int signed_take_bit_signed_take_bit)

text \<open>
  C32. The limit on query payments is checked modulo 2 to the 32: as long as the limit and the cost
  stay below 2 to the 31 tinybars a query is paid exactly when its cost does not exceed the
  limit, but adding any multiple of 2 to the 32 to an affordable cost leaves it accepted, so that
  a query may spend far more than the limit allows.
\<close>

theorem query_limit_wraps:
  assumes "0 \<le> limit" "limit < 2 ^ 31" "0 \<le> cost" "cost < 2 ^ 31"
  shows "(qu_checkLimit limit cost = Inr () \<longleftrightarrow> cost \<le> limit) \<and>
    (cost \<le> limit \<longrightarrow> (\<forall>k :: nat. qu_checkLimit limit (cost + int k * 2 ^ 32) = Inr ()))"
proof -
  have small: "signed_take_bit 31 limit = limit" "signed_take_bit 31 cost = cost"
    using assms by (simp_all add: signed_take_bit_int_eq_self)
  have wrap: "signed_take_bit 31 (cost + int k * 2 ^ 32) = cost" for k
  proof -
    have "take_bit (Suc 31) (cost + int k * 2 ^ 32) = take_bit (Suc 31) cost"
      by (simp add: take_bit_eq_mod)
    then have "signed_take_bit 31 (cost + int k * 2 ^ 32) = signed_take_bit 31 cost"
      by (simp only: signed_take_bit_eq_iff_take_bit_eq)
    then show ?thesis using small by simp
  qed
  show ?thesis unfolding qu_checkLimit_def toInt_of_int small wrap by auto
qed

theorem query_limit_wraps_witness:
  "qu_checkLimit 100000000 (90000000 + int 3 * 2 ^ 32) = Inr ()"
  using query_limit_wraps [of 100000000 90000000] by fastforce

subsection \<open>Witness\<close>

definition plain_class :: "(unit, query_header option, nat option, nat) query_class" where
  "plain_class =
     \<lparr>qc_required = (\<lambda>_. True), qc_checksums = (\<lambda>_. Inr ()), qc_onMakeRequest = (\<lambda>h _. h),
      qc_shouldRetry = (\<lambda>_ s. qu_shouldRetry s), qc_mapStatusError = (\<lambda>q s. qu_mapStatusError s q),
      qc_mapResponse = (\<lambda>_ _. Inr 7), qc_cost = (\<lambda>_. Some 50)\<rparr>"

definition plain_pay :: pay_codec where
  "plain_pay =
     \<lparr>pc_body = (\<lambda>b. [of_nat (length (py_node b)), ucast (snd (last (py_amounts b)))]),
      pc_signed = (\<lambda>s. sg_body s @ concat (map snd (sg_sigs s)))\<rparr>"

definition plain_query :: query where
  "plain_query = (qu_new (\<lambda>_. \<lparr>ts_seconds = 9, ts_nanos = 0\<rparr>))
     \<lparr>ex_nodeIds := \<lparr>rl_list = [''3'', ''4''], rl_locked = True, rl_index = Some 0\<rparr>\<rparr>"

definition plain_env :: "nat \<Rightarrow> nat option env" where
  "plain_env i =
     \<lparr>at_now = 10, at_random = 0, at_health = 10, at_outcome = After 1 (Response (Some 0)), at_failed = 12\<rparr>"

definition plain_run :: "nat js option \<times> query \<times> unit client \<times> query_header option event list" where
  "plain_run = qu_execute plain_class plain_pay (\<lambda>c. (Inr [], c)) (\<lambda>_ _. ()) None 0 plain_env 0 plain_env
     demo_client plain_query"

lemma floor_half: "\<lfloor>111 / 2 :: rat\<rfloor> = 55"
  by (rule floor_unique) simp_all

lemma plain_run_events:
  "snd (snd (snd plain_run)) = [Sent 1 0 (Some \<lparr>qh_payment = Some [1, 55, 7], qh_type = Some AnswerOnly\<rparr>)]"
  by (simp add: floor_half plain_run_def qu_execute_def qu_beforeExecute_def qu_setPaymentId_def qu_findPayment_def
      qu_methods_def qu_makeRequest_def qu_payment_def qu_makePayments_def
      qu_getCost_def plain_class_def plain_pay_def plain_query_def qu_new_def query.defs
      qu_setNodes_def cost_new_def cost_query.defs cost_methods_def cost_beforeExecute_def
      makePaymentTransaction_def qu_generate_def u2u_fromTiny_def u2u_new_def unit_Tiny_def bn_toFixed0_def
      qu_shouldRetry_def qu_checkLimit_def u2u_toTiny_def long_toInt_def qu_setPaymentTransactionId_def
      demo_client_def demo_operator_def cl_new_def executable.defs ex_new_def rl_defs Let_def
      ex_loop.simps ex_attempt_def ex_pickNode_def plain_env_def
      tx_status_def status_fromCode_def status_codes_def
      example_simps mn_getNode_def mn_readmitNodes_def
      random_index_def mn_getChannel_def nw_update_def node_getChannel_def ex_advanceRequest_def
      node_isHealthy_def ex_race_def mn_decreaseBackoff_def node_decreaseBackoff_def js_nth_def ex_execute_def)

theorem query_pays_contacted_node_witness:
  "\<exists>i v p. Some \<lparr>qh_payment = Some [1, 55, 7], qh_type = Some AnswerOnly\<rparr> = qc_onMakeRequest plain_class
      (Some \<lparr>qh_payment = Some (makePaymentTransaction plain_pay i ''3'' (Some demo_operator) v),
             qh_type = Some AnswerOnly\<rparr>) p \<and> qu_checkLimit 100000000 v = Inr ()"
proof -
  obtain res q' c' where run: "plain_run = (res, q', c',
      [Sent 1 0 (Some \<lparr>qh_payment = Some [1, 55, 7], qh_type = Some AnswerOnly\<rparr>)])"
    using plain_run_events by (metis prod.collapse)
  have q: "\<forall>p. qc_required plain_class p" "qu_paymentTransactions plain_query = []"
    "rl_inv (ex_nodeIds plain_query)" "rl_list (ex_nodeIds plain_query) \<noteq> []"
    "set (rl_list (ex_nodeIds plain_query)) \<subseteq> set (map fst (nw_network (cl_network demo_client)))"
    "pool_inv (cl_network demo_client)"
    using echo_pool
    by (simp_all add: plain_class_def plain_query_def qu_new_def query.defs executable.defs rl_inv_def demo_client_def)
  have "Sent 1 0 (Some \<lparr>qh_payment = Some [1, 55, 7], qh_type = Some AnswerOnly\<rparr>) \<in>
      set [Sent 1 0 (Some \<lparr>qh_payment = Some [1, 55, 7], qh_type = Some AnswerOnly\<rparr>)]" by simp
  from query_pays_contacted_node [OF run [unfolded plain_run_def] q this]
  have "\<exists>i v p. Some \<lparr>qh_payment = Some [1, 55, 7], qh_type = Some AnswerOnly\<rparr> = qc_onMakeRequest plain_class
      (Some \<lparr>qh_payment = Some (makePaymentTransaction plain_pay i (nd_account (nw_node (cl_network demo_client) 0))
               (qu_operatorFor demo_client plain_query) v),
             qh_type = Some AnswerOnly\<rparr>) p \<and>
      (qu_queryPayment plain_query = Some v \<or> qu_checkLimit (qu_limit demo_client plain_query) v = Inr ())"
    by blast
  then show ?thesis
    by (simp add: qu_operatorFor_def qu_limit_def plain_query_def qu_new_def query.defs executable.defs ex_new_def
        demo_client_def cl_new_def)
qed

end
