(* ===== verification/Receipts.thy ===== *)
theory Receipts
  imports Ids Status
begin

text \<open>
  What the network says about a transaction: \<open>ExchangeRate.js\<close>, \<open>ExchangeRates.js\<close> and
  \<open>transaction/TransactionReceipt.js\<close>.  A receipt holds ids, a status and further receipts,
  those of its duplicates and of its children.
\<close>

subsection \<open>Exchange rates\<close>

text \<open>
  The expiration is the number of milliseconds of a \<open>Date\<close>.  The seconds of a message are a
  \<open>Long\<close> or a plain number; a plain number is taken as it is.  The rate is the quotient when
  it is a number at all.
\<close>

datatype js_seconds = SecondsLong long | SecondsNumber int

record rate_message =
  rm_u2us :: int
  rm_cents :: int
  rm_expiration :: "js_seconds option option"

record exchange_rate =
  er_u2us :: int
  er_cents :: int
  er_expiration :: int

definition rate_inCents :: "exchange_rate \<Rightarrow> rat option" where
  "rate_inCents r = (if er_u2us r = 0 then None else Some (of_int (er_cents r) / of_int (er_u2us r)))"

definition rate_fromProtobuf :: "rate_message \<Rightarrow> exchange_rate" where
  "rate_fromProtobuf m =
     \<lparr>er_u2us = rm_u2us m, er_cents = rm_cents m,
      er_expiration =
        (case rm_expiration m of
           Some (Some (SecondsLong n)) \<Rightarrow> long_toInt n * 1000
         | Some (Some (SecondsNumber k)) \<Rightarrow> k
         | _ \<Rightarrow> 0)\<rparr>"

text \<open>\<open>Math.trunc\<close> rounds to zero, as the division of signed words does.\<close>

definition rate_toProtobuf :: "exchange_rate \<Rightarrow> rate_message" where
  "rate_toProtobuf r =
     \<lparr>rm_u2us = er_u2us r, rm_cents = er_cents r,
      rm_expiration = Some (Some (SecondsLong (word_of_int (er_expiration r sdiv 1000))))\<rparr>"

record rate_set =
  rs_current :: "rate_message option"
  rs_next :: "rate_message option"

record exchange_rates =
  xr_current :: exchange_rate
  xr_next :: exchange_rate

definition rates_fromProtobuf :: "rate_set \<Rightarrow> exchange_rates js" where
  "rates_fromProtobuf s =
     (case rs_current s of
        None \<Rightarrow> Inl TypeErr
      | Some c \<Rightarrow>
          (case rs_next s of
             None \<Rightarrow> Inl TypeErr
           | Some n \<Rightarrow> Inr \<lparr>xr_current = rate_fromProtobuf c, xr_next = rate_fromProtobuf n\<rparr>))"

definition rates_toProtobuf :: "exchange_rates \<Rightarrow> rate_set" where
  "rates_toProtobuf r =
     \<lparr>rs_current = Some (rate_toProtobuf (xr_current r)), rs_next = Some (rate_toProtobuf (xr_next r))\<rparr>"

definition rates_fromBytes :: "(bytes \<Rightarrow> rate_set js) \<Rightarrow> bytes \<Rightarrow> exchange_rates js" where
  "rates_fromBytes decode bs = js_bind (decode bs) rates_fromProtobuf"

text \<open>Whole seconds that fit in 32 bits.\<close>

definition rate_plain :: "exchange_rate \<Rightarrow> bool" where
  "rate_plain r \<longleftrightarrow> 1000 dvd er_expiration r \<and>
     - (2 ^ 31) \<le> er_expiration r div 1000 \<and> er_expiration r div 1000 < 2 ^ 31"

lemma long_toInt_of_int: "- (2 ^ 31) \<le> k \<Longrightarrow> k < 2 ^ 31 \<Longrightarrow> long_toInt (word_of_int k) = k"
proof -
  assume k: "- (2 ^ 31) \<le> k" "k < 2 ^ 31"
  then have "sint (word_of_int k :: long) = k"
    by (simp add: signed_of_int signed_take_bit_int_eq_self)
  then show ?thesis using k by (simp add: long_toInt_fits [THEN iffD2])
qed

lemma rate_back:
  assumes "rate_plain r"
  shows "rate_fromProtobuf (rate_toProtobuf r) = r"
proof -
  obtain k where k: "er_expiration r = 1000 * k" using assms by (auto simp: rate_plain_def elim: dvdE)
  then have d: "er_expiration r sdiv 1000 = k"
    by (simp add: signed_divide_int_def sgn_mult abs_mult div_mult_self1_is_m)
       (metis abs_sgn mult.commute sgn_mult_abs)
  moreover have "long_toInt (word_of_int k) = k"
    using assms k by (intro long_toInt_of_int) (simp_all add: rate_plain_def)
  ultimately show ?thesis using k by (simp add: rate_fromProtobuf_def rate_toProtobuf_def)
qed

subsection \<open>Receipts\<close>

record 'k receipt_data =
  rc_status :: nat
  rc_accountId :: "'k account_id option"
  rc_fileId :: "file_id option"
  rc_contractId :: "contract_id option"
  rc_topicId :: "topic_id option"
  rc_tokenId :: "token_id option"
  rc_scheduleId :: "schedule_id option"
  rc_exchangeRate :: "exchange_rate option"
  rc_topicSequenceNumber :: "long option"
  rc_topicRunningHash :: "bytes option"
  rc_totalSupply :: "long option"
  rc_scheduledTransactionId :: "'k tx_id option"
  rc_serials :: "long list"

datatype 'k receipt =
  Receipt (rc_data: "'k receipt_data") (rc_duplicates: "'k receipt list") (rc_children: "'k receipt list")

record receipt_message =
  re_status :: "nat option"
  re_accountID :: "account_message option"
  re_fileID :: "id_message option"
  re_contractID :: "contract_message option"
  re_topicID :: "id_message option"
  re_tokenID :: "id_message option"
  re_scheduleID :: "id_message option"
  re_exchangeRate :: "rate_set option"
  re_topicSequenceNumber :: "long option"
  re_topicRunningHash :: "bytes option"
  re_newTotalSupply :: "long option"
  re_scheduledTransactionID :: "txid_message option"
  re_serialNumbers :: "long list option"

record receipt_response =
  rr_receipt :: "receipt_message option"
  rr_duplicates :: "receipt_message list option"
  rr_children :: "receipt_message list option"

definition receipt_toMessage :: "('k \<Rightarrow> bytes) \<Rightarrow> 'k receipt_data \<Rightarrow> receipt_message" where
  "receipt_toMessage key_encode d =
     \<lparr>re_status = Some (rc_status d),
      re_accountID = map_option (account_toProtobuf key_encode) (rc_accountId d),
      re_fileID = map_option file_toProtobuf (rc_fileId d),
      re_contractID = map_option contract_toProtobuf (rc_contractId d),
      re_topicID = map_option topic_toProtobuf (rc_topicId d),
      re_tokenID = map_option token_toProtobuf (rc_tokenId d),
      re_scheduleID = map_option schedule_toProtobuf (rc_scheduleId d),
      re_exchangeRate = Some \<lparr>rs_current = map_option rate_toProtobuf (rc_exchangeRate d), rs_next = None\<rparr>,
      re_topicSequenceNumber = rc_topicSequenceNumber d,
      re_topicRunningHash = rc_topicRunningHash d,
      re_newTotalSupply = rc_totalSupply d,
      re_scheduledTransactionID = map_option (txid_toProtobuf key_encode) (rc_scheduledTransactionId d),
      re_serialNumbers = Some (rc_serials d)\<rparr>"

text \<open>Of a duplicate or a child only its own message is kept.\<close>

definition receipt_toProtobuf :: "('k \<Rightarrow> bytes) \<Rightarrow> 'k receipt \<Rightarrow> receipt_response" where
  "receipt_toProtobuf key_encode r =
     \<lparr>rr_receipt = Some (receipt_toMessage key_encode (rc_data r)),
      rr_duplicates = Some (map (\<lambda>x. receipt_toMessage key_encode (rc_data x)) (rc_duplicates r)),
      rr_children = Some (map (\<lambda>x. receipt_toMessage key_encode (rc_data x)) (rc_children r))\<rparr>"

text \<open>\<open>x != null ? f(x) : null\<close> for an \<open>f\<close> that can throw.\<close>

definition js_opt :: "('a \<Rightarrow> 'b js) \<Rightarrow> 'a option \<Rightarrow> 'b option js" where
  "js_opt f x = (case x of None \<Rightarrow> Inr None | Some a \<Rightarrow> js_bind (f a) (\<lambda>b. Inr (Some b)))"

record 'k receipt_codec =
  rk_print :: "long \<Rightarrow> string"
  rk_parse :: "string \<Rightarrow> long js"
  rk_key :: "bytes \<Rightarrow> 'k option js"

definition receipt_fromMessage :: "'k receipt_codec \<Rightarrow> receipt_message \<Rightarrow> 'k receipt_data js" where
  "receipt_fromMessage rk m =
     js_bind (status_fromCode (case re_status m of None \<Rightarrow> 0 | Some c \<Rightarrow> c)) (\<lambda>status.
     js_bind (js_opt (account_fromProtobuf (rk_key rk)) (re_accountID m)) (\<lambda>account.
     js_bind (js_opt (file_fromProtobuf (rk_print rk) (rk_parse rk)) (re_fileID m)) (\<lambda>file_i.
     js_bind (js_opt contract_fromProtobuf (re_contractID m)) (\<lambda>contract.
     js_bind (js_opt topic_fromProtobuf (re_topicID m)) (\<lambda>topic.
     js_bind (js_opt token_fromProtobuf (re_tokenID m)) (\<lambda>token.
     js_bind (js_opt schedule_fromProtobuf (re_scheduleID m)) (\<lambda>schedule.
     js_bind (js_opt (\<lambda>s. case rs_current s of
                None \<Rightarrow> Inl TypeErr | Some r \<Rightarrow> Inr (rate_fromProtobuf r)) (re_exchangeRate m)) (\<lambda>rate.
     js_bind (js_opt (\<lambda>n. rk_parse rk (rk_print rk n)) (re_topicSequenceNumber m)) (\<lambda>seq.
     js_bind (js_opt (\<lambda>n. rk_parse rk (rk_print rk n)) (re_newTotalSupply m)) (\<lambda>supply.
     js_bind (js_opt (txid_fromProtobuf (rk_key rk)) (re_scheduledTransactionID m)) (\<lambda>scheduled.
       Inr \<lparr>rc_status = status, rc_accountId = account, rc_fileId = file_i, rc_contractId = contract,
            rc_topicId = topic, rc_tokenId = token, rc_scheduleId = schedule, rc_exchangeRate = rate,
            rc_topicSequenceNumber = seq, rc_topicRunningHash = re_topicRunningHash m,
            rc_totalSupply = supply, rc_scheduledTransactionId = scheduled,
            rc_serials = (case re_serialNumbers m of None \<Rightarrow> [] | Some ns \<Rightarrow> ns)\<rparr>)))))))))))"

text \<open>Children and duplicates are read as responses with nothing but their receipt.\<close>

definition receipt_fromProtobuf :: "'k receipt_codec \<Rightarrow> 'a receipt_response_scheme \<Rightarrow> 'k receipt js" where
  "receipt_fromProtobuf rk m =
     (case rr_receipt m of
        None \<Rightarrow> Inl TypeErr
      | Some r \<Rightarrow>
          js_bind (js_map (receipt_fromMessage rk) (case rr_children m of None \<Rightarrow> [] | Some cs \<Rightarrow> cs)) (\<lambda>children.
          js_bind (js_map (receipt_fromMessage rk) (case rr_duplicates m of None \<Rightarrow> [] | Some ds \<Rightarrow> ds)) (\<lambda>duplicates.
          js_bind (receipt_fromMessage rk r) (\<lambda>d.
            Inr (Receipt d (map (\<lambda>x. Receipt x [] []) duplicates) (map (\<lambda>x. Receipt x [] []) children))))))"

definition receipt_fromBytes :: "(bytes \<Rightarrow> receipt_response js) \<Rightarrow> 'k receipt_codec \<Rightarrow> bytes \<Rightarrow> 'k receipt js" where
  "receipt_fromBytes decode rk bs = js_bind (decode bs) (receipt_fromProtobuf rk)"

definition receipt_toBytes :: "(receipt_response \<Rightarrow> bytes) \<Rightarrow> ('k \<Rightarrow> bytes) \<Rightarrow> 'k receipt \<Rightarrow> bytes" where
  "receipt_toBytes encode key_encode r = encode (receipt_toProtobuf key_encode r)"

subsection \<open>Receipts come back\<close>

text \<open>The receipts of the network: no checksums, no negative numbers, times in 32 bits.\<close>

definition account_plain :: "'k account_id \<Rightarrow> bool" where
  "account_plain a \<longleftrightarrow> id_valid (account_triple a) \<and> ac_aliasKey a = None \<and> ac_checksum a = None \<and>
     (\<forall>e. ac_evmAddress a = Some e \<longrightarrow> length e = 20)"

definition txid_plain :: "'k tx_id \<Rightarrow> bool" where
  "txid_plain i \<longleftrightarrow>
     (case (ti_accountId i, ti_validStart i) of
        (Some a, Some t) \<Rightarrow> account_plain a \<and>
          (\<forall>x \<in> {ts_seconds t, ts_nanos t} \<union> set_option (ti_nonce i). - (2 ^ 31) \<le> sint x \<and> sint x < 2 ^ 31) \<and>
          ti_nonce i \<noteq> Some 0
      | _ \<Rightarrow> False)"

definition data_plain :: "'k receipt_data \<Rightarrow> bool" where
  "data_plain d \<longleftrightarrow>
     rc_status d \<in> set status_codes \<and>
     pred_option account_plain (rc_accountId d) \<and>
     pred_option (\<lambda>i. id_valid (fl_ids i) \<and> fl_checksum i = None) (rc_fileId d) \<and>
     pred_option (\<lambda>i. id_valid (cn_ids i) \<and> cn_evmAddress i = None \<and> cn_checksum i = None) (rc_contractId d) \<and>
     pred_option (\<lambda>i. id_valid (tp_ids i) \<and> tp_checksum i = None) (rc_topicId d) \<and>
     pred_option (\<lambda>i. id_valid (tk_ids i) \<and> tk_checksum i = None) (rc_tokenId d) \<and>
     pred_option (\<lambda>i. id_valid (sc_ids i) \<and> sc_checksum i = None) (rc_scheduleId d) \<and>
     pred_option rate_plain (rc_exchangeRate d) \<and>
     pred_option (\<lambda>n. 0 \<le> sint n) (rc_topicSequenceNumber d) \<and>
     pred_option (\<lambda>n. 0 \<le> sint n) (rc_totalSupply d) \<and>
     pred_option txid_plain (rc_scheduledTransactionId d)"

lemma js_opt_back: "pred_option P x \<Longrightarrow> (\<And>a. P a \<Longrightarrow> f (g a) = Inr a) \<Longrightarrow> js_opt f (map_option g x) = Inr x"
  by (cases x) (simp_all add: js_opt_def)

lemma js_opt_same: "pred_option P x \<Longrightarrow> (\<And>a. P a \<Longrightarrow> f a = Inr a) \<Longrightarrow> js_opt f x = Inr x"
  by (cases x) (simp_all add: js_opt_def)

lemma file_back:
  assumes "long_text print parse" "id_valid (fl_ids i)" "fl_checksum i = None"
  shows "file_fromProtobuf print parse (file_toProtobuf i) = Inr i"
  using files.message_made [OF assms(1,2), of None] assms(3) by (cases i) simp

lemma plain_account_back:
  "account_plain a \<Longrightarrow> account_fromProtobuf kd (account_toProtobuf ke a) = Inr a"
  using account_back [of a kd ke] by (cases a) (auto simp: account_plain_def account_sent_def)

lemma txid_back:
  assumes "txid_plain i"
  shows "txid_fromProtobuf kd (txid_toProtobuf ke i) = Inr i"
proof -
  obtain a t sch nonce where i: "i = \<lparr>ti_accountId = Some a, ti_validStart = Some t, ti_scheduled = sch, ti_nonce = nonce\<rparr>"
    using assms by (cases i) (auto simp: txid_plain_def split: option.splits)
  have fits: "long_toInt x = sint x" if "x \<in> {ts_seconds t, ts_nanos t} \<union> set_option nonce" for x
    using assms that unfolding long_toInt_fits txid_plain_def i by auto
  have "account_fromProtobuf kd (account_toProtobuf ke a) = Inr a"
    using assms by (intro plain_account_back) (simp add: txid_plain_def i)
  then show ?thesis using fits assms
    by (cases nonce) (auto simp: i txid_plain_def txid_fromProtobuf_def txid_toProtobuf_def
        ts_fromProtobuf_def ts_toProtobuf_def txid_new_def txid_setNonce_def)
qed

lemma message_back:
  assumes "long_text (rk_print rk) (rk_parse rk)" "data_plain d"
  shows "receipt_fromMessage rk (receipt_toMessage ke d) =
    (if rc_exchangeRate d = None then Inl TypeErr else Inr d)"
proof -
  note p = assms(2) [unfolded data_plain_def]
  have status: "status_fromCode (rc_status d) = Inr (rc_status d)"
    using p by (simp add: status_fromCode_def)
  have account: "js_opt (account_fromProtobuf (rk_key rk)) (map_option (account_toProtobuf ke) (rc_accountId d)) =
      Inr (rc_accountId d)"
    using p by (intro js_opt_back [of account_plain] plain_account_back) simp_all
  have files: "js_opt (file_fromProtobuf (rk_print rk) (rk_parse rk)) (map_option file_toProtobuf (rc_fileId d)) =
      Inr (rc_fileId d)"
    using p file_back [OF assms(1)]
    by (intro js_opt_back [of "\<lambda>i. id_valid (fl_ids i) \<and> fl_checksum i = None"]) simp_all
  have contract: "js_opt contract_fromProtobuf (map_option contract_toProtobuf (rc_contractId d)) =
      Inr (rc_contractId d)"
    using p by (intro js_opt_back [of "\<lambda>i. id_valid (cn_ids i) \<and> cn_evmAddress i = None \<and> cn_checksum i = None"])
      (auto simp: contract_fromProtobuf_def contract_toProtobuf_def contract_new_def split: prod.split)
  have topics: "js_opt topic_fromProtobuf (map_option topic_toProtobuf (rc_topicId d)) = Inr (rc_topicId d)"
    using p by (intro js_opt_back [of "\<lambda>i. id_valid (tp_ids i) \<and> tp_checksum i = None"])
      (auto simp: topic_fromProtobuf_def topic_toProtobuf_def topic_new_def id_toMessage_def split: prod.split)
  have tokens: "js_opt token_fromProtobuf (map_option token_toProtobuf (rc_tokenId d)) = Inr (rc_tokenId d)"
    using p by (intro js_opt_back [of "\<lambda>i. id_valid (tk_ids i) \<and> tk_checksum i = None"])
      (auto simp: token_fromProtobuf_def token_toProtobuf_def token_new_def id_toMessage_def split: prod.split)
  have schedules: "js_opt schedule_fromProtobuf (map_option schedule_toProtobuf (rc_scheduleId d)) =
      Inr (rc_scheduleId d)"
    using p by (intro js_opt_back [of "\<lambda>i. id_valid (sc_ids i) \<and> sc_checksum i = None"])
      (auto simp: schedule_fromProtobuf_def schedule_toProtobuf_def schedule_new_def id_toMessage_def split: prod.split)
  have longs: "js_opt (\<lambda>n. rk_parse rk (rk_print rk n)) (rc_topicSequenceNumber d) = Inr (rc_topicSequenceNumber d)"
    "js_opt (\<lambda>n. rk_parse rk (rk_print rk n)) (rc_totalSupply d) = Inr (rc_totalSupply d)"
    using p long_print_parse(1) [OF assms(1)] by (auto intro!: js_opt_same [of "\<lambda>n. 0 \<le> sint n"])
  have scheduled: "js_opt (txid_fromProtobuf (rk_key rk)) (map_option (txid_toProtobuf ke) (rc_scheduledTransactionId d)) =
      Inr (rc_scheduledTransactionId d)"
    using p by (intro js_opt_back [of txid_plain] txid_back) simp_all
  note fields = status account files contract topics tokens schedules longs scheduled
  show ?thesis
  proof (cases "rc_exchangeRate d")
    case None
    then show ?thesis
      by (simp add: receipt_fromMessage_def receipt_toMessage_def fields js_opt_def [of _ "Some _"])
  next
    case (Some r)
    then have "rate_fromProtobuf (rate_toProtobuf r) = r" using p by (intro rate_back) simp
    then have "receipt_fromMessage rk (receipt_toMessage ke d) =
        Inr \<lparr>rc_status = rc_status d, rc_accountId = rc_accountId d, rc_fileId = rc_fileId d,
             rc_contractId = rc_contractId d, rc_topicId = rc_topicId d, rc_tokenId = rc_tokenId d,
             rc_scheduleId = rc_scheduleId d, rc_exchangeRate = Some r,
             rc_topicSequenceNumber = rc_topicSequenceNumber d, rc_topicRunningHash = rc_topicRunningHash d,
             rc_totalSupply = rc_totalSupply d, rc_scheduledTransactionId = rc_scheduledTransactionId d,
             rc_serials = rc_serials d\<rparr>"
      using Some by (simp add: receipt_fromMessage_def receipt_toMessage_def fields js_opt_def [of _ "Some _"])
    also have "\<dots> = Inr d" using Some by (cases d) simp
    finally show ?thesis using Some by simp
  qed
qed

text \<open>
  C37. A receipt with an exchange rate survives its message, with one level of duplicates and
  children; their own duplicates and children are dropped.  A receipt without an exchange
  rate does not: its message carries an empty set of rates, and reading it throws.  The same
  goes for a duplicate or child without a rate.
\<close>

theorem receipts_round_trip:
  assumes "long_text (rk_print rk) (rk_parse rk)"
    and "\<forall>d \<in> {rc_data r} \<union> rc_data ` set (rc_duplicates r) \<union> rc_data ` set (rc_children r). data_plain d"
  shows "receipt_fromProtobuf rk (receipt_toProtobuf ke r) =
    (if \<forall>d \<in> {rc_data r} \<union> rc_data ` set (rc_duplicates r) \<union> rc_data ` set (rc_children r). rc_exchangeRate d \<noteq> None
     then Inr (Receipt (rc_data r) (map (\<lambda>x. Receipt (rc_data x) [] []) (rc_duplicates r))
                (map (\<lambda>x. Receipt (rc_data x) [] []) (rc_children r)))
     else Inl TypeErr)"
proof -
  have many: "js_map (receipt_fromMessage rk) (map (\<lambda>x. receipt_toMessage ke (rc_data x)) xs) =
      (if \<forall>x \<in> set xs. rc_exchangeRate (rc_data x) \<noteq> None then Inr (map rc_data xs) else Inl TypeErr)"
    if "\<forall>x \<in> set xs. data_plain (rc_data x)" for xs :: "'a receipt list"
    using that message_back [OF assms(1), of _ ke] by (induction xs) auto
  have "receipt_fromMessage rk (receipt_toMessage ke (rc_data r)) =
      (if rc_exchangeRate (rc_data r) = None then Inl TypeErr else Inr (rc_data r))"
    using assms(2) by (intro message_back [OF assms(1)]) simp
  then show ?thesis
    using many [of "rc_duplicates r"] many [of "rc_children r"] assms(2)
    by (auto simp: receipt_fromProtobuf_def receipt_toProtobuf_def comp_def)
qed

definition plain_receipt :: "exchange_rate option \<Rightarrow> unit receipt" where
  "plain_receipt rate = Receipt
     \<lparr>rc_status = 22, rc_accountId = Some (plain_account (0, 0, 7)), rc_fileId = None, rc_contractId = None,
      rc_topicId = None, rc_tokenId = None, rc_scheduleId = None, rc_exchangeRate = rate,
      rc_topicSequenceNumber = Some 9, rc_topicRunningHash = None, rc_totalSupply = None,
      rc_scheduledTransactionId = None, rc_serials = [1, 2]\<rparr> [] []"

definition std_codec :: "unit receipt_codec" where
  "std_codec = \<lparr>rk_print = std_print, rk_parse = std_parse, rk_key = (\<lambda>_. Inr None)\<rparr>"

theorem receipts_round_trip_witness:
  "receipt_fromProtobuf std_codec (receipt_toProtobuf (\<lambda>_. []) (plain_receipt None)) = Inl TypeErr \<and>
   (let r = plain_receipt (Some \<lparr>er_u2us = 1, er_cents = 12, er_expiration = 1700000000000\<rparr>)
    in receipt_fromProtobuf std_codec (receipt_toProtobuf (\<lambda>_. []) r) = Inr r)"
proof -
  have std: "long_text (rk_print std_codec) (rk_parse std_codec)"
    using std_long_text by (simp add: std_codec_def)
  have plain: "\<forall>d \<in> {rc_data (plain_receipt rate)} \<union> rc_data ` set (rc_duplicates (plain_receipt rate)) \<union>
      rc_data ` set (rc_children (plain_receipt rate)). data_plain d" if "pred_option rate_plain rate" for rate
    using that by (simp add: plain_receipt_def data_plain_def account_plain_def plain_account_def
        account_triple_def id_valid_def status_codes_def)
  show ?thesis
    using receipts_round_trip [OF std plain [of None], of "\<lambda>_. []"]
      receipts_round_trip [OF std plain, of "Some \<lparr>er_u2us = 1, er_cents = 12, er_expiration = 1700000000000\<rparr>" "\<lambda>_. []"]
    by (simp add: plain_receipt_def rate_plain_def Let_def)
qed

end
