(* ===== verification/ReceiptQuery.thy ===== *)
theory ReceiptQuery
  imports Query Receipts
begin

text \<open>
  Asking for the outcome of a transaction: \<open>transaction/TransactionReceiptQuery.js\<close>,
  \<open>transaction/TransactionRecordQuery.js\<close> and \<open>transaction/TransactionResponse.js\<close>.  The record
  itself is a type parameter with the receipt it holds and its reading as arguments; the
  check of the account of a transaction id is the argument \<open>validate\<close>.
\<close>

abbreviation "status_ReceiptNotFound \<equiv> 18 :: nat"
abbreviation "status_RecordNotFound \<equiv> 19 :: nat"
abbreviation "status_Success \<equiv> 22 :: nat"
abbreviation "status_ContractRevertExecuted \<equiv> 33 :: nat"

subsection \<open>Replies\<close>

record reply_header =
  rh_code :: "nat option"
  rh_type :: "response_type option"
  rh_cost :: "long option"

record receipt_reply = receipt_response +
  ry_header :: "reply_header option"

record transaction_request =
  tg_header :: "query_header option"
  tg_transactionID :: "txid option"
  tg_includeDuplicates :: "bool option"
  tg_includeChildren :: "bool option"

definition reply_field :: "('a \<Rightarrow> 'b option) \<Rightarrow> 'a option \<Rightarrow> 'b js" where
  "reply_field f s =
     (case s of None \<Rightarrow> Inl TypeErr | Some y \<Rightarrow> (case f y of None \<Rightarrow> Inl TypeErr | Some h \<Rightarrow> Inr h))"

definition receipt_status :: "receipt_message \<Rightarrow> nat js" where
  "receipt_status r =
     (case re_status r of None \<Rightarrow> Inl (LibraryError ''status'') | Some c \<Rightarrow> status_fromCode c)"

subsection \<open>The receipt query\<close>

record receipt_query = query +
  rq_transactionId :: "txid option"
  rq_includeChildren :: "bool option"
  rq_includeDuplicates :: "bool option"
  rq_validateStatus :: bool

type_synonym 'm receipt_more = "'m receipt_query_ext"

definition rq_new :: "(nat \<Rightarrow> timestamp) \<Rightarrow> receipt_query" where
  "rq_new starts = query.extend (qu_new starts) (receipt_query.fields None None None True)"

definition rq_setTransactionId :: "txid \<Rightarrow> 'm receipt_query_scheme \<Rightarrow> 'm receipt_query_scheme" where
  "rq_setTransactionId i q = q\<lparr>rq_transactionId := Some i\<rparr>"

definition rq_setIncludeDuplicates :: "bool \<Rightarrow> 'm receipt_query_scheme \<Rightarrow> 'm receipt_query_scheme" where
  "rq_setIncludeDuplicates b q = q\<lparr>rq_includeDuplicates := Some b\<rparr>"

definition rq_getIncludeDuplicates :: "'m receipt_query_scheme \<Rightarrow> bool" where
  "rq_getIncludeDuplicates q = (case rq_includeDuplicates q of Some b \<Rightarrow> b | None \<Rightarrow> False)"

definition rq_setIncludeChildren :: "bool \<Rightarrow> 'm receipt_query_scheme \<Rightarrow> 'm receipt_query_scheme" where
  "rq_setIncludeChildren b q = q\<lparr>rq_includeChildren := Some b\<rparr>"

definition rq_getIncludeChildren :: "'m receipt_query_scheme \<Rightarrow> bool" where
  "rq_getIncludeChildren q = (case rq_includeChildren q of Some b \<Rightarrow> b | None \<Rightarrow> False)"

definition rq_setValidateStatus :: "bool \<Rightarrow> 'm receipt_query_scheme \<Rightarrow> 'm receipt_query_scheme" where
  "rq_setValidateStatus b q = q\<lparr>rq_validateStatus := b\<rparr>"

definition rq_fromProtobuf :: "(nat \<Rightarrow> timestamp) \<Rightarrow> transaction_request \<Rightarrow> receipt_query" where
  "rq_fromProtobuf starts m =
     (let q = rq_new starts;
          q = (case tg_transactionID m of None \<Rightarrow> q | Some i \<Rightarrow> rq_setTransactionId i q);
          q = (case tg_includeChildren m of None \<Rightarrow> q | Some b \<Rightarrow> rq_setIncludeChildren b q)
      in (case tg_includeDuplicates m of None \<Rightarrow> q | Some b \<Rightarrow> rq_setIncludeDuplicates b q))"

definition rq_shouldRetry :: "bool \<Rightarrow> receipt_reply option \<Rightarrow> exec_state js" where
  "rq_shouldRetry validates s =
     js_bind (reply_field ry_header s) (\<lambda>h.
     js_bind (tx_status (rh_code h)) (\<lambda>status.
       if status = status_Busy \<or> status = status_Unknown \<or> status = status_ReceiptNotFound then Inr Retry
       else if status \<noteq> status_Ok then Inr Error
       else
         js_bind (reply_field rr_receipt s) (\<lambda>r.
         js_bind (receipt_status r) (\<lambda>status.
           if status = status_Busy \<or> status = status_Unknown \<or> status = status_ReceiptNotFound
           then Inr Retry
           else if status = status_Success then Inr Finished
           else Inr (if validates then Error else Finished)))))"

definition rq_getTransactionId :: "'m receipt_query_scheme \<Rightarrow> txid js" where
  "rq_getTransactionId q =
     (case rq_transactionId q of Some i \<Rightarrow> Inr i | None \<Rightarrow> qu_getTransactionId q)"

definition rq_mapStatusError ::
  "'k receipt_codec \<Rightarrow> 'm receipt_query_scheme \<Rightarrow> receipt_reply option \<Rightarrow> js_error" where
  "rq_mapStatusError rk q s =
     (case js_bind (reply_field ry_header s) (\<lambda>h.
           js_bind (tx_status (rh_code h)) (\<lambda>status.
             if status \<noteq> status_Ok
             then js_bind (rq_getTransactionId q) (\<lambda>_. Inr (PrecheckError status))
             else
               js_bind (reply_field rr_receipt s) (\<lambda>r.
               js_bind (receipt_status r) (\<lambda>status.
                 if rq_transactionId q = None then Inl TxIdMissing
                 else js_bind (receipt_fromProtobuf rk (the s)) (\<lambda>_. Inr (ReceiptError status))))))
      of Inl e \<Rightarrow> e | Inr e \<Rightarrow> e)"

definition rq_mapResponse :: "'k receipt_codec \<Rightarrow> receipt_reply option \<Rightarrow> 'k receipt js" where
  "rq_mapResponse rk s = (case s of None \<Rightarrow> Inl TypeErr | Some y \<Rightarrow> receipt_fromProtobuf rk y)"

definition rq_onMakeRequest ::
  "query_header option \<Rightarrow> 'm receipt_query_scheme \<Rightarrow> transaction_request" where
  "rq_onMakeRequest h q =
     \<lparr>tg_header = h, tg_transactionID = rq_transactionId q,
      tg_includeDuplicates = rq_includeDuplicates q, tg_includeChildren = rq_includeChildren q\<rparr>"

definition rq_validateChecksums :: "(string \<Rightarrow> unit js) \<Rightarrow> 'm receipt_query_scheme \<Rightarrow> unit js" where
  "rq_validateChecksums validate q =
     (case rq_transactionId q of None \<Rightarrow> Inr () | Some i \<Rightarrow> validate (td_account i))"

definition rq_class ::
  "(string \<Rightarrow> unit js) \<Rightarrow> 'k receipt_codec \<Rightarrow>
   ('m receipt_more, transaction_request, receipt_reply option, 'k receipt) query_class" where
  "rq_class validate rk =
     \<lparr>qc_required = (\<lambda>_. False), qc_checksums = rq_validateChecksums validate,
      qc_onMakeRequest = rq_onMakeRequest, qc_shouldRetry = (\<lambda>q s. rq_shouldRetry (rq_validateStatus q) s),
      qc_mapStatusError = rq_mapStatusError rk, qc_mapResponse = (\<lambda>_ s. rq_mapResponse rk s),
      qc_cost = (\<lambda>s. case reply_field ry_header s of Inl _ \<Rightarrow> None | Inr h \<Rightarrow> rh_cost h)\<rparr>"

subsection \<open>The record query\<close>

record record_query = query +
  dq_transactionId :: "txid option"
  dq_includeChildren :: "bool option"
  dq_includeDuplicates :: "bool option"
  dq_duplicates :: "bool option"
  dq_validateReceiptStatus :: bool

type_synonym 'm record_more = "'m record_query_ext"

record 'd record_reply =
  dy_header :: "reply_header option"
  dy_record :: "'d option"

definition dq_new :: "(nat \<Rightarrow> timestamp) \<Rightarrow> record_query" where
  "dq_new starts = query.extend (qu_new starts) (record_query.fields None None None None True)"

definition dq_setTransactionId :: "txid \<Rightarrow> 'm record_query_scheme \<Rightarrow> 'm record_query_scheme" where
  "dq_setTransactionId i q = q\<lparr>dq_transactionId := Some i\<rparr>"

definition dq_setIncludeChildren :: "bool \<Rightarrow> 'm record_query_scheme \<Rightarrow> 'm record_query_scheme" where
  "dq_setIncludeChildren b q = q\<lparr>dq_includeChildren := Some b\<rparr>"

definition dq_getIncludeChildren :: "'m record_query_scheme \<Rightarrow> bool" where
  "dq_getIncludeChildren q = (case dq_includeChildren q of Some b \<Rightarrow> b | None \<Rightarrow> False)"

text \<open>The setter and the getter use a field of their own.\<close>

definition dq_setIncludeDuplicates :: "bool \<Rightarrow> 'm record_query_scheme \<Rightarrow> 'm record_query_scheme" where
  "dq_setIncludeDuplicates b q = q\<lparr>dq_duplicates := Some b\<rparr>"

definition dq_getIncludeDuplicates :: "'m record_query_scheme \<Rightarrow> bool" where
  "dq_getIncludeDuplicates q = (case dq_duplicates q of Some b \<Rightarrow> b | None \<Rightarrow> False)"

definition dq_setValidateReceiptStatus :: "bool \<Rightarrow> 'm record_query_scheme \<Rightarrow> 'm record_query_scheme" where
  "dq_setValidateReceiptStatus b q = q\<lparr>dq_validateReceiptStatus := b\<rparr>"

definition dq_fromProtobuf :: "(nat \<Rightarrow> timestamp) \<Rightarrow> transaction_request \<Rightarrow> record_query" where
  "dq_fromProtobuf starts m =
     (let q = dq_new starts;
          q = (case tg_transactionID m of None \<Rightarrow> q | Some i \<Rightarrow> dq_setTransactionId i q);
          q = (case tg_includeChildren m of None \<Rightarrow> q | Some b \<Rightarrow> dq_setIncludeChildren b q)
      in (case tg_includeDuplicates m of None \<Rightarrow> q | Some b \<Rightarrow> dq_setIncludeDuplicates b q))"

definition dq_shouldRetry ::
  "('d \<Rightarrow> receipt_message option) \<Rightarrow> bool \<Rightarrow> 'd record_reply option \<Rightarrow> exec_state js" where
  "dq_shouldRetry receipt_of validates s =
     js_bind (reply_field dy_header s) (\<lambda>h.
     js_bind (tx_status (rh_code h)) (\<lambda>status.
       if status = status_Busy \<or> status = status_Unknown \<or> status = status_ReceiptNotFound \<or>
          status = status_RecordNotFound then Inr Retry
       else if status \<noteq> status_Ok then Inr Error
       else if rh_type h = Some CostAnswer then Inr Finished
       else
         js_bind (reply_field dy_record s) (\<lambda>d.
         js_bind (reply_field receipt_of (Some d)) (\<lambda>r.
         js_bind (receipt_status r) (\<lambda>status.
           if status = status_Ok \<or> status = status_Busy \<or> status = status_Unknown \<or>
              status = status_ReceiptNotFound \<or> status = status_RecordNotFound
           then Inr Retry
           else if status = status_Success then Inr Finished
           else Inr (if validates then Error else Finished))))))"

definition dq_mapStatusError ::
  "('d \<Rightarrow> receipt_message option) \<Rightarrow> 'k receipt_codec \<Rightarrow> ('d option \<Rightarrow> 'o js) \<Rightarrow>
   'm record_query_scheme \<Rightarrow> 'd record_reply option \<Rightarrow> js_error" where
  "dq_mapStatusError receipt_of rk read_record q s =
     (case js_bind (reply_field dy_header s) (\<lambda>h.
           js_bind (tx_status (rh_code h)) (\<lambda>status.
             if status = status_ContractRevertExecuted
             then js_bind (qu_getTransactionId q) (\<lambda>_.
                  js_bind (read_record (dy_record (the s))) (\<lambda>_. Inr (StatusError status)))
             else if status \<noteq> status_Ok
             then js_bind (qu_getTransactionId q) (\<lambda>_. Inr (PrecheckError status))
             else
               js_bind (reply_field dy_record s) (\<lambda>d.
               js_bind (reply_field receipt_of (Some d)) (\<lambda>r.
               js_bind (receipt_status r) (\<lambda>status.
                 if status = status_ContractRevertExecuted
                 then js_bind (qu_getTransactionId q) (\<lambda>_.
                      js_bind (read_record (dy_record (the s))) (\<lambda>_. Inr (StatusError status)))
                 else js_bind (qu_getTransactionId q) (\<lambda>_.
                      js_bind (receipt_fromProtobuf rk \<lparr>rr_receipt = Some r, rr_duplicates = None, rr_children = None\<rparr>)
                        (\<lambda>_. Inr (ReceiptError status))))))))
      of Inl e \<Rightarrow> e | Inr e \<Rightarrow> e)"

definition dq_onMakeRequest :: "query_header option \<Rightarrow> 'm record_query_scheme \<Rightarrow> transaction_request" where
  "dq_onMakeRequest h q =
     \<lparr>tg_header = h, tg_transactionID = dq_transactionId q,
      tg_includeDuplicates = dq_includeDuplicates q, tg_includeChildren = dq_includeChildren q\<rparr>"

definition dq_validateChecksums :: "(string \<Rightarrow> unit js) \<Rightarrow> 'm record_query_scheme \<Rightarrow> unit js" where
  "dq_validateChecksums validate q =
     (case dq_transactionId q of None \<Rightarrow> Inr () | Some i \<Rightarrow> validate (td_account i))"

definition dq_class ::
  "(string \<Rightarrow> unit js) \<Rightarrow> ('d \<Rightarrow> receipt_message option) \<Rightarrow> 'k receipt_codec \<Rightarrow> ('d option \<Rightarrow> 'o js) \<Rightarrow>
   ('m record_more, transaction_request, 'd record_reply option, 'o) query_class" where
  "dq_class validate receipt_of rk read_record =
     \<lparr>qc_required = (\<lambda>_. True), qc_checksums = dq_validateChecksums validate,
      qc_onMakeRequest = dq_onMakeRequest,
      qc_shouldRetry = (\<lambda>q s. dq_shouldRetry receipt_of (dq_validateReceiptStatus q) s),
      qc_mapStatusError = dq_mapStatusError receipt_of rk read_record,
      qc_mapResponse = (\<lambda>_ s. case s of None \<Rightarrow> Inl TypeErr | Some y \<Rightarrow> read_record (dy_record y)),
      qc_cost = (\<lambda>s. case reply_field dy_header s of Inl _ \<Rightarrow> None | Inr h \<Rightarrow> rh_cost h)\<rparr>"

subsection \<open>The response to a transaction\<close>

text \<open>
  What runs a query: the payments, the choice of nodes, the channels and the two environments
  of its execution, the first for asking the cost.
\<close>

record ('ch, 's) runner =
  ru_pay :: pay_codec
  ru_pick :: "'ch client \<Rightarrow> string list js \<times> 'ch client"
  ru_init :: "string \<Rightarrow> string option \<Rightarrow> 'ch"
  ru_starts :: "nat \<Rightarrow> timestamp"
  ru_costStart :: rat
  ru_costEnv :: "nat \<Rightarrow> 's env"
  ru_start :: rat
  ru_env :: "nat \<Rightarrow> 's env"

definition run_query ::
  "('m, 'r, 's, 'o) query_class \<Rightarrow> ('ch, 's) runner \<Rightarrow> 'ch client \<Rightarrow> 'm query_scheme \<Rightarrow>
   'o js option \<times> 'm query_scheme \<times> 'ch client \<times> 'r event list" where
  "run_query qc ru c q =
     qu_execute qc (ru_pay ru) (ru_pick ru) (ru_init ru) None (ru_costStart ru) (ru_costEnv ru)
       (ru_start ru) (ru_env ru) c q"

text \<open>The node of a response is the one that accepted the transaction; it is always set.\<close>

definition resp_getReceiptQuery :: "(nat \<Rightarrow> timestamp) \<Rightarrow> tx_response \<Rightarrow> receipt_query js" where
  "resp_getReceiptQuery starts r =
     (case tr_nodeId r of
        None \<Rightarrow> Inl TypeErr
      | Some a \<Rightarrow> ex_setNodeAccountIds [a] (rq_setTransactionId (tr_transactionId r) (rq_new starts)))"

definition resp_getRecordQuery :: "(nat \<Rightarrow> timestamp) \<Rightarrow> tx_response \<Rightarrow> record_query js" where
  "resp_getRecordQuery starts r =
     (case tr_nodeId r of
        None \<Rightarrow> Inl TypeErr
      | Some a \<Rightarrow> ex_setNodeAccountIds [a] (dq_setTransactionId (tr_transactionId r) (dq_new starts)))"

definition resp_getReceipt ::
  "(string \<Rightarrow> unit js) \<Rightarrow> 'k receipt_codec \<Rightarrow> ('ch, receipt_reply option) runner \<Rightarrow> tx_response \<Rightarrow>
   'ch client \<Rightarrow> 'k receipt js option \<times> 'ch client \<times> transaction_request event list" where
  "resp_getReceipt validate rk ru r c =
     (case resp_getReceiptQuery (ru_starts ru) r of
        Inl e \<Rightarrow> (Some (Inl e), c, [])
      | Inr q \<Rightarrow>
          (case run_query (rq_class validate rk) ru c q of
             (res, q, c, evs) \<Rightarrow>
               (case res of
                  Some (Inr x) \<Rightarrow>
                    (if rc_status (rc_data x) \<noteq> status_Success
                     then Some (Inl (ReceiptError (rc_status (rc_data x)))) else Some (Inr x))
                | _ \<Rightarrow> res,
                c, evs)))"

definition resp_queryRecord ::
  "(string \<Rightarrow> unit js) \<Rightarrow> ('d \<Rightarrow> receipt_message option) \<Rightarrow> 'k receipt_codec \<Rightarrow> ('d option \<Rightarrow> 'o js) \<Rightarrow>
   ('ch, 'd record_reply option) runner \<Rightarrow> tx_response \<Rightarrow> 'ch client \<Rightarrow> 'o js option \<times> 'ch client" where
  "resp_queryRecord validate receipt_of rk read_record ru r c =
     (case resp_getRecordQuery (ru_starts ru) r of
        Inl e \<Rightarrow> (Some (Inl e), c)
      | Inr q \<Rightarrow>
          (case run_query (dq_class validate receipt_of rk read_record) ru c q of
             (res, q, c, evs) \<Rightarrow> (res, c)))"

definition resp_getRecord ::
  "(string \<Rightarrow> unit js) \<Rightarrow> ('d \<Rightarrow> receipt_message option) \<Rightarrow> 'k receipt_codec \<Rightarrow> ('d option \<Rightarrow> 'o js) \<Rightarrow>
   ('ch, receipt_reply option) runner \<Rightarrow> ('ch, 'd record_reply option) runner \<Rightarrow> tx_response \<Rightarrow>
   'ch client \<Rightarrow> 'o js option \<times> 'ch client" where
  "resp_getRecord validate receipt_of rk read_record ru ru2 r c =
     (case resp_getReceipt validate rk ru r c of
        (None, c, evs) \<Rightarrow> (None, c)
      | (Some (Inl e), c, evs) \<Rightarrow> (Some (Inl e), c)
      | (Some (Inr _), c, evs) \<Rightarrow> resp_queryRecord validate receipt_of rk read_record ru2 r c)"

text \<open>Whatever becomes of the receipt, the record is asked for next.\<close>

definition resp_getVerboseRecord ::
  "(string \<Rightarrow> unit js) \<Rightarrow> ('d \<Rightarrow> receipt_message option) \<Rightarrow> 'k receipt_codec \<Rightarrow> ('d option \<Rightarrow> 'o js) \<Rightarrow>
   ('ch, receipt_reply option) runner \<Rightarrow> ('ch, 'd record_reply option) runner \<Rightarrow> tx_response \<Rightarrow>
   'ch client \<Rightarrow> 'o js option \<times> 'ch client" where
  "resp_getVerboseRecord validate receipt_of rk read_record ru ru2 r c =
     (case resp_getReceiptQuery (ru_starts ru) r of
        Inl e \<Rightarrow> resp_queryRecord validate receipt_of rk read_record ru2 r c
      | Inr q \<Rightarrow>
          (case run_query (rq_class validate rk) ru c q of
             (None, q, c, evs) \<Rightarrow> (None, c)
           | (Some _, q, c, evs) \<Rightarrow> resp_queryRecord validate receipt_of rk read_record ru2 r c))"

subsection \<open>Receipt queries as addressed requests\<close>

definition rq_asks :: "txid option \<Rightarrow> bool option \<Rightarrow> bool option \<Rightarrow> 'm receipt_query_scheme \<Rightarrow> bool" where
  "rq_asks i dups kids q \<longleftrightarrow>
     rq_transactionId q = i \<and> rq_includeDuplicates q = dups \<and> rq_includeChildren q = kids"

definition rq_request :: "txid option \<Rightarrow> bool option \<Rightarrow> bool option \<Rightarrow> transaction_request" where
  "rq_request i dups kids =
     \<lparr>tg_header = Some \<lparr>qh_payment = None, qh_type = Some AnswerOnly\<rparr>, tg_transactionID = i,
      tg_includeDuplicates = dups, tg_includeChildren = kids\<rparr>"

lemma rq_class_simps [simp]:
  "qc_required (rq_class validate rk) p = False"
  "qc_checksums (rq_class validate rk) = rq_validateChecksums validate"
  "qc_onMakeRequest (rq_class validate rk) = rq_onMakeRequest"
  "qc_mapResponse (rq_class validate rk) p s = rq_mapResponse rk s"
  "qc_shouldRetry (rq_class validate rk) p s = rq_shouldRetry (rq_validateStatus p) s"
  by (simp_all add: rq_class_def)

interpretation rr: addressed_requests "qu_methods (rq_class validate rk) pc" "\<lambda>_. 0"
  "rq_asks i dups kids" "\<lambda>a r. r = rq_request i dups kids" for validate rk pc i dups kids
proof (intro addressed_requests.intro query_order addressed_requests_axioms.intro)
qed (auto simp: rq_asks_def rq_request_def qu_methods_def qu_makeRequest_def rq_onMakeRequest_def
    ex_advanceRequest_def)

text \<open>A query that is free is prepared without asking anybody.\<close>

lemma before_free:
  assumes "qu_beforeExecute (rq_class validate rk) pc pick init start env c q = (r1, c1, q1)"
    and "qu_paymentTransactions q = []" "rl_list (ex_nodeIds q) \<noteq> []"
  shows "c1 = c \<and> ((\<exists>e. r1 = Some (Inl e)) \<or>
    (r1 = Some (Inr ()) \<and> ex_nodeIds q1 = rl_setLocked (ex_nodeIds q) \<and>
     rq_transactionId q1 = rq_transactionId q \<and> rq_includeDuplicates q1 = rq_includeDuplicates q \<and>
     rq_includeChildren q1 = rq_includeChildren q))"
proof (cases "cl_autoValidateChecksums c \<and> (\<exists>e. rq_validateChecksums validate q = Inl e)")
  case True
  then show ?thesis using assms(1,2) by (auto simp: qu_beforeExecute_def)
next
  case False
  then have ok: "(if cl_autoValidateChecksums c then qc_checksums (rq_class validate rk) q else Inr ()) = Inr ()"
    by (cases "rq_validateChecksums validate q") auto
  have "\<not> rl_isEmpty (ex_nodeIds q)" using assms(3) by (simp add: rl_isEmpty_def rl_length_def)
  then have nodes: "qu_setNodes pick c q = (Inr (), c, q)" by (simp add: qu_setNodes_def)
  define q2 where "q2 = (if ex_operator q = None then q\<lparr>ex_operator := cl_operator c\<rparr> else q)"
  have q2: "ex_nodeIds q2 = ex_nodeIds q" "rq_transactionId q2 = rq_transactionId q"
    "rq_includeDuplicates q2 = rq_includeDuplicates q" "rq_includeChildren q2 = rq_includeChildren q"
    by (simp_all add: q2_def)
  have "\<exists>g i. qu_setPaymentId (rq_class validate rk) q2 =
      (Inr (), q2\<lparr>qu_generated := g, qu_paymentTransactionId := Some i\<rparr>)"
  proof (cases "qu_paymentTransactionId q2")
    case None
    then show ?thesis by (auto simp: qu_setPaymentId_def qu_generate_def)
  next
    case (Some i)
    then have "qu_setPaymentId (rq_class validate rk) q2 =
        (Inr (), q2\<lparr>qu_generated := qu_generated q2, qu_paymentTransactionId := Some i\<rparr>)"
      by (simp add: qu_setPaymentId_def)
    then show ?thesis by blast
  qed
  then obtain g i where pay: "qu_setPaymentId (rq_class validate rk) q2 =
      (Inr (), q2\<lparr>qu_generated := g, qu_paymentTransactionId := Some i\<rparr>)" by blast
  let ?q3 = "q2\<lparr>qu_generated := g, qu_paymentTransactionId := Some i\<rparr>"
  obtain v where cost: "qu_findPayment (rq_class validate rk) pc pick init start env c ?q3 = (Some (Inr v), c, ?q3)"
    by (cases "qu_queryPayment q2") (simp_all add: qu_findPayment_def)
  have run: "qu_beforeExecute (rq_class validate rk) pc pick init start env c q =
    (let q = ?q3\<lparr>qu_queryPayment := Some v, ex_nodeIds := rl_setLocked (ex_nodeIds q2)\<rparr>
     in (Some (Inr ()), c, q\<lparr>qu_paymentTransactions := qu_makePayments (rq_class validate rk) pc i v q\<rparr>))"
    using assms(2)
    unfolding qu_beforeExecute_def ok nodes Let_def q2_def [symmetric] sum.case prod.case pay cost option.case
    by simp
  note ends = assms(1) [unfolded run Let_def prod.inject]
  note res = ends [THEN conjunct1, symmetric] ends [THEN conjunct2, THEN conjunct1, symmetric]
    ends [THEN conjunct2, THEN conjunct2, symmetric]
  show ?thesis unfolding res q2 [symmetric] by (intro conjI disjI2 refl) simp_all
qed

lemma retry_any: "rq_shouldRetry v s = Inr Retry \<longleftrightarrow> rq_shouldRetry True s = Inr Retry"
proof -
  have bind: "(js_bind m f = Inr y) = (js_bind m g = Inr y)"
    if "\<And>x. (f x = Inr y) = (g x = Inr y)" for m :: "'a js" and f g and y :: 'b
    using that by (cases m) simp_all
  show ?thesis unfolding rq_shouldRetry_def by (intro bind) (auto intro!: bind split: if_splits)
qed

lemma run_free:
  fixes q :: "'m receipt_query_scheme" and rk :: "'k receipt_codec"
  assumes "run_query (rq_class validate rk) ru c q = (res, q', c', evs)"
    and "qu_paymentTransactions q = []" "rl_inv (ex_nodeIds q)" "rl_list (ex_nodeIds q) \<noteq> []"
    and "set (rl_list (ex_nodeIds q)) \<subseteq> set (map fst (nw_network (cl_network c)))"
    and "pool_inv (cl_network c)"
  shows "(\<forall>k n req. Sent k n req \<in> set evs \<longrightarrow>
      Some (nd_account (nw_node (cl_network c) n)) = rl_current (rl_steps (k - 1) (ex_nodeIds q)) \<and>
      req = rq_request (rq_transactionId q) (rq_includeDuplicates q) (rq_includeChildren q)) \<and>
    (\<forall>xs i n req ys. evs = xs @ Sent i n req # ys \<and> list_ex ev_sent ys \<longrightarrow>
      (\<exists>t f. at_outcome (ru_env ru i) = After t (Failure f) \<and> ex_shouldRetryExceptionally f) \<or>
      (\<exists>t s. at_outcome (ru_env ru i) = After t (Response s) \<and> rq_shouldRetry True s = Inr Retry)) \<and>
    (\<forall>x. res = Some (Inr x) \<longrightarrow>
      (\<exists>xs i n req t s. evs = xs @ [Sent i n req] \<and> at_outcome (ru_env ru i) = After t (Response s) \<and>
         (\<exists>v. rq_shouldRetry v s = Inr Finished) \<and> rq_mapResponse rk s = Inr x))"
proof -
  let ?m = "qu_methods (rq_class validate rk) (ru_pay ru) ::
    ('m receipt_query_scheme, transaction_request, receipt_reply option, 'k receipt) methods"
  define t where "t = (if ex_requestTimeout q = None then cl_requestTimeout c else ex_requestTimeout q)"
  let ?q = "q\<lparr>ex_requestTimeout := t\<rparr>"
  have t: "(if ex_requestTimeout q = None
      then q\<lparr>ex_requestTimeout := (case None of None \<Rightarrow> cl_requestTimeout c | Some t \<Rightarrow> Some t)\<rparr> else q) = ?q"
    by (simp add: t_def)
  obtain r1 c1 q1 where b: "qu_beforeExecute (rq_class validate rk) (ru_pay ru) (ru_pick ru) (ru_init ru)
      (ru_costStart ru) (ru_costEnv ru) c ?q = (r1, c1, q1)"
    by (metis prod_cases3)
  have free: "c1 = c" "(\<exists>e. r1 = Some (Inl e)) \<or>
    (r1 = Some (Inr ()) \<and> ex_nodeIds q1 = rl_setLocked (ex_nodeIds q) \<and>
     rq_transactionId q1 = rq_transactionId q \<and> rq_includeDuplicates q1 = rq_includeDuplicates q \<and>
     rq_includeChildren q1 = rq_includeChildren q)"
    using before_free [OF b] assms(2,4) by simp_all
  note run = assms(1) [unfolded run_query_def qu_execute_def t Let_def b prod.case]
  obtain r2 where r1: "r1 = Some r2" using free(2) by auto
  have ex: "ex_execute ?m (\<lambda>c q. (r2, c, q)) (ru_init ru) None (ru_start ru) (ru_env ru) c q1 = (res, q', c', evs)"
    using run free(1) unfolding r1 by simp
  then show ?thesis
  proof (cases rule: execute_cases)
    case (ran t2 c2 q2 bo maxA net)
    then have r2: "r2 = Inr ()" and q2: "q2 = q1\<lparr>ex_requestTimeout := t2\<rparr>" "c2 = c" by simp_all
    let ?q3 = "q2\<lparr>ex_minBackoff := bo\<rparr>"
    have loop: "ex_loop ?m (ru_init ru) maxA (ru_start ru) (ru_env ru) 1 ?q3 (cl_network c) = (res, q', net, evs)"
      using ran(2) q2(2) by simp
    have q1: "ex_nodeIds ?q3 = rl_setLocked (ex_nodeIds q)"
      "rq_asks (rq_transactionId q) (rq_includeDuplicates q) (rq_includeChildren q) ?q3"
      using free(2) r1 r2 by (simp_all add: q2 rq_asks_def)
    have nodes: "rl_locked (ex_nodeIds ?q3)" "rl_inv (ex_nodeIds ?q3)" "rl_list (ex_nodeIds ?q3) \<noteq> []"
      "set (rl_list (ex_nodeIds ?q3)) \<subseteq> set (map fst (nw_network (cl_network c)))"
      using assms(3-5) q1(1) by simp_all
    have order: "Some (nd_account (nw_node (cl_network c) n)) = rl_current (rl_steps (k - 1) (ex_nodeIds q)) \<and>
        req = rq_request (rq_transactionId q) (rq_includeDuplicates q) (rq_includeChildren q)"
      if "Sent k n req \<in> set evs" for k n req
    proof -
      have "Some (nd_account (nw_node (cl_network c) n)) = rl_current (rl_steps ((k - 1) * Suc 0) (ex_nodeIds ?q3))"
        using qr.loop_order [OF loop nodes(1,2) refl nodes(3,4) assms(6)] that by metis
      then show ?thesis
        using rr.loop_sent [OF loop q1(2) nodes(1,2) refl nodes(3,4) assms(6)] that
          steps_locked [of "k - 1" "ex_nodeIds q"] q1(1) by simp
    qed
    have again: "(\<exists>t f. at_outcome (ru_env ru i) = After t (Failure f) \<and> ex_shouldRetryExceptionally f) \<or>
        (\<exists>t s. at_outcome (ru_env ru i) = After t (Response s) \<and> rq_shouldRetry True s = Inr Retry)"
      if "outcome_retry ?m req (at_outcome (ru_env ru i))" for i req
    proof -
      from that consider t f where "at_outcome (ru_env ru i) = After t (Failure f)" "ex_shouldRetryExceptionally f"
        | t s v where "at_outcome (ru_env ru i) = After t (Response s)" "rq_shouldRetry v s = Inr Retry"
        by (auto simp: outcome_retry_def qu_methods_def)
      then show ?thesis
      proof cases
        case (2 t s v)
        then have "rq_shouldRetry True s = Inr Retry" using retry_any [of v s] by simp
        with 2 show ?thesis by blast
      qed blast
    qed
    have success: "\<exists>t s. at_outcome (ru_env ru i) = After t (Response s) \<and>
        (\<exists>v. rq_shouldRetry v s = Inr Finished) \<and> rq_mapResponse rk s = Inr x"
      if "outcome_success ?m req (at_outcome (ru_env ru i)) q' x" for i req x
      using that by (auto simp: outcome_success_def qu_methods_def)
    note outcomes = loop_outcomes [OF loop]
    show ?thesis
    proof (intro conjI allI impI)
      fix k n req
      assume "Sent k n req \<in> set evs"
      from order [OF this]
      show "Some (nd_account (nw_node (cl_network c) n)) = rl_current (rl_steps (k - 1) (ex_nodeIds q))"
        "req = rq_request (rq_transactionId q) (rq_includeDuplicates q) (rq_includeChildren q)"
        by (rule conjunct1, rule conjunct2)
    next
      fix xs i n req ys
      assume "evs = xs @ Sent i n req # ys \<and> list_ex ev_sent ys"
      then have "outcome_retry ?m req (at_outcome (ru_env ru i))"
        using outcomes by blast
      then show "(\<exists>t f. at_outcome (ru_env ru i) = After t (Failure f) \<and> ex_shouldRetryExceptionally f) \<or>
          (\<exists>t s. at_outcome (ru_env ru i) = After t (Response s) \<and> rq_shouldRetry True s = Inr Retry)"
        by (rule again)
    next
      fix x
      assume "res = Some (Inr x)"
      then obtain xs i n req where last: "evs = xs @ [Sent i n req]"
        "outcome_success ?m req (at_outcome (ru_env ru i)) q' x"
        using outcomes [THEN conjunct2, rule_format] by metis
      from success [OF last(2)] last(1)
      show "\<exists>xs i n req t s. evs = xs @ [Sent i n req] \<and> at_outcome (ru_env ru i) = After t (Response s) \<and>
          (\<exists>v. rq_shouldRetry v s = Inr Finished) \<and> rq_mapResponse rk s = Inr x"
        by blast
    qed
  qed simp
qed

lemma rq_new_simps [simp]:
  "qu_paymentTransactions (rq_setTransactionId i (rq_new starts)) = []"
  "ex_nodeIds (rq_setTransactionId i (rq_new starts)) = rl_new"
  "rq_transactionId (rq_setTransactionId i (rq_new starts)) = Some i"
  "rq_includeDuplicates (rq_setTransactionId i (rq_new starts)) = None"
  "rq_includeChildren (rq_setTransactionId i (rq_new starts)) = None"
  by (simp_all add: rq_setTransactionId_def rq_new_def qu_new_def query.defs receipt_query.defs
      executable.defs ex_new_def)

lemma getReceiptQuery_eq:
  "tr_nodeId r = Some a \<Longrightarrow> resp_getReceiptQuery starts r =
     Inr ((rq_setTransactionId (tr_transactionId r) (rq_new starts))
       \<lparr>ex_nodeIds := \<lparr>rl_list = [a], rl_locked = True, rl_index = Some 0\<rparr>\<rparr>)"
  by (simp add: resp_getReceiptQuery_def ex_setNodeAccountIds_def rl_defs)

text \<open>
  C8. A receipt is only ever that of the transaction asked for, from the node that accepted
  it, and a success.  Whatever the network answers, every request of \<open>getReceipt\<close> names the
  transaction and goes, unpaid, to the node of the response; it is sent again only after an
  error of the transport that may pass or an answer saying that the receipt is not there
  yet; and when a receipt is returned its status is a success and it is what the last
  answer holds.
\<close>

theorem receipt_of_accepted_transaction:
  fixes rk :: "'k receipt_codec"
  assumes "resp_getReceipt validate rk ru r c = (res, c', evs)" "tr_nodeId r = Some a"
    and "a \<in> set (map fst (nw_network (cl_network c)))" "pool_inv (cl_network c)"
  shows "(\<forall>k n req. Sent k n req \<in> set evs \<longrightarrow>
      nd_account (nw_node (cl_network c) n) = a \<and> req = rq_request (Some (tr_transactionId r)) None None) \<and>
    (\<forall>xs i n req ys. evs = xs @ Sent i n req # ys \<and> list_ex ev_sent ys \<longrightarrow>
      (\<exists>t f. at_outcome (ru_env ru i) = After t (Failure f) \<and> ex_shouldRetryExceptionally f) \<or>
      (\<exists>t s. at_outcome (ru_env ru i) = After t (Response s) \<and> rq_shouldRetry True s = Inr Retry)) \<and>
    (\<forall>x. res = Some (Inr x) \<longrightarrow> rc_status (rc_data x) = status_Success \<and>
      (\<exists>xs i n req t y. evs = xs @ [Sent i n req] \<and> at_outcome (ru_env ru i) = After t (Response (Some y)) \<and>
         receipt_fromProtobuf rk y = Inr x))"
proof -
  let ?q = "(rq_setTransactionId (tr_transactionId r) (rq_new (ru_starts ru)))
       \<lparr>ex_nodeIds := \<lparr>rl_list = [a], rl_locked = True, rl_index = Some 0\<rparr>\<rparr>"
  obtain res2 q' c2 evs2 where run: "run_query (rq_class validate rk) ru c ?q = (res2, q', c2, evs2)"
    by (metis prod_cases4)
  have evs: "evs2 = evs" and res: "\<And>x. res = Some (Inr x) \<Longrightarrow> res2 = Some (Inr x) \<and> rc_status (rc_data x) = status_Success"
    using assms(1) unfolding resp_getReceipt_def getReceiptQuery_eq [OF assms(2)] sum.case run prod.case
    by (auto split: option.splits sum.splits if_splits)
  have q: "qu_paymentTransactions ?q = []" "rl_inv (ex_nodeIds ?q)" "rl_list (ex_nodeIds ?q) \<noteq> []"
    "set (rl_list (ex_nodeIds ?q)) \<subseteq> set (map fst (nw_network (cl_network c)))"
    using assms(3) by (simp_all add: rl_inv_def)
  note free = run_free [OF run q assms(4), unfolded evs]
  have single: "rl_current (rl_steps j (ex_nodeIds ?q)) = Some a" for j
    using rl_current_steps [OF q(2,3)] by auto
  have sent: "nd_account (nw_node (cl_network c) n) = a \<and> req = rq_request (Some (tr_transactionId r)) None None"
    if "Sent k n req \<in> set evs" for k n req
    using free [THEN conjunct1, rule_format, OF that] single [of "k - 1"] by simp
  have last: "\<exists>xs i n req t y. evs = xs @ [Sent i n req] \<and>
      at_outcome (ru_env ru i) = After t (Response (Some y)) \<and> receipt_fromProtobuf rk y = Inr x"
    if "res = Some (Inr x)" for x
  proof -
    have "res2 = Some (Inr x)" using res [OF that] by simp
    then obtain xs i n req t s where l: "evs = xs @ [Sent i n req]"
      "at_outcome (ru_env ru i) = After t (Response s)" "rq_mapResponse rk s = Inr x"
      using free [THEN conjunct2, THEN conjunct2] by blast
    then show ?thesis by (cases s) (auto simp: rq_mapResponse_def)
  qed
  show ?thesis
    using sent free [THEN conjunct2, THEN conjunct1] res last by blast
qed

subsection \<open>Witness\<close>

definition demo_reply :: "nat \<Rightarrow> receipt_reply option" where
  "demo_reply status = Some
     \<lparr>rr_receipt = Some
        \<lparr>re_status = Some status, re_accountID = None, re_fileID = None, re_contractID = None,
         re_topicID = None, re_tokenID = None, re_scheduleID = None, re_exchangeRate = None,
         re_topicSequenceNumber = None, re_topicRunningHash = None, re_newTotalSupply = None,
         re_scheduledTransactionID = None, re_serialNumbers = None\<rparr>,
      rr_duplicates = None, rr_children = None,
      ry_header = Some \<lparr>rh_code = Some 0, rh_type = Some AnswerOnly, rh_cost = None\<rparr>\<rparr>"

definition reply_env :: "nat \<Rightarrow> receipt_reply option env" where
  "reply_env i =
     \<lparr>at_now = 10, at_random = 0, at_health = 10,
      at_outcome = After 1 (Response (demo_reply (if i = 1 then status_Unknown else status_Success))),
      at_failed = 12\<rparr>"

definition demo_runner :: "(unit, receipt_reply option) runner" where
  "demo_runner =
     \<lparr>ru_pay = plain_pay, ru_pick = (\<lambda>c. (Inr [], c)), ru_init = (\<lambda>_ _. ()),
      ru_starts = (\<lambda>_. \<lparr>ts_seconds = 9, ts_nanos = 0\<rparr>), ru_costStart = 0, ru_costEnv = reply_env,
      ru_start = 0, ru_env = reply_env\<rparr>"

definition demo_response :: tx_response where
  "demo_response = \<lparr>tr_nodeId = Some ''4'', tr_hash = [], tr_transactionId = demo_id\<rparr>"

definition receipt_run :: "unit receipt js option \<times> unit client \<times> transaction_request event list" where
  "receipt_run = resp_getReceipt (\<lambda>_. Inr ()) std_codec demo_runner demo_response demo_client"

lemmas receipt_run_simps =
  receipt_run_def resp_getReceipt_def getReceiptQuery_eq demo_runner_def demo_response_def
  run_query_def qu_execute_def qu_beforeExecute_def qu_setPaymentId_def qu_findPayment_def
  qu_methods_def qu_makeRequest_def rq_onMakeRequest_def qu_setNodes_def qu_generate_def
  demo_client_def demo_operator_def cl_new_def rl_defs Let_def ex_loop.simps ex_attempt_def
  ex_pickNode_def reply_env_def demo_reply_def tx_status_def status_fromCode_def status_codes_def
  example_simps mn_getNode_def mn_readmitNodes_def random_index_def mn_getChannel_def nw_update_def
  node_getChannel_def ex_advanceRequest_def node_isHealthy_def ex_race_def mn_decreaseBackoff_def
  node_decreaseBackoff_def js_nth_def ex_execute_def rq_shouldRetry_def reply_field_def
  receipt_status_def rq_setTransactionId_def rq_new_def receipt_query.defs qu_new_def query.defs
  executable.defs ex_new_def rq_mapResponse_def std_codec_def js_opt_def receipt_fromProtobuf_def
  receipt_fromMessage_def demo_id_def

lemma receipt_run_result:
  "(\<exists>x. fst receipt_run = Some (Inr x)) \<and>
   filter ev_sent (snd (snd receipt_run)) =
     [Sent 1 1 (rq_request (Some demo_id) None None), Sent 2 1 (rq_request (Some demo_id) None None)]"
  by (simp add: receipt_run_simps rq_request_def)

theorem receipt_of_accepted_transaction_witness:
  "\<exists>x t y. fst receipt_run = Some (Inr x) \<and> rc_status (rc_data x) = status_Success \<and>
     at_outcome (reply_env 2) = After t (Response (Some y)) \<and> receipt_fromProtobuf std_codec y = Inr x"
proof -
  obtain x c' evs where run: "receipt_run = (Some (Inr x), c', evs)"
    and sent: "filter ev_sent evs = [Sent 1 1 (rq_request (Some demo_id) None None),
      Sent 2 1 (rq_request (Some demo_id) None None)]"
    using receipt_run_result by (metis prod.collapse)
  have c: "''4'' \<in> set (map fst (nw_network (cl_network demo_client)))" "pool_inv (cl_network demo_client)"
    using echo_pool by (simp_all add: demo_client_def example_simps)
  from receipt_of_accepted_transaction [OF run [unfolded receipt_run_def] _ c]
  have "rc_status (rc_data x) = status_Success \<and>
      (\<exists>xs i n req t y. evs = xs @ [Sent i n req] \<and> at_outcome (reply_env i) = After t (Response (Some y)) \<and>
         receipt_fromProtobuf std_codec y = Inr x)"
    by (simp add: demo_response_def demo_runner_def)
  then obtain xs i n req t y where status: "rc_status (rc_data x) = status_Success"
    and l: "evs = xs @ [Sent i n req]"
    "at_outcome (reply_env i) = After t (Response (Some y))" "receipt_fromProtobuf std_codec y = Inr x"
    by blast
  have "last (filter ev_sent evs) = Sent i n req" using l(1) by simp
  then have "i = 2" using sent by simp
  moreover have "fst receipt_run = Some (Inr x)" by (simp only: run fst_conv)
  ultimately show ?thesis using status l by blast
qed

end
