(* ===== verification/Keys.thy ===== *)
theory Keys
  imports Ids TxExec
begin

text \<open>
  Keys: \<open>src/src/Key.js\<close>, \<open>KeyList.js\<close>, \<open>PublicKey.js\<close> and \<open>PrivateKey.js\<close>.  A public key of the
  package \<open>cryptography\<close> is an element of \<open>'k\<close>; what the sources call of the package are the
  fields of \<open>key_ops\<close>.  A private key appears as its public key, which is all that the
  methods here use.  A list of keys may hold \<open>null\<close> (\<open>None\<close>), since reading an unknown key
  gives \<open>null\<close>.
\<close>

subsection \<open>State\<close>

datatype key_type = Ed25519 | Secp256k1 | OtherType

record 'k key_ops =
  ko_type :: "'k \<Rightarrow> key_type"
  ko_raw :: "'k \<Rightarrow> bytes"
  ko_fromEd25519 :: "bytes \<Rightarrow> 'k js"
  ko_fromECDSA :: "bytes \<Rightarrow> 'k js"

datatype 'k key =
    PublicKey 'k
  | PrivateKey 'k
  | ContractKey contract_id
  | DelegateKey contract_id
  | KeyList "'k key option list" "int option"

datatype key_message =
  KeyMessage (km_contractID: "contract_message option") (km_delegatable: "contract_message option")
    (km_ed25519: "bytes option") (km_ecdsa: "bytes option")
    (km_threshold: "threshold_message option") (km_list: "key_list_message option")
and threshold_message = ThresholdMessage (tm_threshold: "int option") (tm_keys: "key_list_message option")
and key_list_message = KeyListMessage (lm_keys: "key_message list option")

subsection \<open>Lists of keys\<close>

datatype 'k keys_arg = NoKeys | OneKey "'k key" | ManyKeys "'k key option list"

definition keyList_new :: "'k keys_arg \<Rightarrow> int option \<Rightarrow> 'k key" where
  "keyList_new a t =
     KeyList (case a of NoKeys \<Rightarrow> [] | OneKey k \<Rightarrow> [Some k] | ManyKeys ks \<Rightarrow> ks) t"

definition keyList_of :: "'k key option list \<Rightarrow> 'k key" where
  "keyList_of ks = keyList_new (ManyKeys ks) None"

definition keyList_from :: "'a list \<Rightarrow> ('a \<Rightarrow> 'k key option) \<Rightarrow> 'k key" where
  "keyList_from xs f = keyList_new (ManyKeys (map f xs)) None"

fun keyList_threshold :: "'k key \<Rightarrow> int option" where
  "keyList_threshold (KeyList ks t) = t"
| "keyList_threshold k = None"

fun keyList_setThreshold :: "int \<Rightarrow> 'k key \<Rightarrow> 'k key" where
  "keyList_setThreshold t (KeyList ks u) = KeyList ks (Some t)"
| "keyList_setThreshold t k = k"

fun keyList_toArray :: "'k key \<Rightarrow> 'k key option list" where
  "keyList_toArray (KeyList ks t) = ks"
| "keyList_toArray k = []"

text \<open>\<open>push\<close> returns the new length; \<open>splice\<close> and \<open>slice\<close> are those of the array, with indices
  that are not negative.\<close>

definition keyList_push :: "'k key option list \<Rightarrow> 'k key \<Rightarrow> nat \<times> 'k key" where
  "keyList_push ks k =
     (let l = keyList_toArray k @ ks in (length l, KeyList l (keyList_threshold k)))"

definition keyList_splice ::
  "nat \<Rightarrow> nat \<Rightarrow> 'k key option list \<Rightarrow> 'k key \<Rightarrow> 'k key \<times> 'k key" where
  "keyList_splice start del items k =
     (let l = keyList_toArray k; s = min start (length l)
      in (KeyList (take del (drop s l)) (keyList_threshold k),
          KeyList (take s l @ items @ drop (s + del) l) (keyList_threshold k)))"

definition keyList_slice :: "nat option \<Rightarrow> nat option \<Rightarrow> 'k key \<Rightarrow> 'k key" where
  "keyList_slice start stop k =
     (let l = keyList_toArray k; s = case_option 0 id start; e = case_option (length l) id stop
      in KeyList (take (e - s) (drop s l)) (keyList_threshold k))"

subsection \<open>Messages\<close>

definition publicKey_toProtobuf :: "'k key_ops \<Rightarrow> 'k \<Rightarrow> key_message js" where
  "publicKey_toProtobuf ko k =
     (case ko_type ko k of
        Ed25519 \<Rightarrow> Inr (KeyMessage None None (Some (ko_raw ko k)) None None None)
      | Secp256k1 \<Rightarrow> Inr (KeyMessage None None None (Some (ko_raw ko k)) None None)
      | OtherType \<Rightarrow> Inl BadKey)"

fun key_toProtobuf :: "'k key_ops \<Rightarrow> 'k key \<Rightarrow> key_message js"
  and keys_toProtobuf :: "'k key_ops \<Rightarrow> 'k key option list \<Rightarrow> key_message list js" where
  "key_toProtobuf ko (PublicKey k) = publicKey_toProtobuf ko k"
| "key_toProtobuf ko (PrivateKey k) = publicKey_toProtobuf ko k"
| "key_toProtobuf ko (ContractKey i) = Inr (KeyMessage (Some (contract_toProtobuf i)) None None None None None)"
| "key_toProtobuf ko (DelegateKey i) = Inr (KeyMessage None (Some (contract_toProtobuf i)) None None None None)"
| "key_toProtobuf ko (KeyList ks t) =
     js_bind (keys_toProtobuf ko ks) (\<lambda>ms.
       Inr (case t of
              None \<Rightarrow> KeyMessage None None None None None (Some (KeyListMessage (Some ms)))
            | Some n \<Rightarrow> KeyMessage None None None None
                (Some (ThresholdMessage (Some n) (Some (KeyListMessage (Some ms))))) None))"
| "keys_toProtobuf ko [] = Inr []"
| "keys_toProtobuf ko (None # ks) = Inl TypeErr"
| "keys_toProtobuf ko (Some k # ks) =
     js_bind (key_toProtobuf ko k) (\<lambda>m. js_bind (keys_toProtobuf ko ks) (\<lambda>ms. Inr (m # ms)))"

text \<open>The first field that is there decides; a key of none is \<open>null\<close>.\<close>

fun key_fromProtobuf :: "'k key_ops \<Rightarrow> key_message \<Rightarrow> 'k key option js"
  and keyList_fromProtobuf :: "'k key_ops \<Rightarrow> key_list_message \<Rightarrow> 'k key js"
  and threshold_fromProtobuf :: "'k key_ops \<Rightarrow> threshold_message \<Rightarrow> 'k key js"
  and keys_fromProtobuf :: "'k key_ops \<Rightarrow> key_message list \<Rightarrow> 'k key option list js" where
  "key_fromProtobuf ko (KeyMessage c d e s t l) =
     (case c of Some i \<Rightarrow> js_bind (contract_fromProtobuf i) (\<lambda>i. Inr (Some (ContractKey i)))
      | None \<Rightarrow> (case d of Some i \<Rightarrow> js_bind (delegate_fromProtobuf i) (\<lambda>i. Inr (Some (DelegateKey i)))
      | None \<Rightarrow> (if e \<noteq> None \<and> e \<noteq> Some [] then js_bind (ko_fromEd25519 ko (the e)) (\<lambda>k. Inr (Some (PublicKey k)))
      else if s \<noteq> None \<and> s \<noteq> Some [] then js_bind (ko_fromECDSA ko (the s)) (\<lambda>k. Inr (Some (PublicKey k)))
      else (case t of
              Some (ThresholdMessage (Some n) ks) \<Rightarrow>
                js_bind (threshold_fromProtobuf ko (ThresholdMessage (Some n) ks)) (\<lambda>k. Inr (Some k))
            | _ \<Rightarrow> (case l of
                Some l \<Rightarrow> js_bind (keyList_fromProtobuf ko l) (\<lambda>k. Inr (Some k))
              | None \<Rightarrow> Inr None)))))"
| "keyList_fromProtobuf ko (KeyListMessage ms) =
     js_bind (case ms of None \<Rightarrow> Inr [] | Some ms \<Rightarrow> keys_fromProtobuf ko ms) (\<lambda>ks. Inr (KeyList ks None))"
| "threshold_fromProtobuf ko (ThresholdMessage n l) =
     js_bind (case l of None \<Rightarrow> Inr (KeyList [] None) | Some l \<Rightarrow> keyList_fromProtobuf ko l) (\<lambda>k.
       Inr (keyList_setThreshold (case n of None \<Rightarrow> 0 | Some n \<Rightarrow> n) k))"
| "keys_fromProtobuf ko [] = Inr []"
| "keys_fromProtobuf ko (m # ms) =
     js_bind (key_fromProtobuf ko m) (\<lambda>k. js_bind (keys_fromProtobuf ko ms) (\<lambda>ks. Inr (k # ks)))"

subsection \<open>Round trip\<close>

text \<open>Keys of the package that are read from their raw bytes.\<close>

definition key_ops_lawful :: "'k key_ops \<Rightarrow> bool" where
  "key_ops_lawful ko \<longleftrightarrow>
     (\<forall>k. ko_type ko k = Ed25519 \<longrightarrow> ko_raw ko k \<noteq> [] \<and> ko_fromEd25519 ko (ko_raw ko k) = Inr k) \<and>
     (\<forall>k. ko_type ko k = Secp256k1 \<longrightarrow> ko_raw ko k \<noteq> [] \<and> ko_fromECDSA ko (ko_raw ko k) = Inr k)"

text \<open>A key that can be sent, and what arrives of it.\<close>

fun key_ok :: "'k key_ops \<Rightarrow> 'k key \<Rightarrow> bool" where
  "key_ok ko (PublicKey k) = (ko_type ko k \<noteq> OtherType)"
| "key_ok ko (PrivateKey k) = (ko_type ko k \<noteq> OtherType)"
| "key_ok ko (ContractKey i) = id_valid (cn_ids i)"
| "key_ok ko (DelegateKey i) = id_valid (cn_ids i)"
| "key_ok ko (KeyList ks t) = (\<forall>k \<in> set ks. case k of None \<Rightarrow> False | Some k \<Rightarrow> key_ok ko k)"

fun key_sent :: "'k key \<Rightarrow> 'k key" where
  "key_sent (PublicKey k) = PublicKey k"
| "key_sent (PrivateKey k) = PublicKey k"
| "key_sent (ContractKey i) = ContractKey \<lparr>cn_ids = cn_ids i, cn_evmAddress = None, cn_checksum = None\<rparr>"
| "key_sent (DelegateKey i) = DelegateKey \<lparr>cn_ids = cn_ids i, cn_evmAddress = None, cn_checksum = None\<rparr>"
| "key_sent (KeyList ks t) = KeyList (map (map_option key_sent) ks) t"

lemma contract_back:
  assumes "id_valid (cn_ids i)"
  shows "contract_fromProtobuf (contract_toProtobuf i) = Inr \<lparr>cn_ids = cn_ids i, cn_evmAddress = None, cn_checksum = None\<rparr>"
    "delegate_fromProtobuf (contract_toProtobuf i) = Inr \<lparr>cn_ids = cn_ids i, cn_evmAddress = None, cn_checksum = None\<rparr>"
  using assms by (cases "cn_ids i"; simp add: contract_fromProtobuf_def contract_toProtobuf_def contract_new_def
      delegate_fromProtobuf_def delegate_of_def delegate_new_def id_valid_def)+

lemma publicKey_back:
  assumes "key_ops_lawful ko" "ko_type ko k \<noteq> OtherType"
  shows "\<exists>m. publicKey_toProtobuf ko k = Inr m \<and> key_fromProtobuf ko m = Inr (Some (PublicKey k))"
  using assms by (cases "ko_type ko k") (auto simp: publicKey_toProtobuf_def key_ops_lawful_def)

lemma key_back:
  "key_ops_lawful ko \<Longrightarrow> key_ok ko k \<Longrightarrow>
     \<exists>m. key_toProtobuf ko k = Inr m \<and> key_fromProtobuf ko m = Inr (Some (key_sent k))"
  "key_ops_lawful ko \<Longrightarrow> \<forall>k \<in> set ks. case k of None \<Rightarrow> False | Some k \<Rightarrow> key_ok ko k \<Longrightarrow>
     \<exists>ms. keys_toProtobuf ko ks = Inr ms \<and> keys_fromProtobuf ko ms = Inr (map (map_option key_sent) ks)"
proof (induction ko k and ko ks rule: key_toProtobuf_keys_toProtobuf.induct)
  case (5 ko ks t)
  then obtain ms where "keys_toProtobuf ko ks = Inr ms" "keys_fromProtobuf ko ms = Inr (map (map_option key_sent) ks)"
    by auto
  then show ?case by (cases t) auto
next
  case (8 ko k ks)
  then show ?case by fastforce
qed (auto simp: contract_back publicKey_back)

text \<open>
  C19. A key survives its message: what is read is the key that was sent, a private key having
  become its public key and a contract having lost its EVM address and checksum, in lists
  of keys of any depth and with any threshold.
\<close>

theorem keys_survive:
  assumes "key_ops_lawful ko" "key_ok ko k"
  shows "js_bind (key_toProtobuf ko k) (key_fromProtobuf ko) = Inr (Some (key_sent k))"
  using key_back(1) [OF assms] by auto

subsection \<open>Verifying a transaction\<close>

text \<open>
  Every signed transaction is made with a signature map, at first an empty one, so the case of
  a missing map, which the code passes over, does not arise.  The raw bytes of a public key
  are its text, as in \<open>Tx\<close>.
\<close>

fun sigs_verify :: "(bytes \<Rightarrow> bytes \<Rightarrow> bool) \<Rightarrow> string \<Rightarrow> bytes \<Rightarrow> (string \<times> bytes) list \<Rightarrow> bool \<Rightarrow> bool option" where
  "sigs_verify verify key body [] found = Some found"
| "sigs_verify verify key body ((k, sig) # sigs) found =
     (if k = key then
        if \<not> verify body sig then None else sigs_verify verify key body sigs True
      else sigs_verify verify key body sigs found)"

fun signed_verify :: "(bytes \<Rightarrow> bytes \<Rightarrow> bool) \<Rightarrow> string \<Rightarrow> signed list \<Rightarrow> bool" where
  "signed_verify verify key [] = True"
| "signed_verify verify key (s # ss) =
     (case sigs_verify verify key (sg_body s) (sg_sigs s) False of
        Some True \<Rightarrow> signed_verify verify key ss
      | _ \<Rightarrow> False)"

definition key_verifyTransaction ::
  "('m, 'd) codec \<Rightarrow> (bytes \<Rightarrow> bytes \<Rightarrow> bool) \<Rightarrow> string \<Rightarrow> 'm transaction_scheme \<Rightarrow>
   bool js \<times> 'm transaction_scheme" where
  "key_verifyTransaction cd verify key q =
     (case tx_requireFrozen q of
        Inl e \<Rightarrow> (Inl e, q)
      | Inr _ \<Rightarrow>
          (case (if \<not> tx_isFrozen q then tx_freeze cd q else (Inr (), q)) of
             (Inl e, q) \<Rightarrow> (Inl e, q)
           | (Inr _, q) \<Rightarrow> (Inr (signed_verify verify key (rl_list (tx_signed q))), q)))"

lemma sigs_verify_Some:
  "sigs_verify verify key body sigs found = Some True \<longleftrightarrow>
     (found \<or> (\<exists>sig. (key, sig) \<in> set sigs)) \<and> (\<forall>sig. (key, sig) \<in> set sigs \<longrightarrow> verify body sig)"
proof (induction sigs arbitrary: found)
  case (Cons p sigs)
  obtain k sig where p: "p = (k, sig)" by (cases p)
  show ?case
  proof (cases "k = key")
    case True
    then show ?thesis using Cons.IH [of True] p by auto
  next
    case False
    then show ?thesis using Cons.IH [of found] p by auto
  qed
qed simp

lemma signed_verify_iff:
  "signed_verify verify key ss \<longleftrightarrow>
     (\<forall>s \<in> set ss. (\<exists>sig. (key, sig) \<in> set (sg_sigs s)) \<and>
        (\<forall>sig. (key, sig) \<in> set (sg_sigs s) \<longrightarrow> verify (sg_body s) sig))"
proof (induction ss)
  case (Cons s ss)
  have "(case sigs_verify verify key (sg_body s) (sg_sigs s) False of Some True \<Rightarrow> r | _ \<Rightarrow> False) \<longleftrightarrow>
      sigs_verify verify key (sg_body s) (sg_sigs s) False = Some True \<and> r" for r
    by (simp split: option.split bool.split)
  then show ?case using Cons sigs_verify_Some [of verify key "sg_body s" "sg_sigs s" False] by auto
qed simp

lemma verify_frozen:
  "tx_isFrozen q \<Longrightarrow> fst (key_verifyTransaction cd verify key q) = Inr (signed_verify verify key (rl_list (tx_signed q)))"
  by (simp add: key_verifyTransaction_def tx_requireFrozen_def tx_isFrozen_any_def tx_isFrozen_def)


subsection \<open>Witnesses\<close>

definition raw_keys :: "bytes key_ops" where
  "raw_keys = \<lparr>ko_type = (\<lambda>k. if take 1 k = [0] then Secp256k1 else Ed25519), ko_raw = (\<lambda>k. 7 # k),
     ko_fromEd25519 = (\<lambda>bs. Inr (tl bs)), ko_fromECDSA = (\<lambda>bs. Inr (tl bs))\<rparr>"

lemma raw_keys_lawful: "key_ops_lawful raw_keys"
  by (simp add: key_ops_lawful_def raw_keys_def)

theorem keys_survive_witness:
  "js_bind (key_toProtobuf raw_keys (KeyList [Some (PrivateKey [3]), Some (KeyList [Some (PublicKey [0])] None)] (Some 1)))
     (key_fromProtobuf raw_keys) =
   Inr (Some (KeyList [Some (PublicKey [3]), Some (KeyList [Some (PublicKey [0])] None)] (Some 1)))"
  using keys_survive [OF raw_keys_lawful,
      of "KeyList [Some (PrivateKey [3]), Some (KeyList [Some (PublicKey [0])] None)] (Some 1)"]
  by (simp add: raw_keys_def)


end
