(* ===== verification/Abi.thy ===== *)
theory Abi
  imports Codec
begin

text \<open>
  Calls of contracts: \<open>contract/ContractFunctionSelector.js\<close>, \<open>ContractFunctionParameters.js\<close> and
  the getters of \<open>ContractFunctionResult.js\<close>.  Numbers are encoded and decoded by the package
  \<open>ethersproject/abi\<close>; these two functions, the hash of a signature and the UTF-8 conversions
  are the fields of \<open>abi_coder\<close>.
\<close>

subsection \<open>Types\<close>

text \<open>\<open>NumberT sig bits\<close> stands for the 64 types from \<open>uint8\<close> to \<open>int256\<close>.\<close>

datatype abi_type = NumberT bool nat | StringT | BoolT | BytesT | Bytes32T | AddressT | FuncT

definition arg_code :: "abi_type \<Rightarrow> nat" where
  "arg_code ty =
     (case ty of
        NumberT sig bits \<Rightarrow> 2 * (bits div 8) - (if sig then 1 else 2)
      | StringT \<Rightarrow> 64 | BoolT \<Rightarrow> 65 | BytesT \<Rightarrow> 66 | Bytes32T \<Rightarrow> 67 | AddressT \<Rightarrow> 68 | FuncT \<Rightarrow> 69)"

record param_type =
  pt_ty :: abi_type
  pt_array :: bool

definition solidityTypeToString :: "param_type \<Rightarrow> string" where
  "solidityTypeToString ty =
     (case pt_ty ty of
        NumberT sig bits \<Rightarrow> (if sig then ''int'' else ''uint'') @ dec bits
      | StringT \<Rightarrow> ''string'' | BoolT \<Rightarrow> ''bool'' | BytesT \<Rightarrow> ''bytes'' | Bytes32T \<Rightarrow> ''bytes32''
      | AddressT \<Rightarrow> ''address'' | FuncT \<Rightarrow> ''function'') @ (if pt_array ty then ''[]'' else [])"

record abi_coder =
  co_encode :: "bool \<Rightarrow> nat \<Rightarrow> int \<Rightarrow> bytes js"
  co_decode :: "nat \<Rightarrow> bytes \<Rightarrow> int js"
  co_keccak :: "bytes \<Rightarrow> bytes"
  co_utf8 :: "string \<Rightarrow> bytes"
  co_text :: "bytes \<Rightarrow> string"

subsection \<open>Selectors\<close>

record selector =
  se_name :: "string option"
  se_params :: string
  se_types :: "param_type list"

definition sel_new :: "string option \<Rightarrow> selector" where
  "sel_new name = \<lparr>se_name = name, se_params = [], se_types = []\<rparr>"

definition sel_addParam :: "param_type \<Rightarrow> selector \<Rightarrow> selector" where
  "sel_addParam ty s =
     s\<lparr>se_params := se_params s @ (if se_types s \<noteq> [] then '','' else []) @ solidityTypeToString ty,
       se_types := se_types s @ [ty]\<rparr>"

definition sel_addNumber :: "bool \<Rightarrow> nat \<Rightarrow> selector \<Rightarrow> selector" where
  "sel_addNumber sig bits = sel_addParam \<lparr>pt_ty = NumberT sig bits, pt_array = False\<rparr>"

definition sel_addNumberArray :: "bool \<Rightarrow> nat \<Rightarrow> selector \<Rightarrow> selector" where
  "sel_addNumberArray sig bits = sel_addParam \<lparr>pt_ty = NumberT sig bits, pt_array = True\<rparr>"

definition sel_addOther :: "abi_type \<Rightarrow> bool \<Rightarrow> selector \<Rightarrow> selector" where
  "sel_addOther ty array = sel_addParam \<lparr>pt_ty = ty, pt_array = array\<rparr>"

definition sel_toString :: "selector \<Rightarrow> string" where
  "sel_toString s = (case se_name s of Some n \<Rightarrow> n | None \<Rightarrow> []) @ ''('' @ se_params s @ '')''"

text \<open>The first four bytes of the hash of the signature.\<close>

definition sel_build :: "abi_coder \<Rightarrow> string option \<Rightarrow> selector \<Rightarrow> bytes js \<times> selector" where
  "sel_build c name s =
     (let s = (case name of Some n \<Rightarrow> s\<lparr>se_name := Some n\<rparr> | None \<Rightarrow> s)
      in if se_name s = None then (Inl MessageMissing, s)
         else (Inr (take 4 (co_keccak c (co_utf8 c (sel_toString s)))), s))"

subsection \<open>Byte arrays\<close>

text \<open>\<open>set\<close> of a typed array and the 32-bit writes and reads of a view; each throws out of range.\<close>

definition set_at :: "bytes \<Rightarrow> bytes \<Rightarrow> nat \<Rightarrow> bytes js" where
  "set_at buf v k =
     (if k + length v \<le> length buf then Inr (take k buf @ v @ drop (k + length v) buf)
      else Inl OutOfRange)"

definition put_u32 :: "bytes \<Rightarrow> nat \<Rightarrow> nat \<Rightarrow> bytes js" where
  "put_u32 buf k n = set_at buf (bytes_of_nat 4 (n mod 2 ^ 32)) k"

definition get_u32 :: "bytes \<Rightarrow> nat \<Rightarrow> nat js" where
  "get_u32 buf k = (if k + 4 \<le> length buf then Inr (nat_of_bytes (take 4 (drop k buf))) else Inl OutOfRange)"

text \<open>The bounds of \<open>subarray\<close>: a negative one counts from the end.\<close>

definition js_bound :: "bytes \<Rightarrow> int \<Rightarrow> nat" where
  "js_bound buf k = (if k < 0 then nat (int (length buf) + k) else min (nat k) (length buf))"

definition subarray :: "bytes \<Rightarrow> int \<Rightarrow> int \<Rightarrow> bytes" where
  "subarray buf a b = drop (js_bound buf a) (take (js_bound buf b) buf)"

subsection \<open>Encoding an argument\<close>

datatype abi_value = NumberV int | TextV string | BytesV bytes | BoolV bool | ArrayV "abi_value list"

definition arg_bytesText :: "bytes \<Rightarrow> bytes js" where
  "arg_bytesText par =
     (let value = replicate
        (if length par mod 32 \<noteq> 0 then (length par div 32 + 1) * 32 + 32 else length par div 32 * 32 + 32) 0
      in js_bind (set_at value par 32) (\<lambda>value. put_u32 value 28 (length par)))"

definition arg_scalar :: "abi_coder \<Rightarrow> abi_value \<Rightarrow> abi_type \<Rightarrow> bytes js" where
  "arg_scalar c param ty =
     (case (ty, param) of
        (NumberT sig bits, NumberV k) \<Rightarrow> co_encode c sig bits k
      | (AddressT, BytesV b) \<Rightarrow> set_at (replicate 32 0) b 12
      | (BoolT, BoolV b) \<Rightarrow> Inr (replicate 31 0 @ [if b then 1 else 0])
      | (FuncT, BytesV b) \<Rightarrow> set_at (replicate 32 0) b 8
      | (Bytes32T, BytesV b) \<Rightarrow> set_at (replicate 32 0) b 0
      | (BytesT, BytesV b) \<Rightarrow> arg_bytesText b
      | (BytesT, TextV t) \<Rightarrow> arg_bytesText (co_utf8 c t)
      | (StringT, BytesV b) \<Rightarrow> arg_bytesText b
      | (StringT, TextV t) \<Rightarrow> arg_bytesText (co_utf8 c t)
      | _ \<Rightarrow> Inl BadAbiValue)"

text \<open>The two passes over an array: one type is missing from the list that gives the size.\<close>

definition abi_dynamic :: "abi_type \<Rightarrow> bool" where
  "abi_dynamic ty \<longleftrightarrow> ty = BytesT \<or> ty = StringT"

definition array_size :: "abi_type \<Rightarrow> bytes list \<Rightarrow> nat js" where
  "array_size ty values =
     (case ty of
        NumberT sig bits \<Rightarrow>
          if bits = 24 then Inl BadAbiType else Inr (sum_list (map length values) + 32)
      | BytesT \<Rightarrow> Inr (length values * 32 + sum_list (map length values) + 32)
      | StringT \<Rightarrow> Inr (length values * 32 + sum_list (map length values) + 32)
      | _ \<Rightarrow> Inr (sum_list (map length values) + 32))"

fun array_loop :: "abi_type \<Rightarrow> nat \<Rightarrow> nat \<Rightarrow> bytes list \<Rightarrow> bytes \<Rightarrow> bytes js" where
  "array_loop ty i offset [] value = Inr value"
| "array_loop ty i offset (e # es) value =
     (if abi_dynamic ty then
        js_bind (put_u32 value ((i + 1) * 32 + 28) offset) (\<lambda>value.
        js_bind (get_u32 value ((i + 1) * 32 + 28)) (\<lambda>k.
        js_bind (set_at value e (k + 32)) (\<lambda>value.
          array_loop ty (i + 1) (offset + length e) es value)))
      else js_bind (set_at value e (i * 32 + 32)) (\<lambda>value. array_loop ty (i + 1) offset es value))"

text \<open>Reducing an empty array without a start value throws.\<close>

definition arg_array :: "abi_coder \<Rightarrow> abi_value list \<Rightarrow> abi_type \<Rightarrow> bytes js" where
  "arg_array c params ty =
     js_bind (js_map (\<lambda>p. arg_scalar c p ty) params) (\<lambda>values.
       if values = [] then Inl TypeErr
       else
         js_bind (array_size ty values) (\<lambda>n.
         js_bind (put_u32 (replicate n 0) 28 (length values)) (\<lambda>value.
           array_loop ty 0 (32 * length values) values value)))"

definition argumentToBytes :: "abi_coder \<Rightarrow> abi_value \<Rightarrow> param_type \<Rightarrow> bytes js" where
  "argumentToBytes c param ty =
     (if pt_array ty then
        (case param of ArrayV ps \<Rightarrow> arg_array c ps (pt_ty ty) | _ \<Rightarrow> Inl TypeErr)
      else arg_scalar c param (pt_ty ty))"

subsection \<open>Parameters\<close>

text \<open>The selector is extended before the argument is encoded, so a failed call leaves it longer.\<close>

record parameters =
  pa_selector :: selector
  pa_args :: "(bool \<times> bytes) list"

definition pa_new :: parameters where
  "pa_new = \<lparr>pa_selector = sel_new None, pa_args = []\<rparr>"

definition pa_addParam :: "abi_coder \<Rightarrow> abi_value \<Rightarrow> bool \<Rightarrow> parameters \<Rightarrow> unit js \<times> parameters" where
  "pa_addParam c param dynamic p =
     (case argumentToBytes c param (last (se_types (pa_selector p))) of
        Inl e \<Rightarrow> (Inl e, p)
      | Inr value \<Rightarrow> (Inr (), p\<lparr>pa_args := pa_args p @ [(dynamic, value)]\<rparr>))"

definition pa_select :: "(selector \<Rightarrow> selector) \<Rightarrow> parameters \<Rightarrow> parameters" where
  "pa_select f p = p\<lparr>pa_selector := f (pa_selector p)\<rparr>"

definition pa_addString :: "abi_coder \<Rightarrow> string \<Rightarrow> parameters \<Rightarrow> unit js \<times> parameters" where
  "pa_addString c t p = pa_addParam c (TextV t) True (pa_select (sel_addOther StringT False) p)"

definition pa_addStringArray :: "abi_coder \<Rightarrow> string list \<Rightarrow> parameters \<Rightarrow> unit js \<times> parameters" where
  "pa_addStringArray c ts p =
     pa_addParam c (ArrayV (map TextV ts)) True (pa_select (sel_addOther StringT True) p)"

definition pa_addBytes :: "abi_coder \<Rightarrow> bytes \<Rightarrow> parameters \<Rightarrow> unit js \<times> parameters" where
  "pa_addBytes c b p = pa_addParam c (BytesV b) True (pa_select (sel_addOther BytesT False) p)"

definition pa_addBytes32 :: "abi_coder \<Rightarrow> bytes \<Rightarrow> parameters \<Rightarrow> unit js \<times> parameters" where
  "pa_addBytes32 c b p =
     (if length b \<noteq> 32 then (Inl BadAbiValue, p)
      else pa_addParam c (BytesV b) False (pa_select (sel_addOther Bytes32T False) p))"

definition pa_addBytesArray :: "abi_coder \<Rightarrow> bytes list \<Rightarrow> parameters \<Rightarrow> unit js \<times> parameters" where
  "pa_addBytesArray c bs p =
     pa_addParam c (ArrayV (map BytesV bs)) True (pa_select (sel_addOther BytesT True) p)"

definition pa_addBytes32Array :: "abi_coder \<Rightarrow> bytes list \<Rightarrow> parameters \<Rightarrow> unit js \<times> parameters" where
  "pa_addBytes32Array c bs p =
     (if \<exists>b \<in> set bs. length b \<noteq> 32 then (Inl BadAbiValue, p)
      else pa_addParam c (ArrayV (map BytesV bs)) True (pa_select (sel_addOther Bytes32T True) p))"

definition pa_addBool :: "abi_coder \<Rightarrow> bool \<Rightarrow> parameters \<Rightarrow> unit js \<times> parameters" where
  "pa_addBool c b p = pa_addParam c (BoolV b) False (pa_select (sel_addOther BoolT False) p)"

definition pa_addNumber :: "abi_coder \<Rightarrow> bool \<Rightarrow> nat \<Rightarrow> int \<Rightarrow> parameters \<Rightarrow> unit js \<times> parameters" where
  "pa_addNumber c sig bits k p = pa_addParam c (NumberV k) False (pa_select (sel_addNumber sig bits) p)"

definition pa_addNumberArray ::
  "abi_coder \<Rightarrow> bool \<Rightarrow> nat \<Rightarrow> int list \<Rightarrow> parameters \<Rightarrow> unit js \<times> parameters" where
  "pa_addNumberArray c sig bits ks p =
     pa_addParam c (ArrayV (map NumberV ks)) True (pa_select (sel_addNumberArray sig bits) p)"

definition address_bytes :: "string \<Rightarrow> bytes js" where
  "address_bytes t =
     (if length t \<noteq> 40 \<and> length t \<noteq> 42 then Inl BadAbiValue
      else Inr (if length t = 40 then hex_decode t else hex_decode (drop 2 t)))"

definition pa_addAddress :: "abi_coder \<Rightarrow> string \<Rightarrow> parameters \<Rightarrow> unit js \<times> parameters" where
  "pa_addAddress c t p =
     (case address_bytes t of
        Inl e \<Rightarrow> (Inl e, p)
      | Inr b \<Rightarrow> pa_addParam c (BytesV b) False (pa_select (sel_addOther AddressT False) p))"

definition pa_addAddressArray :: "abi_coder \<Rightarrow> string list \<Rightarrow> parameters \<Rightarrow> unit js \<times> parameters" where
  "pa_addAddressArray c ts p =
     (case js_map address_bytes ts of
        Inl e \<Rightarrow> (Inl e, p)
      | Inr bs \<Rightarrow> pa_addParam c (ArrayV (map BytesV bs)) True (pa_select (sel_addOther AddressT True) p))"

text \<open>The address and the selector of the function, which must have a name.\<close>

definition pa_addFunction :: "abi_coder \<Rightarrow> string \<Rightarrow> selector \<Rightarrow> parameters \<Rightarrow> unit js \<times> parameters" where
  "pa_addFunction c address fs p =
     (case sel_build c None fs of
        (Inl e, _) \<Rightarrow> (Inl e, p)
      | (Inr four, _) \<Rightarrow>
          if length (hex_decode address) \<noteq> 20 then (Inl BadAbiValue, p)
          else
            (let p = pa_select (sel_addOther FuncT False) p
             in case js_bind (set_at (replicate 24 0) (hex_decode address) 0) (\<lambda>b. set_at b four 20) of
                  Inl e \<Rightarrow> (Inl e, p)
                | Inr b \<Rightarrow> pa_addParam c (BytesV b) False p))"

fun build_loop :: "nat \<Rightarrow> nat \<Rightarrow> nat \<Rightarrow> (bool \<times> bytes) list \<Rightarrow> bytes \<Rightarrow> bytes js" where
  "build_loop start i offset [] func = Inr func"
| "build_loop start i offset ((dynamic, value) # args) func =
     (if dynamic then
        js_bind (put_u32 func (start + i * 32 + 28) offset) (\<lambda>func.
        js_bind (get_u32 func (start + i * 32 + 28)) (\<lambda>k.
        js_bind (set_at func value (k + start)) (\<lambda>func.
          build_loop start (i + 1) (offset + length value) args func)))
      else
        js_bind (set_at func value (start + i * 32)) (\<lambda>func.
          build_loop start (i + 1) offset args func))"

definition pa_length :: "nat \<Rightarrow> (bool \<times> bytes) list \<Rightarrow> nat" where
  "pa_length start args =
     (if args = [] then start
      else length args * 32 + sum_list (map (\<lambda>(d, v). if d then length v else 0) args) + start)"

definition pa_build :: "abi_coder \<Rightarrow> string option \<Rightarrow> parameters \<Rightarrow> bytes js \<times> parameters" where
  "pa_build c name p =
     (let start = (if name \<noteq> None then 4 else 0);
          func = replicate (pa_length start (pa_args p)) 0
      in if name \<noteq> None then
           (case sel_build c name (pa_selector p) of
              (Inl e, s) \<Rightarrow> (Inl e, p\<lparr>pa_selector := s\<rparr>)
            | (Inr four, s) \<Rightarrow>
                (js_bind (set_at func four 0) (build_loop start 0 (32 * length (pa_args p)) (pa_args p)),
                 p\<lparr>pa_selector := s\<rparr>))
         else (build_loop start 0 (32 * length (pa_args p)) (pa_args p) func, p))"

subsection \<open>Results\<close>

text \<open>
  The getters read the 32-byte word at an index.  A missing byte reads as \<open>undefined\<close>, which is
  not zero; views throw.
\<close>

definition res_signed :: "nat \<Rightarrow> nat \<Rightarrow> int" where
  "res_signed bits n = signed_take_bit (bits - 1) (int n)"

definition res_getInt32 :: "bytes \<Rightarrow> nat \<Rightarrow> int js" where
  "res_getInt32 bs i = js_bind (get_u32 bs (i * 32 + 28)) (\<lambda>n. Inr (res_signed 32 n))"

definition res_getUint32 :: "bytes \<Rightarrow> nat \<Rightarrow> int js" where
  "res_getUint32 bs i = js_bind (get_u32 bs (i * 32 + 28)) (\<lambda>n. Inr (int n))"

definition res_getBytes :: "bytes \<Rightarrow> nat \<Rightarrow> bytes js" where
  "res_getBytes bs i =
     js_bind (res_getInt32 bs i) (\<lambda>offset.
       if offset < - 28 then Inl OutOfRange
       else
         js_bind (get_u32 bs (nat (offset + 28))) (\<lambda>n.
           Inr (subarray bs (offset + 32) (offset + 32 + res_signed 32 n))))"

definition res_getString :: "abi_coder \<Rightarrow> bytes \<Rightarrow> nat \<Rightarrow> string js" where
  "res_getString c bs i = js_bind (res_getBytes bs i) (\<lambda>b. Inr (co_text c b))"

definition res_getBytes32 :: "bytes \<Rightarrow> nat \<Rightarrow> bytes" where
  "res_getBytes32 bs i = subarray bs (int i * 32) (int i * 32 + 32)"

definition res_getBool :: "bytes \<Rightarrow> nat \<Rightarrow> bool" where
  "res_getBool bs i = (js_nth bs (i * 32 + 31) \<noteq> Some 0)"

definition res_getInt8 :: "bytes \<Rightarrow> nat \<Rightarrow> int js" where
  "res_getInt8 bs i =
     (case js_nth bs (i * 32 + 31) of None \<Rightarrow> Inl OutOfRange | Some b \<Rightarrow> Inr (sint b))"

definition res_getUint8 :: "bytes \<Rightarrow> nat \<Rightarrow> int option" where
  "res_getUint8 bs i = map_option uint (js_nth bs (i * 32 + 31))"

definition res_getUint :: "nat \<Rightarrow> bytes \<Rightarrow> nat \<Rightarrow> int" where
  "res_getUint bits bs i =
     int (nat_of_bytes (subarray (res_getBytes32 bs i) (32 - int bits div 8) 32))"

definition res_getInt :: "abi_coder \<Rightarrow> nat \<Rightarrow> bytes \<Rightarrow> nat \<Rightarrow> int js" where
  "res_getInt c bits bs i = co_decode c bits (res_getBytes32 bs i)"

definition res_getAddress :: "bytes \<Rightarrow> nat \<Rightarrow> string" where
  "res_getAddress bs i = hex_encode (subarray bs (int i * 32 + 12) (int i * 32 + 32))"

subsection \<open>The layout of a call\<close>

abbreviation "be32 n \<equiv> bytes_of_nat 4 n"

lemma set_at_mid: "length b = length v \<Longrightarrow> k = length a \<Longrightarrow> set_at (a @ b @ c) v k = Inr (a @ v @ c)"
  by (simp add: set_at_def)

lemma put_u32_mid: "length b = 4 \<Longrightarrow> k = length a \<Longrightarrow> n < 2 ^ 32 \<Longrightarrow> put_u32 (a @ b @ c) k n = Inr (a @ be32 n @ c)"
  unfolding put_u32_def by (subst set_at_mid) simp_all

lemma get_u32_mid: "length b = 4 \<Longrightarrow> k = length a \<Longrightarrow> get_u32 (a @ b @ c) k = Inr (nat_of_bytes b)"
  by (simp add: get_u32_def)

lemma nat_of_be32: "n < 2 ^ 32 \<Longrightarrow> nat_of_bytes (be32 n) = n"
  by (simp add: nat_of_bytes_of_nat)

text \<open>The words at the front, and what the words of the dynamic arguments point to.\<close>

fun heads :: "nat \<Rightarrow> (bool \<times> bytes) list \<Rightarrow> bytes" where
  "heads off [] = []"
| "heads off ((d, v) # args) =
     (if d then replicate 28 0 @ be32 off @ heads (off + length v) args else v @ heads off args)"

fun tails :: "(bool \<times> bytes) list \<Rightarrow> bytes" where
  "tails [] = []"
| "tails ((d, v) # args) = (if d then v else []) @ tails args"

abbreviation "words args \<equiv> (\<forall>(d, v) \<in> set args. \<not> d \<longrightarrow> length v = 32)"

lemma length_heads: "words args \<Longrightarrow> length (heads off args) = 32 * length args"
  by (induction off args rule: heads.induct) auto

lemma build_loop_layout:
  assumes "words args" "length pre = start" "length hs = 32 * i"
    and "off = 32 * (i + length args) + length ts" "off + length (tails args) < 2 ^ 32"
  shows "build_loop start i off args
      (pre @ hs @ replicate (32 * length args) 0 @ ts @ replicate (length (tails args)) 0) =
    Inr (pre @ hs @ heads off args @ ts @ tails args)"
  using assms
proof (induction args arbitrary: i off hs ts)
  case (Cons arg args)
  obtain d v where arg: "arg = (d, v)" by (cases arg)
  show ?case
  proof (cases d)
    case True
    let ?z = "replicate (32 * length args) (0 :: 8 word)"
    let ?buf = "(pre @ hs @ replicate 28 0) @ replicate 4 0 @ (?z @ ts @ replicate (length v) 0 @ replicate (length (tails args)) 0)"
    have buf: "pre @ hs @ replicate (32 * length (arg # args)) 0 @ ts @ replicate (length (tails (arg # args))) 0 = ?buf"
      using True by (simp add: arg replicate_add [symmetric] eval_nat_numeral)
    have put: "put_u32 ?buf (start + i * 32 + 28) off =
        Inr ((pre @ hs @ replicate 28 0) @ be32 off @ (?z @ ts @ replicate (length v) 0 @ replicate (length (tails args)) 0))"
      using Cons.prems by (intro put_u32_mid) simp_all
    have got: "get_u32 ((pre @ hs @ replicate 28 0) @ be32 off @ (?z @ ts @ replicate (length v) 0 @ replicate (length (tails args)) 0))
        (start + i * 32 + 28) = Inr off"
      using Cons.prems by (subst get_u32_mid) (simp_all add: nat_of_be32)
    have place: "set_at ((pre @ hs @ replicate 28 0) @ be32 off @ (?z @ ts @ replicate (length v) 0 @ replicate (length (tails args)) 0))
        v (off + start) =
        Inr ((pre @ hs @ replicate 28 0 @ be32 off @ ?z @ ts) @ v @ replicate (length (tails args)) 0)"
      using set_at_mid [of "replicate (length v) 0" v "off + start" "pre @ hs @ replicate 28 0 @ be32 off @ ?z @ ts"
          "replicate (length (tails args)) 0"] Cons.prems by simp
    have rest: "build_loop start (i + 1) (off + length v) args
        (pre @ (hs @ replicate 28 0 @ be32 off) @ ?z @ (ts @ v) @ replicate (length (tails args)) 0) =
        Inr (pre @ (hs @ replicate 28 0 @ be32 off) @ heads (off + length v) args @ (ts @ v) @ tails args)"
      using Cons.prems True by (intro Cons.IH) (auto simp: arg)
    show ?thesis
      unfolding buf using True put got place rest by (simp add: arg)
  next
    case False
    let ?z = "replicate (32 * length args) (0 :: 8 word)"
    have v: "length v = 32" using Cons.prems(1) False arg by simp
    have buf: "pre @ hs @ replicate (32 * length (arg # args)) 0 @ ts @ replicate (length (tails (arg # args))) 0 =
        (pre @ hs) @ replicate 32 0 @ (?z @ ts @ replicate (length (tails args)) 0)"
      using False by (simp add: arg replicate_add)
    have place: "set_at ((pre @ hs) @ replicate 32 0 @ (?z @ ts @ replicate (length (tails args)) 0)) v (start + i * 32) =
        Inr ((pre @ hs) @ v @ (?z @ ts @ replicate (length (tails args)) 0))"
      using Cons.prems v by (intro set_at_mid) simp_all
    have rest: "build_loop start (i + 1) off args
        (pre @ (hs @ v) @ ?z @ ts @ replicate (length (tails args)) 0) =
        Inr (pre @ (hs @ v) @ heads off args @ ts @ tails args)"
      using Cons.prems False v by (intro Cons.IH) (auto simp: arg)
    show ?thesis unfolding buf using False place rest by (simp add: arg)
  qed
qed simp

lemma pa_length_tails: "args \<noteq> [] \<Longrightarrow> pa_length start args = start + 32 * length args + length (tails args)"
proof -
  have "sum_list (map (\<lambda>(d, v). if d then length v else 0) args) = length (tails args)"
    by (induction args rule: tails.induct) auto
  then show "args \<noteq> [] \<Longrightarrow> ?thesis" by (simp add: pa_length_def)
qed

lemma head_at:
  assumes "words args" "i < length args"
  shows "take 32 (drop (32 * i) (heads off args)) =
    (if fst (args ! i) then replicate 28 0 @ be32 (off + length (tails (take i args))) else snd (args ! i))"
  using assms
proof (induction args arbitrary: i off)
  case (Cons arg args)
  obtain d v where arg: "arg = (d, v)" by (cases arg)
  show ?case
  proof (cases i)
    case 0
    then show ?thesis using Cons.prems(1) by (cases d) (simp_all add: arg)
  next
    case (Suc j)
    then have j: "words args" "j < length args" using Cons.prems by auto
    show ?thesis using Cons.IH [OF j] Cons.prems(1) Suc by (cases d) (simp_all add: arg add.assoc)
  qed
qed simp

lemma tail_at:
  assumes "i < length args" "args ! i = (True, v)"
  shows "tails args = tails (take i args) @ v @ tails (drop (Suc i) args)"
  using assms
proof (induction args arbitrary: i)
  case (Cons arg args)
  then show ?case by (cases i; cases arg) auto
qed simp

subsection \<open>Reading the arguments back\<close>

text \<open>
  What is documented of the package: a number that fits its type is the 32 bytes of its two's
  complement, and decoding reads the low bits of a word; the two conversions of texts are
  inverse; a hash has 32 bytes.
\<close>

definition number_fits :: "bool \<Rightarrow> nat \<Rightarrow> int \<Rightarrow> bool" where
  "number_fits sig bits k \<longleftrightarrow>
     (if sig then - (2 ^ (bits - 1)) \<le> k \<and> k < 2 ^ (bits - 1) else 0 \<le> k \<and> k < 2 ^ bits)"

definition abi_lawful :: "abi_coder \<Rightarrow> bool" where
  "abi_lawful c \<longleftrightarrow>
     (\<forall>sig bits k. number_fits sig bits k \<longrightarrow> co_encode c sig bits k = Inr (bytes_of_nat 32 (nat (k mod 2 ^ 256)))) \<and>
     (\<forall>bits w. length w = 32 \<longrightarrow> co_decode c bits w = Inr (res_signed bits (nat_of_bytes w))) \<and>
     (\<forall>t. co_text c (co_utf8 c t) = t) \<and> (\<forall>b. length (co_keccak c b) = 32)"

datatype abi_arg =
  ArgString string | ArgBytes bytes | ArgBytes32 bytes | ArgBool bool | ArgNumber bool nat int | ArgAddress bytes

definition add_arg :: "abi_coder \<Rightarrow> abi_arg \<Rightarrow> parameters \<Rightarrow> unit js \<times> parameters" where
  "add_arg c a p =
     (case a of
        ArgString t \<Rightarrow> pa_addString c t p
      | ArgBytes b \<Rightarrow> pa_addBytes c b p
      | ArgBytes32 b \<Rightarrow> pa_addBytes32 c b p
      | ArgBool b \<Rightarrow> pa_addBool c b p
      | ArgNumber sig bits k \<Rightarrow> pa_addNumber c sig bits k p
      | ArgAddress b \<Rightarrow> pa_addAddress c (hex_encode b) p)"

fun add_args :: "abi_coder \<Rightarrow> abi_arg list \<Rightarrow> parameters \<Rightarrow> unit js \<times> parameters" where
  "add_args c [] p = (Inr (), p)"
| "add_args c (a # as) p =
     (case add_arg c a p of (Inl e, p) \<Rightarrow> (Inl e, p) | (Inr _, p) \<Rightarrow> add_args c as p)"

text \<open>
  The getter of the type of an argument, and what it should give.  Numbers of 16 and 24 bits have
  no getter: their word does.
\<close>

definition arg_read :: "abi_coder \<Rightarrow> bytes \<Rightarrow> nat \<Rightarrow> abi_arg \<Rightarrow> bool" where
  "arg_read c bs i a =
     (case a of
        ArgString t \<Rightarrow> res_getString c bs i = Inr t
      | ArgBytes b \<Rightarrow> res_getBytes bs i = Inr b
      | ArgBytes32 b \<Rightarrow> res_getBytes32 bs i = b
      | ArgBool b \<Rightarrow> res_getBool bs i = b
      | ArgNumber True bits k \<Rightarrow>
          (if bits = 16 \<or> bits = 24 then res_getBytes32 bs i = bytes_of_nat 32 (nat (k mod 2 ^ 256))
           else if bits = 8 then res_getInt8 bs i = Inr k
           else if bits = 32 then res_getInt32 bs i = Inr k else res_getInt c bits bs i = Inr k)
      | ArgNumber False bits k \<Rightarrow>
          (if bits = 16 \<or> bits = 24 then res_getBytes32 bs i = bytes_of_nat 32 (nat (k mod 2 ^ 256))
           else if bits = 8 then res_getUint8 bs i = Some k
           else if bits = 32 then res_getUint32 bs i = Inr k else res_getUint bits bs i = k)
      | ArgAddress b \<Rightarrow> res_getAddress bs i = hex_encode b)"

definition arg_ok :: "abi_coder \<Rightarrow> abi_arg \<Rightarrow> bool" where
  "arg_ok c a =
     (case a of
        ArgString t \<Rightarrow> length (co_utf8 c t) < 2 ^ 31
      | ArgBytes b \<Rightarrow> length b < 2 ^ 31
      | ArgBytes32 b \<Rightarrow> length b = 32
      | ArgNumber sig bits k \<Rightarrow> 8 dvd bits \<and> 8 \<le> bits \<and> bits \<le> 256 \<and> number_fits sig bits k
      | ArgAddress b \<Rightarrow> length b = 20
      | _ \<Rightarrow> True)"

text \<open>The encoded form of an argument.\<close>

definition padding :: "nat \<Rightarrow> nat" where
  "padding n = (if n mod 32 \<noteq> 0 then (n div 32 + 1) * 32 - n else 0)"

lemma word_zeros: "replicate 32 0 @ xs = replicate 28 (0 :: 8 word) @ replicate 4 0 @ xs"
proof -
  have "replicate 32 (0 :: 8 word) = replicate 28 0 @ replicate 4 0"
    using replicate_add [of 28 4 "0 :: 8 word"] by simp
  then show ?thesis by (simp only: append_assoc)
qed

lemma bytesText_layout:
  assumes "length b < 2 ^ 32"
  shows "arg_bytesText b = Inr (replicate 28 0 @ be32 (length b) @ b @ replicate (padding (length b)) 0)"
proof -
  let ?n = "length b"
  have size: "(if ?n mod 32 \<noteq> 0 then (?n div 32 + 1) * 32 + 32 else ?n div 32 * 32 + 32) = 32 + (?n + padding ?n)"
    using div_mult_mod_eq [of ?n 32] by (auto simp: padding_def)
  have first: "set_at (replicate (32 + (?n + padding ?n)) 0) b 32 =
      Inr (replicate 32 0 @ b @ replicate (padding ?n) 0)"
    using set_at_mid [of "replicate ?n 0" b 32 "replicate 32 0" "replicate (padding ?n) 0"]
    by (simp add: replicate_add)
  have second: "put_u32 (replicate 32 0 @ b @ replicate (padding ?n) 0) 28 ?n =
      Inr (replicate 28 0 @ be32 ?n @ (b @ replicate (padding ?n) 0))"
    using put_u32_mid [of "replicate 4 0" 28 "replicate 28 0" ?n "b @ replicate (padding ?n) 0"] assms
    unfolding word_zeros by simp
  show ?thesis unfolding arg_bytesText_def Let_def size first js_bind_Inr second by simp
qed

definition text_layout :: "bytes \<Rightarrow> bytes" where
  "text_layout b = replicate 28 0 @ be32 (length b) @ b @ replicate (padding (length b)) 0"

definition arg_layout :: "abi_coder \<Rightarrow> abi_arg \<Rightarrow> bool \<times> bytes" where
  "arg_layout c a =
     (case a of
        ArgString t \<Rightarrow> (True, text_layout (co_utf8 c t))
      | ArgBytes b \<Rightarrow> (True, text_layout b)
      | ArgBytes32 b \<Rightarrow> (False, b)
      | ArgBool b \<Rightarrow> (False, replicate 31 0 @ [if b then 1 else 0])
      | ArgNumber sig bits k \<Rightarrow> (False, bytes_of_nat 32 (nat (k mod 2 ^ 256)))
      | ArgAddress b \<Rightarrow> (False, replicate 12 0 @ b))"

lemma add_arg_layout:
  assumes "abi_lawful c" "arg_ok c a"
  shows "\<exists>s. add_arg c a p = (Inr (), \<lparr>pa_selector = s, pa_args = pa_args p @ [arg_layout c a]\<rparr>)"
proof -
  have address: "set_at (replicate 32 0) b 12 = Inr (replicate 12 0 @ b)" if "length b = 20" for b :: bytes
    using set_at_mid [of "replicate 20 0" b 12 "replicate 12 0" "[]"] that
    by (simp add: replicate_add [symmetric])
  have bytes32: "set_at (replicate 32 0) b 0 = Inr b" if "length b = 32" for b :: bytes
    using set_at_mid [of "replicate 32 0" b 0 "[]" "[]"] that by simp
  have no_names: "length (hex_encode b) = 40" if "length b = 20" for b using that by simp
  show ?thesis
  proof (cases a)
    case (ArgNumber sig bits k)
    then show ?thesis using assms
      by (cases p) (simp add: add_arg_def pa_addNumber_def pa_addParam_def pa_select_def sel_addNumber_def
          sel_addParam_def argumentToBytes_def arg_scalar_def abi_lawful_def arg_ok_def arg_layout_def)
  qed (use assms in \<open>(cases p; simp add: add_arg_def pa_addString_def pa_addBytes_def pa_addBytes32_def
      pa_addBool_def pa_addAddress_def address_bytes_def pa_addParam_def pa_select_def sel_addOther_def
      sel_addParam_def argumentToBytes_def arg_scalar_def arg_ok_def arg_layout_def bytesText_layout
      text_layout_def address bytes32)\<close>)+
qed

lemma add_args_layout:
  assumes "abi_lawful c" "\<forall>a \<in> set as. arg_ok c a"
  shows "\<exists>s. add_args c as p = (Inr (), \<lparr>pa_selector = s, pa_args = pa_args p @ map (arg_layout c) as\<rparr>)"
  using assms(2)
proof (induction as arbitrary: p)
  case Nil
  then show ?case by (cases p) simp
next
  case (Cons a as)
  obtain s where s: "add_arg c a p = (Inr (), \<lparr>pa_selector = s, pa_args = pa_args p @ [arg_layout c a]\<rparr>)"
    using add_arg_layout [OF assms(1), of a p] Cons.prems by auto
  then show ?case
    using Cons.IH [of "\<lparr>pa_selector = s, pa_args = pa_args p @ [arg_layout c a]\<rparr>"] Cons.prems by simp
qed

lemma layout_words: "\<forall>a \<in> set as. arg_ok c a \<Longrightarrow> words (map (arg_layout c) as)"
  by (auto simp: arg_layout_def arg_ok_def split: abi_arg.splits)

lemma subarray_nat: "subarray bs (int a) (int b) = take (b - a) (drop a bs)"
proof -
  have "subarray bs (int a) (int b) = drop (min a (length bs)) (take (min b (length bs)) bs)"
    by (simp add: subarray_def js_bound_def)
  also have "\<dots> = drop a (take b bs)"
    by (cases "a \<le> length bs"; cases "b \<le> length bs") (simp_all add: min_def)
  finally show ?thesis by (simp add: drop_take)
qed

text \<open>What the getters see is the word at their index.\<close>

definition word_at :: "bytes \<Rightarrow> nat \<Rightarrow> bytes" where
  "word_at bs i = take 32 (drop (32 * i) bs)"

lemma getters_word:
  assumes "32 * i + 32 \<le> length bs"
  shows "res_getBytes32 bs i = word_at bs i"
    and "get_u32 bs (i * 32 + 28) = Inr (nat_of_bytes (drop 28 (word_at bs i)))"
    and "js_nth bs (i * 32 + 31) = Some (word_at bs i ! 31)"
    and "bits div 8 \<le> 32 \<Longrightarrow>
      res_getUint bits bs i = int (nat_of_bytes (drop (32 - bits div 8) (word_at bs i)))"
    and "res_getAddress bs i = hex_encode (drop 12 (word_at bs i))"
proof -
  have len: "length (word_at bs i) = 32" using assms by (simp add: word_at_def)
  show b32: "res_getBytes32 bs i = word_at bs i"
    using subarray_nat [of bs "i * 32" "i * 32 + 32"] by (simp add: res_getBytes32_def word_at_def mult.commute)
  show "get_u32 bs (i * 32 + 28) = Inr (nat_of_bytes (drop 28 (word_at bs i)))"
    using assms by (simp add: get_u32_def word_at_def drop_take ac_simps)
  show "js_nth bs (i * 32 + 31) = Some (word_at bs i ! 31)"
    using assms by (simp add: js_nth_def word_at_def mult.commute)
  show "res_getUint bits bs i = int (nat_of_bytes (drop (32 - bits div 8) (word_at bs i)))"
    if "bits div 8 \<le> 32"
  proof -
    have "int 32 - int bits div 8 = int (32 - bits div 8)" using that by (simp add: zdiv_int)
    then show ?thesis
      using subarray_nat [of "word_at bs i" "32 - bits div 8" 32] len by (simp add: res_getUint_def b32)
  qed
  show "res_getAddress bs i = hex_encode (drop 12 (word_at bs i))"
    using subarray_nat [of bs "i * 32 + 12" "i * 32 + 32"]
    by (simp add: res_getAddress_def word_at_def drop_take ac_simps)
qed

lemma bytes_of_nat_add: "bytes_of_nat (a + b) n = bytes_of_nat a (n div 256 ^ b) @ bytes_of_nat b n"
proof (induction b arbitrary: n)
  case (Suc b)
  have "bytes_of_nat (a + Suc b) n = bytes_of_nat (a + b) (n div 256) @ [word_of_nat (n mod 256)]" by simp
  also have "bytes_of_nat (a + b) (n div 256) =
      bytes_of_nat a (n div 256 ^ Suc b) @ bytes_of_nat b (n div 256)"
    by (simp add: Suc div_mult2_eq)
  finally show ?case by simp
qed simp

lemma low_bytes: "k \<le> m \<Longrightarrow> drop (m - k) (bytes_of_nat m n) = bytes_of_nat k n"
  using bytes_of_nat_add [of "m - k" k n] by simp

lemma power_256: "(256 :: nat) ^ (bits div 8) = 2 ^ bits" if "8 dvd bits"
proof -
  have "(256 :: nat) = 2 ^ 8" by simp
  then show ?thesis using that by (simp only: power_mult [symmetric] dvd_mult_div_cancel)
qed

text \<open>A number that fits its type comes out of its word.\<close>

lemma number_back:
  assumes "8 dvd bits" "8 \<le> bits" "bits \<le> 256"
  shows "0 \<le> k \<Longrightarrow> k < 2 ^ bits \<Longrightarrow> int (nat (k mod 2 ^ 256) mod 2 ^ bits) = k"
    and "- (2 ^ (bits - 1)) \<le> k \<Longrightarrow> k < 2 ^ (bits - 1) \<Longrightarrow> bits \<le> m \<Longrightarrow>
      signed_take_bit (bits - 1) (int (nat (k mod 2 ^ 256) mod 2 ^ m)) = k"
proof -
  show "int (nat (k mod 2 ^ 256) mod 2 ^ bits) = k" if k: "0 \<le> k" "k < 2 ^ bits"
  proof -
    have "(2 :: int) ^ bits \<le> 2 ^ 256" using assms(3) by (intro power_increasing) simp_all
    then have "k mod 2 ^ 256 = k" using k by simp
    moreover have "nat k < 2 ^ bits" using k by (simp add: nat_less_iff)
    ultimately show ?thesis using k by simp
  qed
  show "signed_take_bit (bits - 1) (int (nat (k mod 2 ^ 256) mod 2 ^ m)) = k"
    if k: "- (2 ^ (bits - 1)) \<le> k" "k < 2 ^ (bits - 1)" and m: "bits \<le> m"
  proof -
    have "int (nat (k mod 2 ^ 256) mod 2 ^ m) = take_bit m (take_bit 256 k)"
      by (simp add: take_bit_eq_mod zmod_int)
    moreover have "\<not> min m 256 \<le> bits - 1" using assms m by auto
    then have "signed_take_bit (bits - 1) (take_bit m (take_bit 256 k)) = signed_take_bit (bits - 1) k"
      by (simp add: signed_take_bit_take_bit)
    ultimately show ?thesis using k by (simp add: signed_take_bit_int_eq_self)
  qed
qed

lemma static_read:
  assumes "abi_lawful c" "arg_ok c a" "\<not> fst (arg_layout c a)"
    and "32 * i + 32 \<le> length bs" "word_at bs i = snd (arg_layout c a)"
  shows "arg_read c bs i a"
proof (cases a)
  case (ArgNumber sig bits k)
  define N where "N = nat (k mod 2 ^ 256)"
  have bits: "8 dvd bits" "8 \<le> bits" "bits \<le> 256" "number_fits sig bits k"
    using assms(2) ArgNumber by (simp_all add: arg_ok_def)
  have w: "word_at bs i = bytes_of_nat 32 N" using assms(5) ArgNumber by (simp add: arg_layout_def N_def)
  have low: "nat_of_bytes (drop (32 - j) (bytes_of_nat 32 N)) = N mod 256 ^ j" if "j \<le> 32" for j
    using low_bytes [OF that, of N] by (simp add: nat_of_bytes_of_nat)
  have last_byte: "bytes_of_nat 32 N ! 31 = word_of_nat (N mod 256)"
    using bytes_of_nat_add [of 31 1 N] by (simp add: nth_append)
  have unsigned: "int (N mod 2 ^ bits) = k" if "\<not> sig"
    using number_back(1) [OF bits(1-3), of k] bits(4) that by (simp add: number_fits_def N_def)
  have sig: "signed_take_bit (bits - 1) (int (N mod 2 ^ m)) = k" if "sig" "bits \<le> m" for m
    using number_back(2) [OF bits(1-3), of k m] bits(4) that by (simp add: number_fits_def N_def)
  have eighth: "bits div 8 \<le> 32" using bits(3) by simp
  show ?thesis
  proof (cases sig)
    case True
    have "signed_take_bit (bits - 1) (int (N mod 2 ^ 256)) = k" using sig [OF True bits(3)] .
    then have wide: "co_decode c bits (word_at bs i) = Inr k"
      using assms(1) by (simp add: w abi_lawful_def res_signed_def nat_of_bytes_of_nat)
    have narrow: "res_getInt32 bs i = Inr k" if "bits = 32"
      using getters_word(2) [OF assms(4)] low [of 4] sig [OF True, of 32] that
      by (simp add: res_getInt32_def w res_signed_def)
    have byte: "res_getInt8 bs i = Inr k" if "bits = 8"
      using getters_word(3) [OF assms(4)] sig [OF True, of 8] that
      by (simp add: res_getInt8_def w last_byte signed_of_nat)
    show ?thesis using wide narrow byte getters_word(1) [OF assms(4)]
      by (simp add: ArgNumber True arg_read_def res_getInt_def w N_def)
  next
    case False
    have wide: "res_getUint bits bs i = k"
      using getters_word(4) [OF assms(4) eighth] low [OF eighth] unsigned [OF False] power_256 [OF bits(1)]
      by (simp add: w)
    have narrow: "res_getUint32 bs i = Inr k" if "bits = 32"
      using getters_word(2) [OF assms(4)] low [of 4] unsigned [OF False] that
      by (simp add: res_getUint32_def w)
    have byte: "res_getUint8 bs i = Some k" if "bits = 8"
      using getters_word(3) [OF assms(4)] unsigned [OF False] that
      by (simp add: res_getUint8_def w last_byte unsigned_of_nat take_bit_eq_mod zmod_int)
    show ?thesis using wide narrow byte getters_word(1) [OF assms(4)]
      by (simp add: ArgNumber False arg_read_def w N_def)
  qed
next
  case (ArgBool b)
  then show ?thesis using getters_word(3) [OF assms(4)] assms(5)
    by (cases b) (simp_all add: arg_read_def arg_layout_def res_getBool_def nth_append)
next
  case (ArgBytes32 b)
  then show ?thesis using getters_word(1) [OF assms(4)] assms(5) by (simp add: arg_read_def arg_layout_def)
next
  case (ArgAddress b)
  then show ?thesis using getters_word(5) [OF assms(4)] assms(5) by (simp add: arg_read_def arg_layout_def)
qed (use assms(3) in \<open>simp_all add: arg_layout_def\<close>)

lemma dynamic_read:
  assumes "32 * i + 32 \<le> length bs" "word_at bs i = replicate 28 0 @ be32 off"
    and "bs = front @ text_layout b @ rest" "off = length front" "length bs < 2 ^ 31"
  shows "res_getBytes bs i = Inr b"
proof -
  have fits: "off < 2 ^ 31" "length b < 2 ^ 31" "off + 32 + length b \<le> length bs"
    using assms(3-5) by (simp_all add: text_layout_def)
  have small: "res_signed 32 n = int n" if "n < 2 ^ 31" for n
    using that by (simp add: res_signed_def signed_take_bit_int_eq_self)
  have off: "res_getInt32 bs i = Inr (int off)"
    using getters_word(2) [OF assms(1)] fits
    by (simp add: res_getInt32_def assms(2) nat_of_be32 small)
  have "bs = (front @ replicate 28 0) @ be32 (length b) @ (b @ replicate (padding (length b)) 0 @ rest)"
    by (simp add: assms(3) text_layout_def)
  then have len: "get_u32 bs (off + 28) = Inr (length b)"
    using get_u32_mid [of "be32 (length b)" "off + 28" "front @ replicate 28 0" "b @ replicate (padding (length b)) 0 @ rest"]
      fits by (simp add: assms(4) nat_of_be32)
  have "nat (int off + 28) = off + 28" by simp
  moreover have "subarray bs (int off + 32) (int off + 32 + int (length b)) = b"
    using subarray_nat [of bs "off + 32" "off + 32 + length b"]
    by (simp add: assms(3,4) text_layout_def)
  ultimately show ?thesis
    using off len fits by (simp add: res_getBytes_def small)
qed

lemma build_layout:
  assumes "words args" "32 * length args + length (tails args) < 2 ^ 31" "length pre = start"
  shows "build_loop start 0 (32 * length args) args
      (pre @ replicate (32 * length args + length (tails args)) 0) =
    Inr (pre @ heads (32 * length args) args @ tails args)"
  using build_loop_layout [OF assms(1,3), of "[]" 0 "32 * length args" "[]"] assms(2)
  by (simp add: replicate_add)

text \<open>The head and the tail of the arguments \<open>as\<close>.\<close>

abbreviation "layouts c as \<equiv> map (arg_layout c) as"
abbreviation "call_bytes c as \<equiv> heads (32 * length as) (layouts c as) @ tails (layouts c as)"

lemma built_named:
  assumes "abi_lawful c" "\<forall>a \<in> set as. arg_ok c a" "as \<noteq> []"
    and small: "32 * length as + length (tails (layouts c as)) < 2 ^ 31"
  shows "\<exists>four. length four = 4 \<and>
    fst (pa_build c (Some name) \<lparr>pa_selector = s, pa_args = layouts c as\<rparr>) = Inr (four @ call_bytes c as)"
proof -
  let ?args = "layouts c as"
  obtain four s' where f: "sel_build c (Some name) s = (Inr four, s')" "length four = 4"
    using assms(1) by (simp add: sel_build_def abi_lawful_def Let_def)
  have ws: "words ?args" by (rule layout_words [OF assms(2)])
  have "?args \<noteq> []" using assms(3) by simp
  note size = pa_length_tails [OF this]
  have "set_at (replicate (pa_length 4 ?args) 0) four 0 =
      Inr (four @ replicate (32 * length ?args + length (tails ?args)) 0)"
    using set_at_mid [of "replicate 4 0" four 0 "[]" "replicate (32 * length ?args + length (tails ?args)) 0"]
      f(2) size [of 4] by (simp add: replicate_add [symmetric] add.assoc)
  then show ?thesis
    using build_layout [OF ws _ f(2)] small f by (intro exI [of _ four]) (simp add: pa_build_def Let_def)
qed

lemma built_read:
  assumes "abi_lawful c" "\<forall>a \<in> set as. arg_ok c a" "i < length as"
    and small: "32 * length as + length (tails (layouts c as)) < 2 ^ 31"
  shows "arg_read c (call_bytes c as) i (as ! i)"
proof -
  let ?args = "layouts c as"
  let ?bs = "call_bytes c as"
  have ws: "words ?args" by (rule layout_words [OF assms(2)])
  note heads = length_heads [OF ws] and i = assms(3)
  have ok: "arg_ok c (as ! i)" using assms(2) i by simp
  have inside: "32 * i + 32 \<le> length ?bs" using i heads by simp
  have word: "word_at ?bs i = (if fst (?args ! i)
      then replicate 28 0 @ be32 (32 * length ?args + length (tails (take i ?args))) else snd (?args ! i))"
    using head_at [OF ws, of i "32 * length ?args"] i heads by (simp add: word_at_def)
  show ?thesis
  proof (cases "fst (arg_layout c (as ! i))")
    case False
    then show ?thesis using word i by (intro static_read [OF assms(1) ok False inside]) simp
  next
    case True
    then obtain b where b: "arg_layout c (as ! i) = (True, text_layout b)"
      "as ! i = ArgBytes b \<or> (\<exists>t. as ! i = ArgString t \<and> b = co_utf8 c t)"
      by (cases "as ! i") (auto simp: arg_layout_def)
    have split: "?bs = (heads (32 * length as) ?args @ tails (take i ?args)) @ text_layout b @ tails (drop (Suc i) ?args)"
      using tail_at [of i ?args "text_layout b"] i b(1) by simp
    have "res_getBytes ?bs i = Inr b"
      using word i b(1) heads small by (intro dynamic_read [OF inside _ split]) simp_all
    then show ?thesis using b(2) assms(1)
      by (auto simp: arg_read_def res_getString_def abi_lawful_def)
  qed
qed

text \<open>
  C9. The arguments of a contract call can be read back.  However many strings, byte arrays,
  booleans, numbers of any width and addresses are added, adding never throws, and the bytes
  that are built give each argument back through the getter of its type at its index; with a
  function name the same bytes follow the four bytes of the selector.
\<close>

theorem call_arguments_read_back:
  assumes "abi_lawful c" "\<forall>a \<in> set as. arg_ok c a" "as \<noteq> []"
    and "pa_length 0 (pa_args (snd (add_args c as pa_new))) < 2 ^ 31"
  shows "\<exists>p bs. add_args c as pa_new = (Inr (), p) \<and> fst (pa_build c None p) = Inr bs \<and>
    length bs = pa_length 0 (pa_args p) \<and> (\<forall>i < length as. arg_read c bs i (as ! i)) \<and>
    (\<forall>name. \<exists>four. length four = 4 \<and> fst (pa_build c (Some name) p) = Inr (four @ bs))"
proof -
  obtain s where p: "add_args c as pa_new = (Inr (), \<lparr>pa_selector = s, pa_args = layouts c as\<rparr>)"
    using add_args_layout [OF assms(1,2), of pa_new] by (auto simp: pa_new_def)
  have ws: "words (layouts c as)" by (rule layout_words [OF assms(2)])
  have "layouts c as \<noteq> []" using assms(3) by simp
  note size = pa_length_tails [OF this]
  have small: "32 * length as + length (tails (layouts c as)) < 2 ^ 31" using assms(4) p size [of 0] by simp
  have built: "fst (pa_build c None \<lparr>pa_selector = s, pa_args = layouts c as\<rparr>) = Inr (call_bytes c as)"
    using build_layout [OF ws, of "[]" 0] small size [of 0] by (simp add: pa_build_def)
  have "length (call_bytes c as) = pa_length 0 (layouts c as)" using size [of 0] length_heads [OF ws] by simp
  then show ?thesis
    using p built built_named [OF assms(1-3) small] built_read [OF assms(1,2) _ small]
    by (intro exI [of _ "\<lparr>pa_selector = s, pa_args = layouts c as\<rparr>"] exI [of _ "call_bytes c as"]) simp
qed

definition twos_complement :: abi_coder where
  "twos_complement =
     \<lparr>co_encode = (\<lambda>sig bits k. if number_fits sig bits k then Inr (bytes_of_nat 32 (nat (k mod 2 ^ 256))) else Inl OutOfRange),
      co_decode = (\<lambda>bits w. Inr (res_signed bits (nat_of_bytes w))),
      co_keccak = (\<lambda>b. replicate 32 7),
      co_utf8 = map (\<lambda>ch. of_nat (of_char ch)),
      co_text = map (\<lambda>b. char_of (unat b))\<rparr>"

lemma twos_complement_lawful: "abi_lawful twos_complement"
proof -
  have "map (\<lambda>b. char_of (unat b)) (map (\<lambda>ch. of_nat (of_char ch) :: 8 word) t) = t" for t
    by (induction t) (auto simp: unat_of_nat)
  then show ?thesis by (simp add: abi_lawful_def twos_complement_def)
qed

lemma call_arguments_read_back_witness:
  "let as = [ArgString ''hi'', ArgBool True, ArgNumber True 40 (- 5), ArgBytes [1, 2, 3]]
   in \<exists>p bs. add_args twos_complement as pa_new = (Inr (), p) \<and> fst (pa_build twos_complement None p) = Inr bs \<and>
     length bs = 256 \<and> res_getString twos_complement bs 0 = Inr ''hi'' \<and> res_getBool bs 1 \<and>
     res_getInt twos_complement 40 bs 2 = Inr (- 5) \<and> res_getBytes bs 3 = Inr [1, 2, 3]"
proof -
  define as where "as = [ArgString ''hi'', ArgBool True, ArgNumber True 40 (- 5), ArgBytes [1, 2, 3]]"
  have ok: "\<forall>a \<in> set as. arg_ok twos_complement a"
    by (simp add: as_def arg_ok_def twos_complement_def number_fits_def)
  obtain s where p: "add_args twos_complement as pa_new =
      (Inr (), \<lparr>pa_selector = s, pa_args = map (arg_layout twos_complement) as\<rparr>)"
    using add_args_layout [OF twos_complement_lawful ok, of pa_new] by (auto simp: pa_new_def)
  have len: "pa_length 0 (pa_args (snd (add_args twos_complement as pa_new))) = 256"
    unfolding p by (simp add: pa_length_def as_def arg_layout_def text_layout_def padding_def twos_complement_def)
  have ne: "as \<noteq> []" by (simp add: as_def)
  have small: "pa_length 0 (pa_args (snd (add_args twos_complement as pa_new))) < 2 ^ 31" unfolding len by simp
  obtain q bs where r: "add_args twos_complement as pa_new = (Inr (), q)" "fst (pa_build twos_complement None q) = Inr bs"
    "length bs = pa_length 0 (pa_args q)" "\<forall>i < length as. arg_read twos_complement bs i (as ! i)"
    using call_arguments_read_back [OF twos_complement_lawful ok ne small] by blast
  have "\<forall>i < 4. arg_read twos_complement bs i (as ! i)" using r(4) by (simp add: as_def)
  then have "arg_read twos_complement bs 0 (as ! 0) \<and> arg_read twos_complement bs 1 (as ! 1) \<and>
      arg_read twos_complement bs 2 (as ! 2) \<and> arg_read twos_complement bs 3 (as ! 3)" by simp
  then show ?thesis unfolding as_def [symmetric] Let_def using r(1-3) len
    by (intro exI [of _ q] exI [of _ bs]) (simp add: as_def arg_read_def)
qed

subsection \<open>Arrays of numbers\<close>

lemma array_loop_layout:
  assumes "\<not> abi_dynamic ty" "\<forall>e \<in> set es. length e = 32" "length done = 32 + i * 32"
  shows "array_loop ty i off es (done @ replicate (32 * length es) 0) = Inr (done @ concat es)"
  using assms(2,3)
proof (induction es arbitrary: i "done")
  case (Cons e es)
  have "set_at (done @ replicate 32 0 @ replicate (32 * length es) 0) e (i * 32 + 32) =
      Inr (done @ e @ replicate (32 * length es) 0)"
    using Cons.prems by (intro set_at_mid) simp_all
  moreover have "array_loop ty (i + 1) off es ((done @ e) @ replicate (32 * length es) 0) =
      Inr ((done @ e) @ concat es)"
    using Cons.prems by (intro Cons.IH) simp_all
  ultimately show ?case using assms(1) by (simp add: replicate_add)
qed simp

definition number_array :: "int list \<Rightarrow> bytes" where
  "number_array ks =
     replicate 28 0 @ be32 (length ks) @ concat (map (\<lambda>k. bytes_of_nat 32 (nat (k mod 2 ^ 256))) ks)"

lemma number_array_layout:
  assumes "abi_lawful c" "\<forall>k \<in> set ks. number_fits sig bits k" "ks \<noteq> []" "bits \<noteq> 24" "length ks < 2 ^ 32"
  shows "arg_array c (map NumberV ks) (NumberT sig bits) = Inr (number_array ks)"
proof -
  let ?es = "map (\<lambda>k. bytes_of_nat 32 (nat (k mod 2 ^ 256))) ks"
  have each: "js_map (\<lambda>p. arg_scalar c p (NumberT sig bits)) (map NumberV ks) = Inr ?es"
    using js_map_total [of ks "\<lambda>k. arg_scalar c (NumberV k) (NumberT sig bits)"] assms(1,2)
    by (simp add: js_map_map arg_scalar_def abi_lawful_def)
  have total: "sum_list (map length ?es) + 32 = 32 * length ks + 32" by (induction ks) simp_all
  have count: "put_u32 (replicate (32 * length ks + 32) 0) 28 (length ks) =
      Inr ((replicate 28 0 @ be32 (length ks)) @ replicate (32 * length ks) 0)"
    using put_u32_mid [of "replicate 4 0" 28 "replicate 28 0" "length ks" "replicate (32 * length ks) 0"] assms(5)
    by (simp add: replicate_add [symmetric] add.commute)
  have "array_loop (NumberT sig bits) 0 (32 * length ks) ?es ((replicate 28 0 @ be32 (length ks)) @ replicate (32 * length ?es) 0) =
      Inr ((replicate 28 0 @ be32 (length ks)) @ concat ?es)"
    by (intro array_loop_layout) (simp_all add: abi_dynamic_def)
  then have "array_loop (NumberT sig bits) 0 (32 * length ?es) ?es
      ((replicate 28 0 @ be32 (length ks)) @ replicate (32 * length ks) 0) = Inr (number_array ks)"
    by (simp add: number_array_def)
  moreover have "array_size (NumberT sig bits) ?es = Inr (32 * length ks + 32)"
    using assms(4) total by (simp only: array_size_def abi_type.case if_False)
  moreover have "?es \<noteq> []" "length ?es = length ks" using assms(3) by simp_all
  ultimately show ?thesis using count unfolding arg_array_def each js_bind_Inr by simp
qed

text \<open>
  An array of numbers is accepted exactly when it is not empty and its numbers are not of 24
  bits: then its encoding (the length, then a word for each number) is the new argument.
  Otherwise the call throws and no argument is added, but the type stays in the signature, so
  that what is built next, if the error was caught, names a parameter it does not contain.
\<close>

theorem number_arrays_accepted:
  assumes "abi_lawful c" "\<forall>k \<in> set ks. number_fits sig bits k" "length ks < 2 ^ 32"
  shows "((\<exists>e. fst (pa_addNumberArray c sig bits ks p) = Inl e) \<longleftrightarrow> ks = [] \<or> bits = 24) \<and>
    pa_args (snd (pa_addNumberArray c sig bits ks p)) =
      pa_args p @ (if ks = [] \<or> bits = 24 then [] else [(True, number_array ks)]) \<and>
    se_types (pa_selector (snd (pa_addNumberArray c sig bits ks p))) =
      se_types (pa_selector p) @ [\<lparr>pt_ty = NumberT sig bits, pt_array = True\<rparr>]"
proof -
  let ?q = "pa_select (sel_addNumberArray sig bits) p"
  have types: "se_types (pa_selector ?q) = se_types (pa_selector p) @ [\<lparr>pt_ty = NumberT sig bits, pt_array = True\<rparr>]"
    "pa_args ?q = pa_args p"
    by (simp_all add: pa_select_def sel_addNumberArray_def sel_addParam_def)
  have rejected: "\<exists>e. arg_array c (map NumberV ks) (NumberT sig bits) = Inl e" if "ks = [] \<or> bits = 24"
  proof (cases "js_map (\<lambda>p. arg_scalar c p (NumberT sig bits)) (map NumberV ks)")
    case (Inr vs)
    show ?thesis using that Inr by (cases "vs = []") (auto simp: arg_array_def array_size_def)
  qed (simp add: arg_array_def)
  have accepted: "arg_array c (map NumberV ks) (NumberT sig bits) = Inr (number_array ks)"
    if "\<not> (ks = [] \<or> bits = 24)"
    using that assms by (intro number_array_layout) simp_all
  have add: "pa_addNumberArray c sig bits ks p =
      (case arg_array c (map NumberV ks) (NumberT sig bits) of
         Inl e \<Rightarrow> (Inl e, ?q) | Inr value \<Rightarrow> (Inr (), ?q\<lparr>pa_args := pa_args ?q @ [(True, value)]\<rparr>))"
    by (simp add: pa_addNumberArray_def pa_addParam_def types argumentToBytes_def)
  have 1: "(\<exists>e. fst (pa_addNumberArray c sig bits ks p) = Inl e) \<longleftrightarrow> ks = [] \<or> bits = 24"
    using rejected accepted by (cases "ks = [] \<or> bits = 24") (auto simp: add)
  have 2: "pa_args (snd (pa_addNumberArray c sig bits ks p)) =
      pa_args p @ (if ks = [] \<or> bits = 24 then [] else [(True, number_array ks)])"
    using rejected accepted by (cases "ks = [] \<or> bits = 24") (auto simp: add types pa_select_def)
  have 3: "se_types (pa_selector (snd (pa_addNumberArray c sig bits ks p))) =
      se_types (pa_selector p) @ [\<lparr>pt_ty = NumberT sig bits, pt_array = True\<rparr>]"
    using types by (simp add: add split: sum.splits)
  show ?thesis using 1 2 3 by simp
qed

lemma number_arrays_accepted_witness:
  "(\<exists>e. fst (pa_addNumberArray twos_complement False 24 [7] pa_new) = Inl e) \<and>
   \<not> (\<exists>e. fst (pa_addNumberArray twos_complement True 32 [7, - 1] pa_new) = Inl e)"
proof -
  have "\<forall>k \<in> set [7]. number_fits False 24 k" "\<forall>k \<in> set [7, - 1]. number_fits True 32 k"
    by (simp_all add: number_fits_def)
  then show ?thesis
    using number_arrays_accepted [OF twos_complement_lawful, of "[7]" False 24 pa_new]
      number_arrays_accepted [OF twos_complement_lawful, of "[7, - 1]" True 32 pa_new] by simp
qed

end
