(* ===== verification/TxClass.thy ===== *)
theory TxClass
  imports Keys Transfers Abi
begin

text \<open>
  What the classes of transactions share.  The state of a class is the transaction it extends
  with the own data of the class (\<open>ct_data\<close>); a setter is \<open>guarded\<close> when it calls
  \<open>_requireNotFrozen\<close> first.  What the classes call of other packages are the fields of \<open>sdk\<close>.
  Numbers and durations that a setter also takes as plain numbers are given as \<open>Long\<close>.
\<close>

subsection \<open>State\<close>

record 'd class_tx = transaction +
  ct_data :: 'd

record 'k sdk =
  sk_text :: "'k id_text"
  sk_keyEncode :: "'k \<Rightarrow> bytes"
  sk_keyDecode :: "bytes \<Rightarrow> 'k option js"
  sk_keys :: "'k key_ops"
  sk_abi :: abi_coder

definition class_new :: "(nat \<Rightarrow> timestamp) \<Rightarrow> int \<Rightarrow> 'd \<Rightarrow> 'd class_tx" where
  "class_new starts fee d = transaction.extend (tx_new starts\<lparr>tx_defaultMaxFee := fee\<rparr>) (class_tx.fields d)"

definition unguarded :: "('d \<Rightarrow> 'd js) \<Rightarrow> 'd class_tx \<Rightarrow> 'd class_tx js" where
  "unguarded f q = js_bind (f (ct_data q)) (\<lambda>d. Inr (q\<lparr>ct_data := d\<rparr>))"

definition guarded :: "('d \<Rightarrow> 'd js) \<Rightarrow> 'd class_tx \<Rightarrow> 'd class_tx js" where
  "guarded f q = js_bind (tx_requireNotFrozen q) (\<lambda>_. unguarded f q)"

subsection \<open>Arguments and fields\<close>

text \<open>An id is parsed or copied.\<close>

definition copy_account :: "'k sdk \<Rightarrow> 'k account_arg \<Rightarrow> 'k account_id js" where
  "copy_account sk a =
     (case a of Inl i \<Rightarrow> account_clone i
      | Inr t \<Rightarrow> account_fromString (it_parse (sk_text sk)) (it_keyParse (sk_text sk)) t)"

definition copy_token :: "'k sdk \<Rightarrow> token_arg \<Rightarrow> token_id js" where
  "copy_token sk a =
     (case a of Inl i \<Rightarrow> token_clone i | Inr t \<Rightarrow> token_fromString (it_parse (sk_text sk)) t)"

abbreviation "account_message_of sk \<equiv> account_toProtobuf (sk_keyEncode sk)"
abbreviation "account_of_message sk \<equiv> account_fromProtobuf (sk_keyDecode sk)"

text \<open>A point in time is a \<open>Timestamp\<close> or a \<open>Date\<close>.\<close>

definition arg_time :: "timestamp + date \<Rightarrow> timestamp" where
  "arg_time a = (case a of Inl t \<Rightarrow> t | Inr d \<Rightarrow> ts_fromDate d)"

lemma arg_time_Inl [simp]: "arg_time (Inl t) = t"
  by (simp add: arg_time_def)

text \<open>\<open>Key._fromProtobufKey\<close> of an unknown key is \<open>null\<close>, which is no argument.\<close>

definition key_of_message :: "'k sdk \<Rightarrow> key_message option \<Rightarrow> 'k key option js" where
  "key_of_message sk m = (case m of None \<Rightarrow> Inr None | Some m \<Rightarrow> key_fromProtobuf (sk_keys sk) m)"

text \<open>\<open>Duration.js\<close>: a number of seconds.\<close>

record duration_message =
  dm_seconds :: long

definition duration_toProtobuf :: "long \<Rightarrow> duration_message" where
  "duration_toProtobuf d = \<lparr>dm_seconds = d\<rparr>"

definition duration_fromProtobuf :: "duration_message \<Rightarrow> long" where
  "duration_fromProtobuf m = dm_seconds m"

text \<open>The wrappers of strings, numbers and truth values in the messages of updates.\<close>

record 'a wrapper =
  wr_value :: "'a option"

definition wrapped :: "'a \<Rightarrow> 'a wrapper" where
  "wrapped a = \<lparr>wr_value = Some a\<rparr>"

definition check_account :: "'k sdk \<Rightarrow> ledger_id option \<Rightarrow> 'k account_id option \<Rightarrow> unit js" where
  "check_account sk ledger x =
     (case x of None \<Rightarrow> Inr () | Some i \<Rightarrow> account_validateChecksum (it_print (sk_text sk)) ledger i)"

definition check_token :: "'k sdk \<Rightarrow> ledger_id option \<Rightarrow> token_id option \<Rightarrow> unit js" where
  "check_token sk ledger x =
     (case x of None \<Rightarrow> Inr () | Some i \<Rightarrow> token_validateChecksum (it_print (sk_text sk)) ledger i)"

subsection \<open>Laws\<close>

text \<open>What is relied on of the other packages, and the ids that a message can hold.\<close>

definition sdk_lawful :: "'k sdk \<Rightarrow> bool" where
  "sdk_lawful sk \<longleftrightarrow>
     long_text (it_print (sk_text sk)) (it_parse (sk_text sk)) \<and> key_ops_lawful (sk_keys sk) \<and>
     (\<forall>k. sk_keyDecode sk (sk_keyEncode sk k) = Inr (Some k) \<and> length (sk_keyEncode sk k) \<noteq> 20)"

definition account_ok :: "'k account_id \<Rightarrow> bool" where
  "account_ok a \<longleftrightarrow> id_valid (account_triple a) \<and> (\<forall>e. ac_evmAddress a = Some e \<longrightarrow> length e = 20)"

definition token_ok :: "token_id \<Rightarrow> bool" where
  "token_ok i \<longleftrightarrow> id_valid (tk_ids i)"

definition token_read :: "token_id \<Rightarrow> token_id" where
  "token_read i = i\<lparr>tk_checksum := None\<rparr>"

lemma account_received:
  assumes "sdk_lawful sk" "account_ok a"
  shows "account_of_message sk (account_message_of sk a) = Inr (account_sent a)"
  using assms by (intro account_back) (auto simp: sdk_lawful_def account_ok_def)

lemma account_ok_sent: "account_ok a \<Longrightarrow> account_ok (account_sent a)"
  by (auto simp: account_ok_def account_sent_def account_triple_def id_valid_def split: option.split)

lemma account_copied: "account_ok a \<Longrightarrow> copy_account sk (Inl a) = Inr a"
  by (cases a) (simp add: copy_account_def account_clone_def account_new_def account_ok_def account_triple_def)

lemma token_received: "token_ok i \<Longrightarrow> token_fromProtobuf (token_toProtobuf i) = Inr (token_read i)"
  by (cases i; cases "tk_ids i")
    (simp add: token_ok_def token_read_def token_fromProtobuf_def token_toProtobuf_def id_toMessage_def token_new_def)

lemma token_ok_sent [simp]: "token_ok (token_read i) = token_ok i"
  by (simp add: token_ok_def token_read_def)

lemma token_read_twice [simp]: "map_option token_read (map_option token_read x) = map_option token_read x"
  by (cases x) (simp_all add: token_read_def)

lemma token_copied: "token_ok i \<Longrightarrow> copy_token sk (Inl i) = Inr i"
  by (cases i; cases "tk_ids i") (simp add: copy_token_def token_clone_def token_new_def token_ok_def)

definition time_ok :: "timestamp \<Rightarrow> bool" where
  "time_ok t \<longleftrightarrow> (\<forall>x \<in> {ts_seconds t, ts_nanos t}. - (2 ^ 31) \<le> sint x \<and> sint x < 2 ^ 31)"

lemma time_received: "time_ok t \<Longrightarrow> ts_fromProtobuf (ts_toProtobuf t) = t"
  by (cases t) (simp add: time_ok_def ts_fromProtobuf_def ts_toProtobuf_def long_toInt_fits [THEN iffD2])

lemma duration_received [simp]: "duration_fromProtobuf (duration_toProtobuf d) = d"
  by (simp add: duration_fromProtobuf_def duration_toProtobuf_def)

text \<open>A number that is sent with 32 bits.\<close>

definition int32_ok :: "long \<Rightarrow> bool" where
  "int32_ok n \<longleftrightarrow> - (2 ^ 31) \<le> sint n \<and> sint n < 2 ^ 31"

text \<open>An optional field is read back and set again.\<close>

definition opt_ok :: "('a \<Rightarrow> bool) \<Rightarrow> 'a option \<Rightarrow> bool" where
  "opt_ok ok x = (case x of None \<Rightarrow> True | Some a \<Rightarrow> ok a)"

lemma opt_ok_simps [simp]: "opt_ok ok None" "opt_ok ok (Some a) = ok a"
  by (simp_all add: opt_ok_def)

lemma opt_received:
  assumes "\<And>a. ok a \<Longrightarrow> get (put a) = Inr (sent a)" "opt_ok ok x"
  shows "js_opt get (map_option put x) = Inr (map_option sent x)"
  using assms by (cases x) simp_all

lemma account_opt:
  assumes "sdk_lawful sk" "opt_ok account_ok x"
  shows "js_opt (account_of_message sk) (map_option (account_message_of sk) x) = Inr (map_option account_sent x)"
  using assms(2) by (rule opt_received [rotated]) (rule account_received [OF assms(1)])

lemma token_opt:
  "opt_ok token_ok x \<Longrightarrow> js_opt token_fromProtobuf (map_option token_toProtobuf x) = Inr (map_option token_read x)"
  by (erule opt_received [rotated]) (rule token_received)

lemma time_opt: "opt_ok time_ok x \<Longrightarrow> map_option ts_fromProtobuf (map_option ts_toProtobuf x) = x"
  by (cases x) (simp_all add: time_received)

lemma duration_opt [simp]: "map_option duration_fromProtobuf (map_option duration_toProtobuf x) = x"
  by (cases x) simp_all

lemma int32_opt: "opt_ok int32_ok x \<Longrightarrow> map_option word_of_int (map_option long_toInt x) = x"
  by (cases x) (simp_all add: int32_ok_def long_toInt_fits [THEN iffD2])

lemma wrapped_opt [simp]: "Option.bind (map_option wrapped x) wr_value = x"
  by (cases x) (simp_all add: wrapped_def)

lemma key_opt:
  assumes "sdk_lawful sk" "opt_ok (key_ok (sk_keys sk)) x"
  shows "\<exists>m. js_opt (key_toProtobuf (sk_keys sk)) x = Inr m \<and> key_of_message sk m = Inr (map_option key_sent x)"
proof (cases x)
  case (Some k)
  then show ?thesis using key_back(1) [of "sk_keys sk" k] assms by (auto simp: sdk_lawful_def key_of_message_def)
qed (simp add: key_of_message_def)

lemma opt_account_sent: "opt_ok account_ok x \<Longrightarrow> opt_ok account_ok (map_option account_sent x)"
  by (cases x) (simp_all add: account_ok_sent)

lemma opt_token_read [simp]: "opt_ok token_ok (map_option token_read x) = opt_ok token_ok x"
  by (cases x) simp_all

definition or_else :: "'a option \<Rightarrow> 'a option \<Rightarrow> 'a option" where
  "or_else x y = (case x of None \<Rightarrow> y | Some a \<Rightarrow> Some a)"

lemma or_else_simps [simp]: "or_else None y = y" "or_else (Some a) y = Some a" "or_else x None = x"
  by (cases x; simp add: or_else_def)+

definition or_keep :: "'a option \<Rightarrow> 'a \<Rightarrow> 'a" where
  "or_keep x y = (case x of None \<Rightarrow> y | Some a \<Rightarrow> a)"

lemma or_keep_simps [simp]: "or_keep None y = y" "or_keep (Some a) y = a"
  by (simp_all add: or_keep_def)

subsection \<open>Guards\<close>

lemma new_not_frozen [simp]:
  "\<not> tx_isFrozen_any (class_new starts fee d)" "ct_data (class_new starts fee d) = d"
  "class_new starts fee d\<lparr>ct_data := d'\<rparr> = class_new starts fee d'"
  by (simp_all add: class_new_def tx_isFrozen_any_def tx_new_def ex_new_def executable.defs transaction.defs
      class_tx.defs rl_length_def rl_new_def)

lemma guarded_new [simp]:
  "guarded f (class_new starts fee d) = js_bind (f d) (\<lambda>d'. Inr (class_new starts fee d'))"
  by (simp add: guarded_def unguarded_def tx_requireNotFrozen_def)

lemma unguarded_new [simp]:
  "unguarded f (class_new starts fee d) = js_bind (f d) (\<lambda>d'. Inr (class_new starts fee d'))"
  by (simp add: unguarded_def)

lemma guarded_frozen: "tx_isFrozen_any q \<Longrightarrow> guarded f q = Inl TxImmutable"
  by (simp add: guarded_def tx_requireNotFrozen_def)

text \<open>Freezing leaves the data of the class as they are.\<close>

lemma freezeWith_keeps_data:
  fixes q :: "'d class_tx"
  assumes "tx_freezeWith cd validate pick client q = (r, client', q')"
  shows "ct_data q' = ct_data q"
proof -
  obtain r2 c2 q2 where p: "tx_setNodeAccountIds_client pick client (tx_freezeDefaults client q) = (r2, c2, q2)"
    by (metis prod_cases3)
  have d: "ct_data q2 = ct_data q"
    using p by (auto simp: tx_setNodeAccountIds_client_def tx_freezeDefaults_def Let_def
      split: if_splits option.splits prod.splits sum.splits)
  let ?q3 = "tx_buildNewTransactionIdList q2"
  have e: "ct_data ?q3 = ct_data q2"
    by (simp add: tx_buildNewTransactionIdList_def Let_def split: option.split)
  obtain r4 q4 where b: "tx_buildSignedTransactions cd ?q3 = (r4, q4)"
    by (cases "tx_buildSignedTransactions cd ?q3")
  have f: "ct_data q4 = ct_data ?q3"
    using b by (auto simp: tx_buildSignedTransactions_def split: if_splits sum.splits)
  have "q' = q2 \<or> q' = ?q3 \<or> q' = q4"
    using assms [unfolded tx_freezeWith_def Let_def p] b by (auto split: sum.splits if_splits)
  then show ?thesis using d e f by auto
qed

text \<open>What every setter keeps of the data.\<close>

lemma unguarded_keeps:
  assumes "unguarded f q = Inr q'" "\<And>d d'. f d = Inr d' \<Longrightarrow> P d \<Longrightarrow> P d'" "P (ct_data q)"
  shows "P (ct_data q')"
  using assms by (auto simp: unguarded_def js_bind_eq_Inr)

lemma guarded_keeps:
  assumes "guarded f q = Inr q'" "\<And>d d'. f d = Inr d' \<Longrightarrow> P d \<Longrightarrow> P d'" "P (ct_data q)"
  shows "P (ct_data q')"
  using assms unguarded_keeps [of f q q' P] by (auto simp: guarded_def js_bind_eq_Inr)

subsection \<open>An instance, for the witnesses\<close>

definition demo_sdk :: "bytes sdk" where
  "demo_sdk = \<lparr>sk_text = \<lparr>it_parse = std_parse, it_keyParse = (\<lambda>_. Inr []), it_print = std_print, it_keyText = (\<lambda>_. [])\<rparr>,
     sk_keyEncode = (\<lambda>k. replicate 21 0 @ k), sk_keyDecode = (\<lambda>bs. Inr (Some (drop 21 bs))),
     sk_keys = raw_keys, sk_abi = twos_complement\<rparr>"

lemma demo_sdk_lawful: "sdk_lawful demo_sdk"
  by (simp add: sdk_lawful_def demo_sdk_def raw_keys_lawful std_long_text)

end
