(* ===== verification/TokenTx.thy ===== *)
theory TokenTx
  imports TxClass
begin

text \<open>
  The transactions that act on tokens: \<open>token/TokenFreezeTransaction.js\<close>,
  \<open>TokenUnfreezeTransaction.js\<close>, \<open>TokenGrantKycTransaction.js\<close>, \<open>TokenRevokeKycTransaction.js\<close>,
  \<open>TokenDeleteTransaction.js\<close>, \<open>TokenPauseTransaction.js\<close>, \<open>TokenUnpauseTransaction.js\<close>,
  \<open>TokenAssociateTransaction.js\<close>, \<open>TokenDissociateTransaction.js\<close>, \<open>TokenMintTransaction.js\<close>,
  \<open>TokenBurnTransaction.js\<close> and \<open>TokenWipeTransaction.js\<close>.  Classes that differ in their names
  only are modelled by the first of them.
\<close>

subsection \<open>Lists of tokens\<close>

definition check_tokens :: "'k sdk \<Rightarrow> ledger_id option \<Rightarrow> token_id list option \<Rightarrow> unit js" where
  "check_tokens sk ledger x =
     js_bind (js_map (\<lambda>i. check_token sk ledger (Some i)) (case x of None \<Rightarrow> [] | Some l \<Rightarrow> l)) (\<lambda>_. Inr ())"

lemma tokens_copied: "list_all token_ok l \<Longrightarrow> js_map (copy_token sk) (map Inl l) = Inr l"
  by (induction l) (simp_all add: token_copied)

lemma tokens_opt:
  assumes "opt_ok (list_all token_ok) x"
  shows "js_opt (js_map token_fromProtobuf) (map_option (map token_toProtobuf) x) = Inr (map_option (map token_read) x)"
    and "opt_ok (list_all token_ok) (map_option (map token_read) x)"
proof -
  have "js_map token_fromProtobuf (map token_toProtobuf l) = Inr (map token_read l)" if "list_all token_ok l" for l
    using that by (induction l) (simp_all add: token_received)
  then show "js_opt (js_map token_fromProtobuf) (map_option (map token_toProtobuf) x) = Inr (map_option (map token_read) x)"
    using assms by (cases x) simp_all
  show "opt_ok (list_all token_ok) (map_option (map token_read) x)" using assms by (cases x) (simp_all add: list_all_iff)
qed

subsection \<open>A token and an account\<close>

record 'k token_account =
  ta_token :: "token_id option"
  ta_account :: "'k account_id option"

record token_account_message =
  tam_token :: "id_message option"
  tam_account :: "account_message option"

definition tokenFreeze_blank :: "'k token_account" where
  "tokenFreeze_blank = \<lparr>ta_token = None, ta_account = None\<rparr>"

definition tokenFreeze_setTokenId ::
  "'k sdk \<Rightarrow> token_arg \<Rightarrow> 'k token_account class_tx \<Rightarrow> 'k token_account class_tx js" where
  "tokenFreeze_setTokenId sk x = guarded (\<lambda>d. js_bind (copy_token sk x) (\<lambda>y. Inr (d\<lparr>ta_token := Some y\<rparr>)))"

definition tokenFreeze_setAccountId ::
  "'k sdk \<Rightarrow> 'k account_arg \<Rightarrow> 'k token_account class_tx \<Rightarrow> 'k token_account class_tx js" where
  "tokenFreeze_setAccountId sk x = guarded (\<lambda>d. js_bind (copy_account sk x) (\<lambda>y. Inr (d\<lparr>ta_account := Some y\<rparr>)))"

definition tokenFreeze_new ::
  "'k sdk \<Rightarrow> (nat \<Rightarrow> timestamp) \<Rightarrow> token_arg option \<Rightarrow>
   ('k account_arg) option \<Rightarrow> 'k token_account class_tx js" where
  "tokenFreeze_new sk starts token account =
     js_bind (when_given (tokenFreeze_setTokenId sk) token (class_new starts 200000000 tokenFreeze_blank)) (\<lambda>q.
       when_given (tokenFreeze_setAccountId sk) account q)"

definition tokenFreeze_validateChecksums :: "'k sdk \<Rightarrow> ledger_id option \<Rightarrow> 'k token_account \<Rightarrow> unit js" where
  "tokenFreeze_validateChecksums sk ledger d =
     js_bind (check_token sk ledger (ta_token d)) (\<lambda>_.
       check_account sk ledger (ta_account d))"

definition tokenFreeze_makeTransactionData ::
  "'k sdk \<Rightarrow> 'k token_account \<Rightarrow> token_account_message js" where
  "tokenFreeze_makeTransactionData sk d =
     Inr \<lparr>tam_token = map_option token_toProtobuf (ta_token d),
       tam_account = map_option (account_message_of sk) (ta_account d)\<rparr>"

definition tokenFreeze_fromProtobuf ::
  "'k sdk \<Rightarrow> (nat \<Rightarrow> timestamp) \<Rightarrow> token_account_message \<Rightarrow> 'k token_account class_tx js" where
  "tokenFreeze_fromProtobuf sk starts m =
     js_bind (js_opt token_fromProtobuf (tam_token m)) (\<lambda>token.
     js_bind (js_opt (account_of_message sk) (tam_account m)) (\<lambda>account.
       tokenFreeze_new sk starts (map_option Inl token) (map_option Inl account)))"

definition tokenFreeze_ok :: "'k token_account \<Rightarrow> bool" where
  "tokenFreeze_ok d \<longleftrightarrow>
     opt_ok token_ok (ta_token d) \<and>
     opt_ok account_ok (ta_account d)"

definition tokenFreeze_read :: "'k token_account \<Rightarrow> 'k token_account" where
  "tokenFreeze_read d =
     d\<lparr>ta_token := map_option token_read (ta_token d),
       ta_account := map_option account_sent (ta_account d)\<rparr>"

lemma tokenFreeze_given_token:
  "opt_ok token_ok x \<Longrightarrow> when_given (tokenFreeze_setTokenId sk) (map_option Inl x) (class_new s fee d) =
     Inr (class_new s fee (d\<lparr>ta_token := or_else x (ta_token d)\<rparr>))"
  by (cases x; cases d) (simp_all add: tokenFreeze_setTokenId_def token_copied)

lemma tokenFreeze_given_account:
  "opt_ok account_ok x \<Longrightarrow> when_given (tokenFreeze_setAccountId sk) (map_option Inl x) (class_new s fee d) =
     Inr (class_new s fee (d\<lparr>ta_account := or_else x (ta_account d)\<rparr>))"
  by (cases x; cases d) (simp_all add: tokenFreeze_setAccountId_def account_copied)

lemmas tokenFreeze_given = tokenFreeze_given_token tokenFreeze_given_account

lemma tokenFreeze_back:
  assumes "sdk_lawful sk" "tokenFreeze_ok d"
  shows "\<exists>m. tokenFreeze_makeTransactionData sk d = Inr m \<and>
    tokenFreeze_fromProtobuf sk starts m = Inr (class_new starts 200000000 (tokenFreeze_read d))"
  using assms unfolding tokenFreeze_ok_def
  by (cases d) (simp add: tokenFreeze_makeTransactionData_def tokenFreeze_fromProtobuf_def tokenFreeze_new_def
      tokenFreeze_given tokenFreeze_blank_def tokenFreeze_read_def account_opt [OF assms(1)]
      opt_account_sent token_opt)

definition tokenUnfreeze_setTokenId ::
  "'k sdk \<Rightarrow> token_arg \<Rightarrow> 'k token_account class_tx \<Rightarrow> 'k token_account class_tx js" where
  "tokenUnfreeze_setTokenId = tokenFreeze_setTokenId"

definition tokenUnfreeze_setAccountId ::
  "'k sdk \<Rightarrow> 'k account_arg \<Rightarrow> 'k token_account class_tx \<Rightarrow> 'k token_account class_tx js" where
  "tokenUnfreeze_setAccountId = tokenFreeze_setAccountId"

definition tokenUnfreeze_new ::
  "'k sdk \<Rightarrow> (nat \<Rightarrow> timestamp) \<Rightarrow> token_arg option \<Rightarrow> 'k account_arg option \<Rightarrow> 'k token_account class_tx js" where
  "tokenUnfreeze_new sk starts token account =
     js_bind (when_given (tokenUnfreeze_setTokenId sk) token (class_new starts 200000000 tokenFreeze_blank)) (\<lambda>q.
       when_given (tokenUnfreeze_setAccountId sk) account q)"

definition tokenUnfreeze_validateChecksums ::
  "'k sdk \<Rightarrow> ledger_id option \<Rightarrow> 'k token_account \<Rightarrow> unit js" where
  "tokenUnfreeze_validateChecksums = tokenFreeze_validateChecksums"

definition tokenUnfreeze_makeTransactionData ::
  "'k sdk \<Rightarrow> 'k token_account \<Rightarrow> token_account_message js" where
  "tokenUnfreeze_makeTransactionData = tokenFreeze_makeTransactionData"

definition tokenUnfreeze_fromProtobuf ::
  "'k sdk \<Rightarrow> (nat \<Rightarrow> timestamp) \<Rightarrow> token_account_message \<Rightarrow> 'k token_account class_tx js" where
  "tokenUnfreeze_fromProtobuf sk starts m =
     js_bind (js_opt token_fromProtobuf (tam_token m)) (\<lambda>token.
     js_bind (js_opt (account_of_message sk) (tam_account m)) (\<lambda>account.
       tokenUnfreeze_new sk starts (map_option Inl token) (map_option Inl account)))"

definition tokenGrantKyc_setTokenId ::
  "'k sdk \<Rightarrow> token_arg \<Rightarrow> 'k token_account class_tx \<Rightarrow> 'k token_account class_tx js" where
  "tokenGrantKyc_setTokenId = tokenFreeze_setTokenId"

definition tokenGrantKyc_setAccountId ::
  "'k sdk \<Rightarrow> 'k account_arg \<Rightarrow> 'k token_account class_tx \<Rightarrow> 'k token_account class_tx js" where
  "tokenGrantKyc_setAccountId = tokenFreeze_setAccountId"

definition tokenGrantKyc_new ::
  "'k sdk \<Rightarrow> (nat \<Rightarrow> timestamp) \<Rightarrow> token_arg option \<Rightarrow> 'k account_arg option \<Rightarrow> 'k token_account class_tx js" where
  "tokenGrantKyc_new sk starts token account =
     js_bind (when_given (tokenGrantKyc_setTokenId sk) token (class_new starts 200000000 tokenFreeze_blank)) (\<lambda>q.
       when_given (tokenGrantKyc_setAccountId sk) account q)"

definition tokenGrantKyc_validateChecksums ::
  "'k sdk \<Rightarrow> ledger_id option \<Rightarrow> 'k token_account \<Rightarrow> unit js" where
  "tokenGrantKyc_validateChecksums = tokenFreeze_validateChecksums"

definition tokenGrantKyc_makeTransactionData ::
  "'k sdk \<Rightarrow> 'k token_account \<Rightarrow> token_account_message js" where
  "tokenGrantKyc_makeTransactionData = tokenFreeze_makeTransactionData"

definition tokenGrantKyc_fromProtobuf ::
  "'k sdk \<Rightarrow> (nat \<Rightarrow> timestamp) \<Rightarrow> token_account_message \<Rightarrow> 'k token_account class_tx js" where
  "tokenGrantKyc_fromProtobuf sk starts m =
     js_bind (js_opt token_fromProtobuf (tam_token m)) (\<lambda>token.
     js_bind (js_opt (account_of_message sk) (tam_account m)) (\<lambda>account.
       tokenGrantKyc_new sk starts (map_option Inl token) (map_option Inl account)))"

definition tokenRevokeKyc_setTokenId ::
  "'k sdk \<Rightarrow> token_arg \<Rightarrow> 'k token_account class_tx \<Rightarrow> 'k token_account class_tx js" where
  "tokenRevokeKyc_setTokenId = tokenFreeze_setTokenId"

definition tokenRevokeKyc_setAccountId ::
  "'k sdk \<Rightarrow> 'k account_arg \<Rightarrow> 'k token_account class_tx \<Rightarrow> 'k token_account class_tx js" where
  "tokenRevokeKyc_setAccountId = tokenFreeze_setAccountId"

definition tokenRevokeKyc_new ::
  "'k sdk \<Rightarrow> (nat \<Rightarrow> timestamp) \<Rightarrow> token_arg option \<Rightarrow> 'k account_arg option \<Rightarrow> 'k token_account class_tx js" where
  "tokenRevokeKyc_new sk starts token account =
     js_bind (when_given (tokenRevokeKyc_setTokenId sk) token (class_new starts 200000000 tokenFreeze_blank)) (\<lambda>q.
       when_given (tokenRevokeKyc_setAccountId sk) account q)"

definition tokenRevokeKyc_validateChecksums ::
  "'k sdk \<Rightarrow> ledger_id option \<Rightarrow> 'k token_account \<Rightarrow> unit js" where
  "tokenRevokeKyc_validateChecksums = tokenFreeze_validateChecksums"

definition tokenRevokeKyc_makeTransactionData ::
  "'k sdk \<Rightarrow> 'k token_account \<Rightarrow> token_account_message js" where
  "tokenRevokeKyc_makeTransactionData = tokenFreeze_makeTransactionData"

definition tokenRevokeKyc_fromProtobuf ::
  "'k sdk \<Rightarrow> (nat \<Rightarrow> timestamp) \<Rightarrow> token_account_message \<Rightarrow> 'k token_account class_tx js" where
  "tokenRevokeKyc_fromProtobuf sk starts m =
     js_bind (js_opt token_fromProtobuf (tam_token m)) (\<lambda>token.
     js_bind (js_opt (account_of_message sk) (tam_account m)) (\<lambda>account.
       tokenRevokeKyc_new sk starts (map_option Inl token) (map_option Inl account)))"

lemmas token_account_defs = tokenUnfreeze_setTokenId_def tokenUnfreeze_setAccountId_def tokenUnfreeze_new_def
  tokenUnfreeze_makeTransactionData_def tokenUnfreeze_fromProtobuf_def tokenGrantKyc_setTokenId_def
  tokenGrantKyc_setAccountId_def tokenGrantKyc_new_def tokenGrantKyc_makeTransactionData_def
  tokenGrantKyc_fromProtobuf_def tokenRevokeKyc_setTokenId_def tokenRevokeKyc_setAccountId_def
  tokenRevokeKyc_new_def tokenRevokeKyc_makeTransactionData_def tokenRevokeKyc_fromProtobuf_def

lemma token_account_same:
  "tokenUnfreeze_fromProtobuf = tokenFreeze_fromProtobuf" "tokenUnfreeze_makeTransactionData = tokenFreeze_makeTransactionData"
  "tokenGrantKyc_fromProtobuf = tokenFreeze_fromProtobuf" "tokenGrantKyc_makeTransactionData = tokenFreeze_makeTransactionData"
  "tokenRevokeKyc_fromProtobuf = tokenFreeze_fromProtobuf" "tokenRevokeKyc_makeTransactionData = tokenFreeze_makeTransactionData"
  by (simp_all add: fun_eq_iff token_account_defs tokenFreeze_fromProtobuf_def tokenFreeze_new_def)

subsection \<open>A token\<close>

record token_only =
  to_token :: "token_id option"

record token_only_message =
  tom_token :: "id_message option"

definition tokenDelete_blank :: "token_only" where
  "tokenDelete_blank = \<lparr>to_token = None\<rparr>"

definition tokenDelete_setTokenId ::
  "'k sdk \<Rightarrow> token_arg \<Rightarrow> token_only class_tx \<Rightarrow> token_only class_tx js" where
  "tokenDelete_setTokenId sk x = guarded (\<lambda>d. js_bind (copy_token sk x) (\<lambda>y. Inr (d\<lparr>to_token := Some y\<rparr>)))"

definition tokenDelete_new ::
  "'k sdk \<Rightarrow> (nat \<Rightarrow> timestamp) \<Rightarrow> token_arg option \<Rightarrow>
   token_only class_tx js" where
  "tokenDelete_new sk starts token =
     when_given (tokenDelete_setTokenId sk) token (class_new starts 200000000 tokenDelete_blank)"

definition tokenDelete_validateChecksums :: "'k sdk \<Rightarrow> ledger_id option \<Rightarrow> token_only \<Rightarrow> unit js" where
  "tokenDelete_validateChecksums sk ledger d =
     check_token sk ledger (to_token d)"

definition tokenDelete_makeTransactionData ::
  "'k sdk \<Rightarrow> token_only \<Rightarrow> token_only_message js" where
  "tokenDelete_makeTransactionData sk d =
     Inr \<lparr>tom_token = map_option token_toProtobuf (to_token d)\<rparr>"

definition tokenDelete_fromProtobuf ::
  "'k sdk \<Rightarrow> (nat \<Rightarrow> timestamp) \<Rightarrow> token_only_message \<Rightarrow> token_only class_tx js" where
  "tokenDelete_fromProtobuf sk starts m =
     js_bind (js_opt token_fromProtobuf (tom_token m)) (\<lambda>token.
       tokenDelete_new sk starts (map_option Inl token))"

definition tokenDelete_ok :: "token_only \<Rightarrow> bool" where
  "tokenDelete_ok d \<longleftrightarrow>
     opt_ok token_ok (to_token d)"

definition tokenDelete_read :: "token_only \<Rightarrow> token_only" where
  "tokenDelete_read d =
     d\<lparr>to_token := map_option token_read (to_token d)\<rparr>"

lemma tokenDelete_given_token:
  "opt_ok token_ok x \<Longrightarrow> when_given (tokenDelete_setTokenId sk) (map_option Inl x) (class_new s fee d) =
     Inr (class_new s fee (d\<lparr>to_token := or_else x (to_token d)\<rparr>))"
  by (cases x; cases d) (simp_all add: tokenDelete_setTokenId_def token_copied)

lemmas tokenDelete_given = tokenDelete_given_token

lemma tokenDelete_back:
  assumes "sdk_lawful sk" "tokenDelete_ok d"
  shows "\<exists>m. tokenDelete_makeTransactionData sk d = Inr m \<and>
    tokenDelete_fromProtobuf sk starts m = Inr (class_new starts 200000000 (tokenDelete_read d))"
  using assms unfolding tokenDelete_ok_def
  by (cases d) (simp add: tokenDelete_makeTransactionData_def tokenDelete_fromProtobuf_def tokenDelete_new_def
      tokenDelete_given tokenDelete_blank_def tokenDelete_read_def token_opt)

definition tokenPause_setTokenId ::
  "'k sdk \<Rightarrow> token_arg \<Rightarrow> token_only class_tx \<Rightarrow> token_only class_tx js" where
  "tokenPause_setTokenId = tokenDelete_setTokenId"

definition tokenPause_new :: "'k sdk \<Rightarrow> (nat \<Rightarrow> timestamp) \<Rightarrow> token_arg option \<Rightarrow> token_only class_tx js" where
  "tokenPause_new sk starts token = when_given (tokenPause_setTokenId sk) token (class_new starts 200000000 tokenDelete_blank)"

definition tokenPause_validateChecksums ::
  "'k sdk \<Rightarrow> ledger_id option \<Rightarrow> token_only \<Rightarrow> unit js" where
  "tokenPause_validateChecksums = tokenDelete_validateChecksums"

definition tokenPause_makeTransactionData ::
  "'k sdk \<Rightarrow> token_only \<Rightarrow> token_only_message js" where
  "tokenPause_makeTransactionData = tokenDelete_makeTransactionData"

definition tokenPause_fromProtobuf ::
  "'k sdk \<Rightarrow> (nat \<Rightarrow> timestamp) \<Rightarrow> token_only_message \<Rightarrow> token_only class_tx js" where
  "tokenPause_fromProtobuf sk starts m =
     js_bind (js_opt token_fromProtobuf (tom_token m)) (\<lambda>token. tokenPause_new sk starts (map_option Inl token))"

definition tokenUnpause_setTokenId ::
  "'k sdk \<Rightarrow> token_arg \<Rightarrow> token_only class_tx \<Rightarrow> token_only class_tx js" where
  "tokenUnpause_setTokenId = tokenDelete_setTokenId"

definition tokenUnpause_new :: "'k sdk \<Rightarrow> (nat \<Rightarrow> timestamp) \<Rightarrow> token_arg option \<Rightarrow> token_only class_tx js" where
  "tokenUnpause_new sk starts token = when_given (tokenUnpause_setTokenId sk) token (class_new starts 200000000 tokenDelete_blank)"

definition tokenUnpause_validateChecksums ::
  "'k sdk \<Rightarrow> ledger_id option \<Rightarrow> token_only \<Rightarrow> unit js" where
  "tokenUnpause_validateChecksums = tokenDelete_validateChecksums"

definition tokenUnpause_makeTransactionData ::
  "'k sdk \<Rightarrow> token_only \<Rightarrow> token_only_message js" where
  "tokenUnpause_makeTransactionData = tokenDelete_makeTransactionData"

definition tokenUnpause_fromProtobuf ::
  "'k sdk \<Rightarrow> (nat \<Rightarrow> timestamp) \<Rightarrow> token_only_message \<Rightarrow> token_only class_tx js" where
  "tokenUnpause_fromProtobuf sk starts m =
     js_bind (js_opt token_fromProtobuf (tom_token m)) (\<lambda>token. tokenUnpause_new sk starts (map_option Inl token))"

lemma token_only_same:
  "tokenPause_fromProtobuf = tokenDelete_fromProtobuf" "tokenPause_makeTransactionData = tokenDelete_makeTransactionData"
  "tokenUnpause_fromProtobuf = tokenDelete_fromProtobuf" "tokenUnpause_makeTransactionData = tokenDelete_makeTransactionData"
  by (simp_all add: fun_eq_iff tokenPause_setTokenId_def tokenPause_new_def tokenPause_makeTransactionData_def
      tokenPause_fromProtobuf_def tokenUnpause_setTokenId_def tokenUnpause_new_def
      tokenUnpause_makeTransactionData_def tokenUnpause_fromProtobuf_def tokenDelete_fromProtobuf_def tokenDelete_new_def)

subsection \<open>Tokens and an account\<close>

record 'k token_list =
  tl_tokens :: "token_id list option"
  tl_account :: "'k account_id option"

record token_list_message =
  tlm_tokens :: "(id_message list) option"
  tlm_account :: "account_message option"

definition tokenAssociate_blank :: "'k token_list" where
  "tokenAssociate_blank = \<lparr>tl_tokens = None, tl_account = None\<rparr>"

definition tokenAssociate_setTokenIds ::
  "'k sdk \<Rightarrow> token_arg list \<Rightarrow> 'k token_list class_tx \<Rightarrow> 'k token_list class_tx js" where
  "tokenAssociate_setTokenIds sk x = guarded (\<lambda>d. js_bind (js_map (copy_token sk) x) (\<lambda>y. Inr (d\<lparr>tl_tokens := Some y\<rparr>)))"

definition tokenAssociate_setAccountId ::
  "'k sdk \<Rightarrow> 'k account_arg \<Rightarrow> 'k token_list class_tx \<Rightarrow> 'k token_list class_tx js" where
  "tokenAssociate_setAccountId sk x = guarded (\<lambda>d. js_bind (copy_account sk x) (\<lambda>y. Inr (d\<lparr>tl_account := Some y\<rparr>)))"

definition tokenAssociate_new ::
  "'k sdk \<Rightarrow> (nat \<Rightarrow> timestamp) \<Rightarrow> (token_arg list) option \<Rightarrow>
   ('k account_arg) option \<Rightarrow> 'k token_list class_tx js" where
  "tokenAssociate_new sk starts tokens account =
     js_bind (when_given (tokenAssociate_setTokenIds sk) tokens (class_new starts 500000000 tokenAssociate_blank)) (\<lambda>q.
       when_given (tokenAssociate_setAccountId sk) account q)"

definition tokenAssociate_validateChecksums :: "'k sdk \<Rightarrow> ledger_id option \<Rightarrow> 'k token_list \<Rightarrow> unit js" where
  "tokenAssociate_validateChecksums sk ledger d =
     js_bind (check_account sk ledger (tl_account d)) (\<lambda>_.
       check_tokens sk ledger (tl_tokens d))"

definition tokenAssociate_makeTransactionData ::
  "'k sdk \<Rightarrow> 'k token_list \<Rightarrow> token_list_message js" where
  "tokenAssociate_makeTransactionData sk d =
     Inr \<lparr>tlm_tokens = map_option (map token_toProtobuf) (tl_tokens d),
       tlm_account = map_option (account_message_of sk) (tl_account d)\<rparr>"

definition tokenAssociate_fromProtobuf ::
  "'k sdk \<Rightarrow> (nat \<Rightarrow> timestamp) \<Rightarrow> token_list_message \<Rightarrow> 'k token_list class_tx js" where
  "tokenAssociate_fromProtobuf sk starts m =
     js_bind (js_opt (js_map token_fromProtobuf) (tlm_tokens m)) (\<lambda>tokens.
     js_bind (js_opt (account_of_message sk) (tlm_account m)) (\<lambda>account.
       tokenAssociate_new sk starts (map_option (map Inl) tokens) (map_option Inl account)))"

definition tokenAssociate_ok :: "'k token_list \<Rightarrow> bool" where
  "tokenAssociate_ok d \<longleftrightarrow>
     opt_ok (list_all token_ok) (tl_tokens d) \<and>
     opt_ok account_ok (tl_account d)"

definition tokenAssociate_read :: "'k token_list \<Rightarrow> 'k token_list" where
  "tokenAssociate_read d =
     d\<lparr>tl_tokens := map_option (map token_read) (tl_tokens d),
       tl_account := map_option account_sent (tl_account d)\<rparr>"

lemma tokenAssociate_given_tokens:
  "opt_ok (list_all token_ok) x \<Longrightarrow> when_given (tokenAssociate_setTokenIds sk) (map_option (map Inl) x) (class_new s fee d) =
     Inr (class_new s fee (d\<lparr>tl_tokens := or_else x (tl_tokens d)\<rparr>))"
  by (cases x; cases d) (simp_all add: tokenAssociate_setTokenIds_def tokens_copied)

lemma tokenAssociate_given_account:
  "opt_ok account_ok x \<Longrightarrow> when_given (tokenAssociate_setAccountId sk) (map_option Inl x) (class_new s fee d) =
     Inr (class_new s fee (d\<lparr>tl_account := or_else x (tl_account d)\<rparr>))"
  by (cases x; cases d) (simp_all add: tokenAssociate_setAccountId_def account_copied)

lemmas tokenAssociate_given = tokenAssociate_given_tokens tokenAssociate_given_account

lemma tokenAssociate_back:
  assumes "sdk_lawful sk" "tokenAssociate_ok d"
  shows "\<exists>m. tokenAssociate_makeTransactionData sk d = Inr m \<and>
    tokenAssociate_fromProtobuf sk starts m = Inr (class_new starts 500000000 (tokenAssociate_read d))"
  using assms unfolding tokenAssociate_ok_def
  by (cases d) (simp add: tokenAssociate_makeTransactionData_def tokenAssociate_fromProtobuf_def
      tokenAssociate_new_def tokenAssociate_given tokenAssociate_blank_def tokenAssociate_read_def
      account_opt [OF assms(1)] opt_account_sent tokens_opt)

definition tokenDissociate_setTokenIds ::
  "'k sdk \<Rightarrow> token_arg list \<Rightarrow> 'k token_list class_tx \<Rightarrow> 'k token_list class_tx js" where
  "tokenDissociate_setTokenIds = tokenAssociate_setTokenIds"

definition tokenDissociate_setAccountId ::
  "'k sdk \<Rightarrow> 'k account_arg \<Rightarrow> 'k token_list class_tx \<Rightarrow> 'k token_list class_tx js" where
  "tokenDissociate_setAccountId = tokenAssociate_setAccountId"

definition tokenDissociate_new ::
  "'k sdk \<Rightarrow> (nat \<Rightarrow> timestamp) \<Rightarrow> token_arg list option \<Rightarrow> 'k account_arg option \<Rightarrow> 'k token_list class_tx js" where
  "tokenDissociate_new sk starts tokens account =
     js_bind (when_given (tokenDissociate_setTokenIds sk) tokens (class_new starts 500000000 tokenAssociate_blank)) (\<lambda>q.
       when_given (tokenDissociate_setAccountId sk) account q)"

definition tokenDissociate_validateChecksums ::
  "'k sdk \<Rightarrow> ledger_id option \<Rightarrow> 'k token_list \<Rightarrow> unit js" where
  "tokenDissociate_validateChecksums = tokenAssociate_validateChecksums"

definition tokenDissociate_makeTransactionData ::
  "'k sdk \<Rightarrow> 'k token_list \<Rightarrow> token_list_message js" where
  "tokenDissociate_makeTransactionData = tokenAssociate_makeTransactionData"

definition tokenDissociate_fromProtobuf ::
  "'k sdk \<Rightarrow> (nat \<Rightarrow> timestamp) \<Rightarrow> token_list_message \<Rightarrow> 'k token_list class_tx js" where
  "tokenDissociate_fromProtobuf sk starts m =
     js_bind (js_opt (js_map token_fromProtobuf) (tlm_tokens m)) (\<lambda>tokens.
     js_bind (js_opt (account_of_message sk) (tlm_account m)) (\<lambda>account.
       tokenDissociate_new sk starts (map_option (map Inl) tokens) (map_option Inl account)))"

lemma token_list_same:
  "tokenDissociate_fromProtobuf = tokenAssociate_fromProtobuf"
  "tokenDissociate_makeTransactionData = tokenAssociate_makeTransactionData"
  by (simp_all add: fun_eq_iff tokenDissociate_setTokenIds_def tokenDissociate_setAccountId_def tokenDissociate_new_def
      tokenDissociate_makeTransactionData_def tokenDissociate_fromProtobuf_def tokenAssociate_fromProtobuf_def
      tokenAssociate_new_def)

subsection \<open>Minting, burning and wiping\<close>

text \<open>Metadata given as text is hexadecimal.\<close>

definition arg_metadata :: "bytes + string \<Rightarrow> bytes" where
  "arg_metadata a = (case a of Inl b \<Rightarrow> b | Inr t \<Rightarrow> hex_decode t)"

lemma arg_metadata_Inl [simp]: "arg_metadata (Inl b) = b"
  by (simp add: arg_metadata_def)

record token_mint =
  mi_token :: "token_id option"
  mi_amount :: "long option"
  mi_metadata :: "bytes list"

record token_mint_message =
  mim_token :: "id_message option"
  mim_amount :: "long option"
  mim_metadata :: "(bytes list) option"

definition tokenMint_blank :: "token_mint" where
  "tokenMint_blank = \<lparr>mi_token = None, mi_amount = None, mi_metadata = []\<rparr>"

definition tokenMint_setTokenId ::
  "'k sdk \<Rightarrow> token_arg \<Rightarrow> token_mint class_tx \<Rightarrow> token_mint class_tx js" where
  "tokenMint_setTokenId sk x = guarded (\<lambda>d. js_bind (copy_token sk x) (\<lambda>y. Inr (d\<lparr>mi_token := Some y\<rparr>)))"

definition tokenMint_setAmount ::
  "long \<Rightarrow> token_mint class_tx \<Rightarrow> token_mint class_tx js" where
  "tokenMint_setAmount x = guarded (\<lambda>d. Inr (d\<lparr>mi_amount := Some x\<rparr>))"

definition tokenMint_setMetadata ::
  "(bytes + string) list \<Rightarrow> token_mint class_tx \<Rightarrow> token_mint class_tx js" where
  "tokenMint_setMetadata x = guarded (\<lambda>d. Inr (d\<lparr>mi_metadata := map arg_metadata x\<rparr>))"

definition tokenMint_new ::
  "'k sdk \<Rightarrow> (nat \<Rightarrow> timestamp) \<Rightarrow> token_arg option \<Rightarrow>
   long option \<Rightarrow> ((bytes + string) list) option \<Rightarrow> token_mint class_tx js" where
  "tokenMint_new sk starts token amount metadata =
     js_bind (when_given (tokenMint_setTokenId sk) token (class_new starts 200000000 tokenMint_blank)) (\<lambda>q.
     js_bind (when_given tokenMint_setAmount amount q) (\<lambda>q.
       when_given tokenMint_setMetadata metadata q))"

definition tokenMint_validateChecksums :: "'k sdk \<Rightarrow> ledger_id option \<Rightarrow> token_mint \<Rightarrow> unit js" where
  "tokenMint_validateChecksums sk ledger d =
     check_token sk ledger (mi_token d)"

definition tokenMint_makeTransactionData ::
  "'k sdk \<Rightarrow> token_mint \<Rightarrow> token_mint_message js" where
  "tokenMint_makeTransactionData sk d =
     Inr \<lparr>mim_token = map_option token_toProtobuf (mi_token d),
       mim_amount = mi_amount d,
       mim_metadata = Some (mi_metadata d)\<rparr>"

definition tokenMint_fromProtobuf ::
  "'k sdk \<Rightarrow> (nat \<Rightarrow> timestamp) \<Rightarrow> token_mint_message \<Rightarrow> token_mint class_tx js" where
  "tokenMint_fromProtobuf sk starts m =
     js_bind (js_opt token_fromProtobuf (mim_token m)) (\<lambda>token.
       tokenMint_new sk starts (map_option Inl token) (mim_amount m) (map_option (map Inl) (mim_metadata m)))"

definition tokenMint_addMetadata :: "bytes + string \<Rightarrow> token_mint class_tx \<Rightarrow> token_mint class_tx js" where
  "tokenMint_addMetadata x = guarded (\<lambda>d. Inr (d\<lparr>mi_metadata := mi_metadata d @ [arg_metadata x]\<rparr>))"

definition tokenMint_ok :: "token_mint \<Rightarrow> bool" where
  "tokenMint_ok d \<longleftrightarrow>
     opt_ok token_ok (mi_token d)"

definition tokenMint_read :: "token_mint \<Rightarrow> token_mint" where
  "tokenMint_read d =
     d\<lparr>mi_token := map_option token_read (mi_token d)\<rparr>"

lemma tokenMint_given_token:
  "opt_ok token_ok x \<Longrightarrow> when_given (tokenMint_setTokenId sk) (map_option Inl x) (class_new s fee d) =
     Inr (class_new s fee (d\<lparr>mi_token := or_else x (mi_token d)\<rparr>))"
  by (cases x; cases d) (simp_all add: tokenMint_setTokenId_def token_copied)

lemma tokenMint_given_amount:
  "when_given tokenMint_setAmount x (class_new s fee d) =
     Inr (class_new s fee (d\<lparr>mi_amount := or_else x (mi_amount d)\<rparr>))"
  by (cases x; cases d) (simp_all add: tokenMint_setAmount_def)

lemma tokenMint_given_metadata:
  "when_given tokenMint_setMetadata (map_option (map Inl) x) (class_new s fee d) =
     Inr (class_new s fee (d\<lparr>mi_metadata := or_keep x (mi_metadata d)\<rparr>))"
  by (cases x; cases d) (simp_all add: tokenMint_setMetadata_def comp_def)

lemmas tokenMint_given = tokenMint_given_token tokenMint_given_amount tokenMint_given_metadata

lemma tokenMint_back:
  assumes "sdk_lawful sk" "tokenMint_ok d"
  shows "\<exists>m. tokenMint_makeTransactionData sk d = Inr m \<and>
    tokenMint_fromProtobuf sk starts m = Inr (class_new starts 200000000 (tokenMint_read d))"
  using assms unfolding tokenMint_ok_def
  by (cases d) (simp add: tokenMint_makeTransactionData_def tokenMint_fromProtobuf_def tokenMint_new_def
      tokenMint_given tokenMint_blank_def tokenMint_read_def token_opt tokenMint_setMetadata_def
      comp_def)

record token_burn =
  bu_token :: "token_id option"
  bu_amount :: "long option"
  bu_serials :: "long list"

record token_burn_message =
  bum_token :: "id_message option"
  bum_amount :: "long option"
  bum_serialNumbers :: "(long list) option"

definition tokenBurn_blank :: "token_burn" where
  "tokenBurn_blank = \<lparr>bu_token = None, bu_amount = None, bu_serials = []\<rparr>"

definition tokenBurn_setTokenId ::
  "'k sdk \<Rightarrow> token_arg \<Rightarrow> token_burn class_tx \<Rightarrow> token_burn class_tx js" where
  "tokenBurn_setTokenId sk x = guarded (\<lambda>d. js_bind (copy_token sk x) (\<lambda>y. Inr (d\<lparr>bu_token := Some y\<rparr>)))"

definition tokenBurn_setAmount ::
  "long \<Rightarrow> token_burn class_tx \<Rightarrow> token_burn class_tx js" where
  "tokenBurn_setAmount x = guarded (\<lambda>d. Inr (d\<lparr>bu_amount := Some x\<rparr>))"

definition tokenBurn_setSerials ::
  "long list \<Rightarrow> token_burn class_tx \<Rightarrow> token_burn class_tx js" where
  "tokenBurn_setSerials x = guarded (\<lambda>d. Inr (d\<lparr>bu_serials := x\<rparr>))"

definition tokenBurn_new ::
  "'k sdk \<Rightarrow> (nat \<Rightarrow> timestamp) \<Rightarrow> token_arg option \<Rightarrow>
   long option \<Rightarrow> (long list) option \<Rightarrow> token_burn class_tx js" where
  "tokenBurn_new sk starts token amount serials =
     js_bind (when_given (tokenBurn_setTokenId sk) token (class_new starts 200000000 tokenBurn_blank)) (\<lambda>q.
     js_bind (when_given tokenBurn_setAmount amount q) (\<lambda>q.
       when_given tokenBurn_setSerials serials q))"

definition tokenBurn_validateChecksums :: "'k sdk \<Rightarrow> ledger_id option \<Rightarrow> token_burn \<Rightarrow> unit js" where
  "tokenBurn_validateChecksums sk ledger d =
     check_token sk ledger (bu_token d)"

definition tokenBurn_makeTransactionData ::
  "'k sdk \<Rightarrow> token_burn \<Rightarrow> token_burn_message js" where
  "tokenBurn_makeTransactionData sk d =
     Inr \<lparr>bum_token = map_option token_toProtobuf (bu_token d),
       bum_amount = bu_amount d,
       bum_serialNumbers = Some (bu_serials d)\<rparr>"

definition tokenBurn_fromProtobuf ::
  "'k sdk \<Rightarrow> (nat \<Rightarrow> timestamp) \<Rightarrow> token_burn_message \<Rightarrow> token_burn class_tx js" where
  "tokenBurn_fromProtobuf sk starts m =
     js_bind (js_opt token_fromProtobuf (bum_token m)) (\<lambda>token.
       tokenBurn_new sk starts (map_option Inl token) (bum_amount m) (bum_serialNumbers m))"

definition tokenBurn_ok :: "token_burn \<Rightarrow> bool" where
  "tokenBurn_ok d \<longleftrightarrow>
     opt_ok token_ok (bu_token d)"

definition tokenBurn_read :: "token_burn \<Rightarrow> token_burn" where
  "tokenBurn_read d =
     d\<lparr>bu_token := map_option token_read (bu_token d)\<rparr>"

lemma tokenBurn_given_token:
  "opt_ok token_ok x \<Longrightarrow> when_given (tokenBurn_setTokenId sk) (map_option Inl x) (class_new s fee d) =
     Inr (class_new s fee (d\<lparr>bu_token := or_else x (bu_token d)\<rparr>))"
  by (cases x; cases d) (simp_all add: tokenBurn_setTokenId_def token_copied)

lemma tokenBurn_given_amount:
  "when_given tokenBurn_setAmount x (class_new s fee d) =
     Inr (class_new s fee (d\<lparr>bu_amount := or_else x (bu_amount d)\<rparr>))"
  by (cases x; cases d) (simp_all add: tokenBurn_setAmount_def)

lemma tokenBurn_given_serials:
  "when_given tokenBurn_setSerials x (class_new s fee d) =
     Inr (class_new s fee (d\<lparr>bu_serials := or_keep x (bu_serials d)\<rparr>))"
  by (cases x; cases d) (simp_all add: tokenBurn_setSerials_def)

lemmas tokenBurn_given = tokenBurn_given_token tokenBurn_given_amount tokenBurn_given_serials

lemma tokenBurn_back:
  assumes "sdk_lawful sk" "tokenBurn_ok d"
  shows "\<exists>m. tokenBurn_makeTransactionData sk d = Inr m \<and>
    tokenBurn_fromProtobuf sk starts m = Inr (class_new starts 200000000 (tokenBurn_read d))"
  using assms unfolding tokenBurn_ok_def
  by (cases d) (simp add: tokenBurn_makeTransactionData_def tokenBurn_fromProtobuf_def tokenBurn_new_def
      tokenBurn_given tokenBurn_blank_def tokenBurn_read_def token_opt tokenBurn_setSerials_def)

record 'k token_wipe =
  wi_token :: "token_id option"
  wi_account :: "'k account_id option"
  wi_amount :: "long option"
  wi_serials :: "long list"

record token_wipe_message =
  wim_token :: "id_message option"
  wim_account :: "account_message option"
  wim_amount :: "long option"
  wim_serialNumbers :: "(long list) option"

definition tokenWipe_blank :: "'k token_wipe" where
  "tokenWipe_blank = \<lparr>wi_token = None, wi_account = None, wi_amount = None, wi_serials = []\<rparr>"

definition tokenWipe_setTokenId ::
  "'k sdk \<Rightarrow> token_arg \<Rightarrow> 'k token_wipe class_tx \<Rightarrow> 'k token_wipe class_tx js" where
  "tokenWipe_setTokenId sk x = guarded (\<lambda>d. js_bind (copy_token sk x) (\<lambda>y. Inr (d\<lparr>wi_token := Some y\<rparr>)))"

definition tokenWipe_setAccountId ::
  "'k sdk \<Rightarrow> 'k account_arg \<Rightarrow> 'k token_wipe class_tx \<Rightarrow> 'k token_wipe class_tx js" where
  "tokenWipe_setAccountId sk x = guarded (\<lambda>d. js_bind (copy_account sk x) (\<lambda>y. Inr (d\<lparr>wi_account := Some y\<rparr>)))"

definition tokenWipe_setAmount ::
  "long \<Rightarrow> 'k token_wipe class_tx \<Rightarrow> 'k token_wipe class_tx js" where
  "tokenWipe_setAmount x = guarded (\<lambda>d. Inr (d\<lparr>wi_amount := Some x\<rparr>))"

definition tokenWipe_setSerials ::
  "long list \<Rightarrow> 'k token_wipe class_tx \<Rightarrow> 'k token_wipe class_tx js" where
  "tokenWipe_setSerials x = guarded (\<lambda>d. Inr (d\<lparr>wi_serials := x\<rparr>))"

definition tokenWipe_new ::
  "'k sdk \<Rightarrow> (nat \<Rightarrow> timestamp) \<Rightarrow> token_arg option \<Rightarrow>
   ('k account_arg) option \<Rightarrow> long option \<Rightarrow> (long list) option \<Rightarrow>
   'k token_wipe class_tx js" where
  "tokenWipe_new sk starts token account amount serials =
     js_bind (when_given (tokenWipe_setTokenId sk) token (class_new starts 200000000 tokenWipe_blank)) (\<lambda>q.
     js_bind (when_given (tokenWipe_setAccountId sk) account q) (\<lambda>q.
     js_bind (when_given tokenWipe_setAmount amount q) (\<lambda>q.
       when_given tokenWipe_setSerials serials q)))"

definition tokenWipe_validateChecksums :: "'k sdk \<Rightarrow> ledger_id option \<Rightarrow> 'k token_wipe \<Rightarrow> unit js" where
  "tokenWipe_validateChecksums sk ledger d =
     js_bind (check_token sk ledger (wi_token d)) (\<lambda>_.
       check_account sk ledger (wi_account d))"

definition tokenWipe_makeTransactionData ::
  "'k sdk \<Rightarrow> 'k token_wipe \<Rightarrow> token_wipe_message js" where
  "tokenWipe_makeTransactionData sk d =
     Inr \<lparr>wim_token = map_option token_toProtobuf (wi_token d),
       wim_account = map_option (account_message_of sk) (wi_account d),
       wim_amount = wi_amount d,
       wim_serialNumbers = Some (wi_serials d)\<rparr>"

definition tokenWipe_fromProtobuf ::
  "'k sdk \<Rightarrow> (nat \<Rightarrow> timestamp) \<Rightarrow> token_wipe_message \<Rightarrow> 'k token_wipe class_tx js" where
  "tokenWipe_fromProtobuf sk starts m =
     js_bind (js_opt token_fromProtobuf (wim_token m)) (\<lambda>token.
     js_bind (js_opt (account_of_message sk) (wim_account m)) (\<lambda>account.
       tokenWipe_new sk starts (map_option Inl token) (map_option Inl account) (wim_amount m) None))"

definition tokenWipe_ok :: "'k token_wipe \<Rightarrow> bool" where
  "tokenWipe_ok d \<longleftrightarrow>
     opt_ok token_ok (wi_token d) \<and>
     opt_ok account_ok (wi_account d)"

definition tokenWipe_read :: "'k token_wipe \<Rightarrow> 'k token_wipe" where
  "tokenWipe_read d =
     d\<lparr>wi_token := map_option token_read (wi_token d),
       wi_account := map_option account_sent (wi_account d),
       wi_serials := []\<rparr>"

lemma tokenWipe_given_token:
  "opt_ok token_ok x \<Longrightarrow> when_given (tokenWipe_setTokenId sk) (map_option Inl x) (class_new s fee d) =
     Inr (class_new s fee (d\<lparr>wi_token := or_else x (wi_token d)\<rparr>))"
  by (cases x; cases d) (simp_all add: tokenWipe_setTokenId_def token_copied)

lemma tokenWipe_given_account:
  "opt_ok account_ok x \<Longrightarrow> when_given (tokenWipe_setAccountId sk) (map_option Inl x) (class_new s fee d) =
     Inr (class_new s fee (d\<lparr>wi_account := or_else x (wi_account d)\<rparr>))"
  by (cases x; cases d) (simp_all add: tokenWipe_setAccountId_def account_copied)

lemma tokenWipe_given_amount:
  "when_given tokenWipe_setAmount x (class_new s fee d) =
     Inr (class_new s fee (d\<lparr>wi_amount := or_else x (wi_amount d)\<rparr>))"
  by (cases x; cases d) (simp_all add: tokenWipe_setAmount_def)

lemma tokenWipe_given_serials:
  "when_given tokenWipe_setSerials x (class_new s fee d) =
     Inr (class_new s fee (d\<lparr>wi_serials := or_keep x (wi_serials d)\<rparr>))"
  by (cases x; cases d) (simp_all add: tokenWipe_setSerials_def)

lemmas tokenWipe_given = tokenWipe_given_token tokenWipe_given_account tokenWipe_given_amount tokenWipe_given_serials

lemma tokenWipe_back:
  assumes "sdk_lawful sk" "tokenWipe_ok d"
  shows "\<exists>m. tokenWipe_makeTransactionData sk d = Inr m \<and>
    tokenWipe_fromProtobuf sk starts m = Inr (class_new starts 200000000 (tokenWipe_read d))"
  using assms unfolding tokenWipe_ok_def
  by (cases d) (simp add: tokenWipe_makeTransactionData_def tokenWipe_fromProtobuf_def tokenWipe_new_def
      tokenWipe_given tokenWipe_blank_def tokenWipe_read_def account_opt [OF assms(1)]
      opt_account_sent token_opt)

end
