(* ===== verification/TokenFees.thy ===== *)
theory TokenFees
  imports TokenTx
begin

text \<open>
  Custom fees of tokens: \<open>token/CustomFee.js\<close>, \<open>CustomFixedFee.js\<close>, \<open>CustomFractionalFee.js\<close>,
  \<open>CustomRoyaltyFee.js\<close>, \<open>FeeAssessmentMethod.js\<close> (its value), and
  \<open>TokenFeeScheduleUpdateTransaction.js\<close>.  The base class is the record \<open>fee_base\<close>.
\<close>

subsection \<open>State\<close>

record 'k fee_base =
  cf_collector :: "'k account_id option"
  cf_exempt :: bool

record 'k fixed_fee = "'k fee_base" +
  ff_token :: "token_id option"
  ff_amount :: "long option"

record 'k fractional_fee = "'k fee_base" +
  fr_numerator :: "long option"
  fr_denominator :: "long option"
  fr_min :: "long option"
  fr_max :: "long option"
  fr_assessment :: "bool option"

record 'k royalty_fee = "'k fee_base" +
  ry_fallback :: "'k fixed_fee option"
  ry_numerator :: "long option"
  ry_denominator :: "long option"

datatype 'k custom_fee =
  FixedFee "'k fixed_fee" | FractionalFee "'k fractional_fee" | RoyaltyFee "'k royalty_fee"

record fixed_message =
  fxm_token :: "id_message option"
  fxm_amount :: "long option"

record fraction_message =
  fcm_numerator :: "long option"
  fcm_denominator :: "long option"

record fractional_message =
  frm_fraction :: "fraction_message option"
  frm_min :: "long option"
  frm_max :: "long option"
  frm_net :: "bool option"

record royalty_message =
  rym_fraction :: "fraction_message option"
  rym_fallback :: "fixed_message option"

record fee_message =
  fem_collector :: "account_message option"
  fem_exempt :: "bool option"
  fem_fixed :: "fixed_message option"
  fem_fractional :: "fractional_message option"
  fem_royalty :: "royalty_message option"

definition fee_blank :: "'k fee_base" where
  "fee_blank = \<lparr>cf_collector = None, cf_exempt = False\<rparr>"

definition fee_setFeeCollectorAccountId ::
  "'k sdk \<Rightarrow> 'k account_arg \<Rightarrow> ('k, 'm) fee_base_scheme \<Rightarrow> ('k, 'm) fee_base_scheme js" where
  "fee_setFeeCollectorAccountId sk x f = js_bind (arg_account (sk_text sk) x) (\<lambda>a. Inr (f\<lparr>cf_collector := Some a\<rparr>))"

definition fee_setAllCollectorsAreExempt :: "bool \<Rightarrow> ('k, 'm) fee_base_scheme \<Rightarrow> ('k, 'm) fee_base_scheme js" where
  "fee_setAllCollectorsAreExempt b f = Inr (f\<lparr>cf_exempt := b\<rparr>)"

text \<open>The constructor of \<open>CustomFee\<close>, on an object of a class that extends it.\<close>

definition fee_init ::
  "'k sdk \<Rightarrow> 'k account_arg option \<Rightarrow> bool option \<Rightarrow> ('k, 'm) fee_base_scheme \<Rightarrow> ('k, 'm) fee_base_scheme js" where
  "fee_init sk collector exempt f =
     js_bind (when_given (fee_setFeeCollectorAccountId sk) collector f)
       (when_given fee_setAllCollectorsAreExempt exempt)"

subsection \<open>Fixed fees\<close>

definition fixed_setU2UAmount :: "int \<Rightarrow> 'k fixed_fee \<Rightarrow> 'k fixed_fee" where
  "fixed_setU2UAmount amount f = f\<lparr>ff_amount := Some (u2u_toTiny amount), ff_token := None\<rparr>"

definition fixed_U2UAmount :: "'k fixed_fee \<Rightarrow> int option" where
  "fixed_U2UAmount f =
     (if ff_token f \<noteq> None then None else Some (case ff_amount f of None \<Rightarrow> 0 | Some a \<Rightarrow> sint a))"

definition fixed_setDenominatingTokenToSameToken :: "'k fixed_fee \<Rightarrow> 'k fixed_fee js" where
  "fixed_setDenominatingTokenToSameToken f =
     js_bind (token_new (Num 0) (Some 0) (Some 0)) (\<lambda>i. Inr (f\<lparr>ff_token := Some i\<rparr>))"

definition fixed_setDenominatingTokenId :: "'k sdk \<Rightarrow> token_arg \<Rightarrow> 'k fixed_fee \<Rightarrow> 'k fixed_fee js" where
  "fixed_setDenominatingTokenId sk x f = js_bind (arg_token (sk_text sk) x) (\<lambda>i. Inr (f\<lparr>ff_token := Some i\<rparr>))"

definition fixed_setAmount :: "long \<Rightarrow> 'k fixed_fee \<Rightarrow> 'k fixed_fee js" where
  "fixed_setAmount x f = Inr (f\<lparr>ff_amount := Some x\<rparr>)"

definition fixed_new ::
  "'k sdk \<Rightarrow> 'k account_arg option \<Rightarrow> bool option \<Rightarrow> token_arg option \<Rightarrow> long option \<Rightarrow> 'k fixed_fee js" where
  "fixed_new sk collector exempt token amount =
     js_bind (fee_init sk collector exempt (fee_base.extend fee_blank (fixed_fee.fields None None))) (\<lambda>f.
     js_bind (when_given (fixed_setDenominatingTokenId sk) token f)
       (when_given fixed_setAmount amount))"

definition fixed_toFixed :: "'k fixed_fee \<Rightarrow> fixed_message" where
  "fixed_toFixed f = \<lparr>fxm_token = map_option token_toProtobuf (ff_token f), fxm_amount = ff_amount f\<rparr>"

definition fixed_toProtobuf :: "'k sdk \<Rightarrow> 'k fixed_fee \<Rightarrow> fee_message" where
  "fixed_toProtobuf sk f =
     \<lparr>fem_collector = map_option (account_message_of sk) (cf_collector f), fem_exempt = Some (cf_exempt f),
      fem_fixed = Some (fixed_toFixed f), fem_fractional = None, fem_royalty = None\<rparr>"

definition fixed_fromProtobuf :: "'k sdk \<Rightarrow> fee_message \<Rightarrow> 'k fixed_fee js" where
  "fixed_fromProtobuf sk m =
     js_bind (js_opt (account_of_message sk) (fem_collector m)) (\<lambda>collector.
       case fem_fixed m of
         None \<Rightarrow> Inl TypeErr
       | Some fee \<Rightarrow>
           js_bind (js_opt token_fromProtobuf (fxm_token fee)) (\<lambda>token.
             fixed_new sk (map_option Inl collector) (fem_exempt m) (map_option Inl token) (fxm_amount fee)))"

subsection \<open>Fractional fees\<close>

definition fractional_setNumerator :: "long \<Rightarrow> 'k fractional_fee \<Rightarrow> 'k fractional_fee js" where
  "fractional_setNumerator x f = Inr (f\<lparr>fr_numerator := Some x\<rparr>)"

definition fractional_setDenominator :: "long \<Rightarrow> 'k fractional_fee \<Rightarrow> 'k fractional_fee js" where
  "fractional_setDenominator x f = Inr (f\<lparr>fr_denominator := Some x\<rparr>)"

definition fractional_setMin :: "long \<Rightarrow> 'k fractional_fee \<Rightarrow> 'k fractional_fee js" where
  "fractional_setMin x f = Inr (f\<lparr>fr_min := Some x\<rparr>)"

definition fractional_setMax :: "long \<Rightarrow> 'k fractional_fee \<Rightarrow> 'k fractional_fee js" where
  "fractional_setMax x f = Inr (f\<lparr>fr_max := Some x\<rparr>)"

definition fractional_setAssessmentMethod :: "bool \<Rightarrow> 'k fractional_fee \<Rightarrow> 'k fractional_fee js" where
  "fractional_setAssessmentMethod x f = Inr (f\<lparr>fr_assessment := Some x\<rparr>)"

definition fractional_new ::
  "'k sdk \<Rightarrow> 'k account_arg option \<Rightarrow> bool option \<Rightarrow> long option \<Rightarrow> long option \<Rightarrow> long option \<Rightarrow> long option \<Rightarrow>
   bool option \<Rightarrow> 'k fractional_fee js" where
  "fractional_new sk collector exempt numerator denominator low high assessment =
     js_bind (fee_init sk collector exempt
       (fee_base.extend fee_blank (fractional_fee.fields None None None None None))) (\<lambda>f.
     js_bind (when_given fractional_setNumerator numerator f) (\<lambda>f.
     js_bind (when_given fractional_setDenominator denominator f) (\<lambda>f.
     js_bind (when_given fractional_setMin low f) (\<lambda>f.
     js_bind (when_given fractional_setMax high f)
       (when_given fractional_setAssessmentMethod assessment)))))"

text \<open>Without a method the fee is assessed inclusively.\<close>

definition fractional_toProtobuf :: "'k sdk \<Rightarrow> 'k fractional_fee \<Rightarrow> fee_message" where
  "fractional_toProtobuf sk f =
     \<lparr>fem_collector = map_option (account_message_of sk) (cf_collector f), fem_exempt = Some (cf_exempt f),
      fem_fixed = None,
      fem_fractional = Some
        \<lparr>frm_fraction = Some \<lparr>fcm_numerator = fr_numerator f, fcm_denominator = fr_denominator f\<rparr>,
         frm_min = fr_min f, frm_max = fr_max f,
         frm_net = Some (case fr_assessment f of None \<Rightarrow> False | Some b \<Rightarrow> b)\<rparr>,
      fem_royalty = None\<rparr>"

definition fractional_fromProtobuf :: "'k sdk \<Rightarrow> fee_message \<Rightarrow> 'k fractional_fee js" where
  "fractional_fromProtobuf sk m =
     (case fem_fractional m of
        None \<Rightarrow> Inl TypeErr
      | Some fee \<Rightarrow>
          js_bind (js_opt (account_of_message sk) (fem_collector m)) (\<lambda>collector.
            case frm_fraction fee of
              None \<Rightarrow> Inl TypeErr
            | Some q \<Rightarrow>
                fractional_new sk (map_option Inl collector) (fem_exempt m) (fcm_numerator q) (fcm_denominator q)
                  (frm_min fee) (frm_max fee) (frm_net fee)))"

subsection \<open>Royalty fees\<close>

definition royalty_setFallbackFee :: "'k fixed_fee \<Rightarrow> 'k royalty_fee \<Rightarrow> 'k royalty_fee js" where
  "royalty_setFallbackFee x f = Inr (f\<lparr>ry_fallback := Some x\<rparr>)"

definition royalty_setNumerator :: "long \<Rightarrow> 'k royalty_fee \<Rightarrow> 'k royalty_fee js" where
  "royalty_setNumerator x f = Inr (f\<lparr>ry_numerator := Some x\<rparr>)"

definition royalty_setDenominator :: "long \<Rightarrow> 'k royalty_fee \<Rightarrow> 'k royalty_fee js" where
  "royalty_setDenominator x f = Inr (f\<lparr>ry_denominator := Some x\<rparr>)"

definition royalty_new ::
  "'k sdk \<Rightarrow> 'k account_arg option \<Rightarrow> bool option \<Rightarrow> 'k fixed_fee option \<Rightarrow> long option \<Rightarrow> long option \<Rightarrow>
   'k royalty_fee js" where
  "royalty_new sk collector exempt fallback numerator denominator =
     js_bind (fee_init sk collector exempt (fee_base.extend fee_blank (royalty_fee.fields None None None))) (\<lambda>f.
     js_bind (when_given royalty_setFallbackFee fallback f) (\<lambda>f.
     js_bind (when_given royalty_setNumerator numerator f)
       (when_given royalty_setDenominator denominator)))"

text \<open>Of the fallback fee only the fixed amount is sent.\<close>

definition royalty_toProtobuf :: "'k sdk \<Rightarrow> 'k royalty_fee \<Rightarrow> fee_message" where
  "royalty_toProtobuf sk f =
     \<lparr>fem_collector = map_option (account_message_of sk) (cf_collector f), fem_exempt = Some (cf_exempt f),
      fem_fixed = None, fem_fractional = None,
      fem_royalty = Some
        \<lparr>rym_fraction = Some \<lparr>fcm_numerator = ry_numerator f, fcm_denominator = ry_denominator f\<rparr>,
         rym_fallback = map_option fixed_toFixed (ry_fallback f)\<rparr>\<rparr>"

definition royalty_fromProtobuf :: "'k sdk \<Rightarrow> fee_message \<Rightarrow> 'k royalty_fee js" where
  "royalty_fromProtobuf sk m =
     (case fem_royalty m of
        None \<Rightarrow> Inl TypeErr
      | Some fee \<Rightarrow>
          js_bind (js_opt (account_of_message sk) (fem_collector m)) (\<lambda>collector.
          js_bind (js_opt (\<lambda>x. fixed_fromProtobuf sk
              \<lparr>fem_collector = None, fem_exempt = None, fem_fixed = Some x, fem_fractional = None, fem_royalty = None\<rparr>)
            (rym_fallback fee)) (\<lambda>fallback.
            case rym_fraction fee of
              None \<Rightarrow> Inl TypeErr
            | Some q \<Rightarrow>
                royalty_new sk (map_option Inl collector) (fem_exempt m) fallback (fcm_numerator q) (fcm_denominator q))))"

subsection \<open>Fees of a token\<close>

definition fee_toProtobuf :: "'k sdk \<Rightarrow> 'k custom_fee \<Rightarrow> fee_message" where
  "fee_toProtobuf sk f =
     (case f of FixedFee f \<Rightarrow> fixed_toProtobuf sk f | FractionalFee f \<Rightarrow> fractional_toProtobuf sk f
      | RoyaltyFee f \<Rightarrow> royalty_toProtobuf sk f)"

definition fee_fromProtobuf :: "'k sdk \<Rightarrow> fee_message \<Rightarrow> 'k custom_fee js" where
  "fee_fromProtobuf sk m =
     (if fem_fixed m \<noteq> None then js_bind (fixed_fromProtobuf sk m) (\<lambda>f. Inr (FixedFee f))
      else if fem_fractional m \<noteq> None then js_bind (fractional_fromProtobuf sk m) (\<lambda>f. Inr (FractionalFee f))
      else js_bind (royalty_fromProtobuf sk m) (\<lambda>f. Inr (RoyaltyFee f)))"

text \<open>The fees that can be sent, and what arrives of a fee.\<close>

fun fee_ok :: "'k custom_fee \<Rightarrow> bool" where
  "fee_ok (FixedFee f) = (opt_ok account_ok (cf_collector f) \<and> opt_ok token_ok (ff_token f))"
| "fee_ok (FractionalFee f) = opt_ok account_ok (cf_collector f)"
| "fee_ok (RoyaltyFee f) =
     (opt_ok account_ok (cf_collector f) \<and> opt_ok (\<lambda>x. opt_ok token_ok (ff_token x)) (ry_fallback f))"

definition fixed_read :: "'k fixed_fee \<Rightarrow> 'k fixed_fee" where
  "fixed_read f = f\<lparr>cf_collector := map_option account_sent (cf_collector f), ff_token := map_option token_read (ff_token f)\<rparr>"

fun fee_read :: "'k custom_fee \<Rightarrow> 'k custom_fee" where
  "fee_read (FixedFee f) = FixedFee (fixed_read f)"
| "fee_read (FractionalFee f) =
     FractionalFee (f\<lparr>cf_collector := map_option account_sent (cf_collector f),
       fr_assessment := Some (case fr_assessment f of None \<Rightarrow> False | Some b \<Rightarrow> b)\<rparr>)"
| "fee_read (RoyaltyFee f) =
     RoyaltyFee (f\<lparr>cf_collector := map_option account_sent (cf_collector f),
       ry_fallback := map_option (\<lambda>x. (fixed_read x)\<lparr>cf_collector := None, cf_exempt := False\<rparr>) (ry_fallback f)\<rparr>)"

lemma fee_init_opt:
  "fee_init sk (map_option Inl c) e f =
     Inr (f\<lparr>cf_collector := or_else c (cf_collector f), cf_exempt := or_keep e (cf_exempt f)\<rparr>)"
  by (cases c; cases e; cases f) (simp_all add: fee_init_def fee_setFeeCollectorAccountId_def
      fee_setAllCollectorsAreExempt_def arg_account_def)

lemma fixed_new_opt:
  "fixed_new sk (map_option Inl c) e (map_option Inl t) a =
     Inr \<lparr>cf_collector = c, cf_exempt = or_keep e False, ff_token = t, ff_amount = a\<rparr>"
  by (cases t; cases a) (simp_all add: fixed_new_def fee_init_opt fee_blank_def fee_base.defs fixed_fee.defs
      fixed_setDenominatingTokenId_def fixed_setAmount_def arg_token_def)

lemma fractional_new_opt:
  "fractional_new sk (map_option Inl c) e n d lo hi a =
     Inr \<lparr>cf_collector = c, cf_exempt = or_keep e False, fr_numerator = n, fr_denominator = d, fr_min = lo,
       fr_max = hi, fr_assessment = a\<rparr>"
  by (cases n; cases d; cases lo; cases hi; cases a) (simp_all add: fractional_new_def fee_init_opt fee_blank_def
      fee_base.defs fractional_fee.defs fractional_setNumerator_def fractional_setDenominator_def
      fractional_setMin_def fractional_setMax_def fractional_setAssessmentMethod_def)

lemma royalty_new_opt:
  "royalty_new sk (map_option Inl c) e f n d =
     Inr \<lparr>cf_collector = c, cf_exempt = or_keep e False, ry_fallback = f, ry_numerator = n, ry_denominator = d\<rparr>"
  by (cases f; cases n; cases d) (simp_all add: royalty_new_def fee_init_opt fee_blank_def fee_base.defs
      royalty_fee.defs royalty_setFallbackFee_def royalty_setNumerator_def royalty_setDenominator_def)

lemma fixed_back:
  assumes "opt_ok token_ok (ff_token f)"
  shows "fixed_fromProtobuf sk
      \<lparr>fem_collector = None, fem_exempt = None, fem_fixed = Some (fixed_toFixed f), fem_fractional = None, fem_royalty = None\<rparr> =
    Inr ((fixed_read f)\<lparr>cf_collector := None, cf_exempt := False\<rparr>)"
  using assms fixed_new_opt [of sk None None]
  by (cases f) (simp add: fixed_fromProtobuf_def fixed_toFixed_def fixed_read_def token_opt)

lemma fee_back:
  assumes "sdk_lawful sk" "fee_ok f"
  shows "fee_fromProtobuf sk (fee_toProtobuf sk f) = Inr (fee_read f)"
proof (cases f)
  case (FixedFee x)
  then show ?thesis using assms(2)
    by (cases x) (simp add: fee_fromProtobuf_def fee_toProtobuf_def fixed_fromProtobuf_def fixed_toProtobuf_def
        fixed_toFixed_def fixed_read_def fixed_new_opt token_opt account_opt [OF assms(1)])
next
  case (FractionalFee x)
  then show ?thesis using assms(2)
    by (cases x) (simp add: fee_fromProtobuf_def fee_toProtobuf_def fractional_fromProtobuf_def
        fractional_toProtobuf_def fractional_new_opt account_opt [OF assms(1)])
next
  case (RoyaltyFee x)
  have "js_opt (\<lambda>y. fixed_fromProtobuf sk
      \<lparr>fem_collector = None, fem_exempt = None, fem_fixed = Some y, fem_fractional = None, fem_royalty = None\<rparr>)
      (map_option fixed_toFixed (ry_fallback x)) =
    Inr (map_option (\<lambda>y. (fixed_read y)\<lparr>cf_collector := None, cf_exempt := False\<rparr>) (ry_fallback x))"
    using RoyaltyFee assms(2) by (cases "ry_fallback x") (simp_all add: fixed_back)
  then show ?thesis using RoyaltyFee assms(2)
    by (cases x) (simp add: fee_fromProtobuf_def fee_toProtobuf_def royalty_fromProtobuf_def royalty_toProtobuf_def
        royalty_new_opt account_opt [OF assms(1)])
qed

lemma fees_back:
  assumes "sdk_lawful sk"
  shows "list_all fee_ok fs \<Longrightarrow> js_map (fee_fromProtobuf sk) (map (fee_toProtobuf sk) fs) = Inr (map fee_read fs)"
  by (induction fs) (simp_all add: fee_back [OF assms])

subsection \<open>Updating the fees\<close>

record 'k fee_schedule =
  fs_token :: "token_id option"
  fs_fees :: "'k custom_fee list"

record fee_schedule_message =
  fsm_token :: "id_message option"
  fsm_customFees :: "(fee_message list) option"

definition feeSchedule_blank :: "'k fee_schedule" where
  "feeSchedule_blank = \<lparr>fs_token = None, fs_fees = []\<rparr>"

text \<open>A token id that is an object is read from its own message, which has no checksum.\<close>

definition feeSchedule_setTokenId ::
  "'k sdk \<Rightarrow> token_arg \<Rightarrow> 'k fee_schedule class_tx \<Rightarrow> 'k fee_schedule class_tx js" where
  "feeSchedule_setTokenId sk x = guarded (\<lambda>d.
     js_bind (case x of Inl i \<Rightarrow> token_fromProtobuf (token_toProtobuf i)
              | Inr t \<Rightarrow> token_fromString (it_parse (sk_text sk)) t) (\<lambda>y. Inr (d\<lparr>fs_token := Some y\<rparr>)))"

definition feeSchedule_setCustomFees ::
  "'k custom_fee list \<Rightarrow> 'k fee_schedule class_tx \<Rightarrow> 'k fee_schedule class_tx js" where
  "feeSchedule_setCustomFees x = guarded (\<lambda>d. Inr (d\<lparr>fs_fees := x\<rparr>))"

definition feeSchedule_new ::
  "'k sdk \<Rightarrow> (nat \<Rightarrow> timestamp) \<Rightarrow> token_arg option \<Rightarrow>
   ('k custom_fee list) option \<Rightarrow> 'k fee_schedule class_tx js" where
  "feeSchedule_new sk starts token fees =
     js_bind (when_given (feeSchedule_setTokenId sk) token (class_new starts 200000000 feeSchedule_blank)) (\<lambda>q.
       when_given feeSchedule_setCustomFees fees q)"

definition feeSchedule_makeTransactionData ::
  "'k sdk \<Rightarrow> 'k fee_schedule \<Rightarrow> fee_schedule_message js" where
  "feeSchedule_makeTransactionData sk d =
     Inr \<lparr>fsm_token = map_option token_toProtobuf (fs_token d),
       fsm_customFees = Some (map (fee_toProtobuf sk) (fs_fees d))\<rparr>"

definition feeSchedule_fromProtobuf ::
  "'k sdk \<Rightarrow> (nat \<Rightarrow> timestamp) \<Rightarrow> fee_schedule_message \<Rightarrow> 'k fee_schedule class_tx js" where
  "feeSchedule_fromProtobuf sk starts m =
     js_bind (js_opt token_fromProtobuf (fsm_token m)) (\<lambda>token.
     js_bind (js_opt (js_map (fee_fromProtobuf sk)) (fsm_customFees m)) (\<lambda>fees.
       feeSchedule_new sk starts (map_option Inl token) fees))"

definition feeSchedule_ok :: "'k fee_schedule \<Rightarrow> bool" where
  "feeSchedule_ok d \<longleftrightarrow>
     opt_ok token_ok (fs_token d) \<and>
     list_all fee_ok (fs_fees d)"

definition feeSchedule_read :: "'k fee_schedule \<Rightarrow> 'k fee_schedule" where
  "feeSchedule_read d =
     d\<lparr>fs_token := map_option token_read (fs_token d),
       fs_fees := map fee_read (fs_fees d)\<rparr>"

lemma feeSchedule_given_token:
  "opt_ok token_ok x \<Longrightarrow> when_given (feeSchedule_setTokenId sk) (map_option Inl x) (class_new s fee d) =
     Inr (class_new s fee (d\<lparr>fs_token := or_else (map_option token_read x) (fs_token d)\<rparr>))"
  by (cases x; cases d) (simp_all add: feeSchedule_setTokenId_def token_received)

lemma feeSchedule_given_fees:
  "when_given feeSchedule_setCustomFees x (class_new s fee d) =
     Inr (class_new s fee (d\<lparr>fs_fees := or_keep x (fs_fees d)\<rparr>))"
  by (cases x; cases d) (simp_all add: feeSchedule_setCustomFees_def)

lemmas feeSchedule_given = feeSchedule_given_token feeSchedule_given_fees

lemma feeSchedule_back:
  assumes "sdk_lawful sk" "feeSchedule_ok d"
  shows "\<exists>m. feeSchedule_makeTransactionData sk d = Inr m \<and>
    feeSchedule_fromProtobuf sk starts m = Inr (class_new starts 200000000 (feeSchedule_read d))"
  using assms unfolding feeSchedule_ok_def
  by (cases d) (simp add: feeSchedule_makeTransactionData_def feeSchedule_fromProtobuf_def feeSchedule_new_def
      feeSchedule_given feeSchedule_blank_def feeSchedule_read_def token_opt fees_back [OF
      assms(1)] feeSchedule_setCustomFees_def)

end
