(* ===== verification/TokenAdmin.thy ===== *)
theory TokenAdmin
  imports TokenFees
begin

text \<open>
  Making and changing tokens: \<open>token/TokenCreateTransaction.js\<close>, \<open>TokenUpdateTransaction.js\<close>,
  \<open>TokenType.js\<close> and \<open>TokenSupplyType.js\<close>.
\<close>

subsection \<open>Types of tokens\<close>

datatype token_type = FungibleCommon | NonFungibleUnique

definition tokenType_code :: "token_type \<Rightarrow> nat" where
  "tokenType_code t = (case t of FungibleCommon \<Rightarrow> 0 | NonFungibleUnique \<Rightarrow> 1)"

definition tokenType_fromCode :: "nat \<Rightarrow> token_type js" where
  "tokenType_fromCode c =
     (if c = 0 then Inr FungibleCommon else if c = 1 then Inr NonFungibleUnique else Inl (BadStatus c))"

datatype supply_type = InfiniteSupply | FiniteSupply

definition supplyType_code :: "supply_type \<Rightarrow> nat" where
  "supplyType_code t = (case t of InfiniteSupply \<Rightarrow> 0 | FiniteSupply \<Rightarrow> 1)"

definition supplyType_fromCode :: "nat \<Rightarrow> supply_type js" where
  "supplyType_fromCode c =
     (if c = 0 then Inr InfiniteSupply else if c = 1 then Inr FiniteSupply else Inl (BadStatus c))"

lemma token_types_received [simp]:
  "js_opt tokenType_fromCode (map_option tokenType_code x) = Inr x"
  "js_opt supplyType_fromCode (map_option supplyType_code y) = Inr y"
  by (cases x; simp add: tokenType_fromCode_def tokenType_code_def split: token_type.split)
    (cases y; simp add: supplyType_fromCode_def supplyType_code_def split: supply_type.split)

subsection \<open>Making a token\<close>

record 'k token_create =
  tc_name :: "string option"
  tc_symbol :: "string option"
  tc_decimals :: "long option"
  tc_initialSupply :: "long option"
  tc_treasury :: "'k account_id option"
  tc_adminKey :: "'k key option"
  tc_kycKey :: "'k key option"
  tc_freezeKey :: "'k key option"
  tc_pauseKey :: "'k key option"
  tc_wipeKey :: "'k key option"
  tc_supplyKey :: "'k key option"
  tc_feeScheduleKey :: "'k key option"
  tc_freezeDefault :: "bool option"
  tc_autoRenewAccount :: "'k account_id option"
  tc_expiry :: "timestamp option"
  tc_autoRenewPeriod :: "long option"
  tc_memo :: "string option"
  tc_fees :: "'k custom_fee list"
  tc_tokenType :: "token_type option"
  tc_supplyType :: "supply_type option"
  tc_maxSupply :: "long option"

record token_create_message =
  tcm_name :: "string option"
  tcm_symbol :: "string option"
  tcm_decimals :: "int option"
  tcm_initialSupply :: "long option"
  tcm_treasury :: "account_message option"
  tcm_adminKey :: "key_message option"
  tcm_kycKey :: "key_message option"
  tcm_freezeKey :: "key_message option"
  tcm_pauseKey :: "key_message option"
  tcm_wipeKey :: "key_message option"
  tcm_supplyKey :: "key_message option"
  tcm_feeScheduleKey :: "key_message option"
  tcm_freezeDefault :: "bool option"
  tcm_autoRenewAccount :: "account_message option"
  tcm_expiry :: "(long \<times> int) option"
  tcm_autoRenewPeriod :: "duration_message option"
  tcm_memo :: "string option"
  tcm_customFees :: "(fee_message list) option"
  tcm_tokenType :: "nat option"
  tcm_supplyType :: "nat option"
  tcm_maxSupply :: "long option"

definition tokenCreate_blank :: "'k token_create" where
  "tokenCreate_blank = \<lparr>tc_name = None, tc_symbol = None, tc_decimals = None, tc_initialSupply = None, tc_treasury = None, tc_adminKey = None, tc_kycKey = None, tc_freezeKey = None, tc_pauseKey = None, tc_wipeKey = None, tc_supplyKey = None, tc_feeScheduleKey = None, tc_freezeDefault = None, tc_autoRenewAccount = None, tc_expiry = None, tc_autoRenewPeriod = Some 7776000, tc_memo = None, tc_fees = [], tc_tokenType = None, tc_supplyType = None, tc_maxSupply = None\<rparr>"

definition tokenCreate_setTokenName ::
  "string \<Rightarrow> 'k token_create class_tx \<Rightarrow> 'k token_create class_tx js" where
  "tokenCreate_setTokenName x = guarded (\<lambda>d. Inr (d\<lparr>tc_name := Some x\<rparr>))"

definition tokenCreate_setTokenSymbol ::
  "string \<Rightarrow> 'k token_create class_tx \<Rightarrow> 'k token_create class_tx js" where
  "tokenCreate_setTokenSymbol x = guarded (\<lambda>d. Inr (d\<lparr>tc_symbol := Some x\<rparr>))"

definition tokenCreate_setDecimals ::
  "long \<Rightarrow> 'k token_create class_tx \<Rightarrow> 'k token_create class_tx js" where
  "tokenCreate_setDecimals x = guarded (\<lambda>d. Inr (d\<lparr>tc_decimals := Some x\<rparr>))"

definition tokenCreate_setInitialSupply ::
  "long \<Rightarrow> 'k token_create class_tx \<Rightarrow> 'k token_create class_tx js" where
  "tokenCreate_setInitialSupply x = guarded (\<lambda>d. Inr (d\<lparr>tc_initialSupply := Some x\<rparr>))"

definition tokenCreate_setTreasuryAccountId ::
  "'k sdk \<Rightarrow> 'k account_arg \<Rightarrow> 'k token_create class_tx \<Rightarrow> 'k token_create class_tx js" where
  "tokenCreate_setTreasuryAccountId sk x = guarded (\<lambda>d. js_bind (copy_account sk x) (\<lambda>y. Inr (d\<lparr>tc_treasury := Some y\<rparr>)))"

definition tokenCreate_setAdminKey ::
  "'k key \<Rightarrow> 'k token_create class_tx \<Rightarrow> 'k token_create class_tx js" where
  "tokenCreate_setAdminKey x = guarded (\<lambda>d. Inr (d\<lparr>tc_adminKey := Some x\<rparr>))"

definition tokenCreate_setKycKey ::
  "'k key \<Rightarrow> 'k token_create class_tx \<Rightarrow> 'k token_create class_tx js" where
  "tokenCreate_setKycKey x = guarded (\<lambda>d. Inr (d\<lparr>tc_kycKey := Some x\<rparr>))"

definition tokenCreate_setFreezeKey ::
  "'k key \<Rightarrow> 'k token_create class_tx \<Rightarrow> 'k token_create class_tx js" where
  "tokenCreate_setFreezeKey x = guarded (\<lambda>d. Inr (d\<lparr>tc_freezeKey := Some x\<rparr>))"

definition tokenCreate_setPauseKey ::
  "'k key \<Rightarrow> 'k token_create class_tx \<Rightarrow> 'k token_create class_tx js" where
  "tokenCreate_setPauseKey x = guarded (\<lambda>d. Inr (d\<lparr>tc_pauseKey := Some x\<rparr>))"

definition tokenCreate_setWipeKey ::
  "'k key \<Rightarrow> 'k token_create class_tx \<Rightarrow> 'k token_create class_tx js" where
  "tokenCreate_setWipeKey x = guarded (\<lambda>d. Inr (d\<lparr>tc_wipeKey := Some x\<rparr>))"

definition tokenCreate_setSupplyKey ::
  "'k key \<Rightarrow> 'k token_create class_tx \<Rightarrow> 'k token_create class_tx js" where
  "tokenCreate_setSupplyKey x = guarded (\<lambda>d. Inr (d\<lparr>tc_supplyKey := Some x\<rparr>))"

definition tokenCreate_setFeeScheduleKey ::
  "'k key \<Rightarrow> 'k token_create class_tx \<Rightarrow> 'k token_create class_tx js" where
  "tokenCreate_setFeeScheduleKey x = guarded (\<lambda>d. Inr (d\<lparr>tc_feeScheduleKey := Some x\<rparr>))"

definition tokenCreate_setFreezeDefault ::
  "bool \<Rightarrow> 'k token_create class_tx \<Rightarrow> 'k token_create class_tx js" where
  "tokenCreate_setFreezeDefault x = guarded (\<lambda>d. Inr (d\<lparr>tc_freezeDefault := Some x\<rparr>))"

definition tokenCreate_setAutoRenewAccountId ::
  "'k sdk \<Rightarrow> 'k account_arg \<Rightarrow> 'k token_create class_tx \<Rightarrow> 'k token_create class_tx js" where
  "tokenCreate_setAutoRenewAccountId sk x = guarded (\<lambda>d. js_bind (arg_account (sk_text sk) x) (\<lambda>y. Inr (d\<lparr>tc_autoRenewAccount := Some y\<rparr>)))"

text \<open>An expiration time takes the place of the period of renewal.\<close>

definition tokenCreate_setExpirationTime ::
  "timestamp + date \<Rightarrow> 'k token_create class_tx \<Rightarrow> 'k token_create class_tx js" where
  "tokenCreate_setExpirationTime x =
     guarded (\<lambda>d. Inr (d\<lparr>tc_autoRenewPeriod := None, tc_expiry := Some (arg_time x)\<rparr>))"

definition tokenCreate_setAutoRenewPeriod ::
  "long \<Rightarrow> 'k token_create class_tx \<Rightarrow> 'k token_create class_tx js" where
  "tokenCreate_setAutoRenewPeriod x = guarded (\<lambda>d. Inr (d\<lparr>tc_autoRenewPeriod := Some x\<rparr>))"

definition tokenCreate_setTokenMemo ::
  "string \<Rightarrow> 'k token_create class_tx \<Rightarrow> 'k token_create class_tx js" where
  "tokenCreate_setTokenMemo x = guarded (\<lambda>d. Inr (d\<lparr>tc_memo := Some x\<rparr>))"

definition tokenCreate_setCustomFees ::
  "'k custom_fee list \<Rightarrow> 'k token_create class_tx \<Rightarrow> 'k token_create class_tx js" where
  "tokenCreate_setCustomFees x = unguarded (\<lambda>d. Inr (d\<lparr>tc_fees := x\<rparr>))"

definition tokenCreate_setTokenType ::
  "token_type \<Rightarrow> 'k token_create class_tx \<Rightarrow> 'k token_create class_tx js" where
  "tokenCreate_setTokenType x = unguarded (\<lambda>d. Inr (d\<lparr>tc_tokenType := Some x\<rparr>))"

definition tokenCreate_setSupplyType ::
  "supply_type \<Rightarrow> 'k token_create class_tx \<Rightarrow> 'k token_create class_tx js" where
  "tokenCreate_setSupplyType x = unguarded (\<lambda>d. Inr (d\<lparr>tc_supplyType := Some x\<rparr>))"

definition tokenCreate_setMaxSupply ::
  "long \<Rightarrow> 'k token_create class_tx \<Rightarrow> 'k token_create class_tx js" where
  "tokenCreate_setMaxSupply x = unguarded (\<lambda>d. Inr (d\<lparr>tc_maxSupply := Some x\<rparr>))"

definition tokenCreate_new ::
  "'k sdk \<Rightarrow> (nat \<Rightarrow> timestamp) \<Rightarrow> string option \<Rightarrow>
   string option \<Rightarrow> long option \<Rightarrow> long option \<Rightarrow>
   ('k account_arg) option \<Rightarrow> ('k key) option \<Rightarrow> ('k key) option \<Rightarrow>
   ('k key) option \<Rightarrow> ('k key) option \<Rightarrow> ('k key) option \<Rightarrow>
   ('k key) option \<Rightarrow> ('k key) option \<Rightarrow> bool option \<Rightarrow>
   ('k account_arg) option \<Rightarrow> (timestamp + date) option \<Rightarrow> long option \<Rightarrow>
   string option \<Rightarrow> ('k custom_fee list) option \<Rightarrow> token_type option \<Rightarrow>
   supply_type option \<Rightarrow> long option \<Rightarrow> 'k token_create class_tx js" where
  "tokenCreate_new sk starts name symbol decimals initialSupply treasury adminKey kycKey freezeKey pauseKey wipeKey supplyKey feeScheduleKey freezeDefault autoRenewAccount expiry autoRenewPeriod memo fees tokenType supplyType maxSupply =
     js_bind (when_given tokenCreate_setTokenName name (class_new starts 3000000000 tokenCreate_blank)) (\<lambda>q.
     js_bind (when_given tokenCreate_setTokenSymbol symbol q) (\<lambda>q.
     js_bind (when_given tokenCreate_setDecimals decimals q) (\<lambda>q.
     js_bind (when_given tokenCreate_setInitialSupply initialSupply q) (\<lambda>q.
     js_bind (when_given (tokenCreate_setTreasuryAccountId sk) treasury q) (\<lambda>q.
     js_bind (when_given tokenCreate_setAdminKey adminKey q) (\<lambda>q.
     js_bind (when_given tokenCreate_setKycKey kycKey q) (\<lambda>q.
     js_bind (when_given tokenCreate_setFreezeKey freezeKey q) (\<lambda>q.
     js_bind (when_given tokenCreate_setPauseKey pauseKey q) (\<lambda>q.
     js_bind (when_given tokenCreate_setWipeKey wipeKey q) (\<lambda>q.
     js_bind (when_given tokenCreate_setSupplyKey supplyKey q) (\<lambda>q.
     js_bind (when_given tokenCreate_setFeeScheduleKey feeScheduleKey q) (\<lambda>q.
     js_bind (when_given tokenCreate_setFreezeDefault freezeDefault q) (\<lambda>q.
     js_bind (when_given (tokenCreate_setAutoRenewAccountId sk) autoRenewAccount q) (\<lambda>q.
     js_bind (when_given tokenCreate_setExpirationTime expiry q) (\<lambda>q.
     js_bind (when_given tokenCreate_setAutoRenewPeriod autoRenewPeriod q) (\<lambda>q.
     js_bind (when_given tokenCreate_setTokenMemo memo q) (\<lambda>q.
     js_bind (when_given tokenCreate_setCustomFees fees q) (\<lambda>q.
     js_bind (when_given tokenCreate_setTokenType tokenType q) (\<lambda>q.
     js_bind (when_given tokenCreate_setSupplyType supplyType q) (\<lambda>q.
       when_given tokenCreate_setMaxSupply maxSupply q))))))))))))))))))))"

definition tokenCreate_validateChecksums :: "'k sdk \<Rightarrow> ledger_id option \<Rightarrow> 'k token_create \<Rightarrow> unit js" where
  "tokenCreate_validateChecksums sk ledger d =
     js_bind (check_account sk ledger (tc_treasury d)) (\<lambda>_.
       check_account sk ledger (tc_autoRenewAccount d))"

definition tokenCreate_makeTransactionData ::
  "'k sdk \<Rightarrow> 'k token_create \<Rightarrow> token_create_message js" where
  "tokenCreate_makeTransactionData sk d =
     js_bind (js_opt (key_toProtobuf (sk_keys sk)) (tc_adminKey d)) (\<lambda>adminKey.
     js_bind (js_opt (key_toProtobuf (sk_keys sk)) (tc_kycKey d)) (\<lambda>kycKey.
     js_bind (js_opt (key_toProtobuf (sk_keys sk)) (tc_freezeKey d)) (\<lambda>freezeKey.
     js_bind (js_opt (key_toProtobuf (sk_keys sk)) (tc_pauseKey d)) (\<lambda>pauseKey.
     js_bind (js_opt (key_toProtobuf (sk_keys sk)) (tc_wipeKey d)) (\<lambda>wipeKey.
     js_bind (js_opt (key_toProtobuf (sk_keys sk)) (tc_supplyKey d)) (\<lambda>supplyKey.
     js_bind (js_opt (key_toProtobuf (sk_keys sk)) (tc_feeScheduleKey d)) (\<lambda>feeScheduleKey.
       Inr \<lparr>tcm_name = tc_name d,
       tcm_symbol = tc_symbol d,
       tcm_decimals = map_option long_toInt (tc_decimals d),
       tcm_initialSupply = tc_initialSupply d,
       tcm_treasury = map_option (account_message_of sk) (tc_treasury d),
       tcm_adminKey = adminKey,
       tcm_kycKey = kycKey,
       tcm_freezeKey = freezeKey,
       tcm_pauseKey = pauseKey,
       tcm_wipeKey = wipeKey,
       tcm_supplyKey = supplyKey,
       tcm_feeScheduleKey = feeScheduleKey,
       tcm_freezeDefault = tc_freezeDefault d,
       tcm_autoRenewAccount = map_option (account_message_of sk) (tc_autoRenewAccount d),
       tcm_expiry = map_option ts_toProtobuf (tc_expiry d),
       tcm_autoRenewPeriod = map_option duration_toProtobuf (tc_autoRenewPeriod d),
       tcm_memo = tc_memo d,
       tcm_customFees = Some (map (fee_toProtobuf sk) (tc_fees d)),
       tcm_tokenType = map_option tokenType_code (tc_tokenType d),
       tcm_supplyType = map_option supplyType_code (tc_supplyType d),
       tcm_maxSupply = tc_maxSupply d\<rparr>)))))))"

definition tokenCreate_fromProtobuf ::
  "'k sdk \<Rightarrow> (nat \<Rightarrow> timestamp) \<Rightarrow> token_create_message \<Rightarrow> 'k token_create class_tx js" where
  "tokenCreate_fromProtobuf sk starts m =
     js_bind (js_opt (account_of_message sk) (tcm_treasury m)) (\<lambda>treasury.
     js_bind (key_of_message sk (tcm_adminKey m)) (\<lambda>adminKey.
     js_bind (key_of_message sk (tcm_kycKey m)) (\<lambda>kycKey.
     js_bind (key_of_message sk (tcm_freezeKey m)) (\<lambda>freezeKey.
     js_bind (key_of_message sk (tcm_pauseKey m)) (\<lambda>pauseKey.
     js_bind (key_of_message sk (tcm_wipeKey m)) (\<lambda>wipeKey.
     js_bind (key_of_message sk (tcm_supplyKey m)) (\<lambda>supplyKey.
     js_bind (key_of_message sk (tcm_feeScheduleKey m)) (\<lambda>feeScheduleKey.
     js_bind (js_opt (account_of_message sk) (tcm_autoRenewAccount m)) (\<lambda>autoRenewAccount.
     js_bind (js_opt (js_map (fee_fromProtobuf sk)) (tcm_customFees m)) (\<lambda>fees.
     js_bind (js_opt tokenType_fromCode (tcm_tokenType m)) (\<lambda>tokenType.
     js_bind (js_opt supplyType_fromCode (tcm_supplyType m)) (\<lambda>supplyType.
       tokenCreate_new sk starts (tcm_name m) (tcm_symbol m) (map_option word_of_int (tcm_decimals m)) (tcm_initialSupply m)
         (map_option Inl treasury) adminKey kycKey freezeKey
         pauseKey wipeKey supplyKey feeScheduleKey
         (tcm_freezeDefault m) (map_option Inl autoRenewAccount) (map_option Inl (map_option ts_fromProtobuf (tcm_expiry m))) (map_option duration_fromProtobuf (tcm_autoRenewPeriod m))
         (tcm_memo m) fees tokenType supplyType
         (tcm_maxSupply m)))))))))))))"

definition tokenCreate_ok :: "'k sdk \<Rightarrow> 'k token_create \<Rightarrow> bool" where
  "tokenCreate_ok sk d \<longleftrightarrow>
     (tc_autoRenewPeriod d = None \<longrightarrow> tc_expiry d \<noteq> None) \<and>
     opt_ok int32_ok (tc_decimals d) \<and>
     opt_ok account_ok (tc_treasury d) \<and>
     opt_ok (key_ok (sk_keys sk)) (tc_adminKey d) \<and>
     opt_ok (key_ok (sk_keys sk)) (tc_kycKey d) \<and>
     opt_ok (key_ok (sk_keys sk)) (tc_freezeKey d) \<and>
     opt_ok (key_ok (sk_keys sk)) (tc_pauseKey d) \<and>
     opt_ok (key_ok (sk_keys sk)) (tc_wipeKey d) \<and>
     opt_ok (key_ok (sk_keys sk)) (tc_supplyKey d) \<and>
     opt_ok (key_ok (sk_keys sk)) (tc_feeScheduleKey d) \<and>
     opt_ok account_ok (tc_autoRenewAccount d) \<and>
     opt_ok time_ok (tc_expiry d) \<and>
     list_all fee_ok (tc_fees d)"

definition tokenCreate_read :: "'k token_create \<Rightarrow> 'k token_create" where
  "tokenCreate_read d =
     d\<lparr>tc_treasury := map_option account_sent (tc_treasury d),
       tc_adminKey := map_option key_sent (tc_adminKey d),
       tc_kycKey := map_option key_sent (tc_kycKey d),
       tc_freezeKey := map_option key_sent (tc_freezeKey d),
       tc_pauseKey := map_option key_sent (tc_pauseKey d),
       tc_wipeKey := map_option key_sent (tc_wipeKey d),
       tc_supplyKey := map_option key_sent (tc_supplyKey d),
       tc_feeScheduleKey := map_option key_sent (tc_feeScheduleKey d),
       tc_autoRenewAccount := map_option account_sent (tc_autoRenewAccount d),
       tc_fees := map fee_read (tc_fees d)\<rparr>"

lemma tokenCreate_given_name:
  "when_given tokenCreate_setTokenName x (class_new s fee d) =
     Inr (class_new s fee (d\<lparr>tc_name := or_else x (tc_name d)\<rparr>))"
  by (cases x; cases d) (simp_all add: tokenCreate_setTokenName_def)

lemma tokenCreate_given_symbol:
  "when_given tokenCreate_setTokenSymbol x (class_new s fee d) =
     Inr (class_new s fee (d\<lparr>tc_symbol := or_else x (tc_symbol d)\<rparr>))"
  by (cases x; cases d) (simp_all add: tokenCreate_setTokenSymbol_def)

lemma tokenCreate_given_decimals:
  "when_given tokenCreate_setDecimals x (class_new s fee d) =
     Inr (class_new s fee (d\<lparr>tc_decimals := or_else x (tc_decimals d)\<rparr>))"
  by (cases x; cases d) (simp_all add: tokenCreate_setDecimals_def)

lemma tokenCreate_given_initialSupply:
  "when_given tokenCreate_setInitialSupply x (class_new s fee d) =
     Inr (class_new s fee (d\<lparr>tc_initialSupply := or_else x (tc_initialSupply d)\<rparr>))"
  by (cases x; cases d) (simp_all add: tokenCreate_setInitialSupply_def)

lemma tokenCreate_given_treasury:
  "opt_ok account_ok x \<Longrightarrow> when_given (tokenCreate_setTreasuryAccountId sk) (map_option Inl x) (class_new s fee d) =
     Inr (class_new s fee (d\<lparr>tc_treasury := or_else x (tc_treasury d)\<rparr>))"
  by (cases x; cases d) (simp_all add: tokenCreate_setTreasuryAccountId_def account_copied)

lemma tokenCreate_given_adminKey:
  "when_given tokenCreate_setAdminKey x (class_new s fee d) =
     Inr (class_new s fee (d\<lparr>tc_adminKey := or_else x (tc_adminKey d)\<rparr>))"
  by (cases x; cases d) (simp_all add: tokenCreate_setAdminKey_def)

lemma tokenCreate_given_kycKey:
  "when_given tokenCreate_setKycKey x (class_new s fee d) =
     Inr (class_new s fee (d\<lparr>tc_kycKey := or_else x (tc_kycKey d)\<rparr>))"
  by (cases x; cases d) (simp_all add: tokenCreate_setKycKey_def)

lemma tokenCreate_given_freezeKey:
  "when_given tokenCreate_setFreezeKey x (class_new s fee d) =
     Inr (class_new s fee (d\<lparr>tc_freezeKey := or_else x (tc_freezeKey d)\<rparr>))"
  by (cases x; cases d) (simp_all add: tokenCreate_setFreezeKey_def)

lemma tokenCreate_given_pauseKey:
  "when_given tokenCreate_setPauseKey x (class_new s fee d) =
     Inr (class_new s fee (d\<lparr>tc_pauseKey := or_else x (tc_pauseKey d)\<rparr>))"
  by (cases x; cases d) (simp_all add: tokenCreate_setPauseKey_def)

lemma tokenCreate_given_wipeKey:
  "when_given tokenCreate_setWipeKey x (class_new s fee d) =
     Inr (class_new s fee (d\<lparr>tc_wipeKey := or_else x (tc_wipeKey d)\<rparr>))"
  by (cases x; cases d) (simp_all add: tokenCreate_setWipeKey_def)

lemma tokenCreate_given_supplyKey:
  "when_given tokenCreate_setSupplyKey x (class_new s fee d) =
     Inr (class_new s fee (d\<lparr>tc_supplyKey := or_else x (tc_supplyKey d)\<rparr>))"
  by (cases x; cases d) (simp_all add: tokenCreate_setSupplyKey_def)

lemma tokenCreate_given_feeScheduleKey:
  "when_given tokenCreate_setFeeScheduleKey x (class_new s fee d) =
     Inr (class_new s fee (d\<lparr>tc_feeScheduleKey := or_else x (tc_feeScheduleKey d)\<rparr>))"
  by (cases x; cases d) (simp_all add: tokenCreate_setFeeScheduleKey_def)

lemma tokenCreate_given_freezeDefault:
  "when_given tokenCreate_setFreezeDefault x (class_new s fee d) =
     Inr (class_new s fee (d\<lparr>tc_freezeDefault := or_else x (tc_freezeDefault d)\<rparr>))"
  by (cases x; cases d) (simp_all add: tokenCreate_setFreezeDefault_def)

lemma tokenCreate_given_autoRenewAccount:
  "opt_ok account_ok x \<Longrightarrow> when_given (tokenCreate_setAutoRenewAccountId sk) (map_option Inl x) (class_new s fee d) =
     Inr (class_new s fee (d\<lparr>tc_autoRenewAccount := or_else x (tc_autoRenewAccount d)\<rparr>))"
  by (cases x; cases d) (simp_all add: tokenCreate_setAutoRenewAccountId_def arg_account_def)

lemma tokenCreate_given_expiry:
  "when_given tokenCreate_setExpirationTime (map_option Inl x) (class_new s fee d) =
     Inr (class_new s fee (d\<lparr>tc_expiry := or_else x (tc_expiry d),
       tc_autoRenewPeriod := (if x = None then tc_autoRenewPeriod d else None)\<rparr>))"
  by (cases x; cases d) (simp_all add: tokenCreate_setExpirationTime_def)

lemma tokenCreate_given_autoRenewPeriod:
  "when_given tokenCreate_setAutoRenewPeriod x (class_new s fee d) =
     Inr (class_new s fee (d\<lparr>tc_autoRenewPeriod := or_else x (tc_autoRenewPeriod d)\<rparr>))"
  by (cases x; cases d) (simp_all add: tokenCreate_setAutoRenewPeriod_def)

lemma tokenCreate_given_memo:
  "when_given tokenCreate_setTokenMemo x (class_new s fee d) =
     Inr (class_new s fee (d\<lparr>tc_memo := or_else x (tc_memo d)\<rparr>))"
  by (cases x; cases d) (simp_all add: tokenCreate_setTokenMemo_def)

lemma tokenCreate_given_fees:
  "when_given tokenCreate_setCustomFees x (class_new s fee d) =
     Inr (class_new s fee (d\<lparr>tc_fees := or_keep x (tc_fees d)\<rparr>))"
  by (cases x; cases d) (simp_all add: tokenCreate_setCustomFees_def)

lemma tokenCreate_given_tokenType:
  "when_given tokenCreate_setTokenType x (class_new s fee d) =
     Inr (class_new s fee (d\<lparr>tc_tokenType := or_else x (tc_tokenType d)\<rparr>))"
  by (cases x; cases d) (simp_all add: tokenCreate_setTokenType_def)

lemma tokenCreate_given_supplyType:
  "when_given tokenCreate_setSupplyType x (class_new s fee d) =
     Inr (class_new s fee (d\<lparr>tc_supplyType := or_else x (tc_supplyType d)\<rparr>))"
  by (cases x; cases d) (simp_all add: tokenCreate_setSupplyType_def)

lemma tokenCreate_given_maxSupply:
  "when_given tokenCreate_setMaxSupply x (class_new s fee d) =
     Inr (class_new s fee (d\<lparr>tc_maxSupply := or_else x (tc_maxSupply d)\<rparr>))"
  by (cases x; cases d) (simp_all add: tokenCreate_setMaxSupply_def)

lemmas tokenCreate_given = tokenCreate_given_name tokenCreate_given_symbol tokenCreate_given_decimals tokenCreate_given_initialSupply tokenCreate_given_treasury tokenCreate_given_adminKey tokenCreate_given_kycKey tokenCreate_given_freezeKey tokenCreate_given_pauseKey tokenCreate_given_wipeKey tokenCreate_given_supplyKey tokenCreate_given_feeScheduleKey tokenCreate_given_freezeDefault tokenCreate_given_autoRenewAccount tokenCreate_given_expiry tokenCreate_given_autoRenewPeriod tokenCreate_given_memo tokenCreate_given_fees tokenCreate_given_tokenType tokenCreate_given_supplyType tokenCreate_given_maxSupply

lemma tokenCreate_back:
  assumes "sdk_lawful sk" "tokenCreate_ok sk d"
  shows "\<exists>m. tokenCreate_makeTransactionData sk d = Inr m \<and>
    tokenCreate_fromProtobuf sk starts m = Inr (class_new starts 3000000000 (tokenCreate_read d))"
proof -
  obtain adminKey where adminKey: "js_opt (key_toProtobuf (sk_keys sk)) (tc_adminKey d) = Inr adminKey"
    "key_of_message sk adminKey = Inr (map_option key_sent (tc_adminKey d))"
    using key_opt [OF assms(1)] assms(2) unfolding tokenCreate_ok_def by blast
  obtain kycKey where kycKey: "js_opt (key_toProtobuf (sk_keys sk)) (tc_kycKey d) = Inr kycKey"
    "key_of_message sk kycKey = Inr (map_option key_sent (tc_kycKey d))"
    using key_opt [OF assms(1)] assms(2) unfolding tokenCreate_ok_def by blast
  obtain freezeKey where freezeKey: "js_opt (key_toProtobuf (sk_keys sk)) (tc_freezeKey d) = Inr freezeKey"
    "key_of_message sk freezeKey = Inr (map_option key_sent (tc_freezeKey d))"
    using key_opt [OF assms(1)] assms(2) unfolding tokenCreate_ok_def by blast
  obtain pauseKey where pauseKey: "js_opt (key_toProtobuf (sk_keys sk)) (tc_pauseKey d) = Inr pauseKey"
    "key_of_message sk pauseKey = Inr (map_option key_sent (tc_pauseKey d))"
    using key_opt [OF assms(1)] assms(2) unfolding tokenCreate_ok_def by blast
  obtain wipeKey where wipeKey: "js_opt (key_toProtobuf (sk_keys sk)) (tc_wipeKey d) = Inr wipeKey"
    "key_of_message sk wipeKey = Inr (map_option key_sent (tc_wipeKey d))"
    using key_opt [OF assms(1)] assms(2) unfolding tokenCreate_ok_def by blast
  obtain supplyKey where supplyKey: "js_opt (key_toProtobuf (sk_keys sk)) (tc_supplyKey d) = Inr supplyKey"
    "key_of_message sk supplyKey = Inr (map_option key_sent (tc_supplyKey d))"
    using key_opt [OF assms(1)] assms(2) unfolding tokenCreate_ok_def by blast
  obtain feeScheduleKey where feeScheduleKey: "js_opt (key_toProtobuf (sk_keys sk)) (tc_feeScheduleKey d) = Inr feeScheduleKey"
    "key_of_message sk feeScheduleKey = Inr (map_option key_sent (tc_feeScheduleKey d))"
    using key_opt [OF assms(1)] assms(2) unfolding tokenCreate_ok_def by blast
  have period: "or_else (tc_autoRenewPeriod d) (Some 7776000) = tc_autoRenewPeriod d" if "tc_expiry d = None"
    using assms(2) that by (cases "tc_autoRenewPeriod d") (simp_all add: tokenCreate_ok_def)
  show ?thesis
    using assms(2) period adminKey kycKey freezeKey pauseKey wipeKey supplyKey feeScheduleKey unfolding tokenCreate_ok_def
    by (cases d) (simp add: tokenCreate_makeTransactionData_def tokenCreate_fromProtobuf_def tokenCreate_new_def
      tokenCreate_given tokenCreate_blank_def tokenCreate_read_def account_opt [OF assms(1)]
      opt_account_sent fees_back [OF assms(1)] int32_opt tokenCreate_setCustomFees_def time_opt)
qed

subsection \<open>Changing a token\<close>

record 'k token_update =
  tu_token :: "token_id option"
  tu_name :: "string option"
  tu_symbol :: "string option"
  tu_treasury :: "'k account_id option"
  tu_adminKey :: "'k key option"
  tu_kycKey :: "'k key option"
  tu_freezeKey :: "'k key option"
  tu_wipeKey :: "'k key option"
  tu_supplyKey :: "'k key option"
  tu_autoRenewAccount :: "'k account_id option"
  tu_expiry :: "timestamp option"
  tu_autoRenewPeriod :: "long option"
  tu_memo :: "string option"
  tu_feeScheduleKey :: "'k key option"
  tu_pauseKey :: "'k key option"

record token_update_message =
  tum_token :: "id_message option"
  tum_name :: "string option"
  tum_symbol :: "string option"
  tum_treasury :: "account_message option"
  tum_adminKey :: "key_message option"
  tum_kycKey :: "key_message option"
  tum_freezeKey :: "key_message option"
  tum_wipeKey :: "key_message option"
  tum_supplyKey :: "key_message option"
  tum_autoRenewAccount :: "account_message option"
  tum_expiry :: "(long \<times> int) option"
  tum_autoRenewPeriod :: "duration_message option"
  tum_memo :: "(string wrapper) option"
  tum_feeScheduleKey :: "key_message option"
  tum_pauseKey :: "key_message option"

definition tokenUpdate_blank :: "'k token_update" where
  "tokenUpdate_blank = \<lparr>tu_token = None, tu_name = None, tu_symbol = None, tu_treasury = None, tu_adminKey = None, tu_kycKey = None, tu_freezeKey = None, tu_wipeKey = None, tu_supplyKey = None, tu_autoRenewAccount = None, tu_expiry = None, tu_autoRenewPeriod = None, tu_memo = None, tu_feeScheduleKey = None, tu_pauseKey = None\<rparr>"

definition tokenUpdate_setTokenId ::
  "'k sdk \<Rightarrow> token_arg \<Rightarrow> 'k token_update class_tx \<Rightarrow> 'k token_update class_tx js" where
  "tokenUpdate_setTokenId sk x = guarded (\<lambda>d. js_bind (copy_token sk x) (\<lambda>y. Inr (d\<lparr>tu_token := Some y\<rparr>)))"

definition tokenUpdate_setTokenName ::
  "string \<Rightarrow> 'k token_update class_tx \<Rightarrow> 'k token_update class_tx js" where
  "tokenUpdate_setTokenName x = guarded (\<lambda>d. Inr (d\<lparr>tu_name := Some x\<rparr>))"

definition tokenUpdate_setTokenSymbol ::
  "string \<Rightarrow> 'k token_update class_tx \<Rightarrow> 'k token_update class_tx js" where
  "tokenUpdate_setTokenSymbol x = guarded (\<lambda>d. Inr (d\<lparr>tu_symbol := Some x\<rparr>))"

definition tokenUpdate_setTreasuryAccountId ::
  "'k sdk \<Rightarrow> 'k account_arg \<Rightarrow> 'k token_update class_tx \<Rightarrow> 'k token_update class_tx js" where
  "tokenUpdate_setTreasuryAccountId sk x = guarded (\<lambda>d. js_bind (copy_account sk x) (\<lambda>y. Inr (d\<lparr>tu_treasury := Some y\<rparr>)))"

definition tokenUpdate_setAdminKey ::
  "'k key \<Rightarrow> 'k token_update class_tx \<Rightarrow> 'k token_update class_tx js" where
  "tokenUpdate_setAdminKey x = guarded (\<lambda>d. Inr (d\<lparr>tu_adminKey := Some x\<rparr>))"

definition tokenUpdate_setKycKey ::
  "'k key \<Rightarrow> 'k token_update class_tx \<Rightarrow> 'k token_update class_tx js" where
  "tokenUpdate_setKycKey x = guarded (\<lambda>d. Inr (d\<lparr>tu_kycKey := Some x\<rparr>))"

definition tokenUpdate_setFreezeKey ::
  "'k key \<Rightarrow> 'k token_update class_tx \<Rightarrow> 'k token_update class_tx js" where
  "tokenUpdate_setFreezeKey x = guarded (\<lambda>d. Inr (d\<lparr>tu_freezeKey := Some x\<rparr>))"

definition tokenUpdate_setWipeKey ::
  "'k key \<Rightarrow> 'k token_update class_tx \<Rightarrow> 'k token_update class_tx js" where
  "tokenUpdate_setWipeKey x = guarded (\<lambda>d. Inr (d\<lparr>tu_wipeKey := Some x\<rparr>))"

definition tokenUpdate_setSupplyKey ::
  "'k key \<Rightarrow> 'k token_update class_tx \<Rightarrow> 'k token_update class_tx js" where
  "tokenUpdate_setSupplyKey x = guarded (\<lambda>d. Inr (d\<lparr>tu_supplyKey := Some x\<rparr>))"

definition tokenUpdate_setAutoRenewAccountId ::
  "'k sdk \<Rightarrow> 'k account_arg \<Rightarrow> 'k token_update class_tx \<Rightarrow> 'k token_update class_tx js" where
  "tokenUpdate_setAutoRenewAccountId sk x = guarded (\<lambda>d. js_bind (arg_account (sk_text sk) x) (\<lambda>y. Inr (d\<lparr>tu_autoRenewAccount := Some y\<rparr>)))"

definition tokenUpdate_setExpirationTime ::
  "timestamp + date \<Rightarrow> 'k token_update class_tx \<Rightarrow> 'k token_update class_tx js" where
  "tokenUpdate_setExpirationTime x = guarded (\<lambda>d. Inr (d\<lparr>tu_expiry := Some (arg_time x)\<rparr>))"

definition tokenUpdate_setAutoRenewPeriod ::
  "long \<Rightarrow> 'k token_update class_tx \<Rightarrow> 'k token_update class_tx js" where
  "tokenUpdate_setAutoRenewPeriod x = guarded (\<lambda>d. Inr (d\<lparr>tu_autoRenewPeriod := Some x\<rparr>))"

definition tokenUpdate_setTokenMemo ::
  "string \<Rightarrow> 'k token_update class_tx \<Rightarrow> 'k token_update class_tx js" where
  "tokenUpdate_setTokenMemo x = guarded (\<lambda>d. Inr (d\<lparr>tu_memo := Some x\<rparr>))"

definition tokenUpdate_setFeeScheduleKey ::
  "'k key \<Rightarrow> 'k token_update class_tx \<Rightarrow> 'k token_update class_tx js" where
  "tokenUpdate_setFeeScheduleKey x = guarded (\<lambda>d. Inr (d\<lparr>tu_feeScheduleKey := Some x\<rparr>))"

definition tokenUpdate_setPauseKey ::
  "'k key \<Rightarrow> 'k token_update class_tx \<Rightarrow> 'k token_update class_tx js" where
  "tokenUpdate_setPauseKey x = guarded (\<lambda>d. Inr (d\<lparr>tu_pauseKey := Some x\<rparr>))"

definition tokenUpdate_new ::
  "'k sdk \<Rightarrow> (nat \<Rightarrow> timestamp) \<Rightarrow> token_arg option \<Rightarrow>
   string option \<Rightarrow> string option \<Rightarrow> ('k account_arg) option \<Rightarrow>
   ('k key) option \<Rightarrow> ('k key) option \<Rightarrow> ('k key) option \<Rightarrow>
   ('k key) option \<Rightarrow> ('k key) option \<Rightarrow> ('k account_arg) option \<Rightarrow>
   (timestamp + date) option \<Rightarrow> long option \<Rightarrow> string option \<Rightarrow>
   ('k key) option \<Rightarrow> ('k key) option \<Rightarrow> 'k token_update class_tx js" where
  "tokenUpdate_new sk starts token name symbol treasury adminKey kycKey freezeKey wipeKey supplyKey autoRenewAccount expiry autoRenewPeriod memo feeScheduleKey pauseKey =
     js_bind (when_given (tokenUpdate_setTokenId sk) token (class_new starts 200000000 tokenUpdate_blank)) (\<lambda>q.
     js_bind (when_given tokenUpdate_setTokenName name q) (\<lambda>q.
     js_bind (when_given tokenUpdate_setTokenSymbol symbol q) (\<lambda>q.
     js_bind (when_given (tokenUpdate_setTreasuryAccountId sk) treasury q) (\<lambda>q.
     js_bind (when_given tokenUpdate_setAdminKey adminKey q) (\<lambda>q.
     js_bind (when_given tokenUpdate_setKycKey kycKey q) (\<lambda>q.
     js_bind (when_given tokenUpdate_setFreezeKey freezeKey q) (\<lambda>q.
     js_bind (when_given tokenUpdate_setWipeKey wipeKey q) (\<lambda>q.
     js_bind (when_given tokenUpdate_setSupplyKey supplyKey q) (\<lambda>q.
     js_bind (when_given (tokenUpdate_setAutoRenewAccountId sk) autoRenewAccount q) (\<lambda>q.
     js_bind (when_given tokenUpdate_setExpirationTime expiry q) (\<lambda>q.
     js_bind (when_given tokenUpdate_setAutoRenewPeriod autoRenewPeriod q) (\<lambda>q.
     js_bind (when_given tokenUpdate_setTokenMemo memo q) (\<lambda>q.
     js_bind (when_given tokenUpdate_setFeeScheduleKey feeScheduleKey q) (\<lambda>q.
       when_given tokenUpdate_setPauseKey pauseKey q))))))))))))))"

definition tokenUpdate_validateChecksums :: "'k sdk \<Rightarrow> ledger_id option \<Rightarrow> 'k token_update \<Rightarrow> unit js" where
  "tokenUpdate_validateChecksums sk ledger d =
     js_bind (check_token sk ledger (tu_token d)) (\<lambda>_.
     js_bind (check_account sk ledger (tu_treasury d)) (\<lambda>_.
       check_account sk ledger (tu_autoRenewAccount d)))"

definition tokenUpdate_makeTransactionData ::
  "'k sdk \<Rightarrow> 'k token_update \<Rightarrow> token_update_message js" where
  "tokenUpdate_makeTransactionData sk d =
     js_bind (js_opt (key_toProtobuf (sk_keys sk)) (tu_adminKey d)) (\<lambda>adminKey.
     js_bind (js_opt (key_toProtobuf (sk_keys sk)) (tu_kycKey d)) (\<lambda>kycKey.
     js_bind (js_opt (key_toProtobuf (sk_keys sk)) (tu_freezeKey d)) (\<lambda>freezeKey.
     js_bind (js_opt (key_toProtobuf (sk_keys sk)) (tu_wipeKey d)) (\<lambda>wipeKey.
     js_bind (js_opt (key_toProtobuf (sk_keys sk)) (tu_supplyKey d)) (\<lambda>supplyKey.
     js_bind (js_opt (key_toProtobuf (sk_keys sk)) (tu_feeScheduleKey d)) (\<lambda>feeScheduleKey.
     js_bind (js_opt (key_toProtobuf (sk_keys sk)) (tu_pauseKey d)) (\<lambda>pauseKey.
       Inr \<lparr>tum_token = map_option token_toProtobuf (tu_token d),
       tum_name = tu_name d,
       tum_symbol = tu_symbol d,
       tum_treasury = map_option (account_message_of sk) (tu_treasury d),
       tum_adminKey = adminKey,
       tum_kycKey = kycKey,
       tum_freezeKey = freezeKey,
       tum_wipeKey = wipeKey,
       tum_supplyKey = supplyKey,
       tum_autoRenewAccount = map_option (account_message_of sk) (tu_autoRenewAccount d),
       tum_expiry = map_option ts_toProtobuf (tu_expiry d),
       tum_autoRenewPeriod = map_option duration_toProtobuf (tu_autoRenewPeriod d),
       tum_memo = map_option wrapped (tu_memo d),
       tum_feeScheduleKey = feeScheduleKey,
       tum_pauseKey = pauseKey\<rparr>)))))))"

definition tokenUpdate_fromProtobuf ::
  "'k sdk \<Rightarrow> (nat \<Rightarrow> timestamp) \<Rightarrow> token_update_message \<Rightarrow> 'k token_update class_tx js" where
  "tokenUpdate_fromProtobuf sk starts m =
     js_bind (js_opt token_fromProtobuf (tum_token m)) (\<lambda>token.
     js_bind (js_opt (account_of_message sk) (tum_treasury m)) (\<lambda>treasury.
     js_bind (key_of_message sk (tum_adminKey m)) (\<lambda>adminKey.
     js_bind (key_of_message sk (tum_kycKey m)) (\<lambda>kycKey.
     js_bind (key_of_message sk (tum_freezeKey m)) (\<lambda>freezeKey.
     js_bind (key_of_message sk (tum_wipeKey m)) (\<lambda>wipeKey.
     js_bind (key_of_message sk (tum_supplyKey m)) (\<lambda>supplyKey.
     js_bind (js_opt (account_of_message sk) (tum_autoRenewAccount m)) (\<lambda>autoRenewAccount.
     js_bind (key_of_message sk (tum_feeScheduleKey m)) (\<lambda>feeScheduleKey.
       tokenUpdate_new sk starts (map_option Inl token) (tum_name m) (tum_symbol m) (map_option Inl treasury)
         adminKey kycKey freezeKey wipeKey
         supplyKey (map_option Inl autoRenewAccount) (map_option Inl (map_option ts_fromProtobuf (tum_expiry m))) (map_option duration_fromProtobuf (tum_autoRenewPeriod m))
         (Option.bind (tum_memo m) wr_value) feeScheduleKey None)))))))))"

definition tokenUpdate_setsupplyKey :: "'k key \<Rightarrow> 'k token_update class_tx \<Rightarrow> 'k token_update class_tx js" where
  "tokenUpdate_setsupplyKey x = guarded (\<lambda>d. Inr (d\<lparr>tu_supplyKey := Some x\<rparr>))"

text \<open>Clearing the memo makes it absent, which is not sent.\<close>

definition tokenUpdate_clearTokenMemo :: "'k token_update class_tx \<Rightarrow> 'k token_update class_tx js" where
  "tokenUpdate_clearTokenMemo = guarded (\<lambda>d. Inr (d\<lparr>tu_memo := None\<rparr>))"

definition tokenUpdate_ok :: "'k sdk \<Rightarrow> 'k token_update \<Rightarrow> bool" where
  "tokenUpdate_ok sk d \<longleftrightarrow>
     opt_ok token_ok (tu_token d) \<and>
     opt_ok account_ok (tu_treasury d) \<and>
     opt_ok (key_ok (sk_keys sk)) (tu_adminKey d) \<and>
     opt_ok (key_ok (sk_keys sk)) (tu_kycKey d) \<and>
     opt_ok (key_ok (sk_keys sk)) (tu_freezeKey d) \<and>
     opt_ok (key_ok (sk_keys sk)) (tu_wipeKey d) \<and>
     opt_ok (key_ok (sk_keys sk)) (tu_supplyKey d) \<and>
     opt_ok account_ok (tu_autoRenewAccount d) \<and>
     opt_ok time_ok (tu_expiry d) \<and>
     opt_ok (key_ok (sk_keys sk)) (tu_feeScheduleKey d) \<and>
     opt_ok (key_ok (sk_keys sk)) (tu_pauseKey d)"

definition tokenUpdate_read :: "'k token_update \<Rightarrow> 'k token_update" where
  "tokenUpdate_read d =
     d\<lparr>tu_token := map_option token_read (tu_token d),
       tu_treasury := map_option account_sent (tu_treasury d),
       tu_adminKey := map_option key_sent (tu_adminKey d),
       tu_kycKey := map_option key_sent (tu_kycKey d),
       tu_freezeKey := map_option key_sent (tu_freezeKey d),
       tu_wipeKey := map_option key_sent (tu_wipeKey d),
       tu_supplyKey := map_option key_sent (tu_supplyKey d),
       tu_autoRenewAccount := map_option account_sent (tu_autoRenewAccount d),
       tu_feeScheduleKey := map_option key_sent (tu_feeScheduleKey d),
       tu_pauseKey := None\<rparr>"

lemma tokenUpdate_given_token:
  "opt_ok token_ok x \<Longrightarrow> when_given (tokenUpdate_setTokenId sk) (map_option Inl x) (class_new s fee d) =
     Inr (class_new s fee (d\<lparr>tu_token := or_else x (tu_token d)\<rparr>))"
  by (cases x; cases d) (simp_all add: tokenUpdate_setTokenId_def token_copied)

lemma tokenUpdate_given_name:
  "when_given tokenUpdate_setTokenName x (class_new s fee d) =
     Inr (class_new s fee (d\<lparr>tu_name := or_else x (tu_name d)\<rparr>))"
  by (cases x; cases d) (simp_all add: tokenUpdate_setTokenName_def)

lemma tokenUpdate_given_symbol:
  "when_given tokenUpdate_setTokenSymbol x (class_new s fee d) =
     Inr (class_new s fee (d\<lparr>tu_symbol := or_else x (tu_symbol d)\<rparr>))"
  by (cases x; cases d) (simp_all add: tokenUpdate_setTokenSymbol_def)

lemma tokenUpdate_given_treasury:
  "opt_ok account_ok x \<Longrightarrow> when_given (tokenUpdate_setTreasuryAccountId sk) (map_option Inl x) (class_new s fee d) =
     Inr (class_new s fee (d\<lparr>tu_treasury := or_else x (tu_treasury d)\<rparr>))"
  by (cases x; cases d) (simp_all add: tokenUpdate_setTreasuryAccountId_def account_copied)

lemma tokenUpdate_given_adminKey:
  "when_given tokenUpdate_setAdminKey x (class_new s fee d) =
     Inr (class_new s fee (d\<lparr>tu_adminKey := or_else x (tu_adminKey d)\<rparr>))"
  by (cases x; cases d) (simp_all add: tokenUpdate_setAdminKey_def)

lemma tokenUpdate_given_kycKey:
  "when_given tokenUpdate_setKycKey x (class_new s fee d) =
     Inr (class_new s fee (d\<lparr>tu_kycKey := or_else x (tu_kycKey d)\<rparr>))"
  by (cases x; cases d) (simp_all add: tokenUpdate_setKycKey_def)

lemma tokenUpdate_given_freezeKey:
  "when_given tokenUpdate_setFreezeKey x (class_new s fee d) =
     Inr (class_new s fee (d\<lparr>tu_freezeKey := or_else x (tu_freezeKey d)\<rparr>))"
  by (cases x; cases d) (simp_all add: tokenUpdate_setFreezeKey_def)

lemma tokenUpdate_given_wipeKey:
  "when_given tokenUpdate_setWipeKey x (class_new s fee d) =
     Inr (class_new s fee (d\<lparr>tu_wipeKey := or_else x (tu_wipeKey d)\<rparr>))"
  by (cases x; cases d) (simp_all add: tokenUpdate_setWipeKey_def)

lemma tokenUpdate_given_supplyKey:
  "when_given tokenUpdate_setSupplyKey x (class_new s fee d) =
     Inr (class_new s fee (d\<lparr>tu_supplyKey := or_else x (tu_supplyKey d)\<rparr>))"
  by (cases x; cases d) (simp_all add: tokenUpdate_setSupplyKey_def)

lemma tokenUpdate_given_autoRenewAccount:
  "opt_ok account_ok x \<Longrightarrow> when_given (tokenUpdate_setAutoRenewAccountId sk) (map_option Inl x) (class_new s fee d) =
     Inr (class_new s fee (d\<lparr>tu_autoRenewAccount := or_else x (tu_autoRenewAccount d)\<rparr>))"
  by (cases x; cases d) (simp_all add: tokenUpdate_setAutoRenewAccountId_def arg_account_def)

lemma tokenUpdate_given_expiry:
  "when_given tokenUpdate_setExpirationTime (map_option Inl x) (class_new s fee d) =
     Inr (class_new s fee (d\<lparr>tu_expiry := or_else x (tu_expiry d)\<rparr>))"
  by (cases x; cases d) (simp_all add: tokenUpdate_setExpirationTime_def)

lemma tokenUpdate_given_autoRenewPeriod:
  "when_given tokenUpdate_setAutoRenewPeriod x (class_new s fee d) =
     Inr (class_new s fee (d\<lparr>tu_autoRenewPeriod := or_else x (tu_autoRenewPeriod d)\<rparr>))"
  by (cases x; cases d) (simp_all add: tokenUpdate_setAutoRenewPeriod_def)

lemma tokenUpdate_given_memo:
  "when_given tokenUpdate_setTokenMemo x (class_new s fee d) =
     Inr (class_new s fee (d\<lparr>tu_memo := or_else x (tu_memo d)\<rparr>))"
  by (cases x; cases d) (simp_all add: tokenUpdate_setTokenMemo_def)

lemma tokenUpdate_given_feeScheduleKey:
  "when_given tokenUpdate_setFeeScheduleKey x (class_new s fee d) =
     Inr (class_new s fee (d\<lparr>tu_feeScheduleKey := or_else x (tu_feeScheduleKey d)\<rparr>))"
  by (cases x; cases d) (simp_all add: tokenUpdate_setFeeScheduleKey_def)

lemma tokenUpdate_given_pauseKey:
  "when_given tokenUpdate_setPauseKey x (class_new s fee d) =
     Inr (class_new s fee (d\<lparr>tu_pauseKey := or_else x (tu_pauseKey d)\<rparr>))"
  by (cases x; cases d) (simp_all add: tokenUpdate_setPauseKey_def)

lemmas tokenUpdate_given = tokenUpdate_given_token tokenUpdate_given_name tokenUpdate_given_symbol tokenUpdate_given_treasury tokenUpdate_given_adminKey tokenUpdate_given_kycKey tokenUpdate_given_freezeKey tokenUpdate_given_wipeKey tokenUpdate_given_supplyKey tokenUpdate_given_autoRenewAccount tokenUpdate_given_expiry tokenUpdate_given_autoRenewPeriod tokenUpdate_given_memo tokenUpdate_given_feeScheduleKey tokenUpdate_given_pauseKey

lemma tokenUpdate_back:
  assumes "sdk_lawful sk" "tokenUpdate_ok sk d"
  shows "\<exists>m. tokenUpdate_makeTransactionData sk d = Inr m \<and>
    tokenUpdate_fromProtobuf sk starts m = Inr (class_new starts 200000000 (tokenUpdate_read d))"
proof -
  obtain adminKey where adminKey: "js_opt (key_toProtobuf (sk_keys sk)) (tu_adminKey d) = Inr adminKey"
    "key_of_message sk adminKey = Inr (map_option key_sent (tu_adminKey d))"
    using key_opt [OF assms(1)] assms(2) unfolding tokenUpdate_ok_def by blast
  obtain kycKey where kycKey: "js_opt (key_toProtobuf (sk_keys sk)) (tu_kycKey d) = Inr kycKey"
    "key_of_message sk kycKey = Inr (map_option key_sent (tu_kycKey d))"
    using key_opt [OF assms(1)] assms(2) unfolding tokenUpdate_ok_def by blast
  obtain freezeKey where freezeKey: "js_opt (key_toProtobuf (sk_keys sk)) (tu_freezeKey d) = Inr freezeKey"
    "key_of_message sk freezeKey = Inr (map_option key_sent (tu_freezeKey d))"
    using key_opt [OF assms(1)] assms(2) unfolding tokenUpdate_ok_def by blast
  obtain wipeKey where wipeKey: "js_opt (key_toProtobuf (sk_keys sk)) (tu_wipeKey d) = Inr wipeKey"
    "key_of_message sk wipeKey = Inr (map_option key_sent (tu_wipeKey d))"
    using key_opt [OF assms(1)] assms(2) unfolding tokenUpdate_ok_def by blast
  obtain supplyKey where supplyKey: "js_opt (key_toProtobuf (sk_keys sk)) (tu_supplyKey d) = Inr supplyKey"
    "key_of_message sk supplyKey = Inr (map_option key_sent (tu_supplyKey d))"
    using key_opt [OF assms(1)] assms(2) unfolding tokenUpdate_ok_def by blast
  obtain feeScheduleKey where feeScheduleKey: "js_opt (key_toProtobuf (sk_keys sk)) (tu_feeScheduleKey d) = Inr feeScheduleKey"
    "key_of_message sk feeScheduleKey = Inr (map_option key_sent (tu_feeScheduleKey d))"
    using key_opt [OF assms(1)] assms(2) unfolding tokenUpdate_ok_def by blast
  obtain pauseKey where pauseKey: "js_opt (key_toProtobuf (sk_keys sk)) (tu_pauseKey d) = Inr pauseKey"
    "key_of_message sk pauseKey = Inr (map_option key_sent (tu_pauseKey d))"
    using key_opt [OF assms(1)] assms(2) unfolding tokenUpdate_ok_def by blast
  show ?thesis
    using assms(2) adminKey kycKey freezeKey wipeKey supplyKey feeScheduleKey pauseKey unfolding tokenUpdate_ok_def
    by (cases d) (simp add: tokenUpdate_makeTransactionData_def tokenUpdate_fromProtobuf_def tokenUpdate_new_def
      tokenUpdate_given tokenUpdate_blank_def tokenUpdate_read_def account_opt [OF assms(1)]
      opt_account_sent token_opt time_opt)
qed

subsection \<open>Freezing a token creation\<close>

text \<open>
  \<open>Tx\<close> keeps account ids as texts; \<open>idOf\<close> is the id of a text.  \<open>freezeWith\<close> of the class calls
  \<open>_freezeWithAccountId\<close> and then the method it overrides, which calls it once more.
\<close>

definition tokenCreate_freezeWithAccountId ::
  "(string \<Rightarrow> 'k account_id) \<Rightarrow> string option \<Rightarrow> 'k token_create class_tx \<Rightarrow> 'k token_create class_tx" where
  "tokenCreate_freezeWithAccountId idOf accountId q =
     (let q = (if tx_operatorAccountId q = None then q\<lparr>tx_operatorAccountId := accountId\<rparr> else q)
      in case accountId of
           None \<Rightarrow> q
         | Some a \<Rightarrow>
             if tc_autoRenewPeriod (ct_data q) \<noteq> None
             then q\<lparr>ct_data := (ct_data q)\<lparr>tc_autoRenewAccount := Some (idOf a)\<rparr>\<rparr> else q)"

type_synonym ('k, 'd) token_codec = "(('k token_create, unit) class_tx_ext, 'd) codec"

definition tokenCreate_freezeWith ::
  "(string \<Rightarrow> 'k account_id) \<Rightarrow> ('k, 'd) token_codec \<Rightarrow> (string \<Rightarrow> string \<Rightarrow> unit js) \<Rightarrow>
   ('ch client \<Rightarrow> string list js \<times> 'ch client) \<Rightarrow> 'ch client option \<Rightarrow> 'k token_create class_tx \<Rightarrow>
   unit js \<times> 'ch client option \<times> 'k token_create class_tx" where
  "tokenCreate_freezeWith idOf cd validate pick client q =
     (let oper = (case client of None \<Rightarrow> None | Some c \<Rightarrow> map_option op_account (cl_operator c));
          q = (if oper = None then q else tokenCreate_freezeWithAccountId idOf oper q)
      in tx_freezeWith cd validate pick client (tokenCreate_freezeWithAccountId idOf oper q))"

lemma freezeWithAccountId_data:
  "ct_data (tokenCreate_freezeWithAccountId idOf accountId q) =
     (if accountId = None \<or> tc_autoRenewPeriod (ct_data q) = None then ct_data q
      else (ct_data q)\<lparr>tc_autoRenewAccount := Some (idOf (the accountId))\<rparr>)"
  by (auto simp: tokenCreate_freezeWithAccountId_def Let_def split: option.split)

text \<open>
  C22. Freezing a token creation for a client with an operator makes the operator the account
  that renews the token whenever there is a period of renewal, which is so from the start:
  an account that was set before is replaced, and nothing else of the data changes.
\<close>

theorem auto_renew_account_replaced:
  assumes "tokenCreate_freezeWith idOf cd validate pick (Some c) q = (r, client', q')" "cl_operator c = Some oper"
  shows "ct_data q' =
    (if tc_autoRenewPeriod (ct_data q) = None then ct_data q
     else (ct_data q)\<lparr>tc_autoRenewAccount := Some (idOf (op_account oper))\<rparr>)"
proof -
  have "ct_data q' = ct_data (tokenCreate_freezeWithAccountId idOf (Some (op_account oper))
      (tokenCreate_freezeWithAccountId idOf (Some (op_account oper)) q))"
    using assms freezeWith_keeps_data by (fastforce simp: tokenCreate_freezeWith_def Let_def)
  then show ?thesis by (simp add: freezeWithAccountId_data)
qed

theorem auto_renew_account_replaced_witness:
  "let q = class_new (\<lambda>_. \<lparr>ts_seconds = 9, ts_nanos = 0\<rparr>) 3000000000
         ((tokenCreate_blank :: bytes token_create)\<lparr>tc_autoRenewAccount := Some (plain_account (0, 0, 7))\<rparr>);
       cd = \<lparr>cd_data = (\<lambda>_. Inr ()), cd_body = (\<lambda>_. []), cd_signed = (\<lambda>_. []), cd_list = (\<lambda>_. []), cd_hash = (\<lambda>_. [])\<rparr>
   in tc_autoRenewAccount (ct_data (snd (snd (tokenCreate_freezeWith (\<lambda>_. plain_account (0, 0, 2)) cd (\<lambda>_ _. Inr ())
       (\<lambda>c. (Inr [''3''], c)) (Some demo_client) q)))) = Some (plain_account (0, 0, 2))"
proof -
  let ?q = "class_new (\<lambda>_. \<lparr>ts_seconds = 9, ts_nanos = 0\<rparr>) 3000000000
         ((tokenCreate_blank :: bytes token_create)\<lparr>tc_autoRenewAccount := Some (plain_account (0, 0, 7))\<rparr>)"
  let ?cd = "\<lparr>cd_data = (\<lambda>_. Inr ()), cd_body = (\<lambda>_. []), cd_signed = (\<lambda>_. []), cd_list = (\<lambda>_. []), cd_hash = (\<lambda>_. [])\<rparr>"
  obtain r c' q' where f: "tokenCreate_freezeWith (\<lambda>_. plain_account (0, 0, 2)) ?cd (\<lambda>_ _. Inr ())
       (\<lambda>c. (Inr [''3''], c)) (Some demo_client) ?q = (r, c', q')" by (metis prod_cases3)
  have "cl_operator demo_client = Some demo_operator" by (simp add: demo_client_def)
  note d = auto_renew_account_replaced [OF f this]
  show ?thesis unfolding Let_def f by (simp add: d tokenCreate_blank_def)
qed

subsection \<open>When a token ends\<close>

inductive tokenCreate_step ::
  "'k sdk \<Rightarrow> ('k, 'd) token_codec \<Rightarrow> ('ch client \<Rightarrow> string list js \<times> 'ch client) \<Rightarrow>
   'k token_create class_tx \<Rightarrow> 'k token_create class_tx \<Rightarrow> bool" for sk cd pick where
  setTokenName: "tokenCreate_setTokenName x q = Inr q' \<Longrightarrow> tokenCreate_step sk cd pick q q'"
| setTokenSymbol: "tokenCreate_setTokenSymbol x q = Inr q' \<Longrightarrow> tokenCreate_step sk cd pick q q'"
| setDecimals: "tokenCreate_setDecimals x q = Inr q' \<Longrightarrow> tokenCreate_step sk cd pick q q'"
| setInitialSupply: "tokenCreate_setInitialSupply x q = Inr q' \<Longrightarrow> tokenCreate_step sk cd pick q q'"
| setTreasuryAccountId: "tokenCreate_setTreasuryAccountId sk x q = Inr q' \<Longrightarrow> tokenCreate_step sk cd pick q q'"
| setAdminKey: "tokenCreate_setAdminKey x q = Inr q' \<Longrightarrow> tokenCreate_step sk cd pick q q'"
| setKycKey: "tokenCreate_setKycKey x q = Inr q' \<Longrightarrow> tokenCreate_step sk cd pick q q'"
| setFreezeKey: "tokenCreate_setFreezeKey x q = Inr q' \<Longrightarrow> tokenCreate_step sk cd pick q q'"
| setPauseKey: "tokenCreate_setPauseKey x q = Inr q' \<Longrightarrow> tokenCreate_step sk cd pick q q'"
| setWipeKey: "tokenCreate_setWipeKey x q = Inr q' \<Longrightarrow> tokenCreate_step sk cd pick q q'"
| setSupplyKey: "tokenCreate_setSupplyKey x q = Inr q' \<Longrightarrow> tokenCreate_step sk cd pick q q'"
| setFeeScheduleKey: "tokenCreate_setFeeScheduleKey x q = Inr q' \<Longrightarrow> tokenCreate_step sk cd pick q q'"
| setFreezeDefault: "tokenCreate_setFreezeDefault x q = Inr q' \<Longrightarrow> tokenCreate_step sk cd pick q q'"
| setAutoRenewAccountId: "tokenCreate_setAutoRenewAccountId sk x q = Inr q' \<Longrightarrow> tokenCreate_step sk cd pick q q'"
| setExpirationTime: "tokenCreate_setExpirationTime x q = Inr q' \<Longrightarrow> tokenCreate_step sk cd pick q q'"
| setAutoRenewPeriod: "tokenCreate_setAutoRenewPeriod x q = Inr q' \<Longrightarrow> tokenCreate_step sk cd pick q q'"
| setTokenMemo: "tokenCreate_setTokenMemo x q = Inr q' \<Longrightarrow> tokenCreate_step sk cd pick q q'"
| setCustomFees: "tokenCreate_setCustomFees x q = Inr q' \<Longrightarrow> tokenCreate_step sk cd pick q q'"
| setTokenType: "tokenCreate_setTokenType x q = Inr q' \<Longrightarrow> tokenCreate_step sk cd pick q q'"
| setSupplyType: "tokenCreate_setSupplyType x q = Inr q' \<Longrightarrow> tokenCreate_step sk cd pick q q'"
| setMaxSupply: "tokenCreate_setMaxSupply x q = Inr q' \<Longrightarrow> tokenCreate_step sk cd pick q q'"
| freezeWith: "tokenCreate_freezeWith idOf cd validate pick client q = (r, client', q') \<Longrightarrow> tokenCreate_step sk cd pick q q'"

definition token_ends :: "'k token_create \<Rightarrow> bool" where
  "token_ends d \<longleftrightarrow> tc_autoRenewPeriod d \<noteq> None \<or> tc_expiry d \<noteq> None"

lemmas tokenCreate_setters = tokenCreate_setTokenName_def tokenCreate_setTokenSymbol_def tokenCreate_setDecimals_def tokenCreate_setInitialSupply_def tokenCreate_setTreasuryAccountId_def tokenCreate_setAdminKey_def tokenCreate_setKycKey_def tokenCreate_setFreezeKey_def tokenCreate_setPauseKey_def tokenCreate_setWipeKey_def tokenCreate_setSupplyKey_def tokenCreate_setFeeScheduleKey_def tokenCreate_setFreezeDefault_def tokenCreate_setAutoRenewAccountId_def tokenCreate_setExpirationTime_def tokenCreate_setAutoRenewPeriod_def tokenCreate_setTokenMemo_def tokenCreate_setCustomFees_def tokenCreate_setTokenType_def tokenCreate_setSupplyType_def tokenCreate_setMaxSupply_def

lemma freezeWith_ends:
  assumes "tokenCreate_freezeWith idOf cd validate pick client q = (r, client', q')" "token_ends (ct_data q)"
  shows "token_ends (ct_data q')"
proof -
  have keep: "token_ends (ct_data (tokenCreate_freezeWithAccountId idOf a p)) = token_ends (ct_data p)" for a p
    by (simp add: freezeWithAccountId_data token_ends_def)
  have "ct_data q' = ct_data (tokenCreate_freezeWithAccountId idOf a q) \<or>
      ct_data q' = ct_data (tokenCreate_freezeWithAccountId idOf a (tokenCreate_freezeWithAccountId idOf a q))"
    if "a = (case client of None \<Rightarrow> None | Some c \<Rightarrow> map_option op_account (cl_operator c))" for a
    using assms(1) that freezeWith_keeps_data [of cd validate pick client _ r client' q']
    by (auto simp: tokenCreate_freezeWith_def Let_def split: if_splits)
  then show ?thesis using assms(2) keep by metis
qed

lemma setter_ends:
  "guarded f q = Inr q' \<Longrightarrow> (\<forall>d d'. f d = Inr d' \<longrightarrow> token_ends d \<longrightarrow> token_ends d') \<longrightarrow>
     token_ends (ct_data q) \<longrightarrow> token_ends (ct_data q')"
  "unguarded f q = Inr q' \<Longrightarrow> (\<forall>d d'. f d = Inr d' \<longrightarrow> token_ends d \<longrightarrow> token_ends d') \<longrightarrow>
     token_ends (ct_data q) \<longrightarrow> token_ends (ct_data q')"
  using guarded_keeps [of f q q' token_ends] unguarded_keeps [of f q q' token_ends] by auto

lemma tokenCreate_step_ends:
  assumes "tokenCreate_step sk cd pick q q'" "token_ends (ct_data q)"
  shows "token_ends (ct_data q')"
  using assms
proof cases
  case (freezeWith idOf validate client r client')
  then show ?thesis using freezeWith_ends assms(2) by blast
qed (use assms(2) in \<open>auto simp: tokenCreate_setters token_ends_def js_bind_eq_Inr
    dest!: setter_ends\<close>)

text \<open>
  C21. A token creation always says when the token ends: whatever is set, and however often
  it is frozen, it has a period of renewal or an expiration time, although setting the time
  takes the period away.
\<close>

theorem token_creation_ends:
  assumes "(tokenCreate_step sk cd pick)\<^sup>*\<^sup>* (class_new starts 3000000000 tokenCreate_blank) q"
  shows "tc_autoRenewPeriod (ct_data q) \<noteq> None \<or> tc_expiry (ct_data q) \<noteq> None"
proof -
  have "token_ends (ct_data q)"
    using assms by (induction rule: rtranclp_induct)
      (simp add: token_ends_def tokenCreate_blank_def, blast intro: tokenCreate_step_ends)
  then show ?thesis by (simp add: token_ends_def)
qed

theorem token_creation_ends_witness:
  "let q = class_new (\<lambda>_. \<lparr>ts_seconds = 9, ts_nanos = 0\<rparr>) 3000000000 (tokenCreate_blank :: bytes token_create)
   in \<exists>q'. tokenCreate_setExpirationTime (Inl \<lparr>ts_seconds = 4, ts_nanos = 0\<rparr>) q = Inr q' \<and>
     tc_autoRenewPeriod (ct_data q') = None \<and> tc_expiry (ct_data q') \<noteq> None"
proof -
  let ?q = "class_new (\<lambda>_. \<lparr>ts_seconds = 9, ts_nanos = 0\<rparr>) 3000000000 (tokenCreate_blank :: bytes token_create)"
  obtain q' where s: "tokenCreate_setExpirationTime (Inl \<lparr>ts_seconds = 4, ts_nanos = 0\<rparr>) ?q = Inr q'"
    and n: "tc_autoRenewPeriod (ct_data q') = None"
    by (simp add: tokenCreate_setExpirationTime_def)
  have "(tokenCreate_step demo_sdk
      \<lparr>cd_data = (\<lambda>_. Inr ()), cd_body = (\<lambda>_. []), cd_signed = (\<lambda>_. []), cd_list = (\<lambda>_. []), cd_hash = (\<lambda>_. [])\<rparr>
      (\<lambda>c :: unit client. (Inr [], c)))\<^sup>*\<^sup>* ?q q'"
    by (rule r_into_rtranclp, rule setExpirationTime, rule s)
  from token_creation_ends [OF this] n s show ?thesis by (auto simp: Let_def)
qed

end
