(* ===== verification/ClassArgs.thy ===== *)
theory ClassArgs
  imports TxClass
begin

text \<open>
  More of what the setters of the classes take: ids of contracts, files, topics and schedules,
  amounts, lists of keys (\<open>setKeys\<close> of \<open>file/FileCreateTransaction.js\<close>,
  \<open>file/FileUpdateTransaction.js\<close> and \<open>account/LiveHashAddTransaction.js\<close>), aliases
  (\<open>setAlias\<close> of \<open>account/AccountCreateTransaction.js\<close>) and wrapped numbers.
\<close>

subsection \<open>Ids\<close>

type_synonym contract_arg = "contract_id + string"
type_synonym file_arg = "file_id + string"
type_synonym topic_arg = "topic_id + string"
type_synonym schedule_arg = "schedule_id + string"

definition copy_contract :: "'k sdk \<Rightarrow> contract_arg \<Rightarrow> contract_id js" where
  "copy_contract sk a =
     (case a of Inl i \<Rightarrow> contract_clone i | Inr t \<Rightarrow> contract_fromString (it_parse (sk_text sk)) t)"

definition parse_contract :: "'k sdk \<Rightarrow> contract_arg \<Rightarrow> contract_id js" where
  "parse_contract sk a = (case a of Inl i \<Rightarrow> Inr i | Inr t \<Rightarrow> contract_fromString (it_parse (sk_text sk)) t)"

definition copy_file :: "'k sdk \<Rightarrow> file_arg \<Rightarrow> file_id js" where
  "copy_file sk a = (case a of Inl i \<Rightarrow> file_clone i | Inr t \<Rightarrow> file_fromString (it_parse (sk_text sk)) t)"

definition parse_file :: "'k sdk \<Rightarrow> file_arg \<Rightarrow> file_id js" where
  "parse_file sk a = (case a of Inl i \<Rightarrow> Inr i | Inr t \<Rightarrow> file_fromString (it_parse (sk_text sk)) t)"

definition copy_topic :: "'k sdk \<Rightarrow> topic_arg \<Rightarrow> topic_id js" where
  "copy_topic sk a = (case a of Inl i \<Rightarrow> topic_clone i | Inr t \<Rightarrow> topic_fromString (it_parse (sk_text sk)) t)"

definition copy_schedule :: "'k sdk \<Rightarrow> schedule_arg \<Rightarrow> schedule_id js" where
  "copy_schedule sk a =
     (case a of Inl i \<Rightarrow> schedule_clone i | Inr t \<Rightarrow> schedule_fromString (it_parse (sk_text sk)) t)"

abbreviation "file_of_message sk \<equiv> file_fromProtobuf (it_print (sk_text sk)) (it_parse (sk_text sk))"

definition check_contract :: "'k sdk \<Rightarrow> ledger_id option \<Rightarrow> contract_id option \<Rightarrow> unit js" where
  "check_contract sk ledger x =
     (case x of None \<Rightarrow> Inr () | Some i \<Rightarrow> contract_validateChecksum (it_print (sk_text sk)) ledger i)"

definition check_file :: "'k sdk \<Rightarrow> ledger_id option \<Rightarrow> file_id option \<Rightarrow> unit js" where
  "check_file sk ledger x =
     (case x of None \<Rightarrow> Inr () | Some i \<Rightarrow> file_validateChecksum (it_print (sk_text sk)) ledger i)"

definition check_topic :: "'k sdk \<Rightarrow> ledger_id option \<Rightarrow> topic_id option \<Rightarrow> unit js" where
  "check_topic sk ledger x =
     (case x of None \<Rightarrow> Inr () | Some i \<Rightarrow> topic_validateChecksum (it_print (sk_text sk)) ledger i)"

definition check_schedule :: "'k sdk \<Rightarrow> ledger_id option \<Rightarrow> schedule_id option \<Rightarrow> unit js" where
  "check_schedule sk ledger x =
     (case x of None \<Rightarrow> Inr () | Some i \<Rightarrow> schedule_validateChecksum (it_print (sk_text sk)) ledger i)"

definition contract_ok :: "contract_id \<Rightarrow> bool" where
  "contract_ok i \<longleftrightarrow> id_valid (cn_ids i)"

definition contract_read :: "contract_id \<Rightarrow> contract_id" where
  "contract_read i = \<lparr>cn_ids = cn_ids i, cn_evmAddress = None, cn_checksum = None\<rparr>"

definition file_ok :: "file_id \<Rightarrow> bool" where
  "file_ok i \<longleftrightarrow> id_valid (fl_ids i)"

definition file_read :: "file_id \<Rightarrow> file_id" where
  "file_read i = i\<lparr>fl_checksum := None\<rparr>"

definition topic_ok :: "topic_id \<Rightarrow> bool" where
  "topic_ok i \<longleftrightarrow> id_valid (tp_ids i)"

definition topic_read :: "topic_id \<Rightarrow> topic_id" where
  "topic_read i = i\<lparr>tp_checksum := None\<rparr>"

definition schedule_ok :: "schedule_id \<Rightarrow> bool" where
  "schedule_ok i \<longleftrightarrow> id_valid (sc_ids i)"

definition schedule_read :: "schedule_id \<Rightarrow> schedule_id" where
  "schedule_read i = i\<lparr>sc_checksum := None\<rparr>"

lemma contract_copied: "contract_ok i \<Longrightarrow> copy_contract sk (Inl i) = Inr i"
  by (cases i; cases "cn_ids i") (simp add: copy_contract_def contract_clone_def contract_new_def contract_ok_def)

lemma file_copied: "file_ok i \<Longrightarrow> copy_file sk (Inl i) = Inr i"
  by (cases i; cases "fl_ids i") (simp add: copy_file_def file_clone_def file_new_def file_ok_def)

lemma topic_copied: "topic_ok i \<Longrightarrow> copy_topic sk (Inl i) = Inr i"
  by (cases i; cases "tp_ids i") (simp add: copy_topic_def topic_clone_def topic_new_def topic_ok_def)

lemma schedule_copied: "schedule_ok i \<Longrightarrow> copy_schedule sk (Inl i) = Inr i"
  by (cases i; cases "sc_ids i") (simp add: copy_schedule_def schedule_clone_def schedule_new_def schedule_ok_def)

lemma contract_opt:
  assumes "opt_ok contract_ok x"
  shows "js_opt contract_fromProtobuf (map_option contract_toProtobuf x) = Inr (map_option contract_read x)"
    "opt_ok contract_ok (map_option contract_read x)"
  using assms by (cases x; simp add: contract_back contract_ok_def contract_read_def)+

lemma file_received:
  assumes "sdk_lawful sk" "file_ok i"
  shows "file_of_message sk (file_toProtobuf i) = Inr (file_read i)"
proof -
  obtain s r n where i: "fl_ids i = (s, r, n)" by (cases "fl_ids i")
  then have "id_valid (s, r, n)" using assms(2) by (simp add: file_ok_def)
  moreover from this have "0 \<le> sint s" "0 \<le> sint r" "0 \<le> sint n" by (simp_all add: id_valid_def)
  ultimately show ?thesis using assms(1) i long_print_parse(1) [of "it_print (sk_text sk)" "it_parse (sk_text sk)"]
    by (cases i) (simp add: file_fromProtobuf_def file_toProtobuf_def id_toMessage_def reread_long_def file_new_def
      file_read_def sdk_lawful_def)
qed

lemma file_opt:
  assumes "sdk_lawful sk" "opt_ok file_ok x"
  shows "js_opt (file_of_message sk) (map_option file_toProtobuf x) = Inr (map_option file_read x)"
    "opt_ok file_ok (map_option file_read x)"
  using assms by (cases x; simp add: file_received; simp add: file_ok_def file_read_def)+

lemma topic_opt:
  assumes "opt_ok topic_ok x"
  shows "js_opt topic_fromProtobuf (map_option topic_toProtobuf x) = Inr (map_option topic_read x)"
    "opt_ok topic_ok (map_option topic_read x)"
proof -
  have "topic_fromProtobuf (topic_toProtobuf i) = Inr (topic_read i)" if "topic_ok i" for i
    using that by (cases i; cases "tp_ids i") (simp add: topic_fromProtobuf_def topic_toProtobuf_def id_toMessage_def
      topic_new_def topic_ok_def topic_read_def)
  then show "js_opt topic_fromProtobuf (map_option topic_toProtobuf x) = Inr (map_option topic_read x)"
    using assms by (cases x) simp_all
  show "opt_ok topic_ok (map_option topic_read x)" using assms by (cases x) (simp_all add: topic_ok_def topic_read_def)
qed

lemma schedule_opt:
  assumes "opt_ok schedule_ok x"
  shows "js_opt schedule_fromProtobuf (map_option schedule_toProtobuf x) = Inr (map_option schedule_read x)"
    "opt_ok schedule_ok (map_option schedule_read x)"
proof -
  have "schedule_fromProtobuf (schedule_toProtobuf i) = Inr (schedule_read i)" if "schedule_ok i" for i
    using that by (cases i; cases "sc_ids i") (simp add: schedule_fromProtobuf_def schedule_toProtobuf_def
      id_toMessage_def schedule_new_def schedule_ok_def schedule_read_def)
  then show "js_opt schedule_fromProtobuf (map_option schedule_toProtobuf x) = Inr (map_option schedule_read x)"
    using assms by (cases x) simp_all
  show "opt_ok schedule_ok (map_option schedule_read x)"
    using assms by (cases x) (simp_all add: schedule_ok_def schedule_read_def)
qed

subsection \<open>Amounts\<close>

text \<open>An amount of a message that is handed over as a number, which counts whole coins.\<close>

definition amount_number :: "long \<Rightarrow> u2u_arg" where
  "amount_number v = AmountNumber (of_int (sint v))"

definition coins :: "long \<Rightarrow> int" where
  "coins v = sint v * 100000000"

definition amount_read :: "int \<Rightarrow> int" where
  "amount_read v = coins (u2u_toTiny v)"

lemma amount_read_opt [simp]: "map_option coins (map_option u2u_toTiny x) = map_option amount_read x"
  by (cases x) (simp_all add: amount_read_def)

lemma amount_scaled: "arg_amount (amount_number v) = Inr (coins v)"
proof -
  have "of_int (sint v) * of_int (un_tiny unit_U2U) = (of_int (sint v * 100000000) :: rat)"
    by (simp add: unit_U2U_def)
  then show ?thesis
    by (simp only: arg_amount_def amount_number_def u2u_new_def Let_def u2u_arg.case floor_of_int simp_thms if_True coins_def)
qed

lemma arg_amount_U2U [simp]: "arg_amount (AmountU2U v) = Inr v"
  by (simp add: arg_amount_def)

text \<open>An amount of a message that is read in its own unit.\<close>

definition amount_ofTiny :: "long \<Rightarrow> int js" where
  "amount_ofTiny v = u2u_fromTiny (of_int (sint v))"

definition amount_ok :: "int \<Rightarrow> bool" where
  "amount_ok v \<longleftrightarrow> - (2 ^ 63) \<le> v \<and> v < 2 ^ 63"

lemma amount_ofTiny_eq [simp]: "amount_ofTiny v = Inr (sint v)"
  by (simp only: amount_ofTiny_def u2u_fromTiny_def u2u_new_def unit_Tiny_def Let_def u2u_unit.simps of_int_1
      mult_1_right floor_of_int simp_thms if_True)

lemma amount_back: "amount_ok v \<Longrightarrow> sint (u2u_toTiny v) = v"
  by (simp add: amount_ok_def u2u_toTiny_def signed_of_int signed_take_bit_int_eq_self)

lemma amount_opt:
  "opt_ok amount_ok x \<Longrightarrow> js_opt amount_ofTiny (map_option u2u_toTiny x) = Inr x"
  by (cases x) (simp_all add: amount_back)

subsection \<open>Other fields\<close>

definition arg_alias :: "bytes + string \<Rightarrow> bytes js" where
  "arg_alias a =
     (case a of
        Inl e \<Rightarrow> Inr e
      | Inr t \<Rightarrow>
          if prefix ''0x'' t \<and> length t = 42 \<or> length t = 40 then Inr (evm_fromString t)
          else Inl BadEvmAddress)"

definition alias_read :: "bytes \<Rightarrow> bytes option" where
  "alias_read b = (if length b = 20 then Some b else None)"

definition evm_ok :: "bytes \<Rightarrow> bool" where
  "evm_ok e \<longleftrightarrow> length e = 20"

lemma evm_opt: "opt_ok evm_ok x \<Longrightarrow> Option.bind x alias_read = x"
  by (cases x) (simp_all add: evm_ok_def alias_read_def)

lemma arg_alias_Inl [simp]: "arg_alias (Inl e) = Inr e"
  by (simp add: arg_alias_def)

definition wrapped_int :: "long \<Rightarrow> int wrapper" where
  "wrapped_int n = wrapped (long_toInt n)"

definition unwrapped_int :: "int wrapper \<Rightarrow> long option" where
  "unwrapped_int w = map_option word_of_int (wr_value w)"

lemma wint32_opt: "opt_ok int32_ok x \<Longrightarrow> Option.bind (map_option wrapped_int x) unwrapped_int = x"
  by (cases x) (simp_all add: wrapped_int_def wrapped_def unwrapped_int_def int32_ok_def long_toInt_fits [THEN iffD2])

text \<open>Keys are an array or a \<open>KeyList\<close>; the key of a file has no threshold.\<close>

datatype 'k keys_list = KeysArray "'k key option list" | KeysList "'k key option list" "int option"

definition arg_keys :: "'k keys_list \<Rightarrow> 'k key option list js" where
  "arg_keys a = (case a of KeysArray ks \<Rightarrow> Inr ks | KeysList ks t \<Rightarrow> Inr (keyList_toArray (KeyList ks t)))"

definition arg_fileKeys :: "'k keys_list \<Rightarrow> 'k key option list js" where
  "arg_fileKeys a =
     (case a of
        KeysArray ks \<Rightarrow> Inr ks
      | KeysList ks t \<Rightarrow>
          if keyList_threshold (KeyList ks t) \<noteq> None then Inl ThresholdFileKey
          else Inr (keyList_toArray (KeyList ks t)))"

definition keys_message :: "'k sdk \<Rightarrow> 'k key option list \<Rightarrow> key_list_message js" where
  "keys_message sk ks = js_bind (keys_toProtobuf (sk_keys sk) ks) (\<lambda>ms. Inr (KeyListMessage (Some ms)))"

text \<open>A message without its list of keys gives no argument.\<close>

definition keys_of_message :: "'k sdk \<Rightarrow> key_list_message option \<Rightarrow> 'k key option list option js" where
  "keys_of_message sk m = js_opt (keys_fromProtobuf (sk_keys sk)) (Option.bind m lm_keys)"

definition keys_ok :: "'k sdk \<Rightarrow> 'k key option list \<Rightarrow> bool" where
  "keys_ok sk ks \<longleftrightarrow> (\<forall>k \<in> set ks. case k of None \<Rightarrow> False | Some k \<Rightarrow> key_ok (sk_keys sk) k)"

lemma keys_opt:
  assumes "sdk_lawful sk" "opt_ok (keys_ok sk) x"
  shows "\<exists>m. js_opt (keys_message sk) x = Inr m \<and>
    keys_of_message sk m = Inr (map_option (map (map_option key_sent)) x)"
proof (cases x)
  case (Some ks)
  then show ?thesis using key_back(2) [of "sk_keys sk" ks] assms
    by (auto simp: sdk_lawful_def keys_ok_def keys_message_def keys_of_message_def)
qed (simp add: keys_of_message_def)

lemma arg_keys_array [simp]: "arg_keys (KeysArray ks) = Inr ks" "arg_fileKeys (KeysArray ks) = Inr ks"
  by (simp_all add: arg_keys_def arg_fileKeys_def)

definition arg_bytes :: "'k sdk \<Rightarrow> bytes + string \<Rightarrow> bytes" where
  "arg_bytes sk a = (case a of Inl b \<Rightarrow> b | Inr t \<Rightarrow> co_utf8 (sk_abi sk) t)"

lemma arg_bytes_Inl [simp]: "arg_bytes sk (Inl b) = b"
  by (simp add: arg_bytes_def)

end
