(* ===== verification/AccountTx.thy ===== *)
theory AccountTx
  imports ClassArgs
begin

text \<open>
  The transactions of accounts: \<open>account/AccountCreateTransaction.js\<close>,
  \<open>AccountUpdateTransaction.js\<close>, \<open>AccountDeleteTransaction.js\<close>, \<open>LiveHashAddTransaction.js\<close> and
  \<open>LiveHashDeleteTransaction.js\<close>.
\<close>

subsection \<open>Creating an account\<close>

text \<open>\<open>DEFAULT_RECORD_THRESHOLD\<close> of \<open>Transaction.js\<close>.\<close>

definition record_threshold :: int where
  "record_threshold = 9223372036854775807"

record 'k account_create =
  cre_key :: "'k key option"
  cre_receiverSig :: "bool"
  cre_initialBalance :: "int option"
  cre_proxy :: "'k account_id option"
  cre_autoRenewPeriod :: "long"
  cre_memo :: "string option"
  cre_maxAssociations :: "long option"
  cre_stakedAccount :: "'k account_id option"
  cre_stakedNode :: "long option"
  cre_declineReward :: "bool"
  cre_alias :: "bytes option"

record account_create_message =
  crem_key :: "key_message option"
  crem_receiverSigRequired :: "bool option"
  crem_initialBalance :: "long option"
  crem_proxyAccountID :: "account_message option"
  crem_autoRenewPeriod :: "duration_message option"
  crem_memo :: "string option"
  crem_maxAutomaticTokenAssociations :: "int option"
  crem_stakedAccountId :: "account_message option"
  crem_stakedNodeId :: "long option"
  crem_declineReward :: "bool option"
  crem_alias :: "bytes option"
  crem_receiveRecordThreshold :: "long option"
  crem_sendRecordThreshold :: "long option"

definition accountCreate_blank :: "'k account_create" where
  "accountCreate_blank = \<lparr>cre_key = None, cre_receiverSig = False, cre_initialBalance = None,
      cre_proxy = None, cre_autoRenewPeriod = 7776000, cre_memo = None, cre_maxAssociations = None,
      cre_stakedAccount = None, cre_stakedNode = None, cre_declineReward = False, cre_alias = None\<rparr>"

definition accountCreate_setKey ::
  "'k key \<Rightarrow> 'k account_create class_tx \<Rightarrow> 'k account_create class_tx js" where
  "accountCreate_setKey x = guarded (\<lambda>d. Inr (d\<lparr>cre_key := Some x\<rparr>))"

definition accountCreate_setReceiverSignatureRequired ::
  "bool \<Rightarrow> 'k account_create class_tx \<Rightarrow> 'k account_create class_tx js" where
  "accountCreate_setReceiverSignatureRequired x = guarded (\<lambda>d. Inr (d\<lparr>cre_receiverSig := x\<rparr>))"

definition accountCreate_setInitialBalance ::
  "u2u_arg \<Rightarrow> 'k account_create class_tx \<Rightarrow> 'k account_create class_tx js" where
  "accountCreate_setInitialBalance x = guarded (\<lambda>d. js_bind (arg_amount x) (\<lambda>y. Inr
      (d\<lparr>cre_initialBalance := Some y\<rparr>)))"

definition accountCreate_setProxyAccountId ::
  "'k account_id \<Rightarrow> 'k account_create class_tx \<Rightarrow> 'k account_create class_tx js" where
  "accountCreate_setProxyAccountId x = guarded (\<lambda>d. Inr (d\<lparr>cre_proxy := Some x\<rparr>))"

definition accountCreate_setAutoRenewPeriod ::
  "long \<Rightarrow> 'k account_create class_tx \<Rightarrow> 'k account_create class_tx js" where
  "accountCreate_setAutoRenewPeriod x = guarded (\<lambda>d. Inr (d\<lparr>cre_autoRenewPeriod := x\<rparr>))"

definition accountCreate_setAccountMemo ::
  "string \<Rightarrow> 'k account_create class_tx \<Rightarrow> 'k account_create class_tx js" where
  "accountCreate_setAccountMemo x = guarded (\<lambda>d. Inr (d\<lparr>cre_memo := Some x\<rparr>))"

definition accountCreate_setMaxAutomaticTokenAssociations ::
  "long \<Rightarrow> 'k account_create class_tx \<Rightarrow> 'k account_create class_tx js" where
  "accountCreate_setMaxAutomaticTokenAssociations x = guarded (\<lambda>d. Inr (d\<lparr>cre_maxAssociations :=
      Some x\<rparr>))"

definition accountCreate_setStakedAccountId ::
  "'k sdk \<Rightarrow> 'k account_arg \<Rightarrow> 'k account_create class_tx \<Rightarrow> 'k account_create class_tx js" where
  "accountCreate_setStakedAccountId sk x = guarded (\<lambda>d. js_bind (arg_account (sk_text sk) x) (\<lambda>y.
      Inr (d\<lparr>cre_stakedAccount := Some y\<rparr>)))"

definition accountCreate_setStakedNodeId ::
  "long \<Rightarrow> 'k account_create class_tx \<Rightarrow> 'k account_create class_tx js" where
  "accountCreate_setStakedNodeId x = guarded (\<lambda>d. Inr (d\<lparr>cre_stakedNode := Some x\<rparr>))"

definition accountCreate_setDeclineStakingReward ::
  "bool \<Rightarrow> 'k account_create class_tx \<Rightarrow> 'k account_create class_tx js" where
  "accountCreate_setDeclineStakingReward x = guarded (\<lambda>d. Inr (d\<lparr>cre_declineReward := x\<rparr>))"

definition accountCreate_setAlias ::
  "bytes + string \<Rightarrow> 'k account_create class_tx \<Rightarrow> 'k account_create class_tx js" where
  "accountCreate_setAlias x = unguarded (\<lambda>d. js_bind (arg_alias x) (\<lambda>y. Inr (d\<lparr>cre_alias := Some y\<rparr>)))"

definition accountCreate_new ::
  "'k sdk \<Rightarrow> (nat \<Rightarrow> timestamp) \<Rightarrow> ('k key) option \<Rightarrow>
   bool option \<Rightarrow> u2u_arg option \<Rightarrow> ('k account_id) option \<Rightarrow>
   long option \<Rightarrow> string option \<Rightarrow> long option \<Rightarrow>
   ('k account_arg) option \<Rightarrow> long option \<Rightarrow> bool option \<Rightarrow>
   (bytes + string) option \<Rightarrow> 'k account_create class_tx js" where
  "accountCreate_new sk starts key receiverSig initialBalance proxy autoRenewPeriod memo
      maxAssociations stakedAccount stakedNode declineReward alias =
     js_bind (when_given accountCreate_setKey key (class_new starts 200000000 accountCreate_blank)) (\<lambda>q.
     js_bind (when_given accountCreate_setReceiverSignatureRequired receiverSig q) (\<lambda>q.
     js_bind (when_given accountCreate_setInitialBalance initialBalance q) (\<lambda>q.
     js_bind (when_given accountCreate_setProxyAccountId proxy q) (\<lambda>q.
     js_bind (when_given accountCreate_setAutoRenewPeriod autoRenewPeriod q) (\<lambda>q.
     js_bind (when_given accountCreate_setAccountMemo memo q) (\<lambda>q.
     js_bind (when_given accountCreate_setMaxAutomaticTokenAssociations maxAssociations q) (\<lambda>q.
     js_bind (when_given (accountCreate_setStakedAccountId sk) stakedAccount q) (\<lambda>q.
     js_bind (when_given accountCreate_setStakedNodeId stakedNode q) (\<lambda>q.
     js_bind (when_given accountCreate_setDeclineStakingReward declineReward q) (\<lambda>q.
       when_given accountCreate_setAlias alias q))))))))))"

definition accountCreate_validateChecksums :: "'k sdk \<Rightarrow> ledger_id option \<Rightarrow> 'k account_create \<Rightarrow> unit
    js" where
  "accountCreate_validateChecksums sk ledger d =
     check_account sk ledger (cre_proxy d)"

definition accountCreate_makeTransactionData ::
  "'k sdk \<Rightarrow> 'k account_create \<Rightarrow> account_create_message js" where
  "accountCreate_makeTransactionData sk d =
     js_bind (js_opt (key_toProtobuf (sk_keys sk)) (cre_key d)) (\<lambda>key.
       Inr \<lparr>crem_key = key,
       crem_receiverSigRequired = Some (cre_receiverSig d),
       crem_initialBalance = map_option u2u_toTiny (cre_initialBalance d),
       crem_proxyAccountID = map_option (account_message_of sk) (cre_proxy d),
       crem_autoRenewPeriod = Some (duration_toProtobuf (cre_autoRenewPeriod d)),
       crem_memo = cre_memo d,
       crem_maxAutomaticTokenAssociations = map_option long_toInt (cre_maxAssociations d),
       crem_stakedAccountId = map_option (account_message_of sk) (cre_stakedAccount d),
       crem_stakedNodeId = cre_stakedNode d,
       crem_declineReward = Some (cre_declineReward d),
       crem_alias = cre_alias d,
       crem_receiveRecordThreshold = Some (u2u_toTiny record_threshold),
       crem_sendRecordThreshold = Some (u2u_toTiny record_threshold)\<rparr>)"

definition accountCreate_fromProtobuf ::
  "'k sdk \<Rightarrow> (nat \<Rightarrow> timestamp) \<Rightarrow> account_create_message \<Rightarrow> 'k account_create class_tx js" where
  "accountCreate_fromProtobuf sk starts m =
     js_bind (key_of_message sk (crem_key m)) (\<lambda>key.
     js_bind (js_opt (account_of_message sk) (crem_proxyAccountID m)) (\<lambda>proxy.
     js_bind (js_opt (account_of_message sk) (crem_stakedAccountId m)) (\<lambda>stakedAccount.
       accountCreate_new sk starts key (crem_receiverSigRequired m) (map_option amount_number
           (crem_initialBalance m)) proxy
         (map_option duration_fromProtobuf (crem_autoRenewPeriod m)) (crem_memo m) (map_option
             word_of_int (crem_maxAutomaticTokenAssociations m)) (map_option Inl stakedAccount)
         (crem_stakedNodeId m) (Some (crem_declineReward m = Some True)) (map_option Inl
             (Option.bind (crem_alias m) alias_read)))))"

definition accountCreate_ok :: "'k sdk \<Rightarrow> 'k account_create \<Rightarrow> bool" where
  "accountCreate_ok sk d \<longleftrightarrow>
     opt_ok (key_ok (sk_keys sk)) (cre_key d) \<and>
     opt_ok account_ok (cre_proxy d) \<and>
     opt_ok int32_ok (cre_maxAssociations d) \<and>
     opt_ok account_ok (cre_stakedAccount d) \<and>
     opt_ok evm_ok (cre_alias d)"

definition accountCreate_read :: "'k account_create \<Rightarrow> 'k account_create" where
  "accountCreate_read d =
     d\<lparr>cre_key := map_option key_sent (cre_key d),
       cre_initialBalance := map_option amount_read (cre_initialBalance d),
       cre_proxy := map_option account_sent (cre_proxy d),
       cre_stakedAccount := map_option account_sent (cre_stakedAccount d)\<rparr>"

lemma accountCreate_given_key:
  "when_given accountCreate_setKey x (class_new s fee d) =
     Inr (class_new s fee (d\<lparr>cre_key := or_else x (cre_key d)\<rparr>))"
  by (cases x; cases d) (simp_all add: accountCreate_setKey_def)

lemma accountCreate_given_receiverSig:
  "when_given accountCreate_setReceiverSignatureRequired x (class_new s fee d) =
     Inr (class_new s fee (d\<lparr>cre_receiverSig := or_keep x (cre_receiverSig d)\<rparr>))"
  by (cases x; cases d) (simp_all add: accountCreate_setReceiverSignatureRequired_def)

lemma accountCreate_given_initialBalance:
  "when_given accountCreate_setInitialBalance (map_option amount_number x) (class_new s fee d) =
     Inr (class_new s fee (d\<lparr>cre_initialBalance :=
       or_else (map_option coins x) (cre_initialBalance d)\<rparr>))"
  by (cases x; cases d) (simp_all add: accountCreate_setInitialBalance_def amount_scaled)

lemma accountCreate_given_proxy:
  "when_given accountCreate_setProxyAccountId x (class_new s fee d) =
     Inr (class_new s fee (d\<lparr>cre_proxy := or_else x (cre_proxy d)\<rparr>))"
  by (cases x; cases d) (simp_all add: accountCreate_setProxyAccountId_def)

lemma accountCreate_given_autoRenewPeriod:
  "when_given accountCreate_setAutoRenewPeriod x (class_new s fee d) =
     Inr (class_new s fee (d\<lparr>cre_autoRenewPeriod := or_keep x (cre_autoRenewPeriod d)\<rparr>))"
  by (cases x; cases d) (simp_all add: accountCreate_setAutoRenewPeriod_def)

lemma accountCreate_given_memo:
  "when_given accountCreate_setAccountMemo x (class_new s fee d) =
     Inr (class_new s fee (d\<lparr>cre_memo := or_else x (cre_memo d)\<rparr>))"
  by (cases x; cases d) (simp_all add: accountCreate_setAccountMemo_def)

lemma accountCreate_given_maxAssociations:
  "when_given accountCreate_setMaxAutomaticTokenAssociations x (class_new s fee d) =
     Inr (class_new s fee (d\<lparr>cre_maxAssociations := or_else x (cre_maxAssociations d)\<rparr>))"
  by (cases x; cases d) (simp_all add: accountCreate_setMaxAutomaticTokenAssociations_def)

lemma accountCreate_given_stakedAccount:
  "opt_ok account_ok x \<Longrightarrow> when_given (accountCreate_setStakedAccountId sk) (map_option Inl x)
      (class_new s fee d) =
     Inr (class_new s fee (d\<lparr>cre_stakedAccount := or_else x (cre_stakedAccount d)\<rparr>))"
  by (cases x; cases d) (simp_all add: accountCreate_setStakedAccountId_def arg_account_def)

lemma accountCreate_given_stakedNode:
  "when_given accountCreate_setStakedNodeId x (class_new s fee d) =
     Inr (class_new s fee (d\<lparr>cre_stakedNode := or_else x (cre_stakedNode d)\<rparr>))"
  by (cases x; cases d) (simp_all add: accountCreate_setStakedNodeId_def)

lemma accountCreate_given_declineReward:
  "when_given accountCreate_setDeclineStakingReward x (class_new s fee d) =
     Inr (class_new s fee (d\<lparr>cre_declineReward := or_keep x (cre_declineReward d)\<rparr>))"
  by (cases x; cases d) (simp_all add: accountCreate_setDeclineStakingReward_def)

lemma accountCreate_given_alias:
  "when_given accountCreate_setAlias (map_option Inl x) (class_new s fee d) =
     Inr (class_new s fee (d\<lparr>cre_alias := or_else x (cre_alias d)\<rparr>))"
  by (cases x; cases d) (simp_all add: accountCreate_setAlias_def)

lemmas accountCreate_given = accountCreate_given_key accountCreate_given_receiverSig
    accountCreate_given_initialBalance accountCreate_given_proxy accountCreate_given_autoRenewPeriod
    accountCreate_given_memo accountCreate_given_maxAssociations accountCreate_given_stakedAccount
    accountCreate_given_stakedNode accountCreate_given_declineReward accountCreate_given_alias

lemma accountCreate_back:
  assumes "sdk_lawful sk" "accountCreate_ok sk d"
  shows "\<exists>m. accountCreate_makeTransactionData sk d = Inr m \<and>
    accountCreate_fromProtobuf sk starts m = Inr (class_new starts 200000000 (accountCreate_read d))"
proof -
  obtain key where key: "js_opt (key_toProtobuf (sk_keys sk)) (cre_key d) = Inr key"
    "key_of_message sk key = Inr (map_option key_sent (cre_key d))"
    using key_opt [OF assms(1)] assms(2) unfolding accountCreate_ok_def by blast
  show ?thesis
    using assms(2) key unfolding accountCreate_ok_def
    by (cases d) (simp add: accountCreate_makeTransactionData_def accountCreate_fromProtobuf_def
        accountCreate_new_def
      accountCreate_given accountCreate_blank_def accountCreate_read_def account_opt [OF assms(1)]
      opt_account_sent int32_opt evm_opt accountCreate_setReceiverSignatureRequired_def
      accountCreate_setAutoRenewPeriod_def accountCreate_setDeclineStakingReward_def)
qed

subsection \<open>Changing an account\<close>

text \<open>What requires a signature is sent as \<open>receiverSigRequiredWrapper\<close> and read from \<open>receiverSigRequired\<close>.\<close>

record 'k account_update =
  upd_account :: "'k account_id option"
  upd_key :: "'k key option"
  upd_receiverSig :: "bool"
  upd_proxy :: "'k account_id option"
  upd_autoRenewPeriod :: "long option"
  upd_expiry :: "timestamp option"
  upd_memo :: "string option"
  upd_maxAssociations :: "long option"
  upd_stakedAccount :: "'k account_id option"
  upd_stakedNode :: "long option"
  upd_declineReward :: "bool option"

record account_update_message =
  upm_accountIDToUpdate :: "account_message option"
  upm_key :: "key_message option"
  upm_receiverSigRequiredWrapper :: "(bool wrapper) option"
  upm_proxyAccountID :: "account_message option"
  upm_autoRenewPeriod :: "duration_message option"
  upm_expirationTime :: "(long \<times> int) option"
  upm_memo :: "(string wrapper) option"
  upm_maxAutomaticTokenAssociations :: "(int wrapper) option"
  upm_stakedAccountId :: "account_message option"
  upm_stakedNodeId :: "long option"
  upm_declineReward :: "(bool wrapper) option"
  upm_receiverSigRequired :: "bool option"

definition accountUpdate_blank :: "'k account_update" where
  "accountUpdate_blank = \<lparr>upd_account = None, upd_key = None, upd_receiverSig = False, upd_proxy =
      None, upd_autoRenewPeriod = None, upd_expiry = None, upd_memo = None, upd_maxAssociations =
      None, upd_stakedAccount = None, upd_stakedNode = None, upd_declineReward = None\<rparr>"

definition accountUpdate_setAccountId ::
  "'k sdk \<Rightarrow> 'k account_arg \<Rightarrow> 'k account_update class_tx \<Rightarrow> 'k account_update class_tx js" where
  "accountUpdate_setAccountId sk x = guarded (\<lambda>d. js_bind (copy_account sk x) (\<lambda>y. Inr
      (d\<lparr>upd_account := Some y\<rparr>)))"

definition accountUpdate_setKey ::
  "'k key \<Rightarrow> 'k account_update class_tx \<Rightarrow> 'k account_update class_tx js" where
  "accountUpdate_setKey x = guarded (\<lambda>d. Inr (d\<lparr>upd_key := Some x\<rparr>))"

definition accountUpdate_setReceiverSignatureRequired ::
  "bool \<Rightarrow> 'k account_update class_tx \<Rightarrow> 'k account_update class_tx js" where
  "accountUpdate_setReceiverSignatureRequired x = guarded (\<lambda>d. Inr (d\<lparr>upd_receiverSig := x\<rparr>))"

definition accountUpdate_setProxyAccountId ::
  "'k account_id \<Rightarrow> 'k account_update class_tx \<Rightarrow> 'k account_update class_tx js" where
  "accountUpdate_setProxyAccountId x = guarded (\<lambda>d. Inr (d\<lparr>upd_proxy := Some x\<rparr>))"

definition accountUpdate_setAutoRenewPeriod ::
  "long \<Rightarrow> 'k account_update class_tx \<Rightarrow> 'k account_update class_tx js" where
  "accountUpdate_setAutoRenewPeriod x = guarded (\<lambda>d. Inr (d\<lparr>upd_autoRenewPeriod := Some x\<rparr>))"

definition accountUpdate_setExpirationTime ::
  "timestamp + date \<Rightarrow> 'k account_update class_tx \<Rightarrow> 'k account_update class_tx js" where
  "accountUpdate_setExpirationTime x = guarded (\<lambda>d. Inr (d\<lparr>upd_expiry := Some (arg_time x)\<rparr>))"

definition accountUpdate_setAccountMemo ::
  "string \<Rightarrow> 'k account_update class_tx \<Rightarrow> 'k account_update class_tx js" where
  "accountUpdate_setAccountMemo x = guarded (\<lambda>d. Inr (d\<lparr>upd_memo := Some x\<rparr>))"

definition accountUpdate_setMaxAutomaticTokenAssociations ::
  "long \<Rightarrow> 'k account_update class_tx \<Rightarrow> 'k account_update class_tx js" where
  "accountUpdate_setMaxAutomaticTokenAssociations x = guarded (\<lambda>d. Inr (d\<lparr>upd_maxAssociations :=
      Some x\<rparr>))"

definition accountUpdate_setStakedAccountId ::
  "'k sdk \<Rightarrow> 'k account_arg \<Rightarrow> 'k account_update class_tx \<Rightarrow> 'k account_update class_tx js" where
  "accountUpdate_setStakedAccountId sk x = guarded (\<lambda>d. js_bind (arg_account (sk_text sk) x) (\<lambda>y.
      Inr (d\<lparr>upd_stakedAccount := Some y\<rparr>)))"

definition accountUpdate_setStakedNodeId ::
  "long \<Rightarrow> 'k account_update class_tx \<Rightarrow> 'k account_update class_tx js" where
  "accountUpdate_setStakedNodeId x = guarded (\<lambda>d. Inr (d\<lparr>upd_stakedNode := Some x\<rparr>))"

definition accountUpdate_setDeclineStakingReward ::
  "bool \<Rightarrow> 'k account_update class_tx \<Rightarrow> 'k account_update class_tx js" where
  "accountUpdate_setDeclineStakingReward x = guarded (\<lambda>d. Inr (d\<lparr>upd_declineReward := Some x\<rparr>))"

definition accountUpdate_new ::
  "'k sdk \<Rightarrow> (nat \<Rightarrow> timestamp) \<Rightarrow> ('k account_arg) option \<Rightarrow>
   ('k key) option \<Rightarrow> bool option \<Rightarrow> ('k account_id) option \<Rightarrow>
   long option \<Rightarrow> (timestamp + date) option \<Rightarrow> string option \<Rightarrow>
   long option \<Rightarrow> ('k account_arg) option \<Rightarrow> long option \<Rightarrow>
   bool option \<Rightarrow> 'k account_update class_tx js" where
  "accountUpdate_new sk starts account key receiverSig proxy autoRenewPeriod expiry memo
      maxAssociations stakedAccount stakedNode declineReward =
     js_bind (when_given (accountUpdate_setAccountId sk) account (class_new starts 200000000
         accountUpdate_blank)) (\<lambda>q.
     js_bind (when_given accountUpdate_setKey key q) (\<lambda>q.
     js_bind (when_given accountUpdate_setReceiverSignatureRequired receiverSig q) (\<lambda>q.
     js_bind (when_given accountUpdate_setProxyAccountId proxy q) (\<lambda>q.
     js_bind (when_given accountUpdate_setAutoRenewPeriod autoRenewPeriod q) (\<lambda>q.
     js_bind (when_given accountUpdate_setExpirationTime expiry q) (\<lambda>q.
     js_bind (when_given accountUpdate_setAccountMemo memo q) (\<lambda>q.
     js_bind (when_given accountUpdate_setMaxAutomaticTokenAssociations maxAssociations q) (\<lambda>q.
     js_bind (when_given (accountUpdate_setStakedAccountId sk) stakedAccount q) (\<lambda>q.
     js_bind (when_given accountUpdate_setStakedNodeId stakedNode q) (\<lambda>q.
       when_given accountUpdate_setDeclineStakingReward declineReward q))))))))))"

definition accountUpdate_validateChecksums :: "'k sdk \<Rightarrow> ledger_id option \<Rightarrow> 'k account_update \<Rightarrow> unit
    js" where
  "accountUpdate_validateChecksums sk ledger d =
     js_bind (check_account sk ledger (upd_account d)) (\<lambda>_.
       check_account sk ledger (upd_proxy d))"

definition accountUpdate_makeTransactionData ::
  "'k sdk \<Rightarrow> 'k account_update \<Rightarrow> account_update_message js" where
  "accountUpdate_makeTransactionData sk d =
     js_bind (js_opt (key_toProtobuf (sk_keys sk)) (upd_key d)) (\<lambda>key.
       Inr \<lparr>upm_accountIDToUpdate = map_option (account_message_of sk) (upd_account d),
       upm_key = key,
       upm_receiverSigRequiredWrapper = Some (wrapped (upd_receiverSig d)),
       upm_proxyAccountID = map_option (account_message_of sk) (upd_proxy d),
       upm_autoRenewPeriod = map_option duration_toProtobuf (upd_autoRenewPeriod d),
       upm_expirationTime = map_option ts_toProtobuf (upd_expiry d),
       upm_memo = map_option wrapped (upd_memo d),
       upm_maxAutomaticTokenAssociations = map_option wrapped_int (upd_maxAssociations d),
       upm_stakedAccountId = map_option (account_message_of sk) (upd_stakedAccount d),
       upm_stakedNodeId = upd_stakedNode d,
       upm_declineReward = map_option wrapped (upd_declineReward d),
       upm_receiverSigRequired = None\<rparr>)"

definition accountUpdate_fromProtobuf ::
  "'k sdk \<Rightarrow> (nat \<Rightarrow> timestamp) \<Rightarrow> account_update_message \<Rightarrow> 'k account_update class_tx js" where
  "accountUpdate_fromProtobuf sk starts m =
     js_bind (js_opt (account_of_message sk) (upm_accountIDToUpdate m)) (\<lambda>account.
     js_bind (key_of_message sk (upm_key m)) (\<lambda>key.
     js_bind (js_opt (account_of_message sk) (upm_proxyAccountID m)) (\<lambda>proxy.
     js_bind (js_opt (account_of_message sk) (upm_stakedAccountId m)) (\<lambda>stakedAccount.
       accountUpdate_new sk starts (map_option Inl account) key (upm_receiverSigRequired m) proxy
         (map_option duration_fromProtobuf (upm_autoRenewPeriod m)) (map_option Inl (map_option
             ts_fromProtobuf (upm_expirationTime m))) (Option.bind (upm_memo m) wr_value)
             (Option.bind (upm_maxAutomaticTokenAssociations m) unwrapped_int)
         (map_option Inl stakedAccount) (upm_stakedNodeId m) (Some (upm_declineReward m \<noteq> None))))))"

definition accountUpdate_clearAccountMemo :: "'k account_update class_tx \<Rightarrow> 'k account_update
    class_tx js" where
  "accountUpdate_clearAccountMemo = guarded (\<lambda>d. Inr (d\<lparr>upd_memo := None\<rparr>))"

definition accountUpdate_clearStakedAccountId :: "'k account_update class_tx \<Rightarrow> 'k account_update
    class_tx js" where
  "accountUpdate_clearStakedAccountId =
     guarded (\<lambda>d. js_bind (account_new (Num 0) (Some 0) (Some 0) None None) (\<lambda>a. Inr
         (d\<lparr>upd_stakedAccount := Some a\<rparr>)))"

definition accountUpdate_clearStakedNodeId :: "'k account_update class_tx \<Rightarrow> 'k account_update
    class_tx js" where
  "accountUpdate_clearStakedNodeId = guarded (\<lambda>d. Inr (d\<lparr>upd_stakedNode := Some (- 1)\<rparr>))"

definition accountUpdate_setAliasKey :: "'k key \<Rightarrow> 'k account_update class_tx \<Rightarrow> 'k account_update
    class_tx js" where
  "accountUpdate_setAliasKey k q = Inr q"

definition accountUpdate_ok :: "'k sdk \<Rightarrow> 'k account_update \<Rightarrow> bool" where
  "accountUpdate_ok sk d \<longleftrightarrow>
     opt_ok account_ok (upd_account d) \<and>
     opt_ok (key_ok (sk_keys sk)) (upd_key d) \<and>
     opt_ok account_ok (upd_proxy d) \<and>
     opt_ok time_ok (upd_expiry d) \<and>
     opt_ok int32_ok (upd_maxAssociations d) \<and>
     opt_ok account_ok (upd_stakedAccount d)"

definition accountUpdate_read :: "'k account_update \<Rightarrow> 'k account_update" where
  "accountUpdate_read d =
     d\<lparr>upd_account := map_option account_sent (upd_account d),
       upd_key := map_option key_sent (upd_key d),
       upd_receiverSig := False,
       upd_proxy := map_option account_sent (upd_proxy d),
       upd_stakedAccount := map_option account_sent (upd_stakedAccount d),
       upd_declineReward := Some (upd_declineReward d \<noteq> None)\<rparr>"

lemma accountUpdate_given_account:
  "opt_ok account_ok x \<Longrightarrow> when_given (accountUpdate_setAccountId sk) (map_option Inl x) (class_new s
      fee d) =
     Inr (class_new s fee (d\<lparr>upd_account := or_else x (upd_account d)\<rparr>))"
  by (cases x; cases d) (simp_all add: accountUpdate_setAccountId_def account_copied)

lemma accountUpdate_given_key:
  "when_given accountUpdate_setKey x (class_new s fee d) =
     Inr (class_new s fee (d\<lparr>upd_key := or_else x (upd_key d)\<rparr>))"
  by (cases x; cases d) (simp_all add: accountUpdate_setKey_def)

lemma accountUpdate_given_receiverSig:
  "when_given accountUpdate_setReceiverSignatureRequired x (class_new s fee d) =
     Inr (class_new s fee (d\<lparr>upd_receiverSig := or_keep x (upd_receiverSig d)\<rparr>))"
  by (cases x; cases d) (simp_all add: accountUpdate_setReceiverSignatureRequired_def)

lemma accountUpdate_given_proxy:
  "when_given accountUpdate_setProxyAccountId x (class_new s fee d) =
     Inr (class_new s fee (d\<lparr>upd_proxy := or_else x (upd_proxy d)\<rparr>))"
  by (cases x; cases d) (simp_all add: accountUpdate_setProxyAccountId_def)

lemma accountUpdate_given_autoRenewPeriod:
  "when_given accountUpdate_setAutoRenewPeriod x (class_new s fee d) =
     Inr (class_new s fee (d\<lparr>upd_autoRenewPeriod := or_else x (upd_autoRenewPeriod d)\<rparr>))"
  by (cases x; cases d) (simp_all add: accountUpdate_setAutoRenewPeriod_def)

lemma accountUpdate_given_expiry:
  "when_given accountUpdate_setExpirationTime (map_option Inl x) (class_new s fee d) =
     Inr (class_new s fee (d\<lparr>upd_expiry := or_else x (upd_expiry d)\<rparr>))"
  by (cases x; cases d) (simp_all add: accountUpdate_setExpirationTime_def)

lemma accountUpdate_given_memo:
  "when_given accountUpdate_setAccountMemo x (class_new s fee d) =
     Inr (class_new s fee (d\<lparr>upd_memo := or_else x (upd_memo d)\<rparr>))"
  by (cases x; cases d) (simp_all add: accountUpdate_setAccountMemo_def)

lemma accountUpdate_given_maxAssociations:
  "when_given accountUpdate_setMaxAutomaticTokenAssociations x (class_new s fee d) =
     Inr (class_new s fee (d\<lparr>upd_maxAssociations := or_else x (upd_maxAssociations d)\<rparr>))"
  by (cases x; cases d) (simp_all add: accountUpdate_setMaxAutomaticTokenAssociations_def)

lemma accountUpdate_given_stakedAccount:
  "opt_ok account_ok x \<Longrightarrow> when_given (accountUpdate_setStakedAccountId sk) (map_option Inl x)
      (class_new s fee d) =
     Inr (class_new s fee (d\<lparr>upd_stakedAccount := or_else x (upd_stakedAccount d)\<rparr>))"
  by (cases x; cases d) (simp_all add: accountUpdate_setStakedAccountId_def arg_account_def)

lemma accountUpdate_given_stakedNode:
  "when_given accountUpdate_setStakedNodeId x (class_new s fee d) =
     Inr (class_new s fee (d\<lparr>upd_stakedNode := or_else x (upd_stakedNode d)\<rparr>))"
  by (cases x; cases d) (simp_all add: accountUpdate_setStakedNodeId_def)

lemma accountUpdate_given_declineReward:
  "when_given accountUpdate_setDeclineStakingReward x (class_new s fee d) =
     Inr (class_new s fee (d\<lparr>upd_declineReward := or_else x (upd_declineReward d)\<rparr>))"
  by (cases x; cases d) (simp_all add: accountUpdate_setDeclineStakingReward_def)

lemmas accountUpdate_given = accountUpdate_given_account accountUpdate_given_key
    accountUpdate_given_receiverSig accountUpdate_given_proxy accountUpdate_given_autoRenewPeriod
    accountUpdate_given_expiry accountUpdate_given_memo accountUpdate_given_maxAssociations
    accountUpdate_given_stakedAccount accountUpdate_given_stakedNode accountUpdate_given_declineReward

lemma accountUpdate_back:
  assumes "sdk_lawful sk" "accountUpdate_ok sk d"
  shows "\<exists>m. accountUpdate_makeTransactionData sk d = Inr m \<and>
    accountUpdate_fromProtobuf sk starts m = Inr (class_new starts 200000000 (accountUpdate_read d))"
proof -
  obtain key where key: "js_opt (key_toProtobuf (sk_keys sk)) (upd_key d) = Inr key"
    "key_of_message sk key = Inr (map_option key_sent (upd_key d))"
    using key_opt [OF assms(1)] assms(2) unfolding accountUpdate_ok_def by blast
  show ?thesis
    using assms(2) key unfolding accountUpdate_ok_def
    by (cases d) (simp add: accountUpdate_makeTransactionData_def accountUpdate_fromProtobuf_def
        accountUpdate_new_def
      accountUpdate_given accountUpdate_blank_def accountUpdate_read_def account_opt [OF assms(1)]
      opt_account_sent wint32_opt accountUpdate_setReceiverSignatureRequired_def
      accountUpdate_setDeclineStakingReward_def time_opt)
qed

subsection \<open>Deleting an account\<close>

record 'k account_delete =
  del_account :: "'k account_id option"
  del_transferAccount :: "'k account_id option"

record account_delete_message =
  delm_deleteAccountID :: "account_message option"
  delm_transferAccountID :: "account_message option"

definition accountDelete_blank :: "'k account_delete" where
  "accountDelete_blank = \<lparr>del_account = None, del_transferAccount = None\<rparr>"

definition accountDelete_setAccountId ::
  "'k sdk \<Rightarrow> 'k account_arg \<Rightarrow> 'k account_delete class_tx \<Rightarrow> 'k account_delete class_tx js" where
  "accountDelete_setAccountId sk x = guarded (\<lambda>d. js_bind (copy_account sk x) (\<lambda>y. Inr
      (d\<lparr>del_account := Some y\<rparr>)))"

definition accountDelete_setTransferAccountId ::
  "'k sdk \<Rightarrow> 'k account_arg \<Rightarrow> 'k account_delete class_tx \<Rightarrow> 'k account_delete class_tx js" where
  "accountDelete_setTransferAccountId sk x = guarded (\<lambda>d. js_bind (copy_account sk x) (\<lambda>y. Inr
      (d\<lparr>del_transferAccount := Some y\<rparr>)))"

definition accountDelete_new ::
  "'k sdk \<Rightarrow> (nat \<Rightarrow> timestamp) \<Rightarrow> ('k account_arg) option \<Rightarrow>
   ('k account_arg) option \<Rightarrow> 'k account_delete class_tx js" where
  "accountDelete_new sk starts account transferAccount =
     js_bind (when_given (accountDelete_setAccountId sk) account (class_new starts 200000000
         accountDelete_blank)) (\<lambda>q.
       when_given (accountDelete_setTransferAccountId sk) transferAccount q)"

definition accountDelete_validateChecksums :: "'k sdk \<Rightarrow> ledger_id option \<Rightarrow> 'k account_delete \<Rightarrow> unit
    js" where
  "accountDelete_validateChecksums sk ledger d =
     js_bind (check_account sk ledger (del_account d)) (\<lambda>_.
       check_account sk ledger (del_transferAccount d))"

definition accountDelete_makeTransactionData ::
  "'k sdk \<Rightarrow> 'k account_delete \<Rightarrow> account_delete_message js" where
  "accountDelete_makeTransactionData sk d =
     Inr \<lparr>delm_deleteAccountID = map_option (account_message_of sk) (del_account d),
       delm_transferAccountID = map_option (account_message_of sk) (del_transferAccount d)\<rparr>"

definition accountDelete_fromProtobuf ::
  "'k sdk \<Rightarrow> (nat \<Rightarrow> timestamp) \<Rightarrow> account_delete_message \<Rightarrow> 'k account_delete class_tx js" where
  "accountDelete_fromProtobuf sk starts m =
     js_bind (js_opt (account_of_message sk) (delm_deleteAccountID m)) (\<lambda>account.
     js_bind (js_opt (account_of_message sk) (delm_transferAccountID m)) (\<lambda>transferAccount.
       accountDelete_new sk starts (map_option Inl account) (map_option Inl transferAccount)))"

definition accountDelete_ok :: "'k account_delete \<Rightarrow> bool" where
  "accountDelete_ok d \<longleftrightarrow>
     opt_ok account_ok (del_account d) \<and>
     opt_ok account_ok (del_transferAccount d)"

definition accountDelete_read :: "'k account_delete \<Rightarrow> 'k account_delete" where
  "accountDelete_read d =
     d\<lparr>del_account := map_option account_sent (del_account d),
       del_transferAccount := map_option account_sent (del_transferAccount d)\<rparr>"

lemma accountDelete_given_account:
  "opt_ok account_ok x \<Longrightarrow> when_given (accountDelete_setAccountId sk) (map_option Inl x) (class_new s
      fee d) =
     Inr (class_new s fee (d\<lparr>del_account := or_else x (del_account d)\<rparr>))"
  by (cases x; cases d) (simp_all add: accountDelete_setAccountId_def account_copied)

lemma accountDelete_given_transferAccount:
  "opt_ok account_ok x \<Longrightarrow> when_given (accountDelete_setTransferAccountId sk) (map_option Inl x)
      (class_new s fee d) =
     Inr (class_new s fee (d\<lparr>del_transferAccount := or_else x (del_transferAccount d)\<rparr>))"
  by (cases x; cases d) (simp_all add: accountDelete_setTransferAccountId_def account_copied)

lemmas accountDelete_given = accountDelete_given_account accountDelete_given_transferAccount

lemma accountDelete_back:
  assumes "sdk_lawful sk" "accountDelete_ok d"
  shows "\<exists>m. accountDelete_makeTransactionData sk d = Inr m \<and>
    accountDelete_fromProtobuf sk starts m = Inr (class_new starts 200000000 (accountDelete_read d))"
  using assms unfolding accountDelete_ok_def
  by (cases d) (simp add: accountDelete_makeTransactionData_def accountDelete_fromProtobuf_def
      accountDelete_new_def
      accountDelete_given accountDelete_blank_def accountDelete_read_def account_opt [OF assms(1)]
      opt_account_sent)

subsection \<open>Live hashes\<close>

text \<open>The message of \<open>LiveHashAddTransaction\<close> is the one \<open>liveHash\<close> it holds.\<close>

record 'k live_hash =
  lh_hash :: "bytes option"
  lh_keys :: "'k key option list option"
  lh_duration :: "long option"
  lh_account :: "'k account_id option"

record live_hash_message =
  lhm_hash :: "bytes option"
  lhm_keys :: "key_list_message option"
  lhm_duration :: "duration_message option"
  lhm_accountId :: "account_message option"

definition liveHashAdd_blank :: "'k live_hash" where
  "liveHashAdd_blank = \<lparr>lh_hash = None, lh_keys = None, lh_duration = None, lh_account = None\<rparr>"

definition liveHashAdd_setHash ::
  "bytes \<Rightarrow> 'k live_hash class_tx \<Rightarrow> 'k live_hash class_tx js" where
  "liveHashAdd_setHash x = guarded (\<lambda>d. Inr (d\<lparr>lh_hash := Some x\<rparr>))"

definition liveHashAdd_setKeys ::
  "'k keys_list \<Rightarrow> 'k live_hash class_tx \<Rightarrow> 'k live_hash class_tx js" where
  "liveHashAdd_setKeys x = guarded (\<lambda>d. js_bind (arg_keys x) (\<lambda>y. Inr (d\<lparr>lh_keys := Some y\<rparr>)))"

definition liveHashAdd_setDuration ::
  "long \<Rightarrow> 'k live_hash class_tx \<Rightarrow> 'k live_hash class_tx js" where
  "liveHashAdd_setDuration x = guarded (\<lambda>d. Inr (d\<lparr>lh_duration := Some x\<rparr>))"

definition liveHashAdd_setAccountId ::
  "'k sdk \<Rightarrow> 'k account_arg \<Rightarrow> 'k live_hash class_tx \<Rightarrow> 'k live_hash class_tx js" where
  "liveHashAdd_setAccountId sk x = guarded (\<lambda>d. js_bind (copy_account sk x) (\<lambda>y. Inr (d\<lparr>lh_account
      := Some y\<rparr>)))"

definition liveHashAdd_new ::
  "'k sdk \<Rightarrow> (nat \<Rightarrow> timestamp) \<Rightarrow> bytes option \<Rightarrow>
   ('k keys_list) option \<Rightarrow> long option \<Rightarrow> ('k account_arg) option \<Rightarrow>
   'k live_hash class_tx js" where
  "liveHashAdd_new sk starts hash keys duration account =
     js_bind (when_given liveHashAdd_setHash hash (class_new starts 200000000 liveHashAdd_blank)) (\<lambda>q.
     js_bind (when_given liveHashAdd_setKeys keys q) (\<lambda>q.
     js_bind (when_given liveHashAdd_setDuration duration q) (\<lambda>q.
       when_given (liveHashAdd_setAccountId sk) account q)))"

definition liveHashAdd_validateChecksums :: "'k sdk \<Rightarrow> ledger_id option \<Rightarrow> 'k live_hash \<Rightarrow> unit js" where
  "liveHashAdd_validateChecksums sk ledger d =
     check_account sk ledger (lh_account d)"

definition liveHashAdd_makeTransactionData ::
  "'k sdk \<Rightarrow> 'k live_hash \<Rightarrow> live_hash_message js" where
  "liveHashAdd_makeTransactionData sk d =
     js_bind (js_opt (keys_message sk) (lh_keys d)) (\<lambda>keys.
       Inr \<lparr>lhm_hash = lh_hash d,
       lhm_keys = keys,
       lhm_duration = map_option duration_toProtobuf (lh_duration d),
       lhm_accountId = map_option (account_message_of sk) (lh_account d)\<rparr>)"

definition liveHashAdd_fromProtobuf ::
  "'k sdk \<Rightarrow> (nat \<Rightarrow> timestamp) \<Rightarrow> live_hash_message \<Rightarrow> 'k live_hash class_tx js" where
  "liveHashAdd_fromProtobuf sk starts m =
     js_bind (keys_of_message sk (lhm_keys m)) (\<lambda>keys.
     js_bind (js_opt (account_of_message sk) (lhm_accountId m)) (\<lambda>account.
       liveHashAdd_new sk starts (lhm_hash m) (map_option KeysArray keys) (map_option
           duration_fromProtobuf (lhm_duration m)) (map_option Inl account)))"

definition liveHashAdd_ok :: "'k sdk \<Rightarrow> 'k live_hash \<Rightarrow> bool" where
  "liveHashAdd_ok sk d \<longleftrightarrow>
     opt_ok (keys_ok sk) (lh_keys d) \<and>
     opt_ok account_ok (lh_account d)"

definition liveHashAdd_read :: "'k live_hash \<Rightarrow> 'k live_hash" where
  "liveHashAdd_read d =
     d\<lparr>lh_keys := map_option (map (map_option key_sent)) (lh_keys d),
       lh_account := map_option account_sent (lh_account d)\<rparr>"

lemma liveHashAdd_given_hash:
  "when_given liveHashAdd_setHash x (class_new s fee d) =
     Inr (class_new s fee (d\<lparr>lh_hash := or_else x (lh_hash d)\<rparr>))"
  by (cases x; cases d) (simp_all add: liveHashAdd_setHash_def)

lemma liveHashAdd_given_keys:
  "when_given liveHashAdd_setKeys (map_option KeysArray x) (class_new s fee d) =
     Inr (class_new s fee (d\<lparr>lh_keys := or_else x (lh_keys d)\<rparr>))"
  by (cases x; cases d) (simp_all add: liveHashAdd_setKeys_def)

lemma liveHashAdd_given_duration:
  "when_given liveHashAdd_setDuration x (class_new s fee d) =
     Inr (class_new s fee (d\<lparr>lh_duration := or_else x (lh_duration d)\<rparr>))"
  by (cases x; cases d) (simp_all add: liveHashAdd_setDuration_def)

lemma liveHashAdd_given_account:
  "opt_ok account_ok x \<Longrightarrow> when_given (liveHashAdd_setAccountId sk) (map_option Inl x) (class_new s
      fee d) =
     Inr (class_new s fee (d\<lparr>lh_account := or_else x (lh_account d)\<rparr>))"
  by (cases x; cases d) (simp_all add: liveHashAdd_setAccountId_def account_copied)

lemmas liveHashAdd_given = liveHashAdd_given_hash liveHashAdd_given_keys liveHashAdd_given_duration
    liveHashAdd_given_account

lemma liveHashAdd_back:
  assumes "sdk_lawful sk" "liveHashAdd_ok sk d"
  shows "\<exists>m. liveHashAdd_makeTransactionData sk d = Inr m \<and>
    liveHashAdd_fromProtobuf sk starts m = Inr (class_new starts 200000000 (liveHashAdd_read d))"
proof -
  obtain keys where keys: "js_opt (keys_message sk) (lh_keys d) = Inr keys"
    "keys_of_message sk keys = Inr (map_option (map (map_option key_sent)) (lh_keys d))"
    using keys_opt [OF assms(1)] assms(2) unfolding liveHashAdd_ok_def by blast
  show ?thesis
    using assms(2) keys unfolding liveHashAdd_ok_def
    by (cases d) (simp add: liveHashAdd_makeTransactionData_def liveHashAdd_fromProtobuf_def liveHashAdd_new_def
      liveHashAdd_given liveHashAdd_blank_def liveHashAdd_read_def account_opt [OF assms(1)]
      opt_account_sent)
qed

record 'k live_hash_delete =
  lhd_hash :: "bytes option"
  lhd_account :: "'k account_id option"

record live_hash_delete_message =
  lhdm_liveHashToDelete :: "bytes option"
  lhdm_accountOfLiveHash :: "account_message option"

definition liveHashDelete_blank :: "'k live_hash_delete" where
  "liveHashDelete_blank = \<lparr>lhd_hash = None, lhd_account = None\<rparr>"

definition liveHashDelete_setHash ::
  "bytes \<Rightarrow> 'k live_hash_delete class_tx \<Rightarrow> 'k live_hash_delete class_tx js" where
  "liveHashDelete_setHash x = guarded (\<lambda>d. Inr (d\<lparr>lhd_hash := Some x\<rparr>))"

definition liveHashDelete_setAccountId ::
  "'k sdk \<Rightarrow> 'k account_arg \<Rightarrow> 'k live_hash_delete class_tx \<Rightarrow> 'k live_hash_delete class_tx js" where
  "liveHashDelete_setAccountId sk x = guarded (\<lambda>d. js_bind (copy_account sk x) (\<lambda>y. Inr
      (d\<lparr>lhd_account := Some y\<rparr>)))"

definition liveHashDelete_new ::
  "'k sdk \<Rightarrow> (nat \<Rightarrow> timestamp) \<Rightarrow> bytes option \<Rightarrow>
   ('k account_arg) option \<Rightarrow> 'k live_hash_delete class_tx js" where
  "liveHashDelete_new sk starts hash account =
     js_bind (when_given liveHashDelete_setHash hash (class_new starts 200000000
         liveHashDelete_blank)) (\<lambda>q.
       when_given (liveHashDelete_setAccountId sk) account q)"

definition liveHashDelete_validateChecksums :: "'k sdk \<Rightarrow> ledger_id option \<Rightarrow> 'k live_hash_delete \<Rightarrow>
    unit js" where
  "liveHashDelete_validateChecksums sk ledger d =
     check_account sk ledger (lhd_account d)"

definition liveHashDelete_makeTransactionData ::
  "'k sdk \<Rightarrow> 'k live_hash_delete \<Rightarrow> live_hash_delete_message js" where
  "liveHashDelete_makeTransactionData sk d =
     Inr \<lparr>lhdm_liveHashToDelete = lhd_hash d,
       lhdm_accountOfLiveHash = map_option (account_message_of sk) (lhd_account d)\<rparr>"

definition liveHashDelete_fromProtobuf ::
  "'k sdk \<Rightarrow> (nat \<Rightarrow> timestamp) \<Rightarrow> live_hash_delete_message \<Rightarrow> 'k live_hash_delete class_tx js" where
  "liveHashDelete_fromProtobuf sk starts m =
     js_bind (js_opt (account_of_message sk) (lhdm_accountOfLiveHash m)) (\<lambda>account.
       liveHashDelete_new sk starts (lhdm_liveHashToDelete m) (map_option Inl account))"

definition liveHashDelete_ok :: "'k live_hash_delete \<Rightarrow> bool" where
  "liveHashDelete_ok d \<longleftrightarrow>
     opt_ok account_ok (lhd_account d)"

definition liveHashDelete_read :: "'k live_hash_delete \<Rightarrow> 'k live_hash_delete" where
  "liveHashDelete_read d =
     d\<lparr>lhd_account := map_option account_sent (lhd_account d)\<rparr>"

lemma liveHashDelete_given_hash:
  "when_given liveHashDelete_setHash x (class_new s fee d) =
     Inr (class_new s fee (d\<lparr>lhd_hash := or_else x (lhd_hash d)\<rparr>))"
  by (cases x; cases d) (simp_all add: liveHashDelete_setHash_def)

lemma liveHashDelete_given_account:
  "opt_ok account_ok x \<Longrightarrow> when_given (liveHashDelete_setAccountId sk) (map_option Inl x) (class_new s
      fee d) =
     Inr (class_new s fee (d\<lparr>lhd_account := or_else x (lhd_account d)\<rparr>))"
  by (cases x; cases d) (simp_all add: liveHashDelete_setAccountId_def account_copied)

lemmas liveHashDelete_given = liveHashDelete_given_hash liveHashDelete_given_account

lemma liveHashDelete_back:
  assumes "sdk_lawful sk" "liveHashDelete_ok d"
  shows "\<exists>m. liveHashDelete_makeTransactionData sk d = Inr m \<and>
    liveHashDelete_fromProtobuf sk starts m = Inr (class_new starts 200000000 (liveHashDelete_read d))"
  using assms unfolding liveHashDelete_ok_def
  by (cases d) (simp add: liveHashDelete_makeTransactionData_def liveHashDelete_fromProtobuf_def
      liveHashDelete_new_def liveHashDelete_given liveHashDelete_blank_def liveHashDelete_read_def
      account_opt [OF assms(1)] opt_account_sent)

subsection \<open>The initial balance\<close>

text \<open>
  C24. An account creation sends its initial balance in the smallest unit, but the number that
  is read is handed to the constructor, which takes it for whole coins: the transaction that
  is read back asks for 100000000 times as much.
\<close>

theorem initial_balance_multiplied:
  assumes "sdk_lawful sk" "accountCreate_ok sk d" "cre_initialBalance d = Some v" "amount_ok v"
  shows "\<exists>m q. accountCreate_makeTransactionData sk d = Inr m \<and> crem_initialBalance m = Some (word_of_int v) \<and>
    accountCreate_fromProtobuf sk starts m = Inr q \<and> cre_initialBalance (ct_data q) = Some (v * 100000000)"
proof -
  obtain m where m: "accountCreate_makeTransactionData sk d = Inr m"
    "accountCreate_fromProtobuf sk starts m = Inr (class_new starts 200000000 (accountCreate_read d))"
    using accountCreate_back [OF assms(1,2)] by blast
  have "crem_initialBalance m = Some (word_of_int v)"
    using m(1) assms(3) by (auto simp: accountCreate_makeTransactionData_def js_bind_eq_Inr u2u_toTiny_def)
  moreover have "cre_initialBalance (accountCreate_read d) = Some (v * 100000000)"
    using assms(3,4) by (simp add: accountCreate_read_def amount_read_def coins_def amount_back)
  ultimately show ?thesis using m by simp
qed

theorem initial_balance_multiplied_witness:
  "\<exists>m q. accountCreate_makeTransactionData demo_sdk (accountCreate_blank\<lparr>cre_initialBalance := Some 5\<rparr>) = Inr m \<and>
    crem_initialBalance m = Some 5 \<and>
    accountCreate_fromProtobuf demo_sdk (\<lambda>_. \<lparr>ts_seconds = 9, ts_nanos = 0\<rparr>) m = Inr q \<and>
    cre_initialBalance (ct_data q) = Some 500000000"
  using initial_balance_multiplied [OF demo_sdk_lawful,
      of "accountCreate_blank\<lparr>cre_initialBalance := Some 5\<rparr>" 5 "\<lambda>_. \<lparr>ts_seconds = 9, ts_nanos = 0\<rparr>"]
  by (simp add: accountCreate_ok_def accountCreate_blank_def amount_ok_def)

end
