(* ===== verification/Allowances.thy ===== *)
theory Allowances
  imports ClassArgs
begin

text \<open>
  Allowances: \<open>account/U2UAllowance.js\<close>, \<open>account/TokenAllowance.js\<close>, \<open>account/TokenNftAllowance.js\<close>
  and the transactions that approve and delete them, \<open>account/AccountAllowanceApproveTransaction.js\<close>
  and \<open>account/AccountAllowanceDeleteTransaction.js\<close>.
\<close>

subsection \<open>Allowances and their messages\<close>

record 'k u2u_allowance =
  ua_spender :: "'k account_id option"
  ua_owner :: "'k account_id option"
  ua_amount :: "int option"

record 'k token_allowance =
  tal_token :: token_id
  tal_spender :: "'k account_id option"
  tal_owner :: "'k account_id option"
  tal_amount :: "long option"

record 'k nft_allowance =
  na_token :: token_id
  na_spender :: "'k account_id option"
  na_owner :: "'k account_id option"
  na_serials :: "long list option"
  na_all :: "bool option"
  na_delegate :: "'k account_id option"

record u2u_allowance_message =
  uam_owner :: "account_message option"
  uam_spender :: "account_message option"
  uam_amount :: "long option"

record token_allowance_message =
  talm_token :: "id_message option"
  talm_spender :: "account_message option"
  talm_owner :: "account_message option"
  talm_amount :: "long option"

record nft_allowance_message =
  nam_token :: "id_message option"
  nam_spender :: "account_message option"
  nam_owner :: "account_message option"
  nam_all :: "bool option wrapper option"
  nam_serials :: "long list option"
  nam_delegate :: "account_message option"

text \<open>A message that is read without being looked at first.\<close>

definition needed :: "('a \<Rightarrow> 'b js) \<Rightarrow> 'a option \<Rightarrow> 'b js" where
  "needed f x = (case x of None \<Rightarrow> Inl TypeErr | Some a \<Rightarrow> f a)"

lemma needed_simps [simp]: "needed f None = Inl TypeErr" "needed f (Some a) = f a"
  by (simp_all add: needed_def)

definition u2uAllowance_fromGrantedProtobuf ::
  "'k sdk \<Rightarrow> u2u_allowance_message \<Rightarrow> 'k account_id option \<Rightarrow> 'k u2u_allowance js" where
  "u2uAllowance_fromGrantedProtobuf sk m owner =
     js_bind (needed (account_of_message sk) (uam_spender m)) (\<lambda>spender.
     js_bind (amount_ofTiny (case uam_amount m of None \<Rightarrow> 0 | Some v \<Rightarrow> v)) (\<lambda>amount.
       Inr \<lparr>ua_spender = Some spender, ua_owner = owner, ua_amount = Some amount\<rparr>))"

definition u2uAllowance_fromProtobuf :: "'k sdk \<Rightarrow> u2u_allowance_message \<Rightarrow> 'k u2u_allowance js" where
  "u2uAllowance_fromProtobuf sk m =
     js_bind (needed (account_of_message sk) (uam_spender m)) (\<lambda>spender.
     js_bind (js_opt (account_of_message sk) (uam_owner m)) (\<lambda>owner.
     js_bind (amount_ofTiny (case uam_amount m of None \<Rightarrow> 0 | Some v \<Rightarrow> v)) (\<lambda>amount.
       Inr \<lparr>ua_spender = Some spender, ua_owner = owner, ua_amount = Some amount\<rparr>)))"

definition u2uAllowance_toProtobuf :: "'k sdk \<Rightarrow> 'k u2u_allowance \<Rightarrow> u2u_allowance_message" where
  "u2uAllowance_toProtobuf sk a =
     \<lparr>uam_owner = map_option (account_message_of sk) (ua_owner a),
      uam_spender = map_option (account_message_of sk) (ua_spender a),
      uam_amount = map_option u2u_toTiny (ua_amount a)\<rparr>"

text \<open>The spender is checked twice, the owner not at all.\<close>

definition u2uAllowance_validateChecksums :: "'k sdk \<Rightarrow> ledger_id option \<Rightarrow> 'k u2u_allowance \<Rightarrow> unit js" where
  "u2uAllowance_validateChecksums sk ledger a =
     js_bind (check_account sk ledger (ua_spender a)) (\<lambda>_. check_account sk ledger (ua_spender a))"

definition tokenAllowance_fromGrantedProtobuf ::
  "'k sdk \<Rightarrow> token_allowance_message \<Rightarrow> 'k account_id option \<Rightarrow> 'k token_allowance js" where
  "tokenAllowance_fromGrantedProtobuf sk m owner =
     js_bind (needed token_fromProtobuf (talm_token m)) (\<lambda>token.
     js_bind (needed (account_of_message sk) (talm_spender m)) (\<lambda>spender.
       Inr \<lparr>tal_token = token, tal_spender = Some spender, tal_owner = owner, tal_amount = talm_amount m\<rparr>))"

definition tokenAllowance_fromProtobuf :: "'k sdk \<Rightarrow> token_allowance_message \<Rightarrow> 'k token_allowance js" where
  "tokenAllowance_fromProtobuf sk m =
     js_bind (needed token_fromProtobuf (talm_token m)) (\<lambda>token.
     js_bind (needed (account_of_message sk) (talm_spender m)) (\<lambda>spender.
     js_bind (js_opt (account_of_message sk) (talm_owner m)) (\<lambda>owner.
       Inr \<lparr>tal_token = token, tal_spender = Some spender, tal_owner = owner, tal_amount = talm_amount m\<rparr>)))"

definition tokenAllowance_toProtobuf :: "'k sdk \<Rightarrow> 'k token_allowance \<Rightarrow> token_allowance_message" where
  "tokenAllowance_toProtobuf sk a =
     \<lparr>talm_token = Some (token_toProtobuf (tal_token a)),
      talm_spender = map_option (account_message_of sk) (tal_spender a),
      talm_owner = map_option (account_message_of sk) (tal_owner a),
      talm_amount = tal_amount a\<rparr>"

definition tokenAllowance_validateChecksums :: "'k sdk \<Rightarrow> ledger_id option \<Rightarrow> 'k token_allowance \<Rightarrow> unit js" where
  "tokenAllowance_validateChecksums sk ledger a =
     js_bind (check_token sk ledger (Some (tal_token a))) (\<lambda>_.
     js_bind (check_account sk ledger (tal_owner a)) (\<lambda>_. check_account sk ledger (tal_spender a)))"

definition nftAllowance_fromProtobuf :: "'k sdk \<Rightarrow> nft_allowance_message \<Rightarrow> 'k nft_allowance js" where
  "nftAllowance_fromProtobuf sk m =
     (let allSerials = (case nam_all m of None \<Rightarrow> False | Some w \<Rightarrow> wr_value w = Some (Some True))
      in js_bind (needed token_fromProtobuf (nam_token m)) (\<lambda>token.
         js_bind (js_opt (account_of_message sk) (nam_spender m)) (\<lambda>spender.
         js_bind (js_opt (account_of_message sk) (nam_owner m)) (\<lambda>owner.
         js_bind (js_opt (account_of_message sk) (nam_delegate m)) (\<lambda>delegate.
           Inr \<lparr>na_token = token, na_spender = spender, na_owner = owner,
                na_serials = (if allSerials then None
                              else Some (case nam_serials m of None \<Rightarrow> [] | Some l \<Rightarrow> l)),
                na_all = Some allSerials, na_delegate = delegate\<rparr>)))))"

definition nftAllowance_fromGrantedProtobuf ::
  "'k sdk \<Rightarrow> nft_allowance_message \<Rightarrow> 'k account_id option \<Rightarrow> 'k nft_allowance js" where
  "nftAllowance_fromGrantedProtobuf sk m owner =
     js_bind (needed token_fromProtobuf (nam_token m)) (\<lambda>token.
     js_bind (needed (account_of_message sk) (nam_spender m)) (\<lambda>spender.
       Inr \<lparr>na_token = token, na_spender = Some spender, na_owner = owner, na_serials = Some [],
            na_all = None, na_delegate = None\<rparr>))"

definition nftAllowance_fromRemoveProtobuf :: "'k sdk \<Rightarrow> nft_allowance_message \<Rightarrow> 'k nft_allowance js" where
  "nftAllowance_fromRemoveProtobuf sk m =
     js_bind (needed token_fromProtobuf (nam_token m)) (\<lambda>token.
     js_bind (js_opt (account_of_message sk) (nam_owner m)) (\<lambda>owner.
       Inr \<lparr>na_token = token, na_spender = None, na_owner = owner,
            na_serials = Some (case nam_serials m of None \<Rightarrow> [] | Some l \<Rightarrow> l),
            na_all = None, na_delegate = None\<rparr>))"

definition nftAllowance_toProtobuf :: "'k sdk \<Rightarrow> 'k nft_allowance \<Rightarrow> nft_allowance_message" where
  "nftAllowance_toProtobuf sk a =
     \<lparr>nam_token = Some (token_toProtobuf (na_token a)),
      nam_spender = map_option (account_message_of sk) (na_spender a),
      nam_owner = map_option (account_message_of sk) (na_owner a),
      nam_all = (if na_serials a = None then Some (wrapped (na_all a)) else None),
      nam_serials = na_serials a,
      nam_delegate = map_option (account_message_of sk) (na_delegate a)\<rparr>"

definition nftAllowance_validateChecksums :: "'k sdk \<Rightarrow> ledger_id option \<Rightarrow> 'k nft_allowance \<Rightarrow> unit js" where
  "nftAllowance_validateChecksums sk ledger a =
     js_bind (check_token sk ledger (Some (na_token a))) (\<lambda>_.
     js_bind (check_account sk ledger (na_owner a)) (\<lambda>_. check_account sk ledger (na_spender a)))"

subsection \<open>Approving\<close>

text \<open>A party is an account, the text of one, or a contract, whose address is turned into an account.\<close>

datatype 'k party_arg = PartyAccount "'k account_id" | PartyText string | PartyContract contract_id

definition arg_party :: "'k sdk \<Rightarrow> 'k party_arg \<Rightarrow> 'k account_id js" where
  "arg_party sk a =
     (case a of
        PartyAccount i \<Rightarrow> Inr i
      | PartyText t \<Rightarrow> account_fromString (it_parse (sk_text sk)) (it_keyParse (sk_text sk)) t
      | PartyContract c \<Rightarrow> account_fromSolidityAddress (contract_toSolidityAddress (it_print (sk_text sk)) c))"

definition arg_nftId :: "'k sdk \<Rightarrow> nft_id + string \<Rightarrow> nft_id js" where
  "arg_nftId sk a = (case a of Inl i \<Rightarrow> Inr i | Inr t \<Rightarrow> nft_fromString (it_parse (sk_text sk)) t)"

record 'k allowances =
  al_u2us :: "'k u2u_allowance list"
  al_tokens :: "'k token_allowance list"
  al_nfts :: "'k nft_allowance list"

definition approve_new ::
  "(nat \<Rightarrow> timestamp) \<Rightarrow> 'k u2u_allowance list option \<Rightarrow> 'k token_allowance list option \<Rightarrow>
   'k nft_allowance list option \<Rightarrow> 'k allowances class_tx" where
  "approve_new starts u2us tokens nfts = class_new starts 200000000
     \<lparr>al_u2us = or_keep u2us [], al_tokens = or_keep tokens [], al_nfts = or_keep nfts []\<rparr>"

definition approve_approveU2UAllowance ::
  "'k sdk \<Rightarrow> 'k party_arg option \<Rightarrow> 'k party_arg \<Rightarrow> u2u_arg \<Rightarrow> 'k allowances class_tx \<Rightarrow> 'k allowances class_tx js" where
  "approve_approveU2UAllowance sk owner spender amount =
     guarded (\<lambda>d.
       js_bind (arg_party sk spender) (\<lambda>spender.
       js_bind (js_opt (arg_party sk) owner) (\<lambda>owner.
       js_bind (arg_amount amount) (\<lambda>amount.
         Inr (d\<lparr>al_u2us := al_u2us d @ [\<lparr>ua_spender = Some spender, ua_owner = owner, ua_amount = Some amount\<rparr>]\<rparr>)))))"

definition approve_addU2UAllowance ::
  "'k sdk \<Rightarrow> 'k account_arg \<Rightarrow> u2u_arg \<Rightarrow> 'k allowances class_tx \<Rightarrow> 'k allowances class_tx js" where
  "approve_addU2UAllowance sk spender amount =
     guarded (\<lambda>d.
       js_bind (arg_account (sk_text sk) spender) (\<lambda>spender.
       js_bind (arg_amount amount) (\<lambda>amount.
         Inr (d\<lparr>al_u2us := al_u2us d @ [\<lparr>ua_spender = Some spender, ua_owner = None, ua_amount = Some amount\<rparr>]\<rparr>))))"

definition approve_approveTokenAllowance ::
  "'k sdk \<Rightarrow> token_arg \<Rightarrow> 'k party_arg option \<Rightarrow> 'k party_arg \<Rightarrow> long \<Rightarrow> 'k allowances class_tx \<Rightarrow>
   'k allowances class_tx js" where
  "approve_approveTokenAllowance sk tokenId owner spender amount =
     guarded (\<lambda>d.
       js_bind (arg_token (sk_text sk) tokenId) (\<lambda>token.
       js_bind (arg_party sk spender) (\<lambda>spender.
       js_bind (js_opt (arg_party sk) owner) (\<lambda>owner.
         Inr (d\<lparr>al_tokens := al_tokens d @
           [\<lparr>tal_token = token, tal_spender = Some spender, tal_owner = owner, tal_amount = Some amount\<rparr>]\<rparr>)))))"

definition approve_addTokenAllowance ::
  "'k sdk \<Rightarrow> token_arg \<Rightarrow> 'k account_arg \<Rightarrow> long \<Rightarrow> 'k allowances class_tx \<Rightarrow> 'k allowances class_tx js" where
  "approve_addTokenAllowance sk tokenId spender amount =
     guarded (\<lambda>d.
       js_bind (arg_token (sk_text sk) tokenId) (\<lambda>token.
       js_bind (arg_account (sk_text sk) spender) (\<lambda>spender.
         Inr (d\<lparr>al_tokens := al_tokens d @
           [\<lparr>tal_token = token, tal_spender = Some spender, tal_owner = None, tal_amount = Some amount\<rparr>]\<rparr>))))"

text \<open>A serial joins the first allowance of the same token and spender; an allowance without serials stays.\<close>

definition nft_approved :: "'k sdk \<Rightarrow> token_id \<Rightarrow> 'k account_id \<Rightarrow> 'k nft_allowance \<Rightarrow> bool" where
  "nft_approved sk token spender a \<longleftrightarrow>
     token_compare (na_token a) token = 0 \<and>
     (case na_spender a of None \<Rightarrow> False
      | Some s \<Rightarrow> account_compare (it_keyText (sk_text sk)) s spender = 0)"

definition push_serial :: "long \<Rightarrow> 'k nft_allowance \<Rightarrow> 'k nft_allowance" where
  "push_serial n a = a\<lparr>na_serials := map_option (\<lambda>l. l @ [n]) (na_serials a)\<rparr>"

definition approve_approveTokenNftAllowance_any ::
  "'k sdk \<Rightarrow> nft_id + string \<Rightarrow> 'k party_arg option \<Rightarrow> 'k party_arg \<Rightarrow> 'k account_arg option \<Rightarrow>
   'k allowances class_tx \<Rightarrow> 'k allowances class_tx js" where
  "approve_approveTokenNftAllowance_any sk nftId owner spender delegate =
     guarded (\<lambda>d.
       js_bind (arg_nftId sk nftId) (\<lambda>i.
       js_bind (arg_party sk spender) (\<lambda>spender.
         let found = nft_approved sk (nf_tokenId i) spender
         in if list_ex found (al_nfts d)
            then Inr (d\<lparr>al_nfts := takeWhile (\<lambda>a. \<not> found a) (al_nfts d) @
                          (case dropWhile (\<lambda>a. \<not> found a) (al_nfts d) of
                             [] \<Rightarrow> [] | a # as \<Rightarrow> push_serial (nf_serial i) a # as)\<rparr>)
            else
              js_bind (js_opt (arg_party sk) owner) (\<lambda>owner.
              js_bind (js_opt (arg_account (sk_text sk)) delegate) (\<lambda>delegate.
                Inr (d\<lparr>al_nfts := al_nfts d @
                  [\<lparr>na_token = nf_tokenId i, na_spender = Some spender, na_owner = owner,
                    na_serials = Some [nf_serial i], na_all = Some False, na_delegate = delegate\<rparr>]\<rparr>)))))) "

definition approve_addTokenNftAllowance ::
  "'k sdk \<Rightarrow> nft_id + string \<Rightarrow> 'k party_arg \<Rightarrow> 'k allowances class_tx \<Rightarrow> 'k allowances class_tx js" where
  "approve_addTokenNftAllowance sk nftId spender = approve_approveTokenNftAllowance_any sk nftId None spender None"

definition approve_approveTokenNftAllowance ::
  "'k sdk \<Rightarrow> nft_id + string \<Rightarrow> 'k party_arg option \<Rightarrow> 'k party_arg \<Rightarrow> 'k allowances class_tx \<Rightarrow>
   'k allowances class_tx js" where
  "approve_approveTokenNftAllowance sk nftId owner spender =
     approve_approveTokenNftAllowance_any sk nftId owner spender None"

definition approve_approveTokenNftAllowanceWithDelegatingSpender ::
  "'k sdk \<Rightarrow> nft_id + string \<Rightarrow> 'k party_arg option \<Rightarrow> 'k party_arg \<Rightarrow> 'k account_arg \<Rightarrow>
   'k allowances class_tx \<Rightarrow> 'k allowances class_tx js" where
  "approve_approveTokenNftAllowanceWithDelegatingSpender sk nftId owner spender delegate =
     approve_approveTokenNftAllowance_any sk nftId owner spender (Some delegate)"

definition approve_approveAllTokenNftAllowance ::
  "'k sdk \<Rightarrow> token_arg \<Rightarrow> 'k party_arg option \<Rightarrow> 'k party_arg \<Rightarrow> bool \<Rightarrow> 'k allowances class_tx \<Rightarrow>
   'k allowances class_tx js" where
  "approve_approveAllTokenNftAllowance sk tokenId owner spender b =
     guarded (\<lambda>d.
       js_bind (arg_token (sk_text sk) tokenId) (\<lambda>token.
       js_bind (arg_party sk spender) (\<lambda>spender.
       js_bind (js_opt (arg_party sk) owner) (\<lambda>owner.
         Inr (d\<lparr>al_nfts := al_nfts d @
           [\<lparr>na_token = token, na_spender = Some spender, na_owner = owner, na_serials = None,
             na_all = Some b, na_delegate = None\<rparr>]\<rparr>)))))"

definition approve_addAllTokenNftAllowance ::
  "'k sdk \<Rightarrow> token_arg \<Rightarrow> 'k party_arg option \<Rightarrow> 'k party_arg \<Rightarrow> 'k allowances class_tx \<Rightarrow> 'k allowances class_tx js" where
  "approve_addAllTokenNftAllowance sk tokenId owner spender =
     approve_approveAllTokenNftAllowance sk tokenId owner spender True"

definition approve_approveTokenNftAllowanceAllSerials ::
  "'k sdk \<Rightarrow> token_arg \<Rightarrow> 'k party_arg option \<Rightarrow> 'k party_arg \<Rightarrow> 'k allowances class_tx \<Rightarrow> 'k allowances class_tx js" where
  "approve_approveTokenNftAllowanceAllSerials sk tokenId owner spender =
     approve_approveAllTokenNftAllowance sk tokenId owner spender True"

definition approve_deleteTokenNftAllowanceAllSerials ::
  "'k sdk \<Rightarrow> token_arg \<Rightarrow> 'k party_arg option \<Rightarrow> 'k party_arg \<Rightarrow> 'k allowances class_tx \<Rightarrow> 'k allowances class_tx js" where
  "approve_deleteTokenNftAllowanceAllSerials sk tokenId owner spender =
     approve_approveAllTokenNftAllowance sk tokenId owner spender False"

definition approve_validateChecksums :: "'k sdk \<Rightarrow> ledger_id option \<Rightarrow> 'k allowances \<Rightarrow> unit js" where
  "approve_validateChecksums sk ledger d =
     js_bind (js_map (u2uAllowance_validateChecksums sk ledger) (al_u2us d)) (\<lambda>_.
     js_bind (js_map (tokenAllowance_validateChecksums sk ledger) (al_tokens d)) (\<lambda>_.
     js_bind (js_map (nftAllowance_validateChecksums sk ledger) (al_nfts d)) (\<lambda>_. Inr ())))"

record allowances_message =
  alm_u2us :: "u2u_allowance_message list option"
  alm_tokens :: "token_allowance_message list option"
  alm_nfts :: "nft_allowance_message list option"

definition approve_makeTransactionData :: "'k sdk \<Rightarrow> 'k allowances \<Rightarrow> allowances_message js" where
  "approve_makeTransactionData sk d =
     Inr \<lparr>alm_u2us = Some (map (u2uAllowance_toProtobuf sk) (al_u2us d)),
          alm_tokens = Some (map (tokenAllowance_toProtobuf sk) (al_tokens d)),
          alm_nfts = Some (map (nftAllowance_toProtobuf sk) (al_nfts d))\<rparr>"

definition approve_fromProtobuf ::
  "'k sdk \<Rightarrow> (nat \<Rightarrow> timestamp) \<Rightarrow> allowances_message \<Rightarrow> 'k allowances class_tx js" where
  "approve_fromProtobuf sk starts m =
     js_bind (js_map (u2uAllowance_fromProtobuf sk) (or_keep (alm_u2us m) [])) (\<lambda>u2us.
     js_bind (js_map (tokenAllowance_fromProtobuf sk) (or_keep (alm_tokens m) [])) (\<lambda>tokens.
     js_bind (js_map (nftAllowance_fromProtobuf sk) (or_keep (alm_nfts m) [])) (\<lambda>nfts.
       Inr (approve_new starts (Some u2us) (Some tokens) (Some nfts)))))"

subsection \<open>Deleting\<close>

record 'k allowance_deletions =
  ad_nfts :: "'k nft_allowance list"

definition allowanceDelete_new ::
  "(nat \<Rightarrow> timestamp) \<Rightarrow> 'k nft_allowance list option \<Rightarrow> 'k allowance_deletions class_tx" where
  "allowanceDelete_new starts nfts = class_new starts 200000000 \<lparr>ad_nfts = or_keep nfts []\<rparr>"

definition allowanceDelete_deleteAllTokenNftAllowances ::
  "'k sdk \<Rightarrow> nft_id + string \<Rightarrow> 'k account_arg \<Rightarrow> 'k allowance_deletions class_tx \<Rightarrow>
   'k allowance_deletions class_tx js" where
  "allowanceDelete_deleteAllTokenNftAllowances sk nftId owner =
     guarded (\<lambda>d.
       js_bind (arg_nftId sk nftId) (\<lambda>i.
       js_bind (arg_account (sk_text sk) owner) (\<lambda>owner.
         Inr (d\<lparr>ad_nfts := upsert (\<lambda>a. token_compare (na_token a) (nf_tokenId i) = 0) (push_serial (nf_serial i))
           \<lparr>na_token = nf_tokenId i, na_spender = None, na_owner = Some owner, na_serials = Some [nf_serial i],
            na_all = Some False, na_delegate = None\<rparr> (ad_nfts d)\<rparr>))))"

definition allowanceDelete_validateChecksums :: "'k sdk \<Rightarrow> ledger_id option \<Rightarrow> 'k allowance_deletions \<Rightarrow> unit js" where
  "allowanceDelete_validateChecksums sk ledger d =
     js_bind (js_map (nftAllowance_validateChecksums sk ledger) (ad_nfts d)) (\<lambda>_. Inr ())"

record allowance_deletions_message =
  adm_nfts :: "nft_allowance_message list option"

definition allowanceDelete_makeTransactionData :: "'k sdk \<Rightarrow> 'k allowance_deletions \<Rightarrow> allowance_deletions_message js" where
  "allowanceDelete_makeTransactionData sk d = Inr \<lparr>adm_nfts = Some (map (nftAllowance_toProtobuf sk) (ad_nfts d))\<rparr>"

definition allowanceDelete_fromProtobuf ::
  "'k sdk \<Rightarrow> (nat \<Rightarrow> timestamp) \<Rightarrow> allowance_deletions_message \<Rightarrow> 'k allowance_deletions class_tx js" where
  "allowanceDelete_fromProtobuf sk starts m =
     js_bind (js_map (nftAllowance_fromProtobuf sk) (or_keep (adm_nfts m) [])) (\<lambda>nfts.
       Inr (allowanceDelete_new starts (Some nfts)))"

subsection \<open>Reading back\<close>

definition u2uAllowance_ok :: "'k u2u_allowance \<Rightarrow> bool" where
  "u2uAllowance_ok a \<longleftrightarrow> ua_spender a \<noteq> None \<and> opt_ok account_ok (ua_spender a) \<and>
     opt_ok account_ok (ua_owner a) \<and> ua_amount a \<noteq> None \<and> opt_ok amount_ok (ua_amount a)"

definition u2uAllowance_read :: "'k u2u_allowance \<Rightarrow> 'k u2u_allowance" where
  "u2uAllowance_read a =
     a\<lparr>ua_spender := map_option account_sent (ua_spender a), ua_owner := map_option account_sent (ua_owner a)\<rparr>"

definition tokenAllowance_ok :: "'k token_allowance \<Rightarrow> bool" where
  "tokenAllowance_ok a \<longleftrightarrow> token_ok (tal_token a) \<and> tal_spender a \<noteq> None \<and>
     opt_ok account_ok (tal_spender a) \<and> opt_ok account_ok (tal_owner a)"

definition tokenAllowance_read :: "'k token_allowance \<Rightarrow> 'k token_allowance" where
  "tokenAllowance_read a =
     a\<lparr>tal_token := token_read (tal_token a), tal_spender := map_option account_sent (tal_spender a),
       tal_owner := map_option account_sent (tal_owner a)\<rparr>"

text \<open>
  An allowance of an NFT is sent as all serials or as a list of them.  What removes the
  approval of all serials (\<open>na_all\<close> is \<open>Some False\<close> without a list) comes back as an empty list.
\<close>

definition nftAllowance_ok :: "'k nft_allowance \<Rightarrow> bool" where
  "nftAllowance_ok a \<longleftrightarrow> token_ok (na_token a) \<and> opt_ok account_ok (na_spender a) \<and>
     opt_ok account_ok (na_owner a) \<and> opt_ok account_ok (na_delegate a)"

definition nftAllowance_read :: "'k nft_allowance \<Rightarrow> 'k nft_allowance" where
  "nftAllowance_read a =
     (let b = na_serials a = None \<and> na_all a = Some True
      in a\<lparr>na_token := token_read (na_token a), na_spender := map_option account_sent (na_spender a),
           na_owner := map_option account_sent (na_owner a),
           na_serials := (if b then None else Some (or_keep (na_serials a) [])),
           na_all := Some b, na_delegate := map_option account_sent (na_delegate a)\<rparr>)"

lemma u2uAllowance_back:
  assumes "sdk_lawful sk" "u2uAllowance_ok a"
  shows "u2uAllowance_fromProtobuf sk (u2uAllowance_toProtobuf sk a) = Inr (u2uAllowance_read a)"
  using assms by (cases a; cases "ua_spender a"; cases "ua_amount a")
    (simp_all add: u2uAllowance_ok_def u2uAllowance_fromProtobuf_def u2uAllowance_toProtobuf_def u2uAllowance_read_def
      account_opt account_received amount_back)

lemma tokenAllowance_back:
  assumes "sdk_lawful sk" "tokenAllowance_ok a"
  shows "tokenAllowance_fromProtobuf sk (tokenAllowance_toProtobuf sk a) = Inr (tokenAllowance_read a)"
  using assms by (cases a; cases "tal_spender a")
    (simp_all add: tokenAllowance_ok_def tokenAllowance_fromProtobuf_def tokenAllowance_toProtobuf_def
      tokenAllowance_read_def account_opt account_received token_received)

lemma nftAllowance_back:
  assumes "sdk_lawful sk" "nftAllowance_ok a"
  shows "nftAllowance_fromProtobuf sk (nftAllowance_toProtobuf sk a) = Inr (nftAllowance_read a)"
  using assms by (cases a; cases "na_serials a"; cases "na_all a")
    (simp_all add: nftAllowance_ok_def nftAllowance_fromProtobuf_def nftAllowance_toProtobuf_def
      nftAllowance_read_def account_opt token_received wrapped_def)

lemma allowances_back:
  assumes "sdk_lawful sk"
  shows "list_all u2uAllowance_ok us \<Longrightarrow>
      js_map (u2uAllowance_fromProtobuf sk) (map (u2uAllowance_toProtobuf sk) us) = Inr (map u2uAllowance_read us)"
    and "list_all tokenAllowance_ok ts \<Longrightarrow>
      js_map (tokenAllowance_fromProtobuf sk) (map (tokenAllowance_toProtobuf sk) ts) = Inr (map tokenAllowance_read ts)"
    and "list_all nftAllowance_ok ns \<Longrightarrow>
      js_map (nftAllowance_fromProtobuf sk) (map (nftAllowance_toProtobuf sk) ns) = Inr (map nftAllowance_read ns)"
proof -
  show "list_all u2uAllowance_ok us \<Longrightarrow>
      js_map (u2uAllowance_fromProtobuf sk) (map (u2uAllowance_toProtobuf sk) us) = Inr (map u2uAllowance_read us)"
    by (induction us) (simp_all add: u2uAllowance_back [OF assms])
  show "list_all tokenAllowance_ok ts \<Longrightarrow>
      js_map (tokenAllowance_fromProtobuf sk) (map (tokenAllowance_toProtobuf sk) ts) = Inr (map tokenAllowance_read ts)"
    by (induction ts) (simp_all add: tokenAllowance_back [OF assms])
  show "list_all nftAllowance_ok ns \<Longrightarrow>
      js_map (nftAllowance_fromProtobuf sk) (map (nftAllowance_toProtobuf sk) ns) = Inr (map nftAllowance_read ns)"
    by (induction ns) (simp_all add: nftAllowance_back [OF assms])
qed

definition approve_ok :: "'k allowances \<Rightarrow> bool" where
  "approve_ok d \<longleftrightarrow> list_all u2uAllowance_ok (al_u2us d) \<and> list_all tokenAllowance_ok (al_tokens d) \<and>
     list_all nftAllowance_ok (al_nfts d)"

definition approve_read :: "'k allowances \<Rightarrow> 'k allowances" where
  "approve_read d = \<lparr>al_u2us = map u2uAllowance_read (al_u2us d), al_tokens = map tokenAllowance_read (al_tokens d),
     al_nfts = map nftAllowance_read (al_nfts d)\<rparr>"

lemma approve_back:
  assumes "sdk_lawful sk" "approve_ok d"
  shows "\<exists>m. approve_makeTransactionData sk d = Inr m \<and>
    approve_fromProtobuf sk starts m = Inr (class_new starts 200000000 (approve_read d))"
  using assms(2)
  by (simp add: allowances_back [OF assms(1)] approve_makeTransactionData_def approve_fromProtobuf_def approve_new_def approve_ok_def approve_read_def)

lemma allowanceDelete_back:
  assumes "sdk_lawful sk" "list_all nftAllowance_ok (ad_nfts d)"
  shows "\<exists>m. allowanceDelete_makeTransactionData sk d = Inr m \<and>
    allowanceDelete_fromProtobuf sk starts m =
      Inr (class_new starts 200000000 \<lparr>ad_nfts = map nftAllowance_read (ad_nfts d)\<rparr>)"
  using assms(2)
  by (simp add: allowances_back [OF assms(1)] allowanceDelete_makeTransactionData_def allowanceDelete_fromProtobuf_def allowanceDelete_new_def)

subsection \<open>Merging\<close>

lemma first_found:
  assumes "ns = xs @ a # ys" "\<forall>x \<in> set xs. \<not> found x" "found a"
  shows "takeWhile (\<lambda>x. \<not> found x) ns = xs" "dropWhile (\<lambda>x. \<not> found x) ns = a # ys" "list_ex found ns"
  using assms by (simp_all add: takeWhile_append dropWhile_append)

text \<open>
  C23. Approving a serial of a token for a spender who already has an allowance of that token:
  the serial joins the first such allowance, whoever the new owner and delegating spender are
  (they are not even parsed).  When that allowance is one of all serials, or one that takes
  all serials back, the call changes nothing, so the approval is lost.
\<close>

theorem nft_approval_merged:
  assumes "\<not> tx_isFrozen_any q" "al_nfts (ct_data q) = xs @ a # ys"
    and "arg_party sk spender = Inr s" "\<forall>x \<in> set xs. \<not> nft_approved sk (nf_tokenId i) s x"
      "nft_approved sk (nf_tokenId i) s a"
  shows "approve_approveTokenNftAllowance_any sk (Inl i) owner spender delegate q =
      Inr (q\<lparr>ct_data := (ct_data q)\<lparr>al_nfts := xs @ push_serial (nf_serial i) a # ys\<rparr>\<rparr>) \<and>
    na_owner (push_serial (nf_serial i) a) = na_owner a \<and>
    na_delegate (push_serial (nf_serial i) a) = na_delegate a \<and>
    (na_serials a = None \<longrightarrow> push_serial (nf_serial i) a = a \<and>
      approve_approveTokenNftAllowance_any sk (Inl i) owner spender delegate q = Inr q)"
proof -
  note f = first_found [OF assms(2,4,5)]
  have r: "approve_approveTokenNftAllowance_any sk (Inl i) owner spender delegate q =
      Inr (q\<lparr>ct_data := (ct_data q)\<lparr>al_nfts := xs @ push_serial (nf_serial i) a # ys\<rparr>\<rparr>)"
    using assms(1,3) by (simp add: approve_approveTokenNftAllowance_any_def guarded_def unguarded_def
      tx_requireNotFrozen_def arg_nftId_def f)
  have keep: "q\<lparr>ct_data := (ct_data q)\<lparr>al_nfts := xs @ a # ys\<rparr>\<rparr> = q"
    using assms(2) by (cases q; cases "ct_data q") simp
  have p: "push_serial (nf_serial i) a = a" if "na_serials a = None"
    using that by (cases a) (simp add: push_serial_def)
  have same: "approve_approveTokenNftAllowance_any sk (Inl i) owner spender delegate q = Inr q" if "na_serials a = None"
    unfolding r p [OF that] keep by (rule refl)
  have "na_owner (push_serial (nf_serial i) a) = na_owner a" "na_delegate (push_serial (nf_serial i) a) = na_delegate a"
    by (simp_all add: push_serial_def)
  then show ?thesis using r p same by blast
qed

text \<open>The second serial is approved for another owner than the first, and joins it.\<close>

theorem nft_approval_merged_witness:
  "let party = (\<lambda>n. PartyAccount (plain_account (0, 0, n)) :: bytes party_arg);
       token = \<lparr>tk_ids = (0, 0, 5), tk_checksum = None\<rparr>;
       q = approve_new (\<lambda>_. \<lparr>ts_seconds = 9, ts_nanos = 0\<rparr>) None None
         (Some [\<lparr>na_token = token, na_spender = Some (plain_account (0, 0, 3)), na_owner = Some (plain_account (0, 0, 1)),
            na_serials = Some [7], na_all = Some False, na_delegate = None\<rparr>])
   in map_sum id (al_nfts \<circ> ct_data)
        (approve_approveTokenNftAllowance_any demo_sdk (Inl \<lparr>nf_tokenId = token, nf_serial = 8\<rparr>)
          (Some (party 2)) (party 3) None q) =
      Inr [\<lparr>na_token = token, na_spender = Some (plain_account (0, 0, 3)), na_owner = Some (plain_account (0, 0, 1)),
            na_serials = Some [7, 8], na_all = Some False, na_delegate = None\<rparr>]"
proof -
  let ?token = "\<lparr>tk_ids = (0, 0, 5), tk_checksum = None\<rparr>"
  let ?a = "\<lparr>na_token = ?token, na_spender = Some (plain_account (0, 0, 3)), na_owner = Some (plain_account (0, 0, 1)),
     na_serials = Some [7], na_all = Some False, na_delegate = None\<rparr> :: bytes nft_allowance"
  let ?q = "approve_new (\<lambda>_. \<lparr>ts_seconds = 9, ts_nanos = 0\<rparr>) None None (Some [?a])"
  let ?i = "\<lparr>nf_tokenId = ?token, nf_serial = 8\<rparr>" and ?s = "PartyAccount (plain_account (0, 0, 3))"
  have q: "\<not> tx_isFrozen_any ?q" "ct_data ?q = \<lparr>al_u2us = [], al_tokens = [], al_nfts = [?a]\<rparr>"
    by (simp_all add: approve_new_def)
  have f: "nft_approved demo_sdk (nf_tokenId ?i) (plain_account (0, 0, 3)) ?a"
    by (simp add: nft_approved_def token_zero account_compare_def plain_account_def long_compare_def int_compare_def)
  have s: "arg_party demo_sdk ?s = Inr (plain_account (0, 0, 3))" by (simp add: arg_party_def)
  have n: "al_nfts (ct_data ?q) = [] @ ?a # []" using q(2) by simp
  have "approve_approveTokenNftAllowance_any demo_sdk (Inl ?i) (Some (PartyAccount (plain_account (0, 0, 2)))) ?s None ?q =
      Inr (?q\<lparr>ct_data := (ct_data ?q)\<lparr>al_nfts := [] @ push_serial (nf_serial ?i) ?a # []\<rparr>\<rparr>)"
    using nft_approval_merged [OF q(1) n s _ f] by simp
  then show ?thesis unfolding Let_def by (simp only: map_sum.simps comp_apply) (simp add: push_serial_def)
qed

end
