(* ===== verification/ContractTx.thy ===== *)
theory ContractTx
  imports ClassArgs
begin

text \<open>
  The transactions of contracts: \<open>contract/ContractCreateTransaction.js\<close>,
  \<open>ContractUpdateTransaction.js\<close>, \<open>ContractDeleteTransaction.js\<close>, \<open>ContractExecuteTransaction.js\<close>
  and \<open>EthereumTransaction.js\<close>.
\<close>

subsection \<open>Creating a contract\<close>

text \<open>Parameters are bytes, or what \<open>ContractFunctionParameters\<close> builds without a name.\<close>

definition arg_params :: "'k sdk \<Rightarrow> bytes + parameters \<Rightarrow> bytes js" where
  "arg_params sk a = (case a of Inl b \<Rightarrow> Inr b | Inr p \<Rightarrow> fst (pa_build (sk_abi sk) None p))"

lemma arg_params_Inl [simp]: "arg_params sk (Inl b) = Inr b"
  by (simp add: arg_params_def)

record 'k contract_create =
  cnc_bytecodeFile :: "file_id option"
  cnc_bytecode :: "bytes option"
  cnc_adminKey :: "'k key option"
  cnc_gas :: "long option"
  cnc_initialBalance :: "int option"
  cnc_proxy :: "'k account_id option"
  cnc_autoRenewPeriod :: "long"
  cnc_parameters :: "bytes option"
  cnc_memo :: "string option"
  cnc_maxAssociations :: "int option"
  cnc_stakedAccount :: "'k account_id option"
  cnc_stakedNode :: "long option"
  cnc_declineReward :: "bool"
  cnc_autoRenewAccount :: "'k account_id option"

record contract_create_message =
  cncm_fileID :: "id_message option"
  cncm_initcode :: "bytes option"
  cncm_adminKey :: "key_message option"
  cncm_gas :: "long option"
  cncm_initialBalance :: "long option"
  cncm_proxyAccountID :: "account_message option"
  cncm_autoRenewPeriod :: "duration_message option"
  cncm_constructorParameters :: "bytes option"
  cncm_memo :: "string option"
  cncm_maxAutomaticTokenAssociations :: "int option"
  cncm_stakedAccountId :: "account_message option"
  cncm_stakedNodeId :: "long option"
  cncm_declineReward :: "bool option"
  cncm_autoRenewAccountId :: "account_message option"

definition contractCreate_blank :: "'k contract_create" where
  "contractCreate_blank = \<lparr>cnc_bytecodeFile = None, cnc_bytecode = None, cnc_adminKey = None,
      cnc_gas = None, cnc_initialBalance = None, cnc_proxy = None, cnc_autoRenewPeriod = 7776000,
      cnc_parameters = None, cnc_memo = None, cnc_maxAssociations = None, cnc_stakedAccount = None,
      cnc_stakedNode = None, cnc_declineReward = False, cnc_autoRenewAccount = None\<rparr>"

text \<open>The code comes from a file or is given: the setter of one clears the other.\<close>

definition contractCreate_setBytecodeFileId ::
  "'k sdk \<Rightarrow> file_arg \<Rightarrow> 'k contract_create class_tx \<Rightarrow> 'k contract_create class_tx js" where
  "contractCreate_setBytecodeFileId sk x =
     guarded (\<lambda>d. js_bind (copy_file sk x) (\<lambda>y. Inr (d\<lparr>cnc_bytecodeFile := Some y, cnc_bytecode :=
         None\<rparr>)))"

definition contractCreate_setBytecode ::
  "bytes \<Rightarrow> 'k contract_create class_tx \<Rightarrow> 'k contract_create class_tx js" where
  "contractCreate_setBytecode x = guarded (\<lambda>d. Inr (d\<lparr>cnc_bytecode := Some x, cnc_bytecodeFile :=
      None\<rparr>))"

definition contractCreate_setAdminKey ::
  "'k key \<Rightarrow> 'k contract_create class_tx \<Rightarrow> 'k contract_create class_tx js" where
  "contractCreate_setAdminKey x = guarded (\<lambda>d. Inr (d\<lparr>cnc_adminKey := Some x\<rparr>))"

definition contractCreate_setGas ::
  "long \<Rightarrow> 'k contract_create class_tx \<Rightarrow> 'k contract_create class_tx js" where
  "contractCreate_setGas x = guarded (\<lambda>d. Inr (d\<lparr>cnc_gas := Some x\<rparr>))"

definition contractCreate_setInitialBalance ::
  "u2u_arg \<Rightarrow> 'k contract_create class_tx \<Rightarrow> 'k contract_create class_tx js" where
  "contractCreate_setInitialBalance x = guarded (\<lambda>d. js_bind (arg_amount x) (\<lambda>y. Inr
      (d\<lparr>cnc_initialBalance := Some y\<rparr>)))"

definition contractCreate_setProxyAccountId ::
  "'k sdk \<Rightarrow> 'k account_arg \<Rightarrow> 'k contract_create class_tx \<Rightarrow> 'k contract_create class_tx js" where
  "contractCreate_setProxyAccountId sk x = guarded (\<lambda>d. js_bind (arg_account (sk_text sk) x) (\<lambda>y.
      Inr (d\<lparr>cnc_proxy := Some y\<rparr>)))"

definition contractCreate_setAutoRenewPeriod ::
  "long \<Rightarrow> 'k contract_create class_tx \<Rightarrow> 'k contract_create class_tx js" where
  "contractCreate_setAutoRenewPeriod x = guarded (\<lambda>d. Inr (d\<lparr>cnc_autoRenewPeriod := x\<rparr>))"

definition contractCreate_setConstructorParameters ::
  "'k sdk \<Rightarrow> bytes + parameters \<Rightarrow> 'k contract_create class_tx \<Rightarrow> 'k contract_create class_tx js" where
  "contractCreate_setConstructorParameters sk x = guarded (\<lambda>d. js_bind (arg_params sk x) (\<lambda>y. Inr
      (d\<lparr>cnc_parameters := Some y\<rparr>)))"

definition contractCreate_setContractMemo ::
  "string \<Rightarrow> 'k contract_create class_tx \<Rightarrow> 'k contract_create class_tx js" where
  "contractCreate_setContractMemo x = guarded (\<lambda>d. Inr (d\<lparr>cnc_memo := Some x\<rparr>))"

definition contractCreate_setMaxAutomaticTokenAssociations ::
  "int \<Rightarrow> 'k contract_create class_tx \<Rightarrow> 'k contract_create class_tx js" where
  "contractCreate_setMaxAutomaticTokenAssociations x = unguarded (\<lambda>d. Inr (d\<lparr>cnc_maxAssociations :=
      Some x\<rparr>))"

definition contractCreate_setStakedAccountId ::
  "'k sdk \<Rightarrow> 'k account_arg \<Rightarrow> 'k contract_create class_tx \<Rightarrow> 'k contract_create class_tx js" where
  "contractCreate_setStakedAccountId sk x = guarded (\<lambda>d. js_bind (arg_account (sk_text sk) x) (\<lambda>y.
      Inr (d\<lparr>cnc_stakedAccount := Some y\<rparr>)))"

definition contractCreate_setStakedNodeId ::
  "long \<Rightarrow> 'k contract_create class_tx \<Rightarrow> 'k contract_create class_tx js" where
  "contractCreate_setStakedNodeId x = guarded (\<lambda>d. Inr (d\<lparr>cnc_stakedNode := Some x\<rparr>))"

definition contractCreate_setDeclineStakingReward ::
  "bool \<Rightarrow> 'k contract_create class_tx \<Rightarrow> 'k contract_create class_tx js" where
  "contractCreate_setDeclineStakingReward x = guarded (\<lambda>d. Inr (d\<lparr>cnc_declineReward := x\<rparr>))"

definition contractCreate_setAutoRenewAccountId ::
  "'k sdk \<Rightarrow> 'k account_arg \<Rightarrow> 'k contract_create class_tx \<Rightarrow> 'k contract_create class_tx js" where
  "contractCreate_setAutoRenewAccountId sk x = guarded (\<lambda>d. js_bind (arg_account (sk_text sk) x)
      (\<lambda>y. Inr (d\<lparr>cnc_autoRenewAccount := Some y\<rparr>)))"

definition contractCreate_new ::
  "'k sdk \<Rightarrow> (nat \<Rightarrow> timestamp) \<Rightarrow> file_arg option \<Rightarrow>
   bytes option \<Rightarrow> ('k key) option \<Rightarrow> long option \<Rightarrow> u2u_arg option \<Rightarrow>
   ('k account_arg) option \<Rightarrow> long option \<Rightarrow> (bytes + parameters) option \<Rightarrow>
   string option \<Rightarrow> int option \<Rightarrow> ('k account_arg) option \<Rightarrow>
   long option \<Rightarrow> bool option \<Rightarrow> ('k account_arg) option \<Rightarrow>
   'k contract_create class_tx js" where
  "contractCreate_new sk starts bytecodeFile bytecode adminKey gas initialBalance proxy
      autoRenewPeriod parameters memo maxAssociations stakedAccount stakedNode declineReward autoRenewAccount =
     js_bind (when_given (contractCreate_setBytecodeFileId sk) bytecodeFile (class_new starts
         2000000000 contractCreate_blank)) (\<lambda>q.
     js_bind (when_given contractCreate_setBytecode bytecode q) (\<lambda>q.
     js_bind (when_given contractCreate_setAdminKey adminKey q) (\<lambda>q.
     js_bind (when_given contractCreate_setGas gas q) (\<lambda>q.
     js_bind (when_given contractCreate_setInitialBalance initialBalance q) (\<lambda>q.
     js_bind (when_given (contractCreate_setProxyAccountId sk) proxy q) (\<lambda>q.
     js_bind (when_given contractCreate_setAutoRenewPeriod autoRenewPeriod q) (\<lambda>q.
     js_bind (when_given (contractCreate_setConstructorParameters sk) parameters q) (\<lambda>q.
     js_bind (when_given contractCreate_setContractMemo memo q) (\<lambda>q.
     js_bind (when_given contractCreate_setMaxAutomaticTokenAssociations maxAssociations q) (\<lambda>q.
     js_bind (when_given (contractCreate_setStakedAccountId sk) stakedAccount q) (\<lambda>q.
     js_bind (when_given contractCreate_setStakedNodeId stakedNode q) (\<lambda>q.
     js_bind (when_given contractCreate_setDeclineStakingReward declineReward q) (\<lambda>q.
       when_given (contractCreate_setAutoRenewAccountId sk) autoRenewAccount q)))))))))))))"

definition contractCreate_validateChecksums :: "'k sdk \<Rightarrow> ledger_id option \<Rightarrow> 'k contract_create \<Rightarrow>
    unit js" where
  "contractCreate_validateChecksums sk ledger d =
     js_bind (check_file sk ledger (cnc_bytecodeFile d)) (\<lambda>_.
       check_account sk ledger (cnc_proxy d))"

definition contractCreate_makeTransactionData ::
  "'k sdk \<Rightarrow> 'k contract_create \<Rightarrow> contract_create_message js" where
  "contractCreate_makeTransactionData sk d =
     js_bind (js_opt (key_toProtobuf (sk_keys sk)) (cnc_adminKey d)) (\<lambda>adminKey.
       Inr \<lparr>cncm_fileID = map_option file_toProtobuf (cnc_bytecodeFile d),
       cncm_initcode = cnc_bytecode d,
       cncm_adminKey = adminKey,
       cncm_gas = cnc_gas d,
       cncm_initialBalance = map_option u2u_toTiny (cnc_initialBalance d),
       cncm_proxyAccountID = map_option (account_message_of sk) (cnc_proxy d),
       cncm_autoRenewPeriod = Some (duration_toProtobuf (cnc_autoRenewPeriod d)),
       cncm_constructorParameters = cnc_parameters d,
       cncm_memo = cnc_memo d,
       cncm_maxAutomaticTokenAssociations = cnc_maxAssociations d,
       cncm_stakedAccountId = map_option (account_message_of sk) (cnc_stakedAccount d),
       cncm_stakedNodeId = cnc_stakedNode d,
       cncm_declineReward = Some (cnc_declineReward d),
       cncm_autoRenewAccountId = map_option (account_message_of sk) (cnc_autoRenewAccount d)\<rparr>)"

definition contractCreate_fromProtobuf ::
  "'k sdk \<Rightarrow> (nat \<Rightarrow> timestamp) \<Rightarrow> contract_create_message \<Rightarrow> 'k contract_create class_tx js" where
  "contractCreate_fromProtobuf sk starts m =
     js_bind (js_opt (file_of_message sk) (cncm_fileID m)) (\<lambda>bytecodeFile.
     js_bind (key_of_message sk (cncm_adminKey m)) (\<lambda>adminKey.
     js_bind (js_opt (account_of_message sk) (cncm_proxyAccountID m)) (\<lambda>proxy.
     js_bind (js_opt (account_of_message sk) (cncm_stakedAccountId m)) (\<lambda>stakedAccount.
     js_bind (js_opt (account_of_message sk) (cncm_autoRenewAccountId m)) (\<lambda>autoRenewAccount.
       contractCreate_new sk starts (map_option Inl bytecodeFile) None adminKey (cncm_gas m)
         (map_option amount_number (cncm_initialBalance m)) (map_option Inl proxy) (map_option
             duration_fromProtobuf (cncm_autoRenewPeriod m)) (map_option Inl (cncm_constructorParameters m))
         (cncm_memo m) (cncm_maxAutomaticTokenAssociations m) (map_option Inl stakedAccount)
             (cncm_stakedNodeId m)
         (Some (cncm_declineReward m = Some True)) (map_option Inl autoRenewAccount))))))"

definition contractCreate_ok :: "'k sdk \<Rightarrow> 'k contract_create \<Rightarrow> bool" where
  "contractCreate_ok sk d \<longleftrightarrow>
     opt_ok file_ok (cnc_bytecodeFile d) \<and>
     opt_ok (key_ok (sk_keys sk)) (cnc_adminKey d) \<and>
     opt_ok account_ok (cnc_proxy d) \<and>
     opt_ok account_ok (cnc_stakedAccount d) \<and>
     opt_ok account_ok (cnc_autoRenewAccount d)"

definition contractCreate_read :: "'k contract_create \<Rightarrow> 'k contract_create" where
  "contractCreate_read d =
     d\<lparr>cnc_bytecodeFile := map_option file_read (cnc_bytecodeFile d),
       cnc_bytecode := None,
       cnc_adminKey := map_option key_sent (cnc_adminKey d),
       cnc_initialBalance := map_option amount_read (cnc_initialBalance d),
       cnc_proxy := map_option account_sent (cnc_proxy d),
       cnc_stakedAccount := map_option account_sent (cnc_stakedAccount d),
       cnc_autoRenewAccount := map_option account_sent (cnc_autoRenewAccount d)\<rparr>"

lemma contractCreate_given_bytecodeFile:
  "opt_ok file_ok x \<Longrightarrow> when_given (contractCreate_setBytecodeFileId sk) (map_option Inl x) (class_new
      s fee d) =
     Inr (class_new s fee (d\<lparr>cnc_bytecodeFile := or_else x (cnc_bytecodeFile d),
       cnc_bytecode := (if x = None then cnc_bytecode d else None)\<rparr>))"
  by (cases x; cases d) (simp_all add: contractCreate_setBytecodeFileId_def file_copied)

lemma contractCreate_given_bytecode:
  "when_given contractCreate_setBytecode x (class_new s fee d) =
     Inr (class_new s fee (d\<lparr>cnc_bytecode := or_else x (cnc_bytecode d),
       cnc_bytecodeFile := (if x = None then cnc_bytecodeFile d else None)\<rparr>))"
  by (cases x; cases d) (simp_all add: contractCreate_setBytecode_def)

lemma contractCreate_given_adminKey:
  "when_given contractCreate_setAdminKey x (class_new s fee d) =
     Inr (class_new s fee (d\<lparr>cnc_adminKey := or_else x (cnc_adminKey d)\<rparr>))"
  by (cases x; cases d) (simp_all add: contractCreate_setAdminKey_def)

lemma contractCreate_given_gas:
  "when_given contractCreate_setGas x (class_new s fee d) =
     Inr (class_new s fee (d\<lparr>cnc_gas := or_else x (cnc_gas d)\<rparr>))"
  by (cases x; cases d) (simp_all add: contractCreate_setGas_def)

lemma contractCreate_given_initialBalance:
  "when_given contractCreate_setInitialBalance (map_option amount_number x) (class_new s fee d) =
     Inr (class_new s fee (d\<lparr>cnc_initialBalance :=
       or_else (map_option coins x) (cnc_initialBalance d)\<rparr>))"
  by (cases x; cases d) (simp_all add: contractCreate_setInitialBalance_def amount_scaled)

lemma contractCreate_given_proxy:
  "opt_ok account_ok x \<Longrightarrow> when_given (contractCreate_setProxyAccountId sk) (map_option Inl x)
      (class_new s fee d) =
     Inr (class_new s fee (d\<lparr>cnc_proxy := or_else x (cnc_proxy d)\<rparr>))"
  by (cases x; cases d) (simp_all add: contractCreate_setProxyAccountId_def arg_account_def)

lemma contractCreate_given_autoRenewPeriod:
  "when_given contractCreate_setAutoRenewPeriod x (class_new s fee d) =
     Inr (class_new s fee (d\<lparr>cnc_autoRenewPeriod := or_keep x (cnc_autoRenewPeriod d)\<rparr>))"
  by (cases x; cases d) (simp_all add: contractCreate_setAutoRenewPeriod_def)

lemma contractCreate_given_parameters:
  "when_given (contractCreate_setConstructorParameters sk) (map_option Inl x) (class_new s fee d) =
     Inr (class_new s fee (d\<lparr>cnc_parameters := or_else x (cnc_parameters d)\<rparr>))"
  by (cases x; cases d) (simp_all add: contractCreate_setConstructorParameters_def)

lemma contractCreate_given_memo:
  "when_given contractCreate_setContractMemo x (class_new s fee d) =
     Inr (class_new s fee (d\<lparr>cnc_memo := or_else x (cnc_memo d)\<rparr>))"
  by (cases x; cases d) (simp_all add: contractCreate_setContractMemo_def)

lemma contractCreate_given_maxAssociations:
  "when_given contractCreate_setMaxAutomaticTokenAssociations x (class_new s fee d) =
     Inr (class_new s fee (d\<lparr>cnc_maxAssociations := or_else x (cnc_maxAssociations d)\<rparr>))"
  by (cases x; cases d) (simp_all add: contractCreate_setMaxAutomaticTokenAssociations_def)

lemma contractCreate_given_stakedAccount:
  "opt_ok account_ok x \<Longrightarrow> when_given (contractCreate_setStakedAccountId sk) (map_option Inl x)
      (class_new s fee d) =
     Inr (class_new s fee (d\<lparr>cnc_stakedAccount := or_else x (cnc_stakedAccount d)\<rparr>))"
  by (cases x; cases d) (simp_all add: contractCreate_setStakedAccountId_def arg_account_def)

lemma contractCreate_given_stakedNode:
  "when_given contractCreate_setStakedNodeId x (class_new s fee d) =
     Inr (class_new s fee (d\<lparr>cnc_stakedNode := or_else x (cnc_stakedNode d)\<rparr>))"
  by (cases x; cases d) (simp_all add: contractCreate_setStakedNodeId_def)

lemma contractCreate_given_declineReward:
  "when_given contractCreate_setDeclineStakingReward x (class_new s fee d) =
     Inr (class_new s fee (d\<lparr>cnc_declineReward := or_keep x (cnc_declineReward d)\<rparr>))"
  by (cases x; cases d) (simp_all add: contractCreate_setDeclineStakingReward_def)

lemma contractCreate_given_autoRenewAccount:
  "opt_ok account_ok x \<Longrightarrow> when_given (contractCreate_setAutoRenewAccountId sk) (map_option Inl x)
      (class_new s fee d) =
     Inr (class_new s fee (d\<lparr>cnc_autoRenewAccount := or_else x (cnc_autoRenewAccount d)\<rparr>))"
  by (cases x; cases d) (simp_all add: contractCreate_setAutoRenewAccountId_def arg_account_def)

lemmas contractCreate_given = contractCreate_given_bytecodeFile contractCreate_given_bytecode
    contractCreate_given_adminKey contractCreate_given_gas contractCreate_given_initialBalance
    contractCreate_given_proxy contractCreate_given_autoRenewPeriod contractCreate_given_parameters
    contractCreate_given_memo contractCreate_given_maxAssociations
    contractCreate_given_stakedAccount contractCreate_given_stakedNode
    contractCreate_given_declineReward contractCreate_given_autoRenewAccount

lemma contractCreate_back:
  assumes "sdk_lawful sk" "contractCreate_ok sk d"
  shows "\<exists>m. contractCreate_makeTransactionData sk d = Inr m \<and>
    contractCreate_fromProtobuf sk starts m = Inr (class_new starts 2000000000 (contractCreate_read d))"
proof -
  obtain adminKey where adminKey: "js_opt (key_toProtobuf (sk_keys sk)) (cnc_adminKey d) = Inr adminKey"
    "key_of_message sk adminKey = Inr (map_option key_sent (cnc_adminKey d))"
    using key_opt [OF assms(1)] assms(2) unfolding contractCreate_ok_def by blast
  show ?thesis
    using assms(2) adminKey unfolding contractCreate_ok_def
    by (cases d) (simp add: contractCreate_makeTransactionData_def contractCreate_fromProtobuf_def
      contractCreate_new_def contractCreate_given contractCreate_blank_def contractCreate_read_def
      account_opt [OF assms(1)] opt_account_sent file_opt [OF assms(1)]
      contractCreate_setAutoRenewPeriod_def contractCreate_setDeclineStakingReward_def)
qed

subsection \<open>Changing a contract\<close>

record 'k contract_update =
  cnu_contract :: "contract_id option"
  cnu_expiry :: "timestamp option"
  cnu_adminKey :: "'k key option"
  cnu_proxy :: "'k account_id option"
  cnu_autoRenewPeriod :: "long option"
  cnu_bytecodeFile :: "file_id option"
  cnu_memo :: "string option"
  cnu_maxAssociations :: "int option"
  cnu_stakedAccount :: "'k account_id option"
  cnu_stakedNode :: "long option"
  cnu_declineReward :: "bool option"
  cnu_autoRenewAccount :: "'k account_id option"

record contract_update_message =
  cnum_contractID :: "contract_message option"
  cnum_expirationTime :: "(long \<times> int) option"
  cnum_adminKey :: "key_message option"
  cnum_proxyAccountID :: "account_message option"
  cnum_autoRenewPeriod :: "duration_message option"
  cnum_fileID :: "id_message option"
  cnum_memoWrapper :: "(string wrapper) option"
  cnum_maxAutomaticTokenAssociations :: "(int wrapper) option"
  cnum_stakedAccountId :: "account_message option"
  cnum_stakedNodeId :: "long option"
  cnum_declineReward :: "(bool wrapper) option"
  cnum_autoRenewAccountId :: "account_message option"

definition contractUpdate_blank :: "'k contract_update" where
  "contractUpdate_blank = \<lparr>cnu_contract = None, cnu_expiry = None, cnu_adminKey = None, cnu_proxy =
      None, cnu_autoRenewPeriod = None, cnu_bytecodeFile = None, cnu_memo = None,
      cnu_maxAssociations = None, cnu_stakedAccount = None, cnu_stakedNode = None, cnu_declineReward
      = None, cnu_autoRenewAccount = None\<rparr>"

definition contractUpdate_setContractId ::
  "'k sdk \<Rightarrow> contract_arg \<Rightarrow> 'k contract_update class_tx \<Rightarrow> 'k contract_update class_tx js" where
  "contractUpdate_setContractId sk x = guarded (\<lambda>d. js_bind (copy_contract sk x) (\<lambda>y. Inr
      (d\<lparr>cnu_contract := Some y\<rparr>)))"

definition contractUpdate_setExpirationTime ::
  "timestamp + date \<Rightarrow> 'k contract_update class_tx \<Rightarrow> 'k contract_update class_tx js" where
  "contractUpdate_setExpirationTime x = guarded (\<lambda>d. Inr (d\<lparr>cnu_expiry := Some (arg_time x)\<rparr>))"

definition contractUpdate_setAdminKey ::
  "'k key \<Rightarrow> 'k contract_update class_tx \<Rightarrow> 'k contract_update class_tx js" where
  "contractUpdate_setAdminKey x = guarded (\<lambda>d. Inr (d\<lparr>cnu_adminKey := Some x\<rparr>))"

definition contractUpdate_setProxyAccountId ::
  "'k sdk \<Rightarrow> 'k account_arg \<Rightarrow> 'k contract_update class_tx \<Rightarrow> 'k contract_update class_tx js" where
  "contractUpdate_setProxyAccountId sk x = guarded (\<lambda>d. js_bind (copy_account sk x) (\<lambda>y. Inr
      (d\<lparr>cnu_proxy := Some y\<rparr>)))"

definition contractUpdate_setAutoRenewPeriod ::
  "long \<Rightarrow> 'k contract_update class_tx \<Rightarrow> 'k contract_update class_tx js" where
  "contractUpdate_setAutoRenewPeriod x = guarded (\<lambda>d. Inr (d\<lparr>cnu_autoRenewPeriod := Some x\<rparr>))"

definition contractUpdate_setBytecodeFileId ::
  "'k sdk \<Rightarrow> file_arg \<Rightarrow> 'k contract_update class_tx \<Rightarrow> 'k contract_update class_tx js" where
  "contractUpdate_setBytecodeFileId sk x = guarded (\<lambda>d. js_bind (copy_file sk x) (\<lambda>y. Inr
      (d\<lparr>cnu_bytecodeFile := Some y\<rparr>)))"

definition contractUpdate_setContractMemo ::
  "string \<Rightarrow> 'k contract_update class_tx \<Rightarrow> 'k contract_update class_tx js" where
  "contractUpdate_setContractMemo x = guarded (\<lambda>d. Inr (d\<lparr>cnu_memo := Some x\<rparr>))"

definition contractUpdate_setMaxAutomaticTokenAssociations ::
  "int \<Rightarrow> 'k contract_update class_tx \<Rightarrow> 'k contract_update class_tx js" where
  "contractUpdate_setMaxAutomaticTokenAssociations x = unguarded (\<lambda>d. Inr (d\<lparr>cnu_maxAssociations :=
      Some x\<rparr>))"

definition contractUpdate_setStakedAccountId ::
  "'k sdk \<Rightarrow> 'k account_arg \<Rightarrow> 'k contract_update class_tx \<Rightarrow> 'k contract_update class_tx js" where
  "contractUpdate_setStakedAccountId sk x = guarded (\<lambda>d. js_bind (arg_account (sk_text sk) x) (\<lambda>y.
      Inr (d\<lparr>cnu_stakedAccount := Some y\<rparr>)))"

definition contractUpdate_setStakedNodeId ::
  "long \<Rightarrow> 'k contract_update class_tx \<Rightarrow> 'k contract_update class_tx js" where
  "contractUpdate_setStakedNodeId x = guarded (\<lambda>d. Inr (d\<lparr>cnu_stakedNode := Some x\<rparr>))"

definition contractUpdate_setDeclineStakingReward ::
  "bool \<Rightarrow> 'k contract_update class_tx \<Rightarrow> 'k contract_update class_tx js" where
  "contractUpdate_setDeclineStakingReward x = guarded (\<lambda>d. Inr (d\<lparr>cnu_declineReward := Some x\<rparr>))"

definition contractUpdate_setAutoRenewAccountId ::
  "'k sdk \<Rightarrow> 'k account_arg \<Rightarrow> 'k contract_update class_tx \<Rightarrow> 'k contract_update class_tx js" where
  "contractUpdate_setAutoRenewAccountId sk x = guarded (\<lambda>d. js_bind (arg_account (sk_text sk) x)
      (\<lambda>y. Inr (d\<lparr>cnu_autoRenewAccount := Some y\<rparr>)))"

definition contractUpdate_new ::
  "'k sdk \<Rightarrow> (nat \<Rightarrow> timestamp) \<Rightarrow> contract_arg option \<Rightarrow>
   (timestamp + date) option \<Rightarrow> ('k key) option \<Rightarrow> ('k account_arg) option \<Rightarrow>
   long option \<Rightarrow> file_arg option \<Rightarrow> string option \<Rightarrow> int option \<Rightarrow>
   ('k account_arg) option \<Rightarrow> long option \<Rightarrow> bool option \<Rightarrow>
   ('k account_arg) option \<Rightarrow> 'k contract_update class_tx js" where
  "contractUpdate_new sk starts contract expiry adminKey proxy autoRenewPeriod bytecodeFile memo
      maxAssociations stakedAccount stakedNode declineReward autoRenewAccount =
     js_bind (when_given (contractUpdate_setContractId sk) contract (class_new starts 200000000
         contractUpdate_blank)) (\<lambda>q.
     js_bind (when_given contractUpdate_setExpirationTime expiry q) (\<lambda>q.
     js_bind (when_given contractUpdate_setAdminKey adminKey q) (\<lambda>q.
     js_bind (when_given (contractUpdate_setProxyAccountId sk) proxy q) (\<lambda>q.
     js_bind (when_given contractUpdate_setAutoRenewPeriod autoRenewPeriod q) (\<lambda>q.
     js_bind (when_given (contractUpdate_setBytecodeFileId sk) bytecodeFile q) (\<lambda>q.
     js_bind (when_given contractUpdate_setContractMemo memo q) (\<lambda>q.
     js_bind (when_given contractUpdate_setMaxAutomaticTokenAssociations maxAssociations q) (\<lambda>q.
     js_bind (when_given (contractUpdate_setStakedAccountId sk) stakedAccount q) (\<lambda>q.
     js_bind (when_given contractUpdate_setStakedNodeId stakedNode q) (\<lambda>q.
     js_bind (when_given contractUpdate_setDeclineStakingReward declineReward q) (\<lambda>q.
       when_given (contractUpdate_setAutoRenewAccountId sk) autoRenewAccount q)))))))))))"

definition contractUpdate_validateChecksums :: "'k sdk \<Rightarrow> ledger_id option \<Rightarrow> 'k contract_update \<Rightarrow>
    unit js" where
  "contractUpdate_validateChecksums sk ledger d =
     js_bind (check_contract sk ledger (cnu_contract d)) (\<lambda>_.
     js_bind (check_file sk ledger (cnu_bytecodeFile d)) (\<lambda>_.
       check_account sk ledger (cnu_proxy d)))"

definition contractUpdate_makeTransactionData ::
  "'k sdk \<Rightarrow> 'k contract_update \<Rightarrow> contract_update_message js" where
  "contractUpdate_makeTransactionData sk d =
     js_bind (js_opt (key_toProtobuf (sk_keys sk)) (cnu_adminKey d)) (\<lambda>adminKey.
       Inr \<lparr>cnum_contractID = map_option contract_toProtobuf (cnu_contract d),
       cnum_expirationTime = map_option ts_toProtobuf (cnu_expiry d),
       cnum_adminKey = adminKey,
       cnum_proxyAccountID = map_option (account_message_of sk) (cnu_proxy d),
       cnum_autoRenewPeriod = map_option duration_toProtobuf (cnu_autoRenewPeriod d),
       cnum_fileID = map_option file_toProtobuf (cnu_bytecodeFile d),
       cnum_memoWrapper = map_option wrapped (cnu_memo d),
       cnum_maxAutomaticTokenAssociations = map_option wrapped (cnu_maxAssociations d),
       cnum_stakedAccountId = map_option (account_message_of sk) (cnu_stakedAccount d),
       cnum_stakedNodeId = cnu_stakedNode d,
       cnum_declineReward = map_option wrapped (cnu_declineReward d),
       cnum_autoRenewAccountId = map_option (account_message_of sk) (cnu_autoRenewAccount d)\<rparr>)"

definition contractUpdate_fromProtobuf ::
  "'k sdk \<Rightarrow> (nat \<Rightarrow> timestamp) \<Rightarrow> contract_update_message \<Rightarrow> 'k contract_update class_tx js" where
  "contractUpdate_fromProtobuf sk starts m =
     js_bind (js_opt contract_fromProtobuf (cnum_contractID m)) (\<lambda>contract.
     js_bind (key_of_message sk (cnum_adminKey m)) (\<lambda>adminKey.
     js_bind (js_opt (account_of_message sk) (cnum_proxyAccountID m)) (\<lambda>proxy.
     js_bind (js_opt (file_of_message sk) (cnum_fileID m)) (\<lambda>bytecodeFile.
     js_bind (js_opt (account_of_message sk) (cnum_stakedAccountId m)) (\<lambda>stakedAccount.
     js_bind (js_opt (account_of_message sk) (cnum_autoRenewAccountId m)) (\<lambda>autoRenewAccount.
       contractUpdate_new sk starts (map_option Inl contract) (map_option Inl (map_option
           ts_fromProtobuf (cnum_expirationTime m))) adminKey (map_option Inl proxy)
         (map_option duration_fromProtobuf (cnum_autoRenewPeriod m)) (map_option Inl bytecodeFile)
             (Option.bind (cnum_memoWrapper m) wr_value) (Option.bind
             (cnum_maxAutomaticTokenAssociations m) wr_value)
         (map_option Inl stakedAccount) (cnum_stakedNodeId m) (Some (cnum_declineReward m \<noteq> None))
             (map_option Inl autoRenewAccount)))))))"

definition contractUpdate_clearContractMemo :: "'k contract_update class_tx \<Rightarrow> 'k contract_update
    class_tx js" where
  "contractUpdate_clearContractMemo = guarded (\<lambda>d. Inr (d\<lparr>cnu_memo := None\<rparr>))"

definition contractUpdate_clearAutoRenewAccountId ::
  "'k contract_update class_tx \<Rightarrow> 'k contract_update class_tx js" where
  "contractUpdate_clearAutoRenewAccountId =
     unguarded (\<lambda>d. js_bind (account_new (Num 0) None None None None) (\<lambda>a. Inr
         (d\<lparr>cnu_autoRenewAccount := Some a\<rparr>)))"

definition contractUpdate_ok :: "'k sdk \<Rightarrow> 'k contract_update \<Rightarrow> bool" where
  "contractUpdate_ok sk d \<longleftrightarrow>
     opt_ok contract_ok (cnu_contract d) \<and>
     opt_ok time_ok (cnu_expiry d) \<and>
     opt_ok (key_ok (sk_keys sk)) (cnu_adminKey d) \<and>
     opt_ok account_ok (cnu_proxy d) \<and>
     opt_ok file_ok (cnu_bytecodeFile d) \<and>
     opt_ok account_ok (cnu_stakedAccount d) \<and>
     opt_ok account_ok (cnu_autoRenewAccount d)"

definition contractUpdate_read :: "'k contract_update \<Rightarrow> 'k contract_update" where
  "contractUpdate_read d =
     d\<lparr>cnu_contract := map_option contract_read (cnu_contract d),
       cnu_adminKey := map_option key_sent (cnu_adminKey d),
       cnu_proxy := map_option account_sent (cnu_proxy d),
       cnu_bytecodeFile := map_option file_read (cnu_bytecodeFile d),
       cnu_stakedAccount := map_option account_sent (cnu_stakedAccount d),
       cnu_declineReward := Some (cnu_declineReward d \<noteq> None),
       cnu_autoRenewAccount := map_option account_sent (cnu_autoRenewAccount d)\<rparr>"

lemma contractUpdate_given_contract:
  "opt_ok contract_ok x \<Longrightarrow> when_given (contractUpdate_setContractId sk) (map_option Inl x) (class_new
      s fee d) =
     Inr (class_new s fee (d\<lparr>cnu_contract := or_else x (cnu_contract d)\<rparr>))"
  by (cases x; cases d) (simp_all add: contractUpdate_setContractId_def contract_copied)

lemma contractUpdate_given_expiry:
  "when_given contractUpdate_setExpirationTime (map_option Inl x) (class_new s fee d) =
     Inr (class_new s fee (d\<lparr>cnu_expiry := or_else x (cnu_expiry d)\<rparr>))"
  by (cases x; cases d) (simp_all add: contractUpdate_setExpirationTime_def)

lemma contractUpdate_given_adminKey:
  "when_given contractUpdate_setAdminKey x (class_new s fee d) =
     Inr (class_new s fee (d\<lparr>cnu_adminKey := or_else x (cnu_adminKey d)\<rparr>))"
  by (cases x; cases d) (simp_all add: contractUpdate_setAdminKey_def)

lemma contractUpdate_given_proxy:
  "opt_ok account_ok x \<Longrightarrow> when_given (contractUpdate_setProxyAccountId sk) (map_option Inl x)
      (class_new s fee d) =
     Inr (class_new s fee (d\<lparr>cnu_proxy := or_else x (cnu_proxy d)\<rparr>))"
  by (cases x; cases d) (simp_all add: contractUpdate_setProxyAccountId_def account_copied)

lemma contractUpdate_given_autoRenewPeriod:
  "when_given contractUpdate_setAutoRenewPeriod x (class_new s fee d) =
     Inr (class_new s fee (d\<lparr>cnu_autoRenewPeriod := or_else x (cnu_autoRenewPeriod d)\<rparr>))"
  by (cases x; cases d) (simp_all add: contractUpdate_setAutoRenewPeriod_def)

lemma contractUpdate_given_bytecodeFile:
  "opt_ok file_ok x \<Longrightarrow> when_given (contractUpdate_setBytecodeFileId sk) (map_option Inl x) (class_new
      s fee d) =
     Inr (class_new s fee (d\<lparr>cnu_bytecodeFile := or_else x (cnu_bytecodeFile d)\<rparr>))"
  by (cases x; cases d) (simp_all add: contractUpdate_setBytecodeFileId_def file_copied)

lemma contractUpdate_given_memo:
  "when_given contractUpdate_setContractMemo x (class_new s fee d) =
     Inr (class_new s fee (d\<lparr>cnu_memo := or_else x (cnu_memo d)\<rparr>))"
  by (cases x; cases d) (simp_all add: contractUpdate_setContractMemo_def)

lemma contractUpdate_given_maxAssociations:
  "when_given contractUpdate_setMaxAutomaticTokenAssociations x (class_new s fee d) =
     Inr (class_new s fee (d\<lparr>cnu_maxAssociations := or_else x (cnu_maxAssociations d)\<rparr>))"
  by (cases x; cases d) (simp_all add: contractUpdate_setMaxAutomaticTokenAssociations_def)

lemma contractUpdate_given_stakedAccount:
  "opt_ok account_ok x \<Longrightarrow> when_given (contractUpdate_setStakedAccountId sk) (map_option Inl x)
      (class_new s fee d) =
     Inr (class_new s fee (d\<lparr>cnu_stakedAccount := or_else x (cnu_stakedAccount d)\<rparr>))"
  by (cases x; cases d) (simp_all add: contractUpdate_setStakedAccountId_def arg_account_def)

lemma contractUpdate_given_stakedNode:
  "when_given contractUpdate_setStakedNodeId x (class_new s fee d) =
     Inr (class_new s fee (d\<lparr>cnu_stakedNode := or_else x (cnu_stakedNode d)\<rparr>))"
  by (cases x; cases d) (simp_all add: contractUpdate_setStakedNodeId_def)

lemma contractUpdate_given_declineReward:
  "when_given contractUpdate_setDeclineStakingReward x (class_new s fee d) =
     Inr (class_new s fee (d\<lparr>cnu_declineReward := or_else x (cnu_declineReward d)\<rparr>))"
  by (cases x; cases d) (simp_all add: contractUpdate_setDeclineStakingReward_def)

lemma contractUpdate_given_autoRenewAccount:
  "opt_ok account_ok x \<Longrightarrow> when_given (contractUpdate_setAutoRenewAccountId sk) (map_option Inl x)
      (class_new s fee d) =
     Inr (class_new s fee (d\<lparr>cnu_autoRenewAccount := or_else x (cnu_autoRenewAccount d)\<rparr>))"
  by (cases x; cases d) (simp_all add: contractUpdate_setAutoRenewAccountId_def arg_account_def)

lemmas contractUpdate_given = contractUpdate_given_contract contractUpdate_given_expiry
    contractUpdate_given_adminKey contractUpdate_given_proxy contractUpdate_given_autoRenewPeriod
    contractUpdate_given_bytecodeFile contractUpdate_given_memo contractUpdate_given_maxAssociations
    contractUpdate_given_stakedAccount contractUpdate_given_stakedNode
    contractUpdate_given_declineReward contractUpdate_given_autoRenewAccount

lemma contractUpdate_back:
  assumes "sdk_lawful sk" "contractUpdate_ok sk d"
  shows "\<exists>m. contractUpdate_makeTransactionData sk d = Inr m \<and>
    contractUpdate_fromProtobuf sk starts m = Inr (class_new starts 200000000 (contractUpdate_read d))"
proof -
  obtain adminKey where adminKey: "js_opt (key_toProtobuf (sk_keys sk)) (cnu_adminKey d) = Inr adminKey"
    "key_of_message sk adminKey = Inr (map_option key_sent (cnu_adminKey d))"
    using key_opt [OF assms(1)] assms(2) unfolding contractUpdate_ok_def by blast
  show ?thesis
    using assms(2) adminKey unfolding contractUpdate_ok_def
    by (cases d) (simp add: contractUpdate_makeTransactionData_def contractUpdate_fromProtobuf_def
      contractUpdate_new_def contractUpdate_given contractUpdate_blank_def contractUpdate_read_def
      account_opt [OF assms(1)] opt_account_sent file_opt [OF assms(1)] contract_opt
      contractUpdate_setDeclineStakingReward_def time_opt)
qed

subsection \<open>Deleting a contract\<close>

record 'k contract_delete =
  cnd_contract :: "contract_id option"
  cnd_transferAccount :: "'k account_id option"
  cnd_transferContract :: "contract_id option"

record contract_delete_message =
  cndm_contractID :: "contract_message option"
  cndm_transferAccountID :: "account_message option"
  cndm_transferContractID :: "contract_message option"

definition contractDelete_blank :: "'k contract_delete" where
  "contractDelete_blank = \<lparr>cnd_contract = None, cnd_transferAccount = None, cnd_transferContract =
      None\<rparr>"

definition contractDelete_setContractId ::
  "'k sdk \<Rightarrow> contract_arg \<Rightarrow> 'k contract_delete class_tx \<Rightarrow> 'k contract_delete class_tx js" where
  "contractDelete_setContractId sk x = guarded (\<lambda>d. js_bind (copy_contract sk x) (\<lambda>y. Inr
      (d\<lparr>cnd_contract := Some y\<rparr>)))"

definition contractDelete_setTransferAccountId ::
  "'k sdk \<Rightarrow> 'k account_arg \<Rightarrow> 'k contract_delete class_tx \<Rightarrow> 'k contract_delete class_tx js" where
  "contractDelete_setTransferAccountId sk x = guarded (\<lambda>d. js_bind (arg_account (sk_text sk) x) (\<lambda>y.
      Inr (d\<lparr>cnd_transferAccount := Some y\<rparr>)))"

definition contractDelete_setTransferContractId ::
  "'k sdk \<Rightarrow> contract_arg \<Rightarrow> 'k contract_delete class_tx \<Rightarrow> 'k contract_delete class_tx js" where
  "contractDelete_setTransferContractId sk x = guarded (\<lambda>d. js_bind (parse_contract sk x) (\<lambda>y. Inr
      (d\<lparr>cnd_transferContract := Some y\<rparr>)))"

definition contractDelete_new ::
  "'k sdk \<Rightarrow> (nat \<Rightarrow> timestamp) \<Rightarrow> contract_arg option \<Rightarrow>
   ('k account_arg) option \<Rightarrow> contract_arg option \<Rightarrow>
   'k contract_delete class_tx js" where
  "contractDelete_new sk starts contract transferAccount transferContract =
     js_bind (when_given (contractDelete_setContractId sk) contract (class_new starts 200000000
         contractDelete_blank)) (\<lambda>q.
     js_bind (when_given (contractDelete_setTransferAccountId sk) transferAccount q) (\<lambda>q.
       when_given (contractDelete_setTransferContractId sk) transferContract q))"

definition contractDelete_validateChecksums :: "'k sdk \<Rightarrow> ledger_id option \<Rightarrow> 'k contract_delete \<Rightarrow>
    unit js" where
  "contractDelete_validateChecksums sk ledger d =
     js_bind (check_contract sk ledger (cnd_contract d)) (\<lambda>_.
     js_bind (check_account sk ledger (cnd_transferAccount d)) (\<lambda>_.
       check_contract sk ledger (cnd_transferContract d)))"

definition contractDelete_makeTransactionData ::
  "'k sdk \<Rightarrow> 'k contract_delete \<Rightarrow> contract_delete_message js" where
  "contractDelete_makeTransactionData sk d =
     Inr \<lparr>cndm_contractID = map_option contract_toProtobuf (cnd_contract d),
       cndm_transferAccountID = map_option (account_message_of sk) (cnd_transferAccount d),
       cndm_transferContractID = map_option contract_toProtobuf (cnd_transferContract d)\<rparr>"

definition contractDelete_fromProtobuf ::
  "'k sdk \<Rightarrow> (nat \<Rightarrow> timestamp) \<Rightarrow> contract_delete_message \<Rightarrow> 'k contract_delete class_tx js" where
  "contractDelete_fromProtobuf sk starts m =
     js_bind (js_opt contract_fromProtobuf (cndm_contractID m)) (\<lambda>contract.
     js_bind (js_opt (account_of_message sk) (cndm_transferAccountID m)) (\<lambda>transferAccount.
     js_bind (js_opt contract_fromProtobuf (cndm_transferContractID m)) (\<lambda>transferContract.
       contractDelete_new sk starts (map_option Inl contract) (map_option Inl transferAccount)
           (map_option Inl transferContract))))"

definition contractDelete_ok :: "'k contract_delete \<Rightarrow> bool" where
  "contractDelete_ok d \<longleftrightarrow>
     opt_ok contract_ok (cnd_contract d) \<and>
     opt_ok account_ok (cnd_transferAccount d) \<and>
     opt_ok contract_ok (cnd_transferContract d)"

definition contractDelete_read :: "'k contract_delete \<Rightarrow> 'k contract_delete" where
  "contractDelete_read d =
     d\<lparr>cnd_contract := map_option contract_read (cnd_contract d),
       cnd_transferAccount := map_option account_sent (cnd_transferAccount d),
       cnd_transferContract := map_option contract_read (cnd_transferContract d)\<rparr>"

lemma contractDelete_given_contract:
  "opt_ok contract_ok x \<Longrightarrow> when_given (contractDelete_setContractId sk) (map_option Inl x) (class_new
      s fee d) =
     Inr (class_new s fee (d\<lparr>cnd_contract := or_else x (cnd_contract d)\<rparr>))"
  by (cases x; cases d) (simp_all add: contractDelete_setContractId_def contract_copied)

lemma contractDelete_given_transferAccount:
  "opt_ok account_ok x \<Longrightarrow> when_given (contractDelete_setTransferAccountId sk) (map_option Inl x)
      (class_new s fee d) =
     Inr (class_new s fee (d\<lparr>cnd_transferAccount := or_else x (cnd_transferAccount d)\<rparr>))"
  by (cases x; cases d) (simp_all add: contractDelete_setTransferAccountId_def arg_account_def)

lemma contractDelete_given_transferContract:
  "opt_ok contract_ok x \<Longrightarrow> when_given (contractDelete_setTransferContractId sk) (map_option Inl x)
      (class_new s fee d) =
     Inr (class_new s fee (d\<lparr>cnd_transferContract := or_else x (cnd_transferContract d)\<rparr>))"
  by (cases x; cases d) (simp_all add: contractDelete_setTransferContractId_def parse_contract_def)

lemmas contractDelete_given = contractDelete_given_contract contractDelete_given_transferAccount
    contractDelete_given_transferContract

lemma contractDelete_back:
  assumes "sdk_lawful sk" "contractDelete_ok d"
  shows "\<exists>m. contractDelete_makeTransactionData sk d = Inr m \<and>
    contractDelete_fromProtobuf sk starts m = Inr (class_new starts 200000000 (contractDelete_read d))"
  using assms unfolding contractDelete_ok_def
  by (cases d) (simp add: contractDelete_makeTransactionData_def contractDelete_fromProtobuf_def
      contractDelete_new_def contractDelete_given contractDelete_blank_def contractDelete_read_def
      account_opt [OF assms(1)] opt_account_sent contract_opt)

subsection \<open>Calling a contract\<close>

record contract_call =
  cne_contract :: "contract_id option"
  cne_gas :: "long option"
  cne_amount :: "int option"
  cne_parameters :: "bytes option"

record contract_call_message =
  cnem_contractID :: "contract_message option"
  cnem_gas :: "long option"
  cnem_amount :: "long option"
  cnem_functionParameters :: "bytes option"

definition contractExecute_blank :: "contract_call" where
  "contractExecute_blank = \<lparr>cne_contract = None, cne_gas = None, cne_amount = None, cne_parameters =
      None\<rparr>"

definition contractExecute_setContractId ::
  "'k sdk \<Rightarrow> contract_arg \<Rightarrow> contract_call class_tx \<Rightarrow> contract_call class_tx js" where
  "contractExecute_setContractId sk x = guarded (\<lambda>d. js_bind (copy_contract sk x) (\<lambda>y. Inr
      (d\<lparr>cne_contract := Some y\<rparr>)))"

definition contractExecute_setGas ::
  "long \<Rightarrow> contract_call class_tx \<Rightarrow> contract_call class_tx js" where
  "contractExecute_setGas x = guarded (\<lambda>d. Inr (d\<lparr>cne_gas := Some x\<rparr>))"

definition contractExecute_setPayableAmount ::
  "u2u_arg \<Rightarrow> contract_call class_tx \<Rightarrow> contract_call class_tx js" where
  "contractExecute_setPayableAmount x = guarded (\<lambda>d. js_bind (arg_amount x) (\<lambda>y. Inr (d\<lparr>cne_amount
      := Some y\<rparr>)))"

definition contractExecute_setFunctionParameters ::
  "bytes \<Rightarrow> contract_call class_tx \<Rightarrow> contract_call class_tx js" where
  "contractExecute_setFunctionParameters x = guarded (\<lambda>d. Inr (d\<lparr>cne_parameters := Some x\<rparr>))"

definition contractExecute_setFunction ::
  "'k sdk \<Rightarrow> string \<Rightarrow> parameters option \<Rightarrow> contract_call class_tx \<Rightarrow> contract_call class_tx js" where
  "contractExecute_setFunction sk name p =
     guarded (\<lambda>d. js_bind (fst (pa_build (sk_abi sk) (Some name) (case p of None \<Rightarrow> pa_new | Some p \<Rightarrow>
         p)))
       (\<lambda>b. Inr (d\<lparr>cne_parameters := Some b\<rparr>)))"

definition contractExecute_new ::
  "'k sdk \<Rightarrow> (nat \<Rightarrow> timestamp) \<Rightarrow> contract_arg option \<Rightarrow>
   long option \<Rightarrow> u2u_arg option \<Rightarrow> bytes option \<Rightarrow>
   (string \<times> parameters option) option \<Rightarrow> contract_call class_tx js" where
  "contractExecute_new sk starts contract gas amount parameters function =
     js_bind (when_given (contractExecute_setContractId sk) contract (class_new starts 200000000
         contractExecute_blank)) (\<lambda>q.
     js_bind (when_given contractExecute_setGas gas q) (\<lambda>q.
     js_bind (when_given contractExecute_setPayableAmount amount q) (\<lambda>q.
       case parameters of
         Some b \<Rightarrow> contractExecute_setFunctionParameters b q
       | None \<Rightarrow> when_given (\<lambda>(name, p). contractExecute_setFunction sk name p) function q)))"

definition contractExecute_validateChecksums :: "'k sdk \<Rightarrow> ledger_id option \<Rightarrow> contract_call \<Rightarrow> unit
    js" where
  "contractExecute_validateChecksums sk ledger d =
     check_contract sk ledger (cne_contract d)"

definition contractExecute_makeTransactionData ::
  "'k sdk \<Rightarrow> contract_call \<Rightarrow> contract_call_message js" where
  "contractExecute_makeTransactionData sk d =
     Inr \<lparr>cnem_contractID = map_option contract_toProtobuf (cne_contract d),
       cnem_gas = cne_gas d,
       cnem_amount = map_option u2u_toTiny (cne_amount d),
       cnem_functionParameters = cne_parameters d\<rparr>"

definition contractExecute_fromProtobuf ::
  "'k sdk \<Rightarrow> (nat \<Rightarrow> timestamp) \<Rightarrow> contract_call_message \<Rightarrow> contract_call class_tx js" where
  "contractExecute_fromProtobuf sk starts m =
     js_bind (js_opt contract_fromProtobuf (cnem_contractID m)) (\<lambda>contract.
     js_bind (js_opt amount_ofTiny (cnem_amount m)) (\<lambda>amount.
       contractExecute_new sk starts (map_option Inl contract) (cnem_gas m) (map_option AmountU2U
           amount) (cnem_functionParameters m) None))"

definition contractExecute_ok :: "contract_call \<Rightarrow> bool" where
  "contractExecute_ok d \<longleftrightarrow>
     opt_ok contract_ok (cne_contract d) \<and>
     opt_ok amount_ok (cne_amount d)"

definition contractExecute_read :: "contract_call \<Rightarrow> contract_call" where
  "contractExecute_read d =
     d\<lparr>cne_contract := map_option contract_read (cne_contract d)\<rparr>"

lemma contractExecute_given_contract:
  "opt_ok contract_ok x \<Longrightarrow> when_given (contractExecute_setContractId sk) (map_option Inl x)
      (class_new s fee d) =
     Inr (class_new s fee (d\<lparr>cne_contract := or_else x (cne_contract d)\<rparr>))"
  by (cases x; cases d) (simp_all add: contractExecute_setContractId_def contract_copied)

lemma contractExecute_given_gas:
  "when_given contractExecute_setGas x (class_new s fee d) =
     Inr (class_new s fee (d\<lparr>cne_gas := or_else x (cne_gas d)\<rparr>))"
  by (cases x; cases d) (simp_all add: contractExecute_setGas_def)

lemma contractExecute_given_amount:
  "when_given contractExecute_setPayableAmount (map_option AmountU2U x) (class_new s fee d) =
     Inr (class_new s fee (d\<lparr>cne_amount := or_else x (cne_amount d)\<rparr>))"
  by (cases x; cases d) (simp_all add: contractExecute_setPayableAmount_def)

lemma contractExecute_given_parameters:
  "when_given contractExecute_setFunctionParameters x (class_new s fee d) =
     Inr (class_new s fee (d\<lparr>cne_parameters := or_else x (cne_parameters d)\<rparr>))"
  by (cases x; cases d) (simp_all add: contractExecute_setFunctionParameters_def)

lemmas contractExecute_given = contractExecute_given_contract contractExecute_given_gas
    contractExecute_given_amount contractExecute_given_parameters

lemma contractExecute_back:
  assumes "sdk_lawful sk" "contractExecute_ok d"
  shows "\<exists>m. contractExecute_makeTransactionData sk d = Inr m \<and>
    contractExecute_fromProtobuf sk starts m = Inr (class_new starts 200000000 (contractExecute_read d))"
  using assms unfolding contractExecute_ok_def
  by (cases d; cases "cne_parameters d") (simp_all add: contractExecute_setFunctionParameters_def
      contractExecute_makeTransactionData_def contractExecute_fromProtobuf_def
      contractExecute_new_def contractExecute_given contractExecute_blank_def
      contractExecute_read_def contract_opt amount_opt)

subsection \<open>Ethereum transactions\<close>

text \<open>The check looks for a file among the data, which are bytes; the file of the call data is not looked at.\<close>

record ethereum =
  eth_data :: "bytes option"
  eth_callData :: "file_id option"
  eth_maxGas :: "int option"

record ethereum_message =
  ethm_ethereumData :: "bytes option"
  ethm_callData :: "id_message option"
  ethm_maxGasAllowance :: "long option"

definition ethereum_blank :: "ethereum" where
  "ethereum_blank = \<lparr>eth_data = None, eth_callData = None, eth_maxGas = None\<rparr>"

definition ethereum_setEthereumData ::
  "bytes \<Rightarrow> ethereum class_tx \<Rightarrow> ethereum class_tx js" where
  "ethereum_setEthereumData x = guarded (\<lambda>d. Inr (d\<lparr>eth_data := Some x\<rparr>))"

definition ethereum_setCallDataFileId ::
  "file_id \<Rightarrow> ethereum class_tx \<Rightarrow> ethereum class_tx js" where
  "ethereum_setCallDataFileId x = guarded (\<lambda>d. Inr (d\<lparr>eth_callData := Some x\<rparr>))"

definition ethereum_setMaxGasAllowanceU2U ::
  "u2u_arg \<Rightarrow> ethereum class_tx \<Rightarrow> ethereum class_tx js" where
  "ethereum_setMaxGasAllowanceU2U x = guarded (\<lambda>d. js_bind (arg_amount x) (\<lambda>y. Inr (d\<lparr>eth_maxGas :=
      Some y\<rparr>)))"

definition ethereum_new ::
  "'k sdk \<Rightarrow> (nat \<Rightarrow> timestamp) \<Rightarrow> bytes option \<Rightarrow>
   file_id option \<Rightarrow> file_id option \<Rightarrow> u2u_arg option \<Rightarrow> ethereum class_tx js" where
  "ethereum_new sk starts data callData callDataFileId maxGas =
     js_bind (when_given ethereum_setEthereumData data (class_new starts 200000000 ethereum_blank)) (\<lambda>q.
     js_bind (when_given ethereum_setCallDataFileId callData q) (\<lambda>q.
     js_bind (when_given ethereum_setCallDataFileId callDataFileId q) (\<lambda>q.
       when_given ethereum_setMaxGasAllowanceU2U maxGas q)))"

definition ethereum_setCallData :: "file_id \<Rightarrow> ethereum class_tx \<Rightarrow> ethereum class_tx js" where
  "ethereum_setCallData = ethereum_setCallDataFileId"

definition ethereum_setMaxGasAllowance :: "u2u_arg \<Rightarrow> ethereum class_tx \<Rightarrow> ethereum class_tx js" where
  "ethereum_setMaxGasAllowance = ethereum_setMaxGasAllowanceU2U"

definition ethereum_validateChecksums :: "'k sdk \<Rightarrow> ledger_id option \<Rightarrow> ethereum \<Rightarrow> unit js" where
  "ethereum_validateChecksums sk ledger d = Inr ()"

definition ethereum_makeTransactionData ::
  "'k sdk \<Rightarrow> ethereum \<Rightarrow> ethereum_message js" where
  "ethereum_makeTransactionData sk d =
     Inr \<lparr>ethm_ethereumData = eth_data d,
       ethm_callData = map_option file_toProtobuf (eth_callData d),
       ethm_maxGasAllowance = map_option u2u_toTiny (eth_maxGas d)\<rparr>"

definition ethereum_fromProtobuf ::
  "'k sdk \<Rightarrow> (nat \<Rightarrow> timestamp) \<Rightarrow> ethereum_message \<Rightarrow> ethereum class_tx js" where
  "ethereum_fromProtobuf sk starts m =
     js_bind (js_opt (file_of_message sk) (ethm_callData m)) (\<lambda>callData.
     js_bind (js_opt amount_ofTiny (ethm_maxGasAllowance m)) (\<lambda>maxGas.
       ethereum_new sk starts (ethm_ethereumData m) callData None (map_option AmountU2U maxGas)))"

definition ethereum_ok :: "ethereum \<Rightarrow> bool" where
  "ethereum_ok d \<longleftrightarrow>
     opt_ok file_ok (eth_callData d) \<and>
     opt_ok amount_ok (eth_maxGas d)"

definition ethereum_read :: "ethereum \<Rightarrow> ethereum" where
  "ethereum_read d =
     d\<lparr>eth_callData := map_option file_read (eth_callData d)\<rparr>"

lemma ethereum_given_data:
  "when_given ethereum_setEthereumData x (class_new s fee d) =
     Inr (class_new s fee (d\<lparr>eth_data := or_else x (eth_data d)\<rparr>))"
  by (cases x; cases d) (simp_all add: ethereum_setEthereumData_def)

lemma ethereum_given_callData:
  "when_given ethereum_setCallDataFileId x (class_new s fee d) =
     Inr (class_new s fee (d\<lparr>eth_callData := or_else x (eth_callData d)\<rparr>))"
  by (cases x; cases d) (simp_all add: ethereum_setCallDataFileId_def)

lemma ethereum_given_maxGas:
  "when_given ethereum_setMaxGasAllowanceU2U (map_option AmountU2U x) (class_new s fee d) =
     Inr (class_new s fee (d\<lparr>eth_maxGas := or_else x (eth_maxGas d)\<rparr>))"
  by (cases x; cases d) (simp_all add: ethereum_setMaxGasAllowanceU2U_def)

lemmas ethereum_given = ethereum_given_data ethereum_given_callData ethereum_given_maxGas

lemma ethereum_back:
  assumes "sdk_lawful sk" "ethereum_ok d"
  shows "\<exists>m. ethereum_makeTransactionData sk d = Inr m \<and>
    ethereum_fromProtobuf sk starts m = Inr (class_new starts 200000000 (ethereum_read d))"
  using assms unfolding ethereum_ok_def
  by (cases d) (simp add: ethereum_makeTransactionData_def ethereum_fromProtobuf_def
      ethereum_new_def ethereum_given
      ethereum_blank_def ethereum_read_def file_opt [OF assms(1)] amount_opt)

end
