(* ===== verification/FileTx.thy ===== *)
theory FileTx
  imports ClassArgs
begin

text \<open>
  The transactions of files and topics: \<open>file/FileCreateTransaction.js\<close>, \<open>FileUpdateTransaction.js\<close>,
  \<open>FileDeleteTransaction.js\<close>, \<open>topic/TopicCreateTransaction.js\<close>, \<open>TopicUpdateTransaction.js\<close> and
  \<open>TopicDeleteTransaction.js\<close>.
\<close>

subsection \<open>Creating a file\<close>

text \<open>A file expires 90 days after its transaction is made; \<open>now\<close> is \<open>Date.now()\<close>.\<close>

definition default_expiry :: "int \<Rightarrow> timestamp" where
  "default_expiry now =
     ts_plusNanos (word_of_int now * 1000000 + 7776000 * 1000000000) \<lparr>ts_seconds = 0, ts_nanos = 0\<rparr>"

record 'k file_create =
  fic_keys :: "'k key option list option"
  fic_expiry :: "timestamp"
  fic_contents :: "bytes option"
  fic_memo :: "string option"

record file_create_message =
  ficm_keys :: "key_list_message option"
  ficm_expirationTime :: "(long \<times> int) option"
  ficm_contents :: "bytes option"
  ficm_memo :: "string option"

definition fileCreate_blank :: "int \<Rightarrow> 'k file_create" where
  "fileCreate_blank now = \<lparr>fic_keys = None, fic_expiry = default_expiry now, fic_contents = None,
      fic_memo = None\<rparr>"

definition fileCreate_setKeys ::
  "'k keys_list \<Rightarrow> 'k file_create class_tx \<Rightarrow> 'k file_create class_tx js" where
  "fileCreate_setKeys x = guarded (\<lambda>d. js_bind (arg_fileKeys x) (\<lambda>y. Inr (d\<lparr>fic_keys := Some y\<rparr>)))"

definition fileCreate_setExpirationTime ::
  "timestamp + date \<Rightarrow> 'k file_create class_tx \<Rightarrow> 'k file_create class_tx js" where
  "fileCreate_setExpirationTime x = guarded (\<lambda>d. Inr (d\<lparr>fic_expiry := arg_time x\<rparr>))"

definition fileCreate_setContents ::
  "'k sdk \<Rightarrow> bytes + string \<Rightarrow> 'k file_create class_tx \<Rightarrow> 'k file_create class_tx js" where
  "fileCreate_setContents sk x = guarded (\<lambda>d. Inr (d\<lparr>fic_contents := Some (arg_bytes sk x)\<rparr>))"

definition fileCreate_setFileMemo ::
  "string \<Rightarrow> 'k file_create class_tx \<Rightarrow> 'k file_create class_tx js" where
  "fileCreate_setFileMemo x = guarded (\<lambda>d. Inr (d\<lparr>fic_memo := Some x\<rparr>))"

definition fileCreate_new ::
  "'k sdk \<Rightarrow> (nat \<Rightarrow> timestamp) \<Rightarrow> int \<Rightarrow> ('k keys_list) option \<Rightarrow>
   (timestamp + date) option \<Rightarrow> (bytes + string) option \<Rightarrow> string option \<Rightarrow>
   'k file_create class_tx js" where
  "fileCreate_new sk starts now keys expiry contents memo =
     js_bind (when_given fileCreate_setKeys keys (class_new starts 500000000 (fileCreate_blank
         now))) (\<lambda>q.
     js_bind (when_given fileCreate_setExpirationTime expiry q) (\<lambda>q.
     js_bind (when_given (fileCreate_setContents sk) contents q) (\<lambda>q.
       when_given fileCreate_setFileMemo memo q)))"

definition fileCreate_makeTransactionData ::
  "'k sdk \<Rightarrow> 'k file_create \<Rightarrow> file_create_message js" where
  "fileCreate_makeTransactionData sk d =
     js_bind (js_opt (keys_message sk) (fic_keys d)) (\<lambda>keys.
       Inr \<lparr>ficm_keys = keys,
       ficm_expirationTime = Some (ts_toProtobuf (fic_expiry d)),
       ficm_contents = fic_contents d,
       ficm_memo = fic_memo d\<rparr>)"

definition fileCreate_fromProtobuf ::
  "'k sdk \<Rightarrow> (nat \<Rightarrow> timestamp) \<Rightarrow> int \<Rightarrow> file_create_message \<Rightarrow> 'k file_create class_tx js" where
  "fileCreate_fromProtobuf sk starts now m =
     js_bind (keys_of_message sk (ficm_keys m)) (\<lambda>keys.
       fileCreate_new sk starts now (map_option KeysArray keys) (map_option Inl (map_option
           ts_fromProtobuf (ficm_expirationTime m))) (map_option Inl (ficm_contents m)) (ficm_memo m))"

definition fileCreate_ok :: "'k sdk \<Rightarrow> 'k file_create \<Rightarrow> bool" where
  "fileCreate_ok sk d \<longleftrightarrow>
     opt_ok (keys_ok sk) (fic_keys d) \<and>
     time_ok (fic_expiry d)"

definition fileCreate_read :: "'k file_create \<Rightarrow> 'k file_create" where
  "fileCreate_read d =
     d\<lparr>fic_keys := map_option (map (map_option key_sent)) (fic_keys d)\<rparr>"

lemma fileCreate_given_keys:
  "when_given fileCreate_setKeys (map_option KeysArray x) (class_new s fee d) =
     Inr (class_new s fee (d\<lparr>fic_keys := or_else x (fic_keys d)\<rparr>))"
  by (cases x; cases d) (simp_all add: fileCreate_setKeys_def)

lemma fileCreate_given_expiry:
  "when_given fileCreate_setExpirationTime (map_option Inl x) (class_new s fee d) =
     Inr (class_new s fee (d\<lparr>fic_expiry := or_keep x (fic_expiry d)\<rparr>))"
  by (cases x; cases d) (simp_all add: fileCreate_setExpirationTime_def)

lemma fileCreate_given_contents:
  "when_given (fileCreate_setContents sk) (map_option Inl x) (class_new s fee d) =
     Inr (class_new s fee (d\<lparr>fic_contents := or_else x (fic_contents d)\<rparr>))"
  by (cases x; cases d) (simp_all add: fileCreate_setContents_def)

lemma fileCreate_given_memo:
  "when_given fileCreate_setFileMemo x (class_new s fee d) =
     Inr (class_new s fee (d\<lparr>fic_memo := or_else x (fic_memo d)\<rparr>))"
  by (cases x; cases d) (simp_all add: fileCreate_setFileMemo_def)

lemmas fileCreate_given = fileCreate_given_keys fileCreate_given_expiry fileCreate_given_contents
    fileCreate_given_memo

lemma fileCreate_back:
  assumes "sdk_lawful sk" "fileCreate_ok sk d"
  shows "\<exists>m. fileCreate_makeTransactionData sk d = Inr m \<and>
    fileCreate_fromProtobuf sk starts now m = Inr (class_new starts 500000000 (fileCreate_read d))"
proof -
  obtain keys where keys: "js_opt (keys_message sk) (fic_keys d) = Inr keys"
    "keys_of_message sk keys = Inr (map_option (map (map_option key_sent)) (fic_keys d))"
    using keys_opt [OF assms(1)] assms(2) unfolding fileCreate_ok_def by blast
  show ?thesis
    using assms(2) keys unfolding fileCreate_ok_def
    by (cases d) (simp add: fileCreate_makeTransactionData_def fileCreate_fromProtobuf_def fileCreate_new_def
      fileCreate_given fileCreate_blank_def fileCreate_read_def time_received
      fileCreate_setExpirationTime_def time_opt)
qed

subsection \<open>Changing and deleting a file\<close>

record 'k file_update =
  fiu_file :: "file_id option"
  fiu_keys :: "'k key option list option"
  fiu_expiry :: "timestamp option"
  fiu_contents :: "bytes option"
  fiu_memo :: "string option"

record file_update_message =
  fium_fileID :: "id_message option"
  fium_keys :: "key_list_message option"
  fium_expirationTime :: "(long \<times> int) option"
  fium_contents :: "bytes option"
  fium_memo :: "(string wrapper) option"

definition fileUpdate_blank :: "'k file_update" where
  "fileUpdate_blank = \<lparr>fiu_file = None, fiu_keys = None, fiu_expiry = None, fiu_contents = None,
      fiu_memo = None\<rparr>"

definition fileUpdate_setFileId ::
  "'k sdk \<Rightarrow> file_arg \<Rightarrow> 'k file_update class_tx \<Rightarrow> 'k file_update class_tx js" where
  "fileUpdate_setFileId sk x = guarded (\<lambda>d. js_bind (copy_file sk x) (\<lambda>y. Inr (d\<lparr>fiu_file := Some y\<rparr>)))"

definition fileUpdate_setKeys ::
  "'k keys_list \<Rightarrow> 'k file_update class_tx \<Rightarrow> 'k file_update class_tx js" where
  "fileUpdate_setKeys x = guarded (\<lambda>d. js_bind (arg_fileKeys x) (\<lambda>y. Inr (d\<lparr>fiu_keys := Some y\<rparr>)))"

definition fileUpdate_setExpirationTime ::
  "timestamp + date \<Rightarrow> 'k file_update class_tx \<Rightarrow> 'k file_update class_tx js" where
  "fileUpdate_setExpirationTime x = guarded (\<lambda>d. Inr (d\<lparr>fiu_expiry := Some (arg_time x)\<rparr>))"

definition fileUpdate_setContents ::
  "'k sdk \<Rightarrow> bytes + string \<Rightarrow> 'k file_update class_tx \<Rightarrow> 'k file_update class_tx js" where
  "fileUpdate_setContents sk x = guarded (\<lambda>d. Inr (d\<lparr>fiu_contents := Some (arg_bytes sk x)\<rparr>))"

definition fileUpdate_setFileMemo ::
  "string \<Rightarrow> 'k file_update class_tx \<Rightarrow> 'k file_update class_tx js" where
  "fileUpdate_setFileMemo x = guarded (\<lambda>d. Inr (d\<lparr>fiu_memo := Some x\<rparr>))"

definition fileUpdate_new ::
  "'k sdk \<Rightarrow> (nat \<Rightarrow> timestamp) \<Rightarrow> file_arg option \<Rightarrow>
   ('k keys_list) option \<Rightarrow> (timestamp + date) option \<Rightarrow>
   (bytes + string) option \<Rightarrow> string option \<Rightarrow> 'k file_update class_tx js" where
  "fileUpdate_new sk starts file keys expiry contents memo =
     js_bind (when_given (fileUpdate_setFileId sk) file (class_new starts 200000000
         fileUpdate_blank)) (\<lambda>q.
     js_bind (when_given fileUpdate_setKeys keys q) (\<lambda>q.
     js_bind (when_given fileUpdate_setExpirationTime expiry q) (\<lambda>q.
     js_bind (when_given (fileUpdate_setContents sk) contents q) (\<lambda>q.
       when_given fileUpdate_setFileMemo memo q))))"

definition fileUpdate_validateChecksums :: "'k sdk \<Rightarrow> ledger_id option \<Rightarrow> 'k file_update \<Rightarrow> unit js" where
  "fileUpdate_validateChecksums sk ledger d =
     check_file sk ledger (fiu_file d)"

definition fileUpdate_makeTransactionData ::
  "'k sdk \<Rightarrow> 'k file_update \<Rightarrow> file_update_message js" where
  "fileUpdate_makeTransactionData sk d =
     js_bind (js_opt (keys_message sk) (fiu_keys d)) (\<lambda>keys.
       Inr \<lparr>fium_fileID = map_option file_toProtobuf (fiu_file d),
       fium_keys = keys,
       fium_expirationTime = map_option ts_toProtobuf (fiu_expiry d),
       fium_contents = fiu_contents d,
       fium_memo = map_option wrapped (fiu_memo d)\<rparr>)"

definition fileUpdate_fromProtobuf ::
  "'k sdk \<Rightarrow> (nat \<Rightarrow> timestamp) \<Rightarrow> file_update_message \<Rightarrow> 'k file_update class_tx js" where
  "fileUpdate_fromProtobuf sk starts m =
     js_bind (js_opt (file_of_message sk) (fium_fileID m)) (\<lambda>file.
     js_bind (keys_of_message sk (fium_keys m)) (\<lambda>keys.
       fileUpdate_new sk starts (map_option Inl file) (map_option KeysArray keys) (map_option Inl
           (map_option ts_fromProtobuf (fium_expirationTime m))) (map_option Inl (fium_contents m))
         (Option.bind (fium_memo m) wr_value)))"

definition fileUpdate_clearFileMemo :: "'k file_update class_tx \<Rightarrow> 'k file_update class_tx js" where
  "fileUpdate_clearFileMemo = guarded (\<lambda>d. Inr (d\<lparr>fiu_memo := None\<rparr>))"

definition fileUpdate_ok :: "'k sdk \<Rightarrow> 'k file_update \<Rightarrow> bool" where
  "fileUpdate_ok sk d \<longleftrightarrow>
     opt_ok file_ok (fiu_file d) \<and>
     opt_ok (keys_ok sk) (fiu_keys d) \<and>
     opt_ok time_ok (fiu_expiry d)"

definition fileUpdate_read :: "'k file_update \<Rightarrow> 'k file_update" where
  "fileUpdate_read d =
     d\<lparr>fiu_file := map_option file_read (fiu_file d),
       fiu_keys := map_option (map (map_option key_sent)) (fiu_keys d)\<rparr>"

lemma fileUpdate_given_file:
  "opt_ok file_ok x \<Longrightarrow> when_given (fileUpdate_setFileId sk) (map_option Inl x) (class_new s fee d) =
     Inr (class_new s fee (d\<lparr>fiu_file := or_else x (fiu_file d)\<rparr>))"
  by (cases x; cases d) (simp_all add: fileUpdate_setFileId_def file_copied)

lemma fileUpdate_given_keys:
  "when_given fileUpdate_setKeys (map_option KeysArray x) (class_new s fee d) =
     Inr (class_new s fee (d\<lparr>fiu_keys := or_else x (fiu_keys d)\<rparr>))"
  by (cases x; cases d) (simp_all add: fileUpdate_setKeys_def)

lemma fileUpdate_given_expiry:
  "when_given fileUpdate_setExpirationTime (map_option Inl x) (class_new s fee d) =
     Inr (class_new s fee (d\<lparr>fiu_expiry := or_else x (fiu_expiry d)\<rparr>))"
  by (cases x; cases d) (simp_all add: fileUpdate_setExpirationTime_def)

lemma fileUpdate_given_contents:
  "when_given (fileUpdate_setContents sk) (map_option Inl x) (class_new s fee d) =
     Inr (class_new s fee (d\<lparr>fiu_contents := or_else x (fiu_contents d)\<rparr>))"
  by (cases x; cases d) (simp_all add: fileUpdate_setContents_def)

lemma fileUpdate_given_memo:
  "when_given fileUpdate_setFileMemo x (class_new s fee d) =
     Inr (class_new s fee (d\<lparr>fiu_memo := or_else x (fiu_memo d)\<rparr>))"
  by (cases x; cases d) (simp_all add: fileUpdate_setFileMemo_def)

lemmas fileUpdate_given = fileUpdate_given_file fileUpdate_given_keys fileUpdate_given_expiry
    fileUpdate_given_contents fileUpdate_given_memo

lemma fileUpdate_back:
  assumes "sdk_lawful sk" "fileUpdate_ok sk d"
  shows "\<exists>m. fileUpdate_makeTransactionData sk d = Inr m \<and>
    fileUpdate_fromProtobuf sk starts m = Inr (class_new starts 200000000 (fileUpdate_read d))"
proof -
  obtain keys where keys: "js_opt (keys_message sk) (fiu_keys d) = Inr keys"
    "keys_of_message sk keys = Inr (map_option (map (map_option key_sent)) (fiu_keys d))"
    using keys_opt [OF assms(1)] assms(2) unfolding fileUpdate_ok_def by blast
  show ?thesis
    using assms(2) keys unfolding fileUpdate_ok_def
    by (cases d) (simp add: fileUpdate_makeTransactionData_def fileUpdate_fromProtobuf_def fileUpdate_new_def
      fileUpdate_given fileUpdate_blank_def fileUpdate_read_def file_opt [OF assms(1)] time_opt)
qed

record file_delete =
  fid_file :: "file_id option"

record file_delete_message =
  fidm_fileID :: "id_message option"

definition fileDelete_blank :: "file_delete" where
  "fileDelete_blank = \<lparr>fid_file = None\<rparr>"

definition fileDelete_setFileId ::
  "'k sdk \<Rightarrow> file_arg \<Rightarrow> file_delete class_tx \<Rightarrow> file_delete class_tx js" where
  "fileDelete_setFileId sk x = guarded (\<lambda>d. js_bind (copy_file sk x) (\<lambda>y. Inr (d\<lparr>fid_file := Some y\<rparr>)))"

definition fileDelete_new ::
  "'k sdk \<Rightarrow> (nat \<Rightarrow> timestamp) \<Rightarrow> file_arg option \<Rightarrow>
   file_delete class_tx js" where
  "fileDelete_new sk starts file =
     when_given (fileDelete_setFileId sk) file (class_new starts 200000000 fileDelete_blank)"

definition fileDelete_validateChecksums :: "'k sdk \<Rightarrow> ledger_id option \<Rightarrow> file_delete \<Rightarrow> unit js" where
  "fileDelete_validateChecksums sk ledger d =
     check_file sk ledger (fid_file d)"

definition fileDelete_makeTransactionData ::
  "'k sdk \<Rightarrow> file_delete \<Rightarrow> file_delete_message js" where
  "fileDelete_makeTransactionData sk d =
     Inr \<lparr>fidm_fileID = map_option file_toProtobuf (fid_file d)\<rparr>"

definition fileDelete_fromProtobuf ::
  "'k sdk \<Rightarrow> (nat \<Rightarrow> timestamp) \<Rightarrow> file_delete_message \<Rightarrow> file_delete class_tx js" where
  "fileDelete_fromProtobuf sk starts m =
     js_bind (js_opt (file_of_message sk) (fidm_fileID m)) (\<lambda>file.
       fileDelete_new sk starts (map_option Inl file))"

definition fileDelete_ok :: "file_delete \<Rightarrow> bool" where
  "fileDelete_ok d \<longleftrightarrow>
     opt_ok file_ok (fid_file d)"

definition fileDelete_read :: "file_delete \<Rightarrow> file_delete" where
  "fileDelete_read d =
     d\<lparr>fid_file := map_option file_read (fid_file d)\<rparr>"

lemma fileDelete_given_file:
  "opt_ok file_ok x \<Longrightarrow> when_given (fileDelete_setFileId sk) (map_option Inl x) (class_new s fee d) =
     Inr (class_new s fee (d\<lparr>fid_file := or_else x (fid_file d)\<rparr>))"
  by (cases x; cases d) (simp_all add: fileDelete_setFileId_def file_copied)

lemmas fileDelete_given = fileDelete_given_file

lemma fileDelete_back:
  assumes "sdk_lawful sk" "fileDelete_ok d"
  shows "\<exists>m. fileDelete_makeTransactionData sk d = Inr m \<and>
    fileDelete_fromProtobuf sk starts m = Inr (class_new starts 200000000 (fileDelete_read d))"
  using assms unfolding fileDelete_ok_def
  by (cases d) (simp add: fileDelete_makeTransactionData_def fileDelete_fromProtobuf_def fileDelete_new_def
      fileDelete_given fileDelete_blank_def fileDelete_read_def file_opt [OF assms(1)])

subsection \<open>Topics\<close>

record 'k topic_create =
  toc_adminKey :: "'k key option"
  toc_submitKey :: "'k key option"
  toc_autoRenewAccount :: "'k account_id option"
  toc_autoRenewPeriod :: "long"
  toc_memo :: "string option"

record topic_create_message =
  tocm_adminKey :: "key_message option"
  tocm_submitKey :: "key_message option"
  tocm_autoRenewAccount :: "account_message option"
  tocm_autoRenewPeriod :: "duration_message option"
  tocm_memo :: "string option"

definition topicCreate_blank :: "'k topic_create" where
  "topicCreate_blank = \<lparr>toc_adminKey = None, toc_submitKey = None, toc_autoRenewAccount = None,
      toc_autoRenewPeriod = 7776000, toc_memo = None\<rparr>"

definition topicCreate_setAdminKey ::
  "'k key \<Rightarrow> 'k topic_create class_tx \<Rightarrow> 'k topic_create class_tx js" where
  "topicCreate_setAdminKey x = guarded (\<lambda>d. Inr (d\<lparr>toc_adminKey := Some x\<rparr>))"

definition topicCreate_setSubmitKey ::
  "'k key \<Rightarrow> 'k topic_create class_tx \<Rightarrow> 'k topic_create class_tx js" where
  "topicCreate_setSubmitKey x = guarded (\<lambda>d. Inr (d\<lparr>toc_submitKey := Some x\<rparr>))"

definition topicCreate_setAutoRenewAccountId ::
  "'k sdk \<Rightarrow> 'k account_arg \<Rightarrow> 'k topic_create class_tx \<Rightarrow> 'k topic_create class_tx js" where
  "topicCreate_setAutoRenewAccountId sk x = guarded (\<lambda>d. js_bind (arg_account (sk_text sk) x) (\<lambda>y.
      Inr (d\<lparr>toc_autoRenewAccount := Some y\<rparr>)))"

definition topicCreate_setAutoRenewPeriod ::
  "long \<Rightarrow> 'k topic_create class_tx \<Rightarrow> 'k topic_create class_tx js" where
  "topicCreate_setAutoRenewPeriod x = guarded (\<lambda>d. Inr (d\<lparr>toc_autoRenewPeriod := x\<rparr>))"

definition topicCreate_setTopicMemo ::
  "string \<Rightarrow> 'k topic_create class_tx \<Rightarrow> 'k topic_create class_tx js" where
  "topicCreate_setTopicMemo x = guarded (\<lambda>d. Inr (d\<lparr>toc_memo := Some x\<rparr>))"

definition topicCreate_new ::
  "'k sdk \<Rightarrow> (nat \<Rightarrow> timestamp) \<Rightarrow> ('k key) option \<Rightarrow>
   ('k key) option \<Rightarrow> ('k account_arg) option \<Rightarrow> long option \<Rightarrow>
   string option \<Rightarrow> 'k topic_create class_tx js" where
  "topicCreate_new sk starts adminKey submitKey autoRenewAccount autoRenewPeriod memo =
     js_bind (when_given topicCreate_setAdminKey adminKey (class_new starts 200000000
         topicCreate_blank)) (\<lambda>q.
     js_bind (when_given topicCreate_setSubmitKey submitKey q) (\<lambda>q.
     js_bind (when_given (topicCreate_setAutoRenewAccountId sk) autoRenewAccount q) (\<lambda>q.
     js_bind (when_given topicCreate_setAutoRenewPeriod autoRenewPeriod q) (\<lambda>q.
       when_given topicCreate_setTopicMemo memo q))))"

definition topicCreate_validateChecksums :: "'k sdk \<Rightarrow> ledger_id option \<Rightarrow> 'k topic_create \<Rightarrow> unit js"
    where
  "topicCreate_validateChecksums sk ledger d =
     check_account sk ledger (toc_autoRenewAccount d)"

definition topicCreate_makeTransactionData ::
  "'k sdk \<Rightarrow> 'k topic_create \<Rightarrow> topic_create_message js" where
  "topicCreate_makeTransactionData sk d =
     js_bind (js_opt (key_toProtobuf (sk_keys sk)) (toc_adminKey d)) (\<lambda>adminKey.
     js_bind (js_opt (key_toProtobuf (sk_keys sk)) (toc_submitKey d)) (\<lambda>submitKey.
       Inr \<lparr>tocm_adminKey = adminKey,
       tocm_submitKey = submitKey,
       tocm_autoRenewAccount = map_option (account_message_of sk) (toc_autoRenewAccount d),
       tocm_autoRenewPeriod = Some (duration_toProtobuf (toc_autoRenewPeriod d)),
       tocm_memo = toc_memo d\<rparr>))"

definition topicCreate_fromProtobuf ::
  "'k sdk \<Rightarrow> (nat \<Rightarrow> timestamp) \<Rightarrow> topic_create_message \<Rightarrow> 'k topic_create class_tx js" where
  "topicCreate_fromProtobuf sk starts m =
     js_bind (key_of_message sk (tocm_adminKey m)) (\<lambda>adminKey.
     js_bind (key_of_message sk (tocm_submitKey m)) (\<lambda>submitKey.
     js_bind (js_opt (account_of_message sk) (tocm_autoRenewAccount m)) (\<lambda>autoRenewAccount.
       topicCreate_new sk starts adminKey submitKey (map_option Inl autoRenewAccount) (map_option
           duration_fromProtobuf (tocm_autoRenewPeriod m))
         (tocm_memo m))))"

definition topicCreate_ok :: "'k sdk \<Rightarrow> 'k topic_create \<Rightarrow> bool" where
  "topicCreate_ok sk d \<longleftrightarrow>
     opt_ok (key_ok (sk_keys sk)) (toc_adminKey d) \<and>
     opt_ok (key_ok (sk_keys sk)) (toc_submitKey d) \<and>
     opt_ok account_ok (toc_autoRenewAccount d)"

definition topicCreate_read :: "'k topic_create \<Rightarrow> 'k topic_create" where
  "topicCreate_read d =
     d\<lparr>toc_adminKey := map_option key_sent (toc_adminKey d),
       toc_submitKey := map_option key_sent (toc_submitKey d),
       toc_autoRenewAccount := map_option account_sent (toc_autoRenewAccount d)\<rparr>"

lemma topicCreate_given_adminKey:
  "when_given topicCreate_setAdminKey x (class_new s fee d) =
     Inr (class_new s fee (d\<lparr>toc_adminKey := or_else x (toc_adminKey d)\<rparr>))"
  by (cases x; cases d) (simp_all add: topicCreate_setAdminKey_def)

lemma topicCreate_given_submitKey:
  "when_given topicCreate_setSubmitKey x (class_new s fee d) =
     Inr (class_new s fee (d\<lparr>toc_submitKey := or_else x (toc_submitKey d)\<rparr>))"
  by (cases x; cases d) (simp_all add: topicCreate_setSubmitKey_def)

lemma topicCreate_given_autoRenewAccount:
  "opt_ok account_ok x \<Longrightarrow> when_given (topicCreate_setAutoRenewAccountId sk) (map_option Inl x)
      (class_new s fee d) =
     Inr (class_new s fee (d\<lparr>toc_autoRenewAccount := or_else x (toc_autoRenewAccount d)\<rparr>))"
  by (cases x; cases d) (simp_all add: topicCreate_setAutoRenewAccountId_def arg_account_def)

lemma topicCreate_given_autoRenewPeriod:
  "when_given topicCreate_setAutoRenewPeriod x (class_new s fee d) =
     Inr (class_new s fee (d\<lparr>toc_autoRenewPeriod := or_keep x (toc_autoRenewPeriod d)\<rparr>))"
  by (cases x; cases d) (simp_all add: topicCreate_setAutoRenewPeriod_def)

lemma topicCreate_given_memo:
  "when_given topicCreate_setTopicMemo x (class_new s fee d) =
     Inr (class_new s fee (d\<lparr>toc_memo := or_else x (toc_memo d)\<rparr>))"
  by (cases x; cases d) (simp_all add: topicCreate_setTopicMemo_def)

lemmas topicCreate_given = topicCreate_given_adminKey topicCreate_given_submitKey
    topicCreate_given_autoRenewAccount topicCreate_given_autoRenewPeriod topicCreate_given_memo

lemma topicCreate_back:
  assumes "sdk_lawful sk" "topicCreate_ok sk d"
  shows "\<exists>m. topicCreate_makeTransactionData sk d = Inr m \<and>
    topicCreate_fromProtobuf sk starts m = Inr (class_new starts 200000000 (topicCreate_read d))"
proof -
  obtain adminKey where adminKey: "js_opt (key_toProtobuf (sk_keys sk)) (toc_adminKey d) = Inr adminKey"
    "key_of_message sk adminKey = Inr (map_option key_sent (toc_adminKey d))"
    using key_opt [OF assms(1)] assms(2) unfolding topicCreate_ok_def by blast
  obtain submitKey where submitKey: "js_opt (key_toProtobuf (sk_keys sk)) (toc_submitKey d) = Inr submitKey"
    "key_of_message sk submitKey = Inr (map_option key_sent (toc_submitKey d))"
    using key_opt [OF assms(1)] assms(2) unfolding topicCreate_ok_def by blast
  show ?thesis
    using assms(2) adminKey submitKey unfolding topicCreate_ok_def
    by (cases d) (simp add: topicCreate_makeTransactionData_def topicCreate_fromProtobuf_def topicCreate_new_def
      topicCreate_given topicCreate_blank_def topicCreate_read_def account_opt [OF assms(1)]
      opt_account_sent topicCreate_setAutoRenewPeriod_def)
qed

record 'k topic_update =
  tou_topic :: "topic_id option"
  tou_memo :: "string option"
  tou_submitKey :: "'k key option"
  tou_adminKey :: "'k key option"
  tou_autoRenewAccount :: "'k account_id option"
  tou_autoRenewPeriod :: "long option"
  tou_expiry :: "timestamp option"

record topic_update_message =
  toum_topicID :: "id_message option"
  toum_memo :: "(string wrapper) option"
  toum_submitKey :: "key_message option"
  toum_adminKey :: "key_message option"
  toum_autoRenewAccount :: "account_message option"
  toum_autoRenewPeriod :: "duration_message option"
  toum_expirationTime :: "(long \<times> int) option"

definition topicUpdate_blank :: "'k topic_update" where
  "topicUpdate_blank = \<lparr>tou_topic = None, tou_memo = None, tou_submitKey = None, tou_adminKey =
      None, tou_autoRenewAccount = None, tou_autoRenewPeriod = None, tou_expiry = None\<rparr>"

definition topicUpdate_setTopicId ::
  "'k sdk \<Rightarrow> topic_arg \<Rightarrow> 'k topic_update class_tx \<Rightarrow> 'k topic_update class_tx js" where
  "topicUpdate_setTopicId sk x = guarded (\<lambda>d. js_bind (copy_topic sk x) (\<lambda>y. Inr (d\<lparr>tou_topic :=
      Some y\<rparr>)))"

definition topicUpdate_setTopicMemo ::
  "string \<Rightarrow> 'k topic_update class_tx \<Rightarrow> 'k topic_update class_tx js" where
  "topicUpdate_setTopicMemo x = guarded (\<lambda>d. Inr (d\<lparr>tou_memo := Some x\<rparr>))"

definition topicUpdate_setSubmitKey ::
  "'k key \<Rightarrow> 'k topic_update class_tx \<Rightarrow> 'k topic_update class_tx js" where
  "topicUpdate_setSubmitKey x = guarded (\<lambda>d. Inr (d\<lparr>tou_submitKey := Some x\<rparr>))"

definition topicUpdate_setAdminKey ::
  "'k key \<Rightarrow> 'k topic_update class_tx \<Rightarrow> 'k topic_update class_tx js" where
  "topicUpdate_setAdminKey x = guarded (\<lambda>d. Inr (d\<lparr>tou_adminKey := Some x\<rparr>))"

definition topicUpdate_setAutoRenewAccountId ::
  "'k sdk \<Rightarrow> 'k account_arg \<Rightarrow> 'k topic_update class_tx \<Rightarrow> 'k topic_update class_tx js" where
  "topicUpdate_setAutoRenewAccountId sk x = guarded (\<lambda>d. js_bind (arg_account (sk_text sk) x) (\<lambda>y.
      Inr (d\<lparr>tou_autoRenewAccount := Some y\<rparr>)))"

definition topicUpdate_setAutoRenewPeriod ::
  "long \<Rightarrow> 'k topic_update class_tx \<Rightarrow> 'k topic_update class_tx js" where
  "topicUpdate_setAutoRenewPeriod x = guarded (\<lambda>d. Inr (d\<lparr>tou_autoRenewPeriod := Some x\<rparr>))"

definition topicUpdate_setExpirationTime ::
  "timestamp + date \<Rightarrow> 'k topic_update class_tx \<Rightarrow> 'k topic_update class_tx js" where
  "topicUpdate_setExpirationTime x = guarded (\<lambda>d. Inr (d\<lparr>tou_expiry := Some (arg_time x)\<rparr>))"

definition topicUpdate_new ::
  "'k sdk \<Rightarrow> (nat \<Rightarrow> timestamp) \<Rightarrow> topic_arg option \<Rightarrow>
   string option \<Rightarrow> ('k key) option \<Rightarrow> ('k key) option \<Rightarrow>
   ('k account_arg) option \<Rightarrow> long option \<Rightarrow> (timestamp + date) option \<Rightarrow>
   'k topic_update class_tx js" where
  "topicUpdate_new sk starts topic memo submitKey adminKey autoRenewAccount autoRenewPeriod expiry =
     js_bind (when_given (topicUpdate_setTopicId sk) topic (class_new starts 200000000
         topicUpdate_blank)) (\<lambda>q.
     js_bind (when_given topicUpdate_setTopicMemo memo q) (\<lambda>q.
     js_bind (when_given topicUpdate_setSubmitKey submitKey q) (\<lambda>q.
     js_bind (when_given topicUpdate_setAdminKey adminKey q) (\<lambda>q.
     js_bind (when_given (topicUpdate_setAutoRenewAccountId sk) autoRenewAccount q) (\<lambda>q.
     js_bind (when_given topicUpdate_setAutoRenewPeriod autoRenewPeriod q) (\<lambda>q.
       when_given topicUpdate_setExpirationTime expiry q))))))"

definition topicUpdate_validateChecksums :: "'k sdk \<Rightarrow> ledger_id option \<Rightarrow> 'k topic_update \<Rightarrow> unit js"
    where
  "topicUpdate_validateChecksums sk ledger d =
     js_bind (check_topic sk ledger (tou_topic d)) (\<lambda>_.
       check_account sk ledger (tou_autoRenewAccount d))"

definition topicUpdate_makeTransactionData ::
  "'k sdk \<Rightarrow> 'k topic_update \<Rightarrow> topic_update_message js" where
  "topicUpdate_makeTransactionData sk d =
     js_bind (js_opt (key_toProtobuf (sk_keys sk)) (tou_submitKey d)) (\<lambda>submitKey.
     js_bind (js_opt (key_toProtobuf (sk_keys sk)) (tou_adminKey d)) (\<lambda>adminKey.
       Inr \<lparr>toum_topicID = map_option topic_toProtobuf (tou_topic d),
       toum_memo = map_option wrapped (tou_memo d),
       toum_submitKey = submitKey,
       toum_adminKey = adminKey,
       toum_autoRenewAccount = map_option (account_message_of sk) (tou_autoRenewAccount d),
       toum_autoRenewPeriod = map_option duration_toProtobuf (tou_autoRenewPeriod d),
       toum_expirationTime = map_option ts_toProtobuf (tou_expiry d)\<rparr>))"

definition topicUpdate_fromProtobuf ::
  "'k sdk \<Rightarrow> (nat \<Rightarrow> timestamp) \<Rightarrow> topic_update_message \<Rightarrow> 'k topic_update class_tx js" where
  "topicUpdate_fromProtobuf sk starts m =
     js_bind (js_opt topic_fromProtobuf (toum_topicID m)) (\<lambda>topic.
     js_bind (key_of_message sk (toum_submitKey m)) (\<lambda>submitKey.
     js_bind (key_of_message sk (toum_adminKey m)) (\<lambda>adminKey.
     js_bind (js_opt (account_of_message sk) (toum_autoRenewAccount m)) (\<lambda>autoRenewAccount.
       topicUpdate_new sk starts (map_option Inl topic) (Option.bind (toum_memo m) wr_value) submitKey adminKey
         (map_option Inl autoRenewAccount) (map_option duration_fromProtobuf (toum_autoRenewPeriod
             m)) (map_option Inl (map_option ts_fromProtobuf (toum_expirationTime m)))))))"

definition topicUpdate_clearTopicId :: "'k topic_update class_tx \<Rightarrow> 'k topic_update class_tx js" where
  "topicUpdate_clearTopicId = guarded (\<lambda>d. Inr (d\<lparr>tou_topic := None\<rparr>))"

definition topicUpdate_clearTopicMemo :: "'k topic_update class_tx \<Rightarrow> 'k topic_update class_tx js" where
  "topicUpdate_clearTopicMemo = guarded (\<lambda>d. Inr (d\<lparr>tou_memo := None\<rparr>))"

definition topicUpdate_clearAdminKey :: "'k topic_update class_tx \<Rightarrow> 'k topic_update class_tx js" where
  "topicUpdate_clearAdminKey = guarded (\<lambda>d. Inr (d\<lparr>tou_adminKey := None\<rparr>))"

definition topicUpdate_clearSubmitKey :: "'k topic_update class_tx \<Rightarrow> 'k topic_update class_tx js" where
  "topicUpdate_clearSubmitKey = guarded (\<lambda>d. Inr (d\<lparr>tou_submitKey := None\<rparr>))"

definition topicUpdate_clearAutoRenewAccountId :: "'k topic_update class_tx \<Rightarrow> 'k topic_update
    class_tx js" where
  "topicUpdate_clearAutoRenewAccountId = guarded (\<lambda>d. Inr (d\<lparr>tou_autoRenewAccount := None\<rparr>))"

definition topicUpdate_ok :: "'k sdk \<Rightarrow> 'k topic_update \<Rightarrow> bool" where
  "topicUpdate_ok sk d \<longleftrightarrow>
     opt_ok topic_ok (tou_topic d) \<and>
     opt_ok (key_ok (sk_keys sk)) (tou_submitKey d) \<and>
     opt_ok (key_ok (sk_keys sk)) (tou_adminKey d) \<and>
     opt_ok account_ok (tou_autoRenewAccount d) \<and>
     opt_ok time_ok (tou_expiry d)"

definition topicUpdate_read :: "'k topic_update \<Rightarrow> 'k topic_update" where
  "topicUpdate_read d =
     d\<lparr>tou_topic := map_option topic_read (tou_topic d),
       tou_submitKey := map_option key_sent (tou_submitKey d),
       tou_adminKey := map_option key_sent (tou_adminKey d),
       tou_autoRenewAccount := map_option account_sent (tou_autoRenewAccount d)\<rparr>"

lemma topicUpdate_given_topic:
  "opt_ok topic_ok x \<Longrightarrow> when_given (topicUpdate_setTopicId sk) (map_option Inl x) (class_new s fee d) =
     Inr (class_new s fee (d\<lparr>tou_topic := or_else x (tou_topic d)\<rparr>))"
  by (cases x; cases d) (simp_all add: topicUpdate_setTopicId_def topic_copied)

lemma topicUpdate_given_memo:
  "when_given topicUpdate_setTopicMemo x (class_new s fee d) =
     Inr (class_new s fee (d\<lparr>tou_memo := or_else x (tou_memo d)\<rparr>))"
  by (cases x; cases d) (simp_all add: topicUpdate_setTopicMemo_def)

lemma topicUpdate_given_submitKey:
  "when_given topicUpdate_setSubmitKey x (class_new s fee d) =
     Inr (class_new s fee (d\<lparr>tou_submitKey := or_else x (tou_submitKey d)\<rparr>))"
  by (cases x; cases d) (simp_all add: topicUpdate_setSubmitKey_def)

lemma topicUpdate_given_adminKey:
  "when_given topicUpdate_setAdminKey x (class_new s fee d) =
     Inr (class_new s fee (d\<lparr>tou_adminKey := or_else x (tou_adminKey d)\<rparr>))"
  by (cases x; cases d) (simp_all add: topicUpdate_setAdminKey_def)

lemma topicUpdate_given_autoRenewAccount:
  "opt_ok account_ok x \<Longrightarrow> when_given (topicUpdate_setAutoRenewAccountId sk) (map_option Inl x)
      (class_new s fee d) =
     Inr (class_new s fee (d\<lparr>tou_autoRenewAccount := or_else x (tou_autoRenewAccount d)\<rparr>))"
  by (cases x; cases d) (simp_all add: topicUpdate_setAutoRenewAccountId_def arg_account_def)

lemma topicUpdate_given_autoRenewPeriod:
  "when_given topicUpdate_setAutoRenewPeriod x (class_new s fee d) =
     Inr (class_new s fee (d\<lparr>tou_autoRenewPeriod := or_else x (tou_autoRenewPeriod d)\<rparr>))"
  by (cases x; cases d) (simp_all add: topicUpdate_setAutoRenewPeriod_def)

lemma topicUpdate_given_expiry:
  "when_given topicUpdate_setExpirationTime (map_option Inl x) (class_new s fee d) =
     Inr (class_new s fee (d\<lparr>tou_expiry := or_else x (tou_expiry d)\<rparr>))"
  by (cases x; cases d) (simp_all add: topicUpdate_setExpirationTime_def)

lemmas topicUpdate_given = topicUpdate_given_topic topicUpdate_given_memo
    topicUpdate_given_submitKey topicUpdate_given_adminKey topicUpdate_given_autoRenewAccount
    topicUpdate_given_autoRenewPeriod topicUpdate_given_expiry

lemma topicUpdate_back:
  assumes "sdk_lawful sk" "topicUpdate_ok sk d"
  shows "\<exists>m. topicUpdate_makeTransactionData sk d = Inr m \<and>
    topicUpdate_fromProtobuf sk starts m = Inr (class_new starts 200000000 (topicUpdate_read d))"
proof -
  obtain submitKey where submitKey: "js_opt (key_toProtobuf (sk_keys sk)) (tou_submitKey d) = Inr submitKey"
    "key_of_message sk submitKey = Inr (map_option key_sent (tou_submitKey d))"
    using key_opt [OF assms(1)] assms(2) unfolding topicUpdate_ok_def by blast
  obtain adminKey where adminKey: "js_opt (key_toProtobuf (sk_keys sk)) (tou_adminKey d) = Inr adminKey"
    "key_of_message sk adminKey = Inr (map_option key_sent (tou_adminKey d))"
    using key_opt [OF assms(1)] assms(2) unfolding topicUpdate_ok_def by blast
  show ?thesis
    using assms(2) submitKey adminKey unfolding topicUpdate_ok_def
    by (cases d) (simp add: topicUpdate_makeTransactionData_def topicUpdate_fromProtobuf_def topicUpdate_new_def
      topicUpdate_given topicUpdate_blank_def topicUpdate_read_def account_opt [OF assms(1)]
      opt_account_sent topic_opt time_opt)
qed

record topic_delete =
  tod_topic :: "topic_id option"

record topic_delete_message =
  todm_topicID :: "id_message option"

definition topicDelete_blank :: "topic_delete" where
  "topicDelete_blank = \<lparr>tod_topic = None\<rparr>"

definition topicDelete_setTopicId ::
  "'k sdk \<Rightarrow> topic_arg \<Rightarrow> topic_delete class_tx \<Rightarrow> topic_delete class_tx js" where
  "topicDelete_setTopicId sk x = guarded (\<lambda>d. js_bind (copy_topic sk x) (\<lambda>y. Inr (d\<lparr>tod_topic :=
      Some y\<rparr>)))"

definition topicDelete_new ::
  "'k sdk \<Rightarrow> (nat \<Rightarrow> timestamp) \<Rightarrow> topic_arg option \<Rightarrow>
   topic_delete class_tx js" where
  "topicDelete_new sk starts topic =
     when_given (topicDelete_setTopicId sk) topic (class_new starts 200000000 topicDelete_blank)"

definition topicDelete_validateChecksums :: "'k sdk \<Rightarrow> ledger_id option \<Rightarrow> topic_delete \<Rightarrow> unit js" where
  "topicDelete_validateChecksums sk ledger d =
     check_topic sk ledger (tod_topic d)"

definition topicDelete_makeTransactionData ::
  "'k sdk \<Rightarrow> topic_delete \<Rightarrow> topic_delete_message js" where
  "topicDelete_makeTransactionData sk d =
     Inr \<lparr>todm_topicID = map_option topic_toProtobuf (tod_topic d)\<rparr>"

definition topicDelete_fromProtobuf ::
  "'k sdk \<Rightarrow> (nat \<Rightarrow> timestamp) \<Rightarrow> topic_delete_message \<Rightarrow> topic_delete class_tx js" where
  "topicDelete_fromProtobuf sk starts m =
     js_bind (js_opt topic_fromProtobuf (todm_topicID m)) (\<lambda>topic.
       topicDelete_new sk starts (map_option Inl topic))"

definition topicDelete_ok :: "topic_delete \<Rightarrow> bool" where
  "topicDelete_ok d \<longleftrightarrow>
     opt_ok topic_ok (tod_topic d)"

definition topicDelete_read :: "topic_delete \<Rightarrow> topic_delete" where
  "topicDelete_read d =
     d\<lparr>tod_topic := map_option topic_read (tod_topic d)\<rparr>"

lemma topicDelete_given_topic:
  "opt_ok topic_ok x \<Longrightarrow> when_given (topicDelete_setTopicId sk) (map_option Inl x) (class_new s fee d) =
     Inr (class_new s fee (d\<lparr>tod_topic := or_else x (tod_topic d)\<rparr>))"
  by (cases x; cases d) (simp_all add: topicDelete_setTopicId_def topic_copied)

lemmas topicDelete_given = topicDelete_given_topic

lemma topicDelete_back:
  assumes "sdk_lawful sk" "topicDelete_ok d"
  shows "\<exists>m. topicDelete_makeTransactionData sk d = Inr m \<and>
    topicDelete_fromProtobuf sk starts m = Inr (class_new starts 200000000 (topicDelete_read d))"
  using assms unfolding topicDelete_ok_def
  by (cases d) (simp add: topicDelete_makeTransactionData_def topicDelete_fromProtobuf_def topicDelete_new_def
      topicDelete_given topicDelete_blank_def topicDelete_read_def topic_opt)

end
