(* ===== verification/SystemTx.thy ===== *)
theory SystemTx
  imports ClassArgs
begin

text \<open>
  Transactions of the system and of schedules: \<open>system/SystemDeleteTransaction.js\<close>,
  \<open>SystemUndeleteTransaction.js\<close>, \<open>FreezeTransaction.js\<close>, \<open>FreezeType.js\<close>, \<open>PrngTransaction.js\<close>,
  \<open>schedule/ScheduleSignTransaction.js\<close>, \<open>ScheduleDeleteTransaction.js\<close> and
  \<open>ScheduleCreateTransaction.js\<close>.
\<close>

subsection \<open>Deleting and restoring files and contracts\<close>

record system_delete =
  syd_file :: "file_id option"
  syd_contract :: "contract_id option"
  syd_expiry :: "timestamp option"

record system_delete_message =
  sydm_fileID :: "id_message option"
  sydm_contractID :: "contract_message option"
  sydm_expirationTime :: "(long \<times> int) option"

definition systemDelete_blank :: "system_delete" where
  "systemDelete_blank = \<lparr>syd_file = None, syd_contract = None, syd_expiry = None\<rparr>"

definition systemDelete_setFileId ::
  "'k sdk \<Rightarrow> file_arg \<Rightarrow> system_delete class_tx \<Rightarrow> system_delete class_tx js" where
  "systemDelete_setFileId sk x = guarded (\<lambda>d. js_bind (parse_file sk x) (\<lambda>y. Inr (d\<lparr>syd_file := Some
      y\<rparr>)))"

definition systemDelete_setContractId ::
  "'k sdk \<Rightarrow> contract_arg \<Rightarrow> system_delete class_tx \<Rightarrow> system_delete class_tx js" where
  "systemDelete_setContractId sk x = guarded (\<lambda>d. js_bind (parse_contract sk x) (\<lambda>y. Inr
      (d\<lparr>syd_contract := Some y\<rparr>)))"

definition systemDelete_setExpirationTime ::
  "timestamp \<Rightarrow> system_delete class_tx \<Rightarrow> system_delete class_tx js" where
  "systemDelete_setExpirationTime x = guarded (\<lambda>d. Inr (d\<lparr>syd_expiry := Some x\<rparr>))"

definition systemDelete_new ::
  "'k sdk \<Rightarrow> (nat \<Rightarrow> timestamp) \<Rightarrow> file_arg option \<Rightarrow>
   contract_arg option \<Rightarrow> timestamp option \<Rightarrow> system_delete class_tx js" where
  "systemDelete_new sk starts file contract expiry =
     js_bind (when_given (systemDelete_setFileId sk) file (class_new starts 200000000
         systemDelete_blank)) (\<lambda>q.
     js_bind (when_given (systemDelete_setContractId sk) contract q) (\<lambda>q.
       when_given systemDelete_setExpirationTime expiry q))"

definition systemDelete_makeTransactionData ::
  "'k sdk \<Rightarrow> system_delete \<Rightarrow> system_delete_message js" where
  "systemDelete_makeTransactionData sk d =
     Inr \<lparr>sydm_fileID = map_option file_toProtobuf (syd_file d),
       sydm_contractID = map_option contract_toProtobuf (syd_contract d),
       sydm_expirationTime = map_option ts_toProtobuf (syd_expiry d)\<rparr>"

definition systemDelete_fromProtobuf ::
  "'k sdk \<Rightarrow> (nat \<Rightarrow> timestamp) \<Rightarrow> system_delete_message \<Rightarrow> system_delete class_tx js" where
  "systemDelete_fromProtobuf sk starts m =
     js_bind (js_opt (file_of_message sk) (sydm_fileID m)) (\<lambda>file.
     js_bind (js_opt contract_fromProtobuf (sydm_contractID m)) (\<lambda>contract.
       systemDelete_new sk starts (map_option Inl file) (map_option Inl contract) (map_option
           ts_fromProtobuf (sydm_expirationTime m))))"

text \<open>The method of the channel that \<open>_execute\<close> calls.\<close>

definition systemDelete_method :: "system_delete \<Rightarrow> string" where
  "systemDelete_method d = (if syd_file d \<noteq> None then ''file.systemDelete'' else
      ''smartContract.systemDelete'')"

definition systemDelete_ok :: "system_delete \<Rightarrow> bool" where
  "systemDelete_ok d \<longleftrightarrow>
     opt_ok file_ok (syd_file d) \<and>
     opt_ok contract_ok (syd_contract d) \<and>
     opt_ok time_ok (syd_expiry d)"

definition systemDelete_read :: "system_delete \<Rightarrow> system_delete" where
  "systemDelete_read d =
     d\<lparr>syd_file := map_option file_read (syd_file d),
       syd_contract := map_option contract_read (syd_contract d)\<rparr>"

lemma systemDelete_given_file:
  "opt_ok file_ok x \<Longrightarrow> when_given (systemDelete_setFileId sk) (map_option Inl x) (class_new s fee d) =
     Inr (class_new s fee (d\<lparr>syd_file := or_else x (syd_file d)\<rparr>))"
  by (cases x; cases d) (simp_all add: systemDelete_setFileId_def parse_file_def)

lemma systemDelete_given_contract:
  "opt_ok contract_ok x \<Longrightarrow> when_given (systemDelete_setContractId sk) (map_option Inl x) (class_new s
      fee d) =
     Inr (class_new s fee (d\<lparr>syd_contract := or_else x (syd_contract d)\<rparr>))"
  by (cases x; cases d) (simp_all add: systemDelete_setContractId_def parse_contract_def)

lemma systemDelete_given_expiry:
  "when_given systemDelete_setExpirationTime x (class_new s fee d) =
     Inr (class_new s fee (d\<lparr>syd_expiry := or_else x (syd_expiry d)\<rparr>))"
  by (cases x; cases d) (simp_all add: systemDelete_setExpirationTime_def)

lemmas systemDelete_given = systemDelete_given_file systemDelete_given_contract systemDelete_given_expiry

lemma systemDelete_back:
  assumes "sdk_lawful sk" "systemDelete_ok d"
  shows "\<exists>m. systemDelete_makeTransactionData sk d = Inr m \<and>
    systemDelete_fromProtobuf sk starts m = Inr (class_new starts 200000000 (systemDelete_read d))"
  using assms unfolding systemDelete_ok_def
  by (cases d) (simp add: systemDelete_makeTransactionData_def systemDelete_fromProtobuf_def
      systemDelete_new_def
      systemDelete_given systemDelete_blank_def systemDelete_read_def file_opt [OF assms(1)]
      time_opt contract_opt)

record system_undelete =
  syu_file :: "file_id option"
  syu_contract :: "contract_id option"

record system_undelete_message =
  syum_fileID :: "id_message option"
  syum_contractID :: "contract_message option"

definition systemUndelete_blank :: "system_undelete" where
  "systemUndelete_blank = \<lparr>syu_file = None, syu_contract = None\<rparr>"

definition systemUndelete_setFileId ::
  "'k sdk \<Rightarrow> file_arg \<Rightarrow> system_undelete class_tx \<Rightarrow> system_undelete class_tx js" where
  "systemUndelete_setFileId sk x = guarded (\<lambda>d. js_bind (parse_file sk x) (\<lambda>y. Inr (d\<lparr>syu_file :=
      Some y\<rparr>)))"

definition systemUndelete_setContractId ::
  "'k sdk \<Rightarrow> contract_arg \<Rightarrow> system_undelete class_tx \<Rightarrow> system_undelete class_tx js" where
  "systemUndelete_setContractId sk x = guarded (\<lambda>d. js_bind (parse_contract sk x) (\<lambda>y. Inr
      (d\<lparr>syu_contract := Some y\<rparr>)))"

definition systemUndelete_new ::
  "'k sdk \<Rightarrow> (nat \<Rightarrow> timestamp) \<Rightarrow> file_arg option \<Rightarrow>
   contract_arg option \<Rightarrow> system_undelete class_tx js" where
  "systemUndelete_new sk starts file contract =
     js_bind (when_given (systemUndelete_setFileId sk) file (class_new starts 200000000
         systemUndelete_blank)) (\<lambda>q.
       when_given (systemUndelete_setContractId sk) contract q)"

definition systemUndelete_makeTransactionData ::
  "'k sdk \<Rightarrow> system_undelete \<Rightarrow> system_undelete_message js" where
  "systemUndelete_makeTransactionData sk d =
     Inr \<lparr>syum_fileID = map_option file_toProtobuf (syu_file d),
       syum_contractID = map_option contract_toProtobuf (syu_contract d)\<rparr>"

definition systemUndelete_fromProtobuf ::
  "'k sdk \<Rightarrow> (nat \<Rightarrow> timestamp) \<Rightarrow> system_undelete_message \<Rightarrow> system_undelete class_tx js" where
  "systemUndelete_fromProtobuf sk starts m =
     js_bind (js_opt (file_of_message sk) (syum_fileID m)) (\<lambda>file.
     js_bind (js_opt contract_fromProtobuf (syum_contractID m)) (\<lambda>contract.
       systemUndelete_new sk starts (map_option Inl file) (map_option Inl contract)))"

definition systemUndelete_method :: "system_undelete \<Rightarrow> string" where
  "systemUndelete_method d =
     (if syu_file d \<noteq> None then ''file.systemUndelete'' else ''smartContract.systemUndelete'')"

definition systemUndelete_ok :: "system_undelete \<Rightarrow> bool" where
  "systemUndelete_ok d \<longleftrightarrow>
     opt_ok file_ok (syu_file d) \<and>
     opt_ok contract_ok (syu_contract d)"

definition systemUndelete_read :: "system_undelete \<Rightarrow> system_undelete" where
  "systemUndelete_read d =
     d\<lparr>syu_file := map_option file_read (syu_file d),
       syu_contract := map_option contract_read (syu_contract d)\<rparr>"

lemma systemUndelete_given_file:
  "opt_ok file_ok x \<Longrightarrow> when_given (systemUndelete_setFileId sk) (map_option Inl x) (class_new s fee d) =
     Inr (class_new s fee (d\<lparr>syu_file := or_else x (syu_file d)\<rparr>))"
  by (cases x; cases d) (simp_all add: systemUndelete_setFileId_def parse_file_def)

lemma systemUndelete_given_contract:
  "opt_ok contract_ok x \<Longrightarrow> when_given (systemUndelete_setContractId sk) (map_option Inl x) (class_new
      s fee d) =
     Inr (class_new s fee (d\<lparr>syu_contract := or_else x (syu_contract d)\<rparr>))"
  by (cases x; cases d) (simp_all add: systemUndelete_setContractId_def parse_contract_def)

lemmas systemUndelete_given = systemUndelete_given_file systemUndelete_given_contract

lemma systemUndelete_back:
  assumes "sdk_lawful sk" "systemUndelete_ok d"
  shows "\<exists>m. systemUndelete_makeTransactionData sk d = Inr m \<and>
    systemUndelete_fromProtobuf sk starts m = Inr (class_new starts 200000000 (systemUndelete_read d))"
  using assms unfolding systemUndelete_ok_def
  by (cases d) (simp add: systemUndelete_makeTransactionData_def systemUndelete_fromProtobuf_def
      systemUndelete_new_def systemUndelete_given systemUndelete_blank_def systemUndelete_read_def
      file_opt [OF assms(1)] contract_opt)

subsection \<open>Freezing the network\<close>

datatype freeze_type = UnknownFreezeType | FreezeOnly | PrepareUpgrade | FreezeUpgrade | FreezeAbort
    | TelemetryUpgrade

definition freezeType_code :: "freeze_type \<Rightarrow> nat" where
  "freezeType_code t =
     (case t of UnknownFreezeType \<Rightarrow> 0 | FreezeOnly \<Rightarrow> 1 | PrepareUpgrade \<Rightarrow> 2 | FreezeUpgrade \<Rightarrow> 3
      | FreezeAbort \<Rightarrow> 4 | TelemetryUpgrade \<Rightarrow> 5)"

definition freezeType_fromCode :: "nat \<Rightarrow> freeze_type js" where
  "freezeType_fromCode c =
     (if c = 0 then Inr UnknownFreezeType else if c = 1 then Inr FreezeOnly
      else if c = 2 then Inr PrepareUpgrade else if c = 3 then Inr FreezeUpgrade
      else if c = 4 then Inr FreezeAbort else if c = 5 then Inr TelemetryUpgrade else Inl (BadStatus c))"

lemma freeze_types_received [simp]:
  "js_opt freezeType_fromCode (map_option freezeType_code x) = Inr x"
  by (cases x; simp add: freezeType_fromCode_def freezeType_code_def split: freeze_type.split)

definition arg_hash :: "bytes + string \<Rightarrow> bytes" where
  "arg_hash a = (case a of Inl b \<Rightarrow> b | Inr t \<Rightarrow> hex_decode t)"

lemma arg_hash_Inl [simp]: "arg_hash (Inl b) = b"
  by (simp add: arg_hash_def)

text \<open>An hour and a minute are numbers, \<open>None\<close> standing for \<open>NaN\<close>; they are read when both are there.\<close>

definition hour_and_minute :: "int option \<Rightarrow> int option \<Rightarrow> (rat option \<times> rat option) option" where
  "hour_and_minute h i =
     (case (h, i) of (Some h, Some i) \<Rightarrow> Some (Some (of_int h), Some (of_int i)) | _ \<Rightarrow> None)"

record freeze_data =
  frz_startTime :: "(rat option \<times> rat option) option"
  frz_endTime :: "(rat option \<times> rat option) option"
  frz_startTimestamp :: "timestamp option"
  frz_file :: "file_id option"
  frz_fileHash :: "bytes option"
  frz_freezeType :: "freeze_type option"

record freeze_data_message =
  frzm_startHour :: "int option"
  frzm_endHour :: "int option"
  frzm_startTime :: "(long \<times> int) option"
  frzm_updateFile :: "id_message option"
  frzm_fileHash :: "bytes option"
  frzm_freezeType :: "nat option"
  frzm_startMin :: "int option"
  frzm_endMin :: "int option"

definition freeze_blank :: "freeze_data" where
  "freeze_blank = \<lparr>frz_startTime = None, frz_endTime = None, frz_startTimestamp = None, frz_file =
      None, frz_fileHash = None, frz_freezeType = None\<rparr>"

definition freeze_setStartTime ::
  "rat option \<times> rat option \<Rightarrow> freeze_data class_tx \<Rightarrow> freeze_data class_tx js" where
  "freeze_setStartTime x = guarded (\<lambda>d. Inr (d\<lparr>frz_startTime := Some x\<rparr>))"

definition freeze_setEndTime ::
  "rat option \<times> rat option \<Rightarrow> freeze_data class_tx \<Rightarrow> freeze_data class_tx js" where
  "freeze_setEndTime x = guarded (\<lambda>d. Inr (d\<lparr>frz_endTime := Some x\<rparr>))"

definition freeze_setStartTimestamp ::
  "timestamp \<Rightarrow> freeze_data class_tx \<Rightarrow> freeze_data class_tx js" where
  "freeze_setStartTimestamp x = guarded (\<lambda>d. Inr (d\<lparr>frz_startTimestamp := Some x\<rparr>))"

definition freeze_setFileId ::
  "file_id \<Rightarrow> freeze_data class_tx \<Rightarrow> freeze_data class_tx js" where
  "freeze_setFileId x = guarded (\<lambda>d. Inr (d\<lparr>frz_file := Some x\<rparr>))"

definition freeze_setFileHash ::
  "bytes + string \<Rightarrow> freeze_data class_tx \<Rightarrow> freeze_data class_tx js" where
  "freeze_setFileHash x = guarded (\<lambda>d. Inr (d\<lparr>frz_fileHash := Some (arg_hash x)\<rparr>))"

definition freeze_setFreezeType ::
  "freeze_type \<Rightarrow> freeze_data class_tx \<Rightarrow> freeze_data class_tx js" where
  "freeze_setFreezeType x = guarded (\<lambda>d. Inr (d\<lparr>frz_freezeType := Some x\<rparr>))"

text \<open>A time given as a text is split at its colon; \<open>number\<close> is the function \<open>Number\<close>.\<close>

definition text_hours :: "(string \<Rightarrow> rat option) \<Rightarrow> string \<Rightarrow> rat option \<times> rat option" where
  "text_hours number t =
     (case js_split CHR '':'' t of
        h # i # _ \<Rightarrow> (number h, number i) | [h] \<Rightarrow> (number h, None) | [] \<Rightarrow> (None, None))"

definition freeze_setStartTimeText ::
  "(string \<Rightarrow> rat option) \<Rightarrow> string \<Rightarrow> freeze_data class_tx \<Rightarrow> freeze_data class_tx js" where
  "freeze_setStartTimeText number t = freeze_setStartTime (text_hours number t)"

definition freeze_setEndTimeText ::
  "(string \<Rightarrow> rat option) \<Rightarrow> string \<Rightarrow> freeze_data class_tx \<Rightarrow> freeze_data class_tx js" where
  "freeze_setEndTimeText number t = freeze_setEndTime (text_hours number t)"

definition freeze_setUpdateFileId :: "file_id \<Rightarrow> freeze_data class_tx \<Rightarrow> freeze_data class_tx js" where
  "freeze_setUpdateFileId = freeze_setFileId"

definition freeze_new ::
  "'k sdk \<Rightarrow> (nat \<Rightarrow> timestamp) \<Rightarrow>
   (rat option \<times> rat option) option \<Rightarrow> (rat option \<times> rat option) option \<Rightarrow>
   timestamp option \<Rightarrow> file_id option \<Rightarrow> file_id option \<Rightarrow> (bytes + string) option \<Rightarrow>
   freeze_type option \<Rightarrow> freeze_data class_tx js" where
  "freeze_new sk starts startTime endTime startTimestamp updateFile file fileHash freezeType =
     js_bind (when_given freeze_setStartTime startTime (class_new starts 200000000 freeze_blank)) (\<lambda>q.
     js_bind (when_given freeze_setEndTime endTime q) (\<lambda>q.
     js_bind (when_given freeze_setStartTimestamp startTimestamp q) (\<lambda>q.
     js_bind (when_given freeze_setUpdateFileId updateFile q) (\<lambda>q.
     js_bind (when_given freeze_setFileId file q) (\<lambda>q.
     js_bind (when_given freeze_setFileHash fileHash q) (\<lambda>q.
       when_given freeze_setFreezeType freezeType q))))))"

definition freeze_makeTransactionData ::
  "'k sdk \<Rightarrow> freeze_data \<Rightarrow> freeze_data_message js" where
  "freeze_makeTransactionData sk d =
     Inr \<lparr>frzm_startHour = None,
       frzm_endHour = None,
       frzm_startTime = map_option ts_toProtobuf (frz_startTimestamp d),
       frzm_updateFile = map_option file_toProtobuf (frz_file d),
       frzm_fileHash = frz_fileHash d,
       frzm_freezeType = map_option freezeType_code (frz_freezeType d),
       frzm_startMin = None,
       frzm_endMin = None\<rparr>"

definition freeze_fromProtobuf ::
  "'k sdk \<Rightarrow> (nat \<Rightarrow> timestamp) \<Rightarrow> freeze_data_message \<Rightarrow> freeze_data class_tx js" where
  "freeze_fromProtobuf sk starts m =
     js_bind (js_opt (file_of_message sk) (frzm_updateFile m)) (\<lambda>file.
     js_bind (js_opt freezeType_fromCode (frzm_freezeType m)) (\<lambda>freezeType.
       freeze_new sk starts (hour_and_minute (frzm_startHour m) (frzm_startMin m)) (hour_and_minute
           (frzm_endHour m) (frzm_endMin m)) (map_option ts_fromProtobuf (frzm_startTime m)) file None
         (map_option Inl (frzm_fileHash m)) freezeType))"

definition freeze_ok :: "freeze_data \<Rightarrow> bool" where
  "freeze_ok d \<longleftrightarrow>
     opt_ok time_ok (frz_startTimestamp d) \<and>
     opt_ok file_ok (frz_file d)"

definition freeze_read :: "freeze_data \<Rightarrow> freeze_data" where
  "freeze_read d =
     d\<lparr>frz_startTime := None,
       frz_endTime := None,
       frz_file := map_option file_read (frz_file d)\<rparr>"

lemma freeze_given_startTime:
  "when_given freeze_setStartTime x (class_new s fee d) =
     Inr (class_new s fee (d\<lparr>frz_startTime := or_else x (frz_startTime d)\<rparr>))"
  by (cases x; cases d) (simp_all add: freeze_setStartTime_def)

lemma freeze_given_endTime:
  "when_given freeze_setEndTime x (class_new s fee d) =
     Inr (class_new s fee (d\<lparr>frz_endTime := or_else x (frz_endTime d)\<rparr>))"
  by (cases x; cases d) (simp_all add: freeze_setEndTime_def)

lemma freeze_given_startTimestamp:
  "when_given freeze_setStartTimestamp x (class_new s fee d) =
     Inr (class_new s fee (d\<lparr>frz_startTimestamp := or_else x (frz_startTimestamp d)\<rparr>))"
  by (cases x; cases d) (simp_all add: freeze_setStartTimestamp_def)

lemma freeze_given_file:
  "when_given freeze_setFileId x (class_new s fee d) =
     Inr (class_new s fee (d\<lparr>frz_file := or_else x (frz_file d)\<rparr>))"
  by (cases x; cases d) (simp_all add: freeze_setFileId_def)

lemma freeze_given_fileHash:
  "when_given freeze_setFileHash (map_option Inl x) (class_new s fee d) =
     Inr (class_new s fee (d\<lparr>frz_fileHash := or_else x (frz_fileHash d)\<rparr>))"
  by (cases x; cases d) (simp_all add: freeze_setFileHash_def)

lemma freeze_given_freezeType:
  "when_given freeze_setFreezeType x (class_new s fee d) =
     Inr (class_new s fee (d\<lparr>frz_freezeType := or_else x (frz_freezeType d)\<rparr>))"
  by (cases x; cases d) (simp_all add: freeze_setFreezeType_def)

lemmas freeze_given = freeze_given_startTime freeze_given_endTime freeze_given_startTimestamp
    freeze_given_file freeze_given_fileHash freeze_given_freezeType

lemma freeze_back:
  assumes "sdk_lawful sk" "freeze_ok d"
  shows "\<exists>m. freeze_makeTransactionData sk d = Inr m \<and>
    freeze_fromProtobuf sk starts m = Inr (class_new starts 200000000 (freeze_read d))"
  using assms unfolding freeze_ok_def
  by (cases d) (simp add: freeze_makeTransactionData_def freeze_fromProtobuf_def freeze_new_def
      freeze_setUpdateFileId_def hour_and_minute_def freeze_given
      freeze_blank_def freeze_read_def file_opt [OF assms(1)] time_opt)

subsection \<open>Random numbers\<close>

record prng =
  rng_newRange :: "int option"

record prng_message =
  rngm_range :: "int option"

definition prng_blank :: "prng" where
  "prng_blank = \<lparr>rng_newRange = None\<rparr>"

definition prng_setRange ::
  "int \<Rightarrow> prng class_tx \<Rightarrow> prng class_tx js" where
  "prng_setRange x = unguarded (\<lambda>d. Inr (d\<lparr>rng_newRange := Some x\<rparr>))"

definition prng_new ::
  "(nat \<Rightarrow> timestamp) \<Rightarrow> int option \<Rightarrow> prng class_tx js" where
  "prng_new starts newRange =
     when_given prng_setRange newRange (class_new starts 200000000 prng_blank)"

definition prng_makeTransactionData ::
  "prng \<Rightarrow> prng_message js" where
  "prng_makeTransactionData d =
     Inr \<lparr>rngm_range = rng_newRange d\<rparr>"

definition prng_fromProtobuf ::
  "(nat \<Rightarrow> timestamp) \<Rightarrow> prng_message \<Rightarrow> prng class_tx js" where
  "prng_fromProtobuf starts m =
       prng_new starts (rngm_range m)"

text \<open>The check of a range calls itself; \<open>None\<close> is a run without end.\<close>

partial_function (option) prng_validateChecksums :: "prng \<Rightarrow> unit option" where
  "prng_validateChecksums d = (if rng_newRange d \<noteq> None then prng_validateChecksums d else Some ())"

lemma prng_given_newRange:
  "when_given prng_setRange x (class_new s fee d) =
     Inr (class_new s fee (d\<lparr>rng_newRange := or_else x (rng_newRange d)\<rparr>))"
  by (cases x; cases d) (simp_all add: prng_setRange_def)

lemmas prng_given = prng_given_newRange

lemma prng_back:
  "\<exists>m. prng_makeTransactionData d = Inr m \<and>
    prng_fromProtobuf starts m = Inr (class_new starts 200000000 d)"
  by (cases d) (simp add: prng_makeTransactionData_def prng_fromProtobuf_def prng_new_def prng_given
      prng_blank_def)

subsection \<open>Signing and deleting a schedule\<close>

record schedule_only =
  so_schedule :: "schedule_id option"

record schedule_only_message =
  som_scheduleID :: "id_message option"

definition scheduleDelete_blank :: "schedule_only" where
  "scheduleDelete_blank = \<lparr>so_schedule = None\<rparr>"

definition scheduleDelete_setScheduleId ::
  "'k sdk \<Rightarrow> schedule_arg \<Rightarrow> schedule_only class_tx \<Rightarrow> schedule_only class_tx js" where
  "scheduleDelete_setScheduleId sk x = guarded (\<lambda>d. js_bind (copy_schedule sk x) (\<lambda>y. Inr
      (d\<lparr>so_schedule := Some y\<rparr>)))"

definition scheduleDelete_new ::
  "'k sdk \<Rightarrow> (nat \<Rightarrow> timestamp) \<Rightarrow> schedule_arg option \<Rightarrow>
   schedule_only class_tx js" where
  "scheduleDelete_new sk starts schedule =
     when_given (scheduleDelete_setScheduleId sk) schedule (class_new starts 500000000 scheduleDelete_blank)"

definition scheduleDelete_validateChecksums :: "'k sdk \<Rightarrow> ledger_id option \<Rightarrow> schedule_only \<Rightarrow> unit js"
    where
  "scheduleDelete_validateChecksums sk ledger d =
     check_schedule sk ledger (so_schedule d)"

definition scheduleDelete_makeTransactionData ::
  "'k sdk \<Rightarrow> schedule_only \<Rightarrow> schedule_only_message js" where
  "scheduleDelete_makeTransactionData sk d =
     Inr \<lparr>som_scheduleID = map_option schedule_toProtobuf (so_schedule d)\<rparr>"

definition scheduleDelete_fromProtobuf ::
  "'k sdk \<Rightarrow> (nat \<Rightarrow> timestamp) \<Rightarrow> schedule_only_message \<Rightarrow> schedule_only class_tx js" where
  "scheduleDelete_fromProtobuf sk starts m =
     js_bind (js_opt schedule_fromProtobuf (som_scheduleID m)) (\<lambda>schedule.
       scheduleDelete_new sk starts (map_option Inl schedule))"

definition scheduleDelete_ok :: "schedule_only \<Rightarrow> bool" where
  "scheduleDelete_ok d \<longleftrightarrow>
     opt_ok schedule_ok (so_schedule d)"

definition scheduleDelete_read :: "schedule_only \<Rightarrow> schedule_only" where
  "scheduleDelete_read d =
     d\<lparr>so_schedule := map_option schedule_read (so_schedule d)\<rparr>"

lemma scheduleDelete_given_schedule:
  "opt_ok schedule_ok x \<Longrightarrow> when_given (scheduleDelete_setScheduleId sk) (map_option Inl x) (class_new
      s fee d) =
     Inr (class_new s fee (d\<lparr>so_schedule := or_else x (so_schedule d)\<rparr>))"
  by (cases x; cases d) (simp_all add: scheduleDelete_setScheduleId_def schedule_copied)

lemmas scheduleDelete_given = scheduleDelete_given_schedule

lemma scheduleDelete_back:
  assumes "sdk_lawful sk" "scheduleDelete_ok d"
  shows "\<exists>m. scheduleDelete_makeTransactionData sk d = Inr m \<and>
    scheduleDelete_fromProtobuf sk starts m = Inr (class_new starts 500000000 (scheduleDelete_read d))"
  using assms unfolding scheduleDelete_ok_def
  by (cases d) (simp add: scheduleDelete_makeTransactionData_def scheduleDelete_fromProtobuf_def
      scheduleDelete_new_def scheduleDelete_given scheduleDelete_blank_def scheduleDelete_read_def
      schedule_opt)

definition scheduleSign_blank :: "schedule_only" where
  "scheduleSign_blank = \<lparr>so_schedule = None\<rparr>"

definition scheduleSign_setScheduleId ::
  "'k sdk \<Rightarrow> schedule_arg \<Rightarrow> schedule_only class_tx \<Rightarrow> schedule_only class_tx js" where
  "scheduleSign_setScheduleId sk x = guarded (\<lambda>d. js_bind (copy_schedule sk x) (\<lambda>y. Inr
      (d\<lparr>so_schedule := Some y\<rparr>)))"

definition scheduleSign_new ::
  "'k sdk \<Rightarrow> (nat \<Rightarrow> timestamp) \<Rightarrow> schedule_arg option \<Rightarrow>
   schedule_only class_tx js" where
  "scheduleSign_new sk starts schedule =
     when_given (scheduleSign_setScheduleId sk) schedule (class_new starts 500000000 scheduleSign_blank)"

definition scheduleSign_validateChecksums :: "'k sdk \<Rightarrow> ledger_id option \<Rightarrow> schedule_only \<Rightarrow> unit js" where
  "scheduleSign_validateChecksums sk ledger d =
     check_schedule sk ledger (so_schedule d)"

definition scheduleSign_makeTransactionData ::
  "'k sdk \<Rightarrow> schedule_only \<Rightarrow> schedule_only_message js" where
  "scheduleSign_makeTransactionData sk d =
     Inr \<lparr>som_scheduleID = map_option schedule_toProtobuf (so_schedule d)\<rparr>"

definition scheduleSign_fromProtobuf ::
  "'k sdk \<Rightarrow> (nat \<Rightarrow> timestamp) \<Rightarrow> schedule_only_message \<Rightarrow> schedule_only class_tx js" where
  "scheduleSign_fromProtobuf sk starts m =
     js_bind (js_opt schedule_fromProtobuf (som_scheduleID m)) (\<lambda>schedule.
       scheduleSign_new sk starts (map_option Inl schedule))"

lemma scheduleSign_given_schedule:
  "opt_ok schedule_ok x \<Longrightarrow> when_given (scheduleSign_setScheduleId sk) (map_option Inl x) (class_new s
      fee d) =
     Inr (class_new s fee (d\<lparr>so_schedule := or_else x (so_schedule d)\<rparr>))"
  by (cases x; cases d) (simp_all add: scheduleSign_setScheduleId_def schedule_copied)

lemmas scheduleSign_given = scheduleSign_given_schedule

lemma scheduleSign_back:
  assumes "sdk_lawful sk" "scheduleDelete_ok d"
  shows "\<exists>m. scheduleSign_makeTransactionData sk d = Inr m \<and>
    scheduleSign_fromProtobuf sk starts m = Inr (class_new starts 500000000 (scheduleDelete_read d))"
  using assms unfolding scheduleDelete_ok_def
  by (cases d) (simp add: scheduleSign_makeTransactionData_def scheduleSign_fromProtobuf_def
      scheduleSign_new_def
      scheduleSign_given scheduleSign_blank_def scheduleDelete_read_def schedule_opt)

subsection \<open>Making a schedule\<close>

text \<open>
  The transaction to be scheduled is any transaction; \<open>mkdata\<close> is its \<open>_makeTransactionData\<close> and
  \<open>reread\<close> stands for reading the transaction from the bytes of its body.
\<close>

record ('k, 'm) schedule_create =
  sch_adminKey :: "'k key option"
  sch_scheduled :: "'m transaction_scheme option"
  sch_payer :: "'k account_id option"
  sch_memo :: "string option"
  sch_expiry :: "timestamp option"
  sch_wait :: "bool option"

record 'b scheduled_body =
  sb_memo :: string
  sb_fee :: long
  sb_data :: 'b

record 'b schedule_create_message =
  schm_adminKey :: "key_message option"
  schm_payer :: "account_message option"
  schm_body :: "'b scheduled_body option"
  schm_memo :: "string option"
  schm_wait :: "bool option"
  schm_expiry :: "(long \<times> int) option"

definition tx_getScheduledTransactionBody ::
  "('m transaction_scheme \<Rightarrow> 'b js) \<Rightarrow> 'm transaction_scheme \<Rightarrow> 'b scheduled_body js" where
  "tx_getScheduledTransactionBody mkdata t =
     js_bind (mkdata t) (\<lambda>b.
       Inr \<lparr>sb_memo = tx_memo t,
            sb_fee = u2u_toTiny (case tx_maxFee t of None \<Rightarrow> tx_defaultMaxFee t | Some f \<Rightarrow> f),
            sb_data = b\<rparr>)"

definition scheduleCreate_blank :: "('k, 'm) schedule_create" where
  "scheduleCreate_blank = \<lparr>sch_adminKey = None, sch_scheduled = None, sch_payer = None, sch_memo = None,
     sch_expiry = None, sch_wait = None\<rparr>"

definition scheduleCreate_setAdminKey ::
  "'k key \<Rightarrow> ('k, 'm) schedule_create class_tx \<Rightarrow> ('k, 'm) schedule_create class_tx js" where
  "scheduleCreate_setAdminKey x = guarded (\<lambda>d. Inr (d\<lparr>sch_adminKey := Some x\<rparr>))"

definition scheduleCreate_setPayerAccountId ::
  "'k account_id \<Rightarrow> ('k, 'm) schedule_create class_tx \<Rightarrow> ('k, 'm) schedule_create class_tx js" where
  "scheduleCreate_setPayerAccountId x = guarded (\<lambda>d. Inr (d\<lparr>sch_payer := Some x\<rparr>))"

definition scheduleCreate_setScheduleMemo ::
  "string \<Rightarrow> ('k, 'm) schedule_create class_tx \<Rightarrow> ('k, 'm) schedule_create class_tx js" where
  "scheduleCreate_setScheduleMemo x = guarded (\<lambda>d. Inr (d\<lparr>sch_memo := Some x\<rparr>))"

definition scheduleCreate_setScheduledTransaction_any ::
  "'m transaction_scheme \<Rightarrow> ('k, 'm) schedule_create class_tx \<Rightarrow> ('k, 'm) schedule_create class_tx" where
  "scheduleCreate_setScheduledTransaction_any t q = q\<lparr>ct_data := (ct_data q)\<lparr>sch_scheduled := Some t\<rparr>\<rparr>"

text \<open>\<open>schedule\<close> of a transaction makes a new schedule that holds it.\<close>

definition tx_schedule ::
  "(nat \<Rightarrow> timestamp) \<Rightarrow> 'm transaction_scheme \<Rightarrow> ('k, 'm) schedule_create class_tx js" where
  "tx_schedule starts t =
     js_bind (tx_requireNotFrozen t) (\<lambda>_.
       Inr (scheduleCreate_setScheduledTransaction_any t (class_new starts 500000000 scheduleCreate_blank)))"

definition scheduleCreate_setScheduledTransaction ::
  "(nat \<Rightarrow> timestamp) \<Rightarrow> 'm transaction_scheme \<Rightarrow> ('k, 'm) schedule_create class_tx \<Rightarrow>
   ('k, 'm) schedule_create class_tx js" where
  "scheduleCreate_setScheduledTransaction starts t q =
     js_bind (tx_requireNotFrozen q) (\<lambda>_.
     js_bind (tx_requireNotFrozen t) (\<lambda>_.
     js_bind (tx_schedule starts t) (\<lambda>s.
       Inr (q\<lparr>ct_data := (ct_data q)\<lparr>sch_scheduled := sch_scheduled (ct_data (s :: ('k, 'm)
           schedule_create class_tx))\<rparr>\<rparr>))))"

text \<open>The field is set before the guard is called.\<close>

definition scheduleCreate_setExpirationTime ::
  "timestamp \<Rightarrow> ('k, 'm) schedule_create class_tx \<Rightarrow> unit js \<times> ('k, 'm) schedule_create class_tx" where
  "scheduleCreate_setExpirationTime x q =
     (let q = q\<lparr>ct_data := (ct_data q)\<lparr>sch_expiry := Some x\<rparr>\<rparr> in (tx_requireNotFrozen q, q))"

definition scheduleCreate_setWaitForExpiry ::
  "bool \<Rightarrow> ('k, 'm) schedule_create class_tx \<Rightarrow> unit js \<times> ('k, 'm) schedule_create class_tx" where
  "scheduleCreate_setWaitForExpiry x q =
     (let q = q\<lparr>ct_data := (ct_data q)\<lparr>sch_wait := Some x\<rparr>\<rparr> in (tx_requireNotFrozen q, q))"

definition scheduleCreate_getScheduleMemo :: "('k, 'm) schedule_create class_tx \<Rightarrow> string option js"
    where
  "scheduleCreate_getScheduleMemo q = js_bind (tx_requireNotFrozen q) (\<lambda>_. Inr (sch_memo (ct_data q)))"

text \<open>The constructor does not look at the last two properties.\<close>

definition scheduleCreate_new ::
  "(nat \<Rightarrow> timestamp) \<Rightarrow> 'k key option \<Rightarrow> 'k account_id option \<Rightarrow> string option \<Rightarrow> bool option \<Rightarrow>
   timestamp option \<Rightarrow> ('k, 'm) schedule_create class_tx js" where
  "scheduleCreate_new starts adminKey payer memo waitForExpiry expirationTime =
     js_bind (when_given scheduleCreate_setAdminKey adminKey (class_new starts 500000000
         scheduleCreate_blank)) (\<lambda>q.
     js_bind (when_given scheduleCreate_setPayerAccountId payer q) (\<lambda>q.
       when_given scheduleCreate_setScheduleMemo memo q))"

definition scheduleCreate_validateChecksums :: "'k sdk \<Rightarrow> ledger_id option \<Rightarrow> ('k, 'm) schedule_create
    \<Rightarrow> unit js" where
  "scheduleCreate_validateChecksums sk ledger d = check_account sk ledger (sch_payer d)"

definition scheduleCreate_makeTransactionData ::
  "'k sdk \<Rightarrow> ('m transaction_scheme \<Rightarrow> 'b js) \<Rightarrow> ('k, 'm) schedule_create \<Rightarrow> 'b schedule_create_message
      js" where
  "scheduleCreate_makeTransactionData sk mkdata d =
     js_bind (js_opt (key_toProtobuf (sk_keys sk)) (sch_adminKey d)) (\<lambda>adminKey.
     js_bind (js_opt (tx_getScheduledTransactionBody mkdata) (sch_scheduled d)) (\<lambda>body.
       Inr \<lparr>schm_adminKey = adminKey,
            schm_payer = map_option (account_message_of sk) (sch_payer d),
            schm_body = body,
            schm_memo = sch_memo d,
            schm_wait = sch_wait d,
            schm_expiry = map_option ts_toProtobuf (sch_expiry d)\<rparr>))"

definition scheduleCreate_fromProtobuf ::
  "'k sdk \<Rightarrow> (nat \<Rightarrow> timestamp) \<Rightarrow> ('b scheduled_body \<Rightarrow> 'm transaction_scheme js) \<Rightarrow>
   'b schedule_create_message \<Rightarrow> ('k, 'm) schedule_create class_tx js" where
  "scheduleCreate_fromProtobuf sk starts reread m =
     js_bind (key_of_message sk (schm_adminKey m)) (\<lambda>adminKey.
     js_bind (js_opt (account_of_message sk) (schm_payer m)) (\<lambda>payer.
     js_bind (scheduleCreate_new starts adminKey payer (schm_memo m) (schm_wait m)
         (map_option ts_fromProtobuf (schm_expiry m))) (\<lambda>q.
     js_bind (case schm_body m of None \<Rightarrow> Inl TypeErr | Some b \<Rightarrow> reread b) (\<lambda>t.
       Inr (scheduleCreate_setScheduledTransaction_any t q)))))"

definition scheduleCreate_ok :: "'k sdk \<Rightarrow> ('k, 'm) schedule_create \<Rightarrow> bool" where
  "scheduleCreate_ok sk d \<longleftrightarrow> opt_ok (key_ok (sk_keys sk)) (sch_adminKey d) \<and> opt_ok account_ok
      (sch_payer d)"

lemma scheduleCreate_back:
  assumes "sdk_lawful sk" "scheduleCreate_ok sk d" "sch_scheduled d = Some t"
    and "tx_getScheduledTransactionBody mkdata t = Inr b" "reread b = Inr t'"
  shows "\<exists>m. scheduleCreate_makeTransactionData sk mkdata d = Inr m \<and>
    scheduleCreate_fromProtobuf sk starts reread m = Inr (class_new starts 500000000
      \<lparr>sch_adminKey = map_option key_sent (sch_adminKey d), sch_scheduled = Some t',
       sch_payer = map_option account_sent (sch_payer d), sch_memo = sch_memo d, sch_expiry = None,
           sch_wait = None\<rparr>)"
proof -
  obtain k where k: "js_opt (key_toProtobuf (sk_keys sk)) (sch_adminKey d) = Inr k"
    "key_of_message sk k = Inr (map_option key_sent (sch_adminKey d))"
    using key_opt [OF assms(1)] assms(2) unfolding scheduleCreate_ok_def by blast
  have n: "scheduleCreate_new starts a p s w e = Inr (class_new starts 500000000
      \<lparr>sch_adminKey = a, sch_scheduled = None, sch_payer = p, sch_memo = s, sch_expiry = None,
          sch_wait = None\<rparr>)"
    for a p s w e
    by (cases a; cases p; cases s) (simp_all add: scheduleCreate_new_def scheduleCreate_setAdminKey_def
      scheduleCreate_setPayerAccountId_def scheduleCreate_setScheduleMemo_def scheduleCreate_blank_def)
  show ?thesis using assms k
    by (cases d) (simp add: scheduleCreate_makeTransactionData_def scheduleCreate_fromProtobuf_def n
      account_opt [OF assms(1)] scheduleCreate_ok_def scheduleCreate_setScheduledTransaction_any_def)
qed

subsection \<open>Checks and setters\<close>

lemma prng_never_returns: "prng_validateChecksums d = Some u \<Longrightarrow> rng_newRange d = None"
proof (rule prng_validateChecksums.raw_induct [where P = "\<lambda>d u. rng_newRange d = None"])
  fix f :: "prng \<Rightarrow> unit option" and d u
  assume "\<And>d u. f d = Some u \<Longrightarrow> rng_newRange d = None"
    and "(if rng_newRange d \<noteq> None then f d else Some ()) = Some u"
  then show "rng_newRange d = None" by (auto split: if_splits)
qed

text \<open>
  C26. The check of a request for a random number never ends when a range is given, for it
  calls itself; without a range it passes.
\<close>

theorem prng_check_without_end:
  "prng_validateChecksums d = (if rng_newRange d = None then Some () else None)"
proof (cases "rng_newRange d")
  case None
  then show ?thesis by (subst prng_validateChecksums.simps) simp
next
  case (Some n)
  then show ?thesis using prng_never_returns by (cases "prng_validateChecksums d") auto
qed



end
