(* ===== verification/Registry.thy ===== *)
theory Registry
  imports TokenTx TokenAdmin AccountTx Allowances ContractTx FileTx SystemTx
begin

text \<open>
  The classes of transactions together: their data as one type, with the methods of each class,
  and \<open>TRANSACTION_REGISTRY\<close>, by which \<open>Transaction.fromBytes\<close> finds the class of a body.  The
  transfers and the chunked classes have states of their own and are not among them
  (\<open>TransferData\<close>, \<open>Chunks\<close>); a schedule holds another transaction (\<open>SystemTx\<close>).
\<close>

subsection \<open>Data and messages of all classes\<close>

datatype (plugins only: code) 'k class_data =
    TokenCreateData "'k token_create"
  | TokenUpdateData "'k token_update"
  | TokenDeleteData token_only
  | TokenPauseData token_only
  | TokenUnpauseData token_only
  | TokenFreezeData "'k token_account"
  | TokenUnfreezeData "'k token_account"
  | TokenGrantKycData "'k token_account"
  | TokenRevokeKycData "'k token_account"
  | TokenAssociateData "'k token_list"
  | TokenDissociateData "'k token_list"
  | TokenMintData token_mint
  | TokenBurnData token_burn
  | TokenWipeData "'k token_wipe"
  | TokenFeeScheduleData "'k fee_schedule"
  | AccountCreateData "'k account_create"
  | AccountUpdateData "'k account_update"
  | AccountDeleteData "'k account_delete"
  | LiveHashAddData "'k live_hash"
  | LiveHashDeleteData "'k live_hash_delete"
  | AllowanceApproveData "'k allowances"
  | AllowanceDeleteData "'k allowance_deletions"
  | ContractCreateData "'k contract_create"
  | ContractUpdateData "'k contract_update"
  | ContractDeleteData "'k contract_delete"
  | ContractExecuteData contract_call
  | EthereumData ethereum
  | FileCreateData "'k file_create"
  | FileUpdateData "'k file_update"
  | FileDeleteData file_delete
  | TopicCreateData "'k topic_create"
  | TopicUpdateData "'k topic_update"
  | TopicDeleteData topic_delete
  | SystemDeleteData system_delete
  | SystemUndeleteData system_undelete
  | FreezeData freeze_data
  | PrngData prng
  | ScheduleDeleteData schedule_only
  | ScheduleSignData schedule_only

text \<open>The field \<open>data\<close> of a body, one constructor for each of its cases.\<close>

datatype (plugins only: code) class_message =
    TokenCreateMessage token_create_message
  | TokenUpdateMessage token_update_message
  | TokenDeleteMessage token_only_message
  | TokenPauseMessage token_only_message
  | TokenUnpauseMessage token_only_message
  | TokenFreezeMessage token_account_message
  | TokenUnfreezeMessage token_account_message
  | TokenGrantKycMessage token_account_message
  | TokenRevokeKycMessage token_account_message
  | TokenAssociateMessage token_list_message
  | TokenDissociateMessage token_list_message
  | TokenMintMessage token_mint_message
  | TokenBurnMessage token_burn_message
  | TokenWipeMessage token_wipe_message
  | TokenFeeScheduleMessage fee_schedule_message
  | AccountCreateMessage account_create_message
  | AccountUpdateMessage account_update_message
  | AccountDeleteMessage account_delete_message
  | LiveHashAddMessage live_hash_message
  | LiveHashDeleteMessage live_hash_delete_message
  | AllowanceApproveMessage allowances_message
  | AllowanceDeleteMessage allowance_deletions_message
  | ContractCreateMessage contract_create_message
  | ContractUpdateMessage contract_update_message
  | ContractDeleteMessage contract_delete_message
  | ContractExecuteMessage contract_call_message
  | EthereumMessage ethereum_message
  | FileCreateMessage file_create_message
  | FileUpdateMessage file_update_message
  | FileDeleteMessage file_delete_message
  | TopicCreateMessage topic_create_message
  | TopicUpdateMessage topic_update_message
  | TopicDeleteMessage topic_delete_message
  | SystemDeleteMessage system_delete_message
  | SystemUndeleteMessage system_undelete_message
  | FreezeMessage freeze_data_message
  | PrngMessage prng_message
  | ScheduleDeleteMessage schedule_only_message
  | ScheduleSignMessage schedule_only_message

text \<open>What \<open>_getTransactionDataCase\<close> returns.\<close>

primrec class_case :: "'k class_data \<Rightarrow> string" where
  "class_case (TokenCreateData d) = ''tokenCreation''"
| "class_case (TokenUpdateData d) = ''tokenUpdate''"
| "class_case (TokenDeleteData d) = ''tokenDeletion''"
| "class_case (TokenPauseData d) = ''tokenPause''"
| "class_case (TokenUnpauseData d) = ''tokenUnpause''"
| "class_case (TokenFreezeData d) = ''tokenFreeze''"
| "class_case (TokenUnfreezeData d) = ''tokenUnfreeze''"
| "class_case (TokenGrantKycData d) = ''tokenGrantKyc''"
| "class_case (TokenRevokeKycData d) = ''tokenRevokeKyc''"
| "class_case (TokenAssociateData d) = ''tokenAssociate''"
| "class_case (TokenDissociateData d) = ''tokenDissociate''"
| "class_case (TokenMintData d) = ''tokenMint''"
| "class_case (TokenBurnData d) = ''tokenBurn''"
| "class_case (TokenWipeData d) = ''tokenWipe''"
| "class_case (TokenFeeScheduleData d) = ''tokenFeeScheduleUpdate''"
| "class_case (AccountCreateData d) = ''cryptoCreateAccount''"
| "class_case (AccountUpdateData d) = ''cryptoUpdateAccount''"
| "class_case (AccountDeleteData d) = ''cryptoDelete''"
| "class_case (LiveHashAddData d) = ''cryptoAddLiveHash''"
| "class_case (LiveHashDeleteData d) = ''cryptoDeleteLiveHash''"
| "class_case (AllowanceApproveData d) = ''cryptoApproveAllowance''"
| "class_case (AllowanceDeleteData d) = ''cryptoDeleteAllowance''"
| "class_case (ContractCreateData d) = ''contractCreateInstance''"
| "class_case (ContractUpdateData d) = ''contractUpdateInstance''"
| "class_case (ContractDeleteData d) = ''contractDeleteInstance''"
| "class_case (ContractExecuteData d) = ''contractCall''"
| "class_case (EthereumData d) = ''ethereumTransaction''"
| "class_case (FileCreateData d) = ''fileCreate''"
| "class_case (FileUpdateData d) = ''fileUpdate''"
| "class_case (FileDeleteData d) = ''fileDelete''"
| "class_case (TopicCreateData d) = ''consensusCreateTopic''"
| "class_case (TopicUpdateData d) = ''consensusUpdateTopic''"
| "class_case (TopicDeleteData d) = ''consensusDeleteTopic''"
| "class_case (SystemDeleteData d) = ''systemDelete''"
| "class_case (SystemUndeleteData d) = ''systemUndelete''"
| "class_case (FreezeData d) = ''freeze''"
| "class_case (PrngData d) = ''utilPrng''"
| "class_case (ScheduleDeleteData d) = ''scheduleDelete''"
| "class_case (ScheduleSignData d) = ''scheduleSign''"

text \<open>The name of the case of \<open>data\<close>, as the decoder gives it.\<close>

primrec message_case :: "class_message \<Rightarrow> string" where
  "message_case (TokenCreateMessage m) = ''tokenCreation''"
| "message_case (TokenUpdateMessage m) = ''tokenUpdate''"
| "message_case (TokenDeleteMessage m) = ''tokenDeletion''"
| "message_case (TokenPauseMessage m) = ''tokenPause''"
| "message_case (TokenUnpauseMessage m) = ''tokenUnpause''"
| "message_case (TokenFreezeMessage m) = ''tokenFreeze''"
| "message_case (TokenUnfreezeMessage m) = ''tokenUnfreeze''"
| "message_case (TokenGrantKycMessage m) = ''tokenGrantKyc''"
| "message_case (TokenRevokeKycMessage m) = ''tokenRevokeKyc''"
| "message_case (TokenAssociateMessage m) = ''tokenAssociate''"
| "message_case (TokenDissociateMessage m) = ''tokenDissociate''"
| "message_case (TokenMintMessage m) = ''tokenMint''"
| "message_case (TokenBurnMessage m) = ''tokenBurn''"
| "message_case (TokenWipeMessage m) = ''tokenWipe''"
| "message_case (TokenFeeScheduleMessage m) = ''tokenFeeScheduleUpdate''"
| "message_case (AccountCreateMessage m) = ''cryptoCreateAccount''"
| "message_case (AccountUpdateMessage m) = ''cryptoUpdateAccount''"
| "message_case (AccountDeleteMessage m) = ''cryptoDelete''"
| "message_case (LiveHashAddMessage m) = ''cryptoAddLiveHash''"
| "message_case (LiveHashDeleteMessage m) = ''cryptoDeleteLiveHash''"
| "message_case (AllowanceApproveMessage m) = ''cryptoApproveAllowance''"
| "message_case (AllowanceDeleteMessage m) = ''cryptoDeleteAllowance''"
| "message_case (ContractCreateMessage m) = ''contractCreateInstance''"
| "message_case (ContractUpdateMessage m) = ''contractUpdateInstance''"
| "message_case (ContractDeleteMessage m) = ''contractDeleteInstance''"
| "message_case (ContractExecuteMessage m) = ''contractCall''"
| "message_case (EthereumMessage m) = ''ethereumTransaction''"
| "message_case (FileCreateMessage m) = ''fileCreate''"
| "message_case (FileUpdateMessage m) = ''fileUpdate''"
| "message_case (FileDeleteMessage m) = ''fileDelete''"
| "message_case (TopicCreateMessage m) = ''consensusCreateTopic''"
| "message_case (TopicUpdateMessage m) = ''consensusUpdateTopic''"
| "message_case (TopicDeleteMessage m) = ''consensusDeleteTopic''"
| "message_case (SystemDeleteMessage m) = ''systemDelete''"
| "message_case (SystemUndeleteMessage m) = ''systemUndelete''"
| "message_case (FreezeMessage m) = ''freeze''"
| "message_case (PrngMessage m) = ''utilPrng''"
| "message_case (ScheduleDeleteMessage m) = ''scheduleDelete''"
| "message_case (ScheduleSignMessage m) = ''scheduleSign''"

primrec class_makeTransactionData :: "'k sdk \<Rightarrow> 'k class_data \<Rightarrow> class_message js" where
  "class_makeTransactionData sk (TokenCreateData d) = js_bind (tokenCreate_makeTransactionData sk d) (\<lambda>m. Inr (TokenCreateMessage m))"
| "class_makeTransactionData sk (TokenUpdateData d) = js_bind (tokenUpdate_makeTransactionData sk d) (\<lambda>m. Inr (TokenUpdateMessage m))"
| "class_makeTransactionData sk (TokenDeleteData d) = js_bind (tokenDelete_makeTransactionData sk d) (\<lambda>m. Inr (TokenDeleteMessage m))"
| "class_makeTransactionData sk (TokenPauseData d) = js_bind (tokenPause_makeTransactionData sk d) (\<lambda>m. Inr (TokenPauseMessage m))"
| "class_makeTransactionData sk (TokenUnpauseData d) = js_bind (tokenUnpause_makeTransactionData sk d) (\<lambda>m. Inr (TokenUnpauseMessage m))"
| "class_makeTransactionData sk (TokenFreezeData d) = js_bind (tokenFreeze_makeTransactionData sk d) (\<lambda>m. Inr (TokenFreezeMessage m))"
| "class_makeTransactionData sk (TokenUnfreezeData d) = js_bind (tokenUnfreeze_makeTransactionData sk d) (\<lambda>m. Inr (TokenUnfreezeMessage m))"
| "class_makeTransactionData sk (TokenGrantKycData d) = js_bind (tokenGrantKyc_makeTransactionData sk d) (\<lambda>m. Inr (TokenGrantKycMessage m))"
| "class_makeTransactionData sk (TokenRevokeKycData d) = js_bind (tokenRevokeKyc_makeTransactionData sk d) (\<lambda>m. Inr (TokenRevokeKycMessage m))"
| "class_makeTransactionData sk (TokenAssociateData d) = js_bind (tokenAssociate_makeTransactionData sk d) (\<lambda>m. Inr (TokenAssociateMessage m))"
| "class_makeTransactionData sk (TokenDissociateData d) = js_bind (tokenDissociate_makeTransactionData sk d) (\<lambda>m. Inr (TokenDissociateMessage m))"
| "class_makeTransactionData sk (TokenMintData d) = js_bind (tokenMint_makeTransactionData sk d) (\<lambda>m. Inr (TokenMintMessage m))"
| "class_makeTransactionData sk (TokenBurnData d) = js_bind (tokenBurn_makeTransactionData sk d) (\<lambda>m. Inr (TokenBurnMessage m))"
| "class_makeTransactionData sk (TokenWipeData d) = js_bind (tokenWipe_makeTransactionData sk d) (\<lambda>m. Inr (TokenWipeMessage m))"
| "class_makeTransactionData sk (TokenFeeScheduleData d) = js_bind (feeSchedule_makeTransactionData sk d) (\<lambda>m. Inr (TokenFeeScheduleMessage m))"
| "class_makeTransactionData sk (AccountCreateData d) = js_bind (accountCreate_makeTransactionData sk d) (\<lambda>m. Inr (AccountCreateMessage m))"
| "class_makeTransactionData sk (AccountUpdateData d) = js_bind (accountUpdate_makeTransactionData sk d) (\<lambda>m. Inr (AccountUpdateMessage m))"
| "class_makeTransactionData sk (AccountDeleteData d) = js_bind (accountDelete_makeTransactionData sk d) (\<lambda>m. Inr (AccountDeleteMessage m))"
| "class_makeTransactionData sk (LiveHashAddData d) = js_bind (liveHashAdd_makeTransactionData sk d) (\<lambda>m. Inr (LiveHashAddMessage m))"
| "class_makeTransactionData sk (LiveHashDeleteData d) = js_bind (liveHashDelete_makeTransactionData sk d) (\<lambda>m. Inr (LiveHashDeleteMessage m))"
| "class_makeTransactionData sk (AllowanceApproveData d) = js_bind (approve_makeTransactionData sk d) (\<lambda>m. Inr (AllowanceApproveMessage m))"
| "class_makeTransactionData sk (AllowanceDeleteData d) = js_bind (allowanceDelete_makeTransactionData sk d) (\<lambda>m. Inr (AllowanceDeleteMessage m))"
| "class_makeTransactionData sk (ContractCreateData d) = js_bind (contractCreate_makeTransactionData sk d) (\<lambda>m. Inr (ContractCreateMessage m))"
| "class_makeTransactionData sk (ContractUpdateData d) = js_bind (contractUpdate_makeTransactionData sk d) (\<lambda>m. Inr (ContractUpdateMessage m))"
| "class_makeTransactionData sk (ContractDeleteData d) = js_bind (contractDelete_makeTransactionData sk d) (\<lambda>m. Inr (ContractDeleteMessage m))"
| "class_makeTransactionData sk (ContractExecuteData d) = js_bind (contractExecute_makeTransactionData sk d) (\<lambda>m. Inr (ContractExecuteMessage m))"
| "class_makeTransactionData sk (EthereumData d) = js_bind (ethereum_makeTransactionData sk d) (\<lambda>m. Inr (EthereumMessage m))"
| "class_makeTransactionData sk (FileCreateData d) = js_bind (fileCreate_makeTransactionData sk d) (\<lambda>m. Inr (FileCreateMessage m))"
| "class_makeTransactionData sk (FileUpdateData d) = js_bind (fileUpdate_makeTransactionData sk d) (\<lambda>m. Inr (FileUpdateMessage m))"
| "class_makeTransactionData sk (FileDeleteData d) = js_bind (fileDelete_makeTransactionData sk d) (\<lambda>m. Inr (FileDeleteMessage m))"
| "class_makeTransactionData sk (TopicCreateData d) = js_bind (topicCreate_makeTransactionData sk d) (\<lambda>m. Inr (TopicCreateMessage m))"
| "class_makeTransactionData sk (TopicUpdateData d) = js_bind (topicUpdate_makeTransactionData sk d) (\<lambda>m. Inr (TopicUpdateMessage m))"
| "class_makeTransactionData sk (TopicDeleteData d) = js_bind (topicDelete_makeTransactionData sk d) (\<lambda>m. Inr (TopicDeleteMessage m))"
| "class_makeTransactionData sk (SystemDeleteData d) = js_bind (systemDelete_makeTransactionData sk d) (\<lambda>m. Inr (SystemDeleteMessage m))"
| "class_makeTransactionData sk (SystemUndeleteData d) = js_bind (systemUndelete_makeTransactionData sk d) (\<lambda>m. Inr (SystemUndeleteMessage m))"
| "class_makeTransactionData sk (FreezeData d) = js_bind (freeze_makeTransactionData sk d) (\<lambda>m. Inr (FreezeMessage m))"
| "class_makeTransactionData sk (PrngData d) = js_bind (prng_makeTransactionData d) (\<lambda>m. Inr (PrngMessage m))"
| "class_makeTransactionData sk (ScheduleDeleteData d) = js_bind (scheduleDelete_makeTransactionData sk d) (\<lambda>m. Inr (ScheduleDeleteMessage m))"
| "class_makeTransactionData sk (ScheduleSignData d) = js_bind (scheduleSign_makeTransactionData sk d) (\<lambda>m. Inr (ScheduleSignMessage m))"

definition class_map :: "('a \<Rightarrow> 'b) \<Rightarrow> 'a class_tx \<Rightarrow> 'b class_tx" where
  "class_map f q = transaction.extend (transaction.truncate q) (class_tx.fields (f (ct_data q)))"

lemma class_map_new [simp]: "class_map f (class_new starts fee d) = class_new starts fee (f d)"
  by (simp add: class_map_def class_new_def executable.defs transaction.defs class_tx.defs)

definition read_as :: "('a \<Rightarrow> 'b) \<Rightarrow> 'a class_tx js \<Rightarrow> 'b class_tx js" where
  "read_as f r = js_bind r (\<lambda>q. Inr (class_map f q))"

lemma read_as_new [simp]: "read_as f (Inr (class_new starts fee d)) = Inr (class_new starts fee (f d))"
  by (simp add: read_as_def)

text \<open>The registry holds the \<open>_fromProtobuf\<close> of each class under the name of its case; \<open>now\<close> is \<open>Date.now()\<close>.\<close>

primrec registry_fromProtobuf :: "'k sdk \<Rightarrow> (nat \<Rightarrow> timestamp) \<Rightarrow> int \<Rightarrow> class_message \<Rightarrow> 'k class_data class_tx js" where
  "registry_fromProtobuf sk starts now (TokenCreateMessage m) = read_as TokenCreateData (tokenCreate_fromProtobuf sk starts m)"
| "registry_fromProtobuf sk starts now (TokenUpdateMessage m) = read_as TokenUpdateData (tokenUpdate_fromProtobuf sk starts m)"
| "registry_fromProtobuf sk starts now (TokenDeleteMessage m) = read_as TokenDeleteData (tokenDelete_fromProtobuf sk starts m)"
| "registry_fromProtobuf sk starts now (TokenPauseMessage m) = read_as TokenPauseData (tokenPause_fromProtobuf sk starts m)"
| "registry_fromProtobuf sk starts now (TokenUnpauseMessage m) = read_as TokenUnpauseData (tokenUnpause_fromProtobuf sk starts m)"
| "registry_fromProtobuf sk starts now (TokenFreezeMessage m) = read_as TokenFreezeData (tokenFreeze_fromProtobuf sk starts m)"
| "registry_fromProtobuf sk starts now (TokenUnfreezeMessage m) = read_as TokenUnfreezeData (tokenUnfreeze_fromProtobuf sk starts m)"
| "registry_fromProtobuf sk starts now (TokenGrantKycMessage m) = read_as TokenGrantKycData (tokenGrantKyc_fromProtobuf sk starts m)"
| "registry_fromProtobuf sk starts now (TokenRevokeKycMessage m) = read_as TokenRevokeKycData (tokenRevokeKyc_fromProtobuf sk starts m)"
| "registry_fromProtobuf sk starts now (TokenAssociateMessage m) = read_as TokenAssociateData (tokenAssociate_fromProtobuf sk starts m)"
| "registry_fromProtobuf sk starts now (TokenDissociateMessage m) = read_as TokenDissociateData (tokenDissociate_fromProtobuf sk starts m)"
| "registry_fromProtobuf sk starts now (TokenMintMessage m) = read_as TokenMintData (tokenMint_fromProtobuf sk starts m)"
| "registry_fromProtobuf sk starts now (TokenBurnMessage m) = read_as TokenBurnData (tokenBurn_fromProtobuf sk starts m)"
| "registry_fromProtobuf sk starts now (TokenWipeMessage m) = read_as TokenWipeData (tokenWipe_fromProtobuf sk starts m)"
| "registry_fromProtobuf sk starts now (TokenFeeScheduleMessage m) = read_as TokenFeeScheduleData (feeSchedule_fromProtobuf sk starts m)"
| "registry_fromProtobuf sk starts now (AccountCreateMessage m) = read_as AccountCreateData (accountCreate_fromProtobuf sk starts m)"
| "registry_fromProtobuf sk starts now (AccountUpdateMessage m) = read_as AccountUpdateData (accountUpdate_fromProtobuf sk starts m)"
| "registry_fromProtobuf sk starts now (AccountDeleteMessage m) = read_as AccountDeleteData (accountDelete_fromProtobuf sk starts m)"
| "registry_fromProtobuf sk starts now (LiveHashAddMessage m) = read_as LiveHashAddData (liveHashAdd_fromProtobuf sk starts m)"
| "registry_fromProtobuf sk starts now (LiveHashDeleteMessage m) = read_as LiveHashDeleteData (liveHashDelete_fromProtobuf sk starts m)"
| "registry_fromProtobuf sk starts now (AllowanceApproveMessage m) = read_as AllowanceApproveData (approve_fromProtobuf sk starts m)"
| "registry_fromProtobuf sk starts now (AllowanceDeleteMessage m) = read_as AllowanceDeleteData (allowanceDelete_fromProtobuf sk starts m)"
| "registry_fromProtobuf sk starts now (ContractCreateMessage m) = read_as ContractCreateData (contractCreate_fromProtobuf sk starts m)"
| "registry_fromProtobuf sk starts now (ContractUpdateMessage m) = read_as ContractUpdateData (contractUpdate_fromProtobuf sk starts m)"
| "registry_fromProtobuf sk starts now (ContractDeleteMessage m) = read_as ContractDeleteData (contractDelete_fromProtobuf sk starts m)"
| "registry_fromProtobuf sk starts now (ContractExecuteMessage m) = read_as ContractExecuteData (contractExecute_fromProtobuf sk starts m)"
| "registry_fromProtobuf sk starts now (EthereumMessage m) = read_as EthereumData (ethereum_fromProtobuf sk starts m)"
| "registry_fromProtobuf sk starts now (FileCreateMessage m) = read_as FileCreateData (fileCreate_fromProtobuf sk starts now m)"
| "registry_fromProtobuf sk starts now (FileUpdateMessage m) = read_as FileUpdateData (fileUpdate_fromProtobuf sk starts m)"
| "registry_fromProtobuf sk starts now (FileDeleteMessage m) = read_as FileDeleteData (fileDelete_fromProtobuf sk starts m)"
| "registry_fromProtobuf sk starts now (TopicCreateMessage m) = read_as TopicCreateData (topicCreate_fromProtobuf sk starts m)"
| "registry_fromProtobuf sk starts now (TopicUpdateMessage m) = read_as TopicUpdateData (topicUpdate_fromProtobuf sk starts m)"
| "registry_fromProtobuf sk starts now (TopicDeleteMessage m) = read_as TopicDeleteData (topicDelete_fromProtobuf sk starts m)"
| "registry_fromProtobuf sk starts now (SystemDeleteMessage m) = read_as SystemDeleteData (systemDelete_fromProtobuf sk starts m)"
| "registry_fromProtobuf sk starts now (SystemUndeleteMessage m) = read_as SystemUndeleteData (systemUndelete_fromProtobuf sk starts m)"
| "registry_fromProtobuf sk starts now (FreezeMessage m) = read_as FreezeData (freeze_fromProtobuf sk starts m)"
| "registry_fromProtobuf sk starts now (PrngMessage m) = read_as PrngData (prng_fromProtobuf starts m)"
| "registry_fromProtobuf sk starts now (ScheduleDeleteMessage m) = read_as ScheduleDeleteData (scheduleDelete_fromProtobuf sk starts m)"
| "registry_fromProtobuf sk starts now (ScheduleSignMessage m) = read_as ScheduleSignData (scheduleSign_fromProtobuf sk starts m)"

subsection \<open>Reading back\<close>

definition allowanceDelete_ok :: "'k allowance_deletions \<Rightarrow> bool" where
  "allowanceDelete_ok d \<longleftrightarrow> list_all nftAllowance_ok (ad_nfts d)"

definition allowanceDelete_read :: "'k allowance_deletions \<Rightarrow> 'k allowance_deletions" where
  "allowanceDelete_read d = \<lparr>ad_nfts = map nftAllowance_read (ad_nfts d)\<rparr>"

primrec class_ok :: "'k sdk \<Rightarrow> 'k class_data \<Rightarrow> bool" where
  "class_ok sk (TokenCreateData d) = tokenCreate_ok sk d"
| "class_ok sk (TokenUpdateData d) = tokenUpdate_ok sk d"
| "class_ok sk (TokenDeleteData d) = tokenDelete_ok d"
| "class_ok sk (TokenPauseData d) = tokenDelete_ok d"
| "class_ok sk (TokenUnpauseData d) = tokenDelete_ok d"
| "class_ok sk (TokenFreezeData d) = tokenFreeze_ok d"
| "class_ok sk (TokenUnfreezeData d) = tokenFreeze_ok d"
| "class_ok sk (TokenGrantKycData d) = tokenFreeze_ok d"
| "class_ok sk (TokenRevokeKycData d) = tokenFreeze_ok d"
| "class_ok sk (TokenAssociateData d) = tokenAssociate_ok d"
| "class_ok sk (TokenDissociateData d) = tokenAssociate_ok d"
| "class_ok sk (TokenMintData d) = tokenMint_ok d"
| "class_ok sk (TokenBurnData d) = tokenBurn_ok d"
| "class_ok sk (TokenWipeData d) = tokenWipe_ok d"
| "class_ok sk (TokenFeeScheduleData d) = feeSchedule_ok d"
| "class_ok sk (AccountCreateData d) = accountCreate_ok sk d"
| "class_ok sk (AccountUpdateData d) = accountUpdate_ok sk d"
| "class_ok sk (AccountDeleteData d) = accountDelete_ok d"
| "class_ok sk (LiveHashAddData d) = liveHashAdd_ok sk d"
| "class_ok sk (LiveHashDeleteData d) = liveHashDelete_ok d"
| "class_ok sk (AllowanceApproveData d) = approve_ok d"
| "class_ok sk (AllowanceDeleteData d) = allowanceDelete_ok d"
| "class_ok sk (ContractCreateData d) = contractCreate_ok sk d"
| "class_ok sk (ContractUpdateData d) = contractUpdate_ok sk d"
| "class_ok sk (ContractDeleteData d) = contractDelete_ok d"
| "class_ok sk (ContractExecuteData d) = contractExecute_ok d"
| "class_ok sk (EthereumData d) = ethereum_ok d"
| "class_ok sk (FileCreateData d) = fileCreate_ok sk d"
| "class_ok sk (FileUpdateData d) = fileUpdate_ok sk d"
| "class_ok sk (FileDeleteData d) = fileDelete_ok d"
| "class_ok sk (TopicCreateData d) = topicCreate_ok sk d"
| "class_ok sk (TopicUpdateData d) = topicUpdate_ok sk d"
| "class_ok sk (TopicDeleteData d) = topicDelete_ok d"
| "class_ok sk (SystemDeleteData d) = systemDelete_ok d"
| "class_ok sk (SystemUndeleteData d) = systemUndelete_ok d"
| "class_ok sk (FreezeData d) = freeze_ok d"
| "class_ok sk (PrngData d) = True"
| "class_ok sk (ScheduleDeleteData d) = scheduleDelete_ok d"
| "class_ok sk (ScheduleSignData d) = scheduleDelete_ok d"

text \<open>What is read of the data of each class.\<close>

primrec class_read :: "'k class_data \<Rightarrow> 'k class_data" where
  "class_read (TokenCreateData d) = TokenCreateData (tokenCreate_read d)"
| "class_read (TokenUpdateData d) = TokenUpdateData (tokenUpdate_read d)"
| "class_read (TokenDeleteData d) = TokenDeleteData (tokenDelete_read d)"
| "class_read (TokenPauseData d) = TokenPauseData (tokenDelete_read d)"
| "class_read (TokenUnpauseData d) = TokenUnpauseData (tokenDelete_read d)"
| "class_read (TokenFreezeData d) = TokenFreezeData (tokenFreeze_read d)"
| "class_read (TokenUnfreezeData d) = TokenUnfreezeData (tokenFreeze_read d)"
| "class_read (TokenGrantKycData d) = TokenGrantKycData (tokenFreeze_read d)"
| "class_read (TokenRevokeKycData d) = TokenRevokeKycData (tokenFreeze_read d)"
| "class_read (TokenAssociateData d) = TokenAssociateData (tokenAssociate_read d)"
| "class_read (TokenDissociateData d) = TokenDissociateData (tokenAssociate_read d)"
| "class_read (TokenMintData d) = TokenMintData (tokenMint_read d)"
| "class_read (TokenBurnData d) = TokenBurnData (tokenBurn_read d)"
| "class_read (TokenWipeData d) = TokenWipeData (tokenWipe_read d)"
| "class_read (TokenFeeScheduleData d) = TokenFeeScheduleData (feeSchedule_read d)"
| "class_read (AccountCreateData d) = AccountCreateData (accountCreate_read d)"
| "class_read (AccountUpdateData d) = AccountUpdateData (accountUpdate_read d)"
| "class_read (AccountDeleteData d) = AccountDeleteData (accountDelete_read d)"
| "class_read (LiveHashAddData d) = LiveHashAddData (liveHashAdd_read d)"
| "class_read (LiveHashDeleteData d) = LiveHashDeleteData (liveHashDelete_read d)"
| "class_read (AllowanceApproveData d) = AllowanceApproveData (approve_read d)"
| "class_read (AllowanceDeleteData d) = AllowanceDeleteData (allowanceDelete_read d)"
| "class_read (ContractCreateData d) = ContractCreateData (contractCreate_read d)"
| "class_read (ContractUpdateData d) = ContractUpdateData (contractUpdate_read d)"
| "class_read (ContractDeleteData d) = ContractDeleteData (contractDelete_read d)"
| "class_read (ContractExecuteData d) = ContractExecuteData (contractExecute_read d)"
| "class_read (EthereumData d) = EthereumData (ethereum_read d)"
| "class_read (FileCreateData d) = FileCreateData (fileCreate_read d)"
| "class_read (FileUpdateData d) = FileUpdateData (fileUpdate_read d)"
| "class_read (FileDeleteData d) = FileDeleteData (fileDelete_read d)"
| "class_read (TopicCreateData d) = TopicCreateData (topicCreate_read d)"
| "class_read (TopicUpdateData d) = TopicUpdateData (topicUpdate_read d)"
| "class_read (TopicDeleteData d) = TopicDeleteData (topicDelete_read d)"
| "class_read (SystemDeleteData d) = SystemDeleteData (systemDelete_read d)"
| "class_read (SystemUndeleteData d) = SystemUndeleteData (systemUndelete_read d)"
| "class_read (FreezeData d) = FreezeData (freeze_read d)"
| "class_read (PrngData d) = PrngData d"
| "class_read (ScheduleDeleteData d) = ScheduleDeleteData (scheduleDelete_read d)"
| "class_read (ScheduleSignData d) = ScheduleSignData (scheduleDelete_read d)"

text \<open>The fee a class allows by default, in the smallest unit.\<close>

definition class_fee :: "'k class_data \<Rightarrow> int" where
  "class_fee d =
     (case d of
        TokenCreateData _ \<Rightarrow> 3000000000
      | TokenAssociateData _ \<Rightarrow> 500000000
      | TokenDissociateData _ \<Rightarrow> 500000000
      | ContractCreateData _ \<Rightarrow> 2000000000
      | FileCreateData _ \<Rightarrow> 500000000
      | ScheduleDeleteData _ \<Rightarrow> 500000000
      | ScheduleSignData _ \<Rightarrow> 500000000
      | _ \<Rightarrow> 200000000)"

lemma class_back:
  assumes "sdk_lawful sk" "class_ok sk d"
  shows "\<exists>m. class_makeTransactionData sk d = Inr m \<and> message_case m = class_case d \<and>
    registry_fromProtobuf sk starts now m = Inr (class_new starts (class_fee d) (class_read d))"
proof (cases d)
  case (TokenCreateData x)
  with tokenCreate_back [OF assms(1), of x starts] assms(2) show ?thesis by (auto simp: class_fee_def)
next
  case (TokenUpdateData x)
  with tokenUpdate_back [OF assms(1), of x starts] assms(2) show ?thesis by (auto simp: class_fee_def)
next
  case (TokenDeleteData x)
  with tokenDelete_back [OF assms(1), of x starts] assms(2) show ?thesis by (auto simp: class_fee_def)
next
  case (TokenPauseData x)
  with tokenDelete_back [OF assms(1), of x starts] assms(2) show ?thesis by (auto simp: class_fee_def token_only_same)
next
  case (TokenUnpauseData x)
  with tokenDelete_back [OF assms(1), of x starts] assms(2) show ?thesis by (auto simp: class_fee_def token_only_same)
next
  case (TokenFreezeData x)
  with tokenFreeze_back [OF assms(1), of x starts] assms(2) show ?thesis by (auto simp: class_fee_def)
next
  case (TokenUnfreezeData x)
  with tokenFreeze_back [OF assms(1), of x starts] assms(2) show ?thesis by (auto simp: class_fee_def token_account_same)
next
  case (TokenGrantKycData x)
  with tokenFreeze_back [OF assms(1), of x starts] assms(2) show ?thesis by (auto simp: class_fee_def token_account_same)
next
  case (TokenRevokeKycData x)
  with tokenFreeze_back [OF assms(1), of x starts] assms(2) show ?thesis by (auto simp: class_fee_def token_account_same)
next
  case (TokenAssociateData x)
  with tokenAssociate_back [OF assms(1), of x starts] assms(2) show ?thesis by (auto simp: class_fee_def)
next
  case (TokenDissociateData x)
  with tokenAssociate_back [OF assms(1), of x starts] assms(2) show ?thesis by (auto simp: class_fee_def token_list_same)
next
  case (TokenMintData x)
  with tokenMint_back [OF assms(1), of x starts] assms(2) show ?thesis by (auto simp: class_fee_def)
next
  case (TokenBurnData x)
  with tokenBurn_back [OF assms(1), of x starts] assms(2) show ?thesis by (auto simp: class_fee_def)
next
  case (TokenWipeData x)
  with tokenWipe_back [OF assms(1), of x starts] assms(2) show ?thesis by (auto simp: class_fee_def)
next
  case (TokenFeeScheduleData x)
  with feeSchedule_back [OF assms(1), of x starts] assms(2) show ?thesis by (auto simp: class_fee_def)
next
  case (AccountCreateData x)
  with accountCreate_back [OF assms(1), of x starts] assms(2) show ?thesis by (auto simp: class_fee_def)
next
  case (AccountUpdateData x)
  with accountUpdate_back [OF assms(1), of x starts] assms(2) show ?thesis by (auto simp: class_fee_def)
next
  case (AccountDeleteData x)
  with accountDelete_back [OF assms(1), of x starts] assms(2) show ?thesis by (auto simp: class_fee_def)
next
  case (LiveHashAddData x)
  with liveHashAdd_back [OF assms(1), of x starts] assms(2) show ?thesis by (auto simp: class_fee_def)
next
  case (LiveHashDeleteData x)
  with liveHashDelete_back [OF assms(1), of x starts] assms(2) show ?thesis by (auto simp: class_fee_def)
next
  case (AllowanceApproveData x)
  with approve_back [OF assms(1), of x starts] assms(2) show ?thesis by (auto simp: class_fee_def)
next
  case (AllowanceDeleteData x)
  with allowanceDelete_back [OF assms(1), of x starts] assms(2) show ?thesis by (auto simp: class_fee_def allowanceDelete_ok_def allowanceDelete_read_def)
next
  case (ContractCreateData x)
  with contractCreate_back [OF assms(1), of x starts] assms(2) show ?thesis by (auto simp: class_fee_def)
next
  case (ContractUpdateData x)
  with contractUpdate_back [OF assms(1), of x starts] assms(2) show ?thesis by (auto simp: class_fee_def)
next
  case (ContractDeleteData x)
  with contractDelete_back [OF assms(1), of x starts] assms(2) show ?thesis by (auto simp: class_fee_def)
next
  case (ContractExecuteData x)
  with contractExecute_back [OF assms(1), of x starts] assms(2) show ?thesis by (auto simp: class_fee_def)
next
  case (EthereumData x)
  with ethereum_back [OF assms(1), of x starts] assms(2) show ?thesis by (auto simp: class_fee_def)
next
  case (FileCreateData x)
  with fileCreate_back [OF assms(1), of x starts now] assms(2) show ?thesis by (auto simp: class_fee_def)
next
  case (FileUpdateData x)
  with fileUpdate_back [OF assms(1), of x starts] assms(2) show ?thesis by (auto simp: class_fee_def)
next
  case (FileDeleteData x)
  with fileDelete_back [OF assms(1), of x starts] assms(2) show ?thesis by (auto simp: class_fee_def)
next
  case (TopicCreateData x)
  with topicCreate_back [OF assms(1), of x starts] assms(2) show ?thesis by (auto simp: class_fee_def)
next
  case (TopicUpdateData x)
  with topicUpdate_back [OF assms(1), of x starts] assms(2) show ?thesis by (auto simp: class_fee_def)
next
  case (TopicDeleteData x)
  with topicDelete_back [OF assms(1), of x starts] assms(2) show ?thesis by (auto simp: class_fee_def)
next
  case (SystemDeleteData x)
  with systemDelete_back [OF assms(1), of x starts] assms(2) show ?thesis by (auto simp: class_fee_def)
next
  case (SystemUndeleteData x)
  with systemUndelete_back [OF assms(1), of x starts] assms(2) show ?thesis by (auto simp: class_fee_def)
next
  case (FreezeData x)
  with freeze_back [OF assms(1), of x starts] assms(2) show ?thesis by (auto simp: class_fee_def)
next
  case (PrngData x)
  with prng_back [of x starts] show ?thesis by (auto simp: class_fee_def)
next
  case (ScheduleDeleteData x)
  with scheduleDelete_back [OF assms(1), of x starts] assms(2) show ?thesis by (auto simp: class_fee_def)
next
  case (ScheduleSignData x)
  with scheduleSign_back [OF assms(1), of x starts] assms(2) show ?thesis by (auto simp: class_fee_def)
qed



subsection \<open>Transactions of all classes as bytes\<close>

text \<open>
  The encoder of a transaction makes the data of its class, and the decoder looks the class of
  the first body up in the registry; \<open>fromBytes\<close> has checked that its data are there.
\<close>

type_synonym ('k, 'e) class_codec = "(('k class_data, 'e) class_tx_ext, class_message) codec"

definition class_codec :: "'k sdk \<Rightarrow> ('k, unit) class_codec \<Rightarrow> ('k, unit) class_codec" where
  "class_codec sk cd = cd\<lparr>cd_data := (\<lambda>q. class_makeTransactionData sk (ct_data q))\<rparr>"

definition registry_make ::
  "'k sdk \<Rightarrow> (nat \<Rightarrow> timestamp) \<Rightarrow> int \<Rightarrow> class_message pbody list \<Rightarrow> 'k class_data class_tx js" where
  "registry_make sk starts now bodies =
     (case bodies of
        [] \<Rightarrow> Inl TypeErr
      | b # _ \<Rightarrow>
          (case pb_data b of None \<Rightarrow> Inl BodyDataMissing | Some m \<Rightarrow> registry_fromProtobuf sk starts now m))"

definition class_decoder where
  "class_decoder sk starts now dc = dc\<lparr>dc_make := registry_make sk starts now\<rparr>"

lemma decodes_class:
  "decodes_data m cd dc \<Longrightarrow> decodes_data m (class_codec sk cd) (class_decoder sk starts now dc)"
  by (simp add: decodes_data_def class_codec_def class_decoder_def)

lemma new_blank: "tx_blank (class_new starts fee d)" "transaction.more (class_new starts fee d) = class_tx.fields d"
  by (simp_all add: tx_blank_def class_new_def tx_new_def ex_new_def executable.defs transaction.defs)

lemma data_of_more: "transaction.more q = class_tx.fields d \<Longrightarrow> ct_data q = d"
  by (cases q) (simp add: class_tx.defs)


subsection \<open>Witness\<close>

text \<open>An encoder of requests for random numbers on top of the one of \<open>TxBytes\<close>.\<close>

definition body_as :: "'e \<Rightarrow> 'd body \<Rightarrow> 'e body" where
  "body_as x b = \<lparr>bd_data = x, bd_fee = bd_fee b, bd_memo = bd_memo b, bd_txid = bd_txid b, bd_node = bd_node b,
     bd_duration = bd_duration b\<rparr>"

fun prng_number :: "class_message \<Rightarrow> nat" where
  "prng_number (PrngMessage m) = (case rngm_range m of None \<Rightarrow> 0 | Some n \<Rightarrow> Suc (nat n))"
| "prng_number m = 0"

definition number_prng :: "nat \<Rightarrow> class_message" where
  "number_prng n = PrngMessage \<lparr>rngm_range = (case n of 0 \<Rightarrow> None | Suc k \<Rightarrow> Some (int k))\<rparr>"

definition prng_codec :: "(bytes, unit) class_codec" where
  "prng_codec =
     \<lparr>cd_data = (\<lambda>_. Inl TypeErr), cd_body = (\<lambda>b. put_body (body_as (prng_number (bd_data b)) b)),
      cd_signed = put_signed,
      cd_list = (\<lambda>l. put_list put_bytes (map (\<lambda>x. case x of None \<Rightarrow> [] | Some b \<Rightarrow> b) l)), cd_hash = id\<rparr>"

definition prng_decoder :: "((bytes class_data, unit) class_tx_ext, class_message) decoder" where
  "prng_decoder =
     \<lparr>dc_list = (\<lambda>bs. Inr (fst (get_list get_bytes bs))),
      dc_transaction = (\<lambda>_. Inl (LibraryError [])), dc_encode = put_signed,
      dc_signed = (\<lambda>bs. Inr (fst (get_signed bs))),
      dc_body = (\<lambda>bs. case fst (get_body bs) of b \<Rightarrow> Inr (pbody_of (body_as (number_prng (bd_data b)) b))),
      dc_view = (\<lambda>b. JObject [(''nodeAccountID'', JString (case pb_node b of None \<Rightarrow> [] | Some a \<Rightarrow> a)),
        (''memo'', JString (case pb_memo b of None \<Rightarrow> [] | Some t \<Rightarrow> t))]),
      dc_make = (\<lambda>_. Inl TypeErr), dc_idText = td_account, dc_checkKey = (\<lambda>_. Inr ())\<rparr>"

abbreviation "prng_six \<equiv> \<lparr>rng_newRange = Some 6\<rparr>"

lemma prng_decodes: "decodes_data (number_prng 7) prng_codec prng_decoder"
  by (simp add: decodes_data_def prng_codec_def prng_decoder_def comp_def codes_end [OF codes_signed]
      codes_end [OF codes_body] codes_end [OF codes_list [OF codes_bytes]] pbody_of_def body_as_def number_prng_def)

definition prng_set :: "bytes class_data class_tx" where
  "prng_set = (class_new (\<lambda>_. \<lparr>ts_seconds = 9, ts_nanos = 0\<rparr>) 200000000 (PrngData prng_six))
     \<lparr>ex_nodeIds := \<lparr>rl_list = [''3'', ''4''], rl_locked = True, rl_index = Some 0\<rparr>,
      tx_ids := \<lparr>rl_list = [demo_id], rl_locked = True, rl_index = Some 0\<rparr>\<rparr>"

definition prng_frozen :: "bytes class_data class_tx" where
  "prng_frozen = snd (tx_freeze (class_codec demo_sdk prng_codec) prng_set)"

lemma prng_made: "class_makeTransactionData demo_sdk (PrngData prng_six) = Inr (number_prng 7)"
  by (simp add: prng_makeTransactionData_def number_prng_def)

lemma prng_frozen_eq:
  "tx_freeze (class_codec demo_sdk prng_codec) prng_set = (Inr (), prng_frozen)"
  "rl_list (ex_nodeIds prng_frozen) = [''3'', ''4'']" "rl_current (tx_ids prng_frozen) = Some demo_id"
  "tx_maxFee prng_frozen = Some 200000000" "tx_validDuration prng_frozen = 120"
  "\<not> ex_signOnDemand prng_frozen" "tx_signerKeys prng_frozen = []" "tx_isFrozen prng_frozen"
  "ct_data prng_set = PrngData prng_six" "\<not> tx_isFrozen_any prng_set" "\<not> rl_locked (tx_signed prng_set)"
  "rl_list (tx_transactions prng_set) = []" "rl_list (tx_signed prng_set) = []" "tx_signerKeys prng_set = []"
  by (simp_all add: prng_frozen_def prng_set_def prng_codec_def class_codec_def demo_simps tx_isFrozen_def
      class_new_def class_tx.defs prng_makeTransactionData_def)


end
