(* ===== verification/Spec2Isabelle.thy ===== *)
theory Spec2Isabelle
  imports ChunkSend TransferData ReceiptQuery Registry
begin

text \<open>
  Verification of the U2U SDK for JavaScript, a client library for a Hedera-like network.
  File names without a directory are those of \<open>src/src/\<close>.

  \<^bold>\<open>The program.\<close>  An application builds a \<^emph>\<open>transaction\<close> or a \<^emph>\<open>query\<close> (both are classes of
  \<open>Executable.js\<close>), freezes and signs it, and executes it with a \<^emph>\<open>client\<close>.  The client holds
  the \<^emph>\<open>network\<close>, a pool of nodes with a backoff each; an execution picks a node, builds the
  request for it, sends it and, depending on the status or the error, retries with the next
  node or ends.  What is sent are protobuf messages made of ids, amounts, keys and the data of
  the class of the transaction; what comes back is read into receipts, records and results of
  calls of contracts.

  \<^bold>\<open>The theories\<close>, in the order of their imports.

  \<^item> \<^theory_text>\<open>Prelude\<close>: errors as values (\<open>'a js\<close> is \<open>js_error + 'a\<close>, one constructor for each kind of
    \<open>throw\<close>), reads of arrays, decimal digits, generic lemmas.  \<^theory_text>\<open>JsValues\<close>: numerals, \<open>split\<close>,
    \<open>sort\<close>, bytes and hexadecimal digits.
  \<^item> \<^theory_text>\<open>RoundRobin\<close>: \<open>transaction/List.js\<close>, the locked array with a cursor; \<open>n\<close> calls of \<open>next\<close>
    visit every element once.
  \<^item> \<^theory_text>\<open>NodeBackoff\<close>: \<open>ManagedNodeAddress.js\<close>, \<open>ManagedNode.js\<close>, \<open>Node.js\<close>.  \<^theory_text>\<open>Network\<close>:
    \<open>client/ManagedNetwork.js\<close>, \<open>Network.js\<close>, \<open>MirrorNetwork.js\<close>; the invariant of the pool, when
    a node is readmitted, which nodes are picked and when the picking ends.  \<^theory_text>\<open>Client\<close>: \<open>client/Client.js\<close>.
  \<^item> \<^theory_text>\<open>Codec\<close>: \<open>encoding/hex.js\<close>, \<open>LedgerId.js\<close>, \<open>EvmAddress.js\<close>, \<open>array.js\<close>.  \<^theory_text>\<open>EntityId\<close>:
    \<open>EntityIdHelper.js\<close> with the checksum of HIP-15.  \<^theory_text>\<open>AccountId\<close>, \<^theory_text>\<open>Ids\<close>: all classes of ids, their
    texts and messages (the locale \<open>plain_ids\<close> is what four of them share).  \<^theory_text>\<open>TxId\<close>:
    \<open>Timestamp.js\<close>, \<open>transaction/TransactionId.js\<close>.  \<^theory_text>\<open>Amounts\<close>: \<open>U2U.js\<close>, \<open>U2UUnit.js\<close>.
  \<^item> \<^theory_text>\<open>Execute\<close>: the loop of \<open>Executable.js\<close> with \<open>grpc/\<close>.  The locales \<open>request_class\<close>, \<open>node_order\<close>
    and \<open>addressed_requests\<close> say what the loop relies on in a class of requests and what holds of
    every execution of it; transactions and queries are interpretations.
  \<^item> \<^theory_text>\<open>Status\<close>, \<^theory_text>\<open>Tx\<close>, \<^theory_text>\<open>TxRun\<close>, \<^theory_text>\<open>TxExec\<close>: \<open>transaction/Transaction.js\<close>; the steps of its life, the
    invariant that cached requests agree with the signatures, immutability once frozen, and
    its execution.  \<^theory_text>\<open>TxBytes\<close>: \<open>Transaction.fromBytes\<close> with \<open>util.compare\<close>.  \<^theory_text>\<open>Wire\<close>: an
    encoding of messages for witnesses.
  \<^item> \<^theory_text>\<open>Query\<close>: \<open>query/Query.js\<close>, \<open>CostQuery.js\<close>: costs, limits and payments.  \<^theory_text>\<open>Receipts\<close>,
    \<^theory_text>\<open>ReceiptQuery\<close>: receipts, exchange rates, the receipt and record queries and
    \<open>TransactionResponse.js\<close>.
  \<^item> \<^theory_text>\<open>Transfers\<close>, \<^theory_text>\<open>TransferData\<close>: \<open>account/TransferTransaction.js\<close>: the merging of transfers (the
    locale \<open>merging_list\<close>) and the grouping of the data.  \<^theory_text>\<open>Chunks\<close>, \<^theory_text>\<open>ChunkSend\<close>:
    \<open>topic/TopicMessageSubmitTransaction.js\<close>, \<open>file/FileAppendTransaction.js\<close> (the locale \<open>chunked\<close>).
  \<^item> \<^theory_text>\<open>Abi\<close>: \<open>contract/ContractFunctionSelector.js\<close>, \<open>ContractFunctionParameters.js\<close> and the
    getters of \<open>ContractFunctionResult.js\<close>.
  \<^item> \<^theory_text>\<open>Keys\<close>: \<open>Key.js\<close>, \<open>KeyList.js\<close>, \<open>PublicKey.js\<close>: keys of any nesting, their messages, and
    the verification of a transaction.
  \<^item> \<^theory_text>\<open>TxClass\<close>, \<^theory_text>\<open>ClassArgs\<close>: what the classes of transactions share.  A class is its data in the
    field \<open>ct_data\<close> of a transaction; setters are \<open>guarded\<close> (they throw on a frozen transaction)
    or \<open>unguarded\<close>.  \<^theory_text>\<open>TokenFees\<close> (custom fees), \<^theory_text>\<open>TokenTx\<close>, \<^theory_text>\<open>TokenAdmin\<close>, \<^theory_text>\<open>AccountTx\<close>,
    \<^theory_text>\<open>Allowances\<close>, \<^theory_text>\<open>ContractTx\<close>, \<^theory_text>\<open>FileTx\<close> (files and topics), \<^theory_text>\<open>SystemTx\<close> (system calls, freezes,
    random numbers, schedules): the classes in \<open>token/\<close>, \<open>account/\<close>, \<open>contract/\<close>, \<open>file/\<close>,
    \<open>topic/\<close>, \<open>system/\<close>, \<open>schedule/\<close>, each with its setters, constructor, checks of checksums,
    message and the constructor that reads the message.  For each class \<open>c\<close>, \<open>c_ok\<close> says which
    data can be sent, \<open>c_read\<close> what is read back, and \<open>c_back\<close> that it is.
  \<^item> \<^theory_text>\<open>Registry\<close>: the registry by which \<open>Transaction.fromBytes\<close> finds the class; with \<open>c_back\<close> of
    every class, signed transactions of all classes survive their bytes up to \<open>class_read\<close>.

  \<^bold>\<open>State and effects.\<close>  An object is a record; a method that changes it returns it updated, and
  one that may throw returns the state it leaves as well, where that differs.  A class that
  extends another is an extension of its record.  Shared mutable nodes live in a store.  Clocks,
  random numbers, replies of nodes and the results of generating timestamps are inputs.  An
  asynchronous method is the sequence of its steps; executions of several requests do not
  interleave within one.

  \<^bold>\<open>Numbers.\<close>  A \<open>Long\<close> is a \<open>64 word\<close> read with \<open>sint\<close>; numbers of JavaScript that the code
  only adds, multiplies and compares below \<open>2 ^ 53\<close> are \<open>nat\<close>, \<open>int\<close> or \<open>rat\<close>, with \<open>NaN\<close> and
  infinity written out where the code can reach them (\<open>None\<close>).

  \<^bold>\<open>Loops.\<close>  No fuel is used: recursion is structural or has a measure (the attempts left, in
  the loop of executions), and the loops that can run forever (the choice of healthy nodes, the
  reading of a file append) are partial functions whose value \<open>None\<close> is not returning; for
  these the theorems say exactly when they return.

  \<^bold>\<open>Arguments.\<close>  The generated protobuf package, the package of the keys and of \<open>ethersproject/abi\<close>,
  conversions of \<open>Long\<close> and of big numbers to and from text, UTF-8 and hashes are arguments of
  the definitions, with what is relied on as named hypotheses (\<open>long_text\<close>, \<open>decodes\<close>,
  \<open>abi_lawful\<close>, \<open>key_ops_lawful\<close>, \<open>sdk_lawful\<close>); each is instantiated in a witness.

  \<^bold>\<open>Not modelled.\<close>  Channels, web and native variants, the mnemonic words and the rest of
  \<open>src/packages/\<close> (vendored; the sources call the published package), \<open>cryptography/\<close> (hash
  functions), the logger, wallets and signers, the address book queries and the topic
  subscription (streams and timers), and the info classes of queries (plain data).
\<close>

end
